(* ===== verification/Omni_Prelude.thy ===== *)
theory Omni_Prelude
  imports Main "HOL-Library.Sublist"
begin

text \<open>
  The shared vocabulary of the development: the types the components have in common, what the
  sources use of the Rust standard library (strings, slices, optional values, saturating
  arithmetic, deques), the lemmas about it, and one locale for the argument that every stateful
  component repeats, that an invariant kept by each operation holds after every sequence of
  operations.

  A Rust \<open>str\<close> is a sequence of Unicode scalar values, so \<open>rstring\<close> is a list of code points and
  not a list of bytes: \<open>trim\<close> and \<open>split_whitespace\<close> of the source are about the Unicode property
  White\_Space, which ASCII text cannot express. A literal of the source is \<open>str ''...''\<close>.
  An \<open>Instant\<close> and a \<open>Duration\<close> are numbers of nanoseconds; subtraction on \<open>nat\<close> is then
  \<open>saturating_duration_since\<close>.
\<close>

named_theorems component_simps \<open>operations of the components, unfolded by their invariant proofs\<close>

section \<open>Machine integers and time\<close>

type_synonym rchar = nat
type_synonym rstring = "nat list"
type_synonym instant = nat
type_synonym duration = nat

definition u64_max :: nat where
  "u64_max = 18446744073709551615"

text \<open>\<open>u64::saturating_add\<close> on values that are \<open>u64\<close>s.\<close>

definition sat_add_u64 :: "nat \<Rightarrow> nat \<Rightarrow> nat" where
  "sat_add_u64 a b = min (a + b) u64_max"

lemma sat_add_u64_le [simp]: "sat_add_u64 a b \<le> u64_max"
  by (simp add: sat_add_u64_def)

lemma sat_add_u64_Suc: "a < u64_max \<Longrightarrow> sat_add_u64 a 1 = Suc a"
  by (simp add: sat_add_u64_def)

lemma le_sat_add_u64: "x \<le> a \<Longrightarrow> a \<le> u64_max \<Longrightarrow> x \<le> sat_add_u64 a b"
  by (simp add: sat_add_u64_def)

text \<open>\<open>u64::checked_add\<close>.\<close>

definition checked_add_u64 :: "nat \<Rightarrow> nat \<Rightarrow> nat option" where
  "checked_add_u64 a b = (if a + b \<le> u64_max then Some (a + b) else None)"

lemma checked_add_u64_Some [simp]:
  "checked_add_u64 a b = Some c \<longleftrightarrow> c = a + b \<and> a + b \<le> u64_max"
  by (auto simp: checked_add_u64_def)

definition from_millis :: "nat \<Rightarrow> duration" where
  "from_millis n = n * 1000000"

definition from_secs :: "nat \<Rightarrow> duration" where
  "from_secs n = n * 1000000000"

lemmas duration_simps = from_millis_def from_secs_def

lemma from_millis_mono [simp]: "from_millis a \<le> from_millis b \<longleftrightarrow> a \<le> b"
  by (simp add: from_millis_def)

text \<open>\<open>Ord::clamp\<close> for \<open>lo \<le> hi\<close>.\<close>

definition clamp :: "'a::linorder \<Rightarrow> 'a \<Rightarrow> 'a \<Rightarrow> 'a" where
  "clamp lo hi x = (if x < lo then lo else if hi < x then hi else x)"

section \<open>Optional values\<close>

definition is_some :: "'a option \<Rightarrow> bool" where
  [simp]: "is_some x \<longleftrightarrow> x \<noteq> None"

definition is_some_and :: "'a option \<Rightarrow> ('a \<Rightarrow> bool) \<Rightarrow> bool" where
  "is_some_and x p = (case x of None \<Rightarrow> False | Some v \<Rightarrow> p v)"

lemma is_some_and_simps [simp]:
  "is_some_and None p = False"
  "is_some_and (Some v) p = p v"
  by (simp_all add: is_some_and_def)

lemma is_some_and_iff: "is_some_and x p \<longleftrightarrow> (\<exists>v. x = Some v \<and> p v)"
  by (cases x) auto

text \<open>\<open>Option::unwrap_or\<close>.\<close>

definition unwrap_or :: "'a \<Rightarrow> 'a option \<Rightarrow> 'a" where
  "unwrap_or d x = (case x of Some v \<Rightarrow> v | None \<Rightarrow> d)"

lemma unwrap_or_simps [simp]: "unwrap_or d (Some v) = v" "unwrap_or d None = d"
  by (simp_all add: unwrap_or_def)

definition or_opt :: "'a option \<Rightarrow> 'a option \<Rightarrow> 'a option" where
  "or_opt x y = (case x of None \<Rightarrow> y | Some v \<Rightarrow> Some v)"

lemma or_opt_simps [simp]:
  "or_opt None y = y"
  "or_opt (Some v) y = Some v"
  "or_opt x None = x"
  by (simp_all add: or_opt_def split: option.split)

lemma or_opt_None [simp]: "or_opt x y = None \<longleftrightarrow> x = None \<and> y = None"
  by (cases x) auto

section \<open>Results\<close>

text \<open>A \<open>Result\<close> is a sum with the error on the left: \<open>Result::and_then\<close>, and the early return of a failed check.\<close>

definition and_then :: "'e + 'a \<Rightarrow> ('a \<Rightarrow> 'e + 'b) \<Rightarrow> 'e + 'b" where
  "and_then r k = (case r of Inl e \<Rightarrow> Inl e | Inr a \<Rightarrow> k a)"

definition reject_if :: "bool \<Rightarrow> 'e \<Rightarrow> 'e + 'a \<Rightarrow> 'e + 'a" where
  "reject_if b e r = (if b then Inl e else r)"

definition ok_or :: "'e \<Rightarrow> 'a option \<Rightarrow> 'e + 'a" where
  "ok_or e x = (case x of Some v \<Rightarrow> Inr v | None \<Rightarrow> Inl e)"

lemma and_then_Inr [simp]: "and_then r k = Inr x \<longleftrightarrow> (\<exists>a. r = Inr a \<and> k a = Inr x)"
  by (auto simp: and_then_def split: sum.split)

lemma and_then_simps [simp]: "and_then (Inl e) k = Inl e" "and_then (Inr a) k = k a"
  by (simp_all add: and_then_def)

lemma reject_if_Inr [simp]: "reject_if c e r = Inr x \<longleftrightarrow> \<not> c \<and> r = Inr x"
  by (simp add: reject_if_def)

lemma ok_or_Inr [simp]: "ok_or e x = Inr v \<longleftrightarrow> x = Some v"
  by (auto simp: ok_or_def split: option.split)

section \<open>Text\<close>

definition str :: "string \<Rightarrow> rstring" where
  [simp]: "str s = map of_char s"

text \<open>\<open>char::is_whitespace\<close>: the Unicode property White\_Space.\<close>

definition is_whitespace :: "rchar \<Rightarrow> bool" where
  "is_whitespace c \<longleftrightarrow> 9 \<le> c \<and> c \<le> 13 \<or> c = 32 \<or> c = 133 \<or> c = 160 \<or> c = 5760 \<or>
     8192 \<le> c \<and> c \<le> 8202 \<or> c = 8232 \<or> c = 8233 \<or> c = 8239 \<or> c = 8287 \<or> c = 12288"

definition trim_start :: "rstring \<Rightarrow> rstring" where
  "trim_start s = dropWhile is_whitespace s"

definition trim_end :: "rstring \<Rightarrow> rstring" where
  "trim_end s = rev (dropWhile is_whitespace (rev s))"

definition trim :: "rstring \<Rightarrow> rstring" where
  "trim s = trim_end (trim_start s)"

text \<open>\<open>str::split\<close> with a predicate, and \<open>str::split_whitespace\<close>.\<close>

fun split_on :: "('a \<Rightarrow> bool) \<Rightarrow> 'a list \<Rightarrow> 'a list list" where
  "split_on p [] = [[]]"
| "split_on p (x # xs) =
     (if p x then [] # split_on p xs
      else case split_on p xs of [] \<Rightarrow> [[x]] | y # ys \<Rightarrow> (x # y) # ys)"

definition split_whitespace :: "rstring \<Rightarrow> rstring list" where
  "split_whitespace s = filter (\<lambda>w. w \<noteq> []) (split_on is_whitespace s)"

fun join :: "'a list \<Rightarrow> 'a list list \<Rightarrow> 'a list" where
  "join sep [] = []"
| "join sep [x] = x"
| "join sep (x # y # ys) = x @ sep @ join sep (y # ys)"

text \<open>The decimal rendering of an unsigned integer by \<open>format!\<close>.\<close>

fun show_nat :: "nat \<Rightarrow> rstring" where
  "show_nat n = (if n < 10 then [48 + n] else show_nat (n div 10) @ [48 + n mod 10])"

declare show_nat.simps [simp del]

definition show_bool :: "bool \<Rightarrow> rstring" where
  "show_bool b = (if b then str ''true'' else str ''false'')"

text \<open>\<open>str::parse\<close> for an unsigned type with the given largest value: an optional plus sign and decimal digits.\<close>

definition u32_max :: nat where "u32_max = 4294967295"

definition sat_add_u32 :: "nat \<Rightarrow> nat \<Rightarrow> nat" where
  "sat_add_u32 a b = min (a + b) u32_max"

definition parse_unsigned :: "nat \<Rightarrow> rstring \<Rightarrow> rstring + nat" where
  "parse_unsigned largest x =
     (let digits = (case x of c # cs \<Rightarrow> if c = 43 \<and> cs \<noteq> [] then cs else x | [] \<Rightarrow> [])
      in if digits = [] then Inl (str ''cannot parse integer from empty string'')
         else if \<not> list_all (\<lambda>c. 48 \<le> c \<and> c \<le> 57) digits then Inl (str ''invalid digit found in string'')
         else let n = foldl (\<lambda>a c. a * 10 + (c - 48)) 0 digits
              in if n \<le> largest then Inr n else Inl (str ''number too large to fit in target type''))"

definition starts_with :: "rstring \<Rightarrow> rstring \<Rightarrow> bool" where
  "starts_with s p = prefix p s"

text \<open>\<open>char::len_utf8\<close> and \<open>str::len\<close>: the lengths of the UTF-8 encoding.\<close>

definition len_utf8 :: "rchar \<Rightarrow> nat" where
  "len_utf8 c = (if c < 128 then 1 else if c < 2048 then 2 else if c < 65536 then 3 else 4)"

definition byte_len :: "rstring \<Rightarrow> nat" where
  "byte_len s = sum_list (map len_utf8 s)"

definition to_ascii_lowercase :: "rstring \<Rightarrow> rstring" where
  "to_ascii_lowercase s = map (\<lambda>c. if 65 \<le> c \<and> c \<le> 90 then c + 32 else c) s"

text \<open>
  The identifier normalisation of \<open>omni/response_ledger.rs\<close> and, word for word, of
  \<open>omni/response_lifecycle.rs\<close>: trimmed, and absent when empty or the placeholder.
\<close>

definition normalized_id :: "rstring option \<Rightarrow> rstring option" where
  "normalized_id value =
     (case map_option trim value of
        None \<Rightarrow> None
      | Some v \<Rightarrow> if v \<noteq> [] \<and> v \<noteq> str ''(none)'' then Some v else None)"

subsection \<open>Lemmas on text\<close>

lemma str_eq_iff: "str a = str b \<longleftrightarrow> a = b"
  by (simp add: inj_map_eq_map [of of_char] inj_def)

lemma trim_Nil [simp]: "trim_start [] = []" "trim_end [] = []" "trim [] = []"
  by (simp_all add: trim_start_def trim_end_def trim_def)

lemma trim_start_not_ws: "trim_start s = c # cs \<Longrightarrow> \<not> is_whitespace c"
  by (auto simp: trim_start_def dropWhile_eq_Cons_conv)

lemma trim_end_idem [simp]: "trim_end (trim_end s) = trim_end s"
  by (simp add: trim_end_def)

lemma trim_end_snoc: "trim_end (s @ [c]) = (if is_whitespace c then trim_end s else s @ [c])"
  by (simp add: trim_end_def)

lemma trim_end_decomp: "\<exists>w. s = trim_end s @ w \<and> (\<forall>c\<in>set w. is_whitespace c)"
proof (induction s rule: rev_induct)
  case Nil
  show ?case by (simp add: trim_end_def)
next
  case (snoc c s)
  show ?case
  proof (cases "is_whitespace c")
    case True
    from snoc obtain w where "s = trim_end s @ w" "\<forall>c\<in>set w. is_whitespace c" by blast
    with True have "s @ [c] = trim_end (s @ [c]) @ (w @ [c])" "\<forall>c\<in>set (w @ [c]). is_whitespace c"
      by (auto simp: trim_end_snoc)
    then show ?thesis by blast
  next
    case False
    then show ?thesis by (auto simp: trim_end_snoc)
  qed
qed

lemma prefix_trim_end: "prefix (trim_end s) s"
  using trim_end_decomp [of s] by (auto simp: prefix_def)

lemma trim_end_Cons: "\<not> is_whitespace c \<Longrightarrow> \<exists>t. trim_end (c # s) = c # t"
proof (induction s rule: rev_induct)
  case Nil
  then show ?case by (simp add: trim_end_def)
next
  case (snoc d s)
  then have "trim_end ((c # s) @ [d]) = (if is_whitespace d then trim_end (c # s) else (c # s) @ [d])"
    by (simp only: trim_end_snoc)
  with snoc show ?case by auto
qed

lemma trim_start_idem_ws: "s = [] \<or> \<not> is_whitespace (hd s) \<Longrightarrow> trim_start s = s"
  by (cases s) (auto simp: trim_start_def)

lemma trim_idem [simp]: "trim (trim s) = trim s"
proof (cases "trim_start s")
  case Nil
  then have "trim s = []" by (simp add: trim_def)
  then show ?thesis by simp
next
  case (Cons c cs)
  then have nw: "\<not> is_whitespace c" by (rule trim_start_not_ws)
  then obtain t where "trim_end (c # cs) = c # t" using trim_end_Cons by blast
  with nw Cons show ?thesis by (simp add: trim_def trim_start_idem_ws) (metis trim_end_idem)
qed

lemma trim_empty_iff: "trim s = [] \<longleftrightarrow> (\<forall>c\<in>set s. is_whitespace c)"
proof
  assume "trim s = []"
  then have "trim_start s = []"
    by (metis neq_Nil_conv trim_def trim_end_Cons trim_start_not_ws list.distinct(1))
  then show "\<forall>c\<in>set s. is_whitespace c" by (simp add: trim_start_def)
next
  assume "\<forall>c\<in>set s. is_whitespace c"
  then have "trim_start s = []" by (simp add: trim_start_def dropWhile_eq_Nil_conv)
  then show "trim s = []" by (simp add: trim_def)
qed

lemma normalized_id_None [simp]: "normalized_id None = None"
  by (simp add: normalized_id_def)

lemma normalized_id_idem [simp]: "normalized_id (normalized_id v) = normalized_id v"
  by (auto simp: normalized_id_def split: option.splits)

lemma normalized_id_trimmed: "normalized_id v = Some x \<Longrightarrow> trim x = x \<and> x \<noteq> []"
  by (auto simp: normalized_id_def split: option.splits if_splits)

section \<open>Slices and deques\<close>

text \<open>\<open>Iterator::position\<close>, \<open>iter_mut().find(p)\<close> followed by an update, \<open>VecDeque::remove\<close>.\<close>

fun position :: "('a \<Rightarrow> bool) \<Rightarrow> 'a list \<Rightarrow> nat option" where
  "position p [] = None"
| "position p (x # xs) = (if p x then Some 0 else map_option Suc (position p xs))"

fun update_first :: "('a \<Rightarrow> bool) \<Rightarrow> ('a \<Rightarrow> 'a) \<Rightarrow> 'a list \<Rightarrow> 'a list" where
  "update_first p f [] = []"
| "update_first p f (x # xs) = (if p x then f x # xs else x # update_first p f xs)"

definition remove_at :: "nat \<Rightarrow> 'a list \<Rightarrow> 'a list" where
  "remove_at i xs = take i xs @ drop (Suc i) xs"

lemma position_Some: "position p xs = Some i \<Longrightarrow> i < length xs \<and> p (xs ! i)"
  by (induction xs arbitrary: i) (auto split: if_splits)

lemma position_first: "position p xs = Some i \<Longrightarrow> j < i \<Longrightarrow> \<not> p (xs ! j)"
proof (induction xs arbitrary: i j)
  case (Cons x xs)
  then show ?case by (cases j) (auto split: if_splits)
qed simp

lemma position_None: "position p xs = None \<longleftrightarrow> (\<forall>x\<in>set xs. \<not> p x)"
  by (induction xs) auto

lemma position_Some_ex: "x \<in> set xs \<Longrightarrow> p x \<Longrightarrow> \<exists>i. position p xs = Some i"
  by (induction xs) auto

lemma length_update_first [simp]: "length (update_first p f xs) = length xs"
  by (induction xs) auto

lemma update_first_pres:
  "(\<And>x. p x \<Longrightarrow> P x \<Longrightarrow> P (f x)) \<Longrightarrow> (\<forall>x\<in>set xs. P x) \<Longrightarrow> \<forall>x\<in>set (update_first p f xs). P x"
  by (induction xs) auto

lemma update_first_nth:
  "i < length xs \<Longrightarrow> update_first p f xs ! i = xs ! i \<or> update_first p f xs ! i = f (xs ! i) \<and> p (xs ! i)"
proof (induction xs arbitrary: i)
  case (Cons x xs)
  then show ?case by (cases i) auto
qed simp

lemma update_first_map:
  "(\<And>x. p x \<Longrightarrow> g (f x) = g x) \<Longrightarrow> map g (update_first p f xs) = map g xs"
  by (induction xs) auto

lemma set_remove_at: "set (remove_at i xs) \<subseteq> set xs"
  by (auto simp: remove_at_def dest: in_set_takeD in_set_dropD)

lemma length_remove_at: "i < length xs \<Longrightarrow> length (remove_at i xs) = length xs - 1"
  by (simp add: remove_at_def)

lemma remove_at_Cons: "remove_at 0 (x # xs) = xs" "remove_at (Suc i) (x # xs) = x # remove_at i xs"
  by (simp_all add: remove_at_def)

lemma map_remove_at: "map f (remove_at i xs) = remove_at i (map f xs)"
  by (simp add: remove_at_def take_map drop_map)

lemma filter_remove_at_not:
  "i < length xs \<Longrightarrow> \<not> p (xs ! i) \<Longrightarrow> filter p (remove_at i xs) = filter p xs"
proof (induction xs arbitrary: i)
  case (Cons x xs)
  then show ?case by (cases i) (auto simp: remove_at_Cons)
qed simp

lemma length_filter_as_map: "length (filter p xs) = length (filter id (map p xs))"
  by (simp add: filter_map o_def id_def)

lemma length_filter_filter_le: "length (filter p (filter q xs)) \<le> length (filter p xs)"
  by (induction xs) auto

lemma length_filter_filter_less:
  "x \<in> set xs \<Longrightarrow> p x \<Longrightarrow> \<not> q x \<Longrightarrow> length (filter p (filter q xs)) < length (filter p xs)"
proof (induction xs)
  case (Cons y ys)
  then show ?case
    using length_filter_filter_le [of p q ys] by (auto simp: less_Suc_eq_le simp del: filter_filter)
qed simp

lemma filter_remove_at_position:
  "position p xs = Some i \<Longrightarrow> filter p (remove_at i xs) = tl (filter p xs)"
  by (induction xs arbitrary: i) (auto simp: remove_at_Cons split: if_splits)

text \<open>
  \<open>Iterator::min_by_key\<close>: the first of the elements with the least key. A \<open>HashMap\<close> whose order
  is never observed is a list of entries with distinct keys.
\<close>

fun min_by :: "('a \<Rightarrow> 'k::linorder) \<Rightarrow> 'a list \<Rightarrow> 'a option" where
  "min_by f [] = None"
| "min_by f (x # xs) = Some (foldl (\<lambda>m y. if f y < f m then y else m) x xs)"

definition hash_insert :: "'k \<Rightarrow> 'v \<Rightarrow> ('k \<times> 'v) list \<Rightarrow> ('k \<times> 'v) list" where
  "hash_insert k v m = (k, v) # filter (\<lambda>p. fst p \<noteq> k) m"

definition hash_remove :: "'k \<Rightarrow> ('k \<times> 'v) list \<Rightarrow> ('k \<times> 'v) list" where
  "hash_remove k m = filter (\<lambda>p. fst p \<noteq> k) m"

lemma foldl_min_in: "foldl (\<lambda>m y. if f y < f m then y else m) x xs \<in> insert x (set xs)"
  by (induction xs arbitrary: x) auto

lemma foldl_min_le:
  "f (foldl (\<lambda>m y. if f y < f m then y else m) x xs) \<le> f x \<and>
   (\<forall>y\<in>set xs. f (foldl (\<lambda>m y. if f y < f m then y else m) x xs) \<le> (f y :: 'k::linorder))"
proof (induction xs arbitrary: x)
  case (Cons y xs)
  show ?case
  proof (cases "f y < f x")
    case True
    with Cons [of y] show ?thesis by auto
  next
    case False
    with Cons [of x] show ?thesis by (auto intro: order_trans)
  qed
qed simp

lemma min_by_Some: "min_by f xs = Some m \<Longrightarrow> m \<in> set xs \<and> (\<forall>y\<in>set xs. f m \<le> f y)"
  using foldl_min_in foldl_min_le by (cases xs) fastforce+

lemma min_by_None [simp]: "min_by f xs = None \<longleftrightarrow> xs = []"
  by (cases xs) auto

lemma hash_insert_fresh: "k \<notin> set (map fst m) \<Longrightarrow> hash_insert k v m = (k, v) # m"
  by (auto simp: hash_insert_def filter_id_conv)

section \<open>Ordered maps\<close>

text \<open>
  A \<open>BTreeMap\<close> is the list of its entries in key order, so that iteration has the order of the source.
  \<open>map_of\<close> is \<open>get\<close>.
\<close>

type_synonym 'v btree = "(nat \<times> 'v) list"

definition btree_insert :: "'k::linorder \<Rightarrow> 'v \<Rightarrow> ('k \<times> 'v) list \<Rightarrow> ('k \<times> 'v) list" where
  "btree_insert k v m = filter (\<lambda>p. fst p < k) m @ (k, v) # filter (\<lambda>p. k < fst p) m"

definition btree_remove :: "'k::linorder \<Rightarrow> ('k \<times> 'v) list \<Rightarrow> ('k \<times> 'v) list" where
  "btree_remove k m = filter (\<lambda>p. fst p \<noteq> k) m"

definition btree_map :: "('v \<Rightarrow> 'v) \<Rightarrow> ('k \<times> 'v) list \<Rightarrow> ('k \<times> 'v) list" where
  "btree_map f m = map (\<lambda>(k, v). (k, f v)) m"

lemma map_of_filter_key: "map_of (filter (\<lambda>p. P (fst p)) m) k = (if P k then map_of m k else None)"
  by (induction m) auto

lemma map_of_btree_insert [simp]: "map_of (btree_insert k v m) = (map_of m)(k \<mapsto> v)"
  by (rule ext) (auto simp: btree_insert_def map_add_def map_of_filter_key [where P = "\<lambda>x. x < k"]
      map_of_filter_key [where P = "\<lambda>x. k < x"] split: option.split)

lemma map_of_btree_remove [simp]: "map_of (btree_remove k m) = (map_of m)(k := None)"
  by (rule ext) (simp add: btree_remove_def map_of_filter_key [where P = "\<lambda>x. x \<noteq> k"])

lemma map_of_btree_map [simp]: "map_of (btree_map f m) k = map_option f (map_of m k)"
  by (induction m) (auto simp: btree_map_def)

lemma btree_map_Nil [simp]: "btree_map f m = [] \<longleftrightarrow> m = []"
  by (simp add: btree_map_def)

lemma map_of_Some_nonempty: "map_of m k = Some v \<Longrightarrow> m \<noteq> []"
  by auto

section \<open>Invariants of operations\<close>

text \<open>
  A component is a state and operations on it, run in any order. \<open>runs step s es\<close> is the state
  after the operations \<open>es\<close>. A component instantiates the locale with its own operations; the
  lemmas then speak about every run of it.
\<close>

definition runs :: "('s \<Rightarrow> 'e \<Rightarrow> 's) \<Rightarrow> 's \<Rightarrow> 'e list \<Rightarrow> 's" where
  "runs step s es = foldl step s es"

lemma runs_simps [simp]:
  "runs step s [] = s"
  "runs step s (e # es) = runs step (step s e) es"
  "runs step s (es @ fs) = runs step (runs step s es) fs"
  by (simp_all add: runs_def)

locale invariant_system =
  fixes init :: 's
    and step :: "'s \<Rightarrow> 'e \<Rightarrow> 's"
    and inv :: "'s \<Rightarrow> bool"
  assumes inv_init: "inv init"
    and inv_step: "inv s \<Longrightarrow> inv (step s e)"
begin

lemma inv_runs: "inv s \<Longrightarrow> inv (runs step s es)"
  by (induction es arbitrary: s) (auto intro: inv_step)

lemma inv_reachable: "inv (runs step init es)"
  by (rule inv_runs [OF inv_init])

end

text \<open>A quantity that no operation decreases, along the runs of a system.\<close>

locale monotone_system = invariant_system +
  fixes measure_of :: "'s \<Rightarrow> 'm::order"
  assumes measure_step: "inv s \<Longrightarrow> measure_of s \<le> measure_of (step s e)"
begin

lemma measure_runs: "inv s \<Longrightarrow> measure_of s \<le> measure_of (runs step s es)"
proof (induction es arbitrary: s)
  case (Cons e es)
  then have "measure_of (step s e) \<le> measure_of (runs step (step s e) es)"
    by (blast intro: inv_step)
  with Cons.prems show ?case by (auto intro: order_trans measure_step)
qed simp

end

section \<open>Refinement of an abstract protocol\<close>

text \<open>
  An operation of a component may let its caller see something. \<open>observe\<close> collects what a run shows,
  \<open>trace_of spec a os b\<close> says that an abstract protocol may show \<open>os\<close> on its way from \<open>a\<close> to \<open>b\<close>.
  The locale states that each operation is matched by the protocol under an abstraction of the
  state; its lemma lifts this to runs.
\<close>

fun observe :: "('s \<Rightarrow> 'e \<Rightarrow> 's \<times> 'o list) \<Rightarrow> 's \<Rightarrow> 'e list \<Rightarrow> 's \<times> 'o list" where
  "observe step s [] = (s, [])"
| "observe step s (e # es) =
     (let (s', os) = step s e; (s'', os') = observe step s' es in (s'', os @ os'))"

inductive trace_of :: "('a \<Rightarrow> 'o \<Rightarrow> 'a \<Rightarrow> bool) \<Rightarrow> 'a \<Rightarrow> 'o list \<Rightarrow> 'a \<Rightarrow> bool" for spec where
  trace_Nil: "trace_of spec a [] a"
| trace_Cons: "spec a x b \<Longrightarrow> trace_of spec b xs c \<Longrightarrow> trace_of spec a (x # xs) c"

inductive_simps trace_of_simps [simp]:
  "trace_of spec a [] b" "trace_of spec a (x # xs) b"

lemma trace_of_append: "trace_of spec a (xs @ ys) c \<longleftrightarrow> (\<exists>b. trace_of spec a xs b \<and> trace_of spec b ys c)"
  by (induction xs arbitrary: a) auto

lemma trace_of_appendI: "trace_of spec a xs b \<Longrightarrow> trace_of spec b ys c \<Longrightarrow> trace_of spec a (xs @ ys) c"
  by (auto simp: trace_of_append)

lemma fst_observe: "fst (observe step s es) = runs (\<lambda>s e. fst (step s e)) s es"
  by (induction es arbitrary: s) (auto simp: split_beta Let_def)

lemma observe_snoc:
  "observe step s (es @ [e]) =
     (let (s', os) = observe step s es; (s'', os') = step s' e in (s'', os @ os'))"
  by (induction es arbitrary: s) (auto simp: split_beta Let_def)

text \<open>An invariant of a trace: what holds at the start and is kept by every step of the protocol.\<close>

lemma trace_invariant:
  "trace_of spec a xs b \<Longrightarrow> P [] a \<Longrightarrow>
     (\<And>ys a x b. P ys a \<Longrightarrow> spec a x b \<Longrightarrow> P (ys @ [x]) b) \<Longrightarrow> P xs b"
proof (induction xs arbitrary: b rule: rev_induct)
  case (snoc x xs)
  from snoc.prems(1) obtain c where "trace_of spec a xs c" "spec c x b" by (auto simp: trace_of_append)
  with snoc show ?case by blast
qed auto

locale simulation =
  fixes step :: "'s \<Rightarrow> 'e \<Rightarrow> 's \<times> 'o list"
    and inv :: "'s \<Rightarrow> bool"
    and abs :: "'s \<Rightarrow> 'a"
    and spec :: "'a \<Rightarrow> 'o \<Rightarrow> 'a \<Rightarrow> bool"
  assumes inv_kept: "inv s \<Longrightarrow> inv (fst (step s e))"
    and step_sim: "inv s \<Longrightarrow> trace_of spec (abs s) (snd (step s e)) (abs (fst (step s e)))"
begin

lemma inv_observe: "inv s \<Longrightarrow> inv (fst (observe step s es))"
  by (induction es arbitrary: s) (auto simp: split_beta Let_def inv_kept)

lemma run_refines:
  "inv s \<Longrightarrow> trace_of spec (abs s) (snd (observe step s es)) (abs (fst (observe step s es)))"
proof (induction es arbitrary: s)
  case (Cons e es)
  from trace_of_appendI [OF step_sim [OF Cons.prems, of e] Cons.IH [OF inv_kept [OF Cons.prems, of e]]]
  show ?case by (simp add: split_beta Let_def)
qed simp

end

end
