(* ===== verification/Response_Ledger.thy ===== *)
theory Response_Ledger
  imports Omni_Prelude
begin

text \<open>
  The response ledger of the realtime session (\<open>audio/omni/response_ledger.rs\<close>): which subtitle
  cue a provider response belongs to. The record types, one definition per method, the ledger's
  invariant (one session generation, at most 64 completed lineages, no response identifier bound
  twice, every identifier normalised), that every method keeps it, and what a successful binding
  says about the lineage it returns.
\<close>

section \<open>Data\<close>

definition MAX_COMPLETED_RESPONSE_LINEAGES :: nat where
  "MAX_COMPLETED_RESPONSE_LINEAGES = 64"

record ResponseLineage =
  ln_session_generation :: nat
  ln_cue_id :: rstring
  ln_source_item_id :: "rstring option"
  ln_translation_item_id :: "rstring option"
  ln_response_id :: "rstring option"
  ln_completed :: bool

record ResponseLedger =
  lg_session_generation :: nat
  lg_lineages :: "ResponseLineage list"

definition ledger_default :: ResponseLedger where
  "ledger_default = \<lparr>lg_session_generation = 0, lg_lineages = []\<rparr>"

section \<open>Operations\<close>

definition set_generation :: "nat \<Rightarrow> ResponseLedger \<Rightarrow> ResponseLedger" where
  "set_generation g l =
     (if lg_session_generation l \<noteq> g
      then l\<lparr>lg_session_generation := g, lg_lineages := []\<rparr> else l)"

text \<open>The \<open>while\<close> loop removes the first completed lineage as long as there are too many.\<close>

function prune_completed_lineages :: "ResponseLineage list \<Rightarrow> ResponseLineage list" where
  "prune_completed_lineages ls =
     (if length (filter ln_completed ls) > MAX_COMPLETED_RESPONSE_LINEAGES
      then (case position ln_completed ls of
              None \<Rightarrow> ls
            | Some i \<Rightarrow> prune_completed_lineages (remove_at i ls))
      else ls)"
  by pat_completeness auto
termination
proof (relation "measure length", goal_cases)
  case (2 ls i)
  then show ?case by (auto dest!: position_Some simp: length_remove_at)
qed simp

declare prune_completed_lineages.simps [simp del]

definition record_source :: "rstring \<Rightarrow> rstring option \<Rightarrow> ResponseLedger \<Rightarrow> ResponseLedger" where
  "record_source cue_id source_item_id l =
     (let source_item_id = normalized_id source_item_id;
          matches = (\<lambda>x. ln_cue_id x = cue_id \<or>
                         (is_some source_item_id \<and> ln_source_item_id x = source_item_id))
      in if list_ex matches (lg_lineages l)
         then l\<lparr>lg_lineages := update_first matches
                (\<lambda>x. x\<lparr>ln_cue_id := cue_id,
                       ln_source_item_id := (if ln_source_item_id x = None then source_item_id
                                             else ln_source_item_id x)\<rparr>) (lg_lineages l)\<rparr>
         else l\<lparr>lg_lineages := prune_completed_lineages (lg_lineages l @
                [\<lparr>ln_session_generation = lg_session_generation l, ln_cue_id = cue_id,
                  ln_source_item_id = source_item_id, ln_translation_item_id = None,
                  ln_response_id = None, ln_completed = False\<rparr>])\<rparr>)"

definition discard_unanswered_source ::
  "rstring \<Rightarrow> ResponseLedger \<Rightarrow> rstring list \<times> ResponseLedger" where
  "discard_unanswered_source source_item_id l =
     (let discard = (\<lambda>x. ln_source_item_id x = Some source_item_id \<and>
                         ln_response_id x = None \<and> \<not> ln_completed x)
      in (map ln_cue_id (filter discard (lg_lineages l)),
          l\<lparr>lg_lineages := filter (\<lambda>x. \<not> discard x) (lg_lineages l)\<rparr>))"

text \<open>
  \<open>bind_response\<close> in the order of its body: the exact lookup with its three early returns
  (\<open>None\<close> is the early return, \<open>Some exact_index\<close> goes on), the materialisation of the active
  cue, the choice of the index, and the write that only fills absent identifiers.
\<close>

definition bind_conflict ::
  "rstring option \<Rightarrow> rstring option \<Rightarrow> rstring option \<Rightarrow> ResponseLineage \<Rightarrow> bool" where
  "bind_conflict response_id source_item_id translation_item_id x \<longleftrightarrow>
     is_some_and source_item_id (\<lambda>source. ln_source_item_id x \<noteq> Some source) \<or>
     is_some_and translation_item_id (\<lambda>translation.
       is_some_and (ln_translation_item_id x) (\<lambda>bound. bound \<noteq> translation)) \<or>
     is_some_and response_id (\<lambda>response.
       is_some_and (ln_response_id x) (\<lambda>bound. bound \<noteq> response))"

definition bind_lookup ::
  "rstring option \<Rightarrow> rstring option \<Rightarrow> rstring option \<Rightarrow> ResponseLineage list \<Rightarrow>
   nat option option" where
  "bind_lookup response_id source_item_id translation_item_id ls =
     (let has_item_lineage = is_some source_item_id \<or> is_some translation_item_id;
          item_index = or_opt
            (position (\<lambda>x. is_some source_item_id \<and> ln_source_item_id x = source_item_id) ls)
            (position (\<lambda>x. is_some translation_item_id \<and>
                            ln_translation_item_id x = translation_item_id) ls);
          response_index =
            position (\<lambda>x. is_some response_id \<and> ln_response_id x = response_id) ls
      in if has_item_lineage \<and> item_index = None \<and> response_index = None then None
         else if item_index \<noteq> None \<and> response_index \<noteq> None \<and> item_index \<noteq> response_index
         then None
         else case or_opt item_index response_index of
                None \<Rightarrow> Some None
              | Some i \<Rightarrow>
                  if bind_conflict response_id source_item_id translation_item_id (ls ! i)
                  then None else Some (Some i))"

definition bind_materialize ::
  "nat option \<Rightarrow> rstring option \<Rightarrow> bool \<Rightarrow> rstring option \<Rightarrow> ResponseLedger \<Rightarrow> ResponseLedger" where
  "bind_materialize exact_index response_id has_item_lineage fallback_cue_id l =
     (if exact_index = None \<and> is_some response_id \<and> \<not> has_item_lineage \<and>
         \<not> list_ex (\<lambda>x. \<not> ln_completed x) (lg_lineages l)
      then (case fallback_cue_id of
              Some cue_id \<Rightarrow> if trim cue_id \<noteq> [] then record_source cue_id None l else l
            | None \<Rightarrow> l)
      else l)"

definition bind_index ::
  "nat option \<Rightarrow> rstring option \<Rightarrow> bool \<Rightarrow> rstring option \<Rightarrow> ResponseLineage list \<Rightarrow> nat option" where
  "bind_index exact_index response_id has_item_lineage fallback_cue_id ls =
     (let fifo_index = position (\<lambda>x. \<not> ln_completed x) ls;
          fallback_index = position (\<lambda>x. \<not> ln_completed x \<and>
            is_some_and fallback_cue_id (\<lambda>cue_id. ln_cue_id x = cue_id)) ls
      in or_opt exact_index
           (if is_some response_id \<and> \<not> has_item_lineage
            then or_opt fifo_index fallback_index
            else or_opt fallback_index fifo_index))"

definition bind_fill ::
  "rstring option \<Rightarrow> rstring option \<Rightarrow> rstring option \<Rightarrow> ResponseLineage \<Rightarrow> ResponseLineage" where
  "bind_fill response_id source_item_id translation_item_id x =
     x\<lparr>ln_response_id := or_opt (ln_response_id x) response_id,
       ln_source_item_id := or_opt (ln_source_item_id x) source_item_id,
       ln_translation_item_id := or_opt (ln_translation_item_id x) translation_item_id\<rparr>"

definition bind_response ::
  "rstring option \<Rightarrow> rstring option \<Rightarrow> rstring option \<Rightarrow> rstring option \<Rightarrow> ResponseLedger \<Rightarrow>
   ResponseLineage option \<times> ResponseLedger" where
  "bind_response response_id source_item_id translation_item_id fallback_cue_id l =
     (let response_id = normalized_id response_id;
          source_item_id = normalized_id source_item_id;
          translation_item_id = normalized_id translation_item_id;
          has_item_lineage = is_some source_item_id \<or> is_some translation_item_id
      in case bind_lookup response_id source_item_id translation_item_id (lg_lineages l) of
           None \<Rightarrow> (None, l)
         | Some exact_index \<Rightarrow>
             (let l1 = bind_materialize exact_index response_id has_item_lineage fallback_cue_id l
              in case bind_index exact_index response_id has_item_lineage fallback_cue_id
                        (lg_lineages l1) of
                   None \<Rightarrow> (None, l1)
                 | Some i \<Rightarrow>
                     (let x = bind_fill response_id source_item_id translation_item_id
                                (lg_lineages l1 ! i)
                      in (Some x, l1\<lparr>lg_lineages := (lg_lineages l1)[i := x]\<rparr>))))"

definition complete_response :: "rstring option \<Rightarrow> ResponseLedger \<Rightarrow> ResponseLedger" where
  "complete_response response_id l =
     (let response_id = normalized_id response_id
      in l\<lparr>lg_lineages := prune_completed_lineages
             (update_first (\<lambda>x. is_some response_id \<and> ln_response_id x = response_id)
                (\<lambda>x. x\<lparr>ln_completed := True\<rparr>) (lg_lineages l))\<rparr>)"

definition has_complete_lineage :: "rstring \<Rightarrow> rstring \<Rightarrow> rstring \<Rightarrow> ResponseLedger \<Rightarrow> bool" where
  "has_complete_lineage cue_id source_item_id response_id l =
     list_ex (\<lambda>x. ln_completed x \<and> ln_cue_id x = cue_id \<and>
                  ln_source_item_id x = Some source_item_id \<and>
                  ln_response_id x = Some response_id \<and>
                  trim source_item_id \<noteq> [] \<and> trim response_id \<noteq> []) (lg_lineages l)"

definition input_response_bindings :: "ResponseLedger \<Rightarrow> (rstring \<times> rstring) list" where
  "input_response_bindings l =
     List.map_filter (\<lambda>x. case (ln_source_item_id x, ln_response_id x) of
       (Some s, Some r) \<Rightarrow> Some (s, r) | _ \<Rightarrow> None) (lg_lineages l)"

definition ledger_clear :: "ResponseLedger \<Rightarrow> ResponseLedger" where
  "ledger_clear l = l\<lparr>lg_lineages := []\<rparr>"

text \<open>The calls a session makes on its ledger, as the steps of one system.\<close>

datatype ledger_op =
    SetGeneration nat
  | RecordSource rstring "rstring option"
  | DiscardUnansweredSource rstring
  | BindResponse "rstring option" "rstring option" "rstring option" "rstring option"
  | CompleteResponse "rstring option"
  | ClearLedger

fun ledger_step :: "ResponseLedger \<Rightarrow> ledger_op \<Rightarrow> ResponseLedger" where
  "ledger_step l (SetGeneration g) = set_generation g l"
| "ledger_step l (RecordSource c s) = record_source c s l"
| "ledger_step l (DiscardUnansweredSource s) = snd (discard_unanswered_source s l)"
| "ledger_step l (BindResponse r s t f) = snd (bind_response r s t f l)"
| "ledger_step l (CompleteResponse r) = complete_response r l"
| "ledger_step l ClearLedger = ledger_clear l"

section \<open>Pruning\<close>

lemma prune_unfinished:
  "filter (\<lambda>x. \<not> ln_completed x) (prune_completed_lineages ls) = filter (\<lambda>x. \<not> ln_completed x) ls"
proof (induction ls rule: prune_completed_lineages.induct)
  case (1 ls)
  show ?case
  proof (cases "length (filter ln_completed ls) > MAX_COMPLETED_RESPONSE_LINEAGES \<and>
                position ln_completed ls \<noteq> None")
    case True
    then obtain i where i: "position ln_completed ls = Some i" by blast
    with "1.IH" True have "filter (\<lambda>x. \<not> ln_completed x) (prune_completed_lineages (remove_at i ls)) =
        filter (\<lambda>x. \<not> ln_completed x) (remove_at i ls)" by simp
    also have "\<dots> = filter (\<lambda>x. \<not> ln_completed x) ls"
      using position_Some [OF i] by (intro filter_remove_at_not) auto
    finally show ?thesis using True i by (simp add: prune_completed_lineages.simps [of ls])
  next
    case False
    then show ?thesis by (auto simp: prune_completed_lineages.simps [of ls] split: option.split)
  qed
qed

lemma prune_completed:
  "filter ln_completed (prune_completed_lineages ls) =
     drop (length (filter ln_completed ls) - MAX_COMPLETED_RESPONSE_LINEAGES) (filter ln_completed ls)"
proof (induction ls rule: prune_completed_lineages.induct)
  case (1 ls)
  let ?n = "length (filter ln_completed ls)"
  show ?case
  proof (cases "?n > MAX_COMPLETED_RESPONSE_LINEAGES")
    case True
    then have "position ln_completed ls \<noteq> None"
      by (auto simp: position_None filter_empty_conv [symmetric] simp del: filter_False)
    then obtain i where i: "position ln_completed ls = Some i" by blast
    have tl: "filter ln_completed (remove_at i ls) = tl (filter ln_completed ls)"
      using i by (rule filter_remove_at_position)
    from "1.IH" [OF True i] tl
    have "filter ln_completed (prune_completed_lineages (remove_at i ls)) =
        drop (?n - 1 - MAX_COMPLETED_RESPONSE_LINEAGES) (tl (filter ln_completed ls))" by simp
    also have "\<dots> = drop (Suc (?n - 1 - MAX_COMPLETED_RESPONSE_LINEAGES)) (filter ln_completed ls)"
      by (simp add: drop_Suc)
    also have "Suc (?n - 1 - MAX_COMPLETED_RESPONSE_LINEAGES) = ?n - MAX_COMPLETED_RESPONSE_LINEAGES"
      using True by simp
    finally show ?thesis using True i by (simp add: prune_completed_lineages.simps [of ls])
  next
    case False
    then show ?thesis by (simp add: prune_completed_lineages.simps [of ls])
  qed
qed

lemma prune_bound: "length (filter ln_completed (prune_completed_lineages ls)) \<le> MAX_COMPLETED_RESPONSE_LINEAGES"
  by (simp add: prune_completed)

lemma prune_id: "length (filter ln_completed ls) \<le> MAX_COMPLETED_RESPONSE_LINEAGES \<Longrightarrow>
    prune_completed_lineages ls = ls"
  by (simp add: prune_completed_lineages.simps [of ls])

lemma prune_induct_removal:
  assumes "P ls" and "\<And>xs i. i < length xs \<Longrightarrow> P xs \<Longrightarrow> P (remove_at i xs)"
  shows "P (prune_completed_lineages ls)"
  using assms(1)
proof (induction ls rule: prune_completed_lineages.induct)
  case (1 ls)
  then show ?case
    by (auto simp: prune_completed_lineages.simps [of ls] dest: position_Some intro: assms(2)
        split: option.split)
qed

section \<open>The invariant\<close>

definition unique_responses :: "ResponseLineage list \<Rightarrow> bool" where
  "unique_responses ls \<longleftrightarrow> (\<forall>r. count_list (map ln_response_id ls) (Some r) \<le> 1)"

definition lineage_normalized :: "ResponseLineage \<Rightarrow> bool" where
  "lineage_normalized x \<longleftrightarrow>
     normalized_id (ln_source_item_id x) = ln_source_item_id x \<and>
     normalized_id (ln_translation_item_id x) = ln_translation_item_id x \<and>
     normalized_id (ln_response_id x) = ln_response_id x"

definition lineages_ok :: "nat \<Rightarrow> ResponseLineage list \<Rightarrow> bool" where
  "lineages_ok g ls \<longleftrightarrow> unique_responses ls \<and>
     (\<forall>x\<in>set ls. ln_session_generation x = g \<and> lineage_normalized x)"

definition ledger_inv :: "ResponseLedger \<Rightarrow> bool" where
  "ledger_inv l \<longleftrightarrow> lineages_ok (lg_session_generation l) (lg_lineages l) \<and>
     length (filter ln_completed (lg_lineages l)) \<le> MAX_COMPLETED_RESPONSE_LINEAGES"

lemma count_list_remove_at: "count_list (map f (remove_at i xs)) c \<le> count_list (map f xs) c"
proof (induction xs arbitrary: i)
  case (Cons x xs)
  then show ?case by (cases i) (auto simp: remove_at_Cons le_SucI)
qed (simp add: remove_at_def)

lemma count_list_filter: "count_list (map f (filter p xs)) c \<le> count_list (map f xs) c"
  by (induction xs) (auto simp: le_SucI)

lemma count_list_update:
  "count_list (xs[i := y]) c \<le> count_list xs c + (if y = c \<and> xs ! i \<noteq> c then 1 else 0)"
proof (induction xs arbitrary: i)
  case (Cons x xs)
  show ?case
  proof (cases i)
    case (Suc j)
    with Cons [of j] show ?thesis by auto
  qed auto
qed simp

lemma lineages_ok_Nil [simp]: "lineages_ok g []"
  by (simp add: lineages_ok_def unique_responses_def)

lemma lineages_ok_remove: "lineages_ok g xs \<Longrightarrow> lineages_ok g (remove_at i xs)"
  unfolding lineages_ok_def unique_responses_def
  using count_list_remove_at set_remove_at by (meson le_trans subsetD)

lemma lineages_ok_filter: "lineages_ok g xs \<Longrightarrow> lineages_ok g (filter p xs)"
  unfolding lineages_ok_def unique_responses_def
  using count_list_filter by (fastforce intro: le_trans)

lemma lineages_ok_prune: "lineages_ok g xs \<Longrightarrow> lineages_ok g (prune_completed_lineages xs)"
  by (rule prune_induct_removal) (auto intro: lineages_ok_remove)

lemma lineages_ok_snoc:
  "lineages_ok g xs \<Longrightarrow> ln_response_id x = None \<Longrightarrow> ln_session_generation x = g \<Longrightarrow>
     lineage_normalized x \<Longrightarrow> lineages_ok g (xs @ [x])"
  by (auto simp: lineages_ok_def unique_responses_def)

lemma lineages_ok_update_first:
  assumes "lineages_ok g xs"
    and "\<And>x. p x \<Longrightarrow> ln_response_id (f x) = ln_response_id x"
    and "\<And>x. p x \<Longrightarrow> ln_session_generation (f x) = ln_session_generation x"
    and "\<And>x. p x \<Longrightarrow> lineage_normalized x \<Longrightarrow> lineage_normalized (f x)"
  shows "lineages_ok g (update_first p f xs)"
proof -
  have "map ln_response_id (update_first p f xs) = map ln_response_id xs"
    using assms(2) by (rule update_first_map)
  moreover have "\<forall>x\<in>set (update_first p f xs). ln_session_generation x = g \<and> lineage_normalized x"
    using assms by (intro update_first_pres) (auto simp: lineages_ok_def)
  ultimately show ?thesis using assms(1) by (simp add: lineages_ok_def unique_responses_def)
qed

lemma ledger_inv_default: "ledger_inv ledger_default"
  by (simp add: ledger_inv_def ledger_default_def)

lemma set_generation_inv: "ledger_inv l \<Longrightarrow> ledger_inv (set_generation g l)"
  by (auto simp: ledger_inv_def set_generation_def)

lemma record_source_inv:
  assumes "ledger_inv l"
  shows "ledger_inv (record_source c s l)"
proof -
  from assms have ok: "lineages_ok (lg_session_generation l) (lg_lineages l)"
    and bd: "length (filter ln_completed (lg_lineages l)) \<le> MAX_COMPLETED_RESPONSE_LINEAGES"
    by (auto simp: ledger_inv_def)
  let ?m = "\<lambda>x. ln_cue_id x = c \<or> (is_some (normalized_id s) \<and> ln_source_item_id x = normalized_id s)"
  let ?f = "\<lambda>x. x\<lparr>ln_cue_id := c, ln_source_item_id :=
      (if ln_source_item_id x = None then normalized_id s else ln_source_item_id x)\<rparr>"
  have upd: "lineages_ok (lg_session_generation l) (update_first ?m ?f (lg_lineages l))"
    using ok by (rule lineages_ok_update_first) (auto simp: lineage_normalized_def)
  have cnt: "map ln_completed (update_first ?m ?f (lg_lineages l)) = map ln_completed (lg_lineages l)"
    by (rule update_first_map) simp
  then have bd': "length (filter ln_completed (update_first ?m ?f (lg_lineages l)))
      \<le> MAX_COMPLETED_RESPONSE_LINEAGES"
    using bd by (simp only: length_filter_as_map [where p = ln_completed])
  show ?thesis
    using upd bd' ok
    by (auto simp: record_source_def ledger_inv_def Let_def lineage_normalized_def
        intro!: lineages_ok_prune lineages_ok_snoc prune_bound)
qed

lemma discard_unanswered_source_inv:
  assumes "ledger_inv l"
  shows "ledger_inv (snd (discard_unanswered_source s l))"
proof -
  have "length (filter ln_completed (filter q (lg_lineages l))) \<le> MAX_COMPLETED_RESPONSE_LINEAGES" for q
    using assms length_filter_filter_le [of ln_completed q "lg_lineages l"]
    by (simp add: ledger_inv_def del: filter_filter)
  with assms show ?thesis
    by (auto simp: discard_unanswered_source_def ledger_inv_def Let_def intro: lineages_ok_filter
        simp del: filter_filter)
qed

lemma complete_response_inv: "ledger_inv l \<Longrightarrow> ledger_inv (complete_response r l)"
  by (auto simp: complete_response_def ledger_inv_def Let_def lineage_normalized_def
      intro!: lineages_ok_prune prune_bound lineages_ok_update_first)

section \<open>Binding a response\<close>

lemma bind_lookup_exact:
  assumes "bind_lookup r s t ls = Some (Some i)"
  shows "i < length ls" and "\<not> bind_conflict r s t (ls ! i)"
    and "r \<noteq> None \<Longrightarrow> ln_response_id (ls ! i) \<noteq> r \<Longrightarrow> \<forall>x\<in>set ls. ln_response_id x \<noteq> r"
  using assms
  by (auto simp: bind_lookup_def Let_def or_opt_def position_None
      dest!: position_Some position_Some [OF sym] split: option.splits if_splits)

lemma bind_lookup_fresh:
  assumes "bind_lookup r s t ls = Some None"
  shows "s = None" and "t = None" and "r \<noteq> None \<Longrightarrow> \<forall>x\<in>set ls. ln_response_id x \<noteq> r"
  using assms
  by (auto simp: bind_lookup_def Let_def position_None split: option.splits if_splits)

lemma bind_index_Some:
  assumes "bind_index exact r h f ls = Some i"
  shows "exact = Some i \<or> exact = None \<and> i < length ls \<and> \<not> ln_completed (ls ! i)"
  using assms by (auto simp: bind_index_def Let_def or_opt_def dest!: position_Some
      split: option.splits if_splits)

lemma bind_materialize_inv: "ledger_inv l \<Longrightarrow> ledger_inv (bind_materialize e r h f l)"
  by (auto simp: bind_materialize_def intro: record_source_inv split: option.split)

lemma record_source_responses:
  assumes "length (filter ln_completed (lg_lineages l)) \<le> MAX_COMPLETED_RESPONSE_LINEAGES"
  shows "map ln_response_id (lg_lineages (record_source c s l)) = map ln_response_id (lg_lineages l) \<or>
    map ln_response_id (lg_lineages (record_source c s l)) = map ln_response_id (lg_lineages l) @ [None]"
  using assms by (auto simp: record_source_def Let_def prune_id update_first_map)

lemma bind_materialize_responses:
  assumes "ledger_inv l" and "\<forall>x\<in>set (lg_lineages l). ln_response_id x \<noteq> Some r"
  shows "\<forall>x\<in>set (lg_lineages (bind_materialize e r' h f l)). ln_response_id x \<noteq> Some r"
proof -
  have "Some r \<notin> set (map ln_response_id (lg_lineages l))" using assms(2) by auto
  moreover have "set (map ln_response_id (lg_lineages (record_source c None l))) \<subseteq>
      insert None (set (map ln_response_id (lg_lineages l)))" for c
  proof -
    from assms(1) have "length (filter ln_completed (lg_lineages l)) \<le> MAX_COMPLETED_RESPONSE_LINEAGES"
      by (simp add: ledger_inv_def)
    then consider "map ln_response_id (lg_lineages (record_source c None l)) = map ln_response_id (lg_lineages l)"
      | "map ln_response_id (lg_lineages (record_source c None l)) = map ln_response_id (lg_lineages l) @ [None]"
      using record_source_responses by blast
    then show ?thesis by cases (auto simp del: set_map)
  qed
  ultimately have "Some r \<notin> set (map ln_response_id (lg_lineages (record_source c None l)))" for c
    by blast
  then have "\<forall>x\<in>set (lg_lineages (record_source c None l)). ln_response_id x \<noteq> Some r" for c
    by (metis imageI list.set_map)
  with assms(2) show ?thesis by (auto simp: bind_materialize_def split: option.split)
qed

lemma bind_materialize_exact [simp]: "bind_materialize (Some i) r h f l = l"
  by (simp add: bind_materialize_def)

lemma lineages_ok_fill:
  assumes ok: "lineages_ok g ls" and i: "i < length ls"
    and n: "normalized_id r = r" "normalized_id s = s" "normalized_id t = t"
    and fresh: "ln_response_id (ls ! i) = None \<Longrightarrow> r \<noteq> None \<Longrightarrow> \<forall>x\<in>set ls. ln_response_id x \<noteq> r"
  shows "lineages_ok g (ls[i := bind_fill r s t (ls ! i)])"
proof -
  let ?x = "bind_fill r s t (ls ! i)"
  from ok i have "lineage_normalized (ls ! i)" and "ln_session_generation (ls ! i) = g"
    by (auto simp: lineages_ok_def)
  with n have x: "lineage_normalized ?x" "ln_session_generation ?x = g"
    by (auto simp: lineage_normalized_def bind_fill_def or_opt_def split: option.split)
  have "count_list (map ln_response_id (ls[i := ?x])) (Some q) \<le> 1" for q
  proof (cases "ln_response_id ?x = Some q \<and> ln_response_id (ls ! i) \<noteq> Some q")
    case True
    then have "ln_response_id (ls ! i) = None" "r = Some q"
      by (auto simp: bind_fill_def or_opt_def split: option.splits)
    with fresh have "Some q \<notin> set (map ln_response_id ls)" by auto
    then have "count_list (map ln_response_id ls) (Some q) = 0" by (simp add: count_list_0_iff)
    then show ?thesis
      using count_list_update [of "map ln_response_id ls" i "ln_response_id ?x" "Some q"]
      by (simp add: map_update split: if_splits)
  next
    case False
    then show ?thesis
      using count_list_update [of "map ln_response_id ls" i "ln_response_id ?x" "Some q"] ok i
      by (auto simp: map_update lineages_ok_def unique_responses_def intro: le_trans split: if_splits)
  qed
  with ok x show ?thesis
    by (auto simp: lineages_ok_def unique_responses_def dest!: set_update_subset_insert [THEN subsetD])
qed

lemma bind_response_cases:
  assumes "bind_response r s t f l = (y, l')"
  obtains (rejected) "bind_lookup (normalized_id r) (normalized_id s) (normalized_id t) (lg_lineages l) = None"
      "y = None" "l' = l"
    | (unowned) e where
      "bind_lookup (normalized_id r) (normalized_id s) (normalized_id t) (lg_lineages l) = Some e"
      "y = None"
      "l' = bind_materialize e (normalized_id r) (is_some (normalized_id s) \<or> is_some (normalized_id t)) f l"
    | (bound) e l1 i where
      "bind_lookup (normalized_id r) (normalized_id s) (normalized_id t) (lg_lineages l) = Some e"
      "l1 = bind_materialize e (normalized_id r) (is_some (normalized_id s) \<or> is_some (normalized_id t)) f l"
      "bind_index e (normalized_id r) (is_some (normalized_id s) \<or> is_some (normalized_id t)) f (lg_lineages l1) = Some i"
      "y = Some (bind_fill (normalized_id r) (normalized_id s) (normalized_id t) (lg_lineages l1 ! i))"
      "l' = l1\<lparr>lg_lineages := (lg_lineages l1)[i := bind_fill (normalized_id r) (normalized_id s) (normalized_id t) (lg_lineages l1 ! i)]\<rparr>"
  using assms by (auto simp: bind_response_def Let_def split: option.splits)

lemma bind_response_fresh:
  assumes inv: "ledger_inv l"
    and look: "bind_lookup r s t (lg_lineages l) = Some e"
    and l1: "l1 = bind_materialize e r h f l"
    and idx: "bind_index e r h f (lg_lineages l1) = Some i"
  shows "i < length (lg_lineages l1)"
    and "ln_response_id (lg_lineages l1 ! i) = None \<Longrightarrow> r \<noteq> None \<Longrightarrow>
           \<forall>x\<in>set (lg_lineages l1). ln_response_id x \<noteq> r"
proof -
  have "i < length (lg_lineages l1) \<and> (ln_response_id (lg_lineages l1 ! i) = None \<longrightarrow> r \<noteq> None \<longrightarrow>
           (\<forall>x\<in>set (lg_lineages l1). ln_response_id x \<noteq> r))"
  proof (cases e)
    case (Some j)
    then have "j = i" using bind_index_Some [OF idx] by auto
    with Some look l1 bind_lookup_exact [of r s t "lg_lineages l" i] show ?thesis by auto
  next
    case None
    then have "r \<noteq> None \<Longrightarrow> \<forall>x\<in>set (lg_lineages l). ln_response_id x \<noteq> r"
      using look bind_lookup_fresh by blast
    then show ?thesis
      using None bind_index_Some [OF idx] l1 bind_materialize_responses [OF inv] by (cases r) auto
  qed
  then show "i < length (lg_lineages l1)" and "ln_response_id (lg_lineages l1 ! i) = None \<Longrightarrow> r \<noteq> None \<Longrightarrow>
           \<forall>x\<in>set (lg_lineages l1). ln_response_id x \<noteq> r" by auto
qed

lemma bind_response_inv:
  assumes inv: "ledger_inv l"
  shows "ledger_inv (snd (bind_response r s t f l))"
proof -
  obtain y l' where b: "bind_response r s t f l = (y, l')" by fastforce
  from b have "ledger_inv l'"
  proof (cases rule: bind_response_cases)
    case (bound e l1 i)
    let ?x = "bind_fill (normalized_id r) (normalized_id s) (normalized_id t) (lg_lineages l1 ! i)"
    have inv1: "ledger_inv l1" using inv bound(2) by (simp add: bind_materialize_inv)
    have i: "i < length (lg_lineages l1)" by (rule bind_response_fresh(1) [OF inv bound(1-3)])
    have "lineages_ok (lg_session_generation l1) ((lg_lineages l1)[i := ?x])"
      using inv1 i bind_response_fresh(2) [OF inv bound(1-3)]
      by (intro lineages_ok_fill) (auto simp: ledger_inv_def)
    moreover have "map ln_completed ((lg_lineages l1)[i := ?x]) = map ln_completed (lg_lineages l1)"
      using i by (simp add: map_update bind_fill_def list_update_same_conv)
    then have "length (filter ln_completed ((lg_lineages l1)[i := ?x])) = length (filter ln_completed (lg_lineages l1))"
      by (simp only: length_filter_as_map [where p = ln_completed])
    ultimately show ?thesis using inv1 bound(5) by (simp add: ledger_inv_def)
  qed (use inv in \<open>auto intro: bind_materialize_inv\<close>)
  with b show ?thesis by simp
qed

lemma ledger_step_inv: "ledger_inv l \<Longrightarrow> ledger_inv (ledger_step l e)"
  by (cases e) (simp_all add: set_generation_inv record_source_inv discard_unanswered_source_inv
      bind_response_inv complete_response_inv, simp add: ledger_clear_def ledger_inv_def)

interpretation ledger: invariant_system ledger_default ledger_step ledger_inv
  by unfold_locales (simp_all add: ledger_inv_default ledger_step_inv)

section \<open>Properties\<close>

lemmas ledger_eval = bind_response_def bind_lookup_def bind_conflict_def bind_materialize_def
  bind_index_def bind_fill_def record_source_def set_generation_def ledger_default_def
  complete_response_def prune_completed_lineages.simps normalized_id_def trim_def trim_start_def
  trim_end_def is_whitespace_def Let_def MAX_COMPLETED_RESPONSE_LINEAGES_def

lemma record_source_no_item:
  "lg_lineages (record_source c None l) = lg_lineages l \<or>
   lg_lineages (record_source c None l) = prune_completed_lineages (lg_lineages l @
     [\<lparr>ln_session_generation = lg_session_generation l, ln_cue_id = c, ln_source_item_id = None,
       ln_translation_item_id = None, ln_response_id = None, ln_completed = False\<rparr>])"
proof -
  have "update_first (\<lambda>x. ln_cue_id x = c) (\<lambda>x. x\<lparr>ln_cue_id := c\<rparr>) xs = xs"
    for xs :: "ResponseLineage list"
    by (induction xs) auto
  moreover have "(\<lambda>x::ResponseLineage. x\<lparr>ln_cue_id := c, ln_source_item_id :=
      (if ln_source_item_id x = None then None else ln_source_item_id x)\<rparr>) = (\<lambda>x. x\<lparr>ln_cue_id := c\<rparr>)"
    by (rule ext) simp
  ultimately show ?thesis by (simp add: record_source_def Let_def)
qed

lemma bind_materialize_keeps:
  assumes "ledger_inv l"
  shows "\<exists>ys. lg_lineages (bind_materialize e r h f l) = lg_lineages l @ ys"
proof -
  have "\<exists>ys. lg_lineages (record_source c None l) = lg_lineages l @ ys" for c
    using assms record_source_no_item [of c l] by (auto simp: ledger_inv_def prune_id)
  then show ?thesis by (auto simp: bind_materialize_def split: option.split)
qed

definition lineage_extends :: "ResponseLineage \<Rightarrow> ResponseLineage \<Rightarrow> bool" where
  "lineage_extends x y \<longleftrightarrow>
     ln_session_generation y = ln_session_generation x \<and> ln_cue_id y = ln_cue_id x \<and>
     ln_completed y = ln_completed x \<and>
     (ln_source_item_id x \<noteq> None \<longrightarrow> ln_source_item_id y = ln_source_item_id x) \<and>
     (ln_translation_item_id x \<noteq> None \<longrightarrow> ln_translation_item_id y = ln_translation_item_id x) \<and>
     (ln_response_id x \<noteq> None \<longrightarrow> ln_response_id y = ln_response_id x)"

lemma bind_fill_extends: "lineage_extends x (bind_fill r s t x)"
  by (auto simp: lineage_extends_def bind_fill_def or_opt_def split: option.split)

lemma lineage_extends_refl [simp]: "lineage_extends x x"
  by (simp add: lineage_extends_def)

text \<open>
  C4: After any sequence of calls on a new ledger, all its lineages belong to the current session
  generation, at most 64 of them are completed, every identifier is normalised, and no response
  identifier is bound to two lineages.
\<close>

theorem ledger_runs_consistent: "ledger_inv (runs ledger_step ledger_default ops)"
  by (rule ledger.inv_reachable)

text \<open>
  C5: A binding for an event that names a source item or an output item is exact: the lineage
  it returns carries every identifier the event carried, so the event is never given to the cue
  at the head of the queue.
\<close>

theorem bind_item_lineage_exact:
  assumes b: "bind_response r s t f l = (Some x, l')"
    and item: "normalized_id s \<noteq> None \<or> normalized_id t \<noteq> None"
  shows "(normalized_id s \<noteq> None \<longrightarrow> ln_source_item_id x = normalized_id s) \<and>
         (normalized_id t \<noteq> None \<longrightarrow> ln_translation_item_id x = normalized_id t) \<and>
         (normalized_id r \<noteq> None \<longrightarrow> ln_response_id x = normalized_id r)"
  using b
proof (cases rule: bind_response_cases)
  case (bound e l1 i)
  with item have "e \<noteq> None" using bind_lookup_fresh by metis
  then have e: "e = Some i" using bind_index_Some [OF bound(3)] by auto
  with bound have "\<not> bind_conflict (normalized_id r) (normalized_id s) (normalized_id t) (lg_lineages l ! i)"
    and x: "x = bind_fill (normalized_id r) (normalized_id s) (normalized_id t) (lg_lineages l ! i)"
    by (auto dest: bind_lookup_exact(2))
  then show ?thesis
    by (auto simp: bind_conflict_def bind_fill_def or_opt_def is_some_and_def split: option.splits)
qed simp_all

theorem bind_item_lineage_exact_witness:
  "let l = record_source (str ''cue-two'') (Some (str ''source-two''))
             (record_source (str ''cue-one'') (Some (str ''source-one'')) ledger_default);
       x = the (fst (bind_response (Some (str ''resp'')) (Some (str '' source-two '')) None None l))
   in ln_source_item_id x = Some (str ''source-two'') \<and> ln_response_id x = Some (str ''resp'')"
proof -
  define l where "l = record_source (str ''cue-two'') (Some (str ''source-two''))
             (record_source (str ''cue-one'') (Some (str ''source-one'')) ledger_default)"
  define b where "b = bind_response (Some (str ''resp'')) (Some (str '' source-two '')) None None l"
  have some: "fst b = Some (the (fst b))" unfolding b_def l_def by (simp add: ledger_eval)
  have norm: "normalized_id (Some (str '' source-two '')) = Some (str ''source-two'')"
    "normalized_id (Some (str ''resp'')) = Some (str ''resp'')" by (simp_all add: ledger_eval)
  from some have "bind_response (Some (str ''resp'')) (Some (str '' source-two '')) None None l =
      (Some (the (fst b)), snd b)"
    by (metis b_def prod.collapse)
  from bind_item_lineage_exact [OF this] norm show ?thesis
    by (simp add: Let_def l_def [symmetric] b_def del: str_def)
qed

text \<open>
  Binding a response never changes an identifier, a cue or a completion flag that a lineage
  already has; it only fills identifiers that were absent. Nothing is removed.
\<close>

theorem bind_never_rebinds:
  assumes inv: "ledger_inv l" and i: "i < length (lg_lineages l)"
  shows "i < length (lg_lineages (snd (bind_response r s t f l))) \<and>
         lineage_extends (lg_lineages l ! i) (lg_lineages (snd (bind_response r s t f l)) ! i)"
proof -
  obtain y l' where b: "bind_response r s t f l = (y, l')" by fastforce
  from b show ?thesis
  proof (cases rule: bind_response_cases)
    case (unowned e)
    then show ?thesis using bind_materialize_keeps [OF inv] i b by (metis lineage_extends_refl
          length_append nth_append snd_conv trans_less_add1)
  next
    case (bound e l1 j)
    obtain ys where ys: "lg_lineages l1 = lg_lineages l @ ys"
      using bind_materialize_keeps [OF inv] bound(2) by metis
    with i have "lg_lineages l1 ! i = lg_lineages l ! i" "i < length (lg_lineages l1)"
      by (auto simp: nth_append)
    with bound(5) b show ?thesis by (cases "i = j") (auto simp: bind_fill_extends)
  qed (use b i in auto)
qed

theorem bind_never_rebinds_witness:
  "let l = snd (bind_response (Some (str ''r1'')) None None (Some (str ''cue'')) ledger_default);
       l' = snd (bind_response (Some (str ''r1'')) None (Some (str ''t1'')) None l)
   in ln_response_id (lg_lineages l ! 0) = Some (str ''r1'') \<and>
      lineage_extends (lg_lineages l ! 0) (lg_lineages l' ! 0)"
proof -
  define l where "l = snd (bind_response (Some (str ''r1'')) None None (Some (str ''cue'')) ledger_default)"
  have inv: "ledger_inv l" unfolding l_def by (rule bind_response_inv [OF ledger_inv_default])
  have i: "0 < length (lg_lineages l)" unfolding l_def by (simp add: ledger_eval)
  have r: "ln_response_id (lg_lineages l ! 0) = Some (str ''r1'')" unfolding l_def by (simp add: ledger_eval)
  show ?thesis
    using bind_never_rebinds [OF inv i, of "Some (str ''r1'')" None "Some (str ''t1'')" None] r
    by (simp add: Let_def l_def [symmetric] del: str_def)
qed

text \<open>
  Recording a source evicts only completed lineages, the oldest first: a call that finds no
  lineage to update keeps all unfinished lineages in order with the new one at the end, and of
  the completed ones exactly the last 64.
\<close>

theorem record_source_keeps_unfinished:
  assumes "\<forall>x\<in>set (lg_lineages l). ln_cue_id x \<noteq> c \<and>
             (normalized_id s = None \<or> ln_source_item_id x \<noteq> normalized_id s)"
  shows "filter (\<lambda>x. \<not> ln_completed x) (lg_lineages (record_source c s l)) =
           filter (\<lambda>x. \<not> ln_completed x) (lg_lineages l) @
           [\<lparr>ln_session_generation = lg_session_generation l, ln_cue_id = c,
             ln_source_item_id = normalized_id s, ln_translation_item_id = None,
             ln_response_id = None, ln_completed = False\<rparr>] \<and>
         filter ln_completed (lg_lineages (record_source c s l)) =
           drop (length (filter ln_completed (lg_lineages l)) - 64) (filter ln_completed (lg_lineages l))"
proof -
  have "\<not> list_ex (\<lambda>x. ln_cue_id x = c \<or> (is_some (normalized_id s) \<and> ln_source_item_id x = normalized_id s)) (lg_lineages l)"
    using assms by (auto simp: list_ex_iff)
  then show ?thesis
    by (simp add: record_source_def Let_def prune_unfinished prune_completed
        MAX_COMPLETED_RESPONSE_LINEAGES_def)
qed

theorem record_source_keeps_unfinished_witness:
  "filter (\<lambda>x. \<not> ln_completed x) (lg_lineages (record_source (str ''c'') None ledger_default)) =
     [\<lparr>ln_session_generation = 0, ln_cue_id = str ''c'', ln_source_item_id = None,
       ln_translation_item_id = None, ln_response_id = None, ln_completed = False\<rparr>]"
  using record_source_keeps_unfinished [of ledger_default "str ''c''" None]
  by (simp add: ledger_default_def)

text \<open>
  After the session generation changes, an event that names an item of an earlier session is
  rejected and leaves the ledger unchanged.
\<close>

theorem generation_change_rejects_items:
  assumes "lg_session_generation l \<noteq> g" and "normalized_id s \<noteq> None \<or> normalized_id t \<noteq> None"
  shows "bind_response r s t f (set_generation g l) = (None, set_generation g l)"
  using assms by (auto simp: bind_response_def set_generation_def bind_lookup_def Let_def)

theorem generation_change_rejects_items_witness:
  "bind_response (Some (str ''late'')) (Some (str ''old'')) None None
     (set_generation 2 (record_source (str ''cue'') (Some (str ''old'')) (set_generation 1 ledger_default))) =
   (None, \<lparr>lg_session_generation = 2, lg_lineages = []\<rparr>)"
proof -
  let ?l = "record_source (str ''cue'') (Some (str ''old'')) (set_generation 1 ledger_default)"
  have g: "lg_session_generation ?l \<noteq> 2" by (simp add: ledger_eval)
  have n: "normalized_id (Some (str ''old'')) \<noteq> None \<or> normalized_id None \<noteq> None" by (simp add: ledger_eval)
  have "set_generation 2 ?l = \<lparr>lg_session_generation = 2, lg_lineages = []\<rparr>" by (simp add: ledger_eval)
  with generation_change_rejects_items [OF g n, of "Some (str ''late'')" None] show ?thesis
    by (simp del: str_def)
qed

end
