(* ===== verification/Response_Lifecycle.thy ===== *)
theory Response_Lifecycle
  imports Omni_Prelude
begin

text \<open>
  The stall detector of a provider response (\<open>audio/omni/response_lifecycle.rs\<close>): deadlines from
  the provider timeout, the lifecycle record with its operations, and the action the session takes
  at a given time. The lemmas show the invariant of the record, when an action is due and when it
  is not, and that a cancellation is asked for at most once and always resolved by a reconnect.
\<close>

section \<open>Deadlines\<close>

definition MIN_BASE_TIMEOUT :: duration where "MIN_BASE_TIMEOUT = from_secs 5"
definition MAX_BASE_TIMEOUT :: duration where "MAX_BASE_TIMEOUT = from_secs 30"
definition MIN_TOTAL_TIMEOUT :: duration where "MIN_TOTAL_TIMEOUT = from_secs 30"
definition MAX_TOTAL_TIMEOUT :: duration where "MAX_TOTAL_TIMEOUT = from_secs 90"
definition OMNI_CANCEL_GRACE :: duration where "OMNI_CANCEL_GRACE = from_secs 2"

lemmas timeout_defs = MIN_BASE_TIMEOUT_def MAX_BASE_TIMEOUT_def MIN_TOTAL_TIMEOUT_def
  MAX_TOTAL_TIMEOUT_def OMNI_CANCEL_GRACE_def duration_simps

datatype ResponseStallAction = NoAction | Cancel rstring | Reconnect

record ResponseDeadlineBudget =
  first_output :: duration
  no_progress :: duration
  total_budget :: duration

definition from_provider_timeout_ms :: "nat \<Rightarrow> ResponseDeadlineBudget" where
  "from_provider_timeout_ms timeout_ms =
     (let base = clamp MIN_BASE_TIMEOUT MAX_BASE_TIMEOUT (from_millis timeout_ms)
      in \<lparr>first_output = base, no_progress = base,
          total_budget = clamp MIN_TOTAL_TIMEOUT MAX_TOTAL_TIMEOUT (base * 3)\<rparr>)"

section \<open>The lifecycle record\<close>

record ResponseLifecycle =
  rl_active :: bool
  rl_response_id :: "rstring option"
  rl_started_at :: "instant option"
  rl_last_progress_at :: "instant option"
  rl_output_observed :: bool
  rl_first_output_deferred :: bool
  rl_cancel_sent_at :: "instant option"

definition lifecycle_default :: ResponseLifecycle where
  "lifecycle_default = \<lparr>rl_active = False, rl_response_id = None, rl_started_at = None,
     rl_last_progress_at = None, rl_output_observed = False, rl_first_output_deferred = False,
     rl_cancel_sent_at = None\<rparr>"

definition begin_with_input_state ::
  "rstring option \<Rightarrow> instant \<Rightarrow> bool \<Rightarrow> ResponseLifecycle \<Rightarrow> ResponseLifecycle" where
  "begin_with_input_state response_id now defer_first_output x =
     (let response_id = normalized_id response_id
      in if rl_active x
         then (if rl_response_id x = None then x\<lparr>rl_response_id := response_id\<rparr> else x)
         else x\<lparr>rl_active := True, rl_response_id := response_id, rl_started_at := Some now,
                rl_last_progress_at := None, rl_output_observed := False,
                rl_first_output_deferred := defer_first_output, rl_cancel_sent_at := None\<rparr>)"

definition begin_response :: "rstring option \<Rightarrow> instant \<Rightarrow> ResponseLifecycle \<Rightarrow> ResponseLifecycle" where
  "begin_response response_id now x = begin_with_input_state response_id now False x"

definition progress :: "rstring option \<Rightarrow> instant \<Rightarrow> ResponseLifecycle \<Rightarrow> ResponseLifecycle" where
  "progress response_id now x =
     (begin_response response_id now x)\<lparr>rl_output_observed := True,
        rl_first_output_deferred := False, rl_last_progress_at := Some now\<rparr>"

definition release_deferred_first_output :: "instant \<Rightarrow> ResponseLifecycle \<Rightarrow> ResponseLifecycle" where
  "release_deferred_first_output now x =
     (if rl_active x \<and> \<not> rl_output_observed x \<and> rl_first_output_deferred x
      then x\<lparr>rl_first_output_deferred := False, rl_started_at := Some now\<rparr> else x)"

definition complete :: "rstring option \<Rightarrow> ResponseLifecycle \<Rightarrow> ResponseLifecycle" where
  "complete response_id x =
     (let response_id = normalized_id response_id
      in if is_some response_id \<and> is_some (rl_response_id x) \<and> response_id \<noteq> rl_response_id x
         then x else lifecycle_default)"

definition action ::
  "instant \<Rightarrow> ResponseDeadlineBudget \<Rightarrow> bool \<Rightarrow> ResponseLifecycle \<Rightarrow> ResponseStallAction" where
  "action now budget allow_cancel x =
     (if \<not> rl_active x then NoAction
      else case rl_cancel_sent_at x of
        Some cancel_sent_at \<Rightarrow>
          if now - cancel_sent_at \<ge> OMNI_CANCEL_GRACE then Reconnect else NoAction
      | None \<Rightarrow>
          (case rl_started_at x of
             None \<Rightarrow> NoAction
           | Some started_at \<Rightarrow>
               if \<not> rl_output_observed x \<and> rl_first_output_deferred x then NoAction
               else
                 let progress_expired =
                   (if rl_output_observed x
                    then is_some_and (rl_last_progress_at x) (\<lambda>p. now - p \<ge> no_progress budget)
                    else now - started_at \<ge> first_output budget)
                 in if \<not> progress_expired then NoAction
                    else if allow_cancel \<and> is_some (rl_response_id x)
                    then Cancel (the (rl_response_id x))
                    else Reconnect))"

definition mark_cancel_sent :: "instant \<Rightarrow> ResponseLifecycle \<Rightarrow> ResponseLifecycle" where
  "mark_cancel_sent now x = (if rl_cancel_sent_at x = None then x\<lparr>rl_cancel_sent_at := Some now\<rparr> else x)"

definition lifecycle_clear :: "ResponseLifecycle \<Rightarrow> ResponseLifecycle" where
  "lifecycle_clear x = lifecycle_default"

lemmas lifecycle_defs [component_simps] = begin_with_input_state_def begin_response_def progress_def
  release_deferred_first_output_def complete_def mark_cancel_sent_def lifecycle_clear_def

datatype lifecycle_op =
    Begin "rstring option" instant bool
  | Progress "rstring option" instant
  | ReleaseDeferred instant
  | Complete "rstring option"
  | MarkCancelSent instant
  | ClearLifecycle

fun lifecycle_step :: "ResponseLifecycle \<Rightarrow> lifecycle_op \<Rightarrow> ResponseLifecycle" where
  "lifecycle_step x (Begin r now d) = begin_with_input_state r now d x"
| "lifecycle_step x (Progress r now) = progress r now x"
| "lifecycle_step x (ReleaseDeferred now) = release_deferred_first_output now x"
| "lifecycle_step x (Complete r) = complete r x"
| "lifecycle_step x (MarkCancelSent now) = mark_cancel_sent now x"
| "lifecycle_step x ClearLifecycle = lifecycle_clear x"

section \<open>Invariant\<close>

text \<open>
  An active lifecycle has a start time, has a progress time exactly when output was observed, and
  defers its first output only before there is any; an inactive one carries no response at all.
\<close>

definition lifecycle_inv :: "ResponseLifecycle \<Rightarrow> bool" where
  "lifecycle_inv x \<longleftrightarrow>
     (if rl_active x
      then rl_started_at x \<noteq> None \<and> (rl_output_observed x \<longleftrightarrow> rl_last_progress_at x \<noteq> None) \<and>
           (rl_first_output_deferred x \<longrightarrow> \<not> rl_output_observed x)
      else x\<lparr>rl_cancel_sent_at := None\<rparr> = lifecycle_default)"

lemma lifecycle_step_inv: "lifecycle_inv x \<Longrightarrow> lifecycle_inv (lifecycle_step x e)"
  by (cases e) (auto simp: lifecycle_inv_def component_simps lifecycle_default_def Let_def)

lemma lifecycle_inv_default: "lifecycle_inv lifecycle_default"
  by (simp add: lifecycle_inv_def lifecycle_default_def)

interpretation lifecycle: invariant_system lifecycle_default lifecycle_step lifecycle_inv
  by unfold_locales (simp_all add: lifecycle_inv_default lifecycle_step_inv)

section \<open>Properties\<close>

text \<open>The time of the last sign of life the detector counts from.\<close>

definition last_sign_of_life :: "ResponseLifecycle \<Rightarrow> instant" where
  "last_sign_of_life x =
     (if rl_output_observed x then the (rl_last_progress_at x) else the (rl_started_at x))"

definition stall_deadline :: "ResponseDeadlineBudget \<Rightarrow> ResponseLifecycle \<Rightarrow> duration" where
  "stall_deadline budget x = (if rl_output_observed x then no_progress budget else first_output budget)"

lemma action_no_cancel_pending:
  assumes "lifecycle_inv x" and "rl_active x" and "rl_cancel_sent_at x = None"
  shows "action now budget ac x =
    (if rl_first_output_deferred x \<or> now - last_sign_of_life x < stall_deadline budget x then NoAction
     else if ac \<and> rl_response_id x \<noteq> None then Cancel (the (rl_response_id x)) else Reconnect)"
  using assms
  by (auto simp: action_def lifecycle_inv_def last_sign_of_life_def stall_deadline_def Let_def
      is_some_and_iff split: option.split)

lemma budget_bounds:
  "from_secs 5 \<le> first_output (from_provider_timeout_ms t)"
  "first_output (from_provider_timeout_ms t) \<le> from_secs 30"
  "no_progress (from_provider_timeout_ms t) = first_output (from_provider_timeout_ms t)"
  by (auto simp: from_provider_timeout_ms_def Let_def timeout_defs clamp_def)

lemma stall_deadline_bounds:
  "from_secs 5 \<le> stall_deadline (from_provider_timeout_ms t) x \<and>
   stall_deadline (from_provider_timeout_ms t) x \<le> from_secs 30"
  using budget_bounds [of t] by (simp add: stall_deadline_def)

text \<open>
  In every reachable state of an active response whose first output is not deferred and for
  which no cancellation was sent, the detector asks for an action no earlier than 5 s and no later
  than 30 s after the last sign of life, whatever timeout the provider is configured with; the
  action cancels the response if that is allowed and its identifier is known, and otherwise
  reconnects.
\<close>

theorem stall_detection_window:
  assumes "x = runs lifecycle_step lifecycle_default ops"
    and "rl_active x" and "rl_cancel_sent_at x = None" and "\<not> rl_first_output_deferred x"
  shows "(now - last_sign_of_life x < from_secs 5 \<longrightarrow>
            action now (from_provider_timeout_ms t) ac x = NoAction) \<and>
         (now - last_sign_of_life x \<ge> from_secs 30 \<longrightarrow>
            action now (from_provider_timeout_ms t) ac x =
              (if ac \<and> rl_response_id x \<noteq> None then Cancel (the (rl_response_id x)) else Reconnect))"
proof -
  have "lifecycle_inv x" using assms(1) lifecycle.inv_reachable by simp
  then show ?thesis
    using assms(2-4) stall_deadline_bounds [of t x] action_no_cancel_pending [of x now _ ac] by auto
qed

lemmas lifecycle_eval = component_simps lifecycle_default_def normalized_id_def trim_def trim_start_def
  trim_end_def is_whitespace_def Let_def last_sign_of_life_def duration_simps

theorem stall_detection_window_witness:
  "let x = runs lifecycle_step lifecycle_default [Begin (Some (str ''r'')) 7 False]
   in action (7 + from_secs 4) (from_provider_timeout_ms 1000) True x = NoAction \<and>
      action (7 + from_secs 30) (from_provider_timeout_ms 90000) True x = Cancel (str ''r'')"
proof -
  define x where "x = runs lifecycle_step lifecycle_default [Begin (Some (str ''r'')) 7 False]"
  have h: "rl_active x" "rl_cancel_sent_at x = None" "\<not> rl_first_output_deferred x"
    "last_sign_of_life x = 7" "rl_response_id x = Some (str ''r'')"
    by (simp_all add: x_def lifecycle_eval)
  show ?thesis
    using stall_detection_window [OF x_def h(1-3), of "7 + from_secs 4" 1000 True]
      stall_detection_window [OF x_def h(1-3), of "7 + from_secs 30" 90000 True] h
    by (simp add: x_def [symmetric] duration_simps Let_def del: str_def runs_simps)
qed

definition keeps_response :: "lifecycle_op \<Rightarrow> bool" where
  "keeps_response e \<longleftrightarrow> (case e of Complete _ \<Rightarrow> False | ClearLifecycle \<Rightarrow> False | _ \<Rightarrow> True)"

lemma cancel_pending_step:
  "rl_active x \<Longrightarrow> rl_cancel_sent_at x = Some c \<Longrightarrow> keeps_response e \<Longrightarrow>
     rl_active (lifecycle_step x e) \<and> rl_cancel_sent_at (lifecycle_step x e) = Some c"
  by (cases e) (auto simp: component_simps keeps_response_def Let_def)

lemma cancel_pending_runs:
  "rl_active x \<Longrightarrow> rl_cancel_sent_at x = Some c \<Longrightarrow> \<forall>e\<in>set es. keeps_response e \<Longrightarrow>
     rl_active (runs lifecycle_step x es) \<and> rl_cancel_sent_at (runs lifecycle_step x es) = Some c"
  by (induction es arbitrary: x) (simp_all add: cancel_pending_step)

text \<open>
  C6: Once a cancellation is recorded at time \<open>c\<close>, and until the response is completed or cleared,
  no later event (further output, further marks, a second begin) makes the detector ask for another
  cancellation: it waits for two seconds from \<open>c\<close> and asks for a reconnect from then on.
\<close>

theorem cancel_once_then_reconnect:
  assumes "rl_active x" and "rl_cancel_sent_at x = None" and "\<forall>e\<in>set es. keeps_response e"
  shows "action now budget ac (runs lifecycle_step (mark_cancel_sent c x) es) =
           (if now - c \<ge> from_secs 2 then Reconnect else NoAction)"
proof -
  have "rl_active (mark_cancel_sent c x)" "rl_cancel_sent_at (mark_cancel_sent c x) = Some c"
    using assms(1,2) by (simp_all add: mark_cancel_sent_def)
  from cancel_pending_runs [OF this assms(3)] show ?thesis
    by (simp add: action_def OMNI_CANCEL_GRACE_def)
qed

theorem cancel_once_then_reconnect_witness:
  "action (from_secs 12) (from_provider_timeout_ms 5000) True
     (runs lifecycle_step (mark_cancel_sent (from_secs 10)
        (begin_response (Some (str ''r'')) 0 lifecycle_default))
        [Progress (Some (str ''r'')) (from_secs 11), MarkCancelSent (from_secs 11)]) = Reconnect"
proof -
  let ?x = "begin_response (Some (str ''r'')) 0 lifecycle_default"
  have "rl_active ?x" "rl_cancel_sent_at ?x = None" by (simp_all add: lifecycle_eval)
  from cancel_once_then_reconnect [OF this, of "[Progress (Some (str ''r'')) (from_secs 11),
      MarkCancelSent (from_secs 11)]" "from_secs 12" "from_provider_timeout_ms 5000" True "from_secs 10"]
  show ?thesis by (simp add: keeps_response_def duration_simps del: str_def runs_simps)
qed

end
