(* ===== verification/Playback_Ownership.thy ===== *)
theory Playback_Ownership
  imports Omni_Prelude
begin

text \<open>
  The ownership barrier between Desktop playback and process exclusion
  (\<open>audio/playback_ownership.rs\<close>). The state behind the mutex, one definition per critical
  section, and the operations the threads interleave as the steps of one system: whatever the
  scheduler does is a list of steps. The two blocking calls are a first critical section, a wait
  loop whose wake-ups carry the steps other threads took meanwhile, and a last critical section.
  The lemmas show that the barrier fences every permit issued before it, that a successful drain
  leaves no playback, and that a cleanup failure is never lost.
\<close>

section \<open>State\<close>

datatype PlaybackOwner = Desktop | ProcessExclusionTransition | ProcessExclusion

definition owner_as_str :: "PlaybackOwner \<Rightarrow> rstring" where
  "owner_as_str ow = (case ow of
      Desktop \<Rightarrow> str ''desktop''
    | ProcessExclusionTransition \<Rightarrow> str ''process-exclusion-transition''
    | ProcessExclusion \<Rightarrow> str ''process-exclusion'')"

record ActivePlayback =
  ap_generation :: nat
  ap_cue_id :: rstring
  ap_source :: rstring
  ap_cancelled :: bool
  ap_cleanup_failures :: "rstring list"

record PlaybackOwnershipState =
  po_owner :: PlaybackOwner
  po_generation :: nat
  po_next_permit_id :: nat
  po_active :: "ActivePlayback btree"
  po_cancellation_failures :: "rstring list"

definition ownership_default :: PlaybackOwnershipState where
  "ownership_default = \<lparr>po_owner = Desktop, po_generation = 1, po_next_permit_id = 1,
     po_active = [], po_cancellation_failures = []\<rparr>"

record DesktopPlaybackPermit =
  pm_permit_id :: nat
  pm_generation :: nat

section \<open>Error texts\<close>

definition PLAYBACK_OWNERSHIP_BARRIER_ERROR_CODE :: rstring where
  "PLAYBACK_OWNERSHIP_BARRIER_ERROR_CODE = str ''bridge.playback-ownership-barrier-failed''"

definition DESKTOP_PLAYBACK_CANCELLED_CODE :: rstring where
  "DESKTOP_PLAYBACK_CANCELLED_CODE = str ''audio.desktop-playback-ownership-cancelled''"

definition cancelled_error :: "rstring \<Rightarrow> rstring \<Rightarrow> PlaybackOwner \<Rightarrow> nat \<Rightarrow> rstring" where
  "cancelled_error cue_id source ow generation =
     DESKTOP_PLAYBACK_CANCELLED_CODE @ str '': cue='' @ cue_id @ str '' source='' @ source @
     str '' owner='' @ owner_as_str ow @ str '' generation='' @ show_nat generation"

definition barrier_error :: "rstring \<Rightarrow> rstring" where
  "barrier_error detail = PLAYBACK_OWNERSHIP_BARRIER_ERROR_CODE @ str '': '' @ detail"

definition active_playback_detail :: "PlaybackOwnershipState \<Rightarrow> rstring" where
  "active_playback_detail s = join (str '','') (map (\<lambda>(_, p).
     str ''cue='' @ ap_cue_id p @ str ''/source='' @ ap_source p @ str ''/generation='' @
     show_nat (ap_generation p)) (po_active s))"

definition desktop_playback_was_cancelled :: "rstring \<Rightarrow> bool" where
  "desktop_playback_was_cancelled error = starts_with error DESKTOP_PLAYBACK_CANCELLED_CODE"

section \<open>Critical sections\<close>

definition acquire ::
  "rstring \<Rightarrow> rstring \<Rightarrow> PlaybackOwnershipState \<Rightarrow>
   (rstring + DesktopPlaybackPermit) \<times> PlaybackOwnershipState" where
  "acquire cue_id source s =
     (if po_owner s \<noteq> Desktop
      then (Inl (cancelled_error cue_id source (po_owner s) (po_generation s)), s)
      else (let permit_id = po_next_permit_id s; generation = po_generation s
            in (Inr \<lparr>pm_permit_id = permit_id, pm_generation = generation\<rparr>,
                s\<lparr>po_next_permit_id := sat_add_u64 (po_next_permit_id s) 1,
                  po_active := btree_insert permit_id
                    \<lparr>ap_generation = generation, ap_cue_id = cue_id, ap_source = source,
                     ap_cancelled = False, ap_cleanup_failures = []\<rparr> (po_active s)\<rparr>)))"

definition validate :: "DesktopPlaybackPermit \<Rightarrow> PlaybackOwnershipState \<Rightarrow> rstring + unit" where
  "validate p s =
     (case map_of (po_active s) (pm_permit_id p) of
        None \<Rightarrow> Inl (DESKTOP_PLAYBACK_CANCELLED_CODE @ str '': playback permit is no longer active'')
      | Some a \<Rightarrow>
          if po_owner s \<noteq> Desktop \<or> ap_cancelled a \<or> ap_generation a \<noteq> pm_generation p \<or>
             po_generation s \<noteq> pm_generation p
          then Inl (cancelled_error (ap_cue_id a) (ap_source a) (po_owner s) (pm_generation p))
          else Inr ())"

definition submit :: "DesktopPlaybackPermit \<Rightarrow> (rstring + 't) \<Rightarrow> PlaybackOwnershipState \<Rightarrow> rstring + 't" where
  "submit p result s = (case validate p s of Inl e \<Rightarrow> Inl e | Inr _ \<Rightarrow> result)"

definition push_unique :: "'a \<Rightarrow> 'a list \<Rightarrow> 'a list" where
  "push_unique x xs = (if x \<in> set xs then xs else xs @ [x])"

definition record_cancellation_failure ::
  "DesktopPlaybackPermit \<Rightarrow> rstring \<Rightarrow> PlaybackOwnershipState \<Rightarrow> PlaybackOwnershipState" where
  "record_cancellation_failure p detail s =
     (case map_of (po_active s) (pm_permit_id p) of
        None \<Rightarrow> s
      | Some a \<Rightarrow>
          (let cancelled = (ap_cancelled a \<or> po_owner s \<noteq> Desktop);
               failure = str ''cue='' @ ap_cue_id a @ str '' source='' @ ap_source a @
                         str '' detail='' @ detail;
               s1 = s\<lparr>po_active := btree_insert (pm_permit_id p)
                      (a\<lparr>ap_cleanup_failures := push_unique failure (ap_cleanup_failures a)\<rparr>)
                      (po_active s)\<rparr>
           in if cancelled
              then s1\<lparr>po_cancellation_failures := push_unique failure (po_cancellation_failures s1)\<rparr>
              else s1))"

text \<open>\<open>Drop for DesktopPlaybackPermit\<close>.\<close>

definition drop_permit :: "DesktopPlaybackPermit \<Rightarrow> PlaybackOwnershipState \<Rightarrow> PlaybackOwnershipState" where
  "drop_permit p s =
     (case map_of (po_active s) (pm_permit_id p) of
        None \<Rightarrow> s
      | Some a \<Rightarrow>
          (let s1 = s\<lparr>po_active := btree_remove (pm_permit_id p) (po_active s)\<rparr>
           in if ap_cancelled a \<or> po_owner s \<noteq> Desktop
              then s1\<lparr>po_cancellation_failures :=
                      foldl (\<lambda>fs f. push_unique f fs) (po_cancellation_failures s) (ap_cleanup_failures a)\<rparr>
              else s1))"

definition release_to_desktop :: "PlaybackOwnershipState \<Rightarrow> PlaybackOwnershipState" where
  "release_to_desktop s = s\<lparr>po_owner := Desktop, po_generation := sat_add_u64 (po_generation s) 1,
     po_cancellation_failures := []\<rparr>"

text \<open>
  \<open>cancel_and_drain_for_process_exclusion\<close>: \<open>drain_begin\<close> is the part before the wait (\<open>True\<close> for
  the early return), \<open>drain_finish\<close> the part after it.
\<close>

definition drain_begin :: "PlaybackOwnershipState \<Rightarrow> bool \<times> PlaybackOwnershipState" where
  "drain_begin s =
     (if po_owner s = ProcessExclusion \<and> po_active s = [] then (True, s)
      else (False,
        if po_owner s = Desktop
        then s\<lparr>po_owner := ProcessExclusionTransition,
               po_generation := sat_add_u64 (po_generation s) 1,
               po_cancellation_failures := [],
               po_active := btree_map (\<lambda>a. a\<lparr>ap_cancelled := True\<rparr>) (po_active s)\<rparr>
        else s))"

definition drain_finish :: "PlaybackOwnershipState \<Rightarrow> (rstring + unit) \<times> PlaybackOwnershipState" where
  "drain_finish s =
     (if po_cancellation_failures s \<noteq> []
      then (Inl (barrier_error (str ''Desktop playback cancellation failed: '' @
                   join (str '' | '') (po_cancellation_failures s))), s)
      else (Inr (), s\<lparr>po_owner := ProcessExclusion\<rparr>))"

definition matches_playback :: "rstring \<Rightarrow> rstring \<Rightarrow> ActivePlayback \<Rightarrow> bool" where
  "matches_playback cue_id source a \<longleftrightarrow> ap_cue_id a = cue_id \<and> ap_source a = source"

definition has_matching :: "rstring \<Rightarrow> rstring \<Rightarrow> PlaybackOwnershipState \<Rightarrow> bool" where
  "has_matching cue_id source s = list_ex (\<lambda>(_, a). matches_playback cue_id source a) (po_active s)"

definition cancel_matching_begin ::
  "rstring \<Rightarrow> rstring \<Rightarrow> PlaybackOwnershipState \<Rightarrow> bool \<times> PlaybackOwnershipState" where
  "cancel_matching_begin cue_id source s =
     (has_matching cue_id source s,
      s\<lparr>po_active := btree_map (\<lambda>a. if matches_playback cue_id source a
                                   then a\<lparr>ap_cancelled := True\<rparr> else a) (po_active s)\<rparr>)"

section \<open>Interleavings\<close>

datatype own_op =
    OpAcquire rstring rstring
  | OpSubmit DesktopPlaybackPermit
  | OpRecordFailure DesktopPlaybackPermit rstring
  | OpDrop DesktopPlaybackPermit
  | OpRelease
  | OpDrainBegin
  | OpDrainFinish
  | OpCancelMatching rstring rstring

text \<open>A step of some thread. The last section of a drain runs only when nothing is active.\<close>

fun own_step :: "PlaybackOwnershipState \<Rightarrow> own_op \<Rightarrow> PlaybackOwnershipState" where
  "own_step s (OpAcquire cue_id source) = snd (acquire cue_id source s)"
| "own_step s (OpSubmit p) = s"
| "own_step s (OpRecordFailure p detail) = record_cancellation_failure p detail s"
| "own_step s (OpDrop p) = drop_permit p s"
| "own_step s OpRelease = release_to_desktop s"
| "own_step s OpDrainBegin = snd (drain_begin s)"
| "own_step s OpDrainFinish = (if po_active s = [] then snd (drain_finish s) else s)"
| "own_step s (OpCancelMatching cue_id source) = snd (cancel_matching_begin cue_id source s)"

text \<open>
  A wake-up of \<open>Condvar::wait_timeout\<close>: the time remaining before the wait, whether the wait timed
  out, and the steps other threads took while the lock was released. \<open>None\<close> is a call that is
  still waiting after the given wake-ups.
\<close>

type_synonym wakeup = "duration \<times> bool \<times> own_op list"

definition drain_timeout_error :: "PlaybackOwnershipState \<Rightarrow> rstring" where
  "drain_timeout_error s = barrier_error
     (str ''timed out waiting for Desktop playback to drain; active='' @ active_playback_detail s)"

fun drain_wait :: "PlaybackOwnershipState \<Rightarrow> wakeup list \<Rightarrow> ((rstring + unit) \<times> PlaybackOwnershipState) option" where
  "drain_wait s ws =
     (if po_active s = [] then Some (drain_finish s)
      else case ws of
        [] \<Rightarrow> None
      | (remaining, timed_out, others) # ws' \<Rightarrow>
          if remaining = 0 then Some (Inl (drain_timeout_error s), s)
          else (let s' = runs own_step s others
                in if timed_out \<and> po_active s' \<noteq> [] then Some (Inl (drain_timeout_error s'), s')
                   else drain_wait s' ws'))"

declare drain_wait.simps [simp del]

definition cancel_and_drain_for_process_exclusion ::
  "wakeup list \<Rightarrow> PlaybackOwnershipState \<Rightarrow> ((rstring + unit) \<times> PlaybackOwnershipState) option" where
  "cancel_and_drain_for_process_exclusion ws s =
     (case drain_begin s of
        (True, s') \<Rightarrow> Some (Inr (), s')
      | (False, s') \<Rightarrow> drain_wait s' ws)"

definition run_after_process_exclusion_drain ::
  "wakeup list \<Rightarrow> (PlaybackOwnershipState \<Rightarrow> (rstring + 't) \<times> PlaybackOwnershipState) \<Rightarrow>
   PlaybackOwnershipState \<Rightarrow> ((rstring + 't) \<times> PlaybackOwnershipState) option" where
  "run_after_process_exclusion_drain ws after_drain s =
     (case cancel_and_drain_for_process_exclusion ws s of
        None \<Rightarrow> None
      | Some (Inl e, s') \<Rightarrow> Some (Inl e, s')
      | Some (Inr _, s') \<Rightarrow> Some (after_drain s'))"

definition matching_timeout_error :: "rstring \<Rightarrow> rstring \<Rightarrow> rstring" where
  "matching_timeout_error cue_id source = PLAYBACK_OWNERSHIP_BARRIER_ERROR_CODE @
     str '': timed out stopping cue='' @ cue_id @ str '' source='' @ source"

fun matching_wait ::
  "rstring \<Rightarrow> rstring \<Rightarrow> PlaybackOwnershipState \<Rightarrow> wakeup list \<Rightarrow>
   ((rstring + bool) \<times> PlaybackOwnershipState) option" where
  "matching_wait cue_id source s ws =
     (if \<not> has_matching cue_id source s then Some (Inr True, s)
      else case ws of
        [] \<Rightarrow> None
      | (remaining, timed_out, others) # ws' \<Rightarrow>
          if remaining = 0 then Some (Inl (matching_timeout_error cue_id source), s)
          else (let s' = runs own_step s others
                in if timed_out \<and> has_matching cue_id source s'
                   then Some (Inl (matching_timeout_error cue_id source), s')
                   else matching_wait cue_id source s' ws'))"

declare matching_wait.simps [simp del]

definition cancel_and_drain_matching ::
  "rstring \<Rightarrow> rstring \<Rightarrow> wakeup list \<Rightarrow> PlaybackOwnershipState \<Rightarrow>
   ((rstring + bool) \<times> PlaybackOwnershipState) option" where
  "cancel_and_drain_matching cue_id source ws s =
     (case cancel_matching_begin cue_id source s of
        (False, s') \<Rightarrow> Some (Inr False, s')
      | (True, s') \<Rightarrow> matching_wait cue_id source s' ws)"

definition wait_for_endpoint_poll ::
  "DesktopPlaybackPermit \<Rightarrow> own_op list \<Rightarrow> PlaybackOwnershipState \<Rightarrow>
   (rstring + unit) \<times> PlaybackOwnershipState" where
  "wait_for_endpoint_poll p others s =
     (case validate p s of
        Inl e \<Rightarrow> (Inl e, s)
      | Inr _ \<Rightarrow> (let s' = runs own_step s others in (validate p s', s')))"

lemmas own_defs [component_simps] = acquire_def record_cancellation_failure_def drop_permit_def
  release_to_desktop_def drain_begin_def drain_finish_def cancel_matching_begin_def

section \<open>The fence\<close>

text \<open>
  What a renderer relies on: a permit carries the epoch it was issued in, a submission is admitted
  only in that epoch, and no step of any thread moves the epoch back. Then a permit that is behind
  the current epoch is fenced for ever.
\<close>

locale permit_fence = monotone_system init step inv epoch
  for init :: 's and step :: "'s \<Rightarrow> 'e \<Rightarrow> 's" and inv :: "'s \<Rightarrow> bool" and epoch :: "'s \<Rightarrow> nat" +
  fixes admitted :: "'p \<Rightarrow> 's \<Rightarrow> bool"
    and permit_epoch :: "'p \<Rightarrow> nat"
  assumes admitted_epoch: "admitted p s \<Longrightarrow> epoch s = permit_epoch p"
begin

lemma fenced: "inv s \<Longrightarrow> permit_epoch p < epoch s \<Longrightarrow> \<not> admitted p (runs step s es)"
  using measure_runs [of s es] admitted_epoch [of p "runs step s es"] by auto

end

definition ownership_inv :: "PlaybackOwnershipState \<Rightarrow> bool" where
  "ownership_inv s \<longleftrightarrow> po_generation s \<le> u64_max \<and>
     (po_owner s = ProcessExclusion \<longrightarrow> po_active s = []) \<and>
     (\<forall>k a. map_of (po_active s) k = Some a \<longrightarrow>
        ap_generation a \<le> po_generation s \<and> (po_owner s \<noteq> Desktop \<longrightarrow> ap_cancelled a))"

lemma ownership_inv_default: "ownership_inv ownership_default"
  by (simp add: ownership_inv_def ownership_default_def u64_max_def)

lemma own_step_generation: "po_generation s \<le> u64_max \<Longrightarrow> po_generation s \<le> po_generation (own_step s e)"
  by (cases e) (auto simp: component_simps le_sat_add_u64 Let_def split: option.split)

lemma acquire_inv: "ownership_inv s \<Longrightarrow> ownership_inv (snd (acquire c r s))"
  by (auto simp: acquire_def ownership_inv_def Let_def split: if_splits)

lemma record_cancellation_failure_inv:
  "ownership_inv s \<Longrightarrow> ownership_inv (record_cancellation_failure p d s)"
  by (auto simp: record_cancellation_failure_def ownership_inv_def Let_def
      dest: map_of_Some_nonempty split: option.split if_splits)

lemma btree_remove_Nil [simp]: "btree_remove k [] = []"
  by (simp add: btree_remove_def)

lemma drop_permit_inv: "ownership_inv s \<Longrightarrow> ownership_inv (drop_permit p s)"
  by (auto simp: drop_permit_def ownership_inv_def Let_def split: option.split if_splits)

lemma release_to_desktop_inv: "ownership_inv s \<Longrightarrow> ownership_inv (release_to_desktop s)"
  by (auto simp: release_to_desktop_def ownership_inv_def intro: le_sat_add_u64)

lemma drain_begin_inv: "ownership_inv s \<Longrightarrow> ownership_inv (snd (drain_begin s))"
  by (auto simp: drain_begin_def ownership_inv_def intro: le_sat_add_u64)

lemma drain_finish_inv: "ownership_inv s \<Longrightarrow> po_active s = [] \<Longrightarrow> ownership_inv (snd (drain_finish s))"
  by (auto simp: drain_finish_def ownership_inv_def)

lemma cancel_matching_begin_inv:
  "ownership_inv s \<Longrightarrow> ownership_inv (snd (cancel_matching_begin c r s))"
  by (auto simp: cancel_matching_begin_def ownership_inv_def split: if_splits)

lemma own_step_inv: "ownership_inv s \<Longrightarrow> ownership_inv (own_step s e)"
  by (cases e) (simp_all add: acquire_inv record_cancellation_failure_inv drop_permit_inv
      release_to_desktop_inv drain_begin_inv drain_finish_inv cancel_matching_begin_inv)

lemma validate_ok: "validate p s = Inr () \<longleftrightarrow>
    (\<exists>a. map_of (po_active s) (pm_permit_id p) = Some a \<and> po_owner s = Desktop \<and> \<not> ap_cancelled a \<and>
         ap_generation a = pm_generation p \<and> po_generation s = pm_generation p)"
  by (auto simp: validate_def split: option.split)

interpretation own: permit_fence ownership_default own_step ownership_inv po_generation
  "\<lambda>p s. validate p s = Inr ()" pm_generation
proof unfold_locales
  fix s e
  assume "ownership_inv s"
  then show "po_generation s \<le> po_generation (own_step s e)"
    by (simp add: ownership_inv_def own_step_generation)
qed (auto simp: ownership_inv_default own_step_inv validate_ok)

section \<open>Closed ownership\<close>

text \<open>Until a release, ownership that left the Desktop does not come back to it.\<close>

lemma closed_step: "po_owner s \<noteq> Desktop \<Longrightarrow> e \<noteq> OpRelease \<Longrightarrow> po_owner (own_step s e) \<noteq> Desktop"
  by (cases e) (auto simp: component_simps Let_def split: option.split)

lemma closed_runs:
  "po_owner s \<noteq> Desktop \<Longrightarrow> OpRelease \<notin> set es \<Longrightarrow> po_owner (runs own_step s es) \<noteq> Desktop"
proof (induction es arbitrary: s)
  case (Cons e es)
  then have "po_owner (own_step s e) \<noteq> Desktop" by (intro closed_step) auto
  with Cons show ?case by simp
qed simp

lemma closed_rejects:
  assumes "po_owner s \<noteq> Desktop"
  shows "validate p s \<noteq> Inr ()" and "fst (acquire c r s) = Inl (cancelled_error c r (po_owner s) (po_generation s))"
  using assms by (auto simp: validate_ok acquire_def)

definition no_release :: "wakeup list \<Rightarrow> bool" where
  "no_release ws \<longleftrightarrow> (\<forall>(_, _, others) \<in> set ws. OpRelease \<notin> set others)"

lemma drain_wait_runs:
  assumes "drain_wait s ws = Some (res, s')"
  shows "\<exists>es. s' = runs own_step s es \<and> (no_release ws \<longrightarrow> OpRelease \<notin> set es) \<and>
           (res = Inr () \<longrightarrow>
              po_owner s' = ProcessExclusion \<and> po_active s' = [] \<and> po_cancellation_failures s' = [])"
  using assms
proof (induction s ws rule: drain_wait.induct)
  case (1 s ws)
  show ?case
  proof (cases "po_active s = []")
    case True
    with "1.prems" have d: "drain_finish s = (res, s')" by (simp add: drain_wait.simps)
    with True show ?thesis
      by (intro exI [of _ "[OpDrainFinish]"]) (auto simp: drain_finish_def split: if_splits)
  next
    case False
    then obtain remaining timed_out others ws' where ws: "ws = (remaining, timed_out, others) # ws'"
      using "1.prems" by (cases ws) (auto simp: drain_wait.simps)
    let ?s = "runs own_step s others"
    consider (stop) "res \<noteq> Inr ()" "s' = s" | (timeout) "res \<noteq> Inr ()" "s' = ?s"
      | (again) "remaining \<noteq> 0" "\<not> (timed_out \<and> po_active ?s \<noteq> [])" "drain_wait ?s ws' = Some (res, s')"
      using False "1.prems" ws 
      by (auto simp: drain_wait.simps [of s "(remaining, timed_out, others) # ws'"] Let_def
          split: if_splits)
    then show ?thesis
    proof cases
      case stop
      then show ?thesis by (intro exI [of _ "[]"]) simp
    next
      case timeout
      with ws show ?thesis by (intro exI [of _ others]) (auto simp: no_release_def)
    next
      case again
      from "1.IH" [OF False ws refl refl again(1) refl again(2,3)] ws show ?thesis
        by (elim exE) (rule_tac x = "others @ es" in exI, auto simp: no_release_def)
    qed
  qed
qed

section \<open>Cleanup failures\<close>

text \<open>A failure is pending while a live permit carries it or the barrier has already collected it.\<close>

definition pending_failure :: "rstring \<Rightarrow> PlaybackOwnershipState \<Rightarrow> bool" where
  "pending_failure f s \<longleftrightarrow> f \<in> set (po_cancellation_failures s) \<or>
     (\<exists>k a. map_of (po_active s) k = Some a \<and> f \<in> set (ap_cleanup_failures a))"

lemma set_push_unique [simp]: "set (push_unique x xs) = insert x (set xs)"
  by (auto simp: push_unique_def)

lemma set_foldl_push_unique [simp]: "set (foldl (\<lambda>fs f. push_unique f fs) xs ys) = set xs \<union> set ys"
  by (induction ys arbitrary: xs) auto

lemma pending_active: "map_of (po_active s) k = Some a \<Longrightarrow> f \<in> set (ap_cleanup_failures a) \<Longrightarrow> pending_failure f s"
  by (auto simp: pending_failure_def)

lemma pending_mono:
  assumes "pending_failure f s" and "set (po_cancellation_failures s) \<subseteq> set (po_cancellation_failures s')"
    and "\<And>k a. map_of (po_active s) k = Some a \<Longrightarrow> f \<in> set (ap_cleanup_failures a) \<Longrightarrow>
           f \<in> set (po_cancellation_failures s') \<or>
           f \<in> set (ap_cleanup_failures (the (map_of (po_active s') k))) \<and> map_of (po_active s') k \<noteq> None"
  shows "pending_failure f s'"
  using assms unfolding pending_failure_def by (metis option.collapse subsetD)

lemma pending_record: "pending_failure f s \<Longrightarrow> pending_failure f (record_cancellation_failure p d s)"
  by (rule pending_mono) (auto simp: record_cancellation_failure_def Let_def split: option.splits if_splits)

lemma pending_drop:
  "pending_failure f s \<Longrightarrow> po_owner s \<noteq> Desktop \<Longrightarrow> pending_failure f (drop_permit p s)"
  by (rule pending_mono) (auto simp: drop_permit_def Let_def split: option.splits if_splits)

lemma pending_cancel_matching:
  "pending_failure f s \<Longrightarrow> pending_failure f (snd (cancel_matching_begin c r s))"
  by (rule pending_mono) (auto simp: cancel_matching_begin_def split: if_splits)

lemma pending_step:
  assumes "pending_failure f s" and "po_owner s \<noteq> Desktop" and "e \<noteq> OpRelease"
  shows "pending_failure f (own_step s e)"
proof (cases e)
  case (OpAcquire c r)
  then show ?thesis using assms by (simp add: acquire_def)
next
  case OpDrainBegin
  then show ?thesis using assms by (simp add: drain_begin_def)
next
  case OpDrainFinish
  then show ?thesis using assms(1) by (auto simp: drain_finish_def pending_failure_def)
qed (use assms in \<open>simp_all add: pending_record pending_drop pending_cancel_matching\<close>)

lemma pending_runs:
  assumes "pending_failure f s" and "po_owner s \<noteq> Desktop" and "OpRelease \<notin> set es"
  shows "pending_failure f (runs own_step s es)"
  using assms
proof (induction es arbitrary: s)
  case (Cons e es)
  then have "pending_failure f (own_step s e)" by (intro pending_step) auto
  moreover have "po_owner (own_step s e) \<noteq> Desktop" using Cons by (intro closed_step) auto
  ultimately show ?case using Cons by simp
qed simp

section \<open>Properties\<close>

lemma drain_begin_Desktop:
  "po_owner s = Desktop \<Longrightarrow> \<exists>s1. drain_begin s = (False, s1) \<and> po_owner s1 = ProcessExclusionTransition \<and>
     po_generation s1 = sat_add_u64 (po_generation s) 1"
  by (simp add: drain_begin_def)

text \<open>
  C1: Every permit issued before process exclusion closed the Desktop owner is fenced for ever:
  after the closing section, no interleaving of steps of other threads (releases and new
  acquisitions included) leads to a state in which a submission through that permit is admitted.
\<close>

theorem barrier_fences_old_permits:
  assumes "ownership_inv s" and "po_owner s = Desktop" and "po_generation s < u64_max"
    and "pm_generation p \<le> po_generation s"
  shows "validate p (runs own_step s (OpDrainBegin # es)) \<noteq> Inr ()"
proof -
  have "pm_generation p < po_generation (own_step s OpDrainBegin)"
    using assms(2-4) by (simp add: drain_begin_def sat_add_u64_def)
  with own_step_inv [OF assms(1)] have "validate p (runs own_step (own_step s OpDrainBegin) es) \<noteq> Inr ()"
    by (rule own.fenced)
  then show ?thesis by simp
qed

lemmas ownership_eval = ownership_default_def component_simps btree_insert_def btree_remove_def
  btree_map_def Let_def sat_add_u64_def u64_max_def

theorem barrier_fences_old_permits_witness:
  "let s = snd (acquire (str ''cue'') (str ''native'') ownership_default);
       p = \<lparr>pm_permit_id = 1, pm_generation = 1\<rparr>
   in validate p s = Inr () \<and>
      validate p (runs own_step s [OpDrainBegin, OpRelease, OpAcquire (str ''new'') (str ''native'')]) \<noteq> Inr ()"
proof -
  let ?s = "snd (acquire (str ''cue'') (str ''native'') ownership_default)"
  let ?p = "\<lparr>pm_permit_id = 1, pm_generation = 1\<rparr>"
  have h: "ownership_inv ?s" "po_owner ?s = Desktop" "po_generation ?s < u64_max"
    "pm_generation ?p \<le> po_generation ?s" "validate ?p ?s = Inr ()"
    by (rule acquire_inv [OF ownership_inv_default]) (simp_all add: ownership_eval validate_def)
  show ?thesis
    using barrier_fences_old_permits [OF h(1-4), of "[OpRelease, OpAcquire (str ''new'') (str ''native'')]"] h(5)
    unfolding Let_def by blast
qed

text \<open>
  C2: When the drain for process exclusion returns successfully, no playback is active and process
  exclusion owns the output, and it stays so: until some thread releases the owner, every
  acquisition is refused and no submission through any permit is admitted.
\<close>

theorem drain_success_is_exclusive:
  assumes inv: "ownership_inv s"
    and d: "cancel_and_drain_for_process_exclusion ws s = Some (Inr (), s')"
    and es: "OpRelease \<notin> set es"
  shows "po_owner s' = ProcessExclusion \<and> po_active s' = [] \<and>
         validate p (runs own_step s' es) \<noteq> Inr () \<and>
         (\<exists>e. fst (acquire c r (runs own_step s' es)) = Inl e)"
proof -
  have c: "po_owner s' = ProcessExclusion \<and> po_active s' = []"
    using d by (auto simp: cancel_and_drain_for_process_exclusion_def drain_begin_def
        dest!: drain_wait_runs split: if_splits)
  then have "po_owner (runs own_step s' es) \<noteq> Desktop" using es by (intro closed_runs) auto
  from closed_rejects [OF this] c show ?thesis by auto
qed

theorem drain_success_is_exclusive_witness:
  "\<exists>s'. cancel_and_drain_for_process_exclusion
          [(5, False, [OpDrop \<lparr>pm_permit_id = 1, pm_generation = 1\<rparr>])]
          (snd (acquire (str ''cue'') (str ''native'') ownership_default)) = Some (Inr (), s') \<and>
        po_owner s' = ProcessExclusion \<and> po_active s' = []"
proof -
  let ?s = "snd (acquire (str ''cue'') (str ''native'') ownership_default)"
  let ?ws = "[(5::nat, False, [OpDrop \<lparr>pm_permit_id = 1, pm_generation = 1\<rparr>])]"
  have inv: "ownership_inv ?s" by (rule acquire_inv [OF ownership_inv_default])
  have "\<exists>s'. cancel_and_drain_for_process_exclusion ?ws ?s = Some (Inr (), s')"
    by (simp add: cancel_and_drain_for_process_exclusion_def drain_wait.simps ownership_eval)
  then obtain s' where d: "cancel_and_drain_for_process_exclusion ?ws ?s = Some (Inr (), s')" by blast
  from drain_success_is_exclusive [OF inv d, of "[]"] d show ?thesis by auto
qed

text \<open>
  C3: The barrier fails closed and loses no failure. If a live permit carries a cleanup failure
  when the Desktop owner is closed, and no thread releases the owner during the wait, the drain
  does not succeed; and however it ends, by failure or by timeout, the Desktop does not own the
  output afterwards.
\<close>

theorem drain_reports_cleanup_failure:
  assumes "po_owner s = Desktop" and "map_of (po_active s) k = Some a"
    and "f \<in> set (ap_cleanup_failures a)" and nr: "no_release ws"
    and d: "cancel_and_drain_for_process_exclusion ws s = Some (res, s')"
  shows "(\<exists>e. res = Inl e) \<and> po_owner s' \<noteq> Desktop"
proof -
  let ?s1 = "snd (drain_begin s)"
  have w: "drain_wait ?s1 ws = Some (res, s')"
    using d assms(1) by (simp add: cancel_and_drain_for_process_exclusion_def drain_begin_def)
  have o: "po_owner ?s1 \<noteq> Desktop" and p: "pending_failure f ?s1"
    using assms(1-3) by (auto simp: drain_begin_def intro!: pending_active [of _ k])
  from drain_wait_runs [OF w] nr obtain es where es: "s' = runs own_step ?s1 es" "OpRelease \<notin> set es"
    and ok: "res = Inr () \<longrightarrow> po_active s' = [] \<and> po_cancellation_failures s' = []" by blast
  have "po_owner s' \<noteq> Desktop" using closed_runs [OF o es(2)] es(1) by simp
  moreover have "pending_failure f s'" using pending_runs [OF p o es(2)] es(1) by simp
  then have "res \<noteq> Inr ()" using ok by (auto simp: pending_failure_def)
  ultimately show ?thesis by (cases res) auto
qed

theorem drain_reports_cleanup_failure_witness:
  "\<exists>e s'. cancel_and_drain_for_process_exclusion
          [(5, False, [OpDrop \<lparr>pm_permit_id = 1, pm_generation = 1\<rparr>])]
          (record_cancellation_failure \<lparr>pm_permit_id = 1, pm_generation = 1\<rparr> (str ''stop'')
             (snd (acquire (str ''cue'') (str ''native'') ownership_default))) = Some (Inl e, s') \<and>
        po_owner s' \<noteq> Desktop"
proof -
  let ?s = "record_cancellation_failure \<lparr>pm_permit_id = 1, pm_generation = 1\<rparr> (str ''stop'')
             (snd (acquire (str ''cue'') (str ''native'') ownership_default))"
  let ?ws = "[(5::nat, False, [OpDrop \<lparr>pm_permit_id = 1, pm_generation = 1\<rparr>])]"
  let ?f = "str ''cue=cue source=native detail=stop''"
  let ?a = "\<lparr>ap_generation = 1, ap_cue_id = str ''cue'', ap_source = str ''native'',
     ap_cancelled = False, ap_cleanup_failures = [?f]\<rparr>"
  have h: "po_owner ?s = Desktop" "map_of (po_active ?s) 1 = Some ?a" "?f \<in> set (ap_cleanup_failures ?a)"
    "no_release ?ws"
    by (simp_all add: ownership_eval push_unique_def no_release_def)
  have "cancel_and_drain_for_process_exclusion ?ws ?s \<noteq> None"
    by (simp add: cancel_and_drain_for_process_exclusion_def drain_wait.simps ownership_eval push_unique_def)
  then obtain res s' where d: "cancel_and_drain_for_process_exclusion ?ws ?s = Some (res, s')" by auto
  from drain_reports_cleanup_failure [OF h d] d show ?thesis by auto
qed

end
