(* ===== verification/Byte_Strings.thy ===== *)
theory Byte_Strings
  imports Omni_Prelude
begin

text \<open>
  Byte offsets into UTF-8 text. The sources index strings by byte, and an index that is out of
  range or inside a character panics; a slice here is an optional value whose absence is that
  panic. \<open>char_indices\<close> lists the characters with their offsets.
\<close>

fun split_at_byte :: "nat \<Rightarrow> rstring \<Rightarrow> (rstring \<times> rstring) option" where
  "split_at_byte n [] = (if n = 0 then Some ([], []) else None)"
| "split_at_byte n (c # cs) =
     (if n = 0 then Some ([], c # cs)
      else if n < len_utf8 c then None
      else map_option (\<lambda>(h, t). (c # h, t)) (split_at_byte (n - len_utf8 c) cs))"

definition slice_to :: "nat \<Rightarrow> rstring \<Rightarrow> rstring option" where
  "slice_to n s = map_option fst (split_at_byte n s)"

definition slice_from :: "nat \<Rightarrow> rstring \<Rightarrow> rstring option" where
  "slice_from n s = map_option snd (split_at_byte n s)"

text \<open>\<open>&s[a..b]\<close>.\<close>

definition slice_range :: "nat \<Rightarrow> nat \<Rightarrow> rstring \<Rightarrow> rstring option" where
  "slice_range a b s =
     (if a \<le> b then Option.bind (slice_to b s) (slice_from a) else None)"

fun char_indices_from :: "nat \<Rightarrow> rstring \<Rightarrow> (nat \<times> rchar) list" where
  "char_indices_from b [] = []"
| "char_indices_from b (c # cs) = (b, c) # char_indices_from (b + len_utf8 c) cs"

definition char_indices :: "rstring \<Rightarrow> (nat \<times> rchar) list" where
  "char_indices s = char_indices_from 0 s"

text \<open>
  \<open>str::find\<close> of a pattern, as the texts before and after its first occurrence; the returned
  offset of the source is the byte length of the former.
\<close>

fun find_parts :: "rstring \<Rightarrow> rstring \<Rightarrow> (rstring \<times> rstring) option" where
  "find_parts pat [] = (if pat = [] then Some ([], []) else None)"
| "find_parts pat (c # cs) =
     (if prefix pat (c # cs) then Some ([], drop (length pat) (c # cs))
      else map_option (\<lambda>(h, t). (c # h, t)) (find_parts pat cs))"

section \<open>Lemmas\<close>

lemma len_utf8_pos [simp]: "0 < len_utf8 c"
  by (simp add: len_utf8_def)

lemma byte_len_simps [simp]:
  "byte_len [] = 0" "byte_len (c # s) = len_utf8 c + byte_len s" "byte_len (s @ t) = byte_len s + byte_len t"
  by (simp_all add: byte_len_def)

lemma byte_len_0 [simp]: "byte_len s = 0 \<longleftrightarrow> s = []"
  by (cases s) auto

lemma split_at_byte_Some:
  "split_at_byte n s = Some (h, t) \<longleftrightarrow> s = h @ t \<and> byte_len h = n"
proof (induction s arbitrary: n h)
  case (Cons c cs)
  show ?case
  proof (cases h)
    case Nil
    then show ?thesis by (auto split: if_splits)
  next
    case (Cons d h')
    with Cons.IH [of "n - len_utf8 c" h'] show ?thesis by (auto split: if_splits)
  qed
qed auto

lemma split_at_byte_append [simp]: "split_at_byte (byte_len h) (h @ t) = Some (h, t)"
  by (simp add: split_at_byte_Some)

lemma slice_to_Some: "slice_to n s = Some h \<longleftrightarrow> (\<exists>t. s = h @ t \<and> byte_len h = n)"
  by (auto simp: slice_to_def split_at_byte_Some)

lemma slice_from_Some: "slice_from n s = Some t \<longleftrightarrow> (\<exists>h. s = h @ t \<and> byte_len h = n)"
  by (auto simp: slice_from_def split_at_byte_Some)

lemma slice_range_Some:
  "slice_range a b s = Some m \<longleftrightarrow> (\<exists>h t. s = h @ m @ t \<and> byte_len h = a \<and> byte_len (h @ m) = b)"
proof
  assume "slice_range a b s = Some m"
  then obtain p where "slice_to b s = Some p" "slice_from a p = Some m"
    by (auto simp: slice_range_def bind_eq_Some_conv split: if_splits)
  then show "\<exists>h t. s = h @ m @ t \<and> byte_len h = a \<and> byte_len (h @ m) = b"
    by (auto simp: slice_to_Some slice_from_Some) (metis append.assoc)
next
  assume "\<exists>h t. s = h @ m @ t \<and> byte_len h = a \<and> byte_len (h @ m) = b"
  then obtain h t where st: "s = h @ m @ t" "byte_len h = a" "byte_len (h @ m) = b" by blast
  from st have "slice_to b s = Some (h @ m)" "slice_from a (h @ m) = Some m" "a \<le> b"
    by (auto simp: slice_to_Some slice_from_Some)
  then show "slice_range a b s = Some m" by (simp add: slice_range_def)
qed

text \<open>A byte offset at which a slice does not panic.\<close>

definition boundary :: "rstring \<Rightarrow> nat \<Rightarrow> bool" where
  "boundary s n \<longleftrightarrow> split_at_byte n s \<noteq> None"

lemma boundary_iff: "boundary s n \<longleftrightarrow> (\<exists>h t. s = h @ t \<and> byte_len h = n)"
proof -
  have "split_at_byte n s \<noteq> None \<longleftrightarrow> (\<exists>h t. split_at_byte n s = Some (h, t))" by auto
  then show ?thesis by (simp add: boundary_def split_at_byte_Some)
qed

lemma boundary_ends [simp]: "boundary s 0" "boundary s (byte_len s)"
  by (auto simp: boundary_iff)

lemma boundary_le: "boundary s n \<Longrightarrow> n \<le> byte_len s"
  by (auto simp: boundary_iff)

lemma boundary_take: "boundary s (byte_len (take n s))"
  unfolding boundary_iff by (rule exI [of _ "take n s"], rule exI [of _ "drop n s"]) simp

lemma char_indices_from_iff:
  "(i, c) \<in> set (char_indices_from b s) \<longleftrightarrow> (\<exists>h t. s = h @ c # t \<and> i = b + byte_len h)"
proof (induction s arbitrary: b)
  case (Cons d s)
  have "(\<exists>h t. d # s = h @ c # t \<and> i = b + byte_len h) \<longleftrightarrow>
      (d = c \<and> i = b) \<or> (\<exists>h t. s = h @ c # t \<and> i = b + len_utf8 d + byte_len h)"
    (is "?l \<longleftrightarrow> ?a \<or> ?b")
  proof
    assume ?l
    then obtain h t where "d # s = h @ c # t" "i = b + byte_len h" by blast
    then show "?a \<or> ?b" by (cases h) auto
  next
    assume "?a \<or> ?b"
    then show ?l
    proof
      assume ?b
      then obtain h t where "s = h @ c # t" "i = b + len_utf8 d + byte_len h" by blast
      then have "d # s = (d # h) @ c # t \<and> i = b + byte_len (d # h)" by simp
      then show ?l by blast
    qed (use exI [of _ "[]"] in auto)
  qed
  with Cons show ?case by auto
qed simp

lemma char_indices_iff: "(i, c) \<in> set (char_indices s) \<longleftrightarrow> (\<exists>h t. s = h @ c # t \<and> i = byte_len h)"
  by (simp add: char_indices_def char_indices_from_iff)

lemma length_char_indices [simp]: "length (char_indices s) = length s"
proof -
  have "length (char_indices_from b s) = length s" for b by (induction s arbitrary: b) auto
  then show ?thesis by (simp add: char_indices_def)
qed

lemma nth_char_indices: "i < length s \<Longrightarrow> char_indices s ! i = (byte_len (take i s), s ! i)"
proof -
  have "i < length s \<Longrightarrow> char_indices_from b s ! i = (b + byte_len (take i s), s ! i)" for b
  proof (induction s arbitrary: b i)
    case (Cons c s)
    then show ?case by (cases i) auto
  qed simp
  then show "i < length s \<Longrightarrow> ?thesis" by (simp add: char_indices_def)
qed

lemma boundary_char_index:
  "(i, c) \<in> set (char_indices s) \<Longrightarrow> boundary s i \<and> boundary s (i + len_utf8 c)"
proof -
  assume "(i, c) \<in> set (char_indices s)"
  then obtain h t where "s = h @ c # t" "i = byte_len h" by (auto simp: char_indices_iff)
  then have "s = h @ (c # t) \<and> byte_len h = i" "s = (h @ [c]) @ t \<and> byte_len (h @ [c]) = i + len_utf8 c" by auto
  then show ?thesis unfolding boundary_iff by blast
qed

lemma find_parts_Some: "find_parts pat s = Some (h, t) \<Longrightarrow> s = h @ pat @ t"
  by (induction pat s arbitrary: h rule: find_parts.induct) (auto simp: prefix_def split: if_splits)

end
