(* ===== verification/Subtitle_Chunks.thy ===== *)
theory Subtitle_Chunks
  imports Byte_Strings
begin

text \<open>
  The stateless half of \<open>audio/sentence.rs\<close>: when a caption is too long for the overlay, where
  it is cut, and the display segmenter shared by both subtitle routes. Offsets are bytes, as in
  the source; a result is an optional value because a slice at a bad offset panics.
\<close>

section \<open>Limits and character classes\<close>

definition MAX_SUBTITLE_CHARS :: nat where "MAX_SUBTITLE_CHARS = 120"
definition MAX_CJK_SUBTITLE_CHARS :: nat where "MAX_CJK_SUBTITLE_CHARS = 42"
definition MAX_SUBTITLE_WORDS :: nat where "MAX_SUBTITLE_WORDS = 22"
definition MIN_SPLIT_HEAD_CHARS :: nat where "MIN_SPLIT_HEAD_CHARS = 28"
definition MAX_DISPLAY_CHARS :: nat where "MAX_DISPLAY_CHARS = 72"
definition MAX_CJK_DISPLAY_CHARS :: nat where "MAX_CJK_DISPLAY_CHARS = 24"
definition MAX_DISPLAY_WORDS :: nat where "MAX_DISPLAY_WORDS = 12"
definition MIN_DISPLAY_HEAD_CHARS :: nat where "MIN_DISPLAY_HEAD_CHARS = 18"

definition is_cjk_caption_character :: "rchar \<Rightarrow> bool" where
  "is_cjk_caption_character c \<longleftrightarrow>
     12352 \<le> c \<and> c \<le> 12543 \<or> 13312 \<le> c \<and> c \<le> 40959 \<or> 44032 \<le> c \<and> c \<le> 55215"

text \<open>The clause separators \<open>, : -\<close> with their full-width forms, the em dash and the ideographic comma.\<close>

definition is_clause_mark :: "rchar \<Rightarrow> bool" where
  "is_clause_mark c \<longleftrightarrow> c \<in> {44, 65292, 58, 65306, 45, 8212, 12289}"

text \<open>\<open>. ! ? ;\<close>, their full-width forms and the line feed.\<close>

definition split_endings :: "rchar list" where
  "split_endings = [46, 33, 63, 59, 12290, 65281, 65311, 65307, 10]"

definition is_ascii_uppercase :: "rchar \<Rightarrow> bool" where
  "is_ascii_uppercase c \<longleftrightarrow> 65 \<le> c \<and> c \<le> 90"

definition is_ascii_alphanumeric :: "rchar \<Rightarrow> bool" where
  "is_ascii_alphanumeric c \<longleftrightarrow> 48 \<le> c \<and> c \<le> 57 \<or> 65 \<le> c \<and> c \<le> 90 \<or> 97 \<le> c \<and> c \<le> 122"

definition needs_subtitle_split_with_limits :: "rstring \<Rightarrow> nat \<Rightarrow> nat \<Rightarrow> nat \<Rightarrow> bool" where
  "needs_subtitle_split_with_limits text max_chars max_cjk_chars max_words =
     (let char_limit = (if list_ex is_cjk_caption_character text then max_cjk_chars else max_chars)
      in length text > char_limit \<or> length (split_whitespace text) > max_words)"

section \<open>Where to cut\<close>

text \<open>\<open>char_indices().nth(n)\<close> is absent past the end; both arms of the source are present.\<close>

definition byte_after_char_count :: "rstring \<Rightarrow> nat \<Rightarrow> nat option" where
  "byte_after_char_count text max_chars =
     or_opt (if max_chars < length text then Some (fst (char_indices text ! max_chars)) else None)
       (Some (byte_len text))"

definition trim_matches :: "(rchar \<Rightarrow> bool) \<Rightarrow> rstring \<Rightarrow> rstring" where
  "trim_matches p s = rev (dropWhile p (rev (dropWhile p s)))"

definition normalize_boundary_word :: "rstring \<Rightarrow> rstring" where
  "normalize_boundary_word word = to_ascii_lowercase (trim_matches (\<lambda>c. \<not> is_ascii_alphanumeric c) word)"

definition nonempty_word :: "rstring option \<Rightarrow> rstring option" where
  "nonempty_word w = (case w of Some (c # cs) \<Rightarrow> Some (c # cs) | _ \<Rightarrow> None)"

definition boundary_word_before :: "rstring \<Rightarrow> nat \<Rightarrow> rstring option" where
  "boundary_word_before text idx =
     (case slice_to idx text of
        None \<Rightarrow> None
      | Some prior \<Rightarrow>
          (let words = split_whitespace prior
           in nonempty_word (if words = [] then None else Some (normalize_boundary_word (last words)))))"

definition boundary_word_after :: "rstring \<Rightarrow> nat \<Rightarrow> rstring option" where
  "boundary_word_after text idx =
     (case slice_from idx text of
        None \<Rightarrow> None
      | Some after \<Rightarrow>
          (let words = split_whitespace after
           in nonempty_word (if words = [] then None else Some (normalize_boundary_word (hd words)))))"

definition breaks_numeric_money_phrase :: "rstring \<Rightarrow> nat \<Rightarrow> bool" where
  "breaks_numeric_money_phrase text idx =
     (case boundary_word_before text idx of
        None \<Rightarrow> False
      | Some prior \<Rightarrow>
          (case boundary_word_after text idx of
             None \<Rightarrow> False
           | Some after \<Rightarrow>
               prior \<in> {str ''one'', str ''two'', str ''three'', str ''four'', str ''five'', str ''six'',
                   str ''seven'', str ''eight'', str ''nine'', str ''ten'', str ''hundred'', str ''thousand'',
                   str ''million'', str ''billion''} \<and>
               after \<in> {str ''hundred'', str ''thousand'', str ''million'', str ''billion'', str ''dollar'',
                   str ''dollars''} \<or>
               prior \<in> {str ''dollar'', str ''dollars''} \<and>
               after \<in> {str ''rocket'', str ''ship'', str ''biosphere'', str ''line'', str ''light''} \<or>
               prior = str ''rocket'' \<and> after = str ''ship''))"

definition connectors :: "rstring list" where
  "connectors = [str '' and '', str '' but '', str '' because '', str '' when '', str '' which '',
     str '' that '', str '' to '', str '' for '']"

text \<open>The \<open>while let\<close> loop over one connector; \<open>base\<close> is \<open>search_from\<close>, \<open>s\<close> the text from there.\<close>

function connector_ends :: "rstring \<Rightarrow> nat \<Rightarrow> rstring \<Rightarrow> nat list" where
  "connector_ends pat base s =
     (case find_parts pat s of
        None \<Rightarrow> []
      | Some (prior, after) \<Rightarrow>
          if pat = [] then []
          else (let idx = base + byte_len prior + byte_len pat in idx # connector_ends pat idx after))"
  by pat_completeness auto
termination
  by (relation "measure (\<lambda>(_, _, s). length s)") (auto dest: find_parts_Some)

declare connector_ends.simps [simp del]

definition split_candidates :: "rstring \<Rightarrow> nat list \<times> nat list" where
  "split_candidates text =
     (let marks = map (\<lambda>(i, c). i + len_utf8 c) (filter (\<lambda>(_, c). is_clause_mark c) (char_indices text));
          joins = concat (map (\<lambda>connector. connector_ends connector 0 text) connectors);
          spaces = map (\<lambda>(i, c). i + len_utf8 c) (filter (\<lambda>(_, c). is_whitespace c) (char_indices text))
      in (remdups_adj (sort (marks @ joins)), remdups_adj (sort spaces)))"

definition list_min :: "nat list \<Rightarrow> nat option" where
  "list_min xs = (if xs = [] then None else Some (Min (set xs)))"

definition list_max :: "nat list \<Rightarrow> nat option" where
  "list_max xs = (if xs = [] then None else Some (Max (set xs)))"

definition find_subtitle_split_at_with_limits :: "rstring \<Rightarrow> nat \<Rightarrow> nat \<Rightarrow> nat \<Rightarrow> nat \<Rightarrow> nat option" where
  "find_subtitle_split_at_with_limits text max_chars max_cjk_chars max_words min_head_chars =
     (let (semantic, spaces) = split_candidates text;
          safe = filter (\<lambda>idx. \<not> breaks_numeric_money_phrase text idx) semantic;
          semantic = (if safe = [] then semantic else safe);
          char_target = (case byte_after_char_count text
              (if list_ex is_cjk_caption_character text then max_cjk_chars else max_chars) of
            Some t \<Rightarrow> t | None \<Rightarrow> byte_len text);
          word_target = (if max_words - 1 < length spaces then spaces ! (max_words - 1) else byte_len text);
          target = min char_target word_target;
          least = (case byte_after_char_count text min_head_chars of Some t \<Rightarrow> t | None \<Rightarrow> 0)
      in or_opt (list_min (filter (\<lambda>idx. idx \<ge> least \<and> idx \<le> target) semantic))
           (or_opt (list_min (filter (\<lambda>idx. idx \<ge> least) semantic))
             (or_opt (list_max (filter (\<lambda>idx. idx \<ge> least \<and> idx \<le> target) spaces))
               (or_opt (list_min (filter (\<lambda>idx. idx \<ge> least) spaces)) (Some target)))))"

section \<open>Cutting\<close>

definition trim_chunk_start :: "rstring \<Rightarrow> rstring" where
  "trim_chunk_start s = dropWhile (\<lambda>c. is_whitespace c \<or> c = 44 \<or> c = 65292) s"

lemma trim_chunk_start_le: "length (trim_chunk_start s) \<le> length s"
  by (simp add: trim_chunk_start_def length_dropWhile_le)

text \<open>The loop; the result holds the chunks pushed and the remaining text.\<close>

function chunk_loop :: "nat \<Rightarrow> nat \<Rightarrow> nat \<Rightarrow> nat \<Rightarrow> rstring \<Rightarrow> (rstring list \<times> rstring) option" where
  "chunk_loop max_chars max_cjk_chars max_words min_head_chars remaining =
     (if needs_subtitle_split_with_limits remaining max_chars max_cjk_chars max_words
      then (case find_subtitle_split_at_with_limits remaining max_chars max_cjk_chars max_words min_head_chars of
              None \<Rightarrow> Some ([], remaining)
            | Some split_at \<Rightarrow>
                (case split_at_byte split_at remaining of
                   None \<Rightarrow> None
                 | Some (head, tail) \<Rightarrow>
                     if trim head = [] then Some ([], remaining)
                     else map_option (\<lambda>(chunks, rest). (trim head # chunks, rest))
                       (chunk_loop max_chars max_cjk_chars max_words min_head_chars (trim_chunk_start tail))))
      else Some ([], remaining))"
  by pat_completeness auto

termination
proof (relation "measure (\<lambda>(_, _, _, _, s). length s)")
  fix max_chars max_cjk_chars max_words min_head_chars :: nat and remaining head tail :: rstring and split_at p
  assume "split_at_byte split_at remaining = Some p" "(head, tail) = p" "trim head \<noteq> []"
  then have "remaining = head @ tail" "head \<noteq> []" by (auto simp: split_at_byte_Some)
  then show "((max_chars, max_cjk_chars, max_words, min_head_chars, trim_chunk_start tail),
      max_chars, max_cjk_chars, max_words, min_head_chars, remaining) \<in> measure (\<lambda>(_, _, _, _, s). length s)"
    using trim_chunk_start_le [of tail] by (cases head) auto
qed simp

declare chunk_loop.simps [simp del]

definition split_subtitle_chunks_with_limits :: "rstring \<Rightarrow> nat \<Rightarrow> nat \<Rightarrow> nat \<Rightarrow> nat \<Rightarrow> rstring list option" where
  "split_subtitle_chunks_with_limits sentence max_chars max_cjk_chars max_words min_head_chars =
     (let trimmed = trim sentence
      in if trimmed = [] then Some []
         else if \<not> needs_subtitle_split_with_limits trimmed max_chars max_cjk_chars max_words then Some [trimmed]
         else map_option (\<lambda>(chunks, rest). chunks @ (if trim rest \<noteq> [] then [trim rest] else []))
           (chunk_loop max_chars max_cjk_chars max_words min_head_chars trimmed))"

definition split_subtitle_chunks :: "rstring \<Rightarrow> rstring list option" where
  "split_subtitle_chunks sentence =
     split_subtitle_chunks_with_limits sentence MAX_SUBTITLE_CHARS MAX_CJK_SUBTITLE_CHARS MAX_SUBTITLE_WORDS
       MIN_SPLIT_HEAD_CHARS"

section \<open>The display segmenter\<close>

definition split_sentence :: "rstring \<Rightarrow> rstring list option" where
  "split_sentence sentence =
     split_subtitle_chunks_with_limits sentence MAX_DISPLAY_CHARS MAX_CJK_DISPLAY_CHARS MAX_DISPLAY_WORDS
       MIN_DISPLAY_HEAD_CHARS"

definition preceding_word :: "rstring \<Rightarrow> rstring" where
  "preceding_word text = rev (takeWhile (\<lambda>c. \<not> is_whitespace c) (rev text))"

definition is_upper_initialism :: "rstring \<Rightarrow> bool" where
  "is_upper_initialism word \<longleftrightarrow>
     word \<noteq> [] \<and> byte_len word \<le> 4 \<and> list_all (\<lambda>c. is_ascii_uppercase c \<or> c = 46) word"

definition is_abbreviated_display_period :: "rstring \<Rightarrow> nat \<Rightarrow> bool option" where
  "is_abbreviated_display_period text period_index =
     map_option (\<lambda>prior. is_upper_initialism (preceding_word prior) \<or>
         to_ascii_lowercase (preceding_word prior) \<in> {str ''mr'', str ''mrs'', str ''ms'', str ''dr'',
           str ''prof'', str ''sr'', str ''jr'', str ''vs'', str ''etc''})
       (slice_to period_index text)"

text \<open>
  The loop of \<open>split_text\<close> over the characters from index \<open>i\<close> on, with \<open>start\<close>; it returns the
  lines and the final \<open>start\<close>.
\<close>

fun split_text_loop :: "rstring \<Rightarrow> nat \<Rightarrow> (nat \<times> rchar) list \<Rightarrow> (rstring list \<times> nat) option" where
  "split_text_loop text start [] = Some ([], start)"
| "split_text_loop text start ((byte_index, c) # rest) =
     (if c \<notin> set split_endings then split_text_loop text start rest
      else if c \<in> {46, 33, 63} \<and> rest \<noteq> [] \<and> \<not> is_whitespace (snd (hd rest)) then split_text_loop text start rest
      else Option.bind (if c = 46 then is_abbreviated_display_period text byte_index else Some False)
        (\<lambda>abbreviated.
          if abbreviated then split_text_loop text start rest
          else let end_byte = byte_index + len_utf8 c
               in Option.bind (slice_range start end_byte text) (\<lambda>sentence.
                    Option.bind (split_sentence sentence) (\<lambda>lines.
                      map_option (\<lambda>(more, final). (lines @ more, final)) (split_text_loop text end_byte rest)))))"

definition split_text :: "rstring \<Rightarrow> rstring list option" where
  "split_text text =
     (let text = trim text
      in if text = [] then Some []
         else Option.bind (split_text_loop text 0 (char_indices text)) (\<lambda>(lines, start).
           Option.bind (slice_from start text) (\<lambda>tail.
             map_option (\<lambda>more. lines @ more) (split_sentence tail))))"

section \<open>Offsets are character boundaries\<close>

lemma byte_after_char_count_eq [simp]: "byte_after_char_count text n = Some (byte_len (take n text))"
  by (simp add: byte_after_char_count_def nth_char_indices)

lemma connector_ends_boundary:
  "i \<in> set (connector_ends pat base s) \<Longrightarrow> text = pre @ s \<Longrightarrow> base = byte_len pre \<Longrightarrow> boundary text i"
proof (induction pat base s arbitrary: pre rule: connector_ends.induct)
  case (1 pat base s)
  obtain prior after where f: "find_parts pat s = Some (prior, after)" and pat: "pat \<noteq> []"
  proof (cases "find_parts pat s")
    case None
    with "1.prems"(1) show thesis by (simp add: connector_ends.simps [of pat base s])
  next
    case (Some p)
    with "1.prems"(1) that show thesis
      by (cases p) (auto simp: connector_ends.simps [of pat base s] split: if_splits)
  qed
  have s: "s = prior @ pat @ after" using f by (rule find_parts_Some)
  let ?pre = "pre @ prior @ pat"
  have whole: "text = ?pre @ after" using s "1.prems"(2) by simp
  have base: "base + byte_len prior + byte_len pat = byte_len ?pre" using "1.prems"(3) by simp
  show ?case
  proof (cases "i = byte_len ?pre")
    case True
    then show ?thesis using whole unfolding boundary_iff by blast
  next
    case False
    then have "i \<in> set (connector_ends pat (base + byte_len prior + byte_len pat) after)"
      using "1.prems"(1) f pat base by (auto simp: connector_ends.simps [of pat base s] Let_def add.assoc)
    then show ?thesis using "1.IH" [OF f refl pat refl] whole base by blast
  qed
qed

lemma split_candidates_boundary:
  assumes "split_candidates text = (semantic, spaces)"
  shows "i \<in> set semantic \<union> set spaces \<Longrightarrow> boundary text i"
  using assms boundary_char_index connector_ends_boundary [of i _ 0 "text" "text" "[]"]
  by (auto simp: split_candidates_def Let_def)

lemma list_min_in: "list_min xs = Some m \<Longrightarrow> m \<in> set xs"
  using Min_in [of "set xs"] by (auto simp: list_min_def split: if_splits)

lemma list_max_in: "list_max xs = Some m \<Longrightarrow> m \<in> set xs"
  using Max_in [of "set xs"] by (auto simp: list_max_def split: if_splits)

lemma or_opt_Some: "or_opt x y = Some v \<Longrightarrow> x = Some v \<or> y = Some v"
  by (cases x) auto

lemma find_split_at_boundary:
  obtains idx where "find_subtitle_split_at_with_limits text mc mj mw mh = Some idx" and "boundary text idx"
proof -
  obtain semantic spaces where sc: "split_candidates text = (semantic, spaces)" by fastforce
  note cand = split_candidates_boundary [OF sc]
  define safe where "safe = filter (\<lambda>idx. \<not> breaks_numeric_money_phrase text idx) semantic"
  define sem where "sem = (if safe = [] then semantic else safe)"
  define ct where "ct = byte_len (take (if list_ex is_cjk_caption_character text then mj else mc) text)"
  define wt where "wt = (if mw - 1 < length spaces then spaces ! (mw - 1) else byte_len text)"
  define least where "least = byte_len (take mh text)"
  have sem: "set sem \<subseteq> set semantic" by (auto simp: sem_def safe_def)
  have ct: "boundary text ct" by (simp add: ct_def boundary_take)
  have wt: "boundary text wt" using cand nth_mem [of "mw - 1" spaces] by (auto simp: wt_def)
  have target: "boundary text (min ct wt)" using ct wt by (simp add: min_def)
  have eq: "find_subtitle_split_at_with_limits text mc mj mw mh =
      or_opt (list_min (filter (\<lambda>idx. idx \<ge> least \<and> idx \<le> min ct wt) sem))
           (or_opt (list_min (filter (\<lambda>idx. idx \<ge> least) sem))
             (or_opt (list_max (filter (\<lambda>idx. idx \<ge> least \<and> idx \<le> min ct wt) spaces))
               (or_opt (list_min (filter (\<lambda>idx. idx \<ge> least) spaces)) (Some (min ct wt)))))" (is "_ = ?rhs")
    by (simp only: find_subtitle_split_at_with_limits_def sc Let_def split safe_def sem_def ct_def wt_def least_def
        byte_after_char_count_eq option.case)
  obtain idx where idx: "?rhs = Some idx" by (cases "?rhs") auto
  then have "idx \<in> set sem \<union> set spaces \<or> idx = min ct wt"
    by (auto dest!: or_opt_Some list_min_in list_max_in)
  then have "boundary text idx" using cand sem target by blast
  with idx eq that show thesis by simp
qed

section \<open>Chunks carry the text\<close>

text \<open>The characters a cut may drop are white space and commas; \<open>visible\<close> is what is left.\<close>

definition visible :: "rstring \<Rightarrow> rstring" where
  "visible s = filter (\<lambda>c. \<not> (is_whitespace c \<or> c = 44 \<or> c = 65292)) s"

lemma visible_append [simp]: "visible (s @ t) = visible s @ visible t"
  by (simp add: visible_def)

lemma visible_Nil [simp]: "visible [] = []"
  by (simp add: visible_def)

lemma visible_ws: "\<forall>c\<in>set w. is_whitespace c \<Longrightarrow> visible w = []"
  by (simp add: visible_def)

lemma filter_dropWhile_not: "(\<And>c. q c \<Longrightarrow> \<not> p c) \<Longrightarrow> filter p (dropWhile q s) = filter p s"
  by (induction s) auto

lemma visible_trim_chunk_start [simp]: "visible (trim_chunk_start s) = visible s"
  by (simp add: visible_def trim_chunk_start_def filter_dropWhile_not)

lemma visible_trim [simp]: "visible (trim s) = visible s"
proof -
  have "visible (trim_end t) = visible t" for t
    using trim_end_decomp [of t] by (metis append_Nil2 visible_append visible_ws)
  moreover have "visible (trim_start s) = visible s"
    by (simp add: visible_def trim_start_def filter_dropWhile_not)
  ultimately show ?thesis by (simp add: trim_def)
qed

definition good_chunk :: "rstring \<Rightarrow> bool" where
  "good_chunk c \<longleftrightarrow> c \<noteq> [] \<and> trim c = c"

lemma good_chunk_trim: "trim s \<noteq> [] \<Longrightarrow> good_chunk (trim s)"
  by (simp add: good_chunk_def)

lemma chunk_loop_spec:
  "\<exists>chunks rest. chunk_loop mc mj mw mh s = Some (chunks, rest) \<and>
     list_all good_chunk chunks \<and> visible (concat chunks) @ visible rest = visible s"
proof (induction mc mj mw mh s rule: chunk_loop.induct)
  case (1 mc mj mw mh s)
  obtain idx where idx: "find_subtitle_split_at_with_limits s mc mj mw mh = Some idx" and b: "boundary s idx"
    by (rule find_split_at_boundary)
  obtain head tail where ht: "split_at_byte idx s = Some (head, tail)" using b by (auto simp: boundary_def)
  have s: "s = head @ tail" using ht by (simp add: split_at_byte_Some)
  show ?case
  proof (cases "needs_subtitle_split_with_limits s mc mj mw \<and> trim head \<noteq> []")
    case True
    then obtain chunks rest where rec: "chunk_loop mc mj mw mh (trim_chunk_start tail) = Some (chunks, rest)"
      and good: "list_all good_chunk chunks" and vis: "visible (concat chunks) @ visible rest = visible tail"
      using "1.IH" [OF _ idx ht refl] by auto
    have "chunk_loop mc mj mw mh s = Some (trim head # chunks, rest)"
      using True rec by (simp add: chunk_loop.simps [of mc mj mw mh s] idx ht)
    with True good vis show ?thesis by (simp add: s good_chunk_trim)
  next
    case False
    then have "chunk_loop mc mj mw mh s = Some ([], s)"
      by (auto simp: chunk_loop.simps [of mc mj mw mh s] idx ht)
    then show ?thesis by simp
  qed
qed

lemma split_chunks_spec:
  obtains chunks where "split_subtitle_chunks_with_limits s mc mj mw mh = Some chunks"
    and "list_all good_chunk chunks" and "visible (concat chunks) = visible s"
proof -
  obtain chunks rest where "chunk_loop mc mj mw mh (trim s) = Some (chunks, rest)"
    "list_all good_chunk chunks" "visible (concat chunks) @ visible rest = visible s"
    using chunk_loop_spec [of mc mj mw mh "trim s"] by auto
  moreover have "trim rest = [] \<Longrightarrow> visible rest = []" by (metis visible_Nil visible_trim)
  moreover have "trim s = [] \<Longrightarrow> visible s = []" by (metis visible_Nil visible_trim)
  ultimately have "\<exists>chunks. split_subtitle_chunks_with_limits s mc mj mw mh = Some chunks \<and>
      list_all good_chunk chunks \<and> visible (concat chunks) = visible s"
    by (auto simp: split_subtitle_chunks_with_limits_def Let_def good_chunk_trim)
  then show thesis using that by blast
qed

lemma chunk_loop_Nil: "chunk_loop mc mj mw mh s = Some ([], rest) \<Longrightarrow> rest = s"
  by (auto simp: chunk_loop.simps [of mc mj mw mh s] split: if_splits option.splits)

lemma split_chunks_nonempty:
  "split_subtitle_chunks_with_limits s mc mj mw mh = Some chunks \<Longrightarrow> trim s \<noteq> [] \<Longrightarrow> chunks \<noteq> []"
  using chunk_loop_Nil [of mc mj mw mh "trim s"]
  by (fastforce simp: split_subtitle_chunks_with_limits_def Let_def split: if_splits)

lemma split_text_loop_spec:
  assumes "text = pre @ mid @ rest"
  shows "\<exists>lines pre' tail. split_text_loop text (byte_len pre) (char_indices_from (byte_len (pre @ mid)) rest) =
      Some (lines, byte_len pre') \<and> text = pre' @ tail \<and> list_all good_chunk lines \<and>
      visible pre' = visible pre @ visible (concat lines)"
  using assms
proof (induction rest arbitrary: pre mid)
  case Nil
  then have "text = pre @ mid" by simp
  then show ?case by (intro exI [of _ "[]"] exI [of _ pre] exI [of _ mid]) simp
next
  case (Cons c rest)
  let ?b = "byte_len (pre @ mid)"
  have next_b: "?b + len_utf8 c = byte_len (pre @ mid @ [c])" by simp
  have split: "text = (pre @ mid) @ c # rest" "text = pre @ (mid @ [c]) @ rest" using Cons.prems by auto
  have skip: "?case" if "split_text_loop text (byte_len pre) (char_indices_from ?b (c # rest)) =
      split_text_loop text (byte_len pre) (char_indices_from (?b + len_utf8 c) rest)"
    using Cons.IH [of pre "mid @ [c]"] split(2) that by (simp add: add.assoc)
  have abbr: "\<exists>b. is_abbreviated_display_period text ?b = Some b"
    using slice_to_Some [of ?b "text" "pre @ mid"] split(1) by (auto simp: is_abbreviated_display_period_def)
  have slice: "slice_range (byte_len pre) (?b + len_utf8 c) text = Some (mid @ [c])"
    using split(2) by (auto simp: slice_range_Some)
  obtain lines where l: "split_sentence (mid @ [c]) = Some lines" "list_all good_chunk lines"
    "visible (concat lines) = visible (mid @ [c])"
    unfolding split_sentence_def by (rule split_chunks_spec)
  obtain more pre' tail where m: "split_text_loop text (byte_len (pre @ mid @ [c]))
      (char_indices_from (byte_len ((pre @ mid @ [c]) @ [])) rest) = Some (more, byte_len pre')"
    "text = pre' @ tail" "list_all good_chunk more" "visible pre' = visible (pre @ mid @ [c]) @ visible (concat more)"
    using Cons.IH [of "pre @ mid @ [c]" "[]"] split(2) by auto
  have cut: "?case" if "split_text_loop text (byte_len pre) (char_indices_from ?b (c # rest)) =
      map_option (\<lambda>(more, final). (lines @ more, final))
        (split_text_loop text (?b + len_utf8 c) (char_indices_from (?b + len_utf8 c) rest))"
    using that m l
    by (intro exI [of _ "lines @ more"] exI [of _ pre'] exI [of _ tail]) (simp add: add.assoc)
  show ?case
  proof (cases "c \<notin> set split_endings \<or>
      c \<in> {46, 33, 63} \<and> char_indices_from (?b + len_utf8 c) rest \<noteq> [] \<and>
      \<not> is_whitespace (snd (hd (char_indices_from (?b + len_utf8 c) rest))) \<or>
      c = 46 \<and> is_abbreviated_display_period text ?b = Some True")
    case True
    then show ?thesis by (intro skip) auto
  next
    case False
    then show ?thesis using abbr slice l(1) by (intro cut) (auto simp: Let_def)
  qed
qed

section \<open>Properties\<close>

text \<open>
  Cutting a long caption never panics, always ends, and loses nothing a reader sees: the chunks
  are not empty and carry no white space at their ends, and together they spell the visible
  characters of the sentence, in order, where only white space and commas are not visible.
\<close>

theorem split_subtitle_chunks_lossless:
  "\<exists>chunks. split_subtitle_chunks sentence = Some chunks \<and>
     list_all (\<lambda>c. c \<noteq> [] \<and> trim c = c) chunks \<and>
     filter (\<lambda>c. \<not> (is_whitespace c \<or> c = 44 \<or> c = 65292)) (concat chunks) =
       filter (\<lambda>c. \<not> (is_whitespace c \<or> c = 44 \<or> c = 65292)) sentence"
proof -
  obtain chunks where "split_subtitle_chunks sentence = Some chunks" "list_all good_chunk chunks"
    "visible (concat chunks) = visible sentence"
    unfolding split_subtitle_chunks_def by (rule split_chunks_spec)
  then show ?thesis unfolding good_chunk_def [abs_def] visible_def by blast
qed

text \<open>
  The display segmenter is total and lossless in the same sense, for every text of a realtime
  model: whatever its punctuation, abbreviations and multi-byte characters, no slice panics and the
  lines spell its visible characters.
\<close>

theorem split_text_lossless:
  "\<exists>lines. split_text text = Some lines \<and>
     list_all (\<lambda>l. l \<noteq> [] \<and> trim l = l) lines \<and>
     filter (\<lambda>c. \<not> (is_whitespace c \<or> c = 44 \<or> c = 65292)) (concat lines) =
       filter (\<lambda>c. \<not> (is_whitespace c \<or> c = 44 \<or> c = 65292)) text"
proof -
  have "\<exists>lines. split_text text = Some lines \<and> list_all good_chunk lines \<and> visible (concat lines) = visible text"
  proof (cases "trim text = []")
    case True
    then have "visible text = []" by (metis visible_Nil visible_trim)
    with True show ?thesis by (simp add: split_text_def)
  next
    case False
    obtain lines pre tail where l: "split_text_loop (trim text) 0 (char_indices (trim text)) = Some (lines, byte_len pre)"
      "trim text = pre @ tail" "list_all good_chunk lines" "visible pre = visible (concat lines)"
      using split_text_loop_spec [of "trim text" "[]" "[]" "trim text"] by (auto simp: char_indices_def)
    obtain more where m: "split_sentence tail = Some more" "list_all good_chunk more"
      "visible (concat more) = visible tail"
      unfolding split_sentence_def by (rule split_chunks_spec)
    have "slice_from (byte_len pre) (trim text) = Some tail" using l(2) by (auto simp: slice_from_Some)
    then have "split_text text = Some (lines @ more)" using False l(1) m(1) by (simp add: split_text_def Let_def)
    moreover have "visible (concat (lines @ more)) = visible text"
      using l(2,4) m(3) by (metis concat_append visible_append visible_trim)
    ultimately show ?thesis using l(3) m(2) by simp
  qed
  then show ?thesis unfolding good_chunk_def [abs_def] visible_def .
qed


end
