(* ===== verification/Translation_Scheduler.thy ===== *)
theory Translation_Scheduler
  imports Omni_Prelude "HOL-Library.Product_Lexorder"
begin

text \<open>
  The scheduler shared by both subtitle translation workers (\<open>audio/translation_scheduler.rs\<close>):
  deduplication by job key and by sentence work key, bounded queues with eviction of previews,
  priority dispatch into a bounded number of slots, expiry, and the retry and write-back policies.
  \<open>Instant::now()\<close> is an argument of every definition that reads the clock. The scheduler reads
  only the timeout of a job's provider; the rest of the provider draft, the glossary and the trace
  recorder travel unchanged in the type parameter \<open>'p\<close>.
\<close>

section \<open>Policies\<close>

definition MAX_RETRIABLE_SENTENCE_ATTEMPTS :: nat where "MAX_RETRIABLE_SENTENCE_ATTEMPTS = 3"
definition MAX_RATE_LIMIT_ATTEMPTS :: nat where "MAX_RATE_LIMIT_ATTEMPTS = 12"
definition RATE_LIMIT_RETRY_INTERVAL :: duration where "RATE_LIMIT_RETRY_INTERVAL = from_millis 250"
definition MAX_QUEUED_TRANSLATIONS :: nat where "MAX_QUEUED_TRANSLATIONS = 128"
definition MAX_QUEUED_TRANSLATIONS_PER_CUE :: nat where "MAX_QUEUED_TRANSLATIONS_PER_CUE = 8"
definition FORCED_TRANSLATION_DEADLINE :: duration where "FORCED_TRANSLATION_DEADLINE = from_millis 2500"
definition FINAL_TRANSLATION_DEADLINE :: duration where "FINAL_TRANSLATION_DEADLINE = from_millis 10000"
definition MIN_PROVIDER_TIMEOUT :: duration where "MIN_PROVIDER_TIMEOUT = from_secs 1"

text \<open>The fields of \<open>ProviderRuntimeError\<close>; the policies read three of them.\<close>

record ProviderRuntimeError =
  pe_code :: rstring
  pe_message :: rstring
  pe_retriable :: bool
  pe_http_status :: "nat option"
  pe_provider_code :: "rstring option"
  pe_suggestion :: "rstring option"

definition is_rate_limit_error :: "ProviderRuntimeError \<Rightarrow> bool" where
  "is_rate_limit_error error \<longleftrightarrow> pe_code error = str ''rate-limited'' \<or> pe_http_status error = Some 429"

definition max_translation_attempts :: "ProviderRuntimeError \<Rightarrow> nat" where
  "max_translation_attempts error =
     (if is_rate_limit_error error then MAX_RATE_LIMIT_ATTEMPTS else MAX_RETRIABLE_SENTENCE_ATTEMPTS)"

definition should_retry_translation :: "ProviderRuntimeError \<Rightarrow> nat \<Rightarrow> bool" where
  "should_retry_translation error attempts \<longleftrightarrow>
     (pe_retriable error \<or> is_rate_limit_error error) \<and> attempts < max_translation_attempts error"

definition rate_limit_retry_delay :: "ProviderRuntimeError \<Rightarrow> duration option" where
  "rate_limit_retry_delay error =
     (if is_rate_limit_error error then Some RATE_LIMIT_RETRY_INTERVAL else None)"

section \<open>Keys and ranks\<close>

text \<open>\<open>SentenceResult\<close> of \<open>audio/sentence.rs\<close>.\<close>

record SentenceResult =
  sr_sentence :: rstring
  sr_context :: "rstring list"
  sr_is_forced :: bool
  sr_is_replacement :: bool
  sr_pending_id :: "rstring option"

definition normalize_sentence_key :: "rstring \<Rightarrow> rstring" where
  "normalize_sentence_key sentence = join (str '' '') (split_whitespace sentence)"

definition translation_attempt_key :: "rstring \<Rightarrow> rstring \<Rightarrow> rstring" where
  "translation_attempt_key cue_id sentence = cue_id @ str '':'' @ normalize_sentence_key sentence"

definition translation_job_key :: "rstring \<Rightarrow> nat \<Rightarrow> SentenceResult \<Rightarrow> rstring" where
  "translation_job_key cue_id cue_revision result =
     cue_id @ str '':'' @ show_nat cue_revision @ str '':'' @
     (case sr_pending_id result of None \<Rightarrow> str ''final'' | Some p \<Rightarrow> p) @ str '':'' @
     show_bool (sr_is_forced result) @ str '':'' @ normalize_sentence_key (sr_sentence result)"

datatype TranslationRank = Partial | Forced | Final | Replacement

fun rank_as_u8 :: "TranslationRank \<Rightarrow> nat" where
  "rank_as_u8 Partial = 0"
| "rank_as_u8 Forced = 1"
| "rank_as_u8 Final = 2"
| "rank_as_u8 Replacement = 3"

lemma rank_as_u8_inject: "rank_as_u8 a = rank_as_u8 b \<longleftrightarrow> a = b"
  by (cases a; cases b) auto

text \<open>The derived \<open>Ord\<close> of the enum.\<close>

instantiation TranslationRank :: linorder
begin

definition less_eq_TranslationRank :: "TranslationRank \<Rightarrow> TranslationRank \<Rightarrow> bool" where
  "less_eq_TranslationRank a b \<longleftrightarrow> rank_as_u8 a \<le> rank_as_u8 b"

definition less_TranslationRank :: "TranslationRank \<Rightarrow> TranslationRank \<Rightarrow> bool" where
  "less_TranslationRank a b \<longleftrightarrow> rank_as_u8 a < rank_as_u8 b"

instance
  by standard (auto simp: less_eq_TranslationRank_def less_TranslationRank_def rank_as_u8_inject [symmetric])

end

record TranslationWriteState =
  ws_rank :: TranslationRank
  ws_sequence :: nat

definition translation_rank :: "SentenceResult \<Rightarrow> TranslationRank" where
  "translation_rank result =
     (if sr_is_replacement result then Replacement
      else if sr_is_forced result then Forced else Final)"

definition should_dedupe_written_translation :: "TranslationRank \<Rightarrow> bool" where
  "should_dedupe_written_translation rank \<longleftrightarrow> rank = Final \<or> rank = Replacement"

definition should_accept_translation :: "TranslationWriteState option \<Rightarrow> TranslationWriteState \<Rightarrow> bool" where
  "should_accept_translation current incoming =
     (case current of
        None \<Rightarrow> True
      | Some c \<Rightarrow> ws_rank incoming > ws_rank c \<or>
          ws_rank incoming = ws_rank c \<and> ws_sequence incoming \<ge> ws_sequence c)"

section \<open>Jobs\<close>

record 'p TranslationJob =
  tj_key :: rstring
  tj_sequence :: nat
  tj_cue_revision :: nat
  tj_display_index :: nat
  tj_cue_id :: rstring
  tj_result :: SentenceResult
  tj_full_prompt :: rstring
  tj_source_language :: rstring
  tj_target_language :: rstring
  tj_provider_timeout_ms :: nat
  tj_payload :: 'p
  tj_created_at :: instant
  tj_deadline_at :: instant

definition deadline_for :: "SentenceResult \<Rightarrow> instant \<Rightarrow> instant" where
  "deadline_for result created_at =
     created_at + (if sr_is_forced result \<and> \<not> sr_is_replacement result
                   then FORCED_TRANSLATION_DEADLINE else FINAL_TRANSLATION_DEADLINE)"

text \<open>The timeout of the provider draft that \<open>provider_with_remaining_timeout\<close> returns.\<close>

definition provider_with_remaining_timeout :: "instant \<Rightarrow> 'p TranslationJob \<Rightarrow> nat" where
  "provider_with_remaining_timeout now job =
     (let remaining = tj_deadline_at job - now;
          bounded = max (min remaining (from_millis (tj_provider_timeout_ms job))) MIN_PROVIDER_TIMEOUT
      in bounded div 1000000)"

definition retry_budget_remaining :: "instant \<Rightarrow> 'p TranslationJob \<Rightarrow> bool" where
  "retry_budget_remaining now job \<longleftrightarrow> tj_deadline_at job - now \<ge> RATE_LIMIT_RETRY_INTERVAL"

definition translation_sentence_work_key :: "'p TranslationJob \<Rightarrow> rstring" where
  "translation_sentence_work_key job =
     tj_cue_id job @ str '':'' @ show_nat (tj_cue_revision job) @ str '':'' @
     show_nat (rank_as_u8 (translation_rank (tj_result job))) @ str '':'' @
     normalize_sentence_key (sr_sentence (tj_result job))"

definition translation_supersession_key :: "'p TranslationJob \<Rightarrow> rstring \<times> nat \<times> nat" where
  "translation_supersession_key job = (tj_cue_id job, tj_cue_revision job, tj_display_index job)"

abbreviation job_forced :: "'p TranslationJob \<Rightarrow> bool" where
  "job_forced j \<equiv> sr_is_forced (tj_result j)"

datatype TranslationEnqueueResult = Enqueued | Duplicate | RejectedOverflow | RejectedExpired

record InFlightJob =
  if_cue_id :: rstring
  if_is_forced :: bool
  if_sentence_work_key :: rstring

section \<open>The scheduler\<close>

record 'p TranslationScheduler =
  ts_queued :: "'p TranslationJob list"
  ts_queued_keys :: "rstring set"
  ts_queued_sentence_keys :: "rstring set"
  ts_in_flight :: "(rstring \<times> InFlightJob) list"
  ts_max_concurrent :: nat
  ts_max_concurrent_forced :: nat
  ts_dispatch_not_before :: "instant option"
  ts_expired_terminal_jobs :: "'p TranslationJob list"

definition scheduler_new :: "nat \<Rightarrow> nat \<Rightarrow> 'p TranslationScheduler" where
  "scheduler_new max_concurrent max_concurrent_forced =
     \<lparr>ts_queued = [], ts_queued_keys = {}, ts_queued_sentence_keys = {}, ts_in_flight = [],
      ts_max_concurrent = max_concurrent, ts_max_concurrent_forced = max_concurrent_forced,
      ts_dispatch_not_before = None, ts_expired_terminal_jobs = []\<rparr>"

definition set_max_concurrent :: "nat \<Rightarrow> 'p TranslationScheduler \<Rightarrow> 'p TranslationScheduler" where
  "set_max_concurrent n s = s\<lparr>ts_max_concurrent := max n 1\<rparr>"

definition defer_dispatch_for :: "duration \<Rightarrow> instant \<Rightarrow> 'p TranslationScheduler \<Rightarrow> 'p TranslationScheduler" where
  "defer_dispatch_for delay now s =
     (if delay = 0 then s
      else s\<lparr>ts_dispatch_not_before := Some (case ts_dispatch_not_before s of
               Some current \<Rightarrow> max current (now + delay) | None \<Rightarrow> now + delay)\<rparr>)"

definition drop_expired_queued_at :: "instant \<Rightarrow> 'p TranslationScheduler \<Rightarrow> 'p TranslationScheduler" where
  "drop_expired_queued_at now s =
     (let expired = filter (\<lambda>j. \<not> tj_deadline_at j > now) (ts_queued s)
      in s\<lparr>ts_queued := filter (\<lambda>j. tj_deadline_at j > now) (ts_queued s),
           ts_queued_keys := ts_queued_keys s - set (map tj_key expired),
           ts_queued_sentence_keys :=
             ts_queued_sentence_keys s - set (map translation_sentence_work_key expired),
           ts_expired_terminal_jobs :=
             ts_expired_terminal_jobs s @ filter (\<lambda>j. \<not> job_forced j) expired\<rparr>)"

definition remove_queued_by_key :: "rstring \<Rightarrow> 'p TranslationScheduler \<Rightarrow> 'p TranslationScheduler" where
  "remove_queued_by_key key s =
     (case position (\<lambda>j. tj_key j = key) (ts_queued s) of
        None \<Rightarrow> s
      | Some i \<Rightarrow>
          (let job = ts_queued s ! i
           in s\<lparr>ts_queued := remove_at i (ts_queued s),
                ts_queued_keys := ts_queued_keys s - {tj_key job},
                ts_queued_sentence_keys :=
                  ts_queued_sentence_keys s - {translation_sentence_work_key job}\<rparr>))"

definition superseded_by :: "'p TranslationJob \<Rightarrow> 'p TranslationJob \<Rightarrow> bool" where
  "superseded_by incoming queued \<longleftrightarrow>
     translation_supersession_key queued = translation_supersession_key incoming \<and>
     translation_rank (tj_result queued) \<le> translation_rank (tj_result incoming) \<and> job_forced queued"

definition drop_superseded_preview :: "'p TranslationJob \<Rightarrow> 'p TranslationScheduler \<Rightarrow> 'p TranslationScheduler" where
  "drop_superseded_preview incoming s =
     foldl (\<lambda>s key. remove_queued_by_key key s) s
       (map tj_key (filter (superseded_by incoming) (ts_queued s)))"

definition evict_preview_for_cue :: "rstring \<Rightarrow> 'p TranslationScheduler \<Rightarrow> bool \<times> 'p TranslationScheduler" where
  "evict_preview_for_cue cue_id s =
     (case find (\<lambda>j. tj_cue_id j = cue_id \<and> job_forced j) (ts_queued s) of
        None \<Rightarrow> (False, s)
      | Some j \<Rightarrow> (True, remove_queued_by_key (tj_key j) s))"

definition evict_oldest_preview :: "'p TranslationScheduler \<Rightarrow> bool \<times> 'p TranslationScheduler" where
  "evict_oldest_preview s =
     (case min_by (\<lambda>j. (tj_created_at j, tj_sequence j)) (filter job_forced (ts_queued s)) of
        None \<Rightarrow> (False, s)
      | Some j \<Rightarrow> (True, remove_queued_by_key (tj_key j) s))"

definition is_duplicate :: "'p TranslationJob \<Rightarrow> 'p TranslationScheduler \<Rightarrow> bool" where
  "is_duplicate job s \<longleftrightarrow>
     tj_key job \<in> ts_queued_keys s \<or> tj_key job \<in> set (map fst (ts_in_flight s)) \<or>
     translation_sentence_work_key job \<in> ts_queued_sentence_keys s \<or>
     list_ex (\<lambda>(_, f). if_sentence_work_key f = translation_sentence_work_key job) (ts_in_flight s)"

definition push_job :: "'p TranslationJob \<Rightarrow> 'p TranslationScheduler \<Rightarrow> 'p TranslationScheduler" where
  "push_job job s =
     s\<lparr>ts_queued_keys := insert (tj_key job) (ts_queued_keys s),
       ts_queued_sentence_keys := insert (translation_sentence_work_key job) (ts_queued_sentence_keys s),
       ts_queued := ts_queued s @ [job]\<rparr>"

definition enqueue_with_result_at ::
  "'p TranslationJob \<Rightarrow> instant \<Rightarrow> 'p TranslationScheduler \<Rightarrow>
   TranslationEnqueueResult \<times> 'p TranslationScheduler" where
  "enqueue_with_result_at job now s =
     (let s = drop_expired_queued_at now s
      in if tj_deadline_at job \<le> now then (RejectedExpired, s)
         else if is_duplicate job s then (Duplicate, s)
         else
           let s = drop_superseded_preview job s;
               (cue_full, s) =
                 (if length (filter (\<lambda>q. tj_cue_id q = tj_cue_id job) (ts_queued s))
                       \<ge> MAX_QUEUED_TRANSLATIONS_PER_CUE
                  then (let (evicted, s') = evict_preview_for_cue (tj_cue_id job) s in (\<not> evicted, s'))
                  else (False, s))
           in if cue_full then (RejectedOverflow, s)
              else
                let (full, s) =
                  (if length (ts_queued s) \<ge> MAX_QUEUED_TRANSLATIONS
                   then (let (evicted, s') = evict_oldest_preview s in (\<not> evicted, s'))
                   else (False, s))
                in if full then (RejectedOverflow, s) else (Enqueued, push_job job s))"

definition forced_in_flight_count :: "'p TranslationScheduler \<Rightarrow> nat" where
  "forced_in_flight_count s = length (filter (\<lambda>(_, f). if_is_forced f) (ts_in_flight s))"

text \<open>The key of \<open>min_by_key\<close>; \<open>Reverse\<close> of the rank is its distance from the highest rank.\<close>

definition dispatch_key :: "'p TranslationJob \<Rightarrow> nat \<times> instant \<times> nat" where
  "dispatch_key j = (3 - rank_as_u8 (translation_rank (tj_result j)), tj_deadline_at j, tj_sequence j)"

definition dispatch_eligible :: "'p TranslationScheduler \<Rightarrow> 'p TranslationJob \<Rightarrow> bool" where
  "dispatch_eligible s j \<longleftrightarrow> \<not> job_forced j \<or> forced_in_flight_count s < ts_max_concurrent_forced s"

definition next_dispatch_index :: "'p TranslationScheduler \<Rightarrow> nat option" where
  "next_dispatch_index s =
     (if length (ts_in_flight s) \<ge> ts_max_concurrent s then None
      else map_option fst (min_by (\<lambda>(_, j). dispatch_key j)
             (filter (\<lambda>(_, j). dispatch_eligible s j) (List.enumerate 0 (ts_queued s)))))"

definition start_job :: "nat \<Rightarrow> 'p TranslationScheduler \<Rightarrow> 'p TranslationScheduler" where
  "start_job i s =
     (let job = ts_queued s ! i
      in s\<lparr>ts_queued := remove_at i (ts_queued s),
           ts_queued_keys := ts_queued_keys s - {tj_key job},
           ts_queued_sentence_keys := ts_queued_sentence_keys s - {translation_sentence_work_key job},
           ts_in_flight := hash_insert (tj_key job)
             \<lparr>if_cue_id = tj_cue_id job, if_is_forced = job_forced job,
              if_sentence_work_key = translation_sentence_work_key job\<rparr> (ts_in_flight s)\<rparr>)"

text \<open>The \<open>while\<close> loop of \<open>dispatch_ready\<close>; the list holds the jobs handed to \<open>spawn\<close>, in order.\<close>

function dispatch_loop :: "'p TranslationScheduler \<Rightarrow> 'p TranslationJob list \<times> 'p TranslationScheduler" where
  "dispatch_loop s =
     (if length (ts_in_flight s) < ts_max_concurrent s
      then (case next_dispatch_index s of
              None \<Rightarrow> ([], s)
            | Some i \<Rightarrow>
                if i < length (ts_queued s)
                then (let (jobs, s') = dispatch_loop (start_job i s) in (ts_queued s ! i # jobs, s'))
                else ([], s))
      else ([], s))"
  by pat_completeness auto
termination
  by (relation "measure (\<lambda>s. length (ts_queued s))") (auto simp: start_job_def Let_def length_remove_at)

declare dispatch_loop.simps [simp del]

text \<open>\<open>dispatch_ready\<close> reads the clock twice: to expire queued work and to test the deferral.\<close>

definition dispatch_ready ::
  "instant \<Rightarrow> instant \<Rightarrow> 'p TranslationScheduler \<Rightarrow> 'p TranslationJob list \<times> 'p TranslationScheduler" where
  "dispatch_ready now now' s =
     (let s = drop_expired_queued_at now s
      in if is_some_and (ts_dispatch_not_before s) (\<lambda>not_before. now' < not_before) then ([], s)
         else dispatch_loop (s\<lparr>ts_dispatch_not_before := None\<rparr>))"

definition finish_job :: "rstring \<Rightarrow> 'p TranslationScheduler \<Rightarrow> 'p TranslationScheduler" where
  "finish_job key s = s\<lparr>ts_in_flight := hash_remove key (ts_in_flight s)\<rparr>"

definition take_expired_terminal_jobs ::
  "'p TranslationScheduler \<Rightarrow> 'p TranslationJob list \<times> 'p TranslationScheduler" where
  "take_expired_terminal_jobs s = (ts_expired_terminal_jobs s, s\<lparr>ts_expired_terminal_jobs := []\<rparr>)"

definition has_work_for_cue :: "rstring \<Rightarrow> 'p TranslationScheduler \<Rightarrow> bool" where
  "has_work_for_cue cue_id s \<longleftrightarrow> list_ex (\<lambda>j. tj_cue_id j = cue_id) (ts_queued s) \<or>
     list_ex (\<lambda>(_, f). if_cue_id f = cue_id) (ts_in_flight s)"

definition drop_queued_for_cue :: "rstring \<Rightarrow> 'p TranslationScheduler \<Rightarrow> 'p TranslationScheduler" where
  "drop_queued_for_cue cue_id s =
     (let dropped = filter (\<lambda>j. tj_cue_id j = cue_id) (ts_queued s)
      in s\<lparr>ts_queued := filter (\<lambda>j. tj_cue_id j \<noteq> cue_id) (ts_queued s),
           ts_queued_keys := ts_queued_keys s - set (map tj_key dropped),
           ts_queued_sentence_keys :=
             ts_queued_sentence_keys s - set (map translation_sentence_work_key dropped)\<rparr>)"

definition counts_by_kind :: "'p TranslationScheduler \<Rightarrow> nat \<times> nat \<times> nat" where
  "counts_by_kind s = foldl (\<lambda>(forced, replacement, final_count) j.
     if sr_is_replacement (tj_result j) then (forced, replacement + 1, final_count)
     else if job_forced j then (forced + 1, replacement, final_count)
     else (forced, replacement, final_count + 1)) (0, 0, 0) (ts_queued s)"

section \<open>The queue and its indexes\<close>

text \<open>
  The two hash sets mirror the queue. Every removal of the code then is \<open>retain\<close>: the queue
  filtered, with the mirrors of the result.
\<close>

abbreviation work_key :: "'p TranslationJob \<Rightarrow> rstring" where
  "work_key \<equiv> translation_sentence_work_key"

definition queue_indexed :: "'p TranslationScheduler \<Rightarrow> bool" where
  "queue_indexed s \<longleftrightarrow>
     ts_queued_keys s = set (map tj_key (ts_queued s)) \<and> distinct (map tj_key (ts_queued s)) \<and>
     ts_queued_sentence_keys s = set (map work_key (ts_queued s)) \<and> distinct (map work_key (ts_queued s))"

definition retain :: "('p TranslationJob \<Rightarrow> bool) \<Rightarrow> 'p TranslationScheduler \<Rightarrow> 'p TranslationScheduler" where
  "retain P s = s\<lparr>ts_queued := filter P (ts_queued s),
     ts_queued_keys := set (map tj_key (filter P (ts_queued s))),
     ts_queued_sentence_keys := set (map work_key (filter P (ts_queued s)))\<rparr>"

lemma retain_simps [simp]:
  "ts_queued (retain P s) = filter P (ts_queued s)"
  "ts_in_flight (retain P s) = ts_in_flight s"
  "ts_max_concurrent (retain P s) = ts_max_concurrent s"
  "ts_max_concurrent_forced (retain P s) = ts_max_concurrent_forced s"
  "ts_expired_terminal_jobs (retain P s) = ts_expired_terminal_jobs s"
  "ts_dispatch_not_before (retain P s) = ts_dispatch_not_before s"
  by (simp_all add: retain_def)

lemma distinct_map_filter_le: "distinct (map f xs) \<Longrightarrow> distinct (map f (filter P xs))"
  by (induction xs) auto

lemma index_minus:
  "distinct (map f xs) \<Longrightarrow> set (map f xs) - set (map f (filter (\<lambda>x. \<not> P x) xs)) = set (map f (filter P xs))"
  by (auto simp: distinct_map inj_on_def)

lemma queue_indexed_retain [simp]: "queue_indexed s \<Longrightarrow> queue_indexed (retain P s)"
  by (simp add: queue_indexed_def retain_def distinct_map_filter_le del: set_map)

lemma retain_True [simp]: "queue_indexed s \<Longrightarrow> retain (\<lambda>_. True) s = s"
  by (simp add: retain_def queue_indexed_def del: set_map)

lemma retain_cong:
  "(\<And>j. j \<in> set (ts_queued s) \<Longrightarrow> P j = Q j) \<Longrightarrow> retain P s = retain Q s"
  by (simp add: retain_def cong: filter_cong del: set_map)

lemma retain_retain [simp]: "retain P (retain Q s) = retain (\<lambda>j. Q j \<and> P j) s"
  by (simp add: retain_def del: set_map)

lemma drop_expired_retain:
  assumes "queue_indexed s"
  shows "drop_expired_queued_at now s =
    (retain (\<lambda>j. tj_deadline_at j > now) s)\<lparr>ts_expired_terminal_jobs := ts_expired_terminal_jobs s @
        filter (\<lambda>j. \<not> job_forced j) (filter (\<lambda>j. \<not> tj_deadline_at j > now) (ts_queued s))\<rparr>"
proof -
  note index = index_minus [of _ "ts_queued s" "\<lambda>j. tj_deadline_at j > now"]
  show ?thesis
    using assms index [of tj_key] index [of work_key]
    by (simp add: drop_expired_queued_at_def retain_def queue_indexed_def Let_def del: set_map not_less)
qed

lemma drop_for_cue_retain:
  assumes "queue_indexed s"
  shows "drop_queued_for_cue c s = retain (\<lambda>j. tj_cue_id j \<noteq> c) s"
proof -
  note index = index_minus [of _ "ts_queued s" "\<lambda>j. tj_cue_id j \<noteq> c"]
  show ?thesis
    using assms index [of tj_key] index [of work_key]
    by (simp add: drop_queued_for_cue_def retain_def queue_indexed_def Let_def del: set_map)
qed

lemma remove_at_filter:
  assumes "distinct (map f xs)" and "i < length xs"
  shows "remove_at i xs = filter (\<lambda>x. f x \<noteq> f (xs ! i)) xs"
  using assms
proof (induction xs arbitrary: i)
  case (Cons x xs)
  show ?case
  proof (cases i)
    case 0
    then have "\<forall>y\<in>set xs. f y \<noteq> f x" using Cons.prems by (simp add: image_iff) metis
    then have "filter (\<lambda>y. f y \<noteq> f x) xs = xs" by (simp add: filter_id_conv)
    with 0 show ?thesis by (simp add: remove_at_Cons)
  next
    case (Suc j)
    with Cons.prems have "f x \<noteq> f (xs ! j)" by auto
    with Suc Cons show ?thesis by (simp add: remove_at_Cons)
  qed
qed simp

lemma remove_at_index:
  assumes "distinct (map f xs)" and "i < length xs"
  shows "set (map f xs) - {f (xs ! i)} = set (map f (remove_at i xs))"
proof -
  have "remove_at i xs = filter (\<lambda>x. f x \<noteq> f (xs ! i)) xs" using assms by (rule remove_at_filter)
  then show ?thesis by auto
qed

lemma remove_at_retain:
  assumes "queue_indexed s" and "i < length (ts_queued s)"
  shows "s\<lparr>ts_queued := remove_at i (ts_queued s),
           ts_queued_keys := ts_queued_keys s - {tj_key (ts_queued s ! i)},
           ts_queued_sentence_keys := ts_queued_sentence_keys s - {work_key (ts_queued s ! i)}\<rparr> =
         retain (\<lambda>j. tj_key j \<noteq> tj_key (ts_queued s ! i)) s"
  using assms remove_at_index [of tj_key "ts_queued s" i] remove_at_index [of work_key "ts_queued s" i]
    remove_at_filter [of tj_key "ts_queued s" i]
  by (simp add: retain_def queue_indexed_def del: set_map)

lemma remove_by_key_retain:
  assumes "queue_indexed s"
  shows "remove_queued_by_key k s = retain (\<lambda>j. tj_key j \<noteq> k) s"
proof (cases "position (\<lambda>j. tj_key j = k) (ts_queued s)")
  case None
  then have "retain (\<lambda>j. tj_key j \<noteq> k) s = retain (\<lambda>_. True) s"
    by (intro retain_cong) (auto simp: position_None)
  with None assms show ?thesis by (simp add: remove_queued_by_key_def)
next
  case (Some i)
  then have i: "i < length (ts_queued s)" "tj_key (ts_queued s ! i) = k" by (auto dest: position_Some)
  with Some remove_at_retain [OF assms i(1)] show ?thesis
    by (simp add: remove_queued_by_key_def Let_def)
qed

lemma remove_keys_retain:
  "queue_indexed s \<Longrightarrow> foldl (\<lambda>s k. remove_queued_by_key k s) s ks = retain (\<lambda>j. tj_key j \<notin> set ks) s"
  by (induction ks arbitrary: s) (simp_all add: remove_by_key_retain conj_commute)

lemma drop_superseded_retain:
  assumes "queue_indexed s"
  shows "drop_superseded_preview job s = retain (\<lambda>j. \<not> superseded_by job j) s"
  using assms
  by (auto simp: drop_superseded_preview_def remove_keys_retain queue_indexed_def distinct_map inj_on_def
      intro!: retain_cong)

section \<open>Invariant\<close>

definition queued_for :: "rstring \<Rightarrow> 'p TranslationScheduler \<Rightarrow> nat" where
  "queued_for c s = length (filter (\<lambda>j. tj_cue_id j = c) (ts_queued s))"

definition queue_bounded :: "'p TranslationScheduler \<Rightarrow> bool" where
  "queue_bounded s \<longleftrightarrow> length (ts_queued s) \<le> MAX_QUEUED_TRANSLATIONS \<and>
     (\<forall>c. queued_for c s \<le> MAX_QUEUED_TRANSLATIONS_PER_CUE)"

definition flight_disjoint :: "'p TranslationScheduler \<Rightarrow> bool" where
  "flight_disjoint s \<longleftrightarrow>
     distinct (map fst (ts_in_flight s)) \<and>
     distinct (map (\<lambda>(_, f). if_sentence_work_key f) (ts_in_flight s)) \<and>
     (\<forall>j\<in>set (ts_queued s). tj_key j \<notin> set (map fst (ts_in_flight s)) \<and>
        work_key j \<notin> set (map (\<lambda>(_, f). if_sentence_work_key f) (ts_in_flight s)))"

definition sched_inv :: "'p TranslationScheduler \<Rightarrow> bool" where
  "sched_inv s \<longleftrightarrow> queue_indexed s \<and> queue_bounded s \<and> flight_disjoint s"

lemma queued_for_retain: "queued_for c (retain P s) \<le> queued_for c s"
  using length_filter_filter_le by (simp add: queued_for_def del: filter_filter)

lemma sched_inv_retain: "sched_inv s \<Longrightarrow> sched_inv (retain P s)"
  by (auto simp: sched_inv_def queue_bounded_def flight_disjoint_def
      intro: le_trans [OF length_filter_le] le_trans [OF queued_for_retain])

lemma sched_inv_frame [simp]:
  "sched_inv (s\<lparr>ts_expired_terminal_jobs := x\<rparr>) = sched_inv s"
  "sched_inv (s\<lparr>ts_dispatch_not_before := y\<rparr>) = sched_inv s"
  "sched_inv (s\<lparr>ts_max_concurrent := m\<rparr>) = sched_inv s"
  by (simp_all add: sched_inv_def queue_indexed_def queue_bounded_def queued_for_def flight_disjoint_def)

lemma drop_expired_inv: "sched_inv s \<Longrightarrow> sched_inv (drop_expired_queued_at now s)"
  by (simp add: drop_expired_retain sched_inv_retain sched_inv_def [of s])

lemma push_job_inv:
  assumes "sched_inv s" and "\<not> is_duplicate job s"
    and "queued_for (tj_cue_id job) s < MAX_QUEUED_TRANSLATIONS_PER_CUE"
    and "length (ts_queued s) < MAX_QUEUED_TRANSLATIONS"
  shows "sched_inv (push_job job s)"
proof -
  have fresh: "tj_key job \<notin> set (map tj_key (ts_queued s))" "work_key job \<notin> set (map work_key (ts_queued s))"
    "tj_key job \<notin> set (map fst (ts_in_flight s))"
    "work_key job \<notin> set (map (\<lambda>(_, f). if_sentence_work_key f) (ts_in_flight s))"
    using assms(1,2) by (auto simp: is_duplicate_def sched_inv_def queue_indexed_def list_ex_iff)
  have "queue_indexed (push_job job s)"
    using assms(1) fresh by (simp add: push_job_def queue_indexed_def sched_inv_def)
  moreover have "queue_bounded (push_job job s)"
    using assms by (auto simp: push_job_def queue_bounded_def queued_for_def sched_inv_def)
  moreover have "flight_disjoint (push_job job s)"
    using assms(1) fresh by (simp add: push_job_def flight_disjoint_def sched_inv_def)
  ultimately show ?thesis by (simp add: sched_inv_def)
qed

text \<open>An eviction removes one preview and nothing else.\<close>

definition evicts :: "'p TranslationScheduler \<Rightarrow> 'p TranslationScheduler \<Rightarrow> bool" where
  "evicts s s' \<longleftrightarrow> (\<exists>P. s' = retain P s \<and> (\<forall>j\<in>set (ts_queued s). \<not> job_forced j \<longrightarrow> P j))"

lemma evicts_refl: "queue_indexed s \<Longrightarrow> evicts s s"
  unfolding evicts_def by (rule exI [of _ "\<lambda>_. True"]) simp

lemma evicts_trans: "evicts s s' \<Longrightarrow> evicts s' s'' \<Longrightarrow> evicts s s''"
  by (fastforce simp: evicts_def)

lemma evicts_inv: "evicts s s' \<Longrightarrow> sched_inv s \<Longrightarrow> sched_inv s'"
  by (auto simp: evicts_def sched_inv_retain)

lemma evicts_bounds:
  "evicts s s' \<Longrightarrow> queued_for c s' \<le> queued_for c s \<and> length (ts_queued s') \<le> length (ts_queued s)"
  by (auto simp: evicts_def queued_for_retain)

lemma evicts_duplicate: "evicts s s' \<Longrightarrow> queue_indexed s \<Longrightarrow> is_duplicate job s' \<Longrightarrow> is_duplicate job s"
  by (auto simp: evicts_def is_duplicate_def retain_def queue_indexed_def)

lemma remove_forced_evicts:
  assumes "queue_indexed s" and "j \<in> set (ts_queued s)" and "job_forced j"
  shows "evicts s (remove_queued_by_key (tj_key j) s)"
    and "queued_for (tj_cue_id j) (remove_queued_by_key (tj_key j) s) < queued_for (tj_cue_id j) s"
    and "length (ts_queued (remove_queued_by_key (tj_key j) s)) < length (ts_queued s)"
proof -
  show "evicts s (remove_queued_by_key (tj_key j) s)"
    using assms unfolding evicts_def remove_by_key_retain [OF assms(1)]
    by (intro exI [of _ "\<lambda>i. tj_key i \<noteq> tj_key j"]) (auto simp: queue_indexed_def distinct_map inj_on_def)
  show "queued_for (tj_cue_id j) (remove_queued_by_key (tj_key j) s) < queued_for (tj_cue_id j) s"
    using length_filter_filter_less [OF assms(2), of "\<lambda>i. tj_cue_id i = tj_cue_id j" "\<lambda>i. tj_key i \<noteq> tj_key j"]
    by (simp add: remove_by_key_retain [OF assms(1)] queued_for_def del: filter_filter)
  show "length (ts_queued (remove_queued_by_key (tj_key j) s)) < length (ts_queued s)"
    using length_filter_filter_less [OF assms(2), of "\<lambda>_. True" "\<lambda>i. tj_key i \<noteq> tj_key j"]
    by (simp add: remove_by_key_retain [OF assms(1)])
qed

lemma drop_superseded_evicts: "queue_indexed s \<Longrightarrow> evicts s (drop_superseded_preview job s)"
  unfolding evicts_def drop_superseded_retain
  by (intro exI [of _ "\<lambda>j. \<not> superseded_by job j"]) (auto simp: superseded_by_def)

lemma evict_for_cue_evicts:
  assumes "queue_indexed s" and "evict_preview_for_cue c s = (b, s')"
  shows "evicts s s'" and "b \<Longrightarrow> queued_for c s' < queued_for c s"
  using assms remove_forced_evicts [OF assms(1)] evicts_refl [OF assms(1)]
  by (auto simp: evict_preview_for_cue_def find_Some_iff split: option.splits)

lemma evict_oldest_evicts:
  assumes "queue_indexed s" and "evict_oldest_preview s = (b, s')"
  shows "evicts s s'" and "b \<Longrightarrow> length (ts_queued s') < length (ts_queued s)"
  using assms remove_forced_evicts [OF assms(1)] evicts_refl [OF assms(1)]
  by (auto simp: evict_oldest_preview_def dest!: min_by_Some split: option.splits)

lemma enqueue_outcome:
  assumes inv: "sched_inv s" and e: "enqueue_with_result_at job now s = (r, s')"
  obtains s1 where "evicts (drop_expired_queued_at now s) s1"
    and "s' = (if r = Enqueued then push_job job s1 else s1)"
    and "r = Enqueued \<Longrightarrow> \<not> is_duplicate job s1 \<and> now < tj_deadline_at job \<and>
           queued_for (tj_cue_id job) s1 < MAX_QUEUED_TRANSLATIONS_PER_CUE \<and>
           length (ts_queued s1) < MAX_QUEUED_TRANSLATIONS"
proof -
  let ?s0 = "drop_expired_queued_at now s"
  have inv0: "sched_inv ?s0" using inv by (rule drop_expired_inv)
  then have ix0: "queue_indexed ?s0" by (simp add: sched_inv_def)
  show ?thesis
  proof (cases "tj_deadline_at job \<le> now \<or> is_duplicate job ?s0")
    case True
    with e have "s' = ?s0" "r \<noteq> Enqueued" by (auto simp: enqueue_with_result_at_def Let_def split: if_splits)
    with that evicts_refl [OF ix0] show ?thesis by auto
  next
    case False
    define s2 where "s2 = drop_superseded_preview job ?s0"
    have ev2: "evicts ?s0 s2" unfolding s2_def using ix0 by (rule drop_superseded_evicts)
    have inv2: "sched_inv s2" using ev2 inv0 by (rule evicts_inv)
    define p where "p = (if queued_for (tj_cue_id job) s2 \<ge> MAX_QUEUED_TRANSLATIONS_PER_CUE
      then (let (evicted, s') = evict_preview_for_cue (tj_cue_id job) s2 in (\<not> evicted, s')) else (False, s2))"
    obtain cue_full s3 where p: "p = (cue_full, s3)" by fastforce
    have ev3: "evicts s2 s3" and c3: "\<not> cue_full \<Longrightarrow> queued_for (tj_cue_id job) s3 < MAX_QUEUED_TRANSLATIONS_PER_CUE"
      using p evict_for_cue_evicts [of s2 "tj_cue_id job"] inv2 evicts_refl [of s2]
      by (auto simp: p_def sched_inv_def queue_bounded_def split: if_splits prod.splits intro: less_le_trans)
    have inv3: "sched_inv s3" using ev3 inv2 by (rule evicts_inv)
    define q where "q = (if length (ts_queued s3) \<ge> MAX_QUEUED_TRANSLATIONS
      then (let (evicted, s') = evict_oldest_preview s3 in (\<not> evicted, s')) else (False, s3))"
    obtain full s4 where q: "q = (full, s4)" by fastforce
    have ev4: "evicts s3 s4" and c4: "\<not> full \<Longrightarrow> length (ts_queued s4) < MAX_QUEUED_TRANSLATIONS"
      using q evict_oldest_evicts [of s3] inv3 evicts_refl [of s3]
      by (auto simp: q_def sched_inv_def queue_bounded_def split: if_splits prod.splits intro: less_le_trans)
    have ev04: "evicts ?s0 s3" "evicts ?s0 s4" using ev2 ev3 ev4 evicts_trans by blast+
    have out: "(r, s') = (if cue_full then (RejectedOverflow, s3)
        else if full then (RejectedOverflow, s4) else (Enqueued, push_job job s4))"
      using e False p q
      by (auto simp: enqueue_with_result_at_def Let_def s2_def [symmetric] queued_for_def [symmetric]
          p_def [symmetric] q_def [symmetric])
    have "queued_for (tj_cue_id job) s4 \<le> queued_for (tj_cue_id job) s3"
      using evicts_bounds [OF ev4] by blast
    with out False that [OF ev04(1)] that [OF ev04(2)] c3 c4 evicts_duplicate [OF ev04(2) ix0, of job] show ?thesis
      by (auto split: if_splits)
  qed
qed

lemma enqueue_inv: "sched_inv s \<Longrightarrow> sched_inv (snd (enqueue_with_result_at job now s))"
proof -
  assume inv: "sched_inv s"
  obtain r s' where e: "enqueue_with_result_at job now s = (r, s')" by fastforce
  obtain s1 where "evicts (drop_expired_queued_at now s) s1" "s' = (if r = Enqueued then push_job job s1 else s1)"
    and "r = Enqueued \<Longrightarrow> \<not> is_duplicate job s1 \<and> now < tj_deadline_at job \<and>
           queued_for (tj_cue_id job) s1 < MAX_QUEUED_TRANSLATIONS_PER_CUE \<and>
           length (ts_queued s1) < MAX_QUEUED_TRANSLATIONS"
    using enqueue_outcome [OF inv e] by blast
  with e show ?thesis using evicts_inv drop_expired_inv [OF inv] by (auto intro!: push_job_inv)
qed

section \<open>Dispatch\<close>

lemma snd_enumerate: "k \<in> set xs \<longleftrightarrow> (\<exists>n. (n, k) \<in> set (List.enumerate m xs))"
proof -
  have "set xs = snd ` set (List.enumerate m xs)" by (simp flip: set_map)
  then show ?thesis by force
qed

lemma next_dispatch_index_Some:
  assumes "next_dispatch_index s = Some i"
  shows "i < length (ts_queued s)" and "dispatch_eligible s (ts_queued s ! i)"
    and "\<forall>j\<in>set (ts_queued s). dispatch_eligible s j \<longrightarrow> dispatch_key (ts_queued s ! i) \<le> dispatch_key j"
    and "length (ts_in_flight s) < ts_max_concurrent s"
proof -
  let ?xs = "filter (\<lambda>(_, j). dispatch_eligible s j) (List.enumerate 0 (ts_queued s))"
  from assms have cap: "length (ts_in_flight s) < ts_max_concurrent s"
    and "\<exists>j. min_by (\<lambda>(_, j). dispatch_key j) ?xs = Some (i, j)"
    by (auto simp: next_dispatch_index_def split: if_splits)
  then obtain j where m: "min_by (\<lambda>(_, j). dispatch_key j) ?xs = Some (i, j)" by blast
  have in_j: "(i, j) \<in> set ?xs" and least: "\<And>y. y \<in> set ?xs \<Longrightarrow> dispatch_key j \<le> dispatch_key (snd y)"
    using min_by_Some [OF m] by (auto simp: split_def)
  have i: "i < length (ts_queued s)" "j = ts_queued s ! i" "dispatch_eligible s j"
    using in_j by (auto simp: in_set_enumerate_eq)
  show "i < length (ts_queued s)" "dispatch_eligible s (ts_queued s ! i)"
    "length (ts_in_flight s) < ts_max_concurrent s" using i cap by auto
  show "\<forall>j\<in>set (ts_queued s). dispatch_eligible s j \<longrightarrow> dispatch_key (ts_queued s ! i) \<le> dispatch_key j"
  proof (intro ballI impI)
    fix k assume "k \<in> set (ts_queued s)" "dispatch_eligible s k"
    then obtain n where "(n, k) \<in> set ?xs" by (auto simp: snd_enumerate [of k _ 0])
    from least [OF this] i(2) show "dispatch_key (ts_queued s ! i) \<le> dispatch_key k" by simp
  qed
qed

lemma next_dispatch_index_None:
  "next_dispatch_index s = None \<longleftrightarrow>
     length (ts_in_flight s) \<ge> ts_max_concurrent s \<or> (\<forall>j\<in>set (ts_queued s). \<not> dispatch_eligible s j)"
proof -
  have "filter (\<lambda>(_, j). dispatch_eligible s j) (List.enumerate 0 (ts_queued s)) = [] \<longleftrightarrow>
      (\<forall>j\<in>set (ts_queued s). \<not> dispatch_eligible s j)"
    by (auto simp: filter_empty_conv snd_enumerate [of _ "ts_queued s" 0])
  then show ?thesis by (auto simp: next_dispatch_index_def)
qed

lemma start_job_inv:
  assumes inv: "sched_inv s" and i: "i < length (ts_queued s)"
  shows "sched_inv (start_job i s)"
proof -
  let ?job = "ts_queued s ! i"
  let ?f = "\<lparr>if_cue_id = tj_cue_id ?job, if_is_forced = job_forced ?job, if_sentence_work_key = work_key ?job\<rparr>"
  have ix: "queue_indexed s" and fl: "flight_disjoint s" using inv by (auto simp: sched_inv_def)
  have job: "?job \<in> set (ts_queued s)" using i by simp
  have fresh: "tj_key ?job \<notin> set (map fst (ts_in_flight s))" using fl job by (simp add: flight_disjoint_def)
  let ?r = "retain (\<lambda>j. tj_key j \<noteq> tj_key ?job) s"
  have eq: "start_job i s = ?r\<lparr>ts_in_flight := (tj_key ?job, ?f) # ts_in_flight s\<rparr>"
    using remove_at_retain [OF ix i, symmetric] hash_insert_fresh [OF fresh]
    by (simp add: start_job_def Let_def)
  have "\<forall>j\<in>set (ts_queued ?r). work_key j \<noteq> work_key ?job"
    using ix job by (auto simp: queue_indexed_def distinct_map inj_on_def)
  then have "flight_disjoint (start_job i s)"
    using fl job by (auto simp: eq flight_disjoint_def)
  moreover have "sched_inv ?r" using inv by (rule sched_inv_retain)
  ultimately show ?thesis
    by (simp add: eq sched_inv_def queue_indexed_def queue_bounded_def queued_for_def)
qed

lemma start_job_in_flight:
  assumes "sched_inv s" and "i < length (ts_queued s)"
  shows "length (ts_in_flight (start_job i s)) = Suc (length (ts_in_flight s))"
    and "forced_in_flight_count (start_job i s) =
           forced_in_flight_count s + (if job_forced (ts_queued s ! i) then 1 else 0)"
proof -
  have "tj_key (ts_queued s ! i) \<notin> set (map fst (ts_in_flight s))"
    using assms by (simp add: sched_inv_def flight_disjoint_def)
  from hash_insert_fresh [OF this] show
    "length (ts_in_flight (start_job i s)) = Suc (length (ts_in_flight s))"
    "forced_in_flight_count (start_job i s) =
           forced_in_flight_count s + (if job_forced (ts_queued s ! i) then 1 else 0)"
    by (simp_all add: start_job_def Let_def forced_in_flight_count_def)
qed

lemma start_job_simps [simp]:
  "ts_max_concurrent (start_job i s) = ts_max_concurrent s"
  "ts_max_concurrent_forced (start_job i s) = ts_max_concurrent_forced s"
  "ts_expired_terminal_jobs (start_job i s) = ts_expired_terminal_jobs s"
  "ts_queued (start_job i s) = remove_at i (ts_queued s)"
  by (simp_all add: start_job_def Let_def)

lemma mset_remove_at: "i < length xs \<Longrightarrow> set xs = insert (xs ! i) (set (remove_at i xs))"
  by (induction xs arbitrary: i) (auto simp: remove_at_Cons nth_Cons split: nat.split)

lemma dispatch_loop_spec:
  assumes "sched_inv s" and "dispatch_loop s = (jobs, s')"
  shows "sched_inv s' \<and>
    length (ts_in_flight s') \<le> max (length (ts_in_flight s)) (ts_max_concurrent s) \<and>
    forced_in_flight_count s' \<le> max (forced_in_flight_count s) (ts_max_concurrent_forced s) \<and>
    ts_max_concurrent s' = ts_max_concurrent s \<and>
    ts_expired_terminal_jobs s' = ts_expired_terminal_jobs s \<and>
    next_dispatch_index s' = None \<and> set (ts_queued s) = set jobs \<union> set (ts_queued s')"
  using assms
proof (induction s arbitrary: jobs rule: dispatch_loop.induct)
  case (1 s)
  show ?case
  proof (cases "next_dispatch_index s")
    case None
    with "1.prems" have "jobs = []" "s' = s" by (auto simp: dispatch_loop.simps [of s] split: if_splits)
    with None "1.prems"(1) show ?thesis by simp
  next
    case (Some i)
    note n = next_dispatch_index_Some [OF Some]
    obtain jobs' where rec: "dispatch_loop (start_job i s) = (jobs', s')" and jobs: "jobs = ts_queued s ! i # jobs'"
      using "1.prems"(2) Some n(1,4) by (auto simp: dispatch_loop.simps [of s] split: prod.splits)
    have inv: "sched_inv (start_job i s)" using "1.prems"(1) n(1) by (rule start_job_inv)
    have IH: "sched_inv s' \<and>
      length (ts_in_flight s') \<le> max (length (ts_in_flight (start_job i s))) (ts_max_concurrent s) \<and>
      forced_in_flight_count s' \<le> max (forced_in_flight_count (start_job i s)) (ts_max_concurrent_forced s) \<and>
      ts_max_concurrent s' = ts_max_concurrent s \<and> ts_expired_terminal_jobs s' = ts_expired_terminal_jobs s \<and>
      next_dispatch_index s' = None \<and> set (remove_at i (ts_queued s)) = set jobs' \<union> set (ts_queued s')"
      using "1.IH" [OF n(4) Some n(1) inv rec] by simp
    have "length (ts_in_flight (start_job i s)) \<le> ts_max_concurrent s"
      "forced_in_flight_count (start_job i s) \<le> max (forced_in_flight_count s) (ts_max_concurrent_forced s)"
      using start_job_in_flight [OF "1.prems"(1) n(1)] n(2,4) by (auto simp: dispatch_eligible_def)
    with IH jobs mset_remove_at [OF n(1)] show ?thesis by auto
  qed
qed

lemma dispatch_ready_spec:
  assumes "sched_inv s" and "dispatch_ready now now' s = (jobs, s')"
  defines "s0 \<equiv> drop_expired_queued_at now s"
  shows "sched_inv s'" and "set (ts_queued s0) = set jobs \<union> set (ts_queued s')"
    and "ts_expired_terminal_jobs s' = ts_expired_terminal_jobs s0"
    and "length (ts_in_flight s') \<le> max (length (ts_in_flight s)) (ts_max_concurrent s)"
    and "forced_in_flight_count s' \<le> max (forced_in_flight_count s) (ts_max_concurrent_forced s)"
    and "\<not> is_some_and (ts_dispatch_not_before s) (\<lambda>t. now' < t) \<Longrightarrow> next_dispatch_index s' = None"
    and "is_some_and (ts_dispatch_not_before s) (\<lambda>t. now' < t) \<Longrightarrow> jobs = []"
proof -
  have inv0: "sched_inv s0" using drop_expired_inv [OF assms(1)] by (simp add: s0_def)
  have frame: "ts_in_flight s0 = ts_in_flight s" "ts_max_concurrent s0 = ts_max_concurrent s"
    "ts_max_concurrent_forced s0 = ts_max_concurrent_forced s"
    "ts_dispatch_not_before s0 = ts_dispatch_not_before s"
    by (simp_all add: s0_def drop_expired_queued_at_def Let_def)
  have "sched_inv s' \<and> set (ts_queued s0) = set jobs \<union> set (ts_queued s') \<and>
    ts_expired_terminal_jobs s' = ts_expired_terminal_jobs s0 \<and>
    length (ts_in_flight s') \<le> max (length (ts_in_flight s)) (ts_max_concurrent s) \<and>
    forced_in_flight_count s' \<le> max (forced_in_flight_count s) (ts_max_concurrent_forced s) \<and>
    (if is_some_and (ts_dispatch_not_before s) (\<lambda>t. now' < t) then jobs = [] else next_dispatch_index s' = None)"
  proof (cases "is_some_and (ts_dispatch_not_before s) (\<lambda>t. now' < t)")
    case True
    with assms(2) have "jobs = []" "s' = s0"
      by (simp_all add: dispatch_ready_def s0_def [symmetric] frame)
    with True inv0 frame show ?thesis by (simp add: forced_in_flight_count_def)
  next
    case False
    with assms(2) have "dispatch_loop (s0\<lparr>ts_dispatch_not_before := None\<rparr>) = (jobs, s')"
      by (simp add: dispatch_ready_def s0_def [symmetric] frame)
    from dispatch_loop_spec [OF _ this] inv0 False frame show ?thesis
      by (simp add: forced_in_flight_count_def)
  qed
  then show "sched_inv s'" "set (ts_queued s0) = set jobs \<union> set (ts_queued s')"
    "ts_expired_terminal_jobs s' = ts_expired_terminal_jobs s0"
    "length (ts_in_flight s') \<le> max (length (ts_in_flight s)) (ts_max_concurrent s)"
    "forced_in_flight_count s' \<le> max (forced_in_flight_count s) (ts_max_concurrent_forced s)"
    "\<not> is_some_and (ts_dispatch_not_before s) (\<lambda>t. now' < t) \<Longrightarrow> next_dispatch_index s' = None"
    "is_some_and (ts_dispatch_not_before s) (\<lambda>t. now' < t) \<Longrightarrow> jobs = []"
    by (simp_all split: if_splits)
qed

lemma finish_job_inv:
  assumes "sched_inv s"
  shows "sched_inv (finish_job key s)"
proof -
  have "set (hash_remove key (ts_in_flight s)) \<subseteq> set (ts_in_flight s)" by (simp add: hash_remove_def)
  then have "flight_disjoint (finish_job key s)"
    using assms unfolding sched_inv_def flight_disjoint_def set_map
    by (simp add: finish_job_def hash_remove_def distinct_map_filter_le) blast
  then show ?thesis using assms
    by (simp add: finish_job_def sched_inv_def queue_indexed_def queue_bounded_def queued_for_def)
qed

section \<open>Runs\<close>

text \<open>
  What the two workers do with a scheduler, and what they take out of it: the jobs handed to
  \<open>spawn\<close> and the expired jobs they report.
\<close>

datatype 'p sched_op =
    Enqueue "'p TranslationJob" instant
  | DispatchReady instant instant
  | Finish rstring
  | TakeExpired
  | DropCue rstring
  | Defer duration instant
  | SetMax nat

record 'p sched_run =
  sr_sched :: "'p TranslationScheduler"
  sr_spawned :: "'p TranslationJob list"
  sr_reported :: "'p TranslationJob list"

fun sched_step :: "'p sched_run \<Rightarrow> 'p sched_op \<Rightarrow> 'p sched_run" where
  "sched_step r (Enqueue job now) = r\<lparr>sr_sched := snd (enqueue_with_result_at job now (sr_sched r))\<rparr>"
| "sched_step r (DispatchReady now now') =
     (let (jobs, s) = dispatch_ready now now' (sr_sched r)
      in r\<lparr>sr_sched := s, sr_spawned := sr_spawned r @ jobs\<rparr>)"
| "sched_step r (Finish key) = r\<lparr>sr_sched := finish_job key (sr_sched r)\<rparr>"
| "sched_step r TakeExpired =
     (let (jobs, s) = take_expired_terminal_jobs (sr_sched r)
      in r\<lparr>sr_sched := s, sr_reported := sr_reported r @ jobs\<rparr>)"
| "sched_step r (DropCue cue_id) = r\<lparr>sr_sched := drop_queued_for_cue cue_id (sr_sched r)\<rparr>"
| "sched_step r (Defer delay now) = r\<lparr>sr_sched := defer_dispatch_for delay now (sr_sched r)\<rparr>"
| "sched_step r (SetMax n) = r\<lparr>sr_sched := set_max_concurrent n (sr_sched r)\<rparr>"

definition sched_start :: "nat \<Rightarrow> nat \<Rightarrow> 'p sched_run" where
  "sched_start n m = \<lparr>sr_sched = scheduler_new n m, sr_spawned = [], sr_reported = []\<rparr>"

lemma sched_step_inv: "sched_inv (sr_sched r) \<Longrightarrow> sched_inv (sr_sched (sched_step r e))"
proof (cases e)
  case (DispatchReady now now')
  assume inv: "sched_inv (sr_sched r)"
  obtain jobs s where d: "dispatch_ready now now' (sr_sched r) = (jobs, s)" by fastforce
  with DispatchReady dispatch_ready_spec(1) [OF inv d] show ?thesis by simp
qed (auto simp: enqueue_inv finish_job_inv take_expired_terminal_jobs_def drop_for_cue_retain sched_inv_retain
      sched_inv_def [of "sr_sched r"] defer_dispatch_for_def set_max_concurrent_def
      intro: enqueue_inv finish_job_inv)

interpretation sched: invariant_system "sched_start n m" sched_step "\<lambda>r. sched_inv (sr_sched r)"
proof unfold_locales
  show "sched_inv (sr_sched (sched_start n m))"
    by (simp add: sched_start_def scheduler_new_def sched_inv_def queue_indexed_def queue_bounded_def
        queued_for_def flight_disjoint_def)
qed (rule sched_step_inv)

section \<open>Properties\<close>

text \<open>The accounts of a job that must not be lost.\<close>

definition accounted :: "'p TranslationJob \<Rightarrow> 'p sched_run \<Rightarrow> bool" where
  "accounted j r \<longleftrightarrow> j \<in> set (ts_queued (sr_sched r)) \<union> set (sr_spawned r) \<union>
     set (ts_expired_terminal_jobs (sr_sched r)) \<union> set (sr_reported r)"

lemma drop_expired_keeps:
  "\<not> job_forced j \<Longrightarrow> j \<in> set (ts_queued s) \<union> set (ts_expired_terminal_jobs s) \<Longrightarrow>
   j \<in> set (ts_queued (drop_expired_queued_at now s)) \<union> set (ts_expired_terminal_jobs (drop_expired_queued_at now s))"
  by (auto simp: drop_expired_queued_at_def Let_def)

lemma enqueue_keeps:
  assumes inv: "sched_inv s" and j: "\<not> job_forced j" "j \<in> set (ts_queued s) \<union> set (ts_expired_terminal_jobs s)"
    and s': "s' = snd (enqueue_with_result_at job now s)"
  shows "j \<in> set (ts_queued s') \<union> set (ts_expired_terminal_jobs s')"
proof -
  obtain r where e: "enqueue_with_result_at job now s = (r, s')" using s' by (metis surjective_pairing)
  obtain s1 where s1: "evicts (drop_expired_queued_at now s) s1"
    and s': "s' = (if r = Enqueued then push_job job s1 else s1)"
    using enqueue_outcome [OF inv e] by metis
  have "j \<in> set (ts_queued s1) \<union> set (ts_expired_terminal_jobs s1)"
    using s1 drop_expired_keeps [OF j, of now] j(1) by (auto simp: evicts_def)
  then show ?thesis by (auto simp: s' push_job_def)
qed

lemma accounted_step:
  assumes inv: "sched_inv (sr_sched r)" and j: "\<not> job_forced j" "accounted j r"
    and e: "e \<noteq> DropCue (tj_cue_id j)"
  shows "accounted j (sched_step r e)"
proof (cases e)
  case (Enqueue job now)
  with enqueue_keeps [OF inv j(1) _ refl, of job now] j(2) show ?thesis by (auto simp: accounted_def)
next
  case (DispatchReady now now')
  obtain jobs s where d: "dispatch_ready now now' (sr_sched r) = (jobs, s)" by fastforce
  note spec = dispatch_ready_spec(2,3) [OF inv d]
  show ?thesis
    using DispatchReady d spec j(2) drop_expired_keeps [OF j(1), of "sr_sched r" now]
    by (auto simp: accounted_def)
next
  case (DropCue c)
  with e j(2) show ?thesis by (auto simp: accounted_def drop_queued_for_cue_def Let_def)
qed (use j(2) in \<open>auto simp: accounted_def finish_job_def take_expired_terminal_jobs_def
      defer_dispatch_for_def set_max_concurrent_def\<close>)

lemma accounted_runs:
  "sched_inv (sr_sched r) \<Longrightarrow> \<not> job_forced j \<Longrightarrow> accounted j r \<Longrightarrow> DropCue (tj_cue_id j) \<notin> set es \<Longrightarrow>
   accounted j (runs sched_step r es)"
  by (induction es arbitrary: r) (auto simp: accounted_step sched_step_inv)

text \<open>
  C7: Along every run of the scheduler, its two hash sets hold exactly the keys of the queued jobs,
  no job key and no sentence work key is queued twice or both queued and in flight, the queue holds
  at most 128 jobs and at most 8 for one cue.
\<close>

theorem scheduler_queue_invariant:
  "let s = sr_sched (runs sched_step (sched_start n m) es) in
    ts_queued_keys s = set (map tj_key (ts_queued s)) \<and>
    ts_queued_sentence_keys s = set (map translation_sentence_work_key (ts_queued s)) \<and>
    distinct (map tj_key (ts_queued s) @ map fst (ts_in_flight s)) \<and>
    distinct (map translation_sentence_work_key (ts_queued s) @
              map (\<lambda>(_, f). if_sentence_work_key f) (ts_in_flight s)) \<and>
    length (ts_queued s) \<le> 128 \<and> length (filter (\<lambda>j. tj_cue_id j = c) (ts_queued s)) \<le> 8"
proof -
  define s where "s = sr_sched (runs sched_step (sched_start n m) es)"
  have "sched_inv s" unfolding s_def by (rule sched.inv_reachable)
  then have ix: "queue_indexed s" and b: "queue_bounded s" and fl: "flight_disjoint s"
    by (simp_all add: sched_inv_def)
  have "set (map tj_key (ts_queued s)) \<inter> set (map fst (ts_in_flight s)) = {}"
    "set (map work_key (ts_queued s)) \<inter> set (map (\<lambda>(_, f). if_sentence_work_key f) (ts_in_flight s)) = {}"
    using fl unfolding flight_disjoint_def set_map by blast+
  moreover have "length (ts_queued s) \<le> 128" "length (filter (\<lambda>j. tj_cue_id j = c) (ts_queued s)) \<le> 8"
    using b by (auto simp: queue_bounded_def queued_for_def MAX_QUEUED_TRANSLATIONS_def
        MAX_QUEUED_TRANSLATIONS_PER_CUE_def)
  ultimately show ?thesis using ix fl
    by (simp add: s_def [symmetric] Let_def queue_indexed_def flight_disjoint_def del: set_map)
qed

text \<open>
  C8: A final translation that the scheduler has accepted is never lost: whatever follows, short of
  dropping its cue, it is still queued, or was handed to a translation task, or is kept for the
  expiry report, or has been reported. Only previews are evicted or superseded.
\<close>

theorem scheduler_final_job_not_lost:
  fixes r :: "'p sched_run"
  assumes "r = runs sched_step (sched_start n m) es"
    and "fst (enqueue_with_result_at job now (sr_sched r)) = Enqueued"
    and "\<not> sr_is_forced (tj_result job)" and "DropCue (tj_cue_id job) \<notin> set later"
  shows "let r' = runs sched_step r (Enqueue job now # later)
         in job \<in> set (ts_queued (sr_sched r')) \<union> set (sr_spawned r') \<union>
              set (ts_expired_terminal_jobs (sr_sched r')) \<union> set (sr_reported r')"
proof -
  have inv: "sched_inv (sr_sched r)" unfolding assms(1) by (rule sched.inv_reachable)
  let ?r1 = "sched_step r (Enqueue job now)"
  obtain s' where e: "enqueue_with_result_at job now (sr_sched r) = (Enqueued, s')"
    using assms(2) by (metis prod.collapse)
  obtain s1 where "s' = push_job job s1" using enqueue_outcome [OF inv e] by auto
  with e have "accounted job ?r1" by (simp add: accounted_def push_job_def)
  from accounted_runs [OF sched_step_inv [OF inv] assms(3) this assms(4)] show ?thesis
    by (simp add: accounted_def Let_def)
qed

definition demo_result :: "bool \<Rightarrow> SentenceResult" where
  "demo_result forced = \<lparr>sr_sentence = [65], sr_context = [], sr_is_forced = forced, sr_is_replacement = False,
     sr_pending_id = None\<rparr>"

definition demo_job :: "nat \<Rightarrow> bool \<Rightarrow> unit TranslationJob" where
  "demo_job k forced = \<lparr>tj_key = [k], tj_sequence = k, tj_cue_revision = k, tj_display_index = 0, tj_cue_id = [1],
     tj_result = demo_result forced, tj_full_prompt = [], tj_source_language = [], tj_target_language = [],
     tj_provider_timeout_ms = 0, tj_payload = (), tj_created_at = 0, tj_deadline_at = 9\<rparr>"

lemma demo_enqueued: "fst (enqueue_with_result_at (demo_job 1 False) 0 (scheduler_new 2 1)) = Enqueued"
  by (simp add: enqueue_with_result_at_def demo_job_def Let_def drop_expired_queued_at_def scheduler_new_def
      is_duplicate_def drop_superseded_preview_def MAX_QUEUED_TRANSLATIONS_def MAX_QUEUED_TRANSLATIONS_PER_CUE_def)

theorem scheduler_final_job_not_lost_witness:
  "let r' = runs sched_step (sched_start 2 1) (Enqueue (demo_job 1 False) 0 # [DispatchReady 20 20])
   in demo_job 1 False \<in> set (ts_queued (sr_sched r')) \<union> set (sr_spawned r') \<union>
        set (ts_expired_terminal_jobs (sr_sched r')) \<union> set (sr_reported r')"
  using scheduler_final_job_not_lost [of "sched_start 2 1" 2 1 "[]" "demo_job 1 False" 0 "[DispatchReady 20 20]"]
    demo_enqueued
  by (simp add: sched_start_def demo_job_def demo_result_def)

text \<open>
  A dispatch never exceeds the configured concurrency, of all jobs and of forced previews
  separately, starts nothing while it is deferred, and otherwise leaves no job waiting that could
  run: a free slot remains only when every queued job is a preview and the preview slots are taken.
\<close>

theorem dispatch_ready_work_conserving:
  "let s = sr_sched (runs sched_step (sched_start n m) es);
       (jobs, s') = dispatch_ready now now' s;
       deferred = is_some_and (ts_dispatch_not_before s) (\<lambda>t. now' < t)
   in length (ts_in_flight s') \<le> max (length (ts_in_flight s)) (ts_max_concurrent s) \<and>
      forced_in_flight_count s' \<le> max (forced_in_flight_count s) (ts_max_concurrent_forced s) \<and>
      (if deferred then jobs = []
       else ts_max_concurrent s' \<le> length (ts_in_flight s') \<or>
         list_all (\<lambda>j. sr_is_forced (tj_result j) \<and>
           ts_max_concurrent_forced s' \<le> forced_in_flight_count s') (ts_queued s'))"
proof -
  define s where "s = sr_sched (runs sched_step (sched_start n m) es)"
  have inv: "sched_inv s" unfolding s_def by (rule sched.inv_reachable)
  obtain jobs s' where d: "dispatch_ready now now' s = (jobs, s')" by fastforce
  note spec = dispatch_ready_spec(4-7) [OF inv d]
  show ?thesis using spec
    by (auto simp: s_def [symmetric] d Let_def next_dispatch_index_None dispatch_eligible_def not_less list_all_iff)
qed

text \<open>
  The job the scheduler starts next is an eligible one, and every eligible queued job has a
  lower rank, or the same rank and a later deadline, or the same rank and deadline and a later
  sequence number.
\<close>

theorem next_dispatch_is_most_urgent:
  assumes "next_dispatch_index s = Some i" and "j \<in> set (ts_queued s)" and "dispatch_eligible s j"
  shows "i < length (ts_queued s) \<and> dispatch_eligible s (ts_queued s ! i) \<and>
    (let k = ts_queued s ! i; rank = (\<lambda>j. translation_rank (tj_result j))
     in rank j < rank k \<or> rank j = rank k \<and>
        (tj_deadline_at k < tj_deadline_at j \<or>
         tj_deadline_at k = tj_deadline_at j \<and> tj_sequence k \<le> tj_sequence j))"
proof -
  have le: "dispatch_key (ts_queued s ! i) \<le> dispatch_key j"
    using next_dispatch_index_Some(3) [OF assms(1)] assms(2,3) by blast
  have rank: "(3 - rank_as_u8 a < 3 - rank_as_u8 b) = (b < a)" "(3 - rank_as_u8 a \<le> 3 - rank_as_u8 b) = (b \<le> a)" for a b
    by (cases a; cases b; simp add: less_TranslationRank_def less_eq_TranslationRank_def)+
  show ?thesis using le next_dispatch_index_Some(1,2) [OF assms(1)]
    by (auto simp: dispatch_key_def less_eq_prod_def less_prod_def rank Let_def not_less)
qed

definition demo_sched :: "unit TranslationScheduler" where
  "demo_sched = push_job (demo_job 2 False) (push_job (demo_job 1 True) (scheduler_new 2 1))"

lemma demo_next: "next_dispatch_index demo_sched = Some 1"
  by (simp add: demo_sched_def next_dispatch_index_def scheduler_new_def push_job_def dispatch_eligible_def
      dispatch_key_def demo_job_def demo_result_def translation_rank_def forced_in_flight_count_def less_prod_def
      numeral_eq_Suc)

theorem next_dispatch_is_most_urgent_witness:
  "1 < length (ts_queued demo_sched) \<and> dispatch_eligible demo_sched (ts_queued demo_sched ! 1) \<and>
   (let k = ts_queued demo_sched ! 1; rank = (\<lambda>j. translation_rank (tj_result j))
    in rank (demo_job 1 True) < rank k \<or> rank (demo_job 1 True) = rank k \<and>
       (tj_deadline_at k < tj_deadline_at (demo_job 1 True) \<or>
        tj_deadline_at k = tj_deadline_at (demo_job 1 True) \<and> tj_sequence k \<le> tj_sequence (demo_job 1 True)))"
proof (rule next_dispatch_is_most_urgent [OF demo_next])
  show "demo_job 1 True \<in> set (ts_queued demo_sched)" by (simp add: demo_sched_def push_job_def)
  show "dispatch_eligible demo_sched (demo_job 1 True)"
    by (simp add: demo_sched_def dispatch_eligible_def forced_in_flight_count_def push_job_def scheduler_new_def)
qed

end
