(* ===== verification/Sentence_Splitter.thy ===== *)
theory Sentence_Splitter
  imports Complex_Main Subtitle_Chunks Translation_Scheduler
begin

text \<open>
  The streaming sentence splitter (\<open>SentenceSplitter\<close> of \<open>audio/sentence.rs\<close>): it receives growing
  and sometimes revised recognition hypotheses and commits sentences out of them. Extended grapheme
  clusters come from the crate \<open>unicode_segmentation\<close>; they are the argument \<open>graphemes\<close>, of which
  the sources rely on the documented fact that the clusters are not empty and concatenate to the
  text. The two clocks are arguments. The moving average of the hypothesis interval is a rational
  number where the source has an \<open>f64\<close>. A panic of a slice is the value \<open>None\<close>.
\<close>

section \<open>Constants and data\<close>

definition STABLE_PREFIX_AGE :: duration where "STABLE_PREFIX_AGE = from_millis 250"
definition FORCED_REPEAT_INTERVAL :: duration where "FORCED_REPEAT_INTERVAL = from_millis 500"
definition INITIAL_HYPOTHESIS_INTERVAL_MS :: rat where "INITIAL_HYPOTHESIS_INTERVAL_MS = 100"
definition HYPOTHESIS_INTERVAL_EMA_ALPHA :: rat where "HYPOTHESIS_INTERVAL_EMA_ALPHA = 1 / 5"
definition MAX_CONTEXT_SENTENCES :: nat where "MAX_CONTEXT_SENTENCES = 3"
definition MIN_NORMAL_WORDS :: nat where "MIN_NORMAL_WORDS = 4"
definition MIN_NORMAL_GRAPHEMES :: nat where "MIN_NORMAL_GRAPHEMES = 8"
definition MIN_FORCED_WORDS :: nat where "MIN_FORCED_WORDS = 4"
definition MIN_FORCED_GRAPHEMES :: nat where "MIN_FORCED_GRAPHEMES = 4"
definition MIN_FORCE_GROWTH_WORDS :: nat where "MIN_FORCE_GROWTH_WORDS = 3"
definition MIN_FORCE_GROWTH_GRAPHEMES :: nat where "MIN_FORCE_GROWTH_GRAPHEMES = 6"

type_synonym segmenter = "rstring \<Rightarrow> rstring list"

definition segmenter_law :: "segmenter \<Rightarrow> bool" where
  "segmenter_law graphemes \<longleftrightarrow> (\<forall>s. concat (graphemes s) = s \<and> [] \<notin> set (graphemes s))"

record ForcedPending =
  fp_id :: rstring
  fp_text :: rstring

record SentenceSplitter =
  ss_buffer :: rstring
  ss_committed :: rstring
  ss_pending_start :: "instant option"
  ss_context :: "rstring list"
  ss_active_forced_pending :: "ForcedPending option"
  ss_last_hypothesis :: rstring
  ss_agreement_prefix :: rstring
  ss_agreement_since :: "instant option"
  ss_last_distinct_hypothesis_at :: "instant option"
  ss_hypothesis_interval_ema_ms :: rat
  ss_last_forced_at :: "instant option"

datatype HypothesisFinality = PartialHypothesis | ProviderFinal
datatype FeedMode = Hypothesis HypothesisFinality | LegacyStablePunctuation

record SentenceFeedResult =
  sf_sentences :: "SentenceResult list"
  sf_revision_reset :: bool
  sf_previous_committed :: rstring

definition splitter_new :: SentenceSplitter where
  "splitter_new =
     \<lparr>ss_buffer = [], ss_committed = [], ss_pending_start = None, ss_context = [],
      ss_active_forced_pending = None, ss_last_hypothesis = [], ss_agreement_prefix = [],
      ss_agreement_since = None, ss_last_distinct_hypothesis_at = None,
      ss_hypothesis_interval_ema_ms = INITIAL_HYPOTHESIS_INTERVAL_MS, ss_last_forced_at = None\<rparr>"

definition splitter_reset :: "SentenceSplitter \<Rightarrow> SentenceSplitter" where
  "splitter_reset s =
     s\<lparr>ss_buffer := [], ss_committed := [], ss_pending_start := None, ss_context := [],
       ss_active_forced_pending := None, ss_last_hypothesis := [], ss_agreement_prefix := [],
       ss_agreement_since := None, ss_last_distinct_hypothesis_at := None,
       ss_hypothesis_interval_ema_ms := INITIAL_HYPOTHESIS_INTERVAL_MS, ss_last_forced_at := None\<rparr>"

section \<open>Text of hypotheses\<close>

text \<open>One character of the loop of \<open>normalize_hypothesis\<close>; the state is the text and \<open>pending_space\<close>.\<close>

definition ends_with_char :: "rchar \<Rightarrow> rstring \<Rightarrow> bool" where
  "ends_with_char c s \<longleftrightarrow> s \<noteq> [] \<and> last s = c"

definition normalize_char :: "rstring \<times> bool \<Rightarrow> rchar \<Rightarrow> rstring \<times> bool" where
  "normalize_char st c =
     (let (normalized, pending_space) = st
      in if c = 13 \<or> c = 10 then
           (let popped = rev (dropWhile (\<lambda>d. d = 32) (rev normalized))
            in (if popped \<noteq> [] \<and> \<not> ends_with_char 10 popped then popped @ [10] else popped, False))
         else if is_whitespace c then (normalized, True)
         else ((if pending_space \<and> normalized \<noteq> [] \<and> \<not> ends_with_char 10 normalized
                then normalized @ [32] else normalized) @ [c], False))"

definition normalize_hypothesis :: "rstring \<Rightarrow> rstring" where
  "normalize_hypothesis text = trim_end (fst (foldl normalize_char ([], False) text))"

fun common_graphemes :: "rstring list \<Rightarrow> rstring list \<Rightarrow> rstring" where
  "common_graphemes (l # ls) (r # rs) = (if l \<noteq> r then [] else l @ common_graphemes ls rs)"
| "common_graphemes _ _ = []"

definition grapheme_common_prefix :: "segmenter \<Rightarrow> rstring \<Rightarrow> rstring \<Rightarrow> rstring" where
  "grapheme_common_prefix graphemes left right = common_graphemes (graphemes left) (graphemes right)"

definition retain_unstable_tail :: "segmenter \<Rightarrow> rstring \<Rightarrow> rstring" where
  "retain_unstable_tail graphemes pre =
     (if trim pre = [] then []
      else if list_ex is_whitespace pre then
        (let words = split_whitespace pre in join (str '' '') (take (length words - 2) words))
      else (let gs = graphemes pre in concat (take (length gs - 4) gs)))"

definition segment_counts :: "segmenter \<Rightarrow> rstring \<Rightarrow> nat \<times> nat" where
  "segment_counts graphemes text = (length (split_whitespace text), length (graphemes text))"

definition is_normal_segment :: "segmenter \<Rightarrow> rstring \<Rightarrow> bool" where
  "is_normal_segment graphemes text =
     (let (words, gs) = segment_counts graphemes text
      in if list_ex is_whitespace text then words \<ge> MIN_NORMAL_WORDS else gs \<ge> MIN_NORMAL_GRAPHEMES)"

definition is_forced_segment :: "segmenter \<Rightarrow> rstring \<Rightarrow> bool" where
  "is_forced_segment graphemes text =
     (let (words, gs) = segment_counts graphemes text
      in if list_ex is_whitespace text then words \<ge> MIN_FORCED_WORDS else gs \<ge> MIN_FORCED_GRAPHEMES)"

definition should_emit_forced_pending :: "segmenter \<Rightarrow> rstring option \<Rightarrow> rstring \<Rightarrow> bool" where
  "should_emit_forced_pending graphemes previous pending_text =
     (case previous of
        None \<Rightarrow> True
      | Some prev \<Rightarrow>
          if prev = pending_text \<or> byte_len pending_text \<le> byte_len prev then False
          else let growth = (if prefix prev pending_text then drop (length prev) pending_text else pending_text);
                   (words, gs) = segment_counts graphemes growth
               in words \<ge> MIN_FORCE_GROWTH_WORDS \<or> gs \<ge> MIN_FORCE_GROWTH_GRAPHEMES)"

definition byte_after_grapheme_count :: "segmenter \<Rightarrow> rstring \<Rightarrow> nat \<Rightarrow> nat option" where
  "byte_after_grapheme_count graphemes text n =
     or_opt (if n < length (graphemes text) then Some (byte_len (concat (take n (graphemes text)))) else None)
       (Some (byte_len text))"

text \<open>The outer \<open>None\<close> is a panic, the inner one the absence of a boundary.\<close>

definition soft_commit_boundary :: "segmenter \<Rightarrow> rstring \<Rightarrow> nat option option" where
  "soft_commit_boundary graphemes text =
     (case byte_after_grapheme_count graphemes text
        (if list_ex is_cjk_caption_character text then MAX_CJK_SUBTITLE_CHARS else MAX_SUBTITLE_CHARS) of
        None \<Rightarrow> Some None
      | Some max_end \<Rightarrow>
          map_option (\<lambda>head.
            let marks = map (\<lambda>(i, c). i + len_utf8 c) (filter (\<lambda>(_, c). is_clause_mark c) (char_indices head));
                spaces = map fst (filter (\<lambda>(_, c). is_whitespace c) (char_indices head))
            in if marks \<noteq> [] then Some (last marks)
               else if length (split_whitespace head) \<ge> MAX_SUBTITLE_WORDS then
                 (if MAX_SUBTITLE_WORDS - 1 < length spaces then Some (spaces ! (MAX_SUBTITLE_WORDS - 1)) else None)
               else if max_end < byte_len text then Some max_end else None)
            (slice_to max_end text))"

definition byte_end_after_trimmed_prefix :: "rstring \<Rightarrow> nat \<Rightarrow> nat option" where
  "byte_end_after_trimmed_prefix text prefix_end =
     map_option (\<lambda>head. byte_len (trim_end head)) (slice_to prefix_end text)"

section \<open>Clocks\<close>

definition observe_hypothesis :: "segmenter \<Rightarrow> instant \<Rightarrow> SentenceSplitter \<Rightarrow> SentenceSplitter" where
  "observe_hypothesis graphemes now s =
     (if ss_buffer s = ss_last_hypothesis s then s
      else
        let s = (case ss_last_distinct_hypothesis_at s of
               None \<Rightarrow> s
             | Some previous_at \<Rightarrow>
                 (let interval_ms = rat_of_nat (now - previous_at) / 1000000
                  in s\<lparr>ss_hypothesis_interval_ema_ms := HYPOTHESIS_INTERVAL_EMA_ALPHA * interval_ms +
                         (1 - HYPOTHESIS_INTERVAL_EMA_ALPHA) * ss_hypothesis_interval_ema_ms s\<rparr>));
            s = s\<lparr>ss_last_distinct_hypothesis_at := Some now\<rparr>;
            candidate = retain_unstable_tail graphemes
              (grapheme_common_prefix graphemes (ss_last_hypothesis s) (ss_buffer s));
            s = (if candidate \<noteq> ss_agreement_prefix s
                 then s\<lparr>ss_agreement_since := Some now, ss_agreement_prefix := candidate\<rparr> else s)
        in s\<lparr>ss_last_hypothesis := ss_buffer s\<rparr>)"

definition stable_prefix_end :: "instant \<Rightarrow> SentenceSplitter \<Rightarrow> nat" where
  "stable_prefix_end now s =
     (if is_some_and (ss_agreement_since s) (\<lambda>since. now - since \<ge> STABLE_PREFIX_AGE)
      then byte_len (ss_agreement_prefix s) else byte_len (ss_committed s))"

definition soft_deadline :: "SentenceSplitter \<Rightarrow> duration" where
  "soft_deadline s =
     from_millis (nat (round (clamp 700 1200 (600 + 2 * ss_hypothesis_interval_ema_ms s))))"

definition hard_deadline :: "SentenceSplitter \<Rightarrow> duration" where
  "hard_deadline s =
     from_millis (nat (round (clamp 1400 1900 (rat_of_nat (soft_deadline s div 1000000) + 700))))"

section \<open>Feeding a hypothesis\<close>

text \<open>
  The loop over the characters of the buffer: the sentences that end at punctuation between the
  committed text and the stable end, and \<open>last_split\<close>.
\<close>

fun commit_loop :: "rstring \<Rightarrow> nat \<Rightarrow> nat \<Rightarrow> nat \<Rightarrow> (nat \<times> rchar) list \<Rightarrow> (rstring list \<times> nat) option" where
  "commit_loop buffer old_committed_len stable_end last_split [] = Some ([], last_split)"
| "commit_loop buffer old_committed_len stable_end last_split ((byte_i, ch) # rest) =
     (let continue = commit_loop buffer old_committed_len stable_end last_split rest
      in if byte_i < old_committed_len \<or> byte_i \<ge> stable_end then continue
         else if ch \<notin> set split_endings then continue
         else if ch \<in> {46, 33, 63} \<and> rest \<noteq> [] \<and> snd (hd rest) \<noteq> 32 \<and> snd (hd rest) \<noteq> 10 then continue
         else Option.bind (if ch = 46 \<and> rest \<noteq> [] \<and> snd (hd rest) = 32
                then map_option (\<lambda>prior. is_upper_initialism (preceding_word prior)) (slice_to byte_i buffer)
                else Some False) (\<lambda>initialism.
           if initialism then continue
           else let end_byte = byte_i + len_utf8 ch
                in Option.bind (slice_range last_split end_byte buffer) (\<lambda>raw.
                     map_option (\<lambda>(sentences, final). ((if trim raw \<noteq> [] then [trim raw] else []) @ sentences, final))
                       (commit_loop buffer old_committed_len stable_end end_byte rest))))"

text \<open>The suffix after the last punctuation: committed whole when final, at a soft boundary when late or long.\<close>

definition commit_suffix :: "segmenter \<Rightarrow> rstring \<Rightarrow> bool \<Rightarrow> bool \<Rightarrow> nat \<Rightarrow> nat \<Rightarrow> (rstring list \<times> nat) option" where
  "commit_suffix graphemes buffer provider_final overdue stable_end last_split =
     Option.bind (slice_range last_split stable_end buffer) (\<lambda>raw.
       let stable_suffix = trim raw
       in if provider_final \<and> stable_end > last_split then
            Some (if stable_suffix \<noteq> [] then ([stable_suffix], stable_end) else ([], last_split))
          else if stable_suffix \<noteq> [] \<and>
              (overdue \<or> needs_subtitle_split_with_limits stable_suffix MAX_SUBTITLE_CHARS MAX_CJK_SUBTITLE_CHARS
                 MAX_SUBTITLE_WORDS)
          then Option.bind (soft_commit_boundary graphemes stable_suffix) (\<lambda>b. case b of
                 None \<Rightarrow> Some ([], last_split)
               | Some relative_end \<Rightarrow>
                   Option.bind (slice_to relative_end stable_suffix) (\<lambda>head.
                     let sentence = trim head
                     in if sentence \<noteq> [] \<and> is_normal_segment graphemes sentence
                        then map_option (\<lambda>n. ([sentence], last_split + n)) (byte_end_after_trimmed_prefix raw relative_end)
                        else Some ([], last_split)))
          else Some ([], last_split))"

definition push_context :: "rstring list \<Rightarrow> rstring \<Rightarrow> rstring list" where
  "push_context context sentence =
     (let c = context @ [sentence] in if length c > MAX_CONTEXT_SENTENCES then tl c else c)"

text \<open>The chunks of one committed sentence; the first takes the identifier of the preview it replaces.\<close>

fun emit_chunks :: "rstring list \<Rightarrow> rstring option \<Rightarrow> rstring list \<Rightarrow> SentenceResult list \<times> rstring list" where
  "emit_chunks context pending_id [] = ([], context)"
| "emit_chunks context pending_id (sentence # chunks) =
     (let context = push_context context sentence;
          (results, context') = emit_chunks context None chunks
      in (\<lparr>sr_sentence = sentence, sr_context = context, sr_is_forced = False,
           sr_is_replacement = is_some pending_id, sr_pending_id = pending_id\<rparr> # results, context'))"

fun emit_sentences ::
  "ForcedPending option \<Rightarrow> rstring list \<Rightarrow> rstring list \<Rightarrow> (SentenceResult list \<times> rstring list) option" where
  "emit_sentences active context [] = Some ([], context)"
| "emit_sentences active context (raw # raws) =
     Option.bind (split_subtitle_chunks raw) (\<lambda>chunks.
       let replaced = (case active of
             None \<Rightarrow> None
           | Some p \<Rightarrow> if starts_with raw (fp_text p) then Some (fp_id p) else None);
           (results, context) = emit_chunks context replaced chunks
       in map_option (\<lambda>(more, context'). (results @ more, context')) (emit_sentences active context raws))"

definition pending_id_of :: "nat \<Rightarrow> rstring" where
  "pending_id_of unix_ms = str ''pending-'' @ show_nat unix_ms"

text \<open>The text after the committed part: its waiting time, and a preview of it when it waits too long.\<close>

definition force_pending ::
  "segmenter \<Rightarrow> instant \<Rightarrow> nat \<Rightarrow> FeedMode \<Rightarrow> SentenceResult list \<Rightarrow> SentenceSplitter \<Rightarrow>
   (SentenceResult list \<times> SentenceSplitter) option" where
  "force_pending graphemes now unix_ms mode results s =
     (if byte_len (ss_buffer s) > byte_len (ss_committed s) then
        let s = (if ss_pending_start s = None then s\<lparr>ss_pending_start := Some now\<rparr> else s)
        in if results = [] then
             Option.bind (slice_from (byte_len (ss_committed s)) (ss_buffer s)) (\<lambda>raw.
               let pending_text = trim raw;
                   elapsed = (case ss_pending_start s of Some start \<Rightarrow> now - start | None \<Rightarrow> 0);
                   legacy_force = (mode = LegacyStablePunctuation \<and> elapsed \<ge> soft_deadline s);
                   hard_force = (elapsed \<ge> hard_deadline s)
               in if pending_text \<noteq> [] \<and> (legacy_force \<or> hard_force) \<and> is_forced_segment graphemes pending_text \<and>
                     (case ss_last_forced_at s of
                        None \<Rightarrow> True | Some l \<Rightarrow> now - l \<ge> FORCED_REPEAT_INTERVAL) \<and>
                     should_emit_forced_pending graphemes
                       (map_option fp_text (ss_active_forced_pending s)) pending_text
                  then Some ([\<lparr>sr_sentence = pending_text, sr_context = ss_context s, sr_is_forced = True,
                               sr_is_replacement = False, sr_pending_id = Some (pending_id_of unix_ms)\<rparr>],
                         s\<lparr>ss_active_forced_pending := Some \<lparr>fp_id = pending_id_of unix_ms, fp_text = pending_text\<rparr>,
                           ss_last_forced_at := Some now\<rparr>)
                  else Some (results, s))
           else Some (results, s)
      else Some (results, s\<lparr>ss_pending_start := None\<rparr>))"

definition feed_internal ::
  "segmenter \<Rightarrow> instant \<Rightarrow> nat \<Rightarrow> rstring \<Rightarrow> FeedMode \<Rightarrow> SentenceSplitter \<Rightarrow>
   (SentenceFeedResult \<times> SentenceSplitter) option" where
  "feed_internal graphemes now unix_ms full_text mode s =
     (let full_text = normalize_hypothesis full_text;
          reset = (ss_committed s \<noteq> [] \<and> \<not> starts_with full_text (ss_committed s));
          previous = (if reset then ss_committed s else []);
          s = (if reset then splitter_reset s else s)
      in if byte_len full_text < byte_len (ss_committed s)
         then Some (\<lparr>sf_sentences = [], sf_revision_reset = reset, sf_previous_committed = previous\<rparr>, s)
         else
           let old_committed_len = byte_len (ss_committed s);
               s = observe_hypothesis graphemes now (s\<lparr>ss_buffer := full_text\<rparr>);
               provider_final = (mode = Hypothesis ProviderFinal);
               stable_end = (case mode of
                   Hypothesis ProviderFinal \<Rightarrow> byte_len (ss_buffer s)
                 | Hypothesis PartialHypothesis \<Rightarrow> stable_prefix_end now s
                 | LegacyStablePunctuation \<Rightarrow> byte_len (ss_buffer s));
               pending_elapsed = (case ss_pending_start s of Some start \<Rightarrow> now - start | None \<Rightarrow> 0)
           in Option.bind (commit_loop (ss_buffer s) old_committed_len stable_end old_committed_len
                  (char_indices (ss_buffer s))) (\<lambda>(punctuated, split1).
              Option.bind (commit_suffix graphemes (ss_buffer s) provider_final
                  (pending_elapsed \<ge> soft_deadline s) stable_end split1) (\<lambda>(suffix, split2).
              Option.bind (slice_to split2 (ss_buffer s)) (\<lambda>committed.
              let s = s\<lparr>ss_committed := committed\<rparr>;
                  new_sentences = punctuated @ suffix
              in Option.bind (if new_sentences = [] then Some ([], s)
                   else map_option (\<lambda>(results, context).
                       (results, s\<lparr>ss_pending_start := None, ss_context := context,
                          ss_active_forced_pending := None, ss_last_forced_at := None\<rparr>))
                     (emit_sentences (ss_active_forced_pending s) (ss_context s) new_sentences)) (\<lambda>(results, s).
                 map_option (\<lambda>(results, s). (\<lparr>sf_sentences = results, sf_revision_reset = reset,
                     sf_previous_committed = previous\<rparr>, s))
                   (force_pending graphemes now unix_ms mode results s))))))"

definition feed_with_revision ::
  "segmenter \<Rightarrow> instant \<Rightarrow> nat \<Rightarrow> rstring \<Rightarrow> SentenceSplitter \<Rightarrow> (SentenceFeedResult \<times> SentenceSplitter) option" where
  "feed_with_revision graphemes now unix_ms full_text s =
     feed_internal graphemes now unix_ms full_text LegacyStablePunctuation s"

definition feed_hypothesis ::
  "segmenter \<Rightarrow> instant \<Rightarrow> nat \<Rightarrow> rstring \<Rightarrow> HypothesisFinality \<Rightarrow> SentenceSplitter \<Rightarrow>
   (SentenceFeedResult \<times> SentenceSplitter) option" where
  "feed_hypothesis graphemes now unix_ms full_text finality s =
     feed_internal graphemes now unix_ms full_text (Hypothesis finality) s"

section \<open>The punctuation loop\<close>

lemma commit_loop_skip:
  "commit_loop buffer (b + byte_len pre) stable_end last_split (char_indices_from b (pre @ rest)) =
   commit_loop buffer (b + byte_len pre) stable_end last_split (char_indices_from (b + byte_len pre) rest)"
proof (induction pre arbitrary: b)
  case (Cons c pre)
  have "commit_loop buffer (b + byte_len (c # pre)) stable_end last_split (char_indices_from b ((c # pre) @ rest)) =
      commit_loop buffer (b + byte_len (c # pre)) stable_end last_split (char_indices_from (b + len_utf8 c) (pre @ rest))"
    by simp
  also have "\<dots> = commit_loop buffer (b + byte_len (c # pre)) stable_end last_split
      (char_indices_from (b + byte_len (c # pre)) rest)"
    using Cons.IH [of "b + len_utf8 c"] by (simp add: add.assoc)
  finally show ?case .
qed simp

lemma commit_loop_spec:
  assumes "buffer = pre @ mid @ rest"
  shows "\<exists>sentences pre' tail. commit_loop buffer old stable_end (byte_len pre)
        (char_indices_from (byte_len (pre @ mid)) rest) = Some (sentences, byte_len pre') \<and>
      buffer = pre' @ tail \<and> prefix pre pre' \<and> list_all good_chunk sentences \<and>
      visible pre' = visible pre @ visible (concat sentences)"
  using assms
proof (induction rest arbitrary: pre mid)
  case Nil
  then have "buffer = pre @ mid" by simp
  then show ?case by (intro exI [of _ "[]"] exI [of _ pre] exI [of _ mid]) simp
next
  case (Cons c rest)
  let ?b = "byte_len (pre @ mid)" and ?is = "char_indices_from (byte_len (pre @ mid) + len_utf8 c) rest"
  have split: "buffer = (pre @ mid) @ c # rest" "buffer = pre @ (mid @ [c]) @ rest" using Cons.prems by auto
  have skip: "?case" if "commit_loop buffer old stable_end (byte_len pre) (char_indices_from ?b (c # rest)) =
      commit_loop buffer old stable_end (byte_len pre) ?is"
    using Cons.IH [of pre "mid @ [c]"] split(2) that by (simp add: add.assoc)
  have lead: "slice_to ?b buffer = Some (pre @ mid)" using split(1) by (auto simp: slice_to_Some)
  have slice: "slice_range (byte_len pre) (?b + len_utf8 c) buffer = Some (mid @ [c])"
    using split(2) by (auto simp: slice_range_Some)
  define new where "new = (if trim (mid @ [c]) \<noteq> [] then [trim (mid @ [c])] else [])"
  have "trim (mid @ [c]) = [] \<Longrightarrow> visible (mid @ [c]) = []" by (metis visible_Nil visible_trim)
  then have new: "list_all good_chunk new" "visible (concat new) = visible (mid @ [c])"
    by (auto simp: new_def good_chunk_trim)
  obtain more pre' tail where m: "commit_loop buffer old stable_end (byte_len (pre @ mid @ [c]))
      (char_indices_from (byte_len ((pre @ mid @ [c]) @ [])) rest) = Some (more, byte_len pre')"
    "buffer = pre' @ tail" "prefix (pre @ mid @ [c]) pre'" "list_all good_chunk more"
    "visible pre' = visible (pre @ mid @ [c]) @ visible (concat more)"
    using Cons.IH [of "pre @ mid @ [c]" "[]"] split(2) by auto
  have cut: "?case" if "commit_loop buffer old stable_end (byte_len pre) (char_indices_from ?b (c # rest)) =
      map_option (\<lambda>(more, final). (new @ more, final))
        (commit_loop buffer old stable_end (?b + len_utf8 c) ?is)"
    using that m new
    by (intro exI [of _ "new @ more"] exI [of _ pre'] exI [of _ tail])
      (auto simp: add.assoc dest: append_prefixD)
  show ?case
  proof (cases "?b < old \<or> ?b \<ge> stable_end \<or> c \<notin> set split_endings \<or>
      c \<in> {46, 33, 63} \<and> ?is \<noteq> [] \<and> snd (hd ?is) \<noteq> 32 \<and> snd (hd ?is) \<noteq> 10 \<or>
      c = 46 \<and> ?is \<noteq> [] \<and> snd (hd ?is) = 32 \<and> is_upper_initialism (preceding_word (pre @ mid))")
    case True
    then show ?thesis using lead by (intro skip) (auto simp: Let_def)
  next
    case False
    then show ?thesis using lead slice by (intro cut) (auto simp: Let_def new_def)
  qed
qed

lemma commit_loop_total:
  assumes "buffer = committed @ rest"
  obtains sentences pre tail where
    "commit_loop buffer (byte_len committed) stable_end (byte_len committed) (char_indices buffer) =
       Some (sentences, byte_len pre)"
    and "buffer = pre @ tail" and "prefix committed pre" and "list_all good_chunk sentences"
    and "visible pre = visible committed @ visible (concat sentences)"
  using commit_loop_spec [of buffer committed "[]" rest "byte_len committed" stable_end]
    commit_loop_skip [of buffer 0 committed stable_end "byte_len committed" rest] assms
  by (auto simp: char_indices_def)

lemma byte_len_prefix_le: "prefix a b \<Longrightarrow> byte_len a \<le> byte_len b"
  by (auto simp: prefix_def)

lemma prefix_by_bytes: "prefix a s \<Longrightarrow> prefix b s \<Longrightarrow> byte_len a \<le> byte_len b \<Longrightarrow> prefix a b"
proof -
  assume "prefix a s" "prefix b s" and le: "byte_len a \<le> byte_len b"
  then consider "prefix a b" | z where "a = b @ z" using prefix_same_cases by (metis prefixE)
  then show ?thesis using le by cases auto
qed

lemma commit_suffix_ge:
  "commit_suffix graphemes buffer fin overdue stable_end last_split = Some (sentences, n) \<Longrightarrow> last_split \<le> n"
  by (auto simp: commit_suffix_def bind_eq_Some_conv Let_def split: if_splits option.splits)

section \<open>Emission\<close>

lemma push_context_le: "length c \<le> 3 \<Longrightarrow> length (push_context c x) \<le> 3"
  by (simp add: push_context_def MAX_CONTEXT_SENTENCES_def Let_def)

lemma emit_chunks_spec:
  assumes "emit_chunks ctx pending chunks = (results, ctx')"
  shows "(length ctx \<le> 3 \<longrightarrow> length ctx' \<le> 3) \<and> map sr_sentence results = chunks \<and>
    list_all (\<lambda>r. \<not> sr_is_forced r) results"
  using assms
proof (induction ctx pending chunks arbitrary: results rule: emit_chunks.induct)
  case (2 ctx pending sentence chunks)
  obtain more c where "emit_chunks (push_context ctx sentence) None chunks = (more, c)" by fastforce
  with 2 push_context_le show ?case by (auto simp: Let_def)
qed simp

lemma emit_sentences_spec:
  obtains results ctx' where "emit_sentences active ctx raws = Some (results, ctx')"
    and "length ctx \<le> 3 \<longrightarrow> length ctx' \<le> 3"
    and "visible (concat (map sr_sentence results)) = visible (concat raws)"
    and "list_all (\<lambda>r. \<not> sr_is_forced r) results"
proof -
  have "\<exists>results ctx'. emit_sentences active ctx raws = Some (results, ctx') \<and>
      (length ctx \<le> 3 \<longrightarrow> length ctx' \<le> 3) \<and>
      visible (concat (map sr_sentence results)) = visible (concat raws) \<and> list_all (\<lambda>r. \<not> sr_is_forced r) results"
  proof (induction raws arbitrary: ctx)
    case (Cons raw raws)
    obtain chunks where ch: "split_subtitle_chunks raw = Some chunks" "visible (concat chunks) = visible raw"
      unfolding split_subtitle_chunks_def by (rule split_chunks_spec)
    define replaced where "replaced = (case active of None \<Rightarrow> None
      | Some p \<Rightarrow> if starts_with raw (fp_text p) then Some (fp_id p) else None)"
    obtain results c where e: "emit_chunks ctx replaced chunks = (results, c)" by fastforce
    note es = emit_chunks_spec [OF e]
    obtain more c' where m: "emit_sentences active c raws = Some (more, c')" "length c \<le> 3 \<longrightarrow> length c' \<le> 3"
      "visible (concat (map sr_sentence more)) = visible (concat raws)" "list_all (\<lambda>r. \<not> sr_is_forced r) more"
      using Cons.IH [of c] by blast
    have "emit_sentences active ctx (raw # raws) = Some (results @ more, c')"
      using ch(1) e m(1) by (simp add: replaced_def [symmetric])
    with es m ch(2) show ?case by simp
  qed simp
  then show thesis using that by blast
qed

section \<open>Normal form of hypotheses\<close>

definition clean :: "rstring \<Rightarrow> bool" where
  "clean t \<longleftrightarrow> successively (\<lambda>a b. \<not> (is_whitespace a \<and> is_whitespace b)) t \<and>
     (t \<noteq> [] \<longrightarrow> \<not> is_whitespace (hd t)) \<and> (\<forall>c\<in>set t. is_whitespace c \<longrightarrow> c = 32 \<or> c = 10)"

lemma ws_chars [simp]: "is_whitespace 32" "is_whitespace 10" "is_whitespace 13"
  by (simp_all add: is_whitespace_def)

lemma clean_Nil [simp]: "clean []"
  by (simp add: clean_def)

lemma clean_snoc:
  "clean (t @ [c]) \<longleftrightarrow> clean t \<and> (is_whitespace c \<longrightarrow> t \<noteq> [] \<and> \<not> is_whitespace (last t) \<and> (c = 32 \<or> c = 10))"
  by (cases "t = []") (auto simp: clean_def successively_append_iff)

lemma clean_simps:
  "clean [c] \<longleftrightarrow> \<not> is_whitespace c"
  "\<not> is_whitespace c \<Longrightarrow> clean (t @ [32, c]) \<longleftrightarrow> clean (t @ [32])"
  using clean_snoc [of "[]" c] clean_snoc [of "t @ [32]" c] by simp_all

lemma clean_prefix: "clean t \<Longrightarrow> prefix u t \<Longrightarrow> clean u"
proof (induction t rule: rev_induct)
  case (snoc c t)
  then show ?case by (auto simp: clean_snoc)
qed simp

lemma pop_spaces: "\<not> ends_with_char 32 n \<Longrightarrow> rev (dropWhile (\<lambda>d. d = 32) (rev n)) = n"
  by (cases n rule: rev_cases) (auto simp: ends_with_char_def)

lemma normalize_char_pair:
  "c = 13 \<or> c = 10 \<Longrightarrow> \<not> ends_with_char 32 n \<Longrightarrow>
     normalize_char (n, p) c = (if n \<noteq> [] \<and> \<not> ends_with_char 10 n then n @ [10] else n, False)"
  "c \<noteq> 13 \<Longrightarrow> c \<noteq> 10 \<Longrightarrow> is_whitespace c \<Longrightarrow> normalize_char (n, p) c = (n, True)"
  "\<not> is_whitespace c \<Longrightarrow> normalize_char (n, p) c =
     ((if p \<and> n \<noteq> [] \<and> \<not> ends_with_char 10 n then n @ [32] else n) @ [c], False)"
proof -
  show "normalize_char (n, p) c = (if n \<noteq> [] \<and> \<not> ends_with_char 10 n then n @ [10] else n, False)"
    if "c = 13 \<or> c = 10" "\<not> ends_with_char 32 n"
    using that unfolding normalize_char_def by (simp only: pop_spaces [OF that(2)] Let_def split if_True)
qed (auto simp: normalize_char_def)

lemma normalize_char_clean:
  "clean n \<Longrightarrow> \<not> ends_with_char 32 n \<Longrightarrow> normalize_char (n, p) c = (n', p') \<Longrightarrow>
   clean n' \<and> \<not> ends_with_char 32 n'"
proof -
  assume n: "clean n" "\<not> ends_with_char 32 n" and st: "normalize_char (n, p) c = (n', p')"
  have last: "n \<noteq> [] \<Longrightarrow> is_whitespace (last n) \<Longrightarrow> last n = 10"
    using n last_in_set [of n] by (auto simp: clean_def ends_with_char_def)
  consider "c = 13 \<or> c = 10" | "c \<noteq> 13" "c \<noteq> 10" "is_whitespace c" | "\<not> is_whitespace c" by blast
  then show ?thesis
    by cases (use st n last in \<open>auto simp: normalize_char_pair clean_snoc clean_simps ends_with_char_def split: if_splits\<close>)
qed

lemma fold_normalize_clean:
  "clean n \<Longrightarrow> \<not> ends_with_char 32 n \<Longrightarrow> clean (fst (foldl normalize_char (n, p) t))"
proof (induction t arbitrary: n p)
  case (Cons c t)
  obtain n' p' where "normalize_char (n, p) c = (n', p')" by fastforce
  with Cons normalize_char_clean [OF Cons.prems this] show ?case by simp
qed simp

lemma fold_clean:
  "clean t \<Longrightarrow> foldl normalize_char ([], False) t = (if ends_with_char 32 t then (butlast t, True) else (t, False))"
proof (induction t rule: rev_induct)
  case (snoc c t)
  then have t: "clean t" and IH: "foldl normalize_char ([], False) t =
      (if ends_with_char 32 t then (butlast t, True) else (t, False))" by (auto simp: clean_snoc)
  show ?case
  proof (cases "is_whitespace c")
    case True
    with snoc.prems have "t \<noteq> []" "\<not> is_whitespace (last t)" "c = 32 \<or> c = 10" by (auto simp: clean_snoc)
    then have "\<not> ends_with_char 32 t" "\<not> ends_with_char 10 t" by (auto simp: ends_with_char_def)
    with IH \<open>t \<noteq> []\<close> \<open>c = 32 \<or> c = 10\<close> show ?thesis
      by (elim disjE) (simp_all add: normalize_char_pair, simp_all add: ends_with_char_def)
  next
    case False
    then have c: "c \<noteq> 32" "c \<noteq> 10" "c \<noteq> 13" by auto
    show ?thesis
    proof (cases t rule: rev_cases)
      case (snoc u d)
      have "d = 32 \<Longrightarrow> u \<noteq> [] \<and> last u \<noteq> 10" using t by (auto simp: snoc clean_snoc)
      with False c IH show ?thesis by (auto simp: normalize_char_pair ends_with_char_def snoc)
    qed (use False c in \<open>simp add: normalize_char_pair ends_with_char_def\<close>)
  qed
qed (simp add: ends_with_char_def)

lemma trim_end_last: "trim_end s \<noteq> [] \<Longrightarrow> \<not> is_whitespace (last (trim_end s))"
proof (induction s rule: rev_induct)
  case (snoc c s)
  then show ?case by (auto simp: trim_end_snoc)
qed simp

lemma normalize_hypothesis_clean:
  "clean (normalize_hypothesis x)" "normalize_hypothesis x \<noteq> [] \<Longrightarrow> \<not> is_whitespace (last (normalize_hypothesis x))"
  unfolding normalize_hypothesis_def
  by (rule clean_prefix [OF fold_normalize_clean prefix_trim_end])
    (simp_all add: ends_with_char_def trim_end_last)

text \<open>
  Normalisation is idempotent, so feeding a hypothesis that was already normalised changes
  nothing; and a normalised text has no two adjacent white-space characters, none at its ends, and
  none but spaces and line feeds.
\<close>

lemma normalize_hypothesis_idempotent:
  "normalize_hypothesis (normalize_hypothesis x) = normalize_hypothesis x \<and>
   successively (\<lambda>a b. \<not> (is_whitespace a \<and> is_whitespace b)) (normalize_hypothesis x) \<and>
   trim (normalize_hypothesis x) = normalize_hypothesis x \<and>
   list_all (\<lambda>c. is_whitespace c = (c = 32 \<or> c = 10)) (normalize_hypothesis x)"
proof -
  define t where "t = normalize_hypothesis x"
  have t: "clean t" "t \<noteq> [] \<Longrightarrow> \<not> is_whitespace (last t)"
    using normalize_hypothesis_clean by (simp_all add: t_def)
  then have "\<not> ends_with_char 32 t" by (auto simp: ends_with_char_def)
  then have "foldl normalize_char ([], False) t = (t, False)" using fold_clean [OF t(1)] by simp
  moreover have end_t: "trim_end t = t"
    using t(2) by (cases t rule: rev_cases) (simp_all add: trim_end_snoc)
  ultimately have "normalize_hypothesis t = t" by (simp add: normalize_hypothesis_def)
  moreover have "trim_start t = t" using t(1) by (intro trim_start_idem_ws) (auto simp: clean_def)
  then have "trim t = t" using end_t by (simp add: trim_def)
  ultimately show ?thesis using t(1) by (auto simp: t_def [symmetric] clean_def list_all_iff)
qed

section \<open>One feed\<close>

text \<open>The stages of \<open>feed_internal\<close> after the revision check, over the state that follows it.\<close>

definition after_reset :: "rstring \<Rightarrow> SentenceSplitter \<Rightarrow> SentenceSplitter" where
  "after_reset x s =
     (if ss_committed s \<noteq> [] \<and> \<not> starts_with x (ss_committed s) then splitter_reset s else s)"

definition stable_end_of :: "instant \<Rightarrow> FeedMode \<Rightarrow> SentenceSplitter \<Rightarrow> nat" where
  "stable_end_of now mode s =
     (if mode = Hypothesis PartialHypothesis then stable_prefix_end now s else byte_len (ss_buffer s))"

definition overdue :: "instant \<Rightarrow> SentenceSplitter \<Rightarrow> bool" where
  "overdue now s \<longleftrightarrow> (case ss_pending_start s of Some start \<Rightarrow> now - start | None \<Rightarrow> 0) \<ge> soft_deadline s"

definition adopt :: "SentenceSplitter \<Rightarrow> rstring list \<Rightarrow> (SentenceResult list \<times> SentenceSplitter) option" where
  "adopt s new =
     (if new = [] then Some ([], s)
      else map_option (\<lambda>(results, ctx).
             (results, s\<lparr>ss_pending_start := None, ss_context := ctx,
                ss_active_forced_pending := None, ss_last_forced_at := None\<rparr>))
           (emit_sentences (ss_active_forced_pending s) (ss_context s) new))"

lemma observe_simps [simp]:
  "ss_buffer (observe_hypothesis g now s) = ss_buffer s"
  "ss_committed (observe_hypothesis g now s) = ss_committed s"
  "ss_context (observe_hypothesis g now s) = ss_context s"
  "ss_pending_start (observe_hypothesis g now s) = ss_pending_start s"
  "ss_last_forced_at (observe_hypothesis g now s) = ss_last_forced_at s"
  by (simp_all add: observe_hypothesis_def Let_def split: option.split)

lemma after_reset_prefix: "prefix (ss_committed (after_reset x s)) x"
  by (auto simp: after_reset_def splitter_reset_def starts_with_def)

lemma feed_internal_stages:
  fixes x :: rstring and s :: SentenceSplitter and g :: segmenter and now :: instant and mode :: FeedMode
  defines "t \<equiv> normalize_hypothesis x"
  defines "s1 \<equiv> observe_hypothesis g now ((after_reset t s)\<lparr>ss_buffer := t\<rparr>)"
  defines "e \<equiv> stable_end_of now mode s1"
  assumes loop: "commit_loop t (byte_len (ss_committed s1)) e (byte_len (ss_committed s1)) (char_indices t) =
    Some (punctuated, split1)"
  shows "feed_internal g now ms x mode s =
    Option.bind (commit_suffix g t (mode = Hypothesis ProviderFinal) (overdue now s1) e split1) (\<lambda>(suffix, split2).
      Option.bind (slice_to split2 t) (\<lambda>committed.
        Option.bind (adopt (s1\<lparr>ss_committed := committed\<rparr>) (punctuated @ suffix)) (\<lambda>(results, s2).
          map_option (\<lambda>(results, s'). (\<lparr>sf_sentences = results,
              sf_revision_reset = (ss_committed s \<noteq> [] \<and> \<not> starts_with t (ss_committed s)),
              sf_previous_committed =
                (if ss_committed s \<noteq> [] \<and> \<not> starts_with t (ss_committed s) then ss_committed s else [])\<rparr>, s'))
            (force_pending g now ms mode results s2))))"
proof -
  have le: "\<not> byte_len t < byte_len (ss_committed (after_reset t s))"
    using byte_len_prefix_le [OF after_reset_prefix] by (simp add: not_less)
  have b: "ss_buffer s1 = t" "ss_committed s1 = ss_committed (after_reset t s)" by (simp_all add: s1_def)
  have e: "(case mode of Hypothesis ProviderFinal \<Rightarrow> byte_len (ss_buffer s1)
      | Hypothesis PartialHypothesis \<Rightarrow> stable_prefix_end now s1
      | LegacyStablePunctuation \<Rightarrow> byte_len (ss_buffer s1)) = e"
    by (simp add: e_def stable_end_of_def split: FeedMode.split HypothesisFinality.split)
  show ?thesis
    unfolding feed_internal_def Let_def t_def [symmetric] after_reset_def [symmetric] s1_def [symmetric] e
      overdue_def [symmetric] adopt_def [symmetric] if_not_P [OF le]
    using loop by (simp only: b bind.bind_lunit split)
qed

lemma adopt_total:
  obtains results s2 where "adopt s new = Some (results, s2)"
    and "visible (concat (map sr_sentence results)) = visible (concat new)"
    and "list_all (\<lambda>r. \<not> sr_is_forced r) results"
    and "ss_buffer s2 = ss_buffer s" "ss_committed s2 = ss_committed s"
    and "length (ss_context s) \<le> 3 \<longrightarrow> length (ss_context s2) \<le> 3"
proof (cases "new = []")
  case True
  then show thesis using that [of "[]" s] by (simp add: adopt_def)
next
  case False
  obtain results ctx' where "emit_sentences (ss_active_forced_pending s) (ss_context s) new = Some (results, ctx')"
    "length (ss_context s) \<le> 3 \<longrightarrow> length ctx' \<le> 3"
    "visible (concat (map sr_sentence results)) = visible (concat new)"
    "list_all (\<lambda>r. \<not> sr_is_forced r) results"
    by (rule emit_sentences_spec [of "ss_active_forced_pending s" "ss_context s" new])
  with False that show thesis by (simp add: adopt_def)
qed

lemma adopt_frame:
  "adopt s new = Some (results, s2) \<Longrightarrow> ss_buffer s2 = ss_buffer s \<and> ss_committed s2 = ss_committed s \<and>
     list_all (\<lambda>r. \<not> sr_is_forced r) results \<and> (length (ss_context s) \<le> 3 \<longrightarrow> length (ss_context s2) \<le> 3)"
  by (rule adopt_total [of s new]) auto

lemma adopt_empty:
  assumes "adopt s new = Some ([], s2)" and "list_all good_chunk new"
  shows "new = [] \<and> s2 = s"
proof (cases new)
  case Nil
  with assms(1) show ?thesis by (simp add: adopt_def)
next
  case (Cons raw raws)
  obtain ctx' where em: "emit_sentences (ss_active_forced_pending s) (ss_context s) (raw # raws) = Some ([], ctx')"
    using assms(1) Cons by (auto simp: adopt_def)
  then obtain chunks where ch: "split_subtitle_chunks raw = Some chunks" by (auto simp: bind_eq_Some_conv)
  have "trim raw \<noteq> []" using assms(2) Cons by (auto simp: good_chunk_def)
  with ch split_chunks_nonempty have "chunks \<noteq> []" unfolding split_subtitle_chunks_def by blast
  then obtain c cs where "chunks = c # cs" by (cases chunks) auto
  with em ch show ?thesis by (auto simp: Let_def split: prod.splits)
qed

lemma commit_suffix_good:
  "commit_suffix g buffer fin od stable_end last_split = Some (sentences, n) \<Longrightarrow> list_all good_chunk sentences"
  by (auto simp: commit_suffix_def bind_eq_Some_conv Let_def good_chunk_trim split: if_splits option.splits)

lemma commit_suffix_final:
  assumes "t = pre @ tail" and "t \<noteq> [] \<Longrightarrow> \<not> is_whitespace (last t)"
  shows "commit_suffix g t True od (byte_len t) (byte_len pre) =
    Some (if tail = [] then [] else [trim tail], byte_len t) \<and> (tail \<noteq> [] \<longrightarrow> trim tail \<noteq> [])"
proof -
  have slice: "slice_range (byte_len pre) (byte_len t) t = Some tail"
    unfolding slice_range_Some using assms(1) by (intro exI [of _ pre] exI [of _ "[]"]) simp
  have "tail \<noteq> [] \<Longrightarrow> \<not> is_whitespace (last tail)" using assms by auto
  then have ne: "tail \<noteq> [] \<Longrightarrow> trim tail \<noteq> []" using last_in_set by (fastforce simp: trim_empty_iff)
  have "(byte_len pre < byte_len t) = (tail \<noteq> [])" "tail = [] \<Longrightarrow> byte_len t = byte_len pre"
    using assms(1) by (cases tail; simp)+
  with ne show ?thesis unfolding commit_suffix_def slice Option.bind.bind_lunit Let_def by (cases "tail = []") simp_all
qed

lemma force_pending_total:
  "prefix (ss_committed s) (ss_buffer s) \<Longrightarrow> \<exists>r s'. force_pending g now ms mode results s = Some (r, s')"
proof -
  assume "prefix (ss_committed s) (ss_buffer s)"
  then obtain raw where "ss_buffer s = ss_committed s @ raw" by (auto simp: prefix_def)
  then have "slice_from (byte_len (ss_committed s)) (ss_buffer s) = Some raw" by (auto simp: slice_from_Some)
  then show ?thesis by (auto simp: force_pending_def Let_def)
qed

lemma force_pending_frame:
  "force_pending g now ms mode results s = Some (r, s') \<Longrightarrow>
   ss_buffer s' = ss_buffer s \<and> ss_committed s' = ss_committed s \<and> ss_context s' = ss_context s"
  by (auto simp: force_pending_def Let_def bind_eq_Some_conv split: if_splits)

lemma provider_final_feed:
  "let t = normalize_hypothesis x; c = (if starts_with t (ss_committed s) then ss_committed s else [])
   in \<exists>r s'. feed_hypothesis graphemes now unix_ms x ProviderFinal s = Some (r, s') \<and>
        ss_committed s' = t \<and> ss_pending_start s' = None \<and> \<not> list_ex sr_is_forced (sf_sentences r) \<and>
        filter (\<lambda>c. \<not> (is_whitespace c \<or> c = 44 \<or> c = 65292)) (concat (map sr_sentence (sf_sentences r))) =
          filter (\<lambda>c. \<not> (is_whitespace c \<or> c = 44 \<or> c = 65292)) (drop (length c) t)"
proof -
  define t where "t = normalize_hypothesis x"
  define c where "c = (if starts_with t (ss_committed s) then ss_committed s else [])"
  define s1 where "s1 = observe_hypothesis graphemes now ((after_reset t s)\<lparr>ss_buffer := t\<rparr>)"
  have c: "ss_committed s1 = c"
    by (auto simp: s1_def c_def after_reset_def splitter_reset_def starts_with_def)
  have "prefix c t" using after_reset_prefix [of t s] c by (simp add: s1_def)
  then obtain rest where rest: "t = c @ rest" by (auto simp: prefix_def)
  have e: "stable_end_of now (Hypothesis ProviderFinal) s1 = byte_len t" by (simp add: stable_end_of_def s1_def)
  obtain punctuated pre tail where loop: "commit_loop t (byte_len c) (byte_len t) (byte_len c) (char_indices t) =
      Some (punctuated, byte_len pre)" and tail: "t = pre @ tail" and pre: "prefix c pre"
    and vis: "visible pre = visible c @ visible (concat punctuated)"
    using commit_loop_total [OF rest] by metis
  note fin = commit_suffix_final [OF tail, of graphemes "overdue now s1"]
  let ?suffix = "if tail = [] then [] else [trim tail]" and ?s2 = "s1\<lparr>ss_committed := t\<rparr>"
  obtain results s3 where ad: "adopt ?s2 (punctuated @ ?suffix) = Some (results, s3)"
    "visible (concat (map sr_sentence results)) = visible (concat (punctuated @ ?suffix))"
    "list_all (\<lambda>r. \<not> sr_is_forced r) results" "ss_buffer s3 = ss_buffer ?s2" "ss_committed s3 = ss_committed ?s2"
    by (rule adopt_total)
  have s3: "ss_buffer s3 = t" "ss_committed s3 = t" using ad(4,5) by (simp_all add: s1_def)
  have "slice_to (byte_len t) t = Some t" by (auto simp: slice_to_Some)
  moreover have "force_pending graphemes now unix_ms (Hypothesis ProviderFinal) results s3 =
      Some (results, s3\<lparr>ss_pending_start := None\<rparr>)" using s3 by (simp add: force_pending_def)
  ultimately have feed: "\<exists>r. feed_hypothesis graphemes now unix_ms x ProviderFinal s =
      Some (r, s3\<lparr>ss_pending_start := None\<rparr>) \<and> sf_sentences r = results"
    using feed_internal_stages [of x graphemes now s "Hypothesis ProviderFinal" punctuated "byte_len pre" unix_ms]
      loop fin normalize_hypothesis_clean(2) [of x] ad(1)
    by (auto simp: feed_hypothesis_def t_def [symmetric] s1_def [symmetric] c e)
  have "visible pre @ visible tail = visible c @ visible rest" using tail rest by (metis visible_append)
  then have "visible (concat results') = visible rest" if "visible (concat results') = visible (concat (punctuated @ ?suffix))" for results'
    using vis that by (auto split: if_splits)
  with ad(2) have "visible (concat (map sr_sentence results)) = visible (drop (length c) t)" by (simp add: rest)
  then show ?thesis using feed s3(2) ad(3)
    by (auto simp: t_def [symmetric] c_def [symmetric] Let_def visible_def list_ex_iff list_all_iff)
qed

lemma provider_final_total: "\<exists>r s'. feed_hypothesis graphemes now unix_ms x ProviderFinal s = Some (r, s')"
  using provider_final_feed [of x s graphemes now unix_ms] by (auto simp: Let_def)

text \<open>
  C9: When the provider marks a hypothesis final, the splitter never panics and nothing of the text
  is lost or repeated: whatever the state it was in, it commits the whole normalised text, emits no
  preview, and the sentences it returns spell exactly the visible characters that were not committed
  before (all of them, when the hypothesis revised committed text).
\<close>

theorem provider_final_commits_all:
  "let t = normalize_hypothesis x; c = (if starts_with t (ss_committed s) then ss_committed s else [])
   in \<exists>r s'. feed_hypothesis graphemes now unix_ms x ProviderFinal s = Some (r, s') \<and>
        ss_committed s' = t \<and> ss_pending_start s' = None \<and> \<not> list_ex sr_is_forced (sf_sentences r) \<and>
        filter (\<lambda>c. \<not> (is_whitespace c \<or> c = 44 \<or> c = 65292)) (concat (map sr_sentence (sf_sentences r))) =
          filter (\<lambda>c. \<not> (is_whitespace c \<or> c = 44 \<or> c = 65292)) (drop (length c) t)"
  by (rule provider_final_feed)

lemma feed_internal_Some:
  assumes "feed_internal g now ms x mode s = Some (r, s')"
  defines "t \<equiv> normalize_hypothesis x"
  defines "s1 \<equiv> observe_hypothesis g now ((after_reset t s)\<lparr>ss_buffer := t\<rparr>)"
  obtains s2 results committed new where
    "prefix (ss_committed (after_reset t s)) committed" "prefix committed t"
    and "list_all good_chunk new" and "adopt (s1\<lparr>ss_committed := committed\<rparr>) new = Some (results, s2)"
    and "force_pending g now ms mode results s2 = Some (sf_sentences r, s')"
    and "sf_revision_reset r = (ss_committed s \<noteq> [] \<and> \<not> starts_with t (ss_committed s))"
    and "sf_previous_committed r = (if sf_revision_reset r then ss_committed s else [])"
proof -
  have c: "ss_committed s1 = ss_committed (after_reset t s)" by (simp add: s1_def)
  obtain rest where rest: "t = ss_committed s1 @ rest" using after_reset_prefix [of t s] c by (auto simp: prefix_def)
  obtain punctuated pre tail where loop: "commit_loop t (byte_len (ss_committed s1)) (stable_end_of now mode s1)
      (byte_len (ss_committed s1)) (char_indices t) = Some (punctuated, byte_len pre)"
    and pre: "t = pre @ tail" "prefix (ss_committed s1) pre" and good: "list_all good_chunk punctuated"
    using commit_loop_total [OF rest] by metis
  note stages = feed_internal_stages [of x g now s mode punctuated "byte_len pre" ms,
      folded t_def, folded s1_def, OF loop]
  obtain suffix n where sfx: "commit_suffix g t (mode = Hypothesis ProviderFinal) (overdue now s1)
      (stable_end_of now mode s1) (byte_len pre) = Some (suffix, n)"
    using assms(1) stages by (auto simp: bind_eq_Some_conv)
  obtain committed where cm: "slice_to n t = Some committed"
    using assms(1) stages sfx by (auto simp: bind_eq_Some_conv)
  obtain results s2 where ad: "adopt (s1\<lparr>ss_committed := committed\<rparr>) (punctuated @ suffix) = Some (results, s2)"
    by (rule adopt_total)
  have fp: "force_pending g now ms mode results s2 = Some (sf_sentences r, s')"
    and r: "sf_revision_reset r = (ss_committed s \<noteq> [] \<and> \<not> starts_with t (ss_committed s))"
    "sf_previous_committed r = (if sf_revision_reset r then ss_committed s else [])"
    using assms(1) stages sfx cm ad by auto
  have pc: "prefix committed t" "byte_len committed = n" using cm by (auto simp: slice_to_Some)
  have "prefix pre t" "byte_len pre \<le> byte_len committed" using pre(1) pc commit_suffix_ge [OF sfx] by auto
  then have "prefix pre committed" using pc(1) by (blast intro: prefix_by_bytes)
  then have "prefix (ss_committed (after_reset t s)) committed" using pre(2) c by auto
  moreover have "list_all good_chunk (punctuated @ suffix)" using good commit_suffix_good [OF sfx] by simp
  ultimately show thesis using that [OF _ pc(1) _ ad fp r] by blast
qed

text \<open>
  Committed text is never taken back silently. A feed that returns either reports a revision
  reset, which it does exactly when the new hypothesis no longer starts with the committed text and
  then hands that text back, or extends the committed text; and what is committed is always a prefix
  of the normalised hypothesis.
\<close>

theorem feed_commits_monotonically:
  assumes "feed_internal graphemes now unix_ms x mode s = Some (r, s')"
  shows "prefix (ss_committed s') (normalize_hypothesis x) \<and> ss_buffer s' = normalize_hypothesis x \<and>
    (if prefix (ss_committed s) (normalize_hypothesis x)
     then prefix (ss_committed s) (ss_committed s') \<and> \<not> sf_revision_reset r
     else sf_revision_reset r \<and> sf_previous_committed r = ss_committed s)"
proof -
  obtain s2 results committed new where
    p: "prefix (ss_committed (after_reset (normalize_hypothesis x) s)) committed"
      "prefix committed (normalize_hypothesis x)"
    and ad: "adopt ((observe_hypothesis graphemes now
        ((after_reset (normalize_hypothesis x) s)\<lparr>ss_buffer := normalize_hypothesis x\<rparr>))\<lparr>ss_committed := committed\<rparr>)
        new = Some (results, s2)"
    and fp: "force_pending graphemes now unix_ms mode results s2 = Some (sf_sentences r, s')"
    and r: "sf_revision_reset r =
        (ss_committed s \<noteq> [] \<and> \<not> starts_with (normalize_hypothesis x) (ss_committed s))"
      "sf_previous_committed r = (if sf_revision_reset r then ss_committed s else [])"
    using assms by (rule feed_internal_Some)
  have "ss_buffer s2 = normalize_hypothesis x" "ss_committed s2 = committed"
    using adopt_frame [OF ad] by simp_all
  with force_pending_frame [OF fp] p r show ?thesis
    by (auto simp: after_reset_def starts_with_def split: if_splits)
qed

section \<open>Previews\<close>

lemma round_clamp:
  fixes x :: rat and a b :: int
  assumes "a \<le> b"
  shows "a \<le> round (clamp (of_int a) (of_int b) x)" "round (clamp (of_int a) (of_int b) x) \<le> b"
proof -
  have c: "of_int a \<le> clamp (of_int a) (of_int b) x" "clamp (of_int a) (of_int b) x \<le> of_int b"
    using assms by (simp_all add: clamp_def)
  show "a \<le> round (clamp (of_int a) (of_int b) x)" "round (clamp (of_int a) (of_int b) x) \<le> b"
    using round_mono [OF c(1)] round_mono [OF c(2)] by simp_all
qed

lemma deadline_bounds:
  "from_millis 700 \<le> soft_deadline s" "soft_deadline s \<le> from_millis 1200"
  "from_millis 1400 \<le> hard_deadline s" "hard_deadline s \<le> from_millis 1900"
proof -
  have "from_millis (nat 700) \<le> soft_deadline s" "soft_deadline s \<le> from_millis (nat 1200)"
    unfolding soft_deadline_def from_millis_mono
    using round_clamp [of 700 1200 "600 + 2 * ss_hypothesis_interval_ema_ms s"] by (intro nat_mono, simp)+
  then show "from_millis 700 \<le> soft_deadline s" "soft_deadline s \<le> from_millis 1200" by simp_all
  have "from_millis (nat 1400) \<le> hard_deadline s" "hard_deadline s \<le> from_millis (nat 1900)"
    unfolding hard_deadline_def from_millis_mono
    using round_clamp [of 1400 1900 "rat_of_nat (soft_deadline s div 1000000) + 700"] by (intro nat_mono, simp)+
  then show "from_millis 1400 \<le> hard_deadline s" "hard_deadline s \<le> from_millis 1900" by simp_all
qed

lemma force_pending_forced:
  assumes "force_pending g now ms mode results s = Some (out, s')" and "list_all (\<lambda>r. \<not> sr_is_forced r) results"
    and "p \<in> set out" and "sr_is_forced p" and "prefix (ss_committed s) (ss_buffer s)"
  obtains start raw where "out = [p]" and "ss_pending_start s' = Some start"
    and "from_millis (if mode = LegacyStablePunctuation then 700 else 1400) \<le> now - start"
    and "ss_buffer s = ss_committed s @ raw" and "sr_sentence p = trim raw" and "trim raw \<noteq> []"
    and "ss_last_forced_at s' = Some now"
    and "\<And>l. ss_last_forced_at s = Some l \<Longrightarrow> FORCED_REPEAT_INTERVAL \<le> now - l"
proof -
  from assms(2-4) have ne: "out \<noteq> results" by (auto simp: list_all_iff)
  define s0 where "s0 = (if ss_pending_start s = None then s\<lparr>ss_pending_start := Some now\<rparr> else s)"
  have s0: "ss_buffer s0 = ss_buffer s" "ss_committed s0 = ss_committed s" "ss_last_forced_at s0 = ss_last_forced_at s"
    by (simp_all add: s0_def)
  have "ss_pending_start s0 \<noteq> None" by (simp add: s0_def)
  then obtain start where start: "ss_pending_start s0 = Some start" by blast
  obtain raw where raw: "slice_from (byte_len (ss_committed s)) (ss_buffer s) = Some raw"
    and wait: "mode = LegacyStablePunctuation \<and> soft_deadline s0 \<le> now - start \<or> hard_deadline s0 \<le> now - start"
    and quiet: "\<forall>l. ss_last_forced_at s = Some l \<longrightarrow> FORCED_REPEAT_INTERVAL \<le> now - l"
    and out: "out = [\<lparr>sr_sentence = trim raw, sr_context = ss_context s0, sr_is_forced = True,
        sr_is_replacement = False, sr_pending_id = Some (pending_id_of ms)\<rparr>]" "trim raw \<noteq> []"
    and s': "ss_pending_start s' = Some start" "ss_last_forced_at s' = Some now"
    using assms(1) ne start unfolding force_pending_def Let_def s0_def [symmetric]
    by (auto simp: bind_eq_Some_conv s0 split: if_splits option.splits)
  have "ss_buffer s = ss_committed s @ raw"
    using assms(5) raw by (auto simp: prefix_def slice_from_def)
  moreover have "from_millis (if mode = LegacyStablePunctuation then 700 else 1400) \<le> now - start"
    using wait deadline_bounds(1,3) [of s0] by (auto simp: from_millis_def)
  ultimately show thesis using that [of start raw] out s' quiet assms(3) by auto
qed

text \<open>
  A preview is emitted only for text that has waited: when a feed returns a forced result, it is
  the only result, its text is the trimmed text after the committed part, that text has been pending
  for at least 1.4 seconds (0.7 in the punctuation mode), and unless the hypothesis was just revised,
  the previous preview of it is at least half a second old.
\<close>

theorem forced_preview_waits:
  assumes "feed_internal graphemes now unix_ms x mode s = Some (r, s')"
    and "p \<in> set (sf_sentences r)" and "sr_is_forced p"
  shows "sf_sentences r = [p] \<and>
    sr_sentence p = trim (drop (length (ss_committed s')) (ss_buffer s')) \<and> sr_sentence p \<noteq> [] \<and>
    is_some_and (ss_pending_start s')
      (\<lambda>start. from_millis (if mode = LegacyStablePunctuation then 700 else 1400) \<le> now - start) \<and>
    (sf_revision_reset r \<or> ss_last_forced_at s = None \<or> from_millis 500 \<le> now - the (ss_last_forced_at s))"
proof -
  let ?t = "normalize_hypothesis x"
  let ?s1 = "observe_hypothesis graphemes now ((after_reset ?t s)\<lparr>ss_buffer := ?t\<rparr>)"
  obtain s2 results committed new where pre: "prefix committed ?t" and good: "list_all good_chunk new"
    and ad: "adopt (?s1\<lparr>ss_committed := committed\<rparr>) new = Some (results, s2)"
    and fp: "force_pending graphemes now unix_ms mode results s2 = Some (sf_sentences r, s')"
    and reset: "sf_revision_reset r = (ss_committed s \<noteq> [] \<and> \<not> starts_with ?t (ss_committed s))"
    using assms(1) by (rule feed_internal_Some)
  note fr = adopt_frame [OF ad] force_pending_frame [OF fp]
  have results: "list_all (\<lambda>r. \<not> sr_is_forced r) results" and s2: "ss_buffer s2 = ?t" "ss_committed s2 = committed"
    using fr(1) by simp_all
  obtain start raw where f: "sf_sentences r = [p]" "ss_pending_start s' = Some start"
      "from_millis (if mode = LegacyStablePunctuation then 700 else 1400) \<le> now - start"
      "ss_buffer s2 = ss_committed s2 @ raw" "sr_sentence p = trim raw" "trim raw \<noteq> []"
    and quiet: "\<And>l. ss_last_forced_at s2 = Some l \<Longrightarrow> FORCED_REPEAT_INTERVAL \<le> now - l"
    by (rule force_pending_forced [OF fp results assms(2,3)]) (use s2 pre in auto)
  have "results = []"
    using fp f(1) results assms(3) by (auto simp: force_pending_def Let_def split: if_splits)
  with adopt_empty [OF _ good] ad have "s2 = ?s1\<lparr>ss_committed := committed\<rparr>" by blast
  then have "\<not> sf_revision_reset r \<Longrightarrow> ss_last_forced_at s2 = ss_last_forced_at s"
    using reset by (auto simp: after_reset_def)
  then have "sf_revision_reset r \<or> ss_last_forced_at s = None \<or> from_millis 500 \<le> now - the (ss_last_forced_at s)"
    using quiet by (cases "ss_last_forced_at s") (auto simp: FORCED_REPEAT_INTERVAL_def)
  moreover have "drop (length (ss_committed s')) (ss_buffer s') = raw" using fr(2) f(4) by simp
  ultimately show ?thesis using f by simp
qed

section \<open>Panics\<close>

text \<open>
  A run of partial hypotheses at instants in milliseconds; \<open>None\<close> once a feed has panicked. On text
  without combining characters the grapheme clusters are the single characters.
\<close>

fun feed_run :: "segmenter \<Rightarrow> (nat \<times> rstring) list \<Rightarrow> SentenceSplitter \<Rightarrow> SentenceSplitter option" where
  "feed_run g [] s = Some s"
| "feed_run g ((t, x) # es) s =
     Option.bind (feed_hypothesis g (from_millis t) t x PartialHypothesis s) (\<lambda>(r, s'). feed_run g es s')"

definition single_chars :: segmenter where
  "single_chars s = map (\<lambda>c. [c]) s"

lemma single_chars_law: "segmenter_law single_chars"
proof -
  have "concat (map (\<lambda>c. [c]) s) = s" for s :: rstring by (induction s) auto
  then show ?thesis by (auto simp: segmenter_law_def single_chars_def)
qed

lemmas feed_eval = feed_hypothesis_def feed_internal_def observe_hypothesis_def force_pending_def commit_suffix_def
  normalize_hypothesis_def normalize_char_def ends_with_char_def trim_def trim_end_def trim_start_def is_whitespace_def
  starts_with_def grapheme_common_prefix_def retain_unstable_tail_def single_chars_def split_whitespace_def
  stable_prefix_end_def from_millis_def STABLE_PREFIX_AGE_def
  FORCED_REPEAT_INTERVAL_def INITIAL_HYPOTHESIS_INTERVAL_MS_def HYPOTHESIS_INTERVAL_EMA_ALPHA_def
  char_indices_def len_utf8_def split_endings_def slice_range_def slice_to_def slice_from_def
  is_upper_initialism_def preceding_word_def is_ascii_uppercase_def push_context_def MAX_CONTEXT_SENTENCES_def
  split_subtitle_chunks_def split_subtitle_chunks_with_limits_def needs_subtitle_split_with_limits_def
  is_cjk_caption_character_def MAX_SUBTITLE_CHARS_def MAX_CJK_SUBTITLE_CHARS_def MAX_SUBTITLE_WORDS_def
  splitter_new_def splitter_reset_def soft_commit_boundary_def byte_after_grapheme_count_def is_clause_mark_def
  is_normal_segment_def segment_counts_def MIN_NORMAL_GRAPHEMES_def byte_end_after_trimmed_prefix_def
  is_forced_segment_def MIN_FORCED_GRAPHEMES_def should_emit_forced_pending_def


lemma deadline_eval:
  "soft_deadline s \<noteq> 0" "hard_deadline s \<noteq> 0"
  "n < 700000000 \<Longrightarrow> \<not> soft_deadline s \<le> n" "n < 1400000000 \<Longrightarrow> \<not> hard_deadline s \<le> n"
  "1200000000 \<le> n \<Longrightarrow> soft_deadline s \<le> n" "1900000000 \<le> n \<Longrightarrow> hard_deadline s \<le> n"
  using deadline_bounds [of s] by (auto simp: from_millis_def)

lemma feed_run_append: "feed_run g (es @ fs) s = Option.bind (feed_run g es s) (feed_run g fs)"
  by (induction g es s rule: feed_run.induct) (auto split: Option.bind_splits)

text \<open>The states of the runs below: nothing is pending, and the last hypothesis is the buffer.\<close>

definition demo_splitter ::
  "rstring \<Rightarrow> rstring \<Rightarrow> instant option \<Rightarrow> rstring list \<Rightarrow> rstring \<Rightarrow> instant option \<Rightarrow> instant \<Rightarrow> rat \<Rightarrow> SentenceSplitter" where
  "demo_splitter b c start ctx agreed since seen ema =
     \<lparr>ss_buffer = b, ss_committed = c, ss_pending_start = start, ss_context = ctx, ss_active_forced_pending = None,
      ss_last_hypothesis = b, ss_agreement_prefix = agreed, ss_agreement_since = since,
      ss_last_distinct_hypothesis_at = Some seen, ss_hypothesis_interval_ema_ms = ema, ss_last_forced_at = None\<rparr>"

definition revised_run :: "(nat \<times> rstring) list" where
  "revised_run = [(0, str ''a. b c''), (1, str ''a. b c d''), (300, str ''a. b c d''), (301, str ''a. X'')]"

definition revised_state :: SentenceSplitter where
  "revised_state = demo_splitter (str ''a. X'') (str ''a.'') (Some 300000000) [str ''a.''] [] (Some 301000000)
     301000000 (3104 / 25)"

lemma revised_run_state: "feed_run single_chars revised_run splitter_new = Some revised_state"
proof -
  have a: "feed_run single_chars [(0, str ''a. b c'')] splitter_new =
      Some (demo_splitter (str ''a. b c'') [] (Some 0) [] [] None 0 100)" (is "feed_run _ [?a] _ = Some ?s1")
    by (simp add: feed_eval deadline_eval Let_def demo_splitter_def)
  have b: "feed_run single_chars [(1, str ''a. b c d'')] ?s1 =
      Some (demo_splitter (str ''a. b c d'') [] (Some 0) [] (str ''a.'') (Some 1000000) 1000000 (401 / 5))"
    (is "feed_run _ [?b] _ = Some ?s2")
    by (simp add: feed_eval deadline_eval Let_def demo_splitter_def)
  have c: "feed_run single_chars [(300, str ''a. b c d'')] ?s2 =
      Some (demo_splitter (str ''a. b c d'') (str ''a.'') (Some 300000000) [str ''a.''] (str ''a.'') (Some 1000000)
        1000000 (401 / 5))" (is "feed_run _ [?c] _ = Some ?s3")
    by (simp add: feed_eval deadline_eval Let_def demo_splitter_def)
  have d: "feed_run single_chars [(301, str ''a. X'')] ?s3 = Some revised_state"
    (is "feed_run _ [?d] _ = _")
    by (simp add: feed_eval deadline_eval Let_def demo_splitter_def revised_state_def)
  have e: "revised_run = [?a] @ [?b] @ [?c] @ [?d]" by (simp add: revised_run_def del: str_def)
  show ?thesis unfolding e feed_run_append a b c d Option.bind.bind_lunit ..
qed

text \<open>
  C10: The splitter panics on a partial hypothesis that keeps the committed text but whose agreed
  prefix, once it has aged 250 ms, is shorter than it: the stable end then lies before the last split
  and the slice between them is out of order. The witness reaches such a state in four feeds: \<open>a.\<close> is
  committed out of \<open>a. b c d\<close>, the recogniser revises the tail to \<open>a. X\<close>, and the worker feeds the
  unchanged text again.
\<close>

theorem shrunk_agreement_panics:
  assumes "prefix (ss_committed s) (normalize_hypothesis x)"
    and "stable_prefix_end now (observe_hypothesis graphemes now (s\<lparr>ss_buffer := normalize_hypothesis x\<rparr>))
           < byte_len (ss_committed s)"
  shows "feed_hypothesis graphemes now unix_ms x PartialHypothesis s = None"
proof -
  let ?t = "normalize_hypothesis x" and ?m = "Hypothesis PartialHypothesis"
  have after: "after_reset ?t s = s" using assms(1) by (auto simp: after_reset_def starts_with_def)
  let ?s1 = "observe_hypothesis graphemes now (s\<lparr>ss_buffer := ?t\<rparr>)"
  obtain rest where "?t = ss_committed s @ rest" using assms(1) by (auto simp: prefix_def)
  then obtain punctuated pre where loop: "commit_loop ?t (byte_len (ss_committed s)) (stable_end_of now ?m ?s1)
      (byte_len (ss_committed s)) (char_indices ?t) = Some (punctuated, byte_len pre)" and "prefix (ss_committed s) pre"
    using commit_loop_total by metis
  then have "stable_end_of now ?m ?s1 < byte_len pre"
    using assms(2) byte_len_prefix_le by (fastforce simp: stable_end_of_def)
  then have "commit_suffix graphemes ?t False od (stable_end_of now ?m ?s1) (byte_len pre) = None" for od
    by (simp add: commit_suffix_def slice_range_def)
  then show ?thesis
    using feed_internal_stages [of x graphemes now s ?m punctuated "byte_len pre" unix_ms] loop
    by (simp add: feed_hypothesis_def after)
qed

theorem shrunk_agreement_panics_witness:
  "feed_run single_chars revised_run splitter_new = Some revised_state \<and>
   feed_hypothesis single_chars (from_millis 600) 600 (str ''a. X'') PartialHypothesis revised_state = None"
proof
  have n: "normalize_hypothesis (str ''a. X'') = str ''a. X''"
    by (simp add: normalize_hypothesis_def normalize_char_def ends_with_char_def trim_end_def is_whitespace_def)
  show "feed_hypothesis single_chars (from_millis 600) 600 (str ''a. X'') PartialHypothesis revised_state = None"
    by (rule shrunk_agreement_panics; unfold n)
      (simp_all add: revised_state_def demo_splitter_def observe_hypothesis_def stable_prefix_end_def
        STABLE_PREFIX_AGE_def from_millis_def len_utf8_def)
qed (rule revised_run_state)

definition wide_text :: "rstring \<Rightarrow> rstring" where
  "wide_text tail =
     str ''a. '' @ [20320, 20320, 20320, 20320, 20320, 20320, 20320, 20320, 65292] @ tail"

abbreviation wide_state :: SentenceSplitter where
  "wide_state \<equiv> demo_splitter (wide_text (str '' b c d'')) (str ''a.'') (Some 300000000) [str ''a.''] (wide_text [])
     (Some 1000000) 1000000 (401 / 5)"

lemma misplaced_offset:
  assumes "w \<noteq> []" and "byte_len w < len_utf8 c"
  shows "slice_to (byte_len (y @ [c])) (w @ y @ [c] @ z) = None"
proof (rule ccontr)
  assume "\<not> ?thesis"
  then obtain h t where h: "w @ y @ [c] @ z = h @ t" and n: "byte_len h = byte_len (y @ [c])"
    by (auto simp: slice_to_Some)
  have a: "prefix h (w @ y @ [c] @ z)" using h by (metis prefixI)
  have b: "prefix (w @ y) (w @ y @ [c] @ z)" "prefix (w @ y @ [c]) (w @ y @ [c] @ z)" by simp_all
  have "prefix (w @ y) h" using prefix_by_bytes [OF b(1) a] n assms(2) by simp
  moreover have "prefix h (w @ y @ [c])" using prefix_by_bytes [OF a b(2)] n by simp
  ultimately have "h = w @ y \<or> h = w @ y @ [c]" by (auto simp: prefix_def Cons_eq_append_conv)
  then show False using n assms by auto
qed

text \<open>
  C11: The splitter panics when it commits a late suffix at a clause mark that follows white space.
  The offset of the mark is measured in the trimmed suffix and applied to the untrimmed one, so it
  falls short by the bytes of the white space before the suffix; when the mark is wider than that
  white space, the offset lies inside the mark and the slice is not on a character boundary. Here the
  hypothesis keeps the committed text, the part between the last split and the stable end is the white
  space \<open>w\<close>, the sentence \<open>y\<close> with its mark \<open>c\<close> and a remainder \<open>z\<close>, the soft deadline has passed and
  the sentence is long enough to be committed. The witness reaches this in four feeds from the new
  splitter: \<open>a.\<close>, a space, eight ideographs and a full-width comma, with two more words after it.
\<close>

theorem soft_commit_offset_panics:
  assumes "prefix (ss_committed s) (normalize_hypothesis x)"
    and "commit_loop (normalize_hypothesis x) (byte_len (ss_committed s))
           (stable_prefix_end now (observe_hypothesis graphemes now (s\<lparr>ss_buffer := normalize_hypothesis x\<rparr>)))
           (byte_len (ss_committed s)) (char_indices (normalize_hypothesis x)) = Some (punctuated, split)"
    and "overdue now (observe_hypothesis graphemes now (s\<lparr>ss_buffer := normalize_hypothesis x\<rparr>))"
    and "slice_range split
           (stable_prefix_end now (observe_hypothesis graphemes now (s\<lparr>ss_buffer := normalize_hypothesis x\<rparr>)))
           (normalize_hypothesis x) = Some (w @ y @ [c] @ z)"
    and "trim (w @ y @ [c] @ z) = y @ [c] @ z" and "w \<noteq> []" and "byte_len w < len_utf8 c"
    and "soft_commit_boundary graphemes (y @ [c] @ z) = Some (Some (byte_len (y @ [c])))"
    and "trim (y @ [c]) = y @ [c]" and "is_normal_segment graphemes (y @ [c])"
  shows "feed_hypothesis graphemes now unix_ms x PartialHypothesis s = None"
proof -
  let ?t = "normalize_hypothesis x" and ?m = "Hypothesis PartialHypothesis"
  have after: "after_reset ?t s = s" using assms(1) by (auto simp: after_reset_def starts_with_def)
  let ?s1 = "observe_hypothesis graphemes now (s\<lparr>ss_buffer := ?t\<rparr>)"
  have "slice_to (byte_len (y @ [c])) (y @ [c] @ z) = Some (y @ [c])" by (auto simp: slice_to_Some)
  then have "commit_suffix graphemes ?t False True (stable_prefix_end now ?s1) split = None"
    using assms(4-10) misplaced_offset [OF assms(6,7), of y z]
    by (simp add: commit_suffix_def byte_end_after_trimmed_prefix_def)
  then show ?thesis
    using feed_internal_stages [of x graphemes now s ?m punctuated split unix_ms] assms(2,3)
    by (simp add: feed_hypothesis_def after stable_end_of_def)
qed

lemma wide_run_state:
  "feed_run single_chars [(0, wide_text (str '' b c'')), (1, wide_text (str '' b c d'')), (300, wide_text (str '' b c d''))]
     splitter_new = Some wide_state"
proof -
  let ?p = "wide_text []" and ?q = "wide_text (str '' b c'')" and ?r = "wide_text (str '' b c d'')"
  have a: "feed_run single_chars [(0, ?q)] splitter_new = Some (demo_splitter ?q [] (Some 0) [] [] None 0 100)"
    (is "_ = Some ?s1")
    by (simp add: feed_eval deadline_eval Let_def demo_splitter_def wide_text_def)
  have b: "feed_run single_chars [(1, ?r)] ?s1 =
      Some (demo_splitter ?r [] (Some 0) [] ?p (Some 1000000) 1000000 (401 / 5))" (is "_ = Some ?s2")
    by (simp add: feed_eval deadline_eval Let_def demo_splitter_def wide_text_def)
  have c: "feed_run single_chars [(300, ?r)] ?s2 = Some wide_state"
    by (simp add: feed_eval deadline_eval Let_def demo_splitter_def wide_text_def)
  have e: "[(0, ?q), (1, ?r), (300, ?r)] = [(0::nat, ?q)] @ [(1, ?r)] @ [(300, ?r)]" by simp
  show ?thesis unfolding e feed_run_append a b c Option.bind.bind_lunit ..
qed

theorem soft_commit_offset_panics_witness:
  "feed_run single_chars [(0, wide_text (str '' b c'')), (1, wide_text (str '' b c d'')), (300, wide_text (str '' b c d''))]
     splitter_new = Some wide_state \<and>
   feed_hypothesis single_chars (from_millis 2000) 2000 (wide_text (str '' b c d'')) PartialHypothesis wide_state = None"
proof
  let ?r = "wide_text (str '' b c d'')" and ?now = "from_millis 2000"
  let ?y = "[20320, 20320, 20320, 20320, 20320, 20320, 20320, 20320] :: rstring"
  have n: "normalize_hypothesis ?r = ?r" by (simp add: feed_eval wide_text_def)
  have same: "wide_state\<lparr>ss_buffer := ?r\<rparr> = wide_state" by (simp add: demo_splitter_def)
  have obs: "observe_hypothesis single_chars ?now wide_state = wide_state"
    by (simp add: observe_hypothesis_def demo_splitter_def)
  have e: "stable_prefix_end ?now wide_state = 30"
    by (simp add: demo_splitter_def feed_eval wide_text_def)
  have k: "byte_len (ss_committed wide_state) = 2" by (simp add: demo_splitter_def len_utf8_def)
  show "feed_hypothesis single_chars ?now 2000 ?r PartialHypothesis wide_state = None"
  proof (rule soft_commit_offset_panics [of _ _ _ _ "[]" 2 "[32]" ?y 65292 "[]"]; (unfold n same obs e k)?)
    show "prefix (ss_committed wide_state) ?r" by (simp add: demo_splitter_def wide_text_def)
    show "commit_loop ?r 2 30 2 (char_indices ?r) = Some ([], 2)" by (simp add: feed_eval wide_text_def)
    show "overdue ?now wide_state" by (simp add: overdue_def deadline_eval from_millis_def demo_splitter_def)
    show "slice_range 2 30 ?r = Some ([32] @ ?y @ [65292] @ [])" by (simp add: feed_eval wide_text_def)
    show "trim ([32] @ ?y @ [65292] @ []) = ?y @ [65292] @ []" by (simp add: feed_eval)
    show "byte_len [32] < len_utf8 65292" by (simp add: len_utf8_def)
    show "soft_commit_boundary single_chars (?y @ [65292] @ []) = Some (Some (byte_len (?y @ [65292])))"
      by (simp add: feed_eval Let_def)
    show "trim (?y @ [65292]) = ?y @ [65292]" by (simp add: feed_eval)
    show "is_normal_segment single_chars (?y @ [65292])" by (simp add: feed_eval)
  qed simp
qed (rule wide_run_state)

section \<open>Witnesses\<close>

lemma feed_short:
  "feed_internal single_chars 0 0 (str ''a. b'') LegacyStablePunctuation splitter_new =
     Some (\<lparr>sf_sentences = [\<lparr>sr_sentence = str ''a.'', sr_context = [str ''a.''], sr_is_forced = False,
             sr_is_replacement = False, sr_pending_id = None\<rparr>],
           sf_revision_reset = False, sf_previous_committed = []\<rparr>,
       demo_splitter (str ''a. b'') (str ''a.'') (Some 0) [str ''a.''] [] None 0 100)"
  by (simp add: feed_eval deadline_eval Let_def demo_splitter_def)

theorem feed_commits_monotonically_witness:
  "prefix (str ''a.'') (normalize_hypothesis (str ''a. b'')) \<and> prefix [] (str ''a.'')"
  using feed_commits_monotonically [OF feed_short] by (simp add: demo_splitter_def splitter_new_def)

abbreviation waiting_state :: SentenceSplitter where
  "waiting_state \<equiv> demo_splitter (str ''abcd'') [] (Some 0) [] [] None 0 100"

abbreviation waiting_preview :: SentenceResult where
  "waiting_preview \<equiv> \<lparr>sr_sentence = str ''abcd'', sr_context = [], sr_is_forced = True,
     sr_is_replacement = False, sr_pending_id = Some (pending_id_of 7)\<rparr>"

lemma feed_waiting:
  "\<exists>s'. feed_internal single_chars 2000000000 7 (str ''abcd'') (Hypothesis PartialHypothesis) waiting_state =
     Some (\<lparr>sf_sentences = [waiting_preview], sf_revision_reset = False, sf_previous_committed = []\<rparr>, s') \<and>
     ss_buffer s' = str ''abcd'' \<and> ss_committed s' = []"
  by (simp add: feed_eval deadline_eval Let_def demo_splitter_def)

theorem forced_preview_waits_witness:
  "\<exists>r s'. feed_internal single_chars 2000000000 7 (str ''abcd'') (Hypothesis PartialHypothesis) waiting_state = Some (r, s') \<and>
     sf_sentences r = [waiting_preview] \<and>
     is_some_and (ss_pending_start s') (\<lambda>start. from_millis 1400 \<le> 2000000000 - start)"
proof -
  obtain s' where f: "feed_internal single_chars 2000000000 7 (str ''abcd'') (Hypothesis PartialHypothesis) waiting_state =
     Some (\<lparr>sf_sentences = [waiting_preview], sf_revision_reset = False, sf_previous_committed = []\<rparr>, s')"
    using feed_waiting by blast
  from forced_preview_waits [OF f, of waiting_preview] f show ?thesis by simp
qed


end
