(* ===== verification/Cue_Ledger.thy ===== *)
theory Cue_Ledger
  imports Sentence_Splitter
begin

text \<open>
  The per-cue translation ledger (\<open>audio/subtitle_translate/scheduler.rs\<close>) and the writer of
  translation results (\<open>TranslationResultWriter\<close> of \<open>audio/subtitle_translate.rs\<close>). A cue shows a list
  of display slots, one per sentence; the writer puts a translation into a slot when the rank and
  sequence guard of the scheduler accepts it. Calls to the audio state store and to its session
  report are values of \<open>store_call\<close>, in the order the code makes them; log lines and snapshot
  events are not recorded. The Unicode tables behind \<open>char::is_alphanumeric\<close> and
  \<open>char::to_lowercase\<close> are arguments.
\<close>

section \<open>Data\<close>

record DisplaySlot =
  ds_source :: rstring
  ds_translated :: rstring
  ds_pending :: bool
  ds_write_state :: "TranslationWriteState option"

record CueTranslationLedger =
  cl_splitter :: SentenceSplitter
  cl_revision :: nat
  cl_last_processed_text :: rstring
  cl_forced_pending :: "rstring \<rightharpoonup> rstring \<times> rstring"
  cl_completed_replacements :: "rstring set"
  cl_pending_display_index :: "nat option"
  cl_pending_display_by_id :: "rstring \<rightharpoonup> nat"
  cl_translation_written_at :: "instant option"
  cl_stable_retry_count :: nat
  cl_source_stable_since :: instant
  cl_sentence_attempt_count :: "rstring \<rightharpoonup> nat"
  cl_rate_limit_attempt_keys :: "rstring set"
  cl_final_translation_cache :: "rstring \<rightharpoonup> rstring"
  cl_written_final_translation_keys :: "rstring set"
  cl_display_slots :: "DisplaySlot list"

record SubtitleDisplaySegmentRuntime =
  dg_source_text :: rstring
  dg_translated_text :: rstring
  dg_pending :: bool

datatype SubtitleTranslationStateRuntime = PendingState | Streaming | FinalState | ErrorState | Superseded

text \<open>The calls on \<open>AudioStateStore\<close> and on its \<open>watch_session_report\<close>, with the arguments that vary.\<close>

datatype store_call =
    UpdateDisplay rstring nat rstring "SubtitleDisplaySegmentRuntime list" rstring SubtitleTranslationStateRuntime
  | MarkTranslationError rstring nat rstring
  | CommitCue rstring
  | RecordModelError rstring rstring rstring bool "rstring option"
  | RecordModelDelta rstring rstring bool rstring nat
  | RecordSegmentFinal rstring rstring nat rstring bool "(rstring \<times> nat) option"
  | RecordRetry rstring rstring rstring

record unicode =
  uc_is_alphanumeric :: "rchar \<Rightarrow> bool"
  uc_to_lowercase :: "rchar \<Rightarrow> rstring"

section \<open>The ledger\<close>

definition ledger_new :: "instant \<Rightarrow> CueTranslationLedger" where
  "ledger_new now =
     \<lparr>cl_splitter = splitter_new, cl_revision = 0, cl_last_processed_text = [], cl_forced_pending = Map.empty,
      cl_completed_replacements = {}, cl_pending_display_index = None, cl_pending_display_by_id = Map.empty,
      cl_translation_written_at = None, cl_stable_retry_count = 0, cl_source_stable_since = now,
      cl_sentence_attempt_count = Map.empty, cl_rate_limit_attempt_keys = {},
      cl_final_translation_cache = Map.empty, cl_written_final_translation_keys = {}, cl_display_slots = []\<rparr>"

definition new_for_revision :: "instant \<Rightarrow> nat \<Rightarrow> CueTranslationLedger" where
  "new_for_revision now revision = (ledger_new now)\<lparr>cl_revision := revision\<rparr>"

definition display_source_text :: "CueTranslationLedger \<Rightarrow> rstring" where
  "display_source_text l = join [10] (filter (\<lambda>t. trim t \<noteq> []) (map ds_source (cl_display_slots l)))"

definition translated_text :: "CueTranslationLedger \<Rightarrow> rstring" where
  "translated_text l = join [10] (filter (\<lambda>t. trim t \<noteq> []) (map ds_translated (cl_display_slots l)))"

definition display_segments :: "CueTranslationLedger \<Rightarrow> SubtitleDisplaySegmentRuntime list" where
  "display_segments l =
     map (\<lambda>slot. \<lparr>dg_source_text = ds_source slot, dg_translated_text = ds_translated slot,
                   dg_pending = (ds_pending slot \<or> trim (ds_translated slot) = [])\<rparr>)
       (filter (\<lambda>slot. trim (ds_source slot) \<noteq> []) (cl_display_slots l))"

definition set_slot_source :: "nat \<Rightarrow> rstring \<Rightarrow> CueTranslationLedger \<Rightarrow> CueTranslationLedger" where
  "set_slot_source i source l =
     (if i < length (cl_display_slots l)
      then l\<lparr>cl_display_slots := (cl_display_slots l)[i := (cl_display_slots l ! i)\<lparr>ds_source := source\<rparr>]\<rparr>
      else l)"

definition bind_pending_id :: "rstring option \<Rightarrow> nat \<Rightarrow> CueTranslationLedger \<Rightarrow> CueTranslationLedger" where
  "bind_pending_id pending_id i l =
     (case pending_id of
        None \<Rightarrow> l
      | Some p \<Rightarrow> l\<lparr>cl_pending_display_by_id := (cl_pending_display_by_id l)(p \<mapsto> i)\<rparr>)"

definition push_slot :: "SentenceResult \<Rightarrow> CueTranslationLedger \<Rightarrow> nat \<times> CueTranslationLedger" where
  "push_slot result l =
     (let i = length (cl_display_slots l);
          l = l\<lparr>cl_display_slots := cl_display_slots l @
                 [\<lparr>ds_source = sr_sentence result, ds_translated = [], ds_pending = True, ds_write_state = None\<rparr>]\<rparr>
      in (i, if sr_is_forced result
             then bind_pending_id (sr_pending_id result) i (l\<lparr>cl_pending_display_index := Some i\<rparr>) else l))"

definition ensure_display_slot :: "SentenceResult \<Rightarrow> CueTranslationLedger \<Rightarrow> nat \<times> CueTranslationLedger" where
  "ensure_display_slot result l =
     (case (if sr_is_replacement result then Option.bind (sr_pending_id result) (cl_pending_display_by_id l) else None) of
        Some i \<Rightarrow> (i, set_slot_source i (sr_sentence result) l)
      | None \<Rightarrow>
          (case (if sr_is_forced result then cl_pending_display_index l else None) of
             Some i \<Rightarrow> (i, bind_pending_id (sr_pending_id result) i (set_slot_source i (sr_sentence result) l))
           | None \<Rightarrow> push_slot result l))"

definition reset_for_revision_state :: "CueTranslationLedger \<Rightarrow> CueTranslationLedger" where
  "reset_for_revision_state l =
     l\<lparr>cl_forced_pending := Map.empty, cl_completed_replacements := {}, cl_pending_display_index := None,
       cl_pending_display_by_id := Map.empty, cl_translation_written_at := None, cl_rate_limit_attempt_keys := {},
       cl_written_final_translation_keys := {}, cl_display_slots := []\<rparr>"

definition cache_final_translation :: "rstring \<Rightarrow> rstring \<Rightarrow> CueTranslationLedger \<Rightarrow> CueTranslationLedger" where
  "cache_final_translation sentence translated l =
     (if trim translated = [] then l
      else l\<lparr>cl_final_translation_cache :=
             (cl_final_translation_cache l)(normalize_sentence_key sentence \<mapsto> trim translated)\<rparr>)"

definition cached_final_translation :: "rstring \<Rightarrow> CueTranslationLedger \<Rightarrow> rstring option" where
  "cached_final_translation sentence l = cl_final_translation_cache l (normalize_sentence_key sentence)"

definition substantive_translation_dedupe_key :: "unicode \<Rightarrow> rstring \<Rightarrow> rstring option" where
  "substantive_translation_dedupe_key uc text =
     (let normalized = concat (map (uc_to_lowercase uc) (filter (uc_is_alphanumeric uc) text))
      in if length normalized \<ge> 8 then Some normalized else None)"

definition written_key :: "nat \<Rightarrow> rstring \<Rightarrow> rstring" where
  "written_key display_index key = show_nat display_index @ str '':'' @ key"

definition has_written_final_translation :: "unicode \<Rightarrow> nat \<Rightarrow> rstring \<Rightarrow> CueTranslationLedger \<Rightarrow> bool" where
  "has_written_final_translation uc display_index translated l =
     is_some_and (substantive_translation_dedupe_key uc translated)
       (\<lambda>key. written_key display_index key \<in> cl_written_final_translation_keys l)"

definition mark_final_translation_written ::
  "unicode \<Rightarrow> nat \<Rightarrow> rstring \<Rightarrow> CueTranslationLedger \<Rightarrow> CueTranslationLedger" where
  "mark_final_translation_written uc display_index translated l =
     (case substantive_translation_dedupe_key uc translated of
        None \<Rightarrow> l
      | Some key \<Rightarrow> l\<lparr>cl_written_final_translation_keys :=
          insert (written_key display_index key) (cl_written_final_translation_keys l)\<rparr>)"

section \<open>The result writer\<close>

definition sync_cue_display :: "rstring \<Rightarrow> CueTranslationLedger \<Rightarrow> store_call" where
  "sync_cue_display cue_id l =
     UpdateDisplay cue_id (cl_revision l) (display_source_text l) (display_segments l) (translated_text l)
       (if trim (translated_text l) = [] then PendingState else Streaming)"

definition apply_translation_to_slot ::
  "instant \<Rightarrow> nat \<Rightarrow> rstring \<Rightarrow> TranslationWriteState \<Rightarrow> CueTranslationLedger \<Rightarrow> bool \<times> CueTranslationLedger" where
  "apply_translation_to_slot now display_index translated state l =
     (if display_index < length (cl_display_slots l) then
        let slot = cl_display_slots l ! display_index
        in if \<not> should_accept_translation (ds_write_state slot) state then (False, l)
           else (True, l\<lparr>cl_display_slots := (cl_display_slots l)[display_index :=
                    slot\<lparr>ds_translated := translated,
                         ds_pending := (ws_rank state = Partial \<or> ws_rank state = Forced),
                         ds_write_state := Some state\<rparr>],
                  cl_translation_written_at := Some now\<rparr>)
      else (False, l))"

definition result_write ::
  "unicode \<Rightarrow> instant \<Rightarrow> rstring \<Rightarrow> nat \<Rightarrow> rstring \<Rightarrow> TranslationWriteState \<Rightarrow> CueTranslationLedger \<Rightarrow>
   CueTranslationLedger \<times> store_call list" where
  "result_write uc now cue_id display_index translated state l =
     (if display_index \<ge> length (cl_display_slots l) then (l, [])
      else
        let dedupe_final = should_dedupe_written_translation (ws_rank state)
        in if dedupe_final \<and> has_written_final_translation uc display_index translated l then (l, [])
           else
             let (applied, l) = apply_translation_to_slot now display_index translated state l
             in if \<not> applied then (l, [])
                else let l = (if dedupe_final then mark_final_translation_written uc display_index translated l else l)
                     in (l, [sync_cue_display cue_id l]))"

text \<open>\<open>write_ranked\<close> also advances the worker's write sequence.\<close>

definition write_ranked ::
  "unicode \<Rightarrow> instant \<Rightarrow> rstring \<Rightarrow> nat \<Rightarrow> SentenceResult \<Rightarrow> nat \<Rightarrow> rstring \<Rightarrow> CueTranslationLedger \<Rightarrow>
   nat \<times> CueTranslationLedger \<times> store_call list" where
  "write_ranked uc now cue_id display_index result next_sequence translated l =
     (sat_add_u64 next_sequence 1,
      result_write uc now cue_id display_index translated
        \<lparr>ws_rank = translation_rank result, ws_sequence = next_sequence\<rparr> l)"

section \<open>Invariant\<close>

definition slot_ok :: "DisplaySlot \<Rightarrow> bool" where
  "slot_ok slot \<longleftrightarrow> ds_pending slot =
     (case ds_write_state slot of None \<Rightarrow> True | Some w \<Rightarrow> ws_rank w = Partial \<or> ws_rank w = Forced)"

definition ledger_ok :: "CueTranslationLedger \<Rightarrow> bool" where
  "ledger_ok l \<longleftrightarrow> list_all slot_ok (cl_display_slots l) \<and>
     (\<forall>i. cl_pending_display_index l = Some i \<longrightarrow> i < length (cl_display_slots l)) \<and>
     (\<forall>p i. cl_pending_display_by_id l p = Some i \<longrightarrow> i < length (cl_display_slots l))"

text \<open>
  What the operations keep of the slots of a ledger within one revision: none disappears, and a slot
  is either as it was, up to its source text, or was overwritten by accepted results.
\<close>

definition write_le :: "TranslationWriteState option \<Rightarrow> TranslationWriteState option \<Rightarrow> bool" where
  "write_le a b \<longleftrightarrow> (case b of None \<Rightarrow> a = None | Some w \<Rightarrow> should_accept_translation a w)"

definition slot_le :: "DisplaySlot \<Rightarrow> DisplaySlot \<Rightarrow> bool" where
  "slot_le a b \<longleftrightarrow> write_le (ds_write_state a) (ds_write_state b)"

definition ledger_le :: "CueTranslationLedger \<Rightarrow> CueTranslationLedger \<Rightarrow> bool" where
  "ledger_le l l' \<longleftrightarrow> cl_revision l' = cl_revision l \<and> length (cl_display_slots l) \<le> length (cl_display_slots l') \<and>
     (\<forall>i < length (cl_display_slots l). slot_le (cl_display_slots l ! i) (cl_display_slots l' ! i))"

lemma write_le_refl [simp]: "write_le a a"
  by (cases a) (auto simp: write_le_def should_accept_translation_def)

lemma write_le_Some [simp]: "write_le a (Some w) = should_accept_translation a w"
  by (simp add: write_le_def)

lemma write_le_trans: "write_le a b \<Longrightarrow> write_le b c \<Longrightarrow> write_le a c"
  by (cases a; cases b; cases c) (auto simp: write_le_def should_accept_translation_def)

lemma slot_le_refl [simp]: "slot_le a a"
  by (simp add: slot_le_def)

lemma ledger_le_refl [simp]: "ledger_le l l"
  by (simp add: ledger_le_def)

lemma ledger_le_trans:
  assumes ab: "ledger_le a b" and bc: "ledger_le b c"
  shows "ledger_le a c"
proof -
  have "slot_le (cl_display_slots a ! i) (cl_display_slots c ! i)" if "i < length (cl_display_slots a)" for i
  proof -
    have "slot_le (cl_display_slots a ! i) (cl_display_slots b ! i)" "slot_le (cl_display_slots b ! i) (cl_display_slots c ! i)"
      using ab bc that by (simp_all add: ledger_le_def)
    then show ?thesis unfolding slot_le_def by (rule write_le_trans)
  qed
  with ab bc show ?thesis by (simp add: ledger_le_def)
qed

text \<open>The fields the invariant and the order do not read.\<close>

lemma ledger_frame:
  assumes "cl_display_slots l' = cl_display_slots l" "cl_revision l' = cl_revision l"
    and "cl_pending_display_index l' = cl_pending_display_index l \<or> cl_pending_display_index l' = None"
    and "cl_pending_display_by_id l' \<subseteq>\<^sub>m cl_pending_display_by_id l"
  shows "ledger_le l l'" and "ledger_ok l \<Longrightarrow> ledger_ok l'"
proof -
  show "ledger_le l l'" using assms by (simp add: ledger_le_def)
  show "ledger_ok l'" if ok: "ledger_ok l"
  proof -
    have "i < length (cl_display_slots l)" if "cl_pending_display_by_id l' p = Some i" for p i
    proof -
      have "cl_pending_display_by_id l p = Some i" using assms(4) that by (metis domI map_le_def)
      then show ?thesis using ok by (auto simp: ledger_ok_def)
    qed
    then show ?thesis using assms(1,3) ok by (auto simp: ledger_ok_def)
  qed
qed

lemma list_all_update: "list_all P xs \<Longrightarrow> P y \<Longrightarrow> list_all P (xs[i := y])"
  by (auto simp: list_all_iff dest: set_update_subset_insert [THEN subsetD])

lemma set_slot_source_keeps: "ledger_le l (set_slot_source i src l)" "ledger_ok l \<Longrightarrow> ledger_ok (set_slot_source i src l)"
proof -
  show "ledger_le l (set_slot_source i src l)"
    by (auto simp: set_slot_source_def ledger_le_def nth_list_update slot_le_def)
  assume "ledger_ok l"
  moreover from this have "i < length (cl_display_slots l) \<Longrightarrow> slot_ok ((cl_display_slots l ! i)\<lparr>ds_source := src\<rparr>)"
    by (auto simp: ledger_ok_def list_all_length slot_ok_def)
  ultimately show "ledger_ok (set_slot_source i src l)"
    by (auto simp: set_slot_source_def ledger_ok_def list_all_update)
qed

lemma bind_pending_id_simps [simp]:
  "cl_display_slots (bind_pending_id p i l) = cl_display_slots l"
  "cl_revision (bind_pending_id p i l) = cl_revision l"
  by (simp_all add: bind_pending_id_def split: option.split)

lemma bind_pending_id_ok: "ledger_ok l \<Longrightarrow> i < length (cl_display_slots l) \<Longrightarrow> ledger_ok (bind_pending_id p i l)"
  by (auto simp: bind_pending_id_def ledger_ok_def split: option.split)

lemma push_slot_keeps:
  assumes "push_slot result l = (i, l')"
  shows "ledger_le l l'" and "i < length (cl_display_slots l')" and "ledger_ok l \<Longrightarrow> ledger_ok l'"
proof -
  show "ledger_le l l'" "i < length (cl_display_slots l')"
    using assms by (auto simp: push_slot_def Let_def ledger_le_def nth_append)
  assume "ledger_ok l"
  then have "ledger_ok (l\<lparr>cl_display_slots := cl_display_slots l @
      [\<lparr>ds_source = sr_sentence result, ds_translated = [], ds_pending = True, ds_write_state = None\<rparr>]\<rparr>)" (is "ledger_ok ?l")
    by (auto simp: ledger_ok_def slot_ok_def less_Suc_eq)
  moreover from this have "ledger_ok (?l\<lparr>cl_pending_display_index := Some (length (cl_display_slots l))\<rparr>)"
    by (auto simp: ledger_ok_def)
  ultimately show "ledger_ok l'"
    using assms by (auto simp: push_slot_def Let_def intro!: bind_pending_id_ok)
qed

lemma ensure_display_slot_keeps:
  assumes "ledger_ok l" and "ensure_display_slot result l = (i, l')"
  shows "ledger_le l l'" and "i < length (cl_display_slots l')" and "ledger_ok l'"
proof -
  have len: "length (cl_display_slots (set_slot_source i (sr_sentence result) l)) = length (cl_display_slots l)"
    by (simp add: set_slot_source_def)
  consider (old) "i < length (cl_display_slots l)" "l' = set_slot_source i (sr_sentence result) l"
    | (bound) "i < length (cl_display_slots l)"
        "l' = bind_pending_id (sr_pending_id result) i (set_slot_source i (sr_sentence result) l)"
    | (new) "push_slot result l = (i, l')"
    using assms by (auto simp: ensure_display_slot_def ledger_ok_def bind_eq_Some_conv split: option.splits if_splits)
  then show "ledger_le l l'" "i < length (cl_display_slots l')" "ledger_ok l'"
    using set_slot_source_keeps [of l i "sr_sentence result"] assms(1) push_slot_keeps len
    by (cases; auto simp: ledger_le_def intro!: bind_pending_id_ok)+
qed

lemma apply_translation_keeps:
  assumes "apply_translation_to_slot now i t w l = (b, l')"
  shows "ledger_le l l'" and "ledger_ok l \<Longrightarrow> ledger_ok l'"
proof -
  show "ledger_le l l'"
    using assms by (auto simp: apply_translation_to_slot_def Let_def ledger_le_def nth_list_update slot_le_def
        split: if_splits)
  assume "ledger_ok l"
  then show "ledger_ok l'"
    using assms by (auto simp: apply_translation_to_slot_def Let_def ledger_ok_def slot_ok_def split: if_splits
        intro!: list_all_update)
qed

lemma mark_written_simps [simp]:
  "cl_display_slots (mark_final_translation_written uc i t l) = cl_display_slots l"
  "cl_revision (mark_final_translation_written uc i t l) = cl_revision l"
  "cl_pending_display_index (mark_final_translation_written uc i t l) = cl_pending_display_index l"
  "cl_pending_display_by_id (mark_final_translation_written uc i t l) = cl_pending_display_by_id l"
  by (simp_all add: mark_final_translation_written_def split: option.split)

lemma result_write_keeps:
  assumes "result_write uc now c i t w l = (l', calls)"
  shows "ledger_le l l'" and "ledger_ok l \<Longrightarrow> ledger_ok l'"
proof -
  obtain b l1 where ap: "apply_translation_to_slot now i t w l = (b, l1)" by fastforce
  have "l' = l \<or> l' = l1 \<or> l' = mark_final_translation_written uc i t l1"
    using assms ap by (auto simp: result_write_def Let_def split: if_splits)
  moreover have "ledger_le l1 (mark_final_translation_written uc i t l1)"
    "ledger_ok l1 \<Longrightarrow> ledger_ok (mark_final_translation_written uc i t l1)"
    using ledger_frame [of "mark_final_translation_written uc i t l1" l1] by simp_all
  ultimately show "ledger_le l l'" "ledger_ok l \<Longrightarrow> ledger_ok l'"
    using apply_translation_keeps [OF ap] ledger_le_trans by auto
qed

text \<open>What the worker relies on: an operation moves a ledger forward and keeps the invariant.\<close>

definition led_keeps :: "CueTranslationLedger \<Rightarrow> CueTranslationLedger \<Rightarrow> bool" where
  "led_keeps l l' \<longleftrightarrow> ledger_le l l' \<and> (ledger_ok l \<longrightarrow> ledger_ok l')"

lemma led_keeps_refl [simp]: "led_keeps l l"
  by (simp add: led_keeps_def)

lemma led_keeps_trans [trans]: "led_keeps a b \<Longrightarrow> led_keeps b c \<Longrightarrow> led_keeps a c"
  unfolding led_keeps_def using ledger_le_trans by blast

lemma led_keeps_frame:
  assumes "cl_display_slots l' = cl_display_slots l" "cl_revision l' = cl_revision l"
    and "cl_pending_display_index l' = cl_pending_display_index l \<or> cl_pending_display_index l' = None"
    and "cl_pending_display_by_id l' \<subseteq>\<^sub>m cl_pending_display_by_id l"
  shows "led_keeps l l'"
  using ledger_frame [OF assms] by (simp add: led_keeps_def)

lemma result_write_led_keeps: "led_keeps l (fst (result_write uc now c i t w l))"
  by (cases "result_write uc now c i t w l") (auto simp: led_keeps_def dest: result_write_keeps)

lemma cache_simps [simp]:
  "cl_display_slots (cache_final_translation s t l) = cl_display_slots l"
  "cl_revision (cache_final_translation s t l) = cl_revision l"
  "cl_pending_display_index (cache_final_translation s t l) = cl_pending_display_index l"
  "cl_pending_display_by_id (cache_final_translation s t l) = cl_pending_display_by_id l"
  by (simp_all add: cache_final_translation_def)

end
