(* ===== verification/Json.thy ===== *)
theory Json
  imports Complex_Main Omni_Prelude
begin

text \<open>
  JSON values as \<open>serde_json\<close> has them, and the accessors the sources use. An object is the list of its
  entries in iteration order, with distinct keys. A number is a non-negative integer of 64 bits, a negative
  one, or a finite float, which is a rational number.
\<close>

datatype json_number = PosInt nat | NegInt int | Float rat

datatype json =
    JNull
  | JBool bool
  | JNumber json_number
  | JString rstring
  | JArray "json list"
  | JObject "(rstring \<times> json) list"

fun is_object :: "json \<Rightarrow> bool" where
  "is_object (JObject _) = True"
| "is_object _ = False"

text \<open>\<open>Value::get\<close> with a key.\<close>

fun json_get :: "rstring \<Rightarrow> json \<Rightarrow> json option" where
  "json_get k (JObject fs) = map_of fs k"
| "json_get k _ = None"

fun as_str :: "json \<Rightarrow> rstring option" where
  "as_str (JString s) = Some s"
| "as_str _ = None"

text \<open>\<open>value[k] = v\<close> on an object that has no entry \<open>k\<close> yet.\<close>

fun json_set :: "rstring \<Rightarrow> json \<Rightarrow> json \<Rightarrow> json" where
  "json_set k v (JObject fs) = JObject (fs @ [(k, v)])"
| "json_set k v j = j"

text \<open>\<open>Value::as_bool\<close>, \<open>as_u64\<close>, \<open>as_i64\<close>, \<open>as_f64\<close>, \<open>as_array\<close>, and indexing with a key, which yields null when absent.\<close>

fun as_bool :: "json \<Rightarrow> bool option" where
  "as_bool (JBool b) = Some b"
| "as_bool _ = None"

fun as_u64 :: "json \<Rightarrow> nat option" where
  "as_u64 (JNumber (PosInt n)) = Some n"
| "as_u64 _ = None"

definition i64_max :: int where "i64_max = 9223372036854775807"

fun as_i64 :: "json \<Rightarrow> int option" where
  "as_i64 (JNumber (PosInt n)) = (if int n \<le> i64_max then Some (int n) else None)"
| "as_i64 (JNumber (NegInt n)) = Some n"
| "as_i64 _ = None"

fun as_f64 :: "json \<Rightarrow> rat option" where
  "as_f64 (JNumber (PosInt n)) = Some (of_nat n)"
| "as_f64 (JNumber (NegInt n)) = Some (of_int n)"
| "as_f64 (JNumber (Float x)) = Some x"
| "as_f64 _ = None"

fun as_array :: "json \<Rightarrow> json list option" where
  "as_array (JArray xs) = Some xs"
| "as_array _ = None"

fun as_object :: "json \<Rightarrow> (rstring \<times> json) list option" where
  "as_object (JObject fs) = Some fs"
| "as_object _ = None"

definition json_at :: "json \<Rightarrow> rstring \<Rightarrow> json" where
  "json_at v k = unwrap_or JNull (json_get k v)"

definition is_string :: "json \<Rightarrow> bool" where
  "is_string v \<longleftrightarrow> as_str v \<noteq> None"

definition json_is :: "json \<Rightarrow> rstring \<Rightarrow> bool" where
  "json_is v s \<longleftrightarrow> as_str v = Some s"

end
