(* ===== verification/Bridge_Protocol.thy ===== *)
theory Bridge_Protocol
  imports Omni_Prelude "HOL-Library.Word"
begin

text \<open>
  The wire contracts shared by the desktop shell and the native bridge
  (\<open>crates/omni-bridge-protocol/src/lib.rs\<close>): names, frame headers, acknowledgements and the PCM
  codec. Bytes are 8-bit words and samples 16-bit words, read signed by \<open>sint\<close>. The JSON form of
  the records is produced by derived code and is not modelled.
\<close>

unbundle bit_operations_syntax

section \<open>Names\<close>

definition MAX_CONTROL_MESSAGE_BYTES :: nat where "MAX_CONTROL_MESSAGE_BYTES = 64 * 1024"
definition MAX_AUDIO_FRAME_HEADER_BYTES :: nat where "MAX_AUDIO_FRAME_HEADER_BYTES = 64 * 1024"
definition MAX_AUDIO_FRAME_PAYLOAD_BYTES :: nat where "MAX_AUDIO_FRAME_PAYLOAD_BYTES = 4 * 1024 * 1024"
definition MAX_AUDIO_FRAME_ACK_BYTES :: nat where "MAX_AUDIO_FRAME_ACK_BYTES = 64 * 1024"

datatype SourceCaptureMode = NoCapture | VirtualDriver | ProcessExclusionCapture
datatype CaptureBackend = NoBackend | DriverVirtualSpeaker | WasapiProcessExclusion
datatype ProcessLoopbackStatus = UnknownStatus | Probing | Ready | Unsupported | FailedStatus
datatype TranslationAudioSink = PhysicalPlayback | VirtualMic
datatype AudioRouteDirection = Inbound | Outbound
datatype AudioSampleFormat = PcmS16le
datatype TranslationPlaybackStatusKind = QueuedStatus | StartedStatus | CompletedStatus | StaleDropped | RouteFailed
datatype TranslationStreamState = StreamStart | StreamChunk | StreamEnd | StreamAbort

fun capture_mode_as_str :: "SourceCaptureMode \<Rightarrow> rstring" where
  "capture_mode_as_str NoCapture = str ''none''"
| "capture_mode_as_str VirtualDriver = str ''virtual-driver''"
| "capture_mode_as_str ProcessExclusionCapture = str ''process-exclusion''"

fun backend_as_str :: "CaptureBackend \<Rightarrow> rstring" where
  "backend_as_str NoBackend = str ''none''"
| "backend_as_str DriverVirtualSpeaker = str ''driver-virtual-speaker''"
| "backend_as_str WasapiProcessExclusion = str ''wasapi-process-exclusion''"

fun loopback_as_str :: "ProcessLoopbackStatus \<Rightarrow> rstring" where
  "loopback_as_str UnknownStatus = str ''unknown''"
| "loopback_as_str Probing = str ''probing''"
| "loopback_as_str Ready = str ''ready''"
| "loopback_as_str Unsupported = str ''unsupported''"
| "loopback_as_str FailedStatus = str ''failed''"

fun sink_as_str :: "TranslationAudioSink \<Rightarrow> rstring" where
  "sink_as_str PhysicalPlayback = str ''physical-playback''"
| "sink_as_str VirtualMic = str ''virtual-mic''"

fun direction_as_str :: "AudioRouteDirection \<Rightarrow> rstring" where
  "direction_as_str Inbound = str ''inbound''"
| "direction_as_str Outbound = str ''outbound''"

fun status_as_str :: "TranslationPlaybackStatusKind \<Rightarrow> rstring" where
  "status_as_str QueuedStatus = str ''queued''"
| "status_as_str StartedStatus = str ''started''"
| "status_as_str CompletedStatus = str ''completed''"
| "status_as_str StaleDropped = str ''stale-dropped''"
| "status_as_str RouteFailed = str ''route-failed''"

fun status_is_terminal :: "TranslationPlaybackStatusKind \<Rightarrow> bool" where
  "status_is_terminal QueuedStatus = False"
| "status_is_terminal StartedStatus = False"
| "status_is_terminal CompletedStatus = True"
| "status_is_terminal StaleDropped = True"
| "status_is_terminal RouteFailed = True"

fun stream_state_as_str :: "TranslationStreamState \<Rightarrow> rstring" where
  "stream_state_as_str StreamStart = str ''start''"
| "stream_state_as_str StreamChunk = str ''chunk''"
| "stream_state_as_str StreamEnd = str ''end''"
| "stream_state_as_str StreamAbort = str ''abort''"

text \<open>The pipe paths begin with two backslashes, a dot, a backslash, \<open>pipe\<close> and a backslash.\<close>

definition pipe_prefix :: rstring where
  "pipe_prefix = [92, 92, 46, 92] @ str ''pipe'' @ [92]"

definition control_pipe_path :: "rstring \<Rightarrow> rstring" where
  "control_pipe_path pipe_name = pipe_prefix @ pipe_name"

definition audio_pipe_path :: "rstring \<Rightarrow> rstring" where
  "audio_pipe_path pipe_name = pipe_prefix @ pipe_name @ str ''-audio''"

definition source_pipe_path :: "rstring \<Rightarrow> rstring" where
  "source_pipe_path pipe_name = pipe_prefix @ pipe_name @ str ''-source''"

section \<open>Frames and acknowledgements\<close>

record AudioFrameHeader =
  fh_event_type :: rstring
  fh_request_id :: rstring
  fh_session_id :: rstring
  fh_frame_id :: rstring
  fh_stream_id :: rstring
  fh_sample_rate_hz :: "32 word"
  fh_sample_format :: AudioSampleFormat
  fh_channel_count :: "16 word"
  fh_frame_count :: nat
  fh_timestamp_ms :: nat
  fh_payload_bytes :: nat
  fh_bridge_process_id :: "32 word option"
  fh_bridge_instance_id :: "rstring option"
  fh_playback_owner_generation :: "nat option"
  fh_source_generation :: "nat option"
  fh_source_generation_token :: "rstring option"
  fh_physical_playback_device_id :: "rstring option"
  fh_cue_id :: "rstring option"
  fh_created_at_ms :: "nat option"
  fh_estimated_duration_ms :: "nat option"
  fh_chunk_index :: "32 word option"
  fh_chunk_count :: "32 word option"
  fh_stream_state :: "TranslationStreamState option"
  fh_translated_audio_enhancement_applied :: bool
  fh_translation_sink :: "TranslationAudioSink option"
  fh_route_direction :: "AudioRouteDirection option"

record AudioFrameAck =
  fa_event_type :: rstring
  fa_request_id :: rstring
  fa_frame_id :: rstring
  fa_session_id :: rstring
  fa_bridge_instance_id :: rstring
  fa_source_generation :: nat
  fa_source_generation_token :: rstring
  fa_playback_owner_generation :: nat
  fa_physical_playback_device_id :: rstring
  fa_accepted_frames :: nat
  fa_playback_frames_written :: nat
  fa_error_code :: "rstring option"
  fa_message :: "rstring option"

definition accepted_audio_frame_ack :: "AudioFrameHeader \<Rightarrow> nat \<Rightarrow> AudioFrameAck" where
  "accepted_audio_frame_ack header playback_frames_written =
     \<lparr>fa_event_type = str ''bridge.translation.ack'', fa_request_id = fh_request_id header,
      fa_frame_id = fh_frame_id header, fa_session_id = fh_session_id header,
      fa_bridge_instance_id = unwrap_or [] (fh_bridge_instance_id header),
      fa_source_generation = unwrap_or 0 (fh_source_generation header),
      fa_source_generation_token = unwrap_or [] (fh_source_generation_token header),
      fa_playback_owner_generation = unwrap_or 0 (fh_playback_owner_generation header),
      fa_physical_playback_device_id = unwrap_or [] (fh_physical_playback_device_id header),
      fa_accepted_frames = fh_frame_count header, fa_playback_frames_written = playback_frames_written,
      fa_error_code = None, fa_message = None\<rparr>"

definition rejected_audio_frame_ack :: "AudioFrameHeader \<Rightarrow> rstring \<Rightarrow> rstring \<Rightarrow> AudioFrameAck" where
  "rejected_audio_frame_ack header error_code message =
     \<lparr>fa_event_type = str ''bridge.translation.nack'', fa_request_id = fh_request_id header,
      fa_frame_id = fh_frame_id header, fa_session_id = fh_session_id header,
      fa_bridge_instance_id = unwrap_or [] (fh_bridge_instance_id header),
      fa_source_generation = unwrap_or 0 (fh_source_generation header),
      fa_source_generation_token = unwrap_or [] (fh_source_generation_token header),
      fa_playback_owner_generation = unwrap_or 0 (fh_playback_owner_generation header),
      fa_physical_playback_device_id = unwrap_or [] (fh_physical_playback_device_id header),
      fa_accepted_frames = 0, fa_playback_frames_written = 0,
      fa_error_code = Some error_code, fa_message = Some message\<rparr>"

section \<open>The PCM codec\<close>

definition i16_from_le_bytes :: "8 word \<Rightarrow> 8 word \<Rightarrow> 16 word" where
  "i16_from_le_bytes lo hi = push_bit 8 (ucast hi) OR ucast lo"

definition i16_to_le_bytes :: "16 word \<Rightarrow> 8 word list" where
  "i16_to_le_bytes s = [ucast s, ucast (drop_bit 8 s)]"

fun chunks_exact_2 :: "8 word list \<Rightarrow> 16 word list" where
  "chunks_exact_2 (lo # hi # rest) = i16_from_le_bytes lo hi # chunks_exact_2 rest"
| "chunks_exact_2 _ = []"

definition decode_pcm16le :: "8 word list \<Rightarrow> rstring + 16 word list" where
  "decode_pcm16le bytes =
     (if length bytes mod 2 \<noteq> 0 then Inl (str ''pcm16le payload must contain an even number of bytes'')
      else Inr (chunks_exact_2 bytes))"

definition encode_pcm16le :: "16 word list \<Rightarrow> 8 word list" where
  "encode_pcm16le samples = concat (map i16_to_le_bytes samples)"

section \<open>Lemmas\<close>

lemma le_bytes_sample: "i16_from_le_bytes (ucast s) (ucast (drop_bit 8 s)) = s"
  unfolding i16_from_le_bytes_def
  by (rule bit_word_eqI) (auto simp: bit_simps not_le)

lemma sample_le_bytes:
  "ucast (i16_from_le_bytes lo hi) = lo" "ucast (drop_bit 8 (i16_from_le_bytes lo hi)) = hi"
  unfolding i16_from_le_bytes_def
  by (rule bit_word_eqI; auto simp: bit_simps dest: bit_imp_le_length)+

lemma chunks_encode [simp]: "chunks_exact_2 (encode_pcm16le samples) = samples"
  by (induction samples) (simp_all add: encode_pcm16le_def i16_to_le_bytes_def le_bytes_sample)

lemma length_encode [simp]: "length (encode_pcm16le samples) = 2 * length samples"
  by (induction samples) (simp_all add: encode_pcm16le_def i16_to_le_bytes_def)

lemma encode_chunks: "even (length bytes) \<Longrightarrow> encode_pcm16le (chunks_exact_2 bytes) = bytes"
  by (induction bytes rule: chunks_exact_2.induct)
    (simp_all add: encode_pcm16le_def i16_to_le_bytes_def sample_le_bytes)

lemma length_chunks: "length (chunks_exact_2 bytes) = length bytes div 2"
  by (induction bytes rule: chunks_exact_2.induct) auto

section \<open>Properties\<close>

text \<open>
  C15: The PCM codec loses nothing: samples survive encoding, every payload that decodes is the
  encoding of its samples, and exactly the payloads of even length decode.
\<close>

theorem pcm16le_round_trip:
  "decode_pcm16le (encode_pcm16le samples) = Inr samples \<and>
   (case decode_pcm16le bytes of
      Inr decoded \<Rightarrow> encode_pcm16le decoded = bytes \<and> 2 * length decoded = length bytes
    | Inl e \<Rightarrow> odd (length bytes))"
  by (auto simp: decode_pcm16le_def encode_chunks length_chunks)

end
