(* ===== verification/Task_Lifecycle.thy ===== *)
theory Task_Lifecycle
  imports Json Bridge_Protocol
begin

text \<open>
  The ledger of one speech task on one provider connection
  (\<open>audio/bailian_tasks/lifecycle.rs\<close>, and the names of \<open>audio/bailian_tasks/mod.rs\<close>): commands of
  the client, frames of the server, and the sentence discipline of recognition and synthesis.
  A method that mutates the ledger returns the new ledger with its result, also when the result is an
  error, because the source assigns fields before some of its early returns.

  The typed decoders that \<open>serde\<close> derives, the UUID parser and the text of their errors belong to
  third-party crates: they are the fields of \<open>codec\<close>, and every theorem holds for all of them.
\<close>

section \<open>Wire messages\<close>

datatype ws_message =
    TextFrame rstring
  | BinaryFrame "8 word list"
  | PingFrame
  | PongFrame
  | CloseFrame
  | RawFrame

section \<open>Roles, errors and outputs\<close>

datatype TaskRole = Asr | Tts

fun model_role :: "TaskRole \<Rightarrow> rstring" where
  "model_role Asr = str ''primary-audio''"
| "model_role Tts = str ''speech-output''"

fun task_operation :: "TaskRole \<Rightarrow> rstring" where
  "task_operation Asr = str ''asr''"
| "task_operation Tts = str ''tts''"

datatype TaskFailure =
  Authority | Transport | InvalidFrame | Identity | Lifecycle | Sentence | Provider | Timeout | StopDrain

record TaskError =
  te_role :: TaskRole
  te_failure :: TaskFailure
  te_detail :: rstring

definition task_error :: "TaskRole \<Rightarrow> TaskFailure \<Rightarrow> rstring \<Rightarrow> TaskError" where
  "task_error role failure detail = \<lparr>te_role = role, te_failure = failure, te_detail = detail\<rparr>"

fun failure_code :: "TaskFailure \<Rightarrow> rstring" where
  "failure_code Authority = str ''model_protocol.authorization_failed''"
| "failure_code Transport = str ''task.transport_failed''"
| "failure_code InvalidFrame = str ''task.invalid_frame''"
| "failure_code Identity = str ''task.identity_mismatch''"
| "failure_code Lifecycle = str ''task.invalid_lifecycle''"
| "failure_code Sentence = str ''task.invalid_sentence''"
| "failure_code Provider = str ''task.provider_failed''"
| "failure_code Timeout = str ''task.timeout''"
| "failure_code StopDrain = str ''task.stop_drain_failed''"

definition error_display :: "TaskError \<Rightarrow> rstring" where
  "error_display e = failure_code (te_failure e) @ str '': role='' @ model_role (te_role e) @
     str '' operation='' @ task_operation (te_role e) @ str '' '' @ te_detail e"

datatype Phase = New | AwaitingStarted | Active | Finishing | Finished | Failed

datatype TaskOutput =
    StartedOutput
  | Transcript (sentence_id: nat) (transcript_text: rstring) (final_sentence: bool)
  | AudioOutput "16 word list"
  | Metadata
  | FinishedOutput

section \<open>Server events\<close>

record ServerHeader =
  sh_task_id :: rstring
  sh_event :: rstring
  sh_error_code :: "rstring option"
  sh_error_message :: "rstring option"

record Envelope =
  env_header :: ServerHeader
  env_payload :: json

record AsrSentence =
  as_sentence_id :: nat
  as_text :: rstring
  as_heartbeat :: bool
  as_sentence_begin :: bool
  as_sentence_end :: bool
  as_begin_time :: nat
  as_end_time :: "nat option"

record AsrHeartbeat =
  hb_sentence_id :: nat
  hb_sentence_begin :: bool
  hb_sentence_end :: bool

record TtsOutput =
  to_kind :: rstring
  to_index :: nat
  to_original_text :: "rstring option"

record codec =
  parse_uuid :: "rstring \<Rightarrow> bool"
  decode_envelope :: "rstring \<Rightarrow> rstring + Envelope"
  decode_heartbeat :: "json \<Rightarrow> rstring + AsrHeartbeat"
  decode_asr :: "json \<Rightarrow> rstring + AsrSentence"
  decode_tts :: "json \<Rightarrow> rstring + TtsOutput"

section \<open>The ledger\<close>

record TaskLifecycle =
  tl_role :: TaskRole
  tl_task_id :: rstring
  tl_phase :: Phase
  tl_next_sentence :: nat
  tl_active_sentence :: "nat option"
  tl_sentence_text :: "rstring option"
  tl_pending_binary :: bool
  tl_tts_text_sent :: bool
  tl_sentence_audio_received :: bool

definition ASR_ADAPTER_ID :: rstring where "ASR_ADAPTER_ID = str ''desktop-qwen-audio-task-asr-v1''"
definition TTS_ADAPTER_ID :: rstring where "TTS_ADAPTER_ID = str ''desktop-qwen-audio-task-tts-v1''"
definition ASR_DIALECT_ID :: rstring where "ASR_DIALECT_ID = str ''bailian-qwen-audio-asr-task-ws-v1''"
definition TTS_DIALECT_ID :: rstring where
  "TTS_DIALECT_ID = str ''bailian-speech-synthesizer-duplex-task-ws-v1''"

definition is_asr_model :: "rstring \<Rightarrow> bool" where
  "is_asr_model model \<longleftrightarrow> model = str ''qwen-audio-3.0-asr-flash-streaming'' \<or>
     model = str ''qwen-audio-3.1-asr-flash-streaming''"

definition is_tts_model :: "rstring \<Rightarrow> bool" where
  "is_tts_model model \<longleftrightarrow> model = str ''qwen-audio-3.0-tts-plus'' \<or> model = str ''qwen-audio-3.0-tts-flash''"

definition DEFAULT_TTS_VOICE :: rstring where "DEFAULT_TTS_VOICE = str ''longanhuan_v3.6''"

definition resolve_tts_voice :: "rstring \<Rightarrow> rstring" where
  "resolve_tts_voice voice =
     (if trim voice = [] \<or> to_ascii_lowercase (trim voice) = to_ascii_lowercase (str ''auto'')
      then DEFAULT_TTS_VOICE else voice)"

definition lifecycle_new :: "codec \<Rightarrow> TaskRole \<Rightarrow> rstring \<Rightarrow> TaskError + TaskLifecycle" where
  "lifecycle_new c role task_id =
     (if \<not> parse_uuid c task_id then Inl (task_error role Identity (str ''task_id must be a UUID''))
      else Inr \<lparr>tl_role = role, tl_task_id = task_id, tl_phase = New,
        tl_next_sentence = (if role = Asr then 1 else 0), tl_active_sentence = None, tl_sentence_text = None,
        tl_pending_binary = False, tl_tts_text_sent = False, tl_sentence_audio_received = False\<rparr>)"

definition lifecycle_error :: "TaskLifecycle \<Rightarrow> TaskFailure \<Rightarrow> rstring \<Rightarrow> TaskError" where
  "lifecycle_error s failure detail = task_error (tl_role s) failure detail"

definition command :: "TaskLifecycle \<Rightarrow> rstring \<Rightarrow> json \<Rightarrow> json" where
  "command s act payload =
     JObject [(str ''header'', JObject [(str ''action'', JString act), (str ''task_id'', JString (tl_task_id s)),
                (str ''streaming'', JString (str ''duplex''))]),
              (str ''payload'', payload)]"

definition tts_languages :: "rstring list" where
  "tts_languages = map str [''zh'', ''en'', ''fr'', ''de'', ''ja'', ''ko'', ''ru'', ''pt'', ''th'', ''id'', ''vi'',
     ''es'', ''it'', ''ms'', ''fil'', ''ar'']"

definition language_hint :: "rstring \<Rightarrow> rstring" where
  "language_hint language =
     to_ascii_lowercase (case split_on (\<lambda>c. c = 45 \<or> c = 95) (trim language) of [] \<Rightarrow> [] | w # _ \<Rightarrow> w)"

definition run_parameters :: "TaskLifecycle \<Rightarrow> rstring \<Rightarrow> rstring \<Rightarrow> TaskError + json" where
  "run_parameters s voice language =
     (case tl_role s of
        Asr \<Rightarrow> Inr (JObject [(str ''format'', JString (str ''pcm'')), (str ''sample_rate'', JNumber (PosInt 16000)),
                             (str ''heartbeat'', JBool True)])
      | Tts \<Rightarrow>
          (let parameters = JObject [(str ''text_type'', JString (str ''PlainText'')), (str ''voice'', JString voice),
                 (str ''format'', JString (str ''pcm'')), (str ''sample_rate'', JNumber (PosInt 24000))]
           in if trim language = [] then Inr parameters
              else let hint = language_hint language
                   in if hint \<notin> set tts_languages
                      then Inl (lifecycle_error s Sentence (str ''unsupported TTS language_hints value''))
                      else Inr (json_set (str ''language_hints'') (JArray [JString hint]) parameters)))"

definition lifecycle_run ::
  "rstring \<Rightarrow> rstring \<Rightarrow> rstring \<Rightarrow> TaskLifecycle \<Rightarrow> TaskLifecycle \<times> (TaskError + json)" where
  "lifecycle_run model voice language s =
     (if tl_phase s \<noteq> New then (s, Inl (lifecycle_error s Lifecycle (str ''run-task already sent'')))
      else if \<not> (case tl_role s of Asr \<Rightarrow> is_asr_model model | Tts \<Rightarrow> is_tts_model model)
      then (s, Inl (lifecycle_error s Authority (str ''model not implemented by this task adapter'')))
      else if tl_role s = Tts \<and> trim voice = []
      then (s, Inl (lifecycle_error s Sentence (str ''TTS requires an explicit voice'')))
      else case run_parameters s voice language of
        Inl e \<Rightarrow> (s, Inl e)
      | Inr parameters \<Rightarrow>
          (s\<lparr>tl_phase := AwaitingStarted\<rparr>,
           Inr (command s (str ''run-task'') (JObject
             [(str ''task_group'', JString (str ''audio'')), (str ''task'', JString (task_operation (tl_role s))),
              (str ''function'', JString (if tl_role s = Asr then str ''recognition'' else str ''SpeechSynthesizer'')),
              (str ''model'', JString model), (str ''parameters'', parameters), (str ''input'', JObject [])]))))"

definition audio_input :: "8 word list \<Rightarrow> TaskLifecycle \<Rightarrow> TaskError option" where
  "audio_input pcm s =
     (if tl_role s \<noteq> Asr \<or> tl_phase s \<noteq> Active
      then Some (lifecycle_error s Lifecycle (str ''binary input requires an active ASR task''))
      else if pcm = [] \<or> length pcm mod 2 \<noteq> 0
      then Some (lifecycle_error s InvalidFrame (str ''ASR input must be aligned PCM16''))
      else None)"

definition continue_text :: "rstring \<Rightarrow> TaskLifecycle \<Rightarrow> TaskLifecycle \<times> (TaskError + json)" where
  "continue_text txt s =
     (if tl_role s \<noteq> Tts \<or> tl_phase s \<noteq> Active \<or> tl_tts_text_sent s
      then (s, Inl (lifecycle_error s Lifecycle
             (str ''continue-task requires a started TTS task and exactly one text input'')))
      else if trim txt = [] \<or> length txt > 20000
      then (s, Inl (lifecycle_error s Sentence (str ''TTS text must contain 1..20000 characters'')))
      else (s\<lparr>tl_tts_text_sent := True\<rparr>,
            Inr (command s (str ''continue-task'')
              (JObject [(str ''input'', JObject [(str ''text'', JString txt)])]))))"

definition lifecycle_finish :: "TaskLifecycle \<Rightarrow> TaskLifecycle \<times> (TaskError + json)" where
  "lifecycle_finish s =
     (if tl_phase s \<noteq> Active \<or> tl_role s = Tts \<and> \<not> tl_tts_text_sent s
      then (s, Inl (lifecycle_error s Lifecycle (str ''finish-task requires a started task with complete input'')))
      else (s\<lparr>tl_phase := Finishing\<rparr>,
            Inr (command s (str ''finish-task'') (JObject [(str ''input'', JObject [])]))))"

definition lifecycle_finished :: "TaskLifecycle \<Rightarrow> bool" where
  "lifecycle_finished s \<longleftrightarrow> tl_phase s = Finished"

section \<open>Server frames\<close>

definition asr_sentence ::
  "AsrSentence \<Rightarrow> TaskLifecycle \<Rightarrow> TaskLifecycle \<times> (TaskError + TaskOutput)" where
  "asr_sentence q s =
     (if as_sentence_id q \<noteq> tl_next_sentence s \<or> as_sentence_id q = 0
      then (s, Inl (lifecycle_error s Sentence (str ''ASR sentence_id reused, skipped, or reordered'')))
      else if (case tl_active_sentence s of
                 Some active \<Rightarrow> active \<noteq> as_sentence_id q \<or> as_sentence_begin q | None \<Rightarrow> False)
      then (s, Inl (lifecycle_error s Sentence (str ''ASR sentence begun twice or changed before finality'')))
      else if tl_active_sentence s = None \<and> \<not> as_sentence_begin q \<and> \<not> as_sentence_end q
      then (s, Inl (lifecycle_error s Sentence (str ''ASR preview requires sentence_begin'')))
      else if as_sentence_end q
      then (if \<not> is_some_and (as_end_time q) (\<lambda>t. t \<ge> as_begin_time q)
            then (s, Inl (lifecycle_error s Sentence (str ''ASR final sentence requires a valid end_time'')))
            else let s1 = s\<lparr>tl_active_sentence := None\<rparr>
                 in case checked_add_u64 (tl_next_sentence s1) 1 of
                      None \<Rightarrow> (s1, Inl (lifecycle_error s1 Sentence (str ''sentence identity overflow'')))
                    | Some n \<Rightarrow> (s1\<lparr>tl_next_sentence := n\<rparr>,
                                 Inr (Transcript (as_sentence_id q) (as_text q) (as_sentence_end q))))
      else if is_some (as_end_time q)
      then (s, Inl (lifecycle_error s Sentence (str ''ASR preview cannot carry terminal end_time'')))
      else (s\<lparr>tl_active_sentence := Some (as_sentence_id q)\<rparr>,
            Inr (Transcript (as_sentence_id q) (as_text q) (as_sentence_end q))))"

definition asr_result ::
  "codec \<Rightarrow> json \<Rightarrow> TaskLifecycle \<Rightarrow> TaskLifecycle \<times> (TaskError + TaskOutput)" where
  "asr_result c output s =
     (case json_get (str ''sentence'') output of
        None \<Rightarrow> (s, Inl (lifecycle_error s Sentence (str ''ASR missing sentence'')))
      | Some raw \<Rightarrow>
          if json_get (str ''heartbeat'') raw = Some (JBool True)
          then (case decode_heartbeat c raw of
                  Inl e \<Rightarrow> (s, Inl (lifecycle_error s Sentence (str ''invalid ASR heartbeat: '' @ e)))
                | Inr h \<Rightarrow>
                    if hb_sentence_id h \<noteq> 0 \<or> hb_sentence_begin h \<or> hb_sentence_end h
                    then (s, Inl (lifecycle_error s Sentence (str ''invalid ASR heartbeat identity/finality'')))
                    else (s, Inr Metadata))
          else case decode_asr c raw of
            Inl e \<Rightarrow> (s, Inl (lifecycle_error s Sentence (str ''invalid ASR sentence: '' @ e)))
          | Inr q \<Rightarrow>
              if as_heartbeat q
              then (if as_sentence_id q \<noteq> 0 \<or> as_sentence_begin q \<or> as_sentence_end q
                    then (s, Inl (lifecycle_error s Sentence (str ''invalid ASR heartbeat identity/finality'')))
                    else (s, Inr Metadata))
              else asr_sentence q s)"

definition tts_sentence ::
  "TtsOutput \<Rightarrow> TaskLifecycle \<Rightarrow> TaskLifecycle \<times> (TaskError + TaskOutput)" where
  "tts_sentence q s =
     (if to_kind q = str ''sentence-begin'' \<and> tl_active_sentence s = None
      then (case to_original_text q of
              None \<Rightarrow> (s, Inl (lifecycle_error s Sentence (str ''TTS sentence-begin missing original_text'')))
            | Some t \<Rightarrow>
                if t = [] then (s, Inl (lifecycle_error s Sentence (str ''TTS sentence-begin missing original_text'')))
                else (s\<lparr>tl_active_sentence := Some (to_index q), tl_sentence_text := Some t,
                       tl_sentence_audio_received := False\<rparr>, Inr Metadata))
      else if to_kind q = str ''sentence-synthesis'' \<and> tl_active_sentence s = Some (to_index q)
      then (s\<lparr>tl_pending_binary := True\<rparr>, Inr Metadata)
      else if to_kind q = str ''sentence-end'' \<and> tl_active_sentence s = Some (to_index q)
      then (if \<not> tl_sentence_audio_received s
            then (s, Inl (lifecycle_error s Sentence (str ''TTS sentence-end without any sentence audio'')))
            else if to_original_text q \<noteq> tl_sentence_text s
            then (s, Inl (lifecycle_error s Sentence (str ''TTS terminal original_text changed'')))
            else let s1 = s\<lparr>tl_active_sentence := None, tl_sentence_text := None\<rparr>
                 in case checked_add_u64 (tl_next_sentence s1) 1 of
                      None \<Rightarrow> (s1, Inl (lifecycle_error s1 Sentence (str ''sentence identity overflow'')))
                    | Some n \<Rightarrow> (s1\<lparr>tl_next_sentence := n\<rparr>, Inr Metadata))
      else (s, Inl (lifecycle_error s Sentence (str ''invalid TTS sentence lifecycle''))))"

definition tts_result ::
  "codec \<Rightarrow> json \<Rightarrow> TaskLifecycle \<Rightarrow> TaskLifecycle \<times> (TaskError + TaskOutput)" where
  "tts_result c output s =
     (if \<not> tl_tts_text_sent s
      then (s, Inl (lifecycle_error s Lifecycle (str ''TTS output before continue-task'')))
      else case decode_tts c output of
        Inl e \<Rightarrow> (s, Inl (lifecycle_error s Sentence (str ''invalid TTS sentence: '' @ e)))
      | Inr q \<Rightarrow>
          if to_index q \<noteq> tl_next_sentence s
          then (s, Inl (lifecycle_error s Sentence (str ''TTS sentence index reused, skipped, or reordered'')))
          else tts_sentence q s)"

definition receive_binary ::
  "8 word list \<Rightarrow> TaskLifecycle \<Rightarrow> TaskLifecycle \<times> (TaskError + TaskOutput)" where
  "receive_binary bytes s =
     (if tl_role s \<noteq> Tts \<or> \<not> tl_pending_binary s \<or> bytes = [] \<or> length bytes mod 2 \<noteq> 0
      then (s, Inl (lifecycle_error s InvalidFrame (str ''unexpected, empty, or unaligned binary audio'')))
      else (s\<lparr>tl_pending_binary := False, tl_sentence_audio_received := True\<rparr>,
            Inr (AudioOutput (chunks_exact_2 bytes))))"

definition receive_event ::
  "codec \<Rightarrow> Envelope \<Rightarrow> TaskLifecycle \<Rightarrow> TaskLifecycle \<times> (TaskError + TaskOutput)" where
  "receive_event c envelope s =
     (let header = env_header envelope; ev = sh_event header in
      if ev = str ''task-failed''
      then (s, Inl (lifecycle_error s Provider (unwrap_or (str ''unknown'') (sh_error_code header) @ str '': '' @
                      unwrap_or (str ''task failed'') (sh_error_message header))))
      else if ev = str ''task-started'' \<and> tl_phase s = AwaitingStarted
      then (s\<lparr>tl_phase := Active\<rparr>, Inr StartedOutput)
      else if ev = str ''result-generated'' \<and> (tl_phase s = Active \<or> tl_phase s = Finishing)
      then (case json_get (str ''output'') (env_payload envelope) of
              None \<Rightarrow> (s, Inl (lifecycle_error s InvalidFrame (str ''result-generated missing output'')))
            | Some output \<Rightarrow>
                (case tl_role s of Asr \<Rightarrow> asr_result c output s | Tts \<Rightarrow> tts_result c output s))
      else if ev = str ''task-finished'' \<and> tl_phase s = Finishing
      then (if is_some (tl_active_sentence s) \<or> tl_pending_binary s
            then (s, Inl (lifecycle_error s Sentence (str ''task-finished with an unfinalized sentence'')))
            else (s\<lparr>tl_phase := Finished\<rparr>, Inr FinishedOutput))
      else (s, Inl (lifecycle_error s Lifecycle (str ''unexpected event '' @ [39] @ ev @ [39]))))"

definition receive_text ::
  "codec \<Rightarrow> rstring \<Rightarrow> TaskLifecycle \<Rightarrow> TaskLifecycle \<times> (TaskError + TaskOutput)" where
  "receive_text c txt s =
     (case decode_envelope c txt of
        Inl e \<Rightarrow> (s, Inl (lifecycle_error s InvalidFrame (str ''invalid task envelope: '' @ e)))
      | Inr envelope \<Rightarrow>
          if \<not> is_object (env_payload envelope)
          then (s, Inl (lifecycle_error s InvalidFrame (str ''task payload must be an object'')))
          else if sh_task_id (env_header envelope) \<noteq> tl_task_id s
          then (s, Inl (lifecycle_error s Identity (str ''server task_id does not match this task'')))
          else if tl_pending_binary s \<and> sh_event (env_header envelope) \<noteq> str ''task-failed''
          then (s, Inl (lifecycle_error s InvalidFrame
                 (str ''sentence-synthesis must be followed by binary audio'')))
          else receive_event c envelope s)"

definition receive_inner ::
  "codec \<Rightarrow> ws_message \<Rightarrow> TaskLifecycle \<Rightarrow> TaskLifecycle \<times> (TaskError + TaskOutput)" where
  "receive_inner c message s =
     (if tl_phase s = New \<or> tl_phase s = Failed \<or> tl_phase s = Finished
      then (s, Inl (lifecycle_error s Lifecycle (str ''server frame outside live task'')))
      else case message of
        TextFrame txt \<Rightarrow> receive_text c txt s
      | BinaryFrame bytes \<Rightarrow> receive_binary bytes s
      | _ \<Rightarrow> (s, Inl (lifecycle_error s InvalidFrame (str ''expected task JSON or licensed PCM binary''))))"

definition receive ::
  "codec \<Rightarrow> ws_message \<Rightarrow> TaskLifecycle \<Rightarrow> TaskLifecycle \<times> (TaskError + TaskOutput)" where
  "receive c message s =
     (let (s', result) = receive_inner c message s
      in (case result of Inl e \<Rightarrow> s'\<lparr>tl_phase := Failed\<rparr> | Inr v \<Rightarrow> s', result))"

section \<open>Runs\<close>

text \<open>
  What the owner of the ledger does with it, and what a run shows: the accepted commands and the
  result of every frame. A refused command shows nothing.
\<close>

datatype task_op = RunTask rstring rstring rstring | ContinueText rstring | FinishTask | Receive ws_message

datatype task_obs = Ran | Continued | Finishes | Output TaskOutput | Rejected

fun task_step :: "codec \<Rightarrow> TaskLifecycle \<Rightarrow> task_op \<Rightarrow> TaskLifecycle \<times> task_obs list" where
  "task_step c s (RunTask m v l) =
     (let (s', r) = lifecycle_run m v l s in (s', case r of Inl _ \<Rightarrow> [] | Inr _ \<Rightarrow> [Ran]))"
| "task_step c s (ContinueText t) =
     (let (s', r) = continue_text t s in (s', case r of Inl _ \<Rightarrow> [] | Inr _ \<Rightarrow> [Continued]))"
| "task_step c s FinishTask =
     (let (s', r) = lifecycle_finish s in (s', case r of Inl _ \<Rightarrow> [] | Inr _ \<Rightarrow> [Finishes]))"
| "task_step c s (Receive m) =
     (let (s', r) = receive c m s in (s', case r of Inl _ \<Rightarrow> [Rejected] | Inr v \<Rightarrow> [Output v]))"

section \<open>The abstract protocol\<close>

text \<open>
  What a caller is promised, without identifiers, texts or wire frames: how many sentences are
  complete, whether one is open, whether an announced audio frame is still owed, and whether the
  open sentence was heard. \<open>PLive finishing sent q\<close> is a started task.
\<close>

record speech =
  sp_done :: nat
  sp_open :: bool
  sp_owed :: bool
  sp_heard :: bool

datatype task_proto = PNew | PWaiting | PLive bool bool speech | PFinished | PBroken

definition no_speech :: speech where
  "no_speech = \<lparr>sp_done = 0, sp_open = False, sp_owed = False, sp_heard = False\<rparr>"

inductive task_spec :: "TaskRole \<Rightarrow> task_proto \<Rightarrow> task_obs \<Rightarrow> task_proto \<Rightarrow> bool" for role where
  spec_run: "task_spec role PNew Ran PWaiting"
| spec_started: "task_spec role PWaiting (Output StartedOutput) (PLive False False no_speech)"
| spec_continue: "role = Tts \<Longrightarrow> task_spec role (PLive False False q) Continued (PLive False True q)"
| spec_finish: "role = Tts \<longrightarrow> sent \<Longrightarrow> task_spec role (PLive False sent q) Finishes (PLive True sent q)"
| spec_finished: "\<not> sp_open q \<Longrightarrow> \<not> sp_owed q \<Longrightarrow>
    task_spec role (PLive True sent q) (Output FinishedOutput) PFinished"
| spec_broken: "task_spec role a Rejected PBroken"
| spec_heartbeat: "role = Asr \<Longrightarrow> task_spec role (PLive f sent q) (Output Metadata) (PLive f sent q)"
| spec_preview: "role = Asr \<Longrightarrow>
    task_spec role (PLive f sent q) (Output (Transcript (Suc (sp_done q)) t False)) (PLive f sent (q\<lparr>sp_open := True\<rparr>))"
| spec_final: "role = Asr \<Longrightarrow> task_spec role (PLive f sent q) (Output (Transcript (Suc (sp_done q)) t True))
    (PLive f sent (q\<lparr>sp_done := Suc (sp_done q), sp_open := False\<rparr>))"
| spec_begin: "role = Tts \<Longrightarrow> \<not> sp_open q \<Longrightarrow> \<not> sp_owed q \<Longrightarrow>
    task_spec role (PLive f True q) (Output Metadata) (PLive f True (q\<lparr>sp_open := True, sp_heard := False\<rparr>))"
| spec_synthesis: "role = Tts \<Longrightarrow> sp_open q \<Longrightarrow> \<not> sp_owed q \<Longrightarrow>
    task_spec role (PLive f True q) (Output Metadata) (PLive f True (q\<lparr>sp_owed := True\<rparr>))"
| spec_end: "role = Tts \<Longrightarrow> sp_open q \<Longrightarrow> sp_heard q \<Longrightarrow> \<not> sp_owed q \<Longrightarrow>
    task_spec role (PLive f True q) (Output Metadata)
      (PLive f True (q\<lparr>sp_done := Suc (sp_done q), sp_open := False\<rparr>))"
| spec_audio: "role = Tts \<Longrightarrow> sp_owed q \<Longrightarrow> samples \<noteq> [] \<Longrightarrow>
    task_spec role (PLive f True q) (Output (AudioOutput samples))
      (PLive f True (q\<lparr>sp_owed := False, sp_heard := True\<rparr>))"

inductive_cases spec_dead: "task_spec role PFinished x b" "task_spec role PBroken x b"
inductive_cases spec_early: "task_spec role PNew x b" "task_spec role PWaiting x b"
inductive_cases spec_live: "task_spec role (PLive f sent q) x b"

definition speech_of :: "TaskLifecycle \<Rightarrow> speech" where
  "speech_of s = \<lparr>sp_done = tl_next_sentence s - (if tl_role s = Asr then 1 else 0),
     sp_open = is_some (tl_active_sentence s), sp_owed = tl_pending_binary s,
     sp_heard = tl_sentence_audio_received s\<rparr>"

definition task_abs :: "TaskLifecycle \<Rightarrow> task_proto" where
  "task_abs s = (case tl_phase s of
     New \<Rightarrow> PNew | AwaitingStarted \<Rightarrow> PWaiting | Active \<Rightarrow> PLive False (tl_tts_text_sent s) (speech_of s)
   | Finishing \<Rightarrow> PLive True (tl_tts_text_sent s) (speech_of s) | Finished \<Rightarrow> PFinished | Failed \<Rightarrow> PBroken)"

definition task_inv :: "TaskRole \<Rightarrow> TaskLifecycle \<Rightarrow> bool" where
  "task_inv role s \<longleftrightarrow> tl_role s = role \<and> (tl_phase s \<noteq> Failed \<longrightarrow>
     (role = Asr \<longrightarrow> 1 \<le> tl_next_sentence s \<and> \<not> tl_pending_binary s \<and> \<not> tl_tts_text_sent s) \<and>
     (tl_pending_binary s \<longrightarrow> tl_tts_text_sent s) \<and>
     (tl_active_sentence s \<noteq> None \<longrightarrow> tl_active_sentence s = Some (tl_next_sentence s)) \<and>
     (tl_phase s = New \<or> tl_phase s = AwaitingStarted \<longrightarrow>
        speech_of s = no_speech \<and> \<not> tl_tts_text_sent s))"

text \<open>The successful branches of the handlers, without their messages.\<close>

lemmas task_result_splits = if_splits option.splits sum.splits

lemma asr_sentence_ok:
  "asr_sentence q s = (s', Inr v) \<Longrightarrow> v = Transcript (tl_next_sentence s) (as_text q) (as_sentence_end q) \<and>
     s' = (if as_sentence_end q
           then s\<lparr>tl_active_sentence := None, tl_next_sentence := Suc (tl_next_sentence s)\<rparr>
           else s\<lparr>tl_active_sentence := Some (tl_next_sentence s)\<rparr>)"
  unfolding asr_sentence_def
  by (auto simp: Let_def checked_add_u64_def simp del: str_def split: if_splits option.splits)

lemma asr_result_ok:
  "asr_result c j s = (s', Inr v) \<Longrightarrow> (v = Metadata \<and> s' = s) \<or> (\<exists>q. asr_sentence q s = (s', Inr v))"
  unfolding asr_result_def by (auto simp del: str_def split: task_result_splits)

lemma tts_sentence_ok:
  "tts_sentence q s = (s', Inr v) \<Longrightarrow> to_index q = tl_next_sentence s \<Longrightarrow> v = Metadata \<and>
     ((\<exists>t. tl_active_sentence s = None \<and> s' = s\<lparr>tl_active_sentence := Some (tl_next_sentence s),
          tl_sentence_text := Some t, tl_sentence_audio_received := False\<rparr>) \<or>
      (tl_active_sentence s \<noteq> None \<and> s' = s\<lparr>tl_pending_binary := True\<rparr>) \<or>
      (tl_active_sentence s \<noteq> None \<and> tl_sentence_audio_received s \<and>
       s' = s\<lparr>tl_active_sentence := None, tl_sentence_text := None, tl_next_sentence := Suc (tl_next_sentence s)\<rparr>))"
  unfolding tts_sentence_def
  by (auto simp: Let_def checked_add_u64_def simp del: str_def split: if_splits option.splits)

lemma tts_result_ok:
  "tts_result c j s = (s', Inr v) \<Longrightarrow>
     tl_tts_text_sent s \<and> (\<exists>q. to_index q = tl_next_sentence s \<and> tts_sentence q s = (s', Inr v))"
  unfolding tts_result_def by (auto simp del: str_def split: task_result_splits)

lemma receive_binary_ok:
  "receive_binary bytes s = (s', Inr v) \<Longrightarrow>
     tl_role s = Tts \<and> tl_pending_binary s \<and> bytes \<noteq> [] \<and> even (length bytes) \<and>
     v = AudioOutput (chunks_exact_2 bytes) \<and>
     s' = s\<lparr>tl_pending_binary := False, tl_sentence_audio_received := True\<rparr>"
  unfolding receive_binary_def by (auto simp del: str_def split: if_splits)

lemma receive_text_ok:
  "receive_text c txt s = (s', Inr v) \<Longrightarrow> \<not> tl_pending_binary s \<and>
     ((tl_phase s = AwaitingStarted \<and> s' = s\<lparr>tl_phase := Active\<rparr> \<and> v = StartedOutput) \<or>
      (tl_phase s = Finishing \<and> tl_active_sentence s = None \<and> s' = s\<lparr>tl_phase := Finished\<rparr> \<and> v = FinishedOutput) \<or>
      ((tl_phase s = Active \<or> tl_phase s = Finishing) \<and>
       (\<exists>j. (case tl_role s of Asr \<Rightarrow> asr_result c j s | Tts \<Rightarrow> tts_result c j s) = (s', Inr v))))"
  unfolding receive_text_def receive_event_def
  by (auto simp: Let_def simp del: str_def split: task_result_splits)

section \<open>Simulation\<close>

lemma task_abs_live:
  "tl_phase s = Active \<or> tl_phase s = Finishing \<Longrightarrow>
     task_abs s = PLive (tl_phase s = Finishing) (tl_tts_text_sent s) (speech_of s)"
  by (auto simp: task_abs_def)

lemma asr_step:
  assumes "task_inv Asr s" and "tl_phase s = Active \<or> tl_phase s = Finishing"
    and "asr_sentence q s = (s', Inr v)"
  shows "task_inv Asr s' \<and> task_spec Asr (task_abs s) (Output v) (task_abs s')"
proof -
  note ok = asr_sentence_ok [OF assms(3)]
  have n: "Suc (sp_done (speech_of s)) = tl_next_sentence s"
    using assms(1,2) by (auto simp: speech_of_def task_inv_def)
  show ?thesis
  proof (cases "as_sentence_end q")
    case True
    have "speech_of s' = (speech_of s)\<lparr>sp_done := Suc (sp_done (speech_of s)), sp_open := False\<rparr>"
      using ok True assms(1,2) by (auto simp: speech_of_def task_inv_def)
    then show ?thesis
      using ok True assms(1,2) n spec_final [of Asr _ _ "speech_of s" "as_text q"]
      by (auto simp: task_abs_live task_inv_def)
  next
    case False
    have "speech_of s' = (speech_of s)\<lparr>sp_open := True\<rparr>"
      using ok False by (auto simp: speech_of_def)
    then show ?thesis
      using ok False assms(1,2) n spec_preview [of Asr _ _ "speech_of s" "as_text q"]
      by (auto simp: task_abs_live task_inv_def)
  qed
qed

lemma tts_step:
  assumes "task_inv Tts s" and "tl_phase s = Active \<or> tl_phase s = Finishing" and "\<not> tl_pending_binary s"
    and "tts_result c j s = (s', Inr v)"
  shows "task_inv Tts s' \<and> task_spec Tts (task_abs s) (Output v) (task_abs s')"
proof -
  from tts_result_ok [OF assms(4)] obtain q where sent: "tl_tts_text_sent s"
    and q: "to_index q = tl_next_sentence s" "tts_sentence q s = (s', Inr v)" by blast
  have role: "tl_role s = Tts" using assms(1) by (simp add: task_inv_def)
  from tts_sentence_ok [OF q(2,1)] have v: "v = Metadata" by simp
  from tts_sentence_ok [OF q(2,1)]
  consider (start) t where "tl_active_sentence s = None"
      "s' = s\<lparr>tl_active_sentence := Some (tl_next_sentence s), tl_sentence_text := Some t, tl_sentence_audio_received := False\<rparr>"
    | (synth) "tl_active_sentence s \<noteq> None" "s' = s\<lparr>tl_pending_binary := True\<rparr>"
    | (stop) "tl_active_sentence s \<noteq> None" "tl_sentence_audio_received s"
      "s' = s\<lparr>tl_active_sentence := None, tl_sentence_text := None, tl_next_sentence := Suc (tl_next_sentence s)\<rparr>"
    by blast
  then show ?thesis
  proof cases
    case start
    have "speech_of s' = (speech_of s)\<lparr>sp_open := True, sp_heard := False\<rparr>"
      using start by (simp add: speech_of_def)
    then show ?thesis using start assms(1-3) sent v spec_begin [of Tts "speech_of s" "tl_phase s = Finishing"]
      by (auto simp: task_abs_live task_inv_def) (auto simp: speech_of_def)
  next
    case synth
    have "speech_of s' = (speech_of s)\<lparr>sp_owed := True\<rparr>"
      using synth by (simp add: speech_of_def)
    then show ?thesis using synth assms(1-3) sent v spec_synthesis [of Tts "speech_of s" "tl_phase s = Finishing"]
      by (auto simp: task_abs_live task_inv_def) (auto simp: speech_of_def)
  next
    case stop
    have "speech_of s' = (speech_of s)\<lparr>sp_done := Suc (sp_done (speech_of s)), sp_open := False\<rparr>"
      using stop role by (simp add: speech_of_def)
    then show ?thesis using stop assms(1-3) sent v spec_end [of Tts "speech_of s" "tl_phase s = Finishing"]
      by (auto simp: task_abs_live task_inv_def) (auto simp: speech_of_def)
  qed
qed

lemma binary_step:
  assumes "task_inv role s" and "tl_phase s = AwaitingStarted \<or> tl_phase s = Active \<or> tl_phase s = Finishing"
    and "receive_binary bytes s = (s', Inr v)"
  shows "task_inv role s' \<and> task_spec role (task_abs s) (Output v) (task_abs s')"
proof -
  note ok = receive_binary_ok [OF assms(3)]
  then have role: "role = Tts" and owed: "sp_owed (speech_of s)" and sent: "tl_tts_text_sent s"
    using assms(1,2) by (auto simp: task_inv_def speech_of_def)
  with assms(1,2) have live: "tl_phase s = Active \<or> tl_phase s = Finishing" by (auto simp: task_inv_def)
  have "chunks_exact_2 bytes \<noteq> []"
    using ok length_chunks [of bytes] by (cases bytes rule: chunks_exact_2.cases) auto
  moreover have "speech_of s' = (speech_of s)\<lparr>sp_owed := False, sp_heard := True\<rparr>"
    using ok by (simp add: speech_of_def)
  ultimately show ?thesis
    using ok assms(1) live role owed sent spec_audio [of Tts "speech_of s" "chunks_exact_2 bytes" "tl_phase s = Finishing"]
    by (auto simp: task_abs_live task_inv_def)
qed

lemma text_step:
  assumes "task_inv role s" and "receive_text c txt s = (s', Inr v)"
  shows "task_inv role s' \<and> task_spec role (task_abs s) (Output v) (task_abs s')"
proof -
  note ok = receive_text_ok [OF assms(2)]
  then consider (started) "tl_phase s = AwaitingStarted" "s' = s\<lparr>tl_phase := Active\<rparr>" "v = StartedOutput"
    | (finished) "tl_phase s = Finishing" "tl_active_sentence s = None" "s' = s\<lparr>tl_phase := Finished\<rparr>" "v = FinishedOutput"
    | (generated) j where "tl_phase s = Active \<or> tl_phase s = Finishing"
        "(case tl_role s of Asr \<Rightarrow> asr_result c j s | Tts \<Rightarrow> tts_result c j s) = (s', Inr v)"
    by (elim conjE disjE exE) simp_all
  then show ?thesis
  proof cases
    case started
    then have "speech_of s' = no_speech" "\<not> tl_tts_text_sent s" using assms(1) by (auto simp: task_inv_def speech_of_def)
    with started assms(1) spec_started [of role] show ?thesis by (auto simp: task_abs_def task_inv_def)
  next
    case finished
    then have "\<not> sp_open (speech_of s)" "\<not> sp_owed (speech_of s)" using ok by (auto simp: speech_of_def)
    with finished assms(1) spec_finished [of "speech_of s" role] show ?thesis
      by (auto simp: task_abs_def task_inv_def)
  next
    case generated
    show ?thesis
    proof (cases role)
      case Asr
      then have "asr_result c j s = (s', Inr v)" using generated assms(1) by (simp add: task_inv_def)
      from asr_result_ok [OF this] show ?thesis
        using asr_step Asr generated(1) assms(1) spec_heartbeat [of Asr] by (auto simp: task_abs_live)
    next
      case Tts
      then have "tts_result c j s = (s', Inr v)" using generated assms(1) by (simp add: task_inv_def)
      then show ?thesis using tts_step Tts generated(1) assms(1) ok by blast
    qed
  qed
qed

text \<open>No handler changes the role or the task, also on its error branches.\<close>

definition task_identity :: "TaskLifecycle \<Rightarrow> TaskRole \<times> rstring" where
  "task_identity s = (tl_role s, tl_task_id s)"

lemma sentence_identity [simp]:
  "task_identity (fst (asr_sentence q s)) = task_identity s" "task_identity (fst (tts_sentence p s)) = task_identity s"
  by (simp_all add: asr_sentence_def tts_sentence_def task_identity_def Let_def del: str_def split: option.split)

lemma result_identity [simp]:
  "task_identity (fst (asr_result c j s)) = task_identity s" "task_identity (fst (tts_result c j s)) = task_identity s"
  by (simp_all add: asr_result_def tts_result_def del: str_def split: option.split sum.split)

lemma receive_inner_identity: "task_identity (fst (receive_inner c m s)) = task_identity s"
proof -
  have "task_identity (fst (receive_event c e s)) = task_identity s" for e
    by (simp add: receive_event_def Let_def del: str_def split: option.split TaskRole.split)
      (simp add: task_identity_def)
  then have "task_identity (fst (receive_text c t s)) = task_identity s" for t
    by (simp add: receive_text_def del: str_def split: sum.split)
  moreover have "task_identity (fst (receive_binary b s)) = task_identity s" for b
    by (simp add: receive_binary_def task_identity_def del: str_def)
  ultimately show ?thesis by (simp add: receive_inner_def del: str_def split: ws_message.split)
qed

lemma receive_identity: "receive c m s = (s', r) \<Longrightarrow> task_identity s' = task_identity s"
  using receive_inner_identity [of c m s]
  by (auto simp: receive_def task_identity_def split: prod.splits sum.splits)

lemma receive_step:
  assumes "task_inv role s" and "receive c m s = (s', r)"
  shows "task_inv role s' \<and>
    task_spec role (task_abs s) (case r of Inl _ \<Rightarrow> Rejected | Inr v \<Rightarrow> Output v) (task_abs s')"
proof (cases r)
  case (Inl e)
  then obtain s1 where "receive_inner c m s = (s1, r)" "s' = s1\<lparr>tl_phase := Failed\<rparr>"
    using assms(2) by (auto simp: receive_def Let_def split: prod.splits sum.splits)
  moreover have "tl_role s1 = tl_role s" using receive_inner_identity [of c m s] \<open>receive_inner c m s = (s1, r)\<close>
    by (simp add: task_identity_def)
  ultimately show ?thesis using Inl assms(1) spec_broken [of role] by (simp add: task_inv_def task_abs_def)
next
  case (Inr v)
  then have inner: "receive_inner c m s = (s', Inr v)"
    using assms(2) by (auto simp: receive_def Let_def split: prod.splits sum.splits)
  then have "tl_phase s = AwaitingStarted \<or> tl_phase s = Active \<or> tl_phase s = Finishing"
    by (cases "tl_phase s") (auto simp: receive_inner_def)
  then show ?thesis
    using inner Inr binary_step [OF assms(1)] text_step [OF assms(1)]
    by (cases m) (auto simp: receive_inner_def split: if_splits)
qed

text \<open>Audio is delivered for binary frames and only for them.\<close>

lemma receive_audio:
  assumes "receive c m s = (s', Inr v)"
  shows "(case m of BinaryFrame b \<Rightarrow> v = AudioOutput (chunks_exact_2 b) \<and> even (length b) | _ \<Rightarrow> \<forall>a. v \<noteq> AudioOutput a)"
proof -
  have inner: "receive_inner c m s = (s', Inr v)"
    using assms by (auto simp: receive_def split: prod.splits sum.splits)
  have "v \<noteq> AudioOutput a" if "receive_text c t s = (s', Inr v)" for t a
    using receive_text_ok [OF that] asr_result_ok [of c _ s s' v] tts_result_ok [of c _ s s' v]
      asr_sentence_ok [of _ s s' v] tts_sentence_ok [of _ s s' v]
    by (cases "tl_role s") fastforce+
  then show ?thesis using inner receive_binary_ok [of _ s s' v]
    by (cases m) (auto simp: receive_inner_def simp del: str_def split: if_splits)
qed

lemma command_step:
  assumes "task_inv role s"
  shows "lifecycle_run m v l s = (s', r) \<Longrightarrow> task_inv role s' \<and>
      (case r of Inl _ \<Rightarrow> s' = s | Inr _ \<Rightarrow> task_spec role (task_abs s) Ran (task_abs s'))"
    and "continue_text t s = (s', r) \<Longrightarrow> task_inv role s' \<and>
      (case r of Inl _ \<Rightarrow> s' = s | Inr _ \<Rightarrow> task_spec role (task_abs s) Continued (task_abs s'))"
    and "lifecycle_finish s = (s', r) \<Longrightarrow> task_inv role s' \<and>
      (case r of Inl _ \<Rightarrow> s' = s | Inr _ \<Rightarrow> task_spec role (task_abs s) Finishes (task_abs s'))"
  using assms spec_run [of role] spec_continue [of role "speech_of s"]
    spec_finish [of role "tl_tts_text_sent s" "speech_of s"]
  by (auto simp: lifecycle_run_def continue_text_def lifecycle_finish_def task_inv_def task_abs_def speech_of_def
      simp del: str_def split: if_splits sum.splits)

lemma task_step_sim:
  assumes "task_inv role s"
  shows "task_inv role (fst (task_step c s e)) \<and>
    trace_of (task_spec role) (task_abs s) (snd (task_step c s e)) (task_abs (fst (task_step c s e)))"
proof (cases e)
  case (RunTask m v l)
  then show ?thesis using command_step(1) [OF assms, of m v l]
    by (cases "lifecycle_run m v l s") (auto split: sum.splits)
next
  case (ContinueText t)
  then show ?thesis using command_step(2) [OF assms, of t]
    by (cases "continue_text t s") (auto split: sum.splits)
next
  case FinishTask
  then show ?thesis using command_step(3) [OF assms]
    by (cases "lifecycle_finish s") (auto split: sum.splits)
next
  case (Receive m)
  then show ?thesis using receive_step [OF assms, of c m]
    by (cases "receive c m s") (auto split: sum.splits)
qed

interpretation task: simulation "task_step c" "task_inv role" task_abs "task_spec role" for c role
  by unfold_locales (simp_all add: task_step_sim)

lemma lifecycle_new_inv:
  "lifecycle_new c role i = Inr s \<Longrightarrow> task_inv role s \<and> task_abs s = PNew"
  by (auto simp: lifecycle_new_def task_inv_def task_abs_def speech_of_def no_speech_def split: if_splits)

section \<open>Properties\<close>

text \<open>
  A codec for concrete runs: the text of a frame is the name of an event, and a recognised sentence
  is the number of its identifier, final when it is even.
\<close>

definition demo_envelope :: "rstring \<Rightarrow> json \<Rightarrow> Envelope" where
  "demo_envelope ev j = \<lparr>env_header = \<lparr>sh_task_id = str ''t'', sh_event = ev, sh_error_code = None,
     sh_error_message = None\<rparr>, env_payload = JObject [(str ''output'', JObject [(str ''sentence'', j)])]\<rparr>"

definition demo_codec :: codec where
  "demo_codec = \<lparr>parse_uuid = (\<lambda>_. True),
     decode_envelope = (\<lambda>t. case t of [] \<Rightarrow> Inl [] | n # ev \<Rightarrow> Inr (demo_envelope ev (JNumber (PosInt n)))),
     decode_heartbeat = (\<lambda>_. Inl []),
     decode_asr = (\<lambda>j. case j of JNumber (PosInt n) \<Rightarrow>
        Inr \<lparr>as_sentence_id = n div 2, as_text = [], as_heartbeat = False, as_sentence_begin = odd n,
             as_sentence_end = even n, as_begin_time = 0, as_end_time = (if even n then Some 5 else None)\<rparr>
       | _ \<Rightarrow> Inl []),
     decode_tts = (\<lambda>_. Inl [])\<rparr>"

definition demo_asr_run :: "task_op list" where
  "demo_asr_run = [RunTask (str ''qwen-audio-3.1-asr-flash-streaming'') [] [],
     Receive (TextFrame (0 # str ''task-started'')), Receive (TextFrame (3 # str ''result-generated'')),
     Receive (TextFrame (2 # str ''result-generated'')), FinishTask,
     Receive (TextFrame (4 # str ''result-generated'')), Receive (TextFrame (0 # str ''task-finished'')),
     Receive (TextFrame (0 # str ''task-started''))]"

definition demo_task :: "TaskRole \<Rightarrow> TaskLifecycle" where
  "demo_task role = (case lifecycle_new demo_codec role (str ''t'') of Inr s \<Rightarrow> s)"

lemmas demo_eval = demo_task_def lifecycle_new_def demo_codec_def demo_asr_run_def demo_envelope_def
  lifecycle_run_def run_parameters_def is_asr_model_def receive_def receive_inner_def receive_text_def
  receive_event_def asr_result_def asr_sentence_def checked_add_u64_def u64_max_def lifecycle_finish_def
  Let_def lifecycle_error_def task_error_def

lemma demo_new: "lifecycle_new demo_codec role (str ''t'') = Inr (demo_task role)"
  by (simp add: demo_task_def lifecycle_new_def demo_codec_def)

lemma demo_asr_observed:
  "snd (observe (task_step demo_codec) (demo_task Asr) demo_asr_run) =
     [Ran, Output StartedOutput, Output (Transcript 1 [] False), Output (Transcript 1 [] True), Finishes,
      Output (Transcript 2 [] True), Output FinishedOutput, Rejected]"
  by (simp add: demo_eval del: One_nat_def)

text \<open>
  C16: The ledger implements the abstract speech-task protocol: whatever the client calls and whatever
  frames the server sends, in any order, what the run shows (accepted commands, outputs, rejections)
  is a trace of the protocol, and the ledger ends in the protocol state that the trace leads to. So a
  sentence is announced before it is heard, each announced audio frame is delivered once, a task
  finishes only after a finish command with no open sentence and no owed frame, and after a rejected
  frame nothing but rejections follow.
\<close>

theorem task_lifecycle_refines_protocol:
  assumes "lifecycle_new c role i = Inr s"
  shows "trace_of (task_spec role) PNew (snd (observe (task_step c) s ops))
           (task_abs (fst (observe (task_step c) s ops)))"
  using task.run_refines [of role s c ops] lifecycle_new_inv [OF assms] by simp

theorem task_lifecycle_refines_protocol_witness:
  "\<exists>b. trace_of (task_spec Asr) PNew
     [Ran, Output StartedOutput, Output (Transcript 1 [] False), Output (Transcript 1 [] True), Finishes,
      Output (Transcript 2 [] True), Output FinishedOutput, Rejected] b"
  using task_lifecycle_refines_protocol [OF demo_new [of Asr], of demo_asr_run]
  unfolding demo_asr_observed by blast

text \<open>
  The transcripts of a recognition task: \<open>asr_in_order k opened xs\<close> says that sentence \<open>k\<close> is the
  next one, that every transcript belongs to it until its final one, and that nothing follows the end.
\<close>

fun asr_in_order :: "nat \<Rightarrow> bool \<Rightarrow> task_obs list \<Rightarrow> bool" where
  "asr_in_order k opened [] \<longleftrightarrow> True"
| "asr_in_order k opened (Output (Transcript i t fin) # xs) \<longleftrightarrow>
     i = k \<and> asr_in_order (if fin then Suc k else k) (\<not> fin) xs"
| "asr_in_order k opened (Output FinishedOutput # xs) \<longleftrightarrow> \<not> opened \<and> (\<forall>x\<in>set xs. x = Rejected)"
| "asr_in_order k opened (Output (AudioOutput a) # xs) \<longleftrightarrow> False"
| "asr_in_order k opened (Rejected # xs) \<longleftrightarrow> (\<forall>x\<in>set xs. x = Rejected)"
| "asr_in_order k opened (x # xs) \<longleftrightarrow> asr_in_order k opened xs"

lemma dead_trace:
  "trace_of (task_spec role) a xs b \<Longrightarrow> a = PFinished \<or> a = PBroken \<Longrightarrow> \<forall>x\<in>set xs. x = Rejected"
  by (induction rule: trace_of.induct) (auto elim: spec_dead)

lemma live_trace:
  "trace_of (task_spec Asr) a xs b \<Longrightarrow> a = PLive f sent q \<Longrightarrow> asr_in_order (Suc (sp_done q)) (sp_open q) xs"
proof (induction arbitrary: f sent q rule: trace_of.induct)
  case (trace_Cons a x b xs c)
  from trace_Cons.hyps(1) [unfolded trace_Cons.prems] trace_Cons.hyps(2) trace_Cons.IH dead_trace [of Asr b xs c]
  show ?case by (elim spec_live) (auto split: if_splits)
qed simp

lemma early_trace:
  "trace_of (task_spec Asr) a xs b \<Longrightarrow> a = PNew \<or> a = PWaiting \<Longrightarrow> asr_in_order 1 False xs"
proof (induction rule: trace_of.induct)
  case (trace_Cons a x b xs c)
  then show ?case using live_trace [OF trace_Cons.hyps(2)] dead_trace [OF trace_Cons.hyps(2)]
    by (fastforce elim: spec_early simp: no_speech_def)
qed simp

text \<open>
  C17: A recognition task numbers its sentences 1, 2, 3, ... without reuse, gap or reordering over any
  run: every transcript, preview or final, belongs to the sentence after the last final one, the task
  never finishes with a preview that was not finalised, it never delivers audio, and after the end or
  a rejected frame it delivers nothing.
\<close>

theorem asr_sentences_consecutive:
  assumes "lifecycle_new c Asr i = Inr s"
  shows "asr_in_order 1 False (snd (observe (task_step c) s ops))"
  using early_trace task.run_refines [of Asr s c ops] lifecycle_new_inv [OF assms] by simp

theorem asr_sentences_consecutive_witness:
  "asr_in_order 1 False (snd (observe (task_step demo_codec) (demo_task Asr) demo_asr_run)) \<and>
   \<not> asr_in_order 1 False [Ran, Output StartedOutput, Output (Transcript 2 [] True)]"
  using asr_sentences_consecutive [OF demo_new, of demo_asr_run] by simp

end
