(* ===== verification/Messages.thy ===== *)
theory Messages
  imports Json
begin

text \<open>
  Messages that are written out with literal keys, as \<open>json!\<close> does, and the rules that evaluate the accessors on them.
\<close>

definition json_str :: "string \<Rightarrow> json" where
  "json_str s = JString (str s)"

definition obj :: "(string \<times> json) list \<Rightarrow> json" where
  "obj fs = JObject (map (\<lambda>(k, v). (str k, v)) fs)"

declare str_def [simp del]

named_theorems message_simps \<open>evaluation of messages that are written out\<close>

lemma map_of_str [message_simps]: "map_of (map (\<lambda>(k, v). (str k, v)) fs) (str k) = map_of fs k"
  by (induction fs) (auto simp: str_eq_iff)

lemma json_get_obj [message_simps]: "json_get (str k) (obj fs) = map_of fs k"
  by (simp add: obj_def map_of_str)

lemma json_at_obj [message_simps]: "json_at (obj fs) (str k) = unwrap_or JNull (map_of fs k)"
  by (simp add: json_at_def json_get_obj)

lemma json_set_obj [message_simps]: "json_set (str k) v (obj fs) = obj (fs @ [(k, v)])"
  by (simp add: obj_def)

lemma is_object_obj [message_simps]: "is_object (obj fs)"
  by (simp add: obj_def)

lemma obj_not_null [message_simps]: "obj fs \<noteq> JNull"
  by (simp add: obj_def)

lemma trim_str [message_simps]: "trim (str s) = [] \<longleftrightarrow> list_all (\<lambda>c. is_whitespace (of_char c)) s"
  by (simp add: trim_empty_iff str_def list_all_iff)

lemmas message_eval = message_simps str_eq_iff is_whitespace_def json_str_def reject_if_def ok_or_def is_some_and_def json_is_def

end
