(* ===== verification/Model_Protocol.thy ===== *)
theory Model_Protocol
  imports Messages
begin

text \<open>
  What the provider protocols share (\<open>provider/model_protocol_profile.rs\<close>, \<open>audio/bailian_protocol/mod.rs\<close>): the
  registry of models, dialects and endpoints, the authorized profile of an invocation, the kinds of frames,
  and what an admitted server event tells its caller.
\<close>

section \<open>The registry\<close>

record ModelProtocolEndpointHostRule =
  hr_host_family_id :: rstring
  hr_host_pattern :: rstring
  hr_workspace_scoped :: bool

record ModelProtocolEndpointHostPolicy =
  hp_region :: rstring
  hp_allowed_host_families :: "ModelProtocolEndpointHostRule list"

record ModelProtocolTextEventSemantic =
  sx_event_type :: rstring
  sx_update_mode :: rstring
  sx_identity_keys :: "rstring list"
  sx_preview_fields :: "rstring list"
  sx_final_event_type :: rstring

record ModelProtocolAudioDirection =
  au_required :: bool
  au_codecs :: "rstring list"
  au_sample_rates_hz :: "nat list"
  au_channels :: "nat list"

record ModelProtocolDialect =
  dl_dialect_id :: rstring
  dl_dialect_version :: nat
  dl_transport :: rstring
  dl_endpoint_family :: rstring
  dl_endpoint_path :: rstring
  dl_model_placement :: rstring
  dl_input_framing :: rstring
  dl_output_framing :: rstring
  dl_turn_control :: rstring
  dl_preview_semantics :: rstring
  dl_text_event_semantics :: "ModelProtocolTextEventSemantic list"
  dl_commit_semantics :: rstring
  dl_response_trigger :: rstring
  dl_terminal_lifecycle :: rstring
  dl_reuse_policy :: rstring
  dl_region_policy :: rstring
  dl_audio_input :: ModelProtocolAudioDirection
  dl_audio_output :: ModelProtocolAudioDirection
  dl_client_event_types :: "rstring list"
  dl_server_event_types :: "rstring list"
  dl_client_json_base64_event_types :: "rstring list"
  dl_client_binary_event_types :: "rstring list"
  dl_server_json_base64_event_types :: "rstring list"
  dl_server_binary_event_types :: "rstring list"
  dl_wire_fixture :: rstring

record ModelProtocolSampleRateConstraint =
  rc_kind :: rstring
  rc_values_hz :: "nat list option"

record ModelProtocolProfileAudioDirection =
  pa_required :: bool
  pa_codecs :: "rstring list"
  pa_sample_rate_constraint :: ModelProtocolSampleRateConstraint
  pa_channels :: "nat list"

text \<open>The nested structures with one or two fields (model audio, endpoint requirements, adapter) are flattened.\<close>

record ModelProtocolProfile =
  mp_profile_id :: rstring
  mp_profile_version :: nat
  mp_product :: rstring
  mp_exact_model_ids :: "rstring list"
  mp_operations :: "rstring list"
  mp_dialect_id :: rstring
  mp_regions :: "rstring list"
  mp_model_audio :: "(ModelProtocolProfileAudioDirection \<times> ModelProtocolProfileAudioDirection) option"
  mp_endpoint_workspace_scoped :: "bool option"
  mp_adapter_status :: rstring
  mp_adapter_id :: "rstring option"

record ModelProtocolRegistry =
  mr_registry_version :: rstring
  mr_checked_at :: rstring
  mr_endpoint_host_policies :: "ModelProtocolEndpointHostPolicy list"
  mr_dialects :: "ModelProtocolDialect list"
  mr_profiles :: "ModelProtocolProfile list"

section \<open>The authorized profile\<close>

record AuthorizedModelProtocolAudioSpec =
  aq_codec :: rstring
  aq_sample_rate_hz :: nat
  aq_channels :: nat

record ProviderModelProtocolBindingInput =
  pb_model_id :: rstring
  pb_operation :: rstring
  pb_profile_owner_provider_id :: rstring
  pb_manifest_version :: nat
  pb_profile_id :: rstring
  pb_profile_version :: nat
  pb_auth_profile_id :: "rstring option"

record ExplicitBindingProvenance =
  ep_binding :: ProviderModelProtocolBindingInput
  ep_transport :: rstring
  ep_region :: rstring
  ep_endpoint_host :: rstring

record AuthorizedModelProtocolProfile =
  ap_binding_provenance :: "ExplicitBindingProvenance option"
  ap_registry_version :: rstring
  ap_registry_checked_at :: rstring
  ap_provider_family :: rstring
  ap_exact_model_id :: rstring
  ap_profile_id :: rstring
  ap_profile_version :: nat
  ap_product :: rstring
  ap_operation :: rstring
  ap_transport :: rstring
  ap_region :: rstring
  ap_endpoint_host :: rstring
  ap_endpoint_host_family_id :: rstring
  ap_endpoint_family :: rstring
  ap_endpoint_path :: rstring
  ap_model_placement :: rstring
  ap_wire_dialect :: rstring
  ap_wire_dialect_version :: nat
  ap_input_framing :: rstring
  ap_output_framing :: rstring
  ap_turn_control :: rstring
  ap_preview_semantics :: rstring
  ap_text_event_semantics :: "ModelProtocolTextEventSemantic list"
  ap_commit_semantics :: rstring
  ap_response_trigger :: rstring
  ap_terminal_lifecycle :: rstring
  ap_reuse_policy :: rstring
  ap_region_policy :: rstring
  ap_audio_input :: ModelProtocolAudioDirection
  ap_audio_output :: ModelProtocolAudioDirection
  ap_audio_input_constraint :: ModelProtocolProfileAudioDirection
  ap_audio_output_constraint :: ModelProtocolProfileAudioDirection
  ap_requested_audio_input :: "AuthorizedModelProtocolAudioSpec option"
  ap_requested_audio_output :: "AuthorizedModelProtocolAudioSpec option"
  ap_client_event_types :: "rstring list"
  ap_server_event_types :: "rstring list"
  ap_client_json_base64_event_types :: "rstring list"
  ap_client_binary_event_types :: "rstring list"
  ap_server_json_base64_event_types :: "rstring list"
  ap_server_binary_event_types :: "rstring list"
  ap_adapter_id :: rstring
  ap_wire_fixture :: rstring

datatype ModelProtocolFrameKind = JsonFrame | JsonBase64Frame | BinaryProtocolFrame
datatype ModelProtocolEventDirection = ClientEvent | ServerEvent

section \<open>Server mutations\<close>

record LiveTranslateSessionUpdatedEvidence =
  lv_session_identity_sha256 :: rstring
  lv_sent_session_config_sha256 :: rstring
  lv_echoed_session_config_sha256 :: rstring

record LiveTranslateServerMutation =
  lm_normalized_text :: "rstring option"
  lm_completed_response_text :: "rstring option"
  lm_response_completed :: bool
  lm_response_terminal_status :: "rstring option"
  lm_session_updated :: "LiveTranslateSessionUpdatedEvidence option"
  lm_session_finished :: bool

definition no_mutation :: LiveTranslateServerMutation where
  "no_mutation = \<lparr>lm_normalized_text = None, lm_completed_response_text = None, lm_response_completed = False,
     lm_response_terminal_status = None, lm_session_updated = None, lm_session_finished = False\<rparr>"

end
