(* ===== verification/Model_Authorization.thy ===== *)
theory Model_Authorization
  imports Model_Protocol "HOL-Library.Sublist"
begin

text \<open>
  Which model invocations are authorized, and which protocol events an authorization admits
  (\<open>provider/model_protocol_profile.rs\<close>, \<open>provider/model_protocol_profile/bindings.rs\<close>). The registry is a JSON file
  of the repository that the program reads once, and the list of built-in models comes from the provider
  manifests; both are parameters, absent or an error when they do not parse.
\<close>

declare str_def [simp del]

record registry_env =
  rg_registry :: "ModelProtocolRegistry option"
  rg_builtin :: "rstring \<Rightarrow> bool option"

section \<open>Errors\<close>

datatype ModelProtocolAuthorizationError =
    RegistryInvalid | RegistryVersionMismatch | ModelNotRegistered | ProfileAmbiguous | ProfileIdMismatch
  | ProfileVersionMismatch | OperationNotSupported | DialectNotRegistered | TransportMismatch
  | EndpointFamilyMismatch | WireDialectMismatch | TerminalLifecycleMismatch | RegionNotSupported
  | EndpointHostRequired | EndpointHostRegionMismatch | EndpointWorkspaceRequired
  | AudioInputCodecNotSupported | AudioInputSampleRateNotSupported | AudioInputChannelsNotSupported
  | AudioOutputCodecNotSupported | AudioOutputSampleRateNotSupported | AudioOutputChannelsNotSupported
  | AdapterUnavailable | AuthorizationIdentityMismatch | EventNotAllowed | FrameKindMismatch

fun authorization_code :: "ModelProtocolAuthorizationError \<Rightarrow> rstring" where
  "authorization_code RegistryInvalid = str ''model_protocol.registry_invalid''"
| "authorization_code RegistryVersionMismatch = str ''model_protocol.registry_version_mismatch''"
| "authorization_code ModelNotRegistered = str ''model_protocol.model_not_registered''"
| "authorization_code ProfileAmbiguous = str ''model_protocol.profile_ambiguous''"
| "authorization_code ProfileIdMismatch = str ''model_protocol.profile_id_mismatch''"
| "authorization_code ProfileVersionMismatch = str ''model_protocol.profile_version_mismatch''"
| "authorization_code OperationNotSupported = str ''model_protocol.operation_not_supported''"
| "authorization_code DialectNotRegistered = str ''model_protocol.dialect_not_registered''"
| "authorization_code TransportMismatch = str ''model_protocol.transport_mismatch''"
| "authorization_code EndpointFamilyMismatch = str ''model_protocol.endpoint_family_mismatch''"
| "authorization_code WireDialectMismatch = str ''model_protocol.wire_dialect_mismatch''"
| "authorization_code TerminalLifecycleMismatch = str ''model_protocol.terminal_lifecycle_mismatch''"
| "authorization_code RegionNotSupported = str ''model_protocol.region_not_supported''"
| "authorization_code EndpointHostRequired = str ''model_protocol.endpoint_host_required''"
| "authorization_code EndpointHostRegionMismatch = str ''model_protocol.endpoint_host_region_mismatch''"
| "authorization_code EndpointWorkspaceRequired = str ''model_protocol.endpoint_host_region_mismatch''"
| "authorization_code AudioInputCodecNotSupported = str ''model_protocol.audio_input_codec_not_supported''"
| "authorization_code AudioInputSampleRateNotSupported = str ''model_protocol.audio_input_sample_rate_not_supported''"
| "authorization_code AudioInputChannelsNotSupported = str ''model_protocol.audio_input_channels_not_supported''"
| "authorization_code AudioOutputCodecNotSupported = str ''model_protocol.audio_output_codec_not_supported''"
| "authorization_code AudioOutputSampleRateNotSupported = str ''model_protocol.audio_output_sample_rate_not_supported''"
| "authorization_code AudioOutputChannelsNotSupported = str ''model_protocol.audio_output_channels_not_supported''"
| "authorization_code AdapterUnavailable = str ''model_protocol.adapter_unavailable''"
| "authorization_code AuthorizationIdentityMismatch = str ''model_protocol.authorization_identity_mismatch''"
| "authorization_code EventNotAllowed = str ''model_protocol.event_not_allowed''"
| "authorization_code FrameKindMismatch = str ''model_protocol.frame_kind_mismatch''"

definition show_authorization_error :: "ModelProtocolAuthorizationError \<Rightarrow> rstring" where
  "show_authorization_error e =
     (if e = EndpointWorkspaceRequired
      then authorization_code e @ str '': workspace_required: this model requires a Workspace endpoint.''
      else authorization_code e)"

record ModelProtocolAuthorizationRequest =
  rq_exact_model_id :: rstring
  rq_operation :: rstring
  rq_transport :: rstring
  rq_region :: rstring
  rq_endpoint_host :: rstring
  rq_audio_input :: "AuthorizedModelProtocolAudioSpec option"
  rq_audio_output :: "AuthorizedModelProtocolAudioSpec option"
  rq_declared_registry_version :: "rstring option"
  rq_declared_profile_id :: "rstring option"
  rq_declared_profile_version :: "nat option"
  rq_declared_wire_dialect :: "rstring option"
  rq_declared_endpoint_family :: "rstring option"
  rq_declared_terminal_lifecycle :: "rstring option"

type_synonym 'a authorization = "ModelProtocolAuthorizationError + 'a"

section \<open>Models, hosts and audio\<close>

definition registry :: "registry_env \<Rightarrow> ModelProtocolRegistry authorization" where
  "registry g = ok_or RegistryInvalid (rg_registry g)"

definition profiles_for_model :: "ModelProtocolRegistry \<Rightarrow> rstring \<Rightarrow> ModelProtocolProfile list" where
  "profiles_for_model r model =
     (if model = [] \<or> trim model \<noteq> model then []
      else filter (\<lambda>p. model \<in> set (mp_exact_model_ids p)) (mr_profiles r))"

definition is_host_alphanumeric :: "rchar \<Rightarrow> bool" where
  "is_host_alphanumeric c \<longleftrightarrow> 48 \<le> c \<and> c \<le> 57 \<or> 65 \<le> c \<and> c \<le> 90 \<or> 97 \<le> c \<and> c \<le> 122"

definition host_matches_pattern :: "rstring \<Rightarrow> rstring \<Rightarrow> bool" where
  "host_matches_pattern host pattern =
     (case pattern of
        [] \<Rightarrow> host = pattern
      | c # ending \<Rightarrow>
          if c \<noteq> 42 then host = pattern
          else if \<not> starts_with ending (str ''.'') \<or> \<not> suffix ending host then False
          else let label = take (length host - length ending) host in
            if label = [] \<or> byte_len label > 63 \<or> 46 \<in> set label then False
            else is_host_alphanumeric (hd label) \<and> is_host_alphanumeric (last label) \<and>
                 list_all (\<lambda>c. is_host_alphanumeric c \<or> c = 45) label)"

definition is_host_char :: "rchar \<Rightarrow> bool" where
  "is_host_char c \<longleftrightarrow> 97 \<le> c \<and> c \<le> 122 \<or> 48 \<le> c \<and> c \<le> 57 \<or> c = 46 \<or> c = 45"

definition resolve_endpoint_host_family ::
  "ModelProtocolRegistry \<Rightarrow> rstring \<Rightarrow> rstring \<Rightarrow> ModelProtocolProfile \<Rightarrow> (rstring \<times> rstring) authorization" where
  "resolve_endpoint_host_family r region endpoint_host p =
     (let host = to_ascii_lowercase (trim endpoint_host) in
      reject_if (host = []) EndpointHostRequired
      (reject_if (\<not> list_all is_host_char host) EndpointHostRegionMismatch
      (and_then (ok_or EndpointHostRegionMismatch
         (Option.bind (find (\<lambda>policy. hp_region policy = region) (mr_endpoint_host_policies r)) (\<lambda>policy.
            find (\<lambda>rule. host_matches_pattern host (hr_host_pattern rule)) (hp_allowed_host_families policy)))) (\<lambda>rule.
       reject_if (mp_endpoint_workspace_scoped p = Some True \<and> \<not> hr_workspace_scoped rule) EndpointWorkspaceRequired
         (Inr (host, hr_host_family_id rule))))))"

definition materialize_audio_constraint ::
  "ModelProtocolProfileAudioDirection option \<Rightarrow> ModelProtocolAudioDirection \<Rightarrow> ModelProtocolProfileAudioDirection" where
  "materialize_audio_constraint profile_constraint d =
     (case profile_constraint of
        Some x \<Rightarrow> x
      | None \<Rightarrow> \<lparr>pa_required = au_required d, pa_codecs = au_codecs d,
          pa_sample_rate_constraint = (if \<not> au_required d \<and> au_sample_rates_hz d = []
            then \<lparr>rc_kind = str ''not-applicable'', rc_values_hz = None\<rparr>
            else \<lparr>rc_kind = str ''allow-list'', rc_values_hz = Some (au_sample_rates_hz d)\<rparr>),
          pa_channels = au_channels d\<rparr>)"

definition sample_rate_allowed :: "ModelProtocolSampleRateConstraint \<Rightarrow> nat \<Rightarrow> bool" where
  "sample_rate_allowed x rate \<longleftrightarrow>
     rc_kind x = str ''allow-list'' \<and> is_some_and (rc_values_hz x) (\<lambda>rates. rate \<in> set rates) \<or>
     rc_kind x = str ''any-positive-integer'' \<and> rate > 0"

definition validate_requested_audio ::
  "AuthorizedModelProtocolAudioSpec option \<Rightarrow> ModelProtocolProfileAudioDirection \<Rightarrow> ModelProtocolAuthorizationError \<Rightarrow>
   ModelProtocolAuthorizationError \<Rightarrow> ModelProtocolAuthorizationError \<Rightarrow> unit authorization" where
  "validate_requested_audio requested x codec_error sample_rate_error channels_error =
     (case requested of
        None \<Rightarrow> Inr ()
      | Some q \<Rightarrow>
          reject_if (aq_codec q \<notin> set (pa_codecs x)) codec_error
          (reject_if (\<not> sample_rate_allowed (pa_sample_rate_constraint x) (aq_sample_rate_hz q)) sample_rate_error
          (reject_if (aq_channels q \<notin> set (pa_channels x)) channels_error (Inr ()))))"

section \<open>Inspection\<close>

text \<open>What diagnostics read of the registry; it grants nothing.\<close>

record ModelProtocolProfileInspection =
  ix_registry_version :: rstring
  ix_registry_checked_at :: rstring
  ix_exact_model_id :: rstring
  ix_profile_id :: rstring
  ix_profile_version :: nat
  ix_product :: rstring
  ix_operations :: "rstring list"
  ix_adapter_status :: rstring
  ix_adapter_id :: "rstring option"
  ix_transport :: rstring
  ix_endpoint_family :: rstring
  ix_endpoint_path :: rstring
  ix_model_placement :: rstring
  ix_wire_dialect :: rstring
  ix_wire_dialect_version :: nat
  ix_input_framing :: rstring
  ix_output_framing :: rstring
  ix_terminal_lifecycle :: rstring
  ix_text_event_semantics :: "ModelProtocolTextEventSemantic list"
  ix_client_event_types :: "rstring list"
  ix_server_event_types :: "rstring list"

definition find_dialect :: "ModelProtocolRegistry \<Rightarrow> rstring \<Rightarrow> ModelProtocolDialect option" where
  "find_dialect r ident = find (\<lambda>d. dl_dialect_id d = ident) (mr_dialects r)"

definition inspection ::
  "ModelProtocolRegistry \<Rightarrow> rstring \<Rightarrow> ModelProtocolProfile \<Rightarrow> ModelProtocolDialect \<Rightarrow> ModelProtocolProfileInspection" where
  "inspection r model p d = \<lparr>
     ix_registry_version = mr_registry_version r, ix_registry_checked_at = mr_checked_at r, ix_exact_model_id = model,
     ix_profile_id = mp_profile_id p, ix_profile_version = mp_profile_version p, ix_product = mp_product p,
     ix_operations = mp_operations p, ix_adapter_status = mp_adapter_status p, ix_adapter_id = mp_adapter_id p,
     ix_transport = dl_transport d, ix_endpoint_family = dl_endpoint_family d, ix_endpoint_path = dl_endpoint_path d,
     ix_model_placement = dl_model_placement d, ix_wire_dialect = dl_dialect_id d, ix_wire_dialect_version = dl_dialect_version d,
     ix_input_framing = dl_input_framing d, ix_output_framing = dl_output_framing d,
     ix_terminal_lifecycle = dl_terminal_lifecycle d, ix_text_event_semantics = dl_text_event_semantics d,
     ix_client_event_types = dl_client_event_types d, ix_server_event_types = dl_server_event_types d\<rparr>"

fun inspect_profiles ::
  "ModelProtocolRegistry \<Rightarrow> rstring \<Rightarrow> ModelProtocolProfile list \<Rightarrow> ModelProtocolProfileInspection list authorization" where
  "inspect_profiles r model [] = Inr []"
| "inspect_profiles r model (p # ps) =
     and_then (ok_or DialectNotRegistered (find_dialect r (mp_dialect_id p))) (\<lambda>d.
     and_then (inspect_profiles r model ps) (\<lambda>xs. Inr (inspection r model p d # xs)))"

definition lookup_model_protocol_profiles_for_inspection ::
  "registry_env \<Rightarrow> rstring \<Rightarrow> ModelProtocolProfileInspection list authorization" where
  "lookup_model_protocol_profiles_for_inspection g model =
     and_then (registry g) (\<lambda>r. inspect_profiles r model (profiles_for_model r model))"

section \<open>Bindings\<close>

definition binding_operation_matches :: "rstring \<Rightarrow> rstring \<Rightarrow> bool" where
  "binding_operation_matches binding operation \<longleftrightarrow> binding = operation \<or>
     (binding, operation) \<in> {(str ''realtime-translation'', str ''native_translate''), (str ''realtime-conversation'', str ''dialogue''),
       (str ''realtime-transcription'', str ''asr''), (str ''voice-clone'', str ''voice_clone'')}"

definition valid_binding :: "ModelProtocolRegistry \<Rightarrow> ProviderModelProtocolBindingInput \<Rightarrow> bool" where
  "valid_binding r b \<longleftrightarrow> pb_profile_owner_provider_id b = str ''bailian'' \<and>
     mr_registry_version r = str ''bailian-model-protocol-registry/v'' @ show_nat (pb_manifest_version b) \<and>
     pb_auth_profile_id b = None \<and> trim (pb_model_id b) \<noteq> [] \<and> trim (pb_model_id b) = pb_model_id b"

definition select_candidate ::
  "registry_env \<Rightarrow> ModelProtocolRegistry \<Rightarrow> ModelProtocolAuthorizationRequest \<Rightarrow> ProviderModelProtocolBindingInput option \<Rightarrow>
   (ModelProtocolProfile \<times> ExplicitBindingProvenance option) authorization" where
  "select_candidate g r q binding =
     (case profiles_for_model r (rq_exact_model_id q) of
        [] \<Rightarrow>
          and_then (ok_or RegistryInvalid (rg_builtin g (rq_exact_model_id q))) (\<lambda>builtin.
          reject_if builtin ProfileIdMismatch
          (and_then (ok_or ModelNotRegistered binding) (\<lambda>b.
           and_then (ok_or ProfileIdMismatch (find (\<lambda>p. mp_profile_id p = pb_profile_id b) (mr_profiles r))) (\<lambda>p.
             Inr (p, Some \<lparr>ep_binding = b, ep_transport = rq_transport q, ep_region = rq_region q,
               ep_endpoint_host = to_ascii_lowercase (trim (rq_endpoint_host q))\<rparr>)))))
      | candidates \<Rightarrow>
          and_then (case rq_declared_profile_id q of
              Some declared \<Rightarrow> ok_or ProfileIdMismatch (find (\<lambda>p. mp_profile_id p = declared) candidates)
            | None \<Rightarrow> if length candidates = 1 then Inr (hd candidates) else Inl ProfileAmbiguous) (\<lambda>p.
          reject_if (is_some_and binding (\<lambda>b. pb_profile_id b \<noteq> mp_profile_id p)) ProfileIdMismatch (Inr (p, None))))"

definition select_profile ::
  "registry_env \<Rightarrow> ModelProtocolRegistry \<Rightarrow> ModelProtocolAuthorizationRequest \<Rightarrow> ProviderModelProtocolBindingInput option \<Rightarrow>
   (ModelProtocolProfile \<times> ExplicitBindingProvenance option) authorization" where
  "select_profile g r q binding =
     reject_if (is_some_and binding (\<lambda>b. \<not> valid_binding r b \<or> pb_model_id b \<noteq> rq_exact_model_id q \<or>
         \<not> binding_operation_matches (pb_operation b) (rq_operation q))) AuthorizationIdentityMismatch
     (and_then (select_candidate g r q binding) (\<lambda>(p, provenance).
      reject_if (is_some_and binding (\<lambda>b. pb_profile_version b \<noteq> mp_profile_version p)) ProfileVersionMismatch
      (reject_if (is_some_and (rq_declared_profile_id q) (\<lambda>declared. declared \<noteq> mp_profile_id p)) ProfileIdMismatch
        (Inr (p, provenance)))))"

definition identity_matches :: "registry_env \<Rightarrow> ModelProtocolRegistry \<Rightarrow> ModelProtocolProfile \<Rightarrow> AuthorizedModelProtocolProfile \<Rightarrow> bool" where
  "identity_matches g r p a \<longleftrightarrow>
     (case ap_binding_provenance a of
        None \<Rightarrow> ap_exact_model_id a \<in> set (mp_exact_model_ids p)
      | Some x \<Rightarrow>
          valid_binding r (ep_binding x) \<and> ep_transport x = ap_transport a \<and> ep_region x = ap_region a \<and>
          ep_endpoint_host x = ap_endpoint_host a \<and> profiles_for_model r (ap_exact_model_id a) = [] \<and>
          \<not> unwrap_or True (rg_builtin g (ap_exact_model_id a)) \<and> pb_model_id (ep_binding x) = ap_exact_model_id a \<and>
          binding_operation_matches (pb_operation (ep_binding x)) (ap_operation a) \<and>
          pb_profile_id (ep_binding x) = mp_profile_id p \<and> pb_profile_version (ep_binding x) = mp_profile_version p)"

section \<open>Authorization\<close>

text \<open>The authorization that is issued once every check has passed.\<close>

definition issue ::
  "ModelProtocolRegistry \<Rightarrow> ModelProtocolAuthorizationRequest \<Rightarrow> ModelProtocolProfile \<Rightarrow> ExplicitBindingProvenance option \<Rightarrow>
   ModelProtocolDialect \<Rightarrow> rstring \<Rightarrow> rstring \<Rightarrow> rstring \<Rightarrow> AuthorizedModelProtocolProfile" where
  "issue r q p provenance d host family adapter = \<lparr>
     ap_binding_provenance = provenance, ap_registry_version = mr_registry_version r, ap_registry_checked_at = mr_checked_at r,
     ap_provider_family = str ''bailian'', ap_exact_model_id = rq_exact_model_id q, ap_profile_id = mp_profile_id p,
     ap_profile_version = mp_profile_version p, ap_product = mp_product p, ap_operation = rq_operation q,
     ap_transport = dl_transport d, ap_region = rq_region q, ap_endpoint_host = host, ap_endpoint_host_family_id = family,
     ap_endpoint_family = dl_endpoint_family d, ap_endpoint_path = dl_endpoint_path d, ap_model_placement = dl_model_placement d,
     ap_wire_dialect = dl_dialect_id d, ap_wire_dialect_version = dl_dialect_version d, ap_input_framing = dl_input_framing d,
     ap_output_framing = dl_output_framing d, ap_turn_control = dl_turn_control d, ap_preview_semantics = dl_preview_semantics d,
     ap_text_event_semantics = dl_text_event_semantics d, ap_commit_semantics = dl_commit_semantics d,
     ap_response_trigger = dl_response_trigger d, ap_terminal_lifecycle = dl_terminal_lifecycle d,
     ap_reuse_policy = dl_reuse_policy d, ap_region_policy = dl_region_policy d, ap_audio_input = dl_audio_input d,
     ap_audio_output = dl_audio_output d,
     ap_audio_input_constraint = materialize_audio_constraint (map_option fst (mp_model_audio p)) (dl_audio_input d),
     ap_audio_output_constraint = materialize_audio_constraint (map_option snd (mp_model_audio p)) (dl_audio_output d),
     ap_requested_audio_input = rq_audio_input q, ap_requested_audio_output = rq_audio_output q,
     ap_client_event_types = dl_client_event_types d, ap_server_event_types = dl_server_event_types d,
     ap_client_json_base64_event_types = dl_client_json_base64_event_types d,
     ap_client_binary_event_types = dl_client_binary_event_types d,
     ap_server_json_base64_event_types = dl_server_json_base64_event_types d,
     ap_server_binary_event_types = dl_server_binary_event_types d, ap_adapter_id = adapter, ap_wire_fixture = dl_wire_fixture d\<rparr>"

definition authorize_dialect ::
  "ModelProtocolRegistry \<Rightarrow> ModelProtocolAuthorizationRequest \<Rightarrow> ModelProtocolProfile \<Rightarrow> ModelProtocolDialect authorization" where
  "authorize_dialect r q p =
     (let declared = (\<lambda>x y. is_some_and x (\<lambda>v. v \<noteq> y)) in
      reject_if (is_some_and (rq_declared_profile_version q) (\<lambda>v. v \<noteq> mp_profile_version p)) ProfileVersionMismatch
      (reject_if (rq_operation q \<notin> set (mp_operations p)) OperationNotSupported
      (and_then (ok_or DialectNotRegistered (find_dialect r (mp_dialect_id p))) (\<lambda>d.
       reject_if (dl_transport d \<noteq> rq_transport q) TransportMismatch
       (reject_if (declared (rq_declared_endpoint_family q) (dl_endpoint_family d)) EndpointFamilyMismatch
       (reject_if (declared (rq_declared_wire_dialect q) (dl_dialect_id d)) WireDialectMismatch
       (reject_if (declared (rq_declared_terminal_lifecycle q) (dl_terminal_lifecycle d)) TerminalLifecycleMismatch
       (reject_if (rq_region q \<notin> set (mp_regions p)) RegionNotSupported (Inr d)))))))))"

definition authorize_model_protocol_invocation_with_binding ::
  "registry_env \<Rightarrow> ModelProtocolAuthorizationRequest \<Rightarrow> ProviderModelProtocolBindingInput option \<Rightarrow>
   AuthorizedModelProtocolProfile authorization" where
  "authorize_model_protocol_invocation_with_binding g q binding =
     and_then (registry g) (\<lambda>r.
     reject_if (is_some_and (rq_declared_registry_version q) (\<lambda>v. v \<noteq> mr_registry_version r)) RegistryVersionMismatch
     (and_then (select_profile g r q binding) (\<lambda>(p, provenance).
      and_then (authorize_dialect r q p) (\<lambda>d.
      and_then (resolve_endpoint_host_family r (rq_region q) (rq_endpoint_host q) p) (\<lambda>(host, family).
      and_then (validate_requested_audio (rq_audio_input q)
          (materialize_audio_constraint (map_option fst (mp_model_audio p)) (dl_audio_input d))
          AudioInputCodecNotSupported AudioInputSampleRateNotSupported AudioInputChannelsNotSupported) (\<lambda>_.
      and_then (validate_requested_audio (rq_audio_output q)
          (materialize_audio_constraint (map_option snd (mp_model_audio p)) (dl_audio_output d))
          AudioOutputCodecNotSupported AudioOutputSampleRateNotSupported AudioOutputChannelsNotSupported) (\<lambda>_.
      reject_if (mp_adapter_status p \<noteq> str ''enabled'') AdapterUnavailable
      (case mp_adapter_id p of
         None \<Rightarrow> Inl AdapterUnavailable
       | Some adapter \<Rightarrow> reject_if (adapter = []) AdapterUnavailable
           (Inr (issue r q p provenance d host family adapter))))))))))"

definition authorize_model_protocol_invocation ::
  "registry_env \<Rightarrow> ModelProtocolAuthorizationRequest \<Rightarrow> AuthorizedModelProtocolProfile authorization" where
  "authorize_model_protocol_invocation g q = authorize_model_protocol_invocation_with_binding g q None"

section \<open>Admission of events\<close>

definition expected_frame_kind :: "ModelProtocolDialect \<Rightarrow> ModelProtocolEventDirection \<Rightarrow> rstring \<Rightarrow> ModelProtocolFrameKind" where
  "expected_frame_kind d direction kind =
     (let (binary_events, base64_events) = (case direction of
        ClientEvent \<Rightarrow> (dl_client_binary_event_types d, dl_client_json_base64_event_types d)
      | ServerEvent \<Rightarrow> (dl_server_binary_event_types d, dl_server_json_base64_event_types d))
      in if kind \<in> set binary_events then BinaryProtocolFrame
         else if kind \<in> set base64_events then JsonBase64Frame else JsonFrame)"

definition audio_spec :: "string \<Rightarrow> nat \<Rightarrow> AuthorizedModelProtocolAudioSpec" where
  "audio_spec codec rate = \<lparr>aq_codec = str codec, aq_sample_rate_hz = rate, aq_channels = 1\<rparr>"

definition expected_adapter_audio ::
  "rstring \<Rightarrow> (AuthorizedModelProtocolAudioSpec option \<times> AuthorizedModelProtocolAudioSpec option) option" where
  "expected_adapter_audio adapter =
     (if adapter \<in> {str ''desktop-omni-session-v2'', str ''desktop-qwen-audio-session-v1''}
      then Some (Some (audio_spec ''pcm'' 16000), Some (audio_spec ''pcm'' 24000))
      else if adapter \<in> {str ''desktop-livetranslate-session-v1'', str ''desktop-livetranslate-session-v2''}
      then Some (Some (audio_spec ''pcm16'' 16000), Some (audio_spec ''pcm16'' 24000))
      else if adapter = str ''desktop-qwen-audio-task-asr-v1'' then Some (Some (audio_spec ''pcm'' 16000), None)
      else if adapter = str ''desktop-qwen-audio-task-tts-v1'' then Some (None, Some (audio_spec ''pcm'' 24000))
      else None)"

text \<open>The comparison of an authorization with the entries of the registry, field by field.\<close>

definition dialect_matches :: "ModelProtocolDialect \<Rightarrow> AuthorizedModelProtocolProfile \<Rightarrow> bool" where
  "dialect_matches d a \<longleftrightarrow>
     dl_dialect_version d = ap_wire_dialect_version a \<and> dl_transport d = ap_transport a \<and>
     dl_endpoint_family d = ap_endpoint_family a \<and> dl_endpoint_path d = ap_endpoint_path a \<and>
     dl_model_placement d = ap_model_placement a \<and> dl_input_framing d = ap_input_framing a \<and>
     dl_output_framing d = ap_output_framing a \<and> dl_turn_control d = ap_turn_control a \<and>
     dl_preview_semantics d = ap_preview_semantics a \<and> dl_text_event_semantics d = ap_text_event_semantics a \<and>
     dl_commit_semantics d = ap_commit_semantics a \<and> dl_response_trigger d = ap_response_trigger a \<and>
     dl_terminal_lifecycle d = ap_terminal_lifecycle a \<and> dl_reuse_policy d = ap_reuse_policy a \<and>
     dl_region_policy d = ap_region_policy a \<and> dl_audio_input d = ap_audio_input a \<and> dl_audio_output d = ap_audio_output a \<and>
     dl_client_event_types d = ap_client_event_types a \<and> dl_server_event_types d = ap_server_event_types a \<and>
     dl_client_json_base64_event_types d = ap_client_json_base64_event_types a \<and>
     dl_client_binary_event_types d = ap_client_binary_event_types a \<and>
     dl_server_json_base64_event_types d = ap_server_json_base64_event_types a \<and>
     dl_server_binary_event_types d = ap_server_binary_event_types a \<and> dl_wire_fixture d = ap_wire_fixture a"

definition requested_audio_expected :: "AuthorizedModelProtocolProfile \<Rightarrow> bool" where
  "requested_audio_expected a \<longleftrightarrow>
     expected_adapter_audio (ap_adapter_id a) = Some (ap_requested_audio_input a, ap_requested_audio_output a)"

definition authorization_current ::
  "ModelProtocolRegistry \<Rightarrow> ModelProtocolProfile \<Rightarrow> ModelProtocolDialect \<Rightarrow> rstring \<times> rstring \<Rightarrow> AuthorizedModelProtocolProfile \<Rightarrow> bool" where
  "authorization_current r p d endpoint a \<longleftrightarrow>
     mr_registry_version r = ap_registry_version a \<and> mr_checked_at r = ap_registry_checked_at a \<and>
     ap_provider_family a = str ''bailian'' \<and> mp_product p = ap_product a \<and> ap_operation a \<in> set (mp_operations p) \<and>
     ap_region a \<in> set (mp_regions p) \<and> mp_dialect_id p = dl_dialect_id d \<and> dialect_matches d a \<and>
     endpoint = (ap_endpoint_host a, ap_endpoint_host_family_id a) \<and>
     materialize_audio_constraint (map_option fst (mp_model_audio p)) (dl_audio_input d) = ap_audio_input_constraint a \<and>
     materialize_audio_constraint (map_option snd (mp_model_audio p)) (dl_audio_output d) = ap_audio_output_constraint a \<and>
     requested_audio_expected a \<and> mp_adapter_status p = str ''enabled'' \<and> mp_adapter_id p = Some (ap_adapter_id a)"

record AuthorizedModelProtocolEvent =
  av_profile_id :: rstring
  av_profile_version :: nat
  av_wire_dialect :: rstring
  av_direction :: ModelProtocolEventDirection
  av_event_type :: rstring
  av_frame_kind :: ModelProtocolFrameKind

definition admit_model_protocol_event ::
  "registry_env \<Rightarrow> AuthorizedModelProtocolProfile \<Rightarrow> ModelProtocolEventDirection \<Rightarrow> rstring \<Rightarrow> ModelProtocolFrameKind \<Rightarrow>
   AuthorizedModelProtocolEvent authorization" where
  "admit_model_protocol_event g a direction kind frame =
     and_then (registry g) (\<lambda>r.
     case (find (\<lambda>p. mp_profile_id p = ap_profile_id a \<and> mp_profile_version p = ap_profile_version a \<and> identity_matches g r p a)
             (mr_profiles r), find_dialect r (ap_wire_dialect a)) of
       (Some p, Some d) \<Rightarrow>
         (case resolve_endpoint_host_family r (ap_region a) (ap_endpoint_host a) p of
            Inl _ \<Rightarrow> Inl AuthorizationIdentityMismatch
          | Inr endpoint \<Rightarrow>
              reject_if (\<not> authorization_current r p d endpoint a) AuthorizationIdentityMismatch
              (reject_if (kind \<notin> set (case direction of ClientEvent \<Rightarrow> dl_client_event_types d | ServerEvent \<Rightarrow> dl_server_event_types d))
                EventNotAllowed
              (reject_if (expected_frame_kind d direction kind \<noteq> frame) FrameKindMismatch
                (Inr \<lparr>av_profile_id = ap_profile_id a, av_profile_version = ap_profile_version a, av_wire_dialect = ap_wire_dialect a,
                  av_direction = direction, av_event_type = kind, av_frame_kind = frame\<rparr>))))
     | _ \<Rightarrow> Inl AuthorizationIdentityMismatch)"

text \<open>What the protocols ask: the code of the error, or none.\<close>

definition registry_verdict ::
  "registry_env \<Rightarrow> AuthorizedModelProtocolProfile \<Rightarrow> ModelProtocolEventDirection \<Rightarrow> rstring \<Rightarrow> ModelProtocolFrameKind \<Rightarrow> rstring option" where
  "registry_verdict g a direction kind frame =
     (case admit_model_protocol_event g a direction kind frame of Inl e \<Rightarrow> Some (authorization_code e) | Inr _ \<Rightarrow> None)"

section \<open>Lemmas\<close>

lemma host_chars_plain:
  assumes "list_all is_host_char host"
  shows "to_ascii_lowercase (trim host) = host"
proof -
  have "\<not> is_whitespace c" if "is_host_char c" for c
    using that by (auto simp: is_host_char_def is_whitespace_def)
  then have "host = [] \<or> \<not> is_whitespace (hd host) \<and> \<not> is_whitespace (last host)"
    using assms by (auto simp: list_all_iff)
  then have "dropWhile is_whitespace host = host" "dropWhile is_whitespace (rev host) = rev host"
    by (auto simp: dropWhile_eq_self_iff hd_rev)
  then have "trim host = host" by (simp add: trim_def trim_start_def trim_end_def)
  moreover have "to_ascii_lowercase host = host"
    using assms by (induction host) (auto simp: to_ascii_lowercase_def is_host_char_def)
  ultimately show ?thesis by simp
qed

lemma resolve_again:
  assumes "resolve_endpoint_host_family r region host p = Inr (h, family)"
  shows "resolve_endpoint_host_family r region h p = Inr (h, family)"
proof -
  from assms have h: "h = to_ascii_lowercase (trim host)" "list_all is_host_char h"
    by (auto simp: resolve_endpoint_host_family_def Let_def)
  then have "to_ascii_lowercase (trim h) = h" by (simp add: host_chars_plain)
  with assms h(1) show ?thesis by (simp add: resolve_endpoint_host_family_def)
qed

lemma resolved_host: "resolve_endpoint_host_family r region host p = Inr (h, family) \<Longrightarrow> h = to_ascii_lowercase (trim host)"
  by (auto simp: resolve_endpoint_host_family_def Let_def)

lemma find_by_key:
  assumes "distinct (map key xs)" "x \<in> set xs" "P x" "\<And>y. P y \<Longrightarrow> key y = key x"
  shows "find P xs = Some x"
  using assms(1, 2)
proof (induction xs)
  case (Cons y ys)
  show ?case
  proof (cases "P y")
    case True
    with assms(4) have "key y = key x" .
    with Cons.prems have "y = x" by (auto simp: image_iff)
    with True show ?thesis by simp
  next
    case False
    with Cons assms(3) show ?thesis by auto
  qed
qed simp

lemma find_Some_in: "find P xs = Some x \<Longrightarrow> x \<in> set xs \<and> P x"
  by (auto simp: find_Some_iff)

lemma select_candidate_cases:
  assumes "select_candidate g r q binding = Inr (p, provenance)"
  obtains (builtin) "provenance = None" "p \<in> set (mr_profiles r)" "rq_exact_model_id q \<in> set (mp_exact_model_ids p)"
  | (bound) b where "binding = Some b" "profiles_for_model r (rq_exact_model_id q) = []" "rg_builtin g (rq_exact_model_id q) = Some False"
      "p \<in> set (mr_profiles r)" "mp_profile_id p = pb_profile_id b"
      "provenance = Some \<lparr>ep_binding = b, ep_transport = rq_transport q, ep_region = rq_region q,
         ep_endpoint_host = to_ascii_lowercase (trim (rq_endpoint_host q))\<rparr>"
proof (cases "profiles_for_model r (rq_exact_model_id q)")
  case Nil
  with assms show ?thesis by (auto simp: select_candidate_def dest: find_Some_in intro: bound)
next
  case (Cons c cs)
  with assms have p: "p \<in> set (profiles_for_model r (rq_exact_model_id q))" and "provenance = None"
    by (auto simp: select_candidate_def dest: find_Some_in split: option.splits if_splits)
  from p have "p \<in> set (mr_profiles r) \<and> rq_exact_model_id q \<in> set (mp_exact_model_ids p)"
    by (auto simp: profiles_for_model_def split: if_splits)
  with \<open>provenance = None\<close> show ?thesis by (auto intro: builtin)
qed

lemma select_profile_identity:
  assumes "select_profile g r q binding = Inr (p, provenance)"
    and "dl_transport d = rq_transport q" "host = to_ascii_lowercase (trim (rq_endpoint_host q))"
  shows "p \<in> set (mr_profiles r) \<and> identity_matches g r p (issue r q p provenance d host family adapter)"
proof -
  from assms(1) have c: "select_candidate g r q binding = Inr (p, provenance)"
    and b: "\<And>b. binding = Some b \<Longrightarrow> valid_binding r b \<and> pb_model_id b = rq_exact_model_id q \<and>
      binding_operation_matches (pb_operation b) (rq_operation q) \<and> pb_profile_version b = mp_profile_version p"
    by (auto simp: select_profile_def)
  from c show ?thesis
    by (cases rule: select_candidate_cases) (use b assms(2, 3) in \<open>auto simp: identity_matches_def issue_def unwrap_or_def\<close>)
qed

lemma authorize_dialect_ok:
  assumes "authorize_dialect r q p = Inr d"
  shows "find_dialect r (mp_dialect_id p) = Some d \<and> dl_dialect_id d = mp_dialect_id p \<and> dl_transport d = rq_transport q \<and>
    rq_operation q \<in> set (mp_operations p) \<and> rq_region q \<in> set (mp_regions p)"
  using assms by (auto simp: authorize_dialect_def find_dialect_def Let_def dest: find_Some_in)

lemma authorized_cases:
  assumes "authorize_model_protocol_invocation_with_binding g q binding = Inr a"
  obtains r p provenance d host family adapter where "rg_registry g = Some r" "select_profile g r q binding = Inr (p, provenance)"
    "authorize_dialect r q p = Inr d" "resolve_endpoint_host_family r (rq_region q) (rq_endpoint_host q) p = Inr (host, family)"
    "mp_adapter_status p = str ''enabled''" "mp_adapter_id p = Some adapter" "a = issue r q p provenance d host family adapter"
  using assms that
  by (auto simp: authorize_model_protocol_invocation_with_binding_def registry_def split: option.splits)

section \<open>Property\<close>

definition event_allowlist :: "ModelProtocolEventDirection \<Rightarrow> AuthorizedModelProtocolProfile \<Rightarrow> rstring list" where
  "event_allowlist direction a = (case direction of ClientEvent \<Rightarrow> ap_client_event_types a | ServerEvent \<Rightarrow> ap_server_event_types a)"

definition event_frame :: "ModelProtocolEventDirection \<Rightarrow> AuthorizedModelProtocolProfile \<Rightarrow> rstring \<Rightarrow> ModelProtocolFrameKind" where
  "event_frame direction a kind =
     (case direction of
        ClientEvent \<Rightarrow> if kind \<in> set (ap_client_binary_event_types a) then BinaryProtocolFrame
                       else if kind \<in> set (ap_client_json_base64_event_types a) then JsonBase64Frame else JsonFrame
      | ServerEvent \<Rightarrow> if kind \<in> set (ap_server_binary_event_types a) then BinaryProtocolFrame
                       else if kind \<in> set (ap_server_json_base64_event_types a) then JsonBase64Frame else JsonFrame)"

lemma admits_exactly:
  assumes "authorize_model_protocol_invocation_with_binding g q binding = Inr a"
    "\<forall>r. rg_registry g = Some r \<longrightarrow> distinct (map mp_profile_id (mr_profiles r))"
  shows "admit_model_protocol_event g a direction kind frame =
    (if \<not> requested_audio_expected a then Inl AuthorizationIdentityMismatch
     else if kind \<notin> set (event_allowlist direction a) then Inl EventNotAllowed
     else if frame \<noteq> event_frame direction a kind then Inl FrameKindMismatch
     else Inr \<lparr>av_profile_id = ap_profile_id a, av_profile_version = ap_profile_version a, av_wire_dialect = ap_wire_dialect a,
            av_direction = direction, av_event_type = kind, av_frame_kind = frame\<rparr>)"
proof -
  from assms(1) obtain r p provenance d host family adapter where r: "rg_registry g = Some r"
    and p: "select_profile g r q binding = Inr (p, provenance)" and d: "authorize_dialect r q p = Inr d"
    and h: "resolve_endpoint_host_family r (rq_region q) (rq_endpoint_host q) p = Inr (host, family)"
    and adapter: "mp_adapter_status p = str ''enabled''" "mp_adapter_id p = Some adapter"
    and a: "a = issue r q p provenance d host family adapter" by (rule authorized_cases)
  note d = authorize_dialect_ok [OF d]
  have "p \<in> set (mr_profiles r) \<and> identity_matches g r p a"
    unfolding a using p d resolved_host [OF h] by (intro select_profile_identity) auto
  then have "find (\<lambda>p. mp_profile_id p = ap_profile_id a \<and> mp_profile_version p = ap_profile_version a \<and> identity_matches g r p a)
      (mr_profiles r) = Some p"
    using assms(2) r by (intro find_by_key [where key = mp_profile_id]) (auto simp: a issue_def)
  moreover have "find_dialect r (ap_wire_dialect a) = Some d" using d by (simp add: a issue_def)
  moreover have "resolve_endpoint_host_family r (ap_region a) (ap_endpoint_host a) p = Inr (host, family)"
    using resolve_again [OF h] by (simp add: a issue_def)
  moreover have "authorization_current r p d (host, family) a \<longleftrightarrow> requested_audio_expected a"
    using d adapter by (simp add: authorization_current_def dialect_matches_def a issue_def)
  moreover have "(case direction of ClientEvent \<Rightarrow> dl_client_event_types d | ServerEvent \<Rightarrow> dl_server_event_types d) =
      event_allowlist direction a" "expected_frame_kind d direction kind = event_frame direction a kind"
    by (simp_all add: event_allowlist_def event_frame_def expected_frame_kind_def a issue_def split: ModelProtocolEventDirection.split)
  ultimately show ?thesis by (simp add: admit_model_protocol_event_def registry_def r ok_or_def reject_if_def)
qed

lemma verdict_listed:
  assumes "authorize_model_protocol_invocation_with_binding g q binding = Inr a"
    "\<forall>r. rg_registry g = Some r \<longrightarrow> distinct (map mp_profile_id (mr_profiles r))" "requested_audio_expected a"
    "kind \<in> set (event_allowlist direction a)" "event_frame direction a kind = frame"
  shows "registry_verdict g a direction kind frame = None"
  using admits_exactly [OF assms(1, 2), of direction kind frame] assms(3-5) by (simp add: registry_verdict_def)

text \<open>Once an invocation is authorized, and as long as the registry is the same and its profiles have distinct identifiers, an
  event is admitted exactly when the authorization lists it for its direction and the frame is of the kind it prescribes, with one
  error for each failure; an authorization whose requested audio is not the fixed audio of its adapter admits nothing.\<close>

theorem authorization_admits_exactly:
  assumes "authorize_model_protocol_invocation_with_binding g q binding = Inr a"
    "\<forall>r. rg_registry g = Some r \<longrightarrow> distinct (map mp_profile_id (mr_profiles r))"
  shows "admit_model_protocol_event g a direction kind frame =
    (if \<not> requested_audio_expected a then Inl AuthorizationIdentityMismatch
     else if kind \<notin> set (event_allowlist direction a) then Inl EventNotAllowed
     else if frame \<noteq> event_frame direction a kind then Inl FrameKindMismatch
     else Inr \<lparr>av_profile_id = ap_profile_id a, av_profile_version = ap_profile_version a, av_wire_dialect = ap_wire_dialect a,
            av_direction = direction, av_event_type = kind, av_frame_kind = frame\<rparr>)"
  using assms by (rule admits_exactly)

section \<open>A sample registry\<close>

text \<open>One dialect and one profile, for one adapter and its audio codec.\<close>

definition sample_direction :: "string \<Rightarrow> nat \<Rightarrow> ModelProtocolAudioDirection" where
  "sample_direction codec rate = \<lparr>au_required = True, au_codecs = [str codec], au_sample_rates_hz = [rate], au_channels = [1]\<rparr>"

definition sample_dialect :: "string \<Rightarrow> nat \<Rightarrow> string \<Rightarrow> string list \<Rightarrow> string list \<Rightarrow> ModelProtocolDialect" where
  "sample_dialect dialect version codec clients servers = \<lparr>
     dl_dialect_id = str dialect, dl_dialect_version = version, dl_transport = str ''websocket'',
     dl_endpoint_family = str ''dashscope-realtime-v1'', dl_endpoint_path = str ''/api-ws/v1/realtime'', dl_model_placement = str ''query'',
     dl_input_framing = str ''json-base64'', dl_output_framing = str ''json-base64'', dl_turn_control = [], dl_preview_semantics = [],
     dl_text_event_semantics = [], dl_commit_semantics = [], dl_response_trigger = [], dl_terminal_lifecycle = [], dl_reuse_policy = [],
     dl_region_policy = [], dl_audio_input = sample_direction codec 16000, dl_audio_output = sample_direction codec 24000,
     dl_client_event_types = map str clients, dl_server_event_types = map str servers,
     dl_client_json_base64_event_types = [str ''input_audio_buffer.append''], dl_client_binary_event_types = [],
     dl_server_json_base64_event_types = [str ''response.audio.delta''], dl_server_binary_event_types = [], dl_wire_fixture = []\<rparr>"

definition sample_profile :: "string \<Rightarrow> string \<Rightarrow> string \<Rightarrow> ModelProtocolProfile" where
  "sample_profile dialect adapter operation = \<lparr>mp_profile_id = str ''profile'', mp_profile_version = 1, mp_product = str ''product'',
     mp_exact_model_ids = [str ''model''], mp_operations = [str operation], mp_dialect_id = str dialect, mp_regions = [str ''cn-beijing''],
     mp_model_audio = None, mp_endpoint_workspace_scoped = None, mp_adapter_status = str ''enabled'', mp_adapter_id = Some (str adapter)\<rparr>"

definition sample_registry :: "ModelProtocolDialect \<Rightarrow> ModelProtocolProfile \<Rightarrow> registry_env" where
  "sample_registry d p = \<lparr>rg_registry = Some \<lparr>mr_registry_version = str ''bailian-model-protocol-registry/v1'', mr_checked_at = str ''today'',
       mr_endpoint_host_policies = [\<lparr>hp_region = str ''cn-beijing'', hp_allowed_host_families =
         [\<lparr>hr_host_family_id = str ''generic'', hr_host_pattern = str ''dashscope.aliyuncs.com'', hr_workspace_scoped = False\<rparr>]\<rparr>],
       mr_dialects = [d], mr_profiles = [p]\<rparr>,
     rg_builtin = \<lambda>_. Some True\<rparr>"

definition sample_request :: "string \<Rightarrow> string \<Rightarrow> ModelProtocolAuthorizationRequest" where
  "sample_request codec operation = \<lparr>rq_exact_model_id = str ''model'', rq_operation = str operation, rq_transport = str ''websocket'',
     rq_region = str ''cn-beijing'', rq_endpoint_host = str ''dashscope.aliyuncs.com'',
     rq_audio_input = Some (audio_spec codec 16000), rq_audio_output = Some (audio_spec codec 24000),
     rq_declared_registry_version = None, rq_declared_profile_id = None, rq_declared_profile_version = None,
     rq_declared_wire_dialect = None, rq_declared_endpoint_family = None, rq_declared_terminal_lifecycle = None\<rparr>"

definition sample_authorization :: "ModelProtocolDialect \<Rightarrow> ModelProtocolProfile \<Rightarrow> string \<Rightarrow> string \<Rightarrow> string \<Rightarrow> AuthorizedModelProtocolProfile" where
  "sample_authorization d p codec operation adapter =
     issue (the (rg_registry (sample_registry d p))) (sample_request codec operation) p None d
       (str ''dashscope.aliyuncs.com'') (str ''generic'') (str adapter)"

lemma sample_host:
  assumes "mp_endpoint_workspace_scoped p = None"
  shows "resolve_endpoint_host_family (the (rg_registry (sample_registry d p)))
    (str ''cn-beijing'') (str ''dashscope.aliyuncs.com'') p = Inr (str ''dashscope.aliyuncs.com'', str ''generic'')"
proof -
  have plain: "list_all is_host_char (str ''dashscope.aliyuncs.com'')" by (simp add: str_def is_host_char_def)
  have "host_matches_pattern (str ''dashscope.aliyuncs.com'') (str ''dashscope.aliyuncs.com'')"
    by (simp add: host_matches_pattern_def str_def)
  then show ?thesis using plain host_chars_plain [OF plain] assms
    by (simp add: resolve_endpoint_host_family_def sample_registry_def reject_if_def ok_or_def) (simp add: str_def)
qed

lemma sample_authorized:
  assumes "adapter \<noteq> []"
  shows "authorize_model_protocol_invocation_with_binding
      (sample_registry (sample_dialect dialect version codec clients servers) (sample_profile dialect adapter operation))
      (sample_request codec operation) None =
    Inr (sample_authorization (sample_dialect dialect version codec clients servers) (sample_profile dialect adapter operation) codec operation adapter)"
proof -
  have "trim (str ''model'') = str ''model''" "str ''model'' \<noteq> []"
    by (simp_all add: str_def trim_def trim_start_def trim_end_def is_whitespace_def)
  with assms sample_host [of "sample_profile dialect adapter operation" "sample_dialect dialect version codec clients servers"]
  show ?thesis
    by (simp add: authorize_model_protocol_invocation_with_binding_def registry_def select_profile_def select_candidate_def
        profiles_for_model_def authorize_dialect_def find_dialect_def validate_requested_audio_def materialize_audio_constraint_def
        sample_rate_allowed_def sample_authorization_def sample_registry_def sample_profile_def sample_dialect_def sample_request_def
        sample_direction_def audio_spec_def reject_if_def ok_or_def is_some_and_def)
      (simp add: str_def)
qed

lemma sample_distinct: "\<forall>r. rg_registry (sample_registry d p) = Some r \<longrightarrow> distinct (map mp_profile_id (mr_profiles r))"
  by (simp add: sample_registry_def)

theorem authorization_admits_exactly_witness:
  "let d = sample_dialect ''bailian-omni-realtime-ws-v2'' 2 ''pcm'' [''session.update''] [''session.created''];
       p = sample_profile ''bailian-omni-realtime-ws-v2'' ''desktop-omni-session-v2'' ''dialogue'';
       a = sample_authorization d p ''pcm'' ''dialogue'' ''desktop-omni-session-v2''
   in admit_model_protocol_event (sample_registry d p) a ServerEvent (str ''session.created'') JsonFrame \<noteq> Inl EventNotAllowed \<and>
      admit_model_protocol_event (sample_registry d p) a ServerEvent (str ''session.created'') BinaryProtocolFrame = Inl FrameKindMismatch \<and>
      admit_model_protocol_event (sample_registry d p) a ServerEvent (str ''session.update'') JsonFrame = Inl EventNotAllowed"
proof -
  let ?d = "sample_dialect ''bailian-omni-realtime-ws-v2'' 2 ''pcm'' [''session.update''] [''session.created'']"
  let ?p = "sample_profile ''bailian-omni-realtime-ws-v2'' ''desktop-omni-session-v2'' ''dialogue''"
  let ?a = "sample_authorization ?d ?p ''pcm'' ''dialogue'' ''desktop-omni-session-v2''"
  have "requested_audio_expected ?a"
    by (simp add: requested_audio_expected_def expected_adapter_audio_def sample_authorization_def issue_def sample_request_def)
  then show ?thesis
    using authorization_admits_exactly [OF sample_authorized [of "''desktop-omni-session-v2''"] sample_distinct,
        of "''bailian-omni-realtime-ws-v2''" 2 "''pcm''" "[''session.update'']" "[''session.created'']" "''dialogue''"]
    by (simp add: Let_def event_allowlist_def event_frame_def sample_authorization_def issue_def sample_dialect_def str_eq_iff)
qed

end
