(* ===== verification/Task_Session.thy ===== *)
theory Task_Session
  imports Task_Lifecycle Byte_Strings Model_Authorization
begin

text \<open>
  One speech task on its socket (\<open>audio/bailian_tasks/worker.rs\<close>): deadlines, the admission of
  frames by the protocol profile, polling, and the synthesis of one text. The ledger is
  \<open>Task_Lifecycle\<close>. Each call of the source that reads the clock or the socket takes what it read
  from an argument, so a conversation is a script: a list of poll readings and the outcomes of the
  sends. A script that ends while a loop is still polling yields no value. Events are admitted by
  \<open>Model_Authorization\<close>; the JSON parser is a parameter, the authorization of the invocation an
  argument, and socket timeouts have no counterpart because a poll reads at most one frame.
\<close>

declare str_def [simp]

section \<open>Authority\<close>

record TaskProvider =
  tp_kind :: rstring
  tp_model :: rstring
  tp_transport :: rstring
  tp_auth_scheme :: rstring
  tp_auth_header_name :: rstring
  tp_timeout_ms :: nat

definition validate_authority :: "TaskProvider \<Rightarrow> TaskRole \<Rightarrow> AuthorizedModelProtocolProfile \<Rightarrow> TaskError option" where
  "validate_authority provider role authority =
     (let (adapter, dialect, implemented) = (case role of
            Asr \<Rightarrow> (ASR_ADAPTER_ID, ASR_DIALECT_ID, is_asr_model (tp_model provider))
          | Tts \<Rightarrow> (TTS_ADAPTER_ID, TTS_DIALECT_ID, is_tts_model (tp_model provider)));
          (audio, requested, codec, rate) = (case role of
            Asr \<Rightarrow> (ap_audio_input_constraint authority, ap_requested_audio_input authority, str ''pcm'', 16000)
          | Tts \<Rightarrow> (ap_audio_output_constraint authority, ap_requested_audio_output authority, str ''pcm'', 24000))
      in if \<not> implemented \<or> tp_kind provider \<noteq> str ''dashscope'' \<or> tp_transport provider \<noteq> str ''websocket'' \<or>
            ap_exact_model_id authority \<noteq> tp_model provider \<or> ap_operation authority \<noteq> task_operation role \<or>
            ap_adapter_id authority \<noteq> adapter \<or> ap_wire_dialect authority \<noteq> dialect \<or>
            ap_wire_dialect_version authority \<noteq> 1 \<or> ap_transport authority \<noteq> str ''websocket'' \<or>
            ap_endpoint_path authority \<noteq> str ''/api-ws/v1/inference''
         then Some (task_error role Authority
                (str ''model_protocol.wire_dialect_mismatch: Task adapter cannot execute model='' @ tp_model provider @
                 str '' adapter='' @ ap_adapter_id authority @ str '' dialect='' @ ap_wire_dialect authority @
                 str '' operation='' @ ap_operation authority))
         else if tp_auth_scheme provider \<noteq> str ''bearer'' \<or>
                 to_ascii_lowercase (tp_auth_header_name provider) \<noteq> str ''authorization''
         then Some (task_error role Authority (str ''Task WebSocket requires Authorization: Bearer''))
         else if codec \<notin> set (pa_codecs audio) \<or> 1 \<notin> set (pa_channels audio) \<or>
                 is_some_and (rc_values_hz (pa_sample_rate_constraint audio)) (\<lambda>rates. rate \<notin> set rates) \<or>
                 \<not> is_some_and requested (\<lambda>q. aq_codec q = codec \<and> aq_channels q = 1 \<and> aq_sample_rate_hz q = rate)
         then Some (task_error role Authority
                (str ''Task adapter requires authorized codec='' @ codec @ str '' signed PCM16 mono at '' @
                 show_nat rate @ str ''Hz''))
         else None)"

section \<open>The session\<close>

text \<open>What the session relies on: the codec, the JSON parser, the registry.\<close>

record session_env =
  se_codec :: codec
  se_parse_json :: "rstring \<Rightarrow> rstring + json"
  se_registry :: registry_env

record TaskSession =
  ts_lifecycle :: TaskLifecycle
  ts_authority :: AuthorizedModelProtocolProfile
  ts_timeout :: duration
  ts_deadline :: "instant option"
  ts_draining :: bool
  ts_finishing :: bool
  ts_idle_deadline :: instant

record send_io =
  si_before :: instant
  si_failure :: "rstring option"
  si_after :: instant

datatype socket_read = ReadFrame ws_message | WouldBlock | ReadError rstring

record poll_io =
  pi_before :: instant
  pi_read :: socket_read
  pi_flush_failure :: "rstring option"
  pi_after :: instant
  pi_received :: instant

definition session_error :: "TaskSession \<Rightarrow> TaskFailure \<Rightarrow> rstring \<Rightarrow> TaskError" where
  "session_error s failure detail = task_error (tl_role (ts_lifecycle s)) failure detail"

definition check_deadline :: "instant \<Rightarrow> TaskSession \<Rightarrow> TaskError option" where
  "check_deadline now s =
     (if is_some_and (ts_deadline s) (\<lambda>d. now \<ge> d)
      then Some (session_error s (if ts_draining s then StopDrain else Timeout)
             (if ts_draining s then str ''finish-task drain deadline expired without task-finished''
              else if ts_finishing s then str ''task-finished deadline expired''
              else str ''task-started deadline expired''))
      else if ts_deadline s = None \<and> now \<ge> ts_idle_deadline s
      then Some (session_error s Timeout (str ''active task produced no typed server progress within 60 seconds''))
      else None)"

definition session_admit ::
  "session_env \<Rightarrow> ModelProtocolEventDirection \<Rightarrow> rstring \<Rightarrow> ModelProtocolFrameKind \<Rightarrow> TaskSession \<Rightarrow> TaskError option" where
  "session_admit env direction event_type kind s =
     (case registry_verdict (se_registry env) (ts_authority s) direction event_type kind of
        None \<Rightarrow> None | Some code \<Rightarrow> Some (session_error s InvalidFrame code))"

text \<open>\<open>value.get("header").and_then(get(key)).and_then(as_str)\<close>.\<close>

definition header_field :: "rstring \<Rightarrow> json \<Rightarrow> rstring option" where
  "header_field k value = Option.bind (Option.bind (json_get (str ''header'') value) (json_get k)) as_str"

definition send_json :: "session_env \<Rightarrow> send_io \<Rightarrow> json \<Rightarrow> TaskSession \<Rightarrow> TaskError option" where
  "send_json env io value s =
     (case check_deadline (si_before io) s of
        Some e \<Rightarrow> Some e
      | None \<Rightarrow>
          (case header_field (str ''action'') value of
             None \<Rightarrow> Some (session_error s InvalidFrame (str ''missing command action''))
           | Some act \<Rightarrow>
               (case session_admit env ClientEvent act JsonFrame s of
                  Some e \<Rightarrow> Some e
                | None \<Rightarrow>
                    (case si_failure io of
                       Some e \<Rightarrow> Some (session_error s Transport (str ''send '' @ act @ str '': '' @ e))
                     | None \<Rightarrow> check_deadline (si_after io) s))))"

definition send_pcm :: "session_env \<Rightarrow> send_io \<Rightarrow> 8 word list \<Rightarrow> TaskSession \<Rightarrow> TaskError option" where
  "send_pcm env io bytes s =
     (case check_deadline (si_before io) s of
        Some e \<Rightarrow> Some e
      | None \<Rightarrow>
          (case audio_input bytes (ts_lifecycle s) of
             Some e \<Rightarrow> Some e
           | None \<Rightarrow>
               (case session_admit env ClientEvent (str ''binary.audio'') BinaryProtocolFrame s of
                  Some e \<Rightarrow> Some e
                | None \<Rightarrow>
                    (case si_failure io of
                       Some e \<Rightarrow> Some (session_error s Transport (str ''send PCM: '' @ e))
                     | None \<Rightarrow> check_deadline (si_after io) s))))"

definition session_continue_text ::
  "session_env \<Rightarrow> send_io \<Rightarrow> rstring \<Rightarrow> TaskSession \<Rightarrow> TaskSession \<times> TaskError option" where
  "session_continue_text env io txt s =
     (case continue_text txt (ts_lifecycle s) of
        (l, Inl e) \<Rightarrow> (s\<lparr>ts_lifecycle := l\<rparr>, Some e)
      | (l, Inr cmd) \<Rightarrow> (s\<lparr>ts_lifecycle := l\<rparr>, send_json env io cmd (s\<lparr>ts_lifecycle := l\<rparr>)))"

definition begin_drain :: "instant \<Rightarrow> TaskSession \<Rightarrow> TaskSession" where
  "begin_drain now s =
     (let s1 = s\<lparr>ts_draining := True\<rparr>
      in if ts_deadline s1 = None then s1\<lparr>ts_deadline := Some (now + ts_timeout s1)\<rparr> else s1)"

definition session_finish ::
  "session_env \<Rightarrow> instant \<Rightarrow> send_io \<Rightarrow> TaskSession \<Rightarrow> TaskSession \<times> TaskError option" where
  "session_finish env now io s =
     (let s1 = (if \<not> ts_draining s \<and> \<not> ts_finishing s then s\<lparr>ts_deadline := Some (now + ts_timeout s)\<rparr> else s);
          s2 = s1\<lparr>ts_finishing := True\<rparr>
      in case lifecycle_finish (ts_lifecycle s2) of
           (l, Inl e) \<Rightarrow> (s2\<lparr>ts_lifecycle := l\<rparr>, Some e)
         | (l, Inr cmd) \<Rightarrow> (s2\<lparr>ts_lifecycle := l\<rparr>, send_json env io cmd (s2\<lparr>ts_lifecycle := l\<rparr>)))"

definition admit_frame :: "session_env \<Rightarrow> ws_message \<Rightarrow> TaskSession \<Rightarrow> TaskError option" where
  "admit_frame env frame s =
     (case frame of
        BinaryFrame _ \<Rightarrow> session_admit env ServerEvent (str ''binary.audio'') BinaryProtocolFrame s
      | TextFrame txt \<Rightarrow>
          (case se_parse_json env txt of
             Inl e \<Rightarrow> Some (session_error s InvalidFrame (str ''JSON: '' @ e))
           | Inr value \<Rightarrow>
               (case header_field (str ''event'') value of
                  None \<Rightarrow> Some (session_error s InvalidFrame (str ''server frame missing header.event''))
                | Some event \<Rightarrow> session_admit env ServerEvent event JsonFrame s))
      | _ \<Rightarrow> Some (session_error s InvalidFrame (str ''unsupported task frame kind'')))"

definition poll_frame ::
  "session_env \<Rightarrow> poll_io \<Rightarrow> ws_message \<Rightarrow> TaskSession \<Rightarrow> TaskSession \<times> (TaskError + TaskOutput option)" where
  "poll_frame env io frame s =
     (case check_deadline (pi_after io) s of
        Some e \<Rightarrow> (s, Inl e)
      | None \<Rightarrow>
          (case admit_frame env frame s of
             Some e \<Rightarrow> (s, Inl e)
           | None \<Rightarrow>
               (case receive (se_codec env) frame (ts_lifecycle s) of
                  (l, Inl e) \<Rightarrow> (s\<lparr>ts_lifecycle := l\<rparr>, Inl e)
                | (l, Inr output) \<Rightarrow>
                    (let s1 = s\<lparr>ts_lifecycle := l, ts_idle_deadline := pi_received io + from_secs 60\<rparr>
                     in (if output = StartedOutput then s1\<lparr>ts_deadline := None\<rparr> else s1, Inr (Some output))))))"

definition poll :: "session_env \<Rightarrow> poll_io \<Rightarrow> TaskSession \<Rightarrow> TaskSession \<times> (TaskError + TaskOutput option)" where
  "poll env io s =
     (case check_deadline (pi_before io) s of
        Some e \<Rightarrow> (s, Inl e)
      | None \<Rightarrow>
          (case pi_read io of
             ReadFrame frame \<Rightarrow>
               if frame = PingFrame \<or> frame = PongFrame
               then (s, case pi_flush_failure io of
                          Some e \<Rightarrow> Inl (session_error s Transport (str ''pong: '' @ e)) | None \<Rightarrow> Inr None)
               else if frame = CloseFrame
               then (s, Inl (session_error s Lifecycle (str ''socket closed before task-finished'')))
               else poll_frame env io frame s
           | WouldBlock \<Rightarrow> (s, case check_deadline (pi_after io) s of Some e \<Rightarrow> Inl e | None \<Rightarrow> Inr None)
           | ReadError e \<Rightarrow> (s, Inl (session_error s Transport (str ''read task frame: '' @ e)))))"

definition session_finished :: "TaskSession \<Rightarrow> bool" where
  "session_finished s \<longleftrightarrow> lifecycle_finished (ts_lifecycle s)"

section \<open>Connecting and synthesising\<close>

record connect_io =
  ci_allowed :: "rstring option"
  ci_authority :: "rstring + AuthorizedModelProtocolProfile"
  ci_task_id :: rstring
  ci_now :: instant
  ci_socket_error :: "(rstring \<times> rstring) option"
  ci_opened :: instant
  ci_send :: send_io

definition session_connect ::
  "session_env \<Rightarrow> connect_io \<Rightarrow> TaskProvider \<Rightarrow> TaskRole \<Rightarrow> rstring \<Rightarrow> rstring \<Rightarrow> TaskError + TaskSession" where
  "session_connect env io provider role voice language =
     (case ci_allowed io of Some e \<Rightarrow> Inl (task_error role Authority e) | None \<Rightarrow>
     (case ci_authority io of Inl e \<Rightarrow> Inl (task_error role Authority e) | Inr authority \<Rightarrow>
     (case validate_authority provider role authority of Some e \<Rightarrow> Inl e | None \<Rightarrow>
     (case lifecycle_new (se_codec env) role (ci_task_id io) of Inl e \<Rightarrow> Inl e | Inr l0 \<Rightarrow>
     (case lifecycle_run (tp_model provider) voice language l0 of
        (_, Inl e) \<Rightarrow> Inl e
      | (l, Inr run) \<Rightarrow>
          (let timeout = from_millis (max (tp_timeout_ms provider) 1000); deadline = ci_now io + timeout
           in case ci_socket_error io of
                Some (code, message) \<Rightarrow>
                  Inl (task_error role (if is_some (find_parts (str ''timeout'') code) then Timeout else Transport)
                    (code @ str '': '' @ message))
              | None \<Rightarrow>
                  (let s = \<lparr>ts_lifecycle = l, ts_authority = authority, ts_timeout = timeout,
                        ts_deadline = Some deadline, ts_draining = False, ts_finishing = False,
                        ts_idle_deadline = ci_opened io + from_secs 60\<rparr>
                   in case send_json env (ci_send io) run s of Some e \<Rightarrow> Inl e | None \<Rightarrow> Inr s)))))))"

fun wait_started ::
  "session_env \<Rightarrow> poll_io list \<Rightarrow> TaskSession \<Rightarrow> (TaskSession \<times> TaskError option \<times> poll_io list) option" where
  "wait_started env [] s = None"
| "wait_started env (io # ios) s =
     (case poll env io s of
        (s', Inl e) \<Rightarrow> Some (s', Some e, ios)
      | (s', Inr out) \<Rightarrow> if out = Some StartedOutput then Some (s', None, ios) else wait_started env ios s')"

definition MAX_TTS_SAMPLES :: nat where "MAX_TTS_SAMPLES = 24000 * 60 * 20"

fun drain_audio ::
  "session_env \<Rightarrow> poll_io list \<Rightarrow> 16 word list \<Rightarrow> TaskSession \<Rightarrow> (TaskSession \<times> (TaskError + 16 word list)) option" where
  "drain_audio env ios samples s =
     (if session_finished s then Some (s, Inr samples)
      else case ios of
        [] \<Rightarrow> None
      | io # rest \<Rightarrow>
          (case poll env io s of
             (s', Inl e) \<Rightarrow> Some (s', Inl e)
           | (s', Inr (Some (AudioOutput chunk))) \<Rightarrow>
               let samples' = samples @ chunk
               in if length samples' > MAX_TTS_SAMPLES
                  then Some (s', Inl (task_error Tts InvalidFrame (str ''TTS audio exceeds 20-minute buffer limit'')))
                  else drain_audio env rest samples' s'
           | (s', Inr _) \<Rightarrow> drain_audio env rest samples s'))"

declare drain_audio.simps [simp del]

record synthesis_io =
  sy_connect :: connect_io
  sy_polls :: "poll_io list"
  sy_continue :: send_io
  sy_finish_at :: instant
  sy_finish :: send_io

definition synthesize ::
  "session_env \<Rightarrow> synthesis_io \<Rightarrow> TaskProvider \<Rightarrow> rstring \<Rightarrow> rstring \<Rightarrow> rstring \<Rightarrow>
     (TaskError + rstring \<times> 16 word list) option" where
  "synthesize env io provider txt voice language =
     (if trim txt = [] \<or> length txt > 20000
      then Some (Inl (task_error Tts Sentence (str ''TTS text must contain 1..20000 characters'')))
      else case session_connect env (sy_connect io) provider Tts (resolve_tts_voice voice) language of
        Inl e \<Rightarrow> Some (Inl e)
      | Inr s0 \<Rightarrow>
          (case wait_started env (sy_polls io) s0 of
             None \<Rightarrow> None
           | Some (s1, Some e, _) \<Rightarrow> Some (Inl e)
           | Some (s1, None, ios) \<Rightarrow>
               (case session_continue_text env (sy_continue io) txt s1 of
                  (s2, Some e) \<Rightarrow> Some (Inl e)
                | (s2, None) \<Rightarrow>
                    (case session_finish env (sy_finish_at io) (sy_finish io) s2 of
                       (s3, Some e) \<Rightarrow> Some (Inl e)
                     | (s3, None) \<Rightarrow>
                         (case drain_audio env ios [] s3 of
                            None \<Rightarrow> None
                          | Some (s4, Inl e) \<Rightarrow> Some (Inl e)
                          | Some (s4, Inr samples) \<Rightarrow>
                              Some (if samples = []
                                    then Inl (task_error Tts Sentence (str ''task-finished without synthesized audio''))
                                    else Inr (tl_task_id (ts_lifecycle s4), samples)))))))"

section \<open>Lemmas\<close>

text \<open>The audio bytes that a list of polls read from the socket.\<close>

definition audio_bytes :: "poll_io list \<Rightarrow> 8 word list" where
  "audio_bytes ios = concat (map (\<lambda>io. case pi_read io of ReadFrame (BinaryFrame b) \<Rightarrow> b | _ \<Rightarrow> []) ios)"

lemma audio_bytes_simps [simp]:
  "audio_bytes [] = []" "audio_bytes (ios @ jos) = audio_bytes ios @ audio_bytes jos"
  "audio_bytes (io # ios) = (case pi_read io of ReadFrame (BinaryFrame b) \<Rightarrow> b | _ \<Rightarrow> []) @ audio_bytes ios"
  by (simp_all add: audio_bytes_def)

lemma encode_append [simp]: "encode_pcm16le (xs @ ys) = encode_pcm16le xs @ encode_pcm16le ys"
  by (simp add: encode_pcm16le_def)

text \<open>A poll that succeeds either leaves the session alone or feeds one frame to the ledger.\<close>

lemma poll_ok:
  assumes "poll env io s = (s', Inr r)"
  shows "check_deadline (pi_before io) s = None \<and>
    (case r of None \<Rightarrow> s' = s \<and> audio_bytes [io] = []
     | Some out \<Rightarrow> \<exists>frame. pi_read io = ReadFrame frame \<and>
         receive (se_codec env) frame (ts_lifecycle s) = (ts_lifecycle s', Inr out) \<and>
         ts_deadline s' = (if out = StartedOutput then None else ts_deadline s))"
  using assms
  by (auto simp: poll_def poll_frame_def Let_def simp del: str_def
      split: option.splits socket_read.splits if_splits prod.splits sum.splits)

lemma poll_audio:
  assumes "poll env io s = (s', Inr r)"
  shows "audio_bytes [io] = (case r of Some (AudioOutput chunk) \<Rightarrow> encode_pcm16le chunk | _ \<Rightarrow> [])"
proof (cases r)
  case None
  then show ?thesis using poll_ok [OF assms] by simp
next
  case (Some out)
  then obtain frame where f: "pi_read io = ReadFrame frame"
    "receive (se_codec env) frame (ts_lifecycle s) = (ts_lifecycle s', Inr out)"
    using poll_ok [OF assms] by auto
  show ?thesis using receive_audio [OF f(2)] f(1) Some
    by (auto simp: encode_chunks split: ws_message.splits TaskOutput.splits)
qed

text \<open>A poll that reads the end of a task: a text frame that decodes to a \<open>task-finished\<close> event.\<close>

definition reads_finished :: "codec \<Rightarrow> poll_io \<Rightarrow> bool" where
  "reads_finished c io =
     (case pi_read io of
        ReadFrame (TextFrame txt) \<Rightarrow>
          (case decode_envelope c txt of
             Inr envelope \<Rightarrow> sh_event (env_header envelope) = str ''task-finished'' | Inl _ \<Rightarrow> False)
      | _ \<Rightarrow> False)"

lemma result_not_finished:
  "asr_result c output s = (s', Inr out) \<Longrightarrow> out \<noteq> FinishedOutput \<and> tl_phase s' = tl_phase s"
  "tts_result c output s = (s', Inr out) \<Longrightarrow> out \<noteq> FinishedOutput \<and> tl_phase s' = tl_phase s"
  by (auto simp: asr_result_def asr_sentence_def tts_result_def tts_sentence_def Let_def simp del: str_def
      split: option.splits sum.splits if_splits)

lemma receive_event_finished:
  assumes "receive_event c envelope s = (s', Inr out)" and "tl_phase s \<noteq> Finished"
  shows "(out = FinishedOutput) = (sh_event (env_header envelope) = str ''task-finished'') \<and>
    (tl_phase s' = Finished) = (out = FinishedOutput)"
  using assms result_not_finished [of c _ s s' out]
  by (auto simp: receive_event_def Let_def str_eq_iff simp del: str_def
      split: option.splits if_splits TaskRole.splits)

lemma poll_finished:
  assumes "poll env io s = (s', Inr r)" and "\<not> session_finished s"
  shows "reads_finished (se_codec env) io = (r = Some FinishedOutput) \<and>
    session_finished s' = (r = Some FinishedOutput)"
proof (cases r)
  case None
  then have "\<not> reads_finished (se_codec env) io" "s' = s"
    using assms(1) by (auto simp: poll_def poll_frame_def reads_finished_def Let_def simp del: str_def
      split: option.splits socket_read.splits if_splits prod.splits sum.splits ws_message.splits)
  then show ?thesis using None assms(2) by simp
next
  case (Some out)
  then obtain frame where f: "pi_read io = ReadFrame frame"
    "receive (se_codec env) frame (ts_lifecycle s) = (ts_lifecycle s', Inr out)"
    using poll_ok [OF assms(1)] by auto
  have n: "tl_phase (ts_lifecycle s) \<noteq> Finished"
    using assms(2) by (simp add: session_finished_def lifecycle_finished_def)
  have r: "receive_inner (se_codec env) frame (ts_lifecycle s) = (ts_lifecycle s', Inr out)"
    using f(2) by (auto simp: receive_def split: prod.splits sum.splits)
  show ?thesis
  proof (cases frame)
    case (TextFrame m)
    then obtain envelope where "decode_envelope (se_codec env) m = Inr envelope"
      "receive_event (se_codec env) envelope (ts_lifecycle s) = (ts_lifecycle s', Inr out)"
      using r by (auto simp: receive_inner_def receive_text_def simp del: str_def split: if_splits sum.splits)
    then show ?thesis using receive_event_finished [OF _ n] f(1) Some TextFrame
      by (simp add: reads_finished_def session_finished_def lifecycle_finished_def del: str_def)
  next
    case (BinaryFrame bytes)
    then have "receive_binary bytes (ts_lifecycle s) = (ts_lifecycle s', Inr out)"
      using r by (simp add: receive_inner_def split: if_splits)
    then have "out \<noteq> FinishedOutput \<and> tl_phase (ts_lifecycle s') = tl_phase (ts_lifecycle s)"
      by (auto simp: receive_binary_def simp del: str_def split: if_splits dest: sym)
    then show ?thesis using BinaryFrame f(1) Some n
      by (simp add: reads_finished_def session_finished_def lifecycle_finished_def del: str_def)
  qed (use r in \<open>simp_all add: receive_inner_def split: if_splits\<close>)
qed

lemma poll_step:
  assumes "poll env io s = (s', r)" and "task_inv role (ts_lifecycle s)"
  shows "task_inv role (ts_lifecycle s') \<and> task_identity (ts_lifecycle s') = task_identity (ts_lifecycle s) \<and>
    (case r of Inr (Some out) \<Rightarrow> task_spec role (task_abs (ts_lifecycle s)) (Output out) (task_abs (ts_lifecycle s'))
     | Inr None \<Rightarrow> s' = s | Inl e \<Rightarrow> True)"
proof (cases "ts_lifecycle s' = ts_lifecycle s \<and> (\<forall>out. r \<noteq> Inr (Some out))")
  case True
  then show ?thesis using assms poll_ok [of env io s s'] by (auto split: sum.splits option.splits)
next
  case False
  then obtain frame q where q: "receive (se_codec env) frame (ts_lifecycle s) = (ts_lifecycle s', q)"
    "case q of Inl e \<Rightarrow> r = Inl e | Inr out \<Rightarrow> r = Inr (Some out)"
    using assms(1) by (auto simp: poll_def poll_frame_def Let_def simp del: str_def
      split: option.splits socket_read.splits if_splits prod.splits sum.splits)
  show ?thesis using receive_step [OF assms(2) q(1)] receive_identity [OF q(1)] q(2)
    by (auto split: sum.splits)
qed

lemma poll_settings:
  "poll env io s = (s', r) \<Longrightarrow>
     ts_timeout s' = ts_timeout s \<and> ts_draining s' = ts_draining s \<and> ts_finishing s' = ts_finishing s"
  by (auto simp: poll_def poll_frame_def Let_def simp del: str_def
      split: option.splits socket_read.splits if_splits prod.splits sum.splits)

lemma wait_started_settings:
  "wait_started env ios s = Some (s', r) \<Longrightarrow>
     ts_timeout s' = ts_timeout s \<and> ts_draining s' = ts_draining s \<and> ts_finishing s' = ts_finishing s"
proof (induction ios arbitrary: s)
  case (Cons io ios)
  obtain s1 q where "poll env io s = (s1, q)" by force
  then show ?case using Cons poll_settings [of env io s s1 q] by (auto split: sum.splits if_splits)
qed simp

lemma check_deadline_expired: "ts_deadline s = Some d \<Longrightarrow> d \<le> now \<Longrightarrow> check_deadline now s \<noteq> None"
  by (simp add: check_deadline_def)

lemma waiting_output:
  "task_spec role PWaiting (Output out) b \<Longrightarrow> out = StartedOutput"
  "task_spec role (PLive True sent q) (Output out) b \<Longrightarrow> out \<noteq> StartedOutput \<and>
     (b = PFinished \<or> (\<exists>sent' q'. b = PLive True sent' q'))"
  by (auto elim: spec_early spec_live)

lemma wait_started_ok:
  assumes "wait_started env ios s = Some (s', None, rest)"
    and "task_inv role (ts_lifecycle s)" and "task_abs (ts_lifecycle s) = PWaiting"
  shows "task_inv role (ts_lifecycle s') \<and> task_identity (ts_lifecycle s') = task_identity (ts_lifecycle s) \<and>
    (\<exists>pre. ios = pre @ rest \<and> audio_bytes pre = [] \<and> \<not> list_ex (reads_finished (se_codec env)) pre)"
  using assms
proof (induction ios arbitrary: s)
  case (Cons io ios)
  obtain s1 r where p: "poll env io s = (s1, r)" by force
  note step = poll_step [OF p Cons.prems(2)]
  from p Cons.prems(1) obtain out where r: "r = Inr out" by (cases r) auto
  have "\<not> session_finished s"
    using Cons.prems(3) by (auto simp: session_finished_def lifecycle_finished_def task_abs_def)
  then have fin: "reads_finished (se_codec env) io = (out = Some FinishedOutput)"
    using poll_finished p r by blast
  show ?case
  proof (cases out)
    case None
    then have "wait_started env ios s = Some (s', None, rest)" "audio_bytes [io] = []"
      using p r step Cons.prems(1) poll_ok [of env io s s1] by auto
    then obtain pre where "ios = pre @ rest" "audio_bytes pre = []" "task_inv role (ts_lifecycle s')"
      "task_identity (ts_lifecycle s') = task_identity (ts_lifecycle s)"
      "\<not> list_ex (reads_finished (se_codec env)) pre"
      using Cons.IH [of s] Cons.prems by blast
    then show ?thesis using \<open>audio_bytes [io] = []\<close> fin None by (auto intro!: exI [of _ "io # pre"])
  next
    case (Some v)
    then have "v = StartedOutput" using step r Cons.prems(3) waiting_output(1) by auto
    then show ?thesis using Some p r step Cons.prems(1) poll_audio [of env io s s1] fin
      by (auto intro!: exI [of _ "[io]"])
  qed
qed simp

lemma wait_started_decided:
  assumes "ts_deadline s = Some d" and "io \<in> set ios" and "d \<le> pi_before io"
    and "task_inv role (ts_lifecycle s)" and "task_abs (ts_lifecycle s) = PWaiting"
    and "wait_started env ios s = None \<or> (\<exists>s'. wait_started env ios s = Some (s', None, rest))"
  shows "wait_started env ios s \<noteq> None \<and> io \<in> set rest"
  using assms
proof (induction ios arbitrary: s)
  case (Cons jo ios)
  obtain s1 r where p: "poll env jo s = (s1, r)" by force
  note step = poll_step [OF p Cons.prems(4)]
  from p Cons.prems(6) obtain out where r: "r = Inr out" by (cases r) auto
  have ne: "jo \<noteq> io" using poll_ok [of env jo s s1 out] check_deadline_expired [OF Cons.prems(1,3)] p r by auto
  show ?case
  proof (cases out)
    case None
    then show ?thesis using p r step Cons.IH [of s] Cons.prems ne by auto
  next
    case (Some v)
    then have "v = StartedOutput" using step r Cons.prems(5) waiting_output(1) by auto
    then show ?thesis using Some p r Cons.prems ne by auto
  qed
qed simp

lemma drain_audio_ok:
  "drain_audio env ios samples s = Some (s', Inr out) \<Longrightarrow> task_inv role (ts_lifecycle s) \<Longrightarrow>
     length samples \<le> MAX_TTS_SAMPLES \<Longrightarrow>
     task_identity (ts_lifecycle s') = task_identity (ts_lifecycle s) \<and> length out \<le> MAX_TTS_SAMPLES \<and>
     (if session_finished s then out = samples
      else list_ex (reads_finished (se_codec env)) ios \<and>
        encode_pcm16le out = encode_pcm16le samples @
          audio_bytes (takeWhile (\<lambda>io. \<not> reads_finished (se_codec env) io) ios))"
proof (induction ios arbitrary: samples s)
  case Nil
  then show ?case by (subst (asm) drain_audio.simps) (auto split: if_splits)
next
  case (Cons io ios)
  show ?case
  proof (cases "session_finished s")
    case True
    then show ?thesis using Cons.prems by (subst (asm) drain_audio.simps) auto
  next
    case False
    obtain s1 r where p: "poll env io s = (s1, r)" by force
    note step = poll_step [OF p Cons.prems(2)]
    from p False Cons.prems(1) obtain v where r: "r = Inr v"
      by (subst (asm) drain_audio.simps) (auto split: sum.splits)
    define samples' where "samples' = samples @ (case v of Some (AudioOutput chunk) \<Rightarrow> chunk | _ \<Rightarrow> [])"
    have d: "drain_audio env ios samples' s1 = Some (s', Inr out)" "length samples' \<le> MAX_TTS_SAMPLES"
      using p r False Cons.prems(1,3) unfolding samples'_def
      by (subst (asm) drain_audio.simps; auto simp: Let_def split: option.splits TaskOutput.splits if_splits)+
    have e: "encode_pcm16le samples' = encode_pcm16le samples @ audio_bytes [io]"
      using poll_audio [OF p [unfolded r]] by (auto simp: samples'_def encode_pcm16le_def split: option.split TaskOutput.split)
    note fin = poll_finished [OF p [unfolded r] False]
    show ?thesis
    proof (cases "v = Some FinishedOutput")
      case True
      then have "samples' = samples" by (simp add: samples'_def)
      then show ?thesis using Cons.IH [OF d(1) _ d(2)] step fin True False Cons.prems(3) by simp
    next
      case False
      then show ?thesis using Cons.IH [OF d(1) _ d(2)] step fin e \<open>\<not> session_finished s\<close> by simp
    qed
  qed
qed

lemma drain_audio_decided:
  assumes "ts_deadline s = Some d" and "io \<in> set ios" and "d \<le> pi_before io"
    and "task_inv role (ts_lifecycle s)"
    and "task_abs (ts_lifecycle s) = PFinished \<or> (\<exists>sent q. task_abs (ts_lifecycle s) = PLive True sent q)"
  shows "drain_audio env ios samples s \<noteq> None"
  using assms
proof (induction ios arbitrary: samples s)
  case (Cons jo ios)
  show ?case
  proof (cases "session_finished s")
    case True
    then show ?thesis by (subst drain_audio.simps) simp
  next
    case False
    then have live: "\<exists>sent q. task_abs (ts_lifecycle s) = PLive True sent q"
      using Cons.prems(5) by (auto simp: session_finished_def lifecycle_finished_def task_abs_def split: Phase.splits)
    obtain s1 r where p: "poll env jo s = (s1, r)" by force
    note step = poll_step [OF p Cons.prems(4)]
    show ?thesis
    proof (cases r)
      case (Inl e)
      then show ?thesis using p False by (subst drain_audio.simps) simp
    next
      case (Inr v)
      have ne: "jo \<noteq> io" using poll_ok [of env jo s s1 v] check_deadline_expired [OF Cons.prems(1,3)] p Inr by auto
      have "ts_deadline s1 = Some d \<and>
        (task_abs (ts_lifecycle s1) = PFinished \<or> (\<exists>sent q. task_abs (ts_lifecycle s1) = PLive True sent q))"
        using step live Inr poll_ok [of env jo s s1 v] p Cons.prems(1,5) waiting_output(2) [of role]
        by (cases v) fastforce+
      then have "drain_audio env ios samples' s1 \<noteq> None" for samples'
        using Cons.IH [of s1 samples'] Cons.prems(2,3) ne step by auto
      then show ?thesis using p Inr False by (subst drain_audio.simps) (auto simp: Let_def split: option.splits TaskOutput.splits)
    qed
  qed
qed simp

lemma session_connect_ok:
  assumes "session_connect env io provider role voice language = Inr s"
  shows "task_inv role (ts_lifecycle s) \<and> task_abs (ts_lifecycle s) = PWaiting \<and>
    task_identity (ts_lifecycle s) = (role, ci_task_id io) \<and>
    ts_timeout s = from_millis (max (tp_timeout_ms provider) 1000) \<and> ts_deadline s = Some (ci_now io + ts_timeout s) \<and>
    \<not> ts_draining s \<and> \<not> ts_finishing s"
proof -
  obtain l0 l cmd where l: "lifecycle_new (se_codec env) role (ci_task_id io) = Inr l0"
    "lifecycle_run (tp_model provider) voice language l0 = (l, Inr cmd)" "ts_lifecycle s = l"
    and rest: "ts_timeout s = from_millis (max (tp_timeout_ms provider) 1000) \<and>
      ts_deadline s = Some (ci_now io + ts_timeout s) \<and> \<not> ts_draining s \<and> \<not> ts_finishing s"
    using assms by (auto simp: session_connect_def Let_def simp del: str_def
      split: option.splits sum.splits prod.splits if_splits)
  have "task_inv role l" using command_step(1) lifecycle_new_inv l(1,2) by blast
  moreover have "l = l0\<lparr>tl_phase := AwaitingStarted\<rparr>"
    using l(2) by (auto simp: lifecycle_run_def simp del: str_def split: if_splits sum.splits)
  moreover have "task_identity l0 = (role, ci_task_id io)"
    using l(1) by (auto simp: lifecycle_new_def task_identity_def split: if_splits)
  ultimately show ?thesis using l(3) rest by (auto simp: task_abs_def task_identity_def)
qed

lemma session_continue_ok:
  assumes "session_continue_text env io txt s = (s', None)" and "task_inv role (ts_lifecycle s)"
  shows "task_inv role (ts_lifecycle s') \<and> task_identity (ts_lifecycle s') = task_identity (ts_lifecycle s) \<and>
    ts_timeout s' = ts_timeout s \<and> ts_draining s' = ts_draining s \<and> ts_finishing s' = ts_finishing s"
proof -
  obtain l cmd where l: "continue_text txt (ts_lifecycle s) = (l, Inr cmd)" "s' = s\<lparr>ts_lifecycle := l\<rparr>"
    using assms(1) by (auto simp: session_continue_text_def split: prod.splits sum.splits)
  then have "task_identity l = task_identity (ts_lifecycle s)"
    by (auto simp: continue_text_def task_identity_def simp del: str_def split: if_splits)
  then show ?thesis using l command_step(2) [OF assms(2) l(1)] by simp
qed

lemma session_finish_ok:
  assumes "session_finish env now io s = (s', None)" and "task_inv role (ts_lifecycle s)"
    and "\<not> ts_draining s" and "\<not> ts_finishing s"
  shows "task_inv role (ts_lifecycle s') \<and> task_identity (ts_lifecycle s') = task_identity (ts_lifecycle s) \<and>
    ts_deadline s' = Some (now + ts_timeout s) \<and> (\<exists>sent q. task_abs (ts_lifecycle s') = PLive True sent q)"
proof -
  obtain l cmd where l: "lifecycle_finish (ts_lifecycle s) = (l, Inr cmd)"
    "ts_lifecycle s' = l" "ts_deadline s' = Some (now + ts_timeout s)"
    using assms(1,3,4) by (auto simp: session_finish_def Let_def split: prod.splits sum.splits)
  have "task_identity l = task_identity (ts_lifecycle s)" "tl_phase l = Finishing"
    using l(1) by (auto simp: lifecycle_finish_def task_identity_def simp del: str_def split: if_splits)
  then show ?thesis using l command_step(3) [OF assms(2) l(1)] by (auto simp: task_abs_def)
qed

section \<open>Properties\<close>

text \<open>
  C18: A synthesis that succeeds returns the identifier of its own task and exactly the audio the
  server sent: some poll has read the end of the task, and the little-endian bytes of the samples are
  the concatenation of all binary frames polled before the first such poll, nothing lost, repeated,
  reordered or cut off early; there is some audio, and no more than twenty minutes of it.
\<close>

theorem synthesize_returns_sent_audio:
  assumes "synthesize env io provider txt voice language = Some (Inr (i, samples))"
  shows "i = ci_task_id (sy_connect io) \<and> samples \<noteq> [] \<and> length samples \<le> MAX_TTS_SAMPLES \<and>
    list_ex (reads_finished (se_codec env)) (sy_polls io) \<and>
    encode_pcm16le samples =
      audio_bytes (takeWhile (\<lambda>p. \<not> reads_finished (se_codec env) p) (sy_polls io))"
proof -
  obtain s0 s1 ios s2 s3 s4 where
    c: "session_connect env (sy_connect io) provider Tts (resolve_tts_voice voice) language = Inr s0" and
    w: "wait_started env (sy_polls io) s0 = Some (s1, None, ios)" and
    k: "session_continue_text env (sy_continue io) txt s1 = (s2, None)" and
    f: "session_finish env (sy_finish_at io) (sy_finish io) s2 = (s3, None)" and
    d: "drain_audio env ios [] s3 = Some (s4, Inr samples)" and
    i: "samples \<noteq> []" "i = tl_task_id (ts_lifecycle s4)"
    using assms by (auto simp: synthesize_def simp del: str_def
      split: if_splits sum.splits option.splits prod.splits)
  note C = session_connect_ok [OF c]
  note W = wait_started_ok [OF w, of Tts]
  then obtain pre where pre: "sy_polls io = pre @ ios" "audio_bytes pre = []"
    "\<not> list_ex (reads_finished (se_codec env)) pre" using C by blast
  have inv: "task_inv Tts (ts_lifecycle s3)" and id: "task_identity (ts_lifecycle s3) = (Tts, ci_task_id (sy_connect io))"
    using C W session_continue_ok [OF k, of Tts] session_finish_ok [OF f, of Tts] wait_started_settings [OF w]
    by auto
  have "\<not> session_finished s3"
    using C W session_continue_ok [OF k, of Tts] session_finish_ok [OF f, of Tts] wait_started_settings [OF w]
    by (auto simp: session_finished_def lifecycle_finished_def task_abs_def)
  then have D: "list_ex (reads_finished (se_codec env)) ios" "length samples \<le> MAX_TTS_SAMPLES"
    "task_identity (ts_lifecycle s4) = task_identity (ts_lifecycle s3)"
    "encode_pcm16le samples = audio_bytes (takeWhile (\<lambda>p. \<not> reads_finished (se_codec env) p) ios)"
    using drain_audio_ok [OF d inv] by (simp_all add: encode_pcm16le_def)
  have "takeWhile (\<lambda>p. \<not> reads_finished (se_codec env) p) (sy_polls io) =
      pre @ takeWhile (\<lambda>p. \<not> reads_finished (se_codec env) p) ios"
    using pre by (auto simp: list_ex_iff)
  then show ?thesis using D pre i id by (simp add: task_identity_def)
qed

text \<open>
  A synthesis cannot hang: with a poll at or after both deadlines (the start deadline, and the
  finish deadline that replaces it), the call has returned a result or an error, whatever the server
  sends or withholds, provided every poll comes back.
\<close>

theorem synthesize_deadline_decides:
  assumes "p \<in> set (sy_polls io)"
    and "ci_now (sy_connect io) + from_millis (max (tp_timeout_ms provider) 1000) \<le> pi_before p"
    and "sy_finish_at io + from_millis (max (tp_timeout_ms provider) 1000) \<le> pi_before p"
  shows "\<exists>result. synthesize env io provider txt voice language = Some result"
proof (rule ccontr)
  assume n: "\<not> ?thesis"
  then obtain s0 where c: "session_connect env (sy_connect io) provider Tts (resolve_tts_voice voice) language = Inr s0"
    by (auto simp: synthesize_def simp del: str_def split: if_splits sum.splits)
  note C = session_connect_ok [OF c]
  have "wait_started env (sy_polls io) s0 = None \<or> (\<exists>s1 rest. wait_started env (sy_polls io) s0 = Some (s1, None, rest))"
    using n c by (auto simp: synthesize_def simp del: str_def split: if_splits sum.splits option.splits)
  then obtain s1 rest where w: "wait_started env (sy_polls io) s0 = Some (s1, None, rest)" and p: "p \<in> set rest"
    using wait_started_decided [of s0 "ci_now (sy_connect io) + ts_timeout s0" p "sy_polls io" Tts env] C assms
    by auto
  note W = wait_started_ok [OF w, of Tts]
  obtain s2 s3 where k: "session_continue_text env (sy_continue io) txt s1 = (s2, None)"
    and f: "session_finish env (sy_finish_at io) (sy_finish io) s2 = (s3, None)" and d: "drain_audio env rest [] s3 = None"
    using n c w by (auto simp: synthesize_def simp del: str_def split: if_splits sum.splits option.splits prod.splits)
  have "task_inv Tts (ts_lifecycle s2)" "\<not> ts_draining s2" "\<not> ts_finishing s2" "ts_timeout s2 = ts_timeout s0"
    using session_continue_ok [OF k, of Tts] W C wait_started_settings [OF w] by auto
  note F = session_finish_ok [OF f this(1-3)]
  show False
    using drain_audio_decided [of s3 "sy_finish_at io + ts_timeout s0" p rest Tts env "[]"] F p d C assms(3)
      \<open>ts_timeout s2 = ts_timeout s0\<close> by auto
qed

section \<open>A concrete conversation\<close>

definition demo_tts_codec :: codec where
  "demo_tts_codec = demo_codec\<lparr>decode_tts := (\<lambda>j. case json_get (str ''sentence'') j of
     Some (JNumber (PosInt n)) \<Rightarrow> Inr \<lparr>to_kind = (if n = 1 then str ''sentence-begin'' else if n = 2
        then str ''sentence-synthesis'' else str ''sentence-end''), to_index = 0, to_original_text = Some (str ''hi'')\<rparr>
   | _ \<Rightarrow> Inl [])\<rparr>"

text \<open>A registry with one dialect and one profile for synthesis.\<close>

definition demo_dialect :: ModelProtocolDialect where
  "demo_dialect = (sample_dialect ''bailian-speech-synthesizer-duplex-task-ws-v1'' 1 ''pcm'' [''run-task'', ''continue-task'', ''finish-task'']
       [''task-started'', ''result-generated'', ''task-finished'', ''binary.audio''])
     \<lparr>dl_endpoint_path := str ''/api-ws/v1/inference'', dl_server_binary_event_types := [str ''binary.audio'']\<rparr>"

definition demo_profile :: ModelProtocolProfile where
  "demo_profile = (sample_profile ''bailian-speech-synthesizer-duplex-task-ws-v1'' ''desktop-qwen-audio-task-tts-v1'' ''tts'')
     \<lparr>mp_exact_model_ids := [str ''qwen-audio-3.0-tts-plus'']\<rparr>"

definition demo_registry :: registry_env where
  "demo_registry = sample_registry demo_dialect demo_profile"

definition demo_request :: ModelProtocolAuthorizationRequest where
  "demo_request = (sample_request ''pcm'' ''tts'')\<lparr>rq_exact_model_id := str ''qwen-audio-3.0-tts-plus'', rq_audio_input := None\<rparr>"

definition demo_authority :: AuthorizedModelProtocolProfile where
  "demo_authority = issue (the (rg_registry demo_registry)) demo_request demo_profile None demo_dialect
     (str ''dashscope.aliyuncs.com'') (str ''generic'') (str ''desktop-qwen-audio-task-tts-v1'')"

definition demo_env :: session_env where
  "demo_env = \<lparr>se_codec = demo_tts_codec,
     se_parse_json = (\<lambda>t. Inr (JObject [(str ''header'', JObject [(str ''event'', JString (tl t))])])),
     se_registry = demo_registry\<rparr>"

lemma demo_env_simps:
  "se_codec demo_env = demo_tts_codec" "se_registry demo_env = demo_registry"
  "se_parse_json demo_env = (\<lambda>t. Inr (JObject [(str ''header'', JObject [(str ''event'', JString (tl t))])]))"
  by (simp_all add: demo_env_def)

lemma demo_authorized:
  "authorize_model_protocol_invocation_with_binding demo_registry demo_request None = Inr demo_authority"
proof -
  have "trim (str ''qwen-audio-3.0-tts-plus'') = str ''qwen-audio-3.0-tts-plus''" "str ''qwen-audio-3.0-tts-plus'' \<noteq> []"
    by (simp_all add: trim_def trim_start_def trim_end_def is_whitespace_def)
  moreover have "resolve_endpoint_host_family (the (rg_registry demo_registry)) (str ''cn-beijing'')
      (str ''dashscope.aliyuncs.com'') demo_profile = Inr (str ''dashscope.aliyuncs.com'', str ''generic'')"
    unfolding demo_registry_def by (rule sample_host) (simp add: demo_profile_def sample_profile_def del: str_def)
  ultimately show ?thesis
    by (simp add: authorize_model_protocol_invocation_with_binding_def registry_def select_profile_def select_candidate_def
        profiles_for_model_def authorize_dialect_def find_dialect_def validate_requested_audio_def materialize_audio_constraint_def
        sample_rate_allowed_def demo_authority_def demo_request_def demo_registry_def demo_profile_def demo_dialect_def
        sample_registry_def sample_profile_def sample_dialect_def sample_request_def
        sample_direction_def audio_spec_def reject_if_def ok_or_def is_some_and_def str_eq_iff del: str_def) simp
qed

text \<open>The events of the dialect with their frames.\<close>

definition demo_listed :: "ModelProtocolEventDirection \<Rightarrow> rstring \<Rightarrow> ModelProtocolFrameKind \<Rightarrow> bool" where
  "demo_listed direction kind frame =
     (case direction of
        ClientEvent \<Rightarrow> kind \<in> set (map str [''run-task'', ''continue-task'', ''finish-task'']) \<and> frame = JsonFrame
      | ServerEvent \<Rightarrow> if kind = str ''binary.audio'' then frame = BinaryProtocolFrame
          else kind \<in> set (map str [''task-started'', ''result-generated'', ''task-finished'']) \<and> frame = JsonFrame)"

lemma demo_verdict:
  assumes "demo_listed direction kind frame"
  shows "registry_verdict demo_registry demo_authority direction kind frame = None"
proof (rule verdict_listed [OF demo_authorized])
  show "\<forall>r. rg_registry demo_registry = Some r \<longrightarrow> distinct (map mp_profile_id (mr_profiles r))"
    unfolding demo_registry_def by (rule sample_distinct)
  show "requested_audio_expected demo_authority"
    by (simp add: requested_audio_expected_def expected_adapter_audio_def demo_authority_def issue_def demo_request_def
        sample_request_def str_eq_iff del: str_def)
  show "kind \<in> set (event_allowlist direction demo_authority)" "event_frame direction demo_authority kind = frame"
    using assms
    by (auto simp: demo_listed_def event_allowlist_def event_frame_def demo_authority_def issue_def demo_dialect_def
        sample_dialect_def str_eq_iff simp del: str_def split: ModelProtocolEventDirection.splits if_splits)
qed

lemma demo_admit [simp]:
  "demo_listed direction kind frame \<Longrightarrow> ts_authority s = demo_authority \<Longrightarrow> session_admit demo_env direction kind frame s = None"
  by (simp add: session_admit_def demo_env_simps demo_verdict)

definition demo_send :: send_io where
  "demo_send = \<lparr>si_before = 0, si_failure = None, si_after = 0\<rparr>"

definition demo_poll :: "ws_message \<Rightarrow> poll_io" where
  "demo_poll m = \<lparr>pi_before = 0, pi_read = ReadFrame m, pi_flush_failure = None, pi_after = 0, pi_received = 0\<rparr>"

definition demo_late_poll :: poll_io where
  "demo_late_poll = \<lparr>pi_before = from_secs 90, pi_read = WouldBlock, pi_flush_failure = None,
     pi_after = from_secs 90, pi_received = from_secs 90\<rparr>"

definition demo_provider :: TaskProvider where
  "demo_provider = \<lparr>tp_kind = str ''dashscope'', tp_model = str ''qwen-audio-3.0-tts-plus'',
     tp_transport = str ''websocket'', tp_auth_scheme = str ''bearer'', tp_auth_header_name = str ''Authorization'',
     tp_timeout_ms = 30000\<rparr>"

lemma demo_provider_simps:
  "tp_model demo_provider = str ''qwen-audio-3.0-tts-plus''" "tp_timeout_ms demo_provider = 30000"
  by (simp_all add: demo_provider_def)

lemma demo_validated: "validate_authority demo_provider Tts demo_authority = None"
  by (simp add: validate_authority_def demo_provider_def demo_authority_def issue_def demo_request_def demo_profile_def
      demo_dialect_def sample_request_def sample_profile_def sample_dialect_def sample_direction_def audio_spec_def
      materialize_audio_constraint_def is_tts_model_def TTS_ADAPTER_ID_def TTS_DIALECT_ID_def to_ascii_lowercase_def)

definition demo_io :: "poll_io list \<Rightarrow> synthesis_io" where
  "demo_io polls = \<lparr>sy_connect = \<lparr>ci_allowed = None, ci_authority = Inr demo_authority, ci_task_id = str ''t'',
       ci_now = 0, ci_socket_error = None, ci_opened = 0, ci_send = demo_send\<rparr>,
     sy_polls = polls, sy_continue = demo_send, sy_finish_at = 0, sy_finish = demo_send\<rparr>"

definition demo_polls :: "poll_io list" where
  "demo_polls = map demo_poll [TextFrame (0 # str ''task-started''), TextFrame (1 # str ''result-generated''),
     TextFrame (2 # str ''result-generated''), BinaryFrame [1, 2, 3, 4], TextFrame (3 # str ''result-generated''),
     TextFrame (0 # str ''task-finished'')]"

lemma demo_connect:
  "session_connect demo_env (sy_connect (demo_io ps)) demo_provider Tts (resolve_tts_voice []) [] =
     Inr \<lparr>ts_lifecycle = (demo_task Tts)\<lparr>tl_phase := AwaitingStarted\<rparr>, ts_authority = demo_authority,
       ts_timeout = from_secs 30, ts_deadline = Some (from_secs 30), ts_draining = False, ts_finishing = False,
       ts_idle_deadline = from_secs 60\<rparr>"
  by (simp add: session_connect_def demo_io_def demo_env_simps demo_provider_simps demo_validated demo_listed_def
      is_tts_model_def to_ascii_lowercase_def
      demo_tts_codec_def demo_codec_def lifecycle_new_def lifecycle_run_def resolve_tts_voice_def DEFAULT_TTS_VOICE_def
      trim_def trim_start_def trim_end_def is_whitespace_def run_parameters_def Let_def send_json_def demo_send_def
      check_deadline_def duration_simps header_field_def command_def demo_task_def)

lemmas demo_poll_eval = poll_def demo_poll_def check_deadline_def duration_simps poll_frame_def admit_frame_def
  demo_env_simps demo_listed_def header_field_def receive_def receive_inner_def receive_text_def receive_event_def
  receive_binary_def tts_result_def tts_sentence_def demo_tts_codec_def demo_codec_def demo_envelope_def
  demo_task_def lifecycle_new_def checked_add_u64_def u64_max_def session_finished_def lifecycle_finished_def
  session_continue_text_def continue_text_def session_finish_def lifecycle_finish_def send_json_def demo_send_def
  command_def trim_def trim_start_def trim_end_def is_whitespace_def MAX_TTS_SAMPLES_def

lemma demo_synthesis:
  "synthesize demo_env (demo_io demo_polls) demo_provider (str ''hi'') [] [] =
     Some (Inr (str ''t'', chunks_exact_2 [1, 2, 3, 4]))"
  unfolding synthesize_def demo_connect
  by (simp add: demo_io_def demo_polls_def demo_poll_eval drain_audio.simps Let_def)

theorem synthesize_returns_sent_audio_witness:
  "list_ex (reads_finished demo_tts_codec) demo_polls \<and>
   encode_pcm16le (chunks_exact_2 [1, 2, 3, 4]) =
     audio_bytes (takeWhile (\<lambda>p. \<not> reads_finished demo_tts_codec p) demo_polls)"
  using synthesize_returns_sent_audio [OF demo_synthesis] by (simp add: demo_io_def demo_env_simps)

theorem synthesize_deadline_decides_witness:
  "\<exists>result. synthesize demo_env (demo_io [demo_late_poll]) demo_provider (str ''hi'') [] [] = Some result"
  by (rule synthesize_deadline_decides [of demo_late_poll])
    (simp_all add: demo_io_def demo_provider_def demo_late_poll_def duration_simps)

end
