(* ===== verification/Playback_Quiescence.thy ===== *)
theory Playback_Quiescence
  imports Omni_Prelude "HOL-Library.Multiset"
begin

text \<open>
  The quiescence ledger of translated playback (\<open>audio/state/playback_quiescence.rs\<close>): what still has
  to be played, and the restart barrier that a generation switch takes only when nothing does. Each
  definition is one critical section of the source's mutex; a call that waits on the condition
  variable while the barrier is up has no value then, and is tried again after the barrier is
  dropped. \<open>usize\<close> has 64 bits. The map of active cues is a list of entries with distinct keys whose
  order nothing observes, which is shown and not assumed.
\<close>

record TranslationPlaybackAuthority =
  pa_session_id :: rstring
  pa_bridge_instance_id :: rstring
  pa_source_generation :: nat
  pa_source_generation_token :: rstring
  pa_playback_owner_generation :: nat
  pa_physical_playback_device_id :: rstring

record QuiescenceSnapshot =
  qn_pending_native_audio :: bool
  qn_queued_commands :: nat
  qn_active_commands :: nat
  qn_pending_audio_frames :: "nat option"
  qn_output_sample_rate_hz :: "nat option"
  qn_pending_playback_submissions :: nat
  qn_pending_bridge_acks :: nat
  qn_active_bridge_cues :: nat
  qn_restart_barrier :: bool

definition is_quiescent :: "QuiescenceSnapshot \<Rightarrow> bool" where
  "is_quiescent n \<longleftrightarrow> \<not> qn_pending_native_audio n \<and> qn_queued_commands n = 0 \<and> qn_active_commands n = 0 \<and>
     \<not> is_some_and (qn_pending_audio_frames n) (\<lambda>frames. frames > 0) \<and> qn_pending_playback_submissions n = 0 \<and>
     qn_pending_bridge_acks n = 0 \<and> qn_active_bridge_cues n = 0 \<and> \<not> qn_restart_barrier n"

record BridgePlaybackCue =
  bc_authority :: "TranslationPlaybackAuthority option"
  bc_pending_audio_frames :: "nat option"
  bc_output_sample_rate_hz :: "nat option"

record QuiescenceState =
  qs_snapshot :: QuiescenceSnapshot
  qs_queued_audio_frames :: nat
  qs_queued_audio_sample_rate_hz :: nat
  qs_active_bridge_cues :: "(rstring \<times> BridgePlaybackCue) list"

definition quiescence_default :: QuiescenceState where
  "quiescence_default = \<lparr>qs_snapshot = \<lparr>qn_pending_native_audio = False, qn_queued_commands = 0,
       qn_active_commands = 0, qn_pending_audio_frames = None, qn_output_sample_rate_hz = None,
       qn_pending_playback_submissions = 0, qn_pending_bridge_acks = 0, qn_active_bridge_cues = 0,
       qn_restart_barrier = False\<rparr>,
     qs_queued_audio_frames = 0, qs_queued_audio_sample_rate_hz = 0, qs_active_bridge_cues = []\<rparr>"

abbreviation barrier :: "QuiescenceState \<Rightarrow> bool" where
  "barrier s \<equiv> qn_restart_barrier (qs_snapshot s)"

definition on_snapshot :: "(QuiescenceSnapshot \<Rightarrow> QuiescenceSnapshot) \<Rightarrow> QuiescenceState \<Rightarrow> QuiescenceState" where
  "on_snapshot f s = s\<lparr>qs_snapshot := f (qs_snapshot s)\<rparr>"

fun refresh_loop :: "nat \<Rightarrow> nat option \<Rightarrow> BridgePlaybackCue list \<Rightarrow> (nat \<times> nat option) option" where
  "refresh_loop acc rate [] = Some (acc, rate)"
| "refresh_loop acc rate (cue # cues) =
     (case (bc_pending_audio_frames cue, bc_output_sample_rate_hz cue) of
        (Some frames, Some cue_rate) \<Rightarrow>
          (case rate of
             Some existing \<Rightarrow>
               if existing \<noteq> cue_rate then None else refresh_loop (sat_add_u64 acc frames) rate cues
           | None \<Rightarrow> refresh_loop (sat_add_u64 acc frames) (Some cue_rate) cues)
      | _ \<Rightarrow> None)"

definition refresh_pending_audio :: "QuiescenceState \<Rightarrow> QuiescenceState" where
  "refresh_pending_audio s =
     (case refresh_loop (qs_queued_audio_frames s)
             (if qs_queued_audio_sample_rate_hz s > 0 then Some (qs_queued_audio_sample_rate_hz s) else None)
             (map snd (qs_active_bridge_cues s)) of
        None \<Rightarrow> on_snapshot (\<lambda>n. n\<lparr>qn_pending_audio_frames := None, qn_output_sample_rate_hz := None\<rparr>) s
      | Some (acc, rate) \<Rightarrow>
          on_snapshot (\<lambda>n. n\<lparr>qn_pending_audio_frames := Some acc, qn_output_sample_rate_hz := rate\<rparr>) s)"

definition set_pending_native_audio :: "bool \<Rightarrow> QuiescenceState \<Rightarrow> QuiescenceState option" where
  "set_pending_native_audio pending s =
     (if pending \<and> barrier s then None else Some (on_snapshot (\<lambda>n. n\<lparr>qn_pending_native_audio := pending\<rparr>) s))"

definition set_queue_state :: "nat \<Rightarrow> nat \<Rightarrow> nat \<Rightarrow> nat \<Rightarrow> QuiescenceState \<Rightarrow> QuiescenceState" where
  "set_queue_state queued active frames rate s =
     refresh_pending_audio
       ((on_snapshot (\<lambda>n. n\<lparr>qn_queued_commands := queued, qn_active_commands := active\<rparr>) s)
          \<lparr>qs_queued_audio_frames := frames, qs_queued_audio_sample_rate_hz := rate\<rparr>)"

definition begin_bridge_ack :: "QuiescenceState \<Rightarrow> QuiescenceState option" where
  "begin_bridge_ack s =
     (if barrier s then None
      else Some (on_snapshot (\<lambda>n. n\<lparr>qn_pending_bridge_acks := sat_add_u64 (qn_pending_bridge_acks n) 1\<rparr>) s))"

text \<open>The tail shared by every change of the cue map.\<close>

definition recount_cues :: "QuiescenceState \<Rightarrow> QuiescenceState" where
  "recount_cues s =
     refresh_pending_audio (on_snapshot (\<lambda>n. n\<lparr>qn_active_bridge_cues := length (qs_active_bridge_cues s)\<rparr>) s)"

definition unowned_cue :: BridgePlaybackCue where
  "unowned_cue = \<lparr>bc_authority = None, bc_pending_audio_frames = None, bc_output_sample_rate_hz = None\<rparr>"

definition is_terminal_status :: "rstring \<Rightarrow> bool" where
  "is_terminal_status status \<longleftrightarrow> status = str ''completed'' \<or> status = str ''route-failed'' \<or> status = str ''stale-dropped''"

definition observe_bridge_playback_status :: "rstring \<Rightarrow> rstring \<Rightarrow> QuiescenceState \<Rightarrow> QuiescenceState" where
  "observe_bridge_playback_status cue_id status s =
     (let cues = qs_active_bridge_cues s in
      if status = str ''queued'' \<or> status = str ''started''
      then recount_cues (if map_of cues cue_id = None
             then s\<lparr>qs_active_bridge_cues := hash_insert cue_id unowned_cue cues\<rparr> else s)
      else if is_terminal_status status
      then recount_cues (if is_some_and (map_of cues cue_id) (\<lambda>cue. bc_authority cue = None)
             then s\<lparr>qs_active_bridge_cues := hash_remove cue_id cues\<rparr> else s)
      else s)"

definition owned_cue :: "TranslationPlaybackAuthority \<Rightarrow> nat \<Rightarrow> nat \<Rightarrow> BridgePlaybackCue option \<Rightarrow> BridgePlaybackCue" where
  "owned_cue authority audio_frames rate entry =
     (let cue = (case entry of Some cue \<Rightarrow> cue
                 | None \<Rightarrow> \<lparr>bc_authority = Some authority, bc_pending_audio_frames = Some 0,
                            bc_output_sample_rate_hz = Some rate\<rparr>) in
      if bc_authority cue = Some authority
      then (if bc_output_sample_rate_hz cue = Some rate
            then cue\<lparr>bc_pending_audio_frames := map_option (\<lambda>frames. sat_add_u64 frames audio_frames) (bc_pending_audio_frames cue)\<rparr>
            else cue\<lparr>bc_pending_audio_frames := None, bc_output_sample_rate_hz := None\<rparr>)
      else \<lparr>bc_authority = Some authority, bc_pending_audio_frames = Some audio_frames,
            bc_output_sample_rate_hz = Some rate\<rparr>)"

definition expect_bridge_playback_cue_for_owner ::
  "rstring \<Rightarrow> TranslationPlaybackAuthority \<Rightarrow> nat \<Rightarrow> nat \<Rightarrow> QuiescenceState \<Rightarrow> QuiescenceState option" where
  "expect_bridge_playback_cue_for_owner cue_id authority audio_frames rate s =
     (if trim cue_id = [] then Some s
      else if barrier s then None
      else Some (recount_cues (s\<lparr>qs_active_bridge_cues := hash_insert cue_id
             (owned_cue authority audio_frames rate (map_of (qs_active_bridge_cues s) cue_id))
             (qs_active_bridge_cues s)\<rparr>)))"

definition bridge_playback_cue_matches_owner ::
  "rstring \<Rightarrow> TranslationPlaybackAuthority \<Rightarrow> QuiescenceState \<Rightarrow> bool" where
  "bridge_playback_cue_matches_owner cue_id authority s \<longleftrightarrow>
     is_some_and (map_of (qs_active_bridge_cues s) cue_id) (\<lambda>expected. bc_authority expected = Some authority)"

definition observe_bridge_playback_status_for_owner ::
  "rstring \<Rightarrow> rstring \<Rightarrow> TranslationPlaybackAuthority \<Rightarrow> QuiescenceState \<Rightarrow> QuiescenceState \<times> bool" where
  "observe_bridge_playback_status_for_owner cue_id status authority s =
     (if \<not> bridge_playback_cue_matches_owner cue_id authority s then (s, False)
      else if is_terminal_status status
      then (recount_cues (s\<lparr>qs_active_bridge_cues := hash_remove cue_id (qs_active_bridge_cues s)\<rparr>), True)
      else (s, True))"

definition wait_for_restart_barrier :: "QuiescenceState \<Rightarrow> QuiescenceState option" where
  "wait_for_restart_barrier s =
     (if barrier s then None
      else Some (on_snapshot (\<lambda>n. n\<lparr>qn_pending_playback_submissions :=
             sat_add_u64 (qn_pending_playback_submissions n) 1\<rparr>) s))"

definition try_begin_restart_barrier :: "QuiescenceState \<Rightarrow> QuiescenceState option" where
  "try_begin_restart_barrier s =
     (if \<not> is_quiescent (qs_snapshot s) then None
      else Some (on_snapshot (\<lambda>n. n\<lparr>qn_restart_barrier := True\<rparr>) s))"

definition drop_submission_guard :: "QuiescenceState \<Rightarrow> QuiescenceState" where
  "drop_submission_guard s =
     on_snapshot (\<lambda>n. n\<lparr>qn_pending_playback_submissions := qn_pending_playback_submissions n - 1\<rparr>) s"

definition drop_ack_guard :: "QuiescenceState \<Rightarrow> QuiescenceState" where
  "drop_ack_guard s = on_snapshot (\<lambda>n. n\<lparr>qn_pending_bridge_acks := qn_pending_bridge_acks n - 1\<rparr>) s"

definition drop_restart_guard :: "QuiescenceState \<Rightarrow> QuiescenceState" where
  "drop_restart_guard s = on_snapshot (\<lambda>n. n\<lparr>qn_restart_barrier := False\<rparr>) s"

section \<open>Threads\<close>

text \<open>
  The ledger with the guards that are alive. A guard is dropped once, by its owner, so a drop step
  needs a live guard. A call that has to wait, and an attempt that is refused, change nothing.
\<close>

record quiescence_system =
  qy_state :: QuiescenceState
  qy_submissions :: nat
  qy_acks :: nat
  qy_restarts :: nat

datatype quiescence_op =
    SetPendingNative bool
  | SetQueue nat nat nat nat
  | BeginAck
  | ObserveStatus rstring rstring
  | ExpectCue rstring TranslationPlaybackAuthority nat nat
  | ObserveOwned rstring rstring TranslationPlaybackAuthority
  | Reserve
  | TryRestart
  | DropSubmission
  | DropAck
  | DropRestart

definition enter :: "(quiescence_system \<Rightarrow> quiescence_system) \<Rightarrow> QuiescenceState option \<Rightarrow> quiescence_system \<Rightarrow> quiescence_system" where
  "enter ghost r y = (case r of None \<Rightarrow> y | Some s \<Rightarrow> ghost (y\<lparr>qy_state := s\<rparr>))"

fun quiescence_step :: "quiescence_system \<Rightarrow> quiescence_op \<Rightarrow> quiescence_system" where
  "quiescence_step y (SetPendingNative b) = enter id (set_pending_native_audio b (qy_state y)) y"
| "quiescence_step y (SetQueue q a f r) = y\<lparr>qy_state := set_queue_state q a f r (qy_state y)\<rparr>"
| "quiescence_step y BeginAck = enter (\<lambda>y. y\<lparr>qy_acks := qy_acks y + 1\<rparr>) (begin_bridge_ack (qy_state y)) y"
| "quiescence_step y (ObserveStatus c t) = y\<lparr>qy_state := observe_bridge_playback_status c t (qy_state y)\<rparr>"
| "quiescence_step y (ExpectCue c a f r) = enter id (expect_bridge_playback_cue_for_owner c a f r (qy_state y)) y"
| "quiescence_step y (ObserveOwned c t a) =
     y\<lparr>qy_state := fst (observe_bridge_playback_status_for_owner c t a (qy_state y))\<rparr>"
| "quiescence_step y Reserve =
     enter (\<lambda>y. y\<lparr>qy_submissions := qy_submissions y + 1\<rparr>) (wait_for_restart_barrier (qy_state y)) y"
| "quiescence_step y TryRestart =
     enter (\<lambda>y. y\<lparr>qy_restarts := qy_restarts y + 1\<rparr>) (try_begin_restart_barrier (qy_state y)) y"
| "quiescence_step y DropSubmission =
     (if qy_submissions y = 0 then y
      else y\<lparr>qy_submissions := qy_submissions y - 1, qy_state := drop_submission_guard (qy_state y)\<rparr>)"
| "quiescence_step y DropAck =
     (if qy_acks y = 0 then y
      else y\<lparr>qy_acks := qy_acks y - 1, qy_state := drop_ack_guard (qy_state y)\<rparr>)"
| "quiescence_step y DropRestart =
     (if qy_restarts y = 0 then y
      else y\<lparr>qy_restarts := qy_restarts y - 1, qy_state := drop_restart_guard (qy_state y)\<rparr>)"

definition quiescence_init :: quiescence_system where
  "quiescence_init = \<lparr>qy_state = quiescence_default, qy_submissions = 0, qy_acks = 0, qy_restarts = 0\<rparr>"

section \<open>Pending audio\<close>

text \<open>What the loop computes, from the collection of cues without an order.\<close>

definition exact_cue :: "BridgePlaybackCue \<Rightarrow> bool" where
  "exact_cue cue \<longleftrightarrow> bc_pending_audio_frames cue \<noteq> None \<and> bc_output_sample_rate_hz cue \<noteq> None"

definition pending_audio_of :: "nat \<Rightarrow> nat option \<Rightarrow> BridgePlaybackCue multiset \<Rightarrow> (nat \<times> nat option) option" where
  "pending_audio_of queued rate cues =
     (let rates = set_option rate \<union> (the \<circ> bc_output_sample_rate_hz) ` set_mset cues
      in if (\<forall>cue\<in>#cues. exact_cue cue) \<and> card rates \<le> 1
         then Some (min u64_max (queued + (\<Sum>cue\<in>#cues. the (bc_pending_audio_frames cue))),
                    if rates = {} then None else Some (the_elem rates))
         else None)"

lemma sat_add_assoc: "min u64_max (sat_add_u64 a b + c) = min u64_max (a + b + c)"
  by (simp add: sat_add_u64_def min_def)

lemma card_insert_le_1: "finite R \<Longrightarrow> card (insert r R) \<le> 1 \<longleftrightarrow> R \<subseteq> {r}"
  by (auto simp: card_insert_if card_le_Suc0_iff_eq subset_singleton_iff)

lemma refresh_loop_spec:
  "acc \<le> u64_max \<Longrightarrow> refresh_loop acc rate cues = pending_audio_of acc rate (mset cues)"
proof (induction cues arbitrary: acc rate)
  case Nil
  then show ?case by (cases rate) (auto simp: pending_audio_of_def)
next
  case (Cons cue cues)
  show ?case
  proof (cases "exact_cue cue")
    case False
    then show ?thesis by (auto simp: pending_audio_of_def exact_cue_def split: option.split)
  next
    case True
    then obtain f r where fr: "bc_pending_audio_frames cue = Some f" "bc_output_sample_rate_hz cue = Some r"
      by (auto simp: exact_cue_def)
    have IH: "refresh_loop (sat_add_u64 acc f) (Some r) cues =
        pending_audio_of (sat_add_u64 acc f) (Some r) (mset cues)"
      by (rule Cons.IH) simp
    have eq: "pending_audio_of (sat_add_u64 acc f) (Some r) (mset cues) = pending_audio_of acc rate (mset (cue # cues))"
      if "rate = None \<or> rate = Some r"
      using that True fr sat_add_assoc [of acc f]
      by (auto simp: pending_audio_of_def Let_def add.assoc)
    show ?thesis
    proof (cases "rate = None \<or> rate = Some r")
      case True
      then show ?thesis using fr IH eq by auto
    next
      case False
      then obtain e where "rate = Some e" "e \<noteq> r" by auto
      moreover have "\<not> card (insert e ((the \<circ> bc_output_sample_rate_hz) ` set_mset (mset (cue # cues)))) \<le> 1"
        using fr \<open>e \<noteq> r\<close> by (subst card_insert_le_1) auto
      ultimately show ?thesis using fr by (simp add: pending_audio_of_def Let_def insert_commute del: One_nat_def)
    qed
  qed
qed

section \<open>Invariant\<close>

definition no_owned_cue :: "QuiescenceState \<Rightarrow> bool" where
  "no_owned_cue s \<longleftrightarrow> (\<forall>p\<in>set (qs_active_bridge_cues s). bc_authority (snd p) = None)"

definition quiescence_inv :: "quiescence_system \<Rightarrow> nat \<Rightarrow> bool" where
  "quiescence_inv y k \<longleftrightarrow>
     (let s = qy_state y; n = qs_snapshot s in
      qy_submissions y \<le> k \<and> qy_acks y \<le> k \<and> qn_pending_playback_submissions n = qy_submissions y \<and>
      qn_pending_bridge_acks n = qy_acks y \<and> qy_restarts y = (if barrier s then 1 else 0) \<and>
      distinct (map fst (qs_active_bridge_cues s)) \<and> qn_active_bridge_cues n = length (qs_active_bridge_cues s) \<and>
      (barrier s \<longrightarrow> qy_submissions y = 0 \<and> qy_acks y = 0 \<and> \<not> qn_pending_native_audio n \<and> no_owned_cue s))"

lemma on_snapshot_simps [simp]:
  "qs_snapshot (on_snapshot f s) = f (qs_snapshot s)"
  "qs_active_bridge_cues (on_snapshot f s) = qs_active_bridge_cues s"
  "qs_queued_audio_frames (on_snapshot f s) = qs_queued_audio_frames s"
  "qs_queued_audio_sample_rate_hz (on_snapshot f s) = qs_queued_audio_sample_rate_hz s"
  by (simp_all add: on_snapshot_def)

lemma refresh_simps [simp]:
  "qs_active_bridge_cues (refresh_pending_audio s) = qs_active_bridge_cues s"
  "qn_pending_native_audio (qs_snapshot (refresh_pending_audio s)) = qn_pending_native_audio (qs_snapshot s)"
  "qn_pending_playback_submissions (qs_snapshot (refresh_pending_audio s)) = qn_pending_playback_submissions (qs_snapshot s)"
  "qn_pending_bridge_acks (qs_snapshot (refresh_pending_audio s)) = qn_pending_bridge_acks (qs_snapshot s)"
  "qn_active_bridge_cues (qs_snapshot (refresh_pending_audio s)) = qn_active_bridge_cues (qs_snapshot s)"
  "barrier (refresh_pending_audio s) = barrier s"
  by (simp_all add: refresh_pending_audio_def split: option.split)

lemma recount_simps [simp]:
  "qs_active_bridge_cues (recount_cues s) = qs_active_bridge_cues s"
  "qn_pending_native_audio (qs_snapshot (recount_cues s)) = qn_pending_native_audio (qs_snapshot s)"
  "qn_pending_playback_submissions (qs_snapshot (recount_cues s)) = qn_pending_playback_submissions (qs_snapshot s)"
  "qn_pending_bridge_acks (qs_snapshot (recount_cues s)) = qn_pending_bridge_acks (qs_snapshot s)"
  "qn_active_bridge_cues (qs_snapshot (recount_cues s)) = length (qs_active_bridge_cues s)"
  "barrier (recount_cues s) = barrier s"
  by (simp_all add: recount_cues_def)

lemma distinct_hash [simp]:
  "distinct (map fst m) \<Longrightarrow> distinct (map fst (hash_insert k v m))"
  "distinct (map fst m) \<Longrightarrow> distinct (map fst (hash_remove k m))"
  by (auto simp: hash_insert_def hash_remove_def distinct_map_filter)

lemma map_of_hash [simp]:
  "map_of (hash_insert k v m) = (map_of m)(k \<mapsto> v)" "map_of (hash_remove k m) = (map_of m)(k := None)"
  using map_of_filter_key [of "\<lambda>x. x \<noteq> k" m] by (auto simp: hash_insert_def hash_remove_def)

lemma no_owned_cue_simps [simp]:
  "no_owned_cue (on_snapshot f s) = no_owned_cue s" "no_owned_cue (recount_cues s) = no_owned_cue s"
  "no_owned_cue (refresh_pending_audio s) = no_owned_cue s"
  "no_owned_cue (s\<lparr>qs_queued_audio_frames := f', qs_queued_audio_sample_rate_hz := r\<rparr>) = no_owned_cue s"
  by (simp_all add: no_owned_cue_def)

lemma no_owned_insert:
  "no_owned_cue s \<Longrightarrow> no_owned_cue (s\<lparr>qs_active_bridge_cues := hash_insert k unowned_cue (qs_active_bridge_cues s)\<rparr>)"
  "no_owned_cue s \<Longrightarrow> no_owned_cue (s\<lparr>qs_active_bridge_cues := hash_remove k (qs_active_bridge_cues s)\<rparr>)"
  by (auto simp: no_owned_cue_def hash_insert_def hash_remove_def unowned_cue_def)

lemmas quiescence_defs [component_simps] = set_pending_native_audio_def set_queue_state_def begin_bridge_ack_def
  expect_bridge_playback_cue_for_owner_def observe_bridge_playback_status_for_owner_def
  wait_for_restart_barrier_def drop_submission_guard_def drop_ack_guard_def drop_restart_guard_def enter_def

lemma try_restart_inv:
  "quiescence_inv y k \<Longrightarrow> quiescence_inv (quiescence_step y TryRestart) (Suc k)"
  by (auto simp: quiescence_inv_def try_begin_restart_barrier_def is_quiescent_def Let_def enter_def no_owned_cue_def)

lemma observe_status_inv:
  "quiescence_inv y k \<Longrightarrow> quiescence_inv (quiescence_step y (ObserveStatus c t)) (Suc k)"
  by (auto simp: quiescence_inv_def observe_bridge_playback_status_def Let_def no_owned_insert simp del: str_def)

lemma quiescence_step_inv:
  assumes "quiescence_inv y k" and "k < u64_max"
  shows "quiescence_inv (quiescence_step y e) (Suc k)"
proof (cases e)
  case TryRestart
  then show ?thesis using try_restart_inv assms(1) by simp
next
  case (ObserveStatus c t)
  then show ?thesis using observe_status_inv assms(1) by simp
next
  case (ObserveOwned c t a)
  then show ?thesis using assms(1)
    by (auto simp: quiescence_inv_def component_simps Let_def no_owned_insert simp del: str_def)
qed (use assms in \<open>auto simp: quiescence_inv_def component_simps Let_def sat_add_u64_def simp del: str_def
       split: option.split\<close>)

text \<open>The steps are counted so that the saturating counters stay exact.\<close>

definition counted_step :: "quiescence_system \<times> nat \<Rightarrow> quiescence_op \<Rightarrow> quiescence_system \<times> nat" where
  "counted_step p e = (quiescence_step (fst p) e, Suc (snd p))"

lemma runs_counted: "runs counted_step (y, k) ops = (runs quiescence_step y ops, k + length ops)"
  by (induction ops arbitrary: y k) (simp_all add: counted_step_def)

lemma quiescence_init_inv: "quiescence_inv quiescence_init 0"
  by (simp add: quiescence_inv_def quiescence_init_def quiescence_default_def)

interpretation quiescence: invariant_system "(quiescence_init, 0)" counted_step
  "\<lambda>p. snd p \<le> u64_max \<longrightarrow> quiescence_inv (fst p) (snd p)"
  by unfold_locales (auto simp: counted_step_def quiescence_init_inv intro!: quiescence_step_inv)

lemma quiescence_reachable:
  "length ops \<le> u64_max \<Longrightarrow> quiescence_inv (runs quiescence_step quiescence_init ops) (length ops)"
  using quiescence.inv_reachable [of ops] by (simp add: runs_counted)

section \<open>Owned cues\<close>

definition owned :: "rstring \<Rightarrow> QuiescenceState \<Rightarrow> bool" where
  "owned c s \<longleftrightarrow> (\<exists>cue. map_of (qs_active_bridge_cues s) c = Some cue \<and> bc_authority cue \<noteq> None)"

definition ends_cue :: "rstring \<Rightarrow> quiescence_op \<Rightarrow> bool" where
  "ends_cue c e \<longleftrightarrow> (case e of ObserveOwned d t _ \<Rightarrow> d = c \<and> is_terminal_status t | _ \<Rightarrow> False)"

lemma owned_simps [simp]:
  "owned c (on_snapshot f s) = owned c s" "owned c (recount_cues s) = owned c s"
  "owned c (refresh_pending_audio s) = owned c s"
  "owned c (s\<lparr>qs_queued_audio_frames := f', qs_queued_audio_sample_rate_hz := r\<rparr>) = owned c s"
  by (simp_all add: owned_def)

lemma owned_step:
  assumes "owned c (qy_state y)" and "\<not> ends_cue c e"
  shows "owned c (qy_state (quiescence_step y e))"
proof (cases e)
  case (ObserveStatus d t)
  then show ?thesis using assms(1)
    by (auto simp: observe_bridge_playback_status_def Let_def simp del: str_def) (auto simp: owned_def)
next
  case (ObserveOwned d t a)
  then show ?thesis using assms
    by (auto simp: observe_bridge_playback_status_for_owner_def ends_cue_def) (auto simp: owned_def)
next
  case (ExpectCue d a f r)
  then show ?thesis using assms(1)
    by (auto simp: expect_bridge_playback_cue_for_owner_def enter_def)
      (auto simp: owned_def owned_cue_def Let_def)
qed (use assms(1) in \<open>auto simp: component_simps try_begin_restart_barrier_def split: option.split\<close>)

lemma owned_runs:
  "owned c (qy_state y) \<Longrightarrow> \<forall>e\<in>set ops. \<not> ends_cue c e \<Longrightarrow> owned c (qy_state (runs quiescence_step y ops))"
  by (induction ops arbitrary: y) (simp_all add: owned_step)

lemma owned_not_quiescent:
  "quiescence_inv y k \<Longrightarrow> owned c (qy_state y) \<Longrightarrow> \<not> is_quiescent (qs_snapshot (qy_state y))"
  by (auto simp: quiescence_inv_def owned_def is_quiescent_def Let_def)

section \<open>Properties\<close>

text \<open>
  The pending audio that the ledger reports does not depend on the iteration order of its hash
  map: the loop with its early returns computes the saturated sum of the queued and the cue frames and
  their common sample rate, and reports neither as soon as one cue is not exact or two rates differ.
\<close>

theorem pending_audio_order_free:
  assumes "qs_queued_audio_frames s \<le> u64_max"
  shows "let n = qs_snapshot (refresh_pending_audio s);
             rate = (if qs_queued_audio_sample_rate_hz s > 0 then Some (qs_queued_audio_sample_rate_hz s) else None)
         in (case pending_audio_of (qs_queued_audio_frames s) rate (mset (map snd (qs_active_bridge_cues s))) of
               None \<Rightarrow> qn_pending_audio_frames n = None \<and> qn_output_sample_rate_hz n = None
             | Some (acc, r) \<Rightarrow> qn_pending_audio_frames n = Some acc \<and> qn_output_sample_rate_hz n = r)"
  using refresh_loop_spec [OF assms]
  by (auto simp: refresh_pending_audio_def Let_def split: option.split)

definition demo_authority_a :: TranslationPlaybackAuthority where
  "demo_authority_a = \<lparr>pa_session_id = [1], pa_bridge_instance_id = [2], pa_source_generation = 1,
     pa_source_generation_token = [3], pa_playback_owner_generation = 1, pa_physical_playback_device_id = [4]\<rparr>"

definition demo_quiescence :: quiescence_system where
  "demo_quiescence = runs quiescence_step quiescence_init [ExpectCue [97] demo_authority_a 24000 24000,
     ExpectCue [98] demo_authority_a 480 24000, ExpectCue [97] demo_authority_a 20 24000]"

lemmas demo_quiescence_eval = demo_quiescence_def quiescence_init_def quiescence_default_def component_simps
  trim_def trim_start_def trim_end_def is_whitespace_def hash_insert_def owned_cue_def recount_cues_def
  refresh_pending_audio_def on_snapshot_def sat_add_u64_def u64_max_def demo_authority_a_def

theorem pending_audio_order_free_witness:
  "let n = qs_snapshot (refresh_pending_audio (qy_state demo_quiescence))
   in case pending_audio_of 0 None (mset (map snd (qs_active_bridge_cues (qy_state demo_quiescence)))) of
        None \<Rightarrow> qn_pending_audio_frames n = None
      | Some (acc, r) \<Rightarrow> qn_pending_audio_frames n = Some acc \<and> acc = 24500 \<and> r = Some 24000"
proof -
  have e: "qs_queued_audio_frames (qy_state demo_quiescence) = 0"
    "qs_queued_audio_sample_rate_hz (qy_state demo_quiescence) = 0"
    "qn_pending_audio_frames (qs_snapshot (refresh_pending_audio (qy_state demo_quiescence))) = Some 24500"
    "qn_output_sample_rate_hz (qs_snapshot (refresh_pending_audio (qy_state demo_quiescence))) = Some 24000"
    by (simp_all add: demo_quiescence_eval)
  show ?thesis
    using pending_audio_order_free [of "qy_state demo_quiescence"] e by (auto simp: Let_def split: option.splits)
qed

text \<open>
  C19: While the restart barrier is up, in every interleaving of the threads, exactly one restart guard
  is alive and nothing is in flight: no playback submission is reserved, no bridge acknowledgement is
  outstanding, no native audio is pending and no cue is owned by a playback authority. A restart that
  holds the barrier therefore cannot race a submission that passed it.
\<close>

theorem restart_barrier_excludes_playback:
  assumes "length ops \<le> u64_max" and "y = runs quiescence_step quiescence_init ops" and "barrier (qy_state y)"
  shows "qy_restarts y = 1 \<and> qy_submissions y = 0 \<and> qy_acks y = 0 \<and>
    \<not> qn_pending_native_audio (qs_snapshot (qy_state y)) \<and> no_owned_cue (qy_state y)"
  using quiescence_reachable [OF assms(1)] assms(2,3) by (auto simp: quiescence_inv_def Let_def)

definition demo_barrier_ops :: "quiescence_op list" where
  "demo_barrier_ops = [Reserve, TryRestart, DropSubmission, TryRestart, Reserve, BeginAck, SetPendingNative True,
     ExpectCue [97] demo_authority_a 480 24000]"

theorem restart_barrier_excludes_playback_witness:
  "let y = runs quiescence_step quiescence_init demo_barrier_ops
   in barrier (qy_state y) \<and> qy_restarts y = 1 \<and> qy_submissions y = 0 \<and> qy_acks y = 0"
proof -
  have "barrier (qy_state (runs quiescence_step quiescence_init demo_barrier_ops))"
    by (simp add: demo_barrier_ops_def demo_quiescence_eval try_begin_restart_barrier_def is_quiescent_def)
  moreover have "length demo_barrier_ops \<le> u64_max" by (simp add: demo_barrier_ops_def u64_max_def)
  ultimately show ?thesis
    using restart_barrier_excludes_playback [OF _ refl, of demo_barrier_ops] by (simp add: Let_def)
qed

text \<open>
  A cue that a playback authority owns stays active, and keeps the ledger from being quiescent and
  a restart from being granted, until a terminal status arrives from an owner of that cue: neither a
  status without authority nor the end of another cue, a queue update or a dropped guard removes it.
\<close>

theorem owned_cue_blocks_restart:
  assumes "length (ops @ later) \<le> u64_max" and "owned c (qy_state (runs quiescence_step quiescence_init ops))"
    and "\<forall>e\<in>set later. \<not> ends_cue c e"
  shows "let s = qy_state (runs quiescence_step quiescence_init (ops @ later))
         in owned c s \<and> \<not> is_quiescent (qs_snapshot s) \<and> try_begin_restart_barrier s = None"
proof -
  have "owned c (qy_state (runs quiescence_step quiescence_init (ops @ later)))"
    using owned_runs [OF assms(2,3)] by simp
  moreover from owned_not_quiescent [OF quiescence_reachable [OF assms(1)] this]
  have "\<not> is_quiescent (qs_snapshot (qy_state (runs quiescence_step quiescence_init (ops @ later))))" .
  ultimately show ?thesis by (simp add: Let_def try_begin_restart_barrier_def)
qed

theorem owned_cue_blocks_restart_witness:
  "try_begin_restart_barrier (qy_state (runs quiescence_step quiescence_init
     ([ExpectCue [97] demo_authority_a 480 24000] @ [ObserveStatus [97] (str ''completed''), SetQueue 0 0 0 0]))) = None"
proof -
  have "owned [97] (qy_state (runs quiescence_step quiescence_init [ExpectCue [97] demo_authority_a 480 24000]))"
    by (simp add: demo_quiescence_eval owned_def)
  moreover have "\<forall>e\<in>set [ObserveStatus [97] (str ''completed''), SetQueue 0 0 0 0]. \<not> ends_cue [97] e"
    by (simp add: ends_cue_def)
  ultimately show ?thesis
    using owned_cue_blocks_restart [of "[ExpectCue [97] demo_authority_a 480 24000]"
        "[ObserveStatus [97] (str ''completed''), SetQueue 0 0 0 0]" "[97]"]
    by (simp add: Let_def u64_max_def del: runs_simps str_def)
qed

end
