(* ===== verification/Watch_Terminal.thy ===== *)
theory Watch_Terminal
  imports Omni_Prelude
begin

text \<open>
  The terminal ledger of a strict Watch run (\<open>audio/state/watch_terminal_lifecycle.rs\<close> with
  \<open>watch_terminal_lifecycle/input_ownership.rs\<close> and the operations of
  \<open>watch_terminal_lifecycle/store_api.rs\<close>): the evidence from which a run is declared successful. Every
  operation runs under the mutex of the ledger and returns the new ledger also with an error, because
  several assign fields before they fail. A sequence number that no longer fits \<open>u64\<close> panics, which is
  the error \<open>WPanic\<close>. Hash maps and sets are lists of entries with distinct keys. Wall-clock readings
  are arguments, and the SHA-256 of a session identifier is a parameter.
\<close>

section \<open>Evidence\<close>

record TerminalIdentity =
  ti_run_marker :: rstring
  ti_cell_id :: rstring
  ti_lease_id :: rstring

record ProviderAppendEvidence =
  pe_source_sequence :: nat
  pe_observed_at_unix_ms :: nat
  pe_append_index :: nat
  pe_samples :: nat
  pe_accepted_samples_total :: nat

record SessionUpdatedEvidence =
  su_source_sequence :: nat
  su_observed_at_unix_ms :: nat
  su_session_identity_sha256 :: rstring
  su_sent_session_config_sha256 :: rstring
  su_echoed_session_config_sha256 :: rstring

record SessionFinishEvidence =
  sf_source_sequence :: nat
  sf_observed_at_unix_ms :: nat
  sf_finish_count :: nat
  sf_last_provider_append_source_sequence :: nat
  sf_provider_input_closed_source_sequence :: nat
  sf_provider_writes_after_finish :: nat

record ProviderTerminalEvidence =
  pt_source_sequence :: nat
  pt_observed_at_unix_ms :: nat
  pt_finish_count :: nat
  pt_provider_writes_after_finish :: nat

record ResponseTerminalEvidence =
  rt_stage :: rstring
  rt_source_sequence :: nat
  rt_observed_at_unix_ms :: nat
  rt_response_id :: rstring

record RendererAckEvidence =
  re_source_sequence :: nat
  re_observed_at_unix_ms :: nat
  re_cue_id :: rstring
  re_response_id :: rstring
  re_cue_sequence :: nat
  re_last_cue_sequence :: nat
  re_receipt_authority :: rstring
  re_receipt_id :: rstring

record TerminalLifecycleSnapshot =
  tn_identity :: TerminalIdentity
  tn_session_updated_received :: SessionUpdatedEvidence
  tn_last_provider_append :: ProviderAppendEvidence
  tn_session_finish_sent :: SessionFinishEvidence
  tn_session_finished_received :: ProviderTerminalEvidence
  tn_last_response_terminal :: ResponseTerminalEvidence
  tn_final_renderer_ack :: RendererAckEvidence

datatype OpenInputPhase = OpenPhase | QuiescentApproved | CaptureClosed | FinishSent | FinishedPhase

record ActivityEvidence =
  av_source_sequence :: nat
  av_activity_generation :: nat
  av_observed_at_unix_ms :: nat
  av_owner_id :: rstring

record RendererAck =
  ra_source_sequence :: nat
  ra_observed_at_unix_ms :: nat
  ra_cue_id :: rstring
  ra_response_id :: rstring
  ra_cue_sequence :: nat
  ra_receipt_authority :: rstring
  ra_receipt_id :: rstring

record RendererFailure =
  rf_cue_id :: rstring
  rf_response_id :: rstring
  rf_cue_sequence :: nat
  rf_reason :: rstring

record WatchState =
  wt_identity :: TerminalIdentity
  wt_aec_open_input_drain :: bool
  wt_provider_call_started_qpc_100ns :: "nat option"
  wt_provider_session_id :: "rstring option"
  wt_open_input_phase :: OpenInputPhase
  wt_activity_generation :: nat
  wt_terminal_violation :: "rstring option"
  wt_active_speech :: "rstring list"
  wt_input_response_owners :: "(rstring \<times> rstring option) list"
  wt_active_responses :: "rstring list"
  wt_last_input_speech :: "ActivityEvidence option"
  wt_last_output :: "ActivityEvidence option"
  wt_last_physical_started :: "ActivityEvidence option"
  wt_last_physical_frame :: "ActivityEvidence option"
  wt_last_physical_completed :: "ActivityEvidence option"
  wt_media_complete :: "ActivityEvidence option"
  wt_output_quiescent :: "ActivityEvidence option"
  wt_capture_closed :: "ActivityEvidence option"
  wt_next_source_sequence :: nat
  wt_append_count :: nat
  wt_accepted_samples_total :: nat
  wt_provider_writes_after_finish :: nat
  wt_finish_count :: nat
  wt_session_updated_received :: "SessionUpdatedEvidence option"
  wt_last_provider_append :: "ProviderAppendEvidence option"
  wt_provider_input_closed_source_sequence :: "nat option"
  wt_session_finish_sent :: "SessionFinishEvidence option"
  wt_session_finished_received :: "ProviderTerminalEvidence option"
  wt_last_response_audio_done :: "ResponseTerminalEvidence option"
  wt_last_response_done :: "ResponseTerminalEvidence option"
  wt_response_terminals :: "(rstring \<times> ResponseTerminalEvidence) list"
  wt_response_audio_done_ids :: "rstring list"
  wt_response_done_ids :: "rstring list"
  wt_failed_response_statuses :: "(rstring \<times> rstring) list"
  wt_next_cue_sequence :: nat
  wt_cue_sequences :: "(rstring \<times> nat) list"
  wt_cue_response_ids :: "(rstring \<times> rstring) list"
  wt_last_cue_sequence :: nat
  wt_renderer_acks :: "(nat \<times> RendererAck) list"
  wt_renderer_failures :: "(nat \<times> RendererFailure) list"
  wt_renderer_receipt_ids :: "rstring list"

datatype werr = WErr rstring | WPanic

type_synonym 'a wres = "WatchState \<times> (werr + 'a)"

definition watch_begin :: "TerminalIdentity \<Rightarrow> WatchState option \<Rightarrow> WatchState option \<times> (werr + unit)" where
  "watch_begin identity guard =
     (if trim (ti_run_marker identity) = [] \<or> trim (ti_cell_id identity) = [] \<or> trim (ti_lease_id identity) = []
      then (guard, Inl (WErr (str ''strict Watch terminal lifecycle identity is incomplete'')))
      else if is_some guard
      then (guard, Inl (WErr (str ''strict Watch terminal lifecycle was already initialized'')))
      else (Some \<lparr>wt_identity = identity, wt_aec_open_input_drain = False, wt_provider_call_started_qpc_100ns = None,
              wt_provider_session_id = None, wt_open_input_phase = OpenPhase, wt_activity_generation = 0,
              wt_terminal_violation = None, wt_active_speech = [], wt_input_response_owners = [],
              wt_active_responses = [], wt_last_input_speech = None, wt_last_output = None,
              wt_last_physical_started = None, wt_last_physical_frame = None, wt_last_physical_completed = None,
              wt_media_complete = None, wt_output_quiescent = None, wt_capture_closed = None,
              wt_next_source_sequence = 0, wt_append_count = 0, wt_accepted_samples_total = 0,
              wt_provider_writes_after_finish = 0, wt_finish_count = 0, wt_session_updated_received = None,
              wt_last_provider_append = None, wt_provider_input_closed_source_sequence = None,
              wt_session_finish_sent = None, wt_session_finished_received = None,
              wt_last_response_audio_done = None, wt_last_response_done = None, wt_response_terminals = [],
              wt_response_audio_done_ids = [], wt_response_done_ids = [], wt_failed_response_statuses = [],
              wt_next_cue_sequence = 0, wt_cue_sequences = [], wt_cue_response_ids = [], wt_last_cue_sequence = 0,
              wt_renderer_acks = [], wt_renderer_failures = [], wt_renderer_receipt_ids = []\<rparr>, Inr ()))"

section \<open>Shared steps\<close>

text \<open>The continuation of a step that has to allocate a number first.\<close>

definition next_source_sequence :: "WatchState \<Rightarrow> (nat \<Rightarrow> WatchState \<Rightarrow> 'a wres) \<Rightarrow> 'a wres" where
  "next_source_sequence s k =
     (case checked_add_u64 (wt_next_source_sequence s) 1 of
        None \<Rightarrow> (s, Inl WPanic)
      | Some n \<Rightarrow> k n (s\<lparr>wt_next_source_sequence := n\<rparr>))"

definition get_or_insert :: "'a \<Rightarrow> 'a option \<Rightarrow> 'a option" where
  "get_or_insert v x = (case x of None \<Rightarrow> Some v | Some w \<Rightarrow> Some w)"

definition violate :: "rstring \<Rightarrow> WatchState \<Rightarrow> 'a wres" where
  "violate e s = (s\<lparr>wt_terminal_violation := get_or_insert e (wt_terminal_violation s)\<rparr>, Inl (WErr e))"

fun phase_debug :: "OpenInputPhase \<Rightarrow> rstring" where
  "phase_debug OpenPhase = str ''Open''"
| "phase_debug QuiescentApproved = str ''QuiescentApproved''"
| "phase_debug CaptureClosed = str ''CaptureClosed''"
| "phase_debug FinishSent = str ''FinishSent''"
| "phase_debug FinishedPhase = str ''Finished''"

definition activity ::
  "rstring \<Rightarrow> bool \<Rightarrow> nat \<Rightarrow> WatchState \<Rightarrow> (ActivityEvidence \<Rightarrow> WatchState \<Rightarrow> 'a wres) \<Rightarrow> 'a wres" where
  "activity owner_id fresh now s k =
     (if wt_aec_open_input_drain s \<and> fresh \<and> wt_open_input_phase s \<noteq> OpenPhase
      then violate (str ''watch.aec-output-after-quiescence: owner='' @ owner_id @ str '' phase='' @
             phase_debug (wt_open_input_phase s)) s
      else case checked_add_u64 (wt_activity_generation s) 1 of
        None \<Rightarrow> (s, Inl (WErr (str ''strict Watch activity generation exhausted'')))
      | Some g \<Rightarrow>
          next_source_sequence (s\<lparr>wt_activity_generation := g\<rparr>) (\<lambda>n s1.
            k \<lparr>av_source_sequence = n, av_activity_generation = g, av_observed_at_unix_ms = now,
               av_owner_id = owner_id\<rparr> s1))"

definition pending_input_segments :: "WatchState \<Rightarrow> nat" where
  "pending_input_segments s =
     length (filter (\<lambda>p. case snd p of None \<Rightarrow> True | Some i \<Rightarrow> i \<notin> set (wt_response_done_ids s))
       (wt_input_response_owners s))"

definition check_open_input_failure :: "WatchState \<Rightarrow> rstring option" where
  "check_open_input_failure s =
     (case wt_terminal_violation s of
        Some e \<Rightarrow> Some e
      | None \<Rightarrow>
          if wt_aec_open_input_drain s \<and>
             is_some_and (wt_output_quiescent s) (\<lambda>q. av_activity_generation q \<noteq> wt_activity_generation s)
          then Some (str ''watch.aec-activity-generation-changed-after-quiescence'')
          else if wt_failed_response_statuses s \<noteq> [] then Some (str ''watch.aec-provider-response-failed'')
          else if wt_renderer_failures s \<noteq> [] then Some (str ''watch.aec-physical-playback-failed'')
          else None)"

definition cue_sequence :: "rstring \<Rightarrow> rstring \<Rightarrow> nat \<Rightarrow> WatchState \<Rightarrow> nat wres" where
  "cue_sequence cue_id response_id now s =
     (if trim cue_id = [] then (s, Inl (WErr (str ''strict Watch renderer cue id is empty'')))
      else if trim response_id = []
      then (s, Inl (WErr (str ''strict Watch renderer cue response identity is empty'')))
      else case map_of (wt_cue_sequences s) cue_id of
        Some n \<Rightarrow>
          (s, if map_of (wt_cue_response_ids s) cue_id \<noteq> Some response_id
              then Inl (WErr (str ''strict Watch renderer cue changed response lineage: '' @ cue_id)) else Inr n)
      | None \<Rightarrow>
          let allocate = (\<lambda>s. case checked_add_u64 (wt_next_cue_sequence s) 1 of
                None \<Rightarrow> (s, Inl (WErr (str ''strict Watch renderer cue sequence exhausted'')))
              | Some n \<Rightarrow>
                  (s\<lparr>wt_next_cue_sequence := n, wt_last_cue_sequence := n,
                     wt_cue_sequences := hash_insert cue_id n (wt_cue_sequences s),
                     wt_cue_response_ids := hash_insert cue_id response_id (wt_cue_response_ids s)\<rparr>, Inr n))
          in if wt_aec_open_input_drain s then activity cue_id True now s (\<lambda>_. allocate) else allocate s)"

section \<open>Provider boundary\<close>

definition is_sha256_hex :: "rstring \<Rightarrow> bool" where
  "is_sha256_hex digest \<longleftrightarrow>
     byte_len digest = 64 \<and> (\<forall>c\<in>set digest. 48 \<le> c \<and> c \<le> 57 \<or> 97 \<le> c \<and> c \<le> 102)"

definition first_bad_digest :: "(rstring \<times> rstring) list \<Rightarrow> rstring option" where
  "first_bad_digest ds = map_option fst (find (\<lambda>p. \<not> is_sha256_hex (snd p)) ds)"

definition record_session_updated_received ::
  "(rstring \<Rightarrow> rstring) \<Rightarrow> rstring \<Rightarrow> rstring \<Rightarrow> rstring \<Rightarrow> nat \<Rightarrow> WatchState \<Rightarrow> unit wres" where
  "record_session_updated_received sha256_hex identity sent echoed now s =
     (if is_some (wt_session_updated_received s)
      then (s, Inl (WErr (str ''strict Watch session.updated was received more than once'')))
      else if is_some (wt_last_provider_append s)
      then (s, Inl (WErr (str ''strict Watch session.updated arrived after Provider input began'')))
      else case first_bad_digest [(str ''session identity'', identity), (str ''sent session config'', sent),
                                  (str ''echoed session config'', echoed)] of
        Some label \<Rightarrow> (s, Inl (WErr (str ''strict Watch '' @ label @ str '' SHA-256 authority is invalid'')))
      | None \<Rightarrow>
          if sent \<noteq> echoed
          then (s, Inl (WErr (str ''strict Watch session.updated does not echo the exact sent session configuration'')))
          else if wt_aec_open_input_drain s \<and> is_some_and (wt_provider_session_id s) (\<lambda>i. sha256_hex i \<noteq> identity)
          then (s, Inl (WErr (str ''watch.aec-session-updated-current-socket-identity-mismatch'')))
          else next_source_sequence s (\<lambda>n s1.
            (s1\<lparr>wt_session_updated_received := Some \<lparr>su_source_sequence = n, su_observed_at_unix_ms = now,
                su_session_identity_sha256 = identity, su_sent_session_config_sha256 = sent,
                su_echoed_session_config_sha256 = echoed\<rparr>\<rparr>, Inr ())))"

definition record_provider_append :: "nat \<Rightarrow> nat \<Rightarrow> WatchState \<Rightarrow> unit wres" where
  "record_provider_append samples now s =
     (if samples = 0 then (s, Inl (WErr (str ''strict Watch provider append has zero samples'')))
      else if is_some (wt_session_finish_sent s)
      then (s\<lparr>wt_provider_writes_after_finish := sat_add_u64 (wt_provider_writes_after_finish s) 1\<rparr>,
            Inl (WErr (str ''strict Watch provider append was accepted after session.finish'')))
      else let s1 = s\<lparr>wt_append_count := sat_add_u64 (wt_append_count s) 1,
                      wt_accepted_samples_total := sat_add_u64 (wt_accepted_samples_total s) samples\<rparr>
           in next_source_sequence s1 (\<lambda>n s2.
             (s2\<lparr>wt_last_provider_append := Some \<lparr>pe_source_sequence = n, pe_observed_at_unix_ms = now,
                 pe_append_index = wt_append_count s2, pe_samples = samples,
                 pe_accepted_samples_total = wt_accepted_samples_total s2\<rparr>\<rparr>, Inr ())))"

definition finish_commit :: "nat \<Rightarrow> WatchState \<Rightarrow> unit wres" where
  "finish_commit now s =
     (let s = s\<lparr>wt_finish_count := sat_add_u64 (wt_finish_count s) 1\<rparr> in
      if wt_finish_count s \<noteq> 1 \<or> is_some (wt_session_finish_sent s)
      then (s, Inl (WErr (str ''strict Watch session.finish was sent more than once'')))
      else case wt_last_provider_append s of
        None \<Rightarrow> (s, Inl (WErr (str ''strict Watch session.finish has no successful provider append authority'')))
      | Some last_append \<Rightarrow>
          (case wt_provider_input_closed_source_sequence s of
             None \<Rightarrow> (s, Inl (WErr (str ''strict Watch session.finish has no capture producer completion authority'')))
           | Some closed \<Rightarrow> next_source_sequence s (\<lambda>n s1.
               (s1\<lparr>wt_session_finish_sent := Some \<lparr>sf_source_sequence = n, sf_observed_at_unix_ms = now,
                   sf_finish_count = wt_finish_count s1,
                   sf_last_provider_append_source_sequence = pe_source_sequence last_append,
                   sf_provider_input_closed_source_sequence = closed,
                   sf_provider_writes_after_finish = wt_provider_writes_after_finish s1\<rparr>\<rparr>, Inr ()))))"

definition record_session_finish_sent :: "nat \<Rightarrow> WatchState \<Rightarrow> unit wres" where
  "record_session_finish_sent now s =
     (if wt_aec_open_input_drain s
      then (case check_open_input_failure s of
              Some e \<Rightarrow> (s, Inl (WErr e))
            | None \<Rightarrow>
                if wt_open_input_phase s \<noteq> CaptureClosed
                then (s, Inl (WErr (str ''watch.aec-finish-before-approved-capture-close'')))
                else finish_commit now (s\<lparr>wt_open_input_phase := FinishSent\<rparr>))
      else finish_commit now s)"

definition close_commit :: "nat \<Rightarrow> WatchState \<Rightarrow> nat wres" where
  "close_commit now s = next_source_sequence s (\<lambda>n s1.
     (s1\<lparr>wt_capture_closed := Some \<lparr>av_source_sequence = n, av_activity_generation = wt_activity_generation s1,
           av_observed_at_unix_ms = now, av_owner_id = str ''capture-input-fence-owner''\<rparr>,
         wt_provider_input_closed_source_sequence := Some n\<rparr>, Inr n))"

definition record_provider_input_closed :: "nat \<Rightarrow> WatchState \<Rightarrow> nat wres" where
  "record_provider_input_closed now s =
     (if is_some (wt_provider_input_closed_source_sequence s)
      then (s, Inl (WErr (str ''strict Watch capture producer completion was recorded more than once'')))
      else if wt_aec_open_input_drain s
      then (case check_open_input_failure s of
              Some e \<Rightarrow> (s, Inl (WErr e))
            | None \<Rightarrow>
                if wt_open_input_phase s \<noteq> QuiescentApproved
                then (s, Inl (WErr (str ''watch.aec-capture-closed-before-quiescence'')))
                else close_commit now (s\<lparr>wt_open_input_phase := CaptureClosed\<rparr>))
      else close_commit now s)"

definition record_session_finished_received :: "nat \<Rightarrow> WatchState \<Rightarrow> unit wres" where
  "record_session_finished_received now s =
     (if is_some (wt_session_finished_received s)
      then (s, Inl (WErr (str ''strict Watch session.finished was received more than once'')))
      else if wt_session_finish_sent s = None
      then (s, Inl (WErr (str ''strict Watch session.finished arrived before session.finish'')))
      else if wt_last_response_audio_done s = None \<and> wt_last_response_done s = None
      then (s, Inl (WErr (str ''strict Watch session.finished has no completed response terminal authority'')))
      else next_source_sequence s (\<lambda>n s1.
        let commit = (\<lambda>s. (s\<lparr>wt_session_finished_received := Some \<lparr>pt_source_sequence = n,
              pt_observed_at_unix_ms = now, pt_finish_count = wt_finish_count s,
              pt_provider_writes_after_finish = wt_provider_writes_after_finish s\<rparr>\<rparr>, Inr ()))
        in if wt_aec_open_input_drain s1
           then (case check_open_input_failure s1 of
                   Some e \<Rightarrow> (s1, Inl (WErr e))
                 | None \<Rightarrow> commit (s1\<lparr>wt_open_input_phase := FinishedPhase\<rparr>))
           else commit s1))"

section \<open>Responses\<close>

definition audio_done_stage :: rstring where "audio_done_stage = str ''lastResponseAudioDone''"
definition done_stage :: rstring where "done_stage = str ''responseDone''"

definition terminal_commit :: "rstring \<Rightarrow> rstring \<Rightarrow> nat \<Rightarrow> WatchState \<Rightarrow> unit wres" where
  "terminal_commit stage response_id now s = next_source_sequence s (\<lambda>n s1.
     let evidence = \<lparr>rt_stage = stage, rt_source_sequence = n, rt_observed_at_unix_ms = now, rt_response_id = response_id\<rparr>;
         s2 = s1\<lparr>wt_response_terminals := hash_insert response_id evidence (wt_response_terminals s1)\<rparr>
     in (if stage = audio_done_stage then s2\<lparr>wt_last_response_audio_done := Some evidence\<rparr>
         else s2\<lparr>wt_last_response_done := Some evidence\<rparr>, Inr ()))"

definition record_response_terminal :: "rstring \<Rightarrow> rstring \<Rightarrow> nat \<Rightarrow> nat \<Rightarrow> WatchState \<Rightarrow> unit wres" where
  "record_response_terminal stage response_id now now2 s =
     (if trim response_id = []
      then (s, Inl (WErr (str ''strict Watch '' @ stage @ str '' response identity is empty'')))
      else if is_some (wt_session_finished_received s)
      then (s, Inl (WErr (str ''strict Watch '' @ stage @ str '' arrived after session.finished'')))
      else if stage = audio_done_stage \<and> response_id \<in> set (wt_response_done_ids s)
      then (s, Inl (WErr (str ''strict Watch lastResponseAudioDone arrived after responseDone for response '' @ response_id)))
      else if stage \<noteq> audio_done_stage \<and> stage \<noteq> done_stage
      then (s, Inl (WErr (str ''unsupported strict Watch response stage: '' @ stage)))
      else if response_id \<in> set (if stage = audio_done_stage then wt_response_audio_done_ids s else wt_response_done_ids s)
      then (s, Inl (WErr (str ''strict Watch '' @ stage @ str '' was received more than once for response '' @ response_id)))
      else let s1 = (if stage = audio_done_stage
                     then s\<lparr>wt_response_audio_done_ids := response_id # wt_response_audio_done_ids s\<rparr>
                     else s\<lparr>wt_response_done_ids := response_id # wt_response_done_ids s\<rparr>)
           in if wt_aec_open_input_drain s1
              then let s2 = (if stage = done_stage
                             then s1\<lparr>wt_active_responses := removeAll response_id (wt_active_responses s1)\<rparr> else s1)
                   in activity response_id False now s2 (\<lambda>_. terminal_commit stage response_id now2)
              else terminal_commit stage response_id now2 s1)"

definition record_response_failed :: "rstring \<Rightarrow> rstring \<Rightarrow> WatchState \<Rightarrow> unit wres" where
  "record_response_failed response_id status s =
     (if trim response_id = [] then (s, Inl (WErr (str ''strict Watch failed response identity is empty'')))
      else if status \<noteq> str ''failed'' \<and> status \<noteq> str ''incomplete''
      then (s, Inl (WErr (str ''strict Watch response failure status is unsupported: '' @ status)))
      else if is_some (wt_session_finished_received s)
      then (s, Inl (WErr (str ''strict Watch failed response arrived after session.finished'')))
      else let s1 = s\<lparr>wt_failed_response_statuses := hash_insert response_id status (wt_failed_response_statuses s)\<rparr>
           in if is_some (map_of (wt_failed_response_statuses s) response_id)
              then (s1, Inl (WErr (str ''strict Watch failed response terminal was received more than once for '' @ response_id)))
              else (s1\<lparr>wt_response_audio_done_ids := removeAll response_id (wt_response_audio_done_ids s1),
                     wt_response_done_ids := removeAll response_id (wt_response_done_ids s1),
                     wt_response_terminals := hash_remove response_id (wt_response_terminals s1),
                     wt_last_response_audio_done :=
                       (if is_some_and (wt_last_response_audio_done s1) (\<lambda>e. rt_response_id e = response_id)
                        then None else wt_last_response_audio_done s1),
                     wt_last_response_done :=
                       (if is_some_and (wt_last_response_done s1) (\<lambda>e. rt_response_id e = response_id)
                        then None else wt_last_response_done s1)\<rparr>, Inr ()))"

definition record_response_started :: "rstring \<Rightarrow> nat \<Rightarrow> WatchState \<Rightarrow> unit wres" where
  "record_response_started response_id now s =
     (if \<not> wt_aec_open_input_drain s then (s, Inr ())
      else if trim response_id = [] then (s, Inl (WErr (str ''watch.aec-response-identity-missing'')))
      else activity response_id True now s (\<lambda>_ s1.
        (s1\<lparr>wt_active_responses := List.insert response_id (wt_active_responses s1)\<rparr>, Inr ())))"

definition record_nonempty_output :: "rstring \<Rightarrow> nat \<Rightarrow> WatchState \<Rightarrow> unit wres" where
  "record_nonempty_output response_id now s =
     (if \<not> wt_aec_open_input_drain s then (s, Inr ())
      else if trim response_id = [] then (s, Inl (WErr (str ''watch.aec-output-response-identity-missing'')))
      else activity response_id True now s (\<lambda>e s1.
        let s2 = s1\<lparr>wt_last_output := Some e\<rparr>
        in (if response_id \<notin> set (wt_response_done_ids s2)
            then s2\<lparr>wt_active_responses := List.insert response_id (wt_active_responses s2)\<rparr> else s2, Inr ())))"

section \<open>Renderer\<close>

definition record_renderer_cue_submitted :: "rstring \<Rightarrow> rstring \<Rightarrow> nat \<Rightarrow> WatchState \<Rightarrow> nat wres" where
  "record_renderer_cue_submitted cue_id response_id now s = cue_sequence cue_id response_id now s"

definition ack_commit :: "rstring \<Rightarrow> rstring \<Rightarrow> nat \<Rightarrow> rstring \<Rightarrow> rstring \<Rightarrow> nat \<Rightarrow> WatchState \<Rightarrow> unit wres" where
  "ack_commit cue_id response_id sequence receipt_authority receipt_id now s = next_source_sequence s (\<lambda>n s1.
     (s1\<lparr>wt_renderer_acks := hash_insert sequence \<lparr>ra_source_sequence = n, ra_observed_at_unix_ms = now,
           ra_cue_id = cue_id, ra_response_id = response_id, ra_cue_sequence = sequence,
           ra_receipt_authority = receipt_authority, ra_receipt_id = receipt_id\<rparr> (wt_renderer_acks s1),
         wt_renderer_receipt_ids := List.insert receipt_id (wt_renderer_receipt_ids s1)\<rparr>, Inr ()))"

definition record_renderer_ack :: "rstring \<Rightarrow> rstring \<Rightarrow> rstring \<Rightarrow> nat \<Rightarrow> nat \<Rightarrow> WatchState \<Rightarrow> unit wres" where
  "record_renderer_ack cue_id receipt_authority receipt_id now now2 s =
     (if trim receipt_authority = [] \<or> trim receipt_id = []
      then (s, Inl (WErr (str ''strict Watch renderer receipt identity is incomplete'')))
      else case map_of (wt_cue_sequences s) cue_id of
        None \<Rightarrow> (s, Inl (WErr (str ''strict Watch renderer ACK references unknown/unsubmitted cue: '' @ cue_id)))
      | Some sequence \<Rightarrow>
          (case map_of (wt_cue_response_ids s) cue_id of
             None \<Rightarrow> (s, Inl (WErr (str ''strict Watch renderer cue has no response lineage: '' @ cue_id)))
           | Some response_id \<Rightarrow>
               if is_some (map_of (wt_renderer_failures s) sequence)
               then (s, Inl (WErr (str ''strict Watch renderer ACK arrived after terminal failure for cue: '' @ cue_id)))
               else if receipt_id \<in> set (wt_renderer_receipt_ids s) then (s, Inr ())
               else if wt_aec_open_input_drain s
               then activity cue_id False now s (\<lambda>e s1.
                 ack_commit cue_id response_id sequence receipt_authority receipt_id now2
                   (s1\<lparr>wt_last_physical_completed := Some e\<rparr>))
               else ack_commit cue_id response_id sequence receipt_authority receipt_id now2 s))"

definition record_renderer_failure :: "rstring \<Rightarrow> rstring \<Rightarrow> WatchState \<Rightarrow> unit wres" where
  "record_renderer_failure cue_id reason s =
     (if trim reason = [] then (s, Inl (WErr (str ''strict Watch renderer failure reason is empty'')))
      else case map_of (wt_cue_sequences s) cue_id of
        None \<Rightarrow> (s, Inl (WErr (str ''strict Watch renderer failure references unknown/unsubmitted cue: '' @ cue_id)))
      | Some sequence \<Rightarrow>
          (case map_of (wt_cue_response_ids s) cue_id of
             None \<Rightarrow> (s, Inl (WErr (str ''strict Watch renderer cue has no response lineage: '' @ cue_id)))
           | Some response_id \<Rightarrow>
               (case map_of (wt_renderer_failures s) sequence of
                  Some existing \<Rightarrow>
                    (s, if rf_reason existing = reason then Inr ()
                        else Inl (WErr (str ''strict Watch renderer failure reason changed for cue: '' @ cue_id @
                               str ''; first='' @ rf_reason existing @ str '' later='' @ reason)))
                | None \<Rightarrow>
                    (s\<lparr>wt_renderer_failures := hash_insert sequence \<lparr>rf_cue_id = cue_id, rf_response_id = response_id,
                         rf_cue_sequence = sequence, rf_reason = reason\<rparr> (wt_renderer_failures s)\<rparr>, Inr ()))))"

definition record_renderer_started :: "rstring \<Rightarrow> nat \<Rightarrow> WatchState \<Rightarrow> unit wres" where
  "record_renderer_started cue_id now s =
     (if \<not> wt_aec_open_input_drain s then (s, Inr ())
      else if map_of (wt_cue_sequences s) cue_id = None
      then (s, Inl (WErr (str ''watch.aec-renderer-start-unsubmitted'')))
      else activity cue_id True now s (\<lambda>e s1. (s1\<lparr>wt_last_physical_started := Some e\<rparr>, Inr ())))"

definition record_renderer_frames :: "rstring \<Rightarrow> nat \<Rightarrow> nat \<Rightarrow> WatchState \<Rightarrow> unit wres" where
  "record_renderer_frames cue_id frames now s =
     (if \<not> wt_aec_open_input_drain s \<or> frames = 0 then (s, Inr ())
      else if map_of (wt_cue_sequences s) cue_id = None
      then (s, Inl (WErr (str ''watch.aec-renderer-frames-unsubmitted'')))
      else activity cue_id True now s (\<lambda>e s1. (s1\<lparr>wt_last_physical_frame := Some e\<rparr>, Inr ())))"

section \<open>Open-input drain\<close>

definition record_provider_call_started :: "nat option \<Rightarrow> WatchState \<Rightarrow> unit wres" where
  "record_provider_call_started qpc s =
     (if wt_aec_open_input_drain s
      then (case qpc of
              None \<Rightarrow> (s, Inl (WErr (str ''watch.aec-provider-call-qpc-unavailable'')))
            | Some t \<Rightarrow> (s\<lparr>wt_provider_call_started_qpc_100ns := Some t\<rparr>, Inr ()))
      else (s, Inr ()))"

definition record_provider_session_created :: "rstring \<Rightarrow> WatchState \<Rightarrow> (rstring \<times> nat) option wres" where
  "record_provider_session_created provider_session_id s =
     (if \<not> wt_aec_open_input_drain s then (s, Inr None)
      else if trim provider_session_id = [] then (s, Inl (WErr (str ''watch.aec-provider-session-id-missing'')))
      else case wt_provider_call_started_qpc_100ns s of
        None \<Rightarrow> (s, Inl (WErr (str ''watch.aec-provider-call-start-missing'')))
      | Some qpc \<Rightarrow>
          (s\<lparr>wt_provider_session_id := Some provider_session_id\<rparr>, Inr (Some (provider_session_id, qpc))))"

definition enable_aec_open_input_drain :: "WatchState \<Rightarrow> unit wres" where
  "enable_aec_open_input_drain s =
     (if is_some (wt_session_updated_received s) \<or> is_some (wt_last_provider_append s)
      then (s, Inl (WErr (str ''AEC drain policy must be installed before the provider starts'')))
      else (s\<lparr>wt_aec_open_input_drain := True\<rparr>, Inr ()))"

definition reset_provider_socket :: "WatchState \<Rightarrow> unit wres" where
  "reset_provider_socket s =
     (if \<not> wt_aec_open_input_drain s then (s, Inr ())
      else if is_some (wt_last_provider_append s) \<or> is_some (wt_media_complete s)
      then violate (str ''watch.aec-provider-socket-replaced-after-input'') s
      else (s\<lparr>wt_session_updated_received := None, wt_provider_session_id := None, wt_active_speech := [],
              wt_active_responses := [], wt_input_response_owners := []\<rparr>, Inr ()))"

definition record_media_complete :: "nat \<Rightarrow> WatchState \<Rightarrow> unit wres" where
  "record_media_complete now s =
     (case check_open_input_failure s of
        Some e \<Rightarrow> (s, Inl (WErr e))
      | None \<Rightarrow>
          if \<not> wt_aec_open_input_drain s \<or> wt_open_input_phase s \<noteq> OpenPhase \<or> is_some (wt_media_complete s)
          then (s, Inl (WErr (str ''watch.aec-media-complete-phase-invalid'')))
          else next_source_sequence s (\<lambda>n s1.
            (s1\<lparr>wt_media_complete := Some \<lparr>av_source_sequence = n, av_activity_generation = wt_activity_generation s1,
                av_observed_at_unix_ms = now, av_owner_id = str ''runner-immutable-media-marker''\<rparr>\<rparr>, Inr ())))"

definition all_cues_acked :: "WatchState \<Rightarrow> bool" where
  "all_cues_acked s \<longleftrightarrow> (\<forall>p\<in>set (wt_cue_sequences s). map_of (wt_renderer_acks s) (snd p) \<noteq> None)"

definition approve_output_quiescence :: "nat \<Rightarrow> nat \<Rightarrow> WatchState \<Rightarrow> unit wres" where
  "approve_output_quiescence generation now s =
     (case check_open_input_failure s of
        Some e \<Rightarrow> (s, Inl (WErr e))
      | None \<Rightarrow>
          if \<not> wt_aec_open_input_drain s \<or> wt_open_input_phase s \<noteq> OpenPhase \<or> wt_media_complete s = None \<or>
             wt_activity_generation s \<noteq> generation \<or> wt_active_speech s \<noteq> [] \<or> wt_active_responses s \<noteq> [] \<or>
             pending_input_segments s \<noteq> 0 \<or> \<not> all_cues_acked s
          then (s, Inl (WErr (str ''watch.aec-quiescent-snapshot-raced'')))
          else next_source_sequence (s\<lparr>wt_open_input_phase := QuiescentApproved\<rparr>) (\<lambda>n s1.
            (s1\<lparr>wt_output_quiescent := Some \<lparr>av_source_sequence = n,
                av_activity_generation = wt_activity_generation s1, av_observed_at_unix_ms = now,
                av_owner_id = str ''desktop-open-input-drain-owner''\<rparr>\<rparr>, Inr ())))"

subsection \<open>Input ownership\<close>

definition ownership_failure :: "rstring \<Rightarrow> WatchState \<Rightarrow> 'a wres" where
  "ownership_failure reason s = violate (str ''watch.aec-input-ownership-'' @ reason) s"

definition own_input :: "rstring \<Rightarrow> WatchState \<Rightarrow> WatchState" where
  "own_input item_id s =
     (if map_of (wt_input_response_owners s) item_id = None
      then s\<lparr>wt_input_response_owners := hash_insert item_id None (wt_input_response_owners s)\<rparr> else s)"

definition record_input_speech :: "rstring \<Rightarrow> bool \<Rightarrow> nat \<Rightarrow> WatchState \<Rightarrow> unit wres" where
  "record_input_speech item active now s =
     (if \<not> wt_aec_open_input_drain s then (s, Inr ())
      else case check_open_input_failure s of
        Some e \<Rightarrow> (s, Inl (WErr e))
      | None \<Rightarrow>
          let item_id = trim item in
          if item_id = [] then ownership_failure (str ''identity-missing'') s
          else if active \<and> is_some_and (Option.bind (map_of (wt_input_response_owners s) item_id) id)
                            (\<lambda>response. response \<in> set (wt_response_done_ids s))
          then ownership_failure (str ''completed-item-reused'') s
          else activity item_id True now s (\<lambda>e s1.
            let s2 = own_input item_id (s1\<lparr>wt_last_input_speech := Some e\<rparr>)
            in (if active then s2\<lparr>wt_active_speech := List.insert item_id (wt_active_speech s2)\<rparr>
                else s2\<lparr>wt_active_speech := removeAll item_id (wt_active_speech s2)\<rparr>, Inr ())))"

definition record_source_activity :: "rstring \<Rightarrow> nat \<Rightarrow> WatchState \<Rightarrow> unit wres" where
  "record_source_activity item now s =
     (if \<not> wt_aec_open_input_drain s then (s, Inr ())
      else case check_open_input_failure s of
        Some e \<Rightarrow> (s, Inl (WErr e))
      | None \<Rightarrow>
          let item_id = trim item in
          if item_id = [] then ownership_failure (str ''identity-missing'') s
          else activity item_id True now s (\<lambda>e s1.
            (own_input item_id (s1\<lparr>wt_last_input_speech := Some e\<rparr>), Inr ())))"

text \<open>The loop over the bindings; each turn that binds reads the clock.\<close>

fun bind_inputs :: "((rstring \<times> rstring) \<times> nat) list \<Rightarrow> WatchState \<Rightarrow> unit wres" where
  "bind_inputs [] s = (s, Inr ())"
| "bind_inputs (((item_id, response_id), now) # rest) s =
     (if trim item_id = [] \<or> trim response_id = []
      then ownership_failure (str ''binding-identity-missing'') s
      else case map_of (wt_input_response_owners s) item_id of
        Some (Some existing) \<Rightarrow>
          if existing = response_id then bind_inputs rest s else ownership_failure (str ''response-rebound'') s
      | _ \<Rightarrow>
          if \<exists>p\<in>set (wt_input_response_owners s). fst p \<noteq> item_id \<and> snd p = Some response_id
          then ownership_failure (str ''response-owner-reused'') s
          else activity item_id True now s (\<lambda>e s1. bind_inputs rest
            (s1\<lparr>wt_last_input_speech := Some e,
               wt_input_response_owners := hash_insert item_id (Some response_id) (wt_input_response_owners s1)\<rparr>)))"

definition record_input_response_bindings :: "((rstring \<times> rstring) \<times> nat) list \<Rightarrow> WatchState \<Rightarrow> unit wres" where
  "record_input_response_bindings bindings s =
     (if \<not> wt_aec_open_input_drain s then (s, Inr ())
      else case check_open_input_failure s of
        Some e \<Rightarrow> (s, Inl (WErr e))
      | None \<Rightarrow> bind_inputs bindings s)"

section \<open>The terminal snapshot\<close>

definition provider_order_ok :: "WatchState \<Rightarrow> SessionUpdatedEvidence \<Rightarrow> ProviderAppendEvidence \<Rightarrow>
    SessionFinishEvidence \<Rightarrow> ProviderTerminalEvidence \<Rightarrow> bool" where
  "provider_order_ok s updated appended finish finished \<longleftrightarrow>
     \<not> (wt_finish_count s \<noteq> 1 \<or> wt_provider_writes_after_finish s \<noteq> 0 \<or>
        su_source_sequence updated \<ge> pe_source_sequence appended \<or>
        sf_provider_input_closed_source_sequence finish \<ge> sf_source_sequence finish \<or>
        sf_source_sequence finish \<le> pe_source_sequence appended \<or>
        pt_source_sequence finished \<le> sf_source_sequence finish)"

definition renderer_evidence :: "WatchState \<Rightarrow> RendererAck \<Rightarrow> RendererAckEvidence" where
  "renderer_evidence s a = \<lparr>re_source_sequence = ra_source_sequence a,
     re_observed_at_unix_ms = ra_observed_at_unix_ms a, re_cue_id = ra_cue_id a,
     re_response_id = ra_response_id a, re_cue_sequence = ra_cue_sequence a,
     re_last_cue_sequence = wt_last_cue_sequence s, re_receipt_authority = ra_receipt_authority a,
     re_receipt_id = ra_receipt_id a\<rparr>"

definition snapshot_renderer :: "WatchState \<Rightarrow> SessionUpdatedEvidence \<Rightarrow> ProviderAppendEvidence \<Rightarrow>
    SessionFinishEvidence \<Rightarrow> ProviderTerminalEvidence \<Rightarrow> rstring + TerminalLifecycleSnapshot" where
  "snapshot_renderer s updated appended finish finished =
     (if wt_last_cue_sequence s = 0 then Inl (str ''strict Watch renderer did not submit any cue'')
      else case min_by rf_cue_sequence (map snd (wt_renderer_failures s)) of
        Some failure \<Rightarrow> Inl (str ''strict Watch renderer failed: cue='' @ rf_cue_id failure @ str '' response='' @
           rf_response_id failure @ str '' sequence='' @ show_nat (rf_cue_sequence failure) @ str '' reason='' @
           rf_reason failure)
      | None \<Rightarrow>
          (case map_of (wt_renderer_acks s) (wt_last_cue_sequence s) of
             None \<Rightarrow> Inl (str ''strict Watch final renderer ACK does not cover the last cue sequence'')
           | Some ack \<Rightarrow>
               (case map_of (wt_response_terminals s) (ra_response_id ack) of
                  None \<Rightarrow> Inl (str ''strict Watch final renderer ACK response has no completed Provider terminal'')
                | Some terminal \<Rightarrow>
                    if rt_source_sequence terminal \<ge> pt_source_sequence finished
                    then Inl (str ''strict Watch response terminal is not ordered before session.finished'')
                    else Inr \<lparr>tn_identity = wt_identity s, tn_session_updated_received = updated,
                      tn_last_provider_append = appended, tn_session_finish_sent = finish,
                      tn_session_finished_received = finished, tn_last_response_terminal = terminal,
                      tn_final_renderer_ack = renderer_evidence s ack\<rparr>)))"

definition terminal_snapshot :: "WatchState option \<Rightarrow> rstring + TerminalLifecycleSnapshot" where
  "terminal_snapshot guard =
     (case guard of
        None \<Rightarrow> Inl (str ''strict Watch terminal lifecycle is not initialized'')
      | Some s \<Rightarrow>
          (case (if wt_aec_open_input_drain s then check_open_input_failure s else None) of
             Some e \<Rightarrow> Inl e
           | None \<Rightarrow>
               if wt_failed_response_statuses s \<noteq> []
               then Inl (str ''strict Watch terminal lifecycle contains failed Provider responses: '' @
                 join (str '','') (map (\<lambda>p. fst p @ str '':'' @ snd p) (wt_failed_response_statuses s)))
               else (case wt_session_updated_received s of
                 None \<Rightarrow> Inl (str ''strict Watch terminal lifecycle is missing sessionUpdatedReceived'')
               | Some updated \<Rightarrow>
               (case wt_last_provider_append s of
                 None \<Rightarrow> Inl (str ''strict Watch terminal lifecycle is missing lastProviderAppend'')
               | Some appended \<Rightarrow>
               (case wt_session_finish_sent s of
                 None \<Rightarrow> Inl (str ''strict Watch terminal lifecycle is missing sessionFinishSent'')
               | Some finish0 \<Rightarrow>
               (case wt_session_finished_received s of
                 None \<Rightarrow> Inl (str ''strict Watch terminal lifecycle is missing sessionFinishedReceived'')
               | Some finished0 \<Rightarrow>
                   (let finish = finish0\<lparr>sf_finish_count := wt_finish_count s,
                          sf_provider_writes_after_finish := wt_provider_writes_after_finish s\<rparr>;
                        finished = finished0\<lparr>pt_finish_count := wt_finish_count s,
                          pt_provider_writes_after_finish := wt_provider_writes_after_finish s\<rparr>
                    in if \<not> provider_order_ok s updated appended finish finished
                       then Inl (str ''strict Watch Provider terminal ordering/count authority is invalid'')
                       else snapshot_renderer s updated appended finish finished)))))))"

definition provider_terminal_phase :: "WatchState option \<Rightarrow> rstring + bool \<times> bool" where
  "provider_terminal_phase guard =
     (case guard of
        None \<Rightarrow> Inl (str ''strict Watch terminal lifecycle is not initialized'')
      | Some s \<Rightarrow> Inr (is_some (wt_session_finish_sent s), is_some (wt_session_finished_received s)))"

record OpenInputSnapshot =
  on_identity :: TerminalIdentity
  on_source_sequence :: nat
  on_activity_generation :: nat
  on_phase :: OpenInputPhase
  on_session_updated :: bool
  on_last_provider_append :: "ProviderAppendEvidence option"
  on_pending_speech :: nat
  on_pending_input_segments :: nat
  on_pending_responses :: nat
  on_pending_renderer_acks :: nat
  on_input_open :: bool
  on_provider_input_open :: bool
  on_last_input_speech :: "ActivityEvidence option"
  on_last_output :: "ActivityEvidence option"
  on_last_physical_started :: "ActivityEvidence option"
  on_last_physical_frame :: "ActivityEvidence option"
  on_last_physical_completed :: "ActivityEvidence option"
  on_media_complete :: "ActivityEvidence option"
  on_output_quiescent :: "ActivityEvidence option"
  on_capture_closed :: "ActivityEvidence option"

definition open_input_snapshot :: "WatchState option \<Rightarrow> rstring + OpenInputSnapshot" where
  "open_input_snapshot guard =
     (case guard of
        None \<Rightarrow> Inl (str ''watch.aec-terminal-ledger-missing'')
      | Some s \<Rightarrow>
          if \<not> wt_aec_open_input_drain s then Inl (str ''watch.aec-open-input-policy-not-enabled'')
          else case check_open_input_failure s of
            Some e \<Rightarrow> Inl e
          | None \<Rightarrow> Inr \<lparr>on_identity = wt_identity s, on_source_sequence = wt_next_source_sequence s,
              on_activity_generation = wt_activity_generation s, on_phase = wt_open_input_phase s,
              on_session_updated = is_some (wt_session_updated_received s),
              on_last_provider_append = wt_last_provider_append s,
              on_pending_speech = length (wt_active_speech s),
              on_pending_input_segments = pending_input_segments s,
              on_pending_responses = length (wt_active_responses s),
              on_pending_renderer_acks =
                length (filter (\<lambda>p. map_of (wt_renderer_acks s) (snd p) = None) (wt_cue_sequences s)),
              on_input_open = (wt_provider_input_closed_source_sequence s = None),
              on_provider_input_open = (wt_session_finish_sent s = None), 
              on_last_input_speech = wt_last_input_speech s, on_last_output = wt_last_output s,
              on_last_physical_started = wt_last_physical_started s,
              on_last_physical_frame = wt_last_physical_frame s,
              on_last_physical_completed = wt_last_physical_completed s, on_media_complete = wt_media_complete s,
              on_output_quiescent = wt_output_quiescent s, on_capture_closed = wt_capture_closed s\<rparr>)"

section \<open>Runs\<close>

text \<open>
  A run calls the operations in any order. What it shows is the provider boundary: the accepted
  session updates, socket replacements, appends, the closed input, the finish command and the
  server's end. A panic poisons the mutex of the ledger, so nothing happens after it.
\<close>

datatype watch_op =
    CallStarted "nat option"
  | SessionCreated rstring
  | EnableAec
  | ResetSocket
  | MediaComplete nat
  | SessionUpdated rstring rstring rstring nat
  | ProviderAppend nat nat
  | InputClosed nat
  | SessionFinish nat
  | SessionFinished nat
  | ResponseTerminal rstring rstring nat nat
  | ResponseFailed rstring rstring
  | ResponseStarted rstring nat
  | NonemptyOutput rstring nat
  | CueSubmitted rstring rstring nat
  | RendererAcked rstring rstring rstring nat nat
  | RendererFailed rstring rstring
  | RendererStarted rstring nat
  | RendererFrames rstring nat nat
  | Approve nat nat
  | InputSpeech rstring bool nat
  | SourceActivity rstring nat
  | InputBindings "((rstring \<times> rstring) \<times> nat) list"

datatype watch_obs = Updated | Replaced | Appended | Closed | Finish | End

definition settle :: "watch_obs list \<Rightarrow> 'a wres \<Rightarrow> (WatchState \<times> bool) \<times> watch_obs list" where
  "settle shown r = (case snd r of Inl WPanic \<Rightarrow> ((fst r, True), []) | Inl (WErr _) \<Rightarrow> ((fst r, False), [])
     | Inr _ \<Rightarrow> ((fst r, False), shown))"

fun watch_op_step :: "(rstring \<Rightarrow> rstring) \<Rightarrow> WatchState \<Rightarrow> watch_op \<Rightarrow> (WatchState \<times> bool) \<times> watch_obs list" where
  "watch_op_step sha s (CallStarted q) = settle [] (record_provider_call_started q s)"
| "watch_op_step sha s (SessionCreated i) = settle [] (record_provider_session_created i s)"
| "watch_op_step sha s EnableAec = settle [] (enable_aec_open_input_drain s)"
| "watch_op_step sha s ResetSocket =
     settle (if wt_aec_open_input_drain s then [Replaced] else []) (reset_provider_socket s)"
| "watch_op_step sha s (MediaComplete t) = settle [] (record_media_complete t s)"
| "watch_op_step sha s (SessionUpdated i c e t) = settle [Updated] (record_session_updated_received sha i c e t s)"
| "watch_op_step sha s (ProviderAppend n t) = settle [Appended] (record_provider_append n t s)"
| "watch_op_step sha s (InputClosed t) = settle [Closed] (record_provider_input_closed t s)"
| "watch_op_step sha s (SessionFinish t) = settle [Finish] (record_session_finish_sent t s)"
| "watch_op_step sha s (SessionFinished t) = settle [End] (record_session_finished_received t s)"
| "watch_op_step sha s (ResponseTerminal g r t u) = settle [] (record_response_terminal g r t u s)"
| "watch_op_step sha s (ResponseFailed r st) = settle [] (record_response_failed r st s)"
| "watch_op_step sha s (ResponseStarted r t) = settle [] (record_response_started r t s)"
| "watch_op_step sha s (NonemptyOutput r t) = settle [] (record_nonempty_output r t s)"
| "watch_op_step sha s (CueSubmitted c r t) = settle [] (record_renderer_cue_submitted c r t s)"
| "watch_op_step sha s (RendererAcked c a i t u) = settle [] (record_renderer_ack c a i t u s)"
| "watch_op_step sha s (RendererFailed c r) = settle [] (record_renderer_failure c r s)"
| "watch_op_step sha s (RendererStarted c t) = settle [] (record_renderer_started c t s)"
| "watch_op_step sha s (RendererFrames c n t) = settle [] (record_renderer_frames c n t s)"
| "watch_op_step sha s (Approve g t) = settle [] (approve_output_quiescence g t s)"
| "watch_op_step sha s (InputSpeech i a t) = settle [] (record_input_speech i a t s)"
| "watch_op_step sha s (SourceActivity i t) = settle [] (record_source_activity i t s)"
| "watch_op_step sha s (InputBindings bs) = settle [] (record_input_response_bindings bs s)"

text \<open>The ledger and whether its mutex is poisoned.\<close>

definition watch_step ::
  "(rstring \<Rightarrow> rstring) \<Rightarrow> WatchState \<times> bool \<Rightarrow> watch_op \<Rightarrow> (WatchState \<times> bool) \<times> watch_obs list" where
  "watch_step sha g e = (if snd g then (g, []) else watch_op_step sha (fst g) e)"

section \<open>The provider boundary\<close>

record boundary =
  bd_updated :: bool
  bd_appended :: bool
  bd_closed :: bool
  bd_finish :: bool
  bd_end :: bool

inductive boundary_spec :: "boundary \<Rightarrow> watch_obs \<Rightarrow> boundary \<Rightarrow> bool" where
  bd_Updated: "\<not> bd_updated b \<Longrightarrow> \<not> bd_appended b \<Longrightarrow> boundary_spec b Updated (b\<lparr>bd_updated := True\<rparr>)"
| bd_Replaced: "\<not> bd_appended b \<Longrightarrow> boundary_spec b Replaced (b\<lparr>bd_updated := False\<rparr>)"
| bd_Appended: "\<not> bd_finish b \<Longrightarrow> boundary_spec b Appended (b\<lparr>bd_appended := True\<rparr>)"
| bd_Closed: "\<not> bd_closed b \<Longrightarrow> boundary_spec b Closed (b\<lparr>bd_closed := True\<rparr>)"
| bd_Finish: "\<not> bd_finish b \<Longrightarrow> bd_appended b \<Longrightarrow> bd_closed b \<Longrightarrow>
    boundary_spec b Finish (b\<lparr>bd_finish := True\<rparr>)"
| bd_End: "bd_finish b \<Longrightarrow> \<not> bd_end b \<Longrightarrow> boundary_spec b End (b\<lparr>bd_end := True\<rparr>)"

inductive_cases boundary_specE: "boundary_spec a x b"

definition boundary_of :: "WatchState \<Rightarrow> boundary" where
  "boundary_of s = \<lparr>bd_updated = is_some (wt_session_updated_received s),
     bd_appended = is_some (wt_last_provider_append s),
     bd_closed = is_some (wt_provider_input_closed_source_sequence s),
     bd_finish = is_some (wt_session_finish_sent s), bd_end = is_some (wt_session_finished_received s)\<rparr>"

lemmas watch_helper_defs = next_source_sequence_def activity_def violate_def ownership_failure_def own_input_def

lemma boundary_frame [simp]:
  "boundary_of (fst (record_provider_call_started q s)) = boundary_of s"
  "boundary_of (fst (record_provider_session_created i s)) = boundary_of s"
  "boundary_of (fst (enable_aec_open_input_drain s)) = boundary_of s"
  "boundary_of (fst (record_media_complete t s)) = boundary_of s"
  "boundary_of (fst (record_response_failed r st s)) = boundary_of s"
  "boundary_of (fst (record_response_started r t s)) = boundary_of s"
  "boundary_of (fst (record_nonempty_output r t s)) = boundary_of s"
  "boundary_of (fst (record_renderer_failure c r s)) = boundary_of s"
  "boundary_of (fst (record_renderer_started c t s)) = boundary_of s"
  "boundary_of (fst (record_renderer_frames c n t s)) = boundary_of s"
  "boundary_of (fst (approve_output_quiescence g t s)) = boundary_of s"
  "boundary_of (fst (record_input_speech i a t s)) = boundary_of s"
  "boundary_of (fst (record_source_activity i t s)) = boundary_of s"
  by (simp_all add: boundary_of_def watch_helper_defs Let_def record_provider_call_started_def
      record_provider_session_created_def enable_aec_open_input_drain_def record_media_complete_def
      record_response_failed_def record_response_started_def record_nonempty_output_def
      record_renderer_failure_def record_renderer_started_def record_renderer_frames_def
      approve_output_quiescence_def record_input_speech_def record_source_activity_def
      del: str_def split: option.split)

lemma boundary_frame_more [simp]:
  "boundary_of (fst (record_response_terminal g r t u s)) = boundary_of s"
  "boundary_of (fst (record_renderer_cue_submitted c r t s)) = boundary_of s"
  "boundary_of (fst (record_renderer_ack c a i t u s)) = boundary_of s"
  by (simp_all add: boundary_of_def watch_helper_defs Let_def record_response_terminal_def terminal_commit_def
      record_renderer_cue_submitted_def cue_sequence_def record_renderer_ack_def ack_commit_def
      del: str_def split: option.split)

text \<open>
  What a step that records activity keeps: a property of the ledger that ignores the counters and the
  violation, and that the continuation keeps.
\<close>

lemma activity_keeps:
  assumes "P s" and "\<And>s v. P s \<Longrightarrow> P (s\<lparr>wt_terminal_violation := v\<rparr>)"
    and "\<And>s g n. P s \<Longrightarrow> P (s\<lparr>wt_activity_generation := g\<rparr>) \<and> P (s\<lparr>wt_next_source_sequence := n\<rparr>)"
    and "\<And>e s1. P s1 \<Longrightarrow> P (fst (k e s1))"
  shows "P (fst (activity owner fresh now s k))"
  using assms by (auto simp: activity_def violate_def next_source_sequence_def split: option.split)

lemma bind_inputs_boundary [simp]: "boundary_of (fst (bind_inputs bs s)) = boundary_of s"
proof (induction bs arbitrary: s)
  case (Cons b bs)
  obtain i r now where b: "b = ((i, r), now)" by (metis surj_pair)
  have v: "boundary_of (fst (ownership_failure e s :: unit wres)) = boundary_of s" for e
    by (simp add: ownership_failure_def violate_def boundary_of_def)
  have act: "boundary_of (fst (activity i True now s (\<lambda>e s1. bind_inputs bs (s1\<lparr>wt_last_input_speech := Some e,
      wt_input_response_owners := hash_insert i (Some r) (wt_input_response_owners s1)\<rparr>)))) = boundary_of s"
    by (rule activity_keeps) (simp_all add: Cons.IH, simp_all add: boundary_of_def)
  show ?case using v act Cons.IH by (simp add: b del: str_def split: option.split)
qed simp

lemma boundary_bindings [simp]: "boundary_of (fst (record_input_response_bindings bs s)) = boundary_of s"
  by (simp add: record_input_response_bindings_def split: option.split)

text \<open>An operation of the boundary: silent when it fails, one step of the protocol when it succeeds.\<close>

definition shows_boundary :: "watch_obs \<Rightarrow> WatchState \<Rightarrow> 'a wres \<Rightarrow> bool" where
  "shows_boundary x s r \<longleftrightarrow>
     (if isl (snd r) then boundary_of (fst r) = boundary_of s else boundary_spec (boundary_of s) x (boundary_of (fst r)))"

lemma shows_boundaryI:
  "boundary_of (fst r) = boundary_of s \<Longrightarrow> isl (snd r) \<Longrightarrow> shows_boundary x s r"
  "boundary_spec (boundary_of s) x (boundary_of s') \<Longrightarrow> shows_boundary x s (s', Inr v)"
  by (simp_all add: shows_boundary_def)

lemma shows_sequence:
  "boundary_of s1 = boundary_of s \<Longrightarrow>
     (\<And>n. shows_boundary x s (k n (s1\<lparr>wt_next_source_sequence := n\<rparr>))) \<Longrightarrow> shows_boundary x s (next_source_sequence s1 k)"
  by (auto simp: next_source_sequence_def intro: shows_boundaryI split: option.split)

lemma updated_boundary: "shows_boundary Updated s (record_session_updated_received sha i c ec t s)"
  unfolding record_session_updated_received_def using bd_Updated [of "boundary_of s"]
  by (auto intro!: shows_boundaryI shows_sequence simp: boundary_of_def simp del: str_def split: option.split)

lemma append_boundary: "shows_boundary Appended s (record_provider_append n t s)"
  unfolding record_provider_append_def using bd_Appended [of "boundary_of s"]
  by (auto intro!: shows_boundaryI shows_sequence simp: boundary_of_def Let_def simp del: str_def split: option.split)

lemma closed_boundary: "shows_boundary Closed s (record_provider_input_closed t s)"
  unfolding record_provider_input_closed_def close_commit_def using bd_Closed [of "boundary_of s"]
  by (auto intro!: shows_boundaryI shows_sequence simp: boundary_of_def Let_def simp del: str_def split: option.split)

lemma finish_boundary: "shows_boundary Finish s (record_session_finish_sent t s)"
  unfolding record_session_finish_sent_def finish_commit_def using bd_Finish [of "boundary_of s"]
  by (auto intro!: shows_boundaryI shows_sequence simp: boundary_of_def Let_def simp del: str_def split: option.split)

lemma end_boundary: "shows_boundary End s (record_session_finished_received t s)"
  unfolding record_session_finished_received_def shows_boundary_def next_source_sequence_def
  using bd_End [of "boundary_of s"]
  by (auto simp: boundary_of_def Let_def checked_add_u64_def simp del: str_def split: option.split)

lemma replaced_boundary: "wt_aec_open_input_drain s \<Longrightarrow> shows_boundary Replaced s (reset_provider_socket s)"
  unfolding reset_provider_socket_def violate_def using bd_Replaced [of "boundary_of s"]
  by (auto intro!: shows_boundaryI simp: boundary_of_def simp del: str_def)

lemma silent_settle:
  "boundary_of (fst r) = boundary_of s \<Longrightarrow>
     trace_of boundary_spec (boundary_of s) (snd (settle [] r)) (boundary_of (fst (fst (settle [] r))))"
  by (simp add: settle_def split: sum.split werr.split)

lemma shown_settle:
  "shows_boundary x s r \<Longrightarrow>
     trace_of boundary_spec (boundary_of s) (snd (settle [x] r)) (boundary_of (fst (fst (settle [x] r))))"
  by (auto simp: settle_def shows_boundary_def split: sum.splits werr.splits if_splits)

lemma boundary_step:
  "trace_of boundary_spec (boundary_of s) (snd (watch_op_step sha s e)) (boundary_of (fst (fst (watch_op_step sha s e))))"
proof (cases e)
  case ResetSocket
  then show ?thesis using shown_settle [OF replaced_boundary]
    by (cases "wt_aec_open_input_drain s") (auto intro!: silent_settle simp: reset_provider_socket_def)
qed (simp_all add: silent_settle shown_settle updated_boundary append_boundary closed_boundary finish_boundary end_boundary)

text \<open>The shape of a history: updated before every append, finished once and after the last one.\<close>

definition updated_first :: "watch_obs list \<Rightarrow> bool" where
  "updated_first xs \<longleftrightarrow> (\<exists>ys zs. xs = ys @ Updated # zs \<and> Appended \<notin> set ys)"

definition finished_once :: "watch_obs list \<Rightarrow> bool" where
  "finished_once xs \<longleftrightarrow> (\<exists>ys zs. xs = ys @ Finish # zs \<and> Appended \<in> set ys \<and> Closed \<in> set ys \<and> End \<notin> set ys \<and>
     Finish \<notin> set ys \<and> Finish \<notin> set zs \<and> Appended \<notin> set zs)"

lemma updated_first_snoc: "updated_first xs \<Longrightarrow> updated_first (xs @ [x])"
  unfolding updated_first_def by (metis append.assoc append_Cons)

lemma updated_first_new: "Appended \<notin> set xs \<Longrightarrow> updated_first (xs @ [Updated])"
  unfolding updated_first_def by blast

lemma finished_once_snoc:
  assumes "finished_once xs" and "x \<noteq> Finish" and "x \<noteq> Appended"
  shows "finished_once (xs @ [x])"
proof -
  obtain ys zs where "xs = ys @ Finish # zs" "Appended \<in> set ys" "Closed \<in> set ys" "End \<notin> set ys"
    "Finish \<notin> set ys" "Finish \<notin> set zs" "Appended \<notin> set zs"
    using assms(1) by (auto simp: finished_once_def)
  then show ?thesis unfolding finished_once_def
    using assms(2,3) by (intro exI [of _ ys] exI [of _ "zs @ [x]"]) auto
qed

lemma finished_once_new:
  "Appended \<in> set xs \<Longrightarrow> Closed \<in> set xs \<Longrightarrow> End \<notin> set xs \<Longrightarrow> Finish \<notin> set xs \<Longrightarrow> finished_once (xs @ [Finish])"
  unfolding finished_once_def by (intro exI [of _ xs] exI [of _ "[]"]) simp

definition boundary_history :: "watch_obs list \<Rightarrow> boundary \<Rightarrow> bool" where
  "boundary_history xs b \<longleftrightarrow>
     (bd_appended b \<longleftrightarrow> Appended \<in> set xs) \<and> (bd_closed b \<longleftrightarrow> Closed \<in> set xs) \<and>
     (bd_finish b \<longleftrightarrow> Finish \<in> set xs) \<and> (bd_end b \<longleftrightarrow> End \<in> set xs) \<and> (bd_end b \<longrightarrow> bd_finish b) \<and>
     (bd_updated b \<longrightarrow> updated_first xs) \<and> (bd_finish b \<longrightarrow> finished_once xs)"

lemma boundary_history_step:
  "boundary_history xs b \<Longrightarrow> boundary_spec b x b' \<Longrightarrow> boundary_history (xs @ [x]) b'"
  by (cases b x b' rule: boundary_spec.cases)
    (auto simp: boundary_history_def updated_first_snoc updated_first_new finished_once_snoc finished_once_new)

lemma boundary_history_trace:
  assumes "trace_of boundary_spec b xs b'" and "boundary_history [] b"
  shows "boundary_history xs b'"
  by (rule trace_invariant [OF assms(1), of boundary_history]) (auto intro: assms(2) boundary_history_step)

lemma history_order:
  assumes "updated_first xs" and "finished_once xs"
  obtains ys zs ws where "xs = ys @ Updated # zs @ Finish # ws" "Appended \<notin> set ys" "Appended \<in> set zs"
    "Closed \<in> set (ys @ zs)" "End \<notin> set (ys @ zs)" "Finish \<notin> set (ys @ zs @ ws)" "Appended \<notin> set ws"
proof -
  obtain as bs where u: "xs = as @ Updated # bs" "Appended \<notin> set as" using assms(1) by (auto simp: updated_first_def)
  obtain cs ds where f: "xs = cs @ Finish # ds" "Appended \<in> set cs" "Closed \<in> set cs" "End \<notin> set cs"
    "Finish \<notin> set cs" "Finish \<notin> set ds" "Appended \<notin> set ds" using assms(2) by (auto simp: finished_once_def)
  have "as @ Updated # bs = cs @ Finish # ds" using u(1) f(1) by simp
  then obtain zs where z: "cs = as @ Updated # zs"
    using u(2) f(2) by (auto simp: append_eq_append_conv2 append_eq_Cons_conv Cons_eq_append_conv)
  show thesis by (rule that [of as zs ds]) (use u f z in auto)
qed

section \<open>The sealed ledger\<close>

text \<open>
  After the output was approved as quiescent, either the ledger records why the run cannot succeed
  (a violation, a failed response, activity of a later generation) or everything is still quiet.
\<close>

definition quiet :: "WatchState \<Rightarrow> bool" where
  "quiet s \<longleftrightarrow> wt_active_speech s = [] \<and> wt_active_responses s = [] \<and> pending_input_segments s = 0 \<and> all_cues_acked s"

lemma pending_zero:
  "pending_input_segments s = 0 \<longleftrightarrow>
     (\<forall>p\<in>set (wt_input_response_owners s). \<exists>i. snd p = Some i \<and> i \<in> set (wt_response_done_ids s))"
  by (auto simp: pending_input_segments_def filter_empty_conv split: option.splits)

lemma quiet_iff:
  "quiet s \<longleftrightarrow> wt_active_speech s = [] \<and> wt_active_responses s = [] \<and> all_cues_acked s \<and>
     (\<forall>p\<in>set (wt_input_response_owners s). \<exists>i. snd p = Some i \<and> i \<in> set (wt_response_done_ids s))"
  by (auto simp: quiet_def pending_zero)

definition sealed :: "WatchState \<Rightarrow> bool" where
  "sealed s \<longleftrightarrow> (\<exists>q. wt_output_quiescent s = Some q \<and>
     (av_activity_generation q < wt_activity_generation s \<or>
      av_activity_generation q = wt_activity_generation s \<and>
        (wt_terminal_violation s \<noteq> None \<or> wt_failed_response_statuses s \<noteq> [] \<or> quiet s)))"

definition watch_inv :: "WatchState \<Rightarrow> bool" where
  "watch_inv s \<longleftrightarrow>
     (wt_session_finish_sent s \<noteq> None \<longrightarrow> wt_last_provider_append s \<noteq> None) \<and>
     (wt_session_finished_received s \<noteq> None \<longrightarrow> wt_session_finish_sent s \<noteq> None) \<and>
     (wt_open_input_phase s \<noteq> OpenPhase \<longrightarrow>
        wt_aec_open_input_drain s \<and> wt_media_complete s \<noteq> None \<and> sealed s) \<and>
     (wt_aec_open_input_drain s \<longrightarrow>
        (wt_session_finish_sent s \<noteq> None \<longrightarrow> wt_open_input_phase s = FinishSent \<or> wt_open_input_phase s = FinishedPhase) \<and>
        (wt_session_finished_received s \<noteq> None \<longrightarrow> wt_open_input_phase s = FinishedPhase))"

text \<open>An operation keeps the invariant unless it panics.\<close>

definition keeps :: "'a wres \<Rightarrow> bool" where
  "keeps r \<longleftrightarrow> snd r = Inl WPanic \<or> watch_inv (fst r)"

lemma keepsI: "watch_inv (fst r) \<Longrightarrow> keeps r"
  by (simp add: keeps_def)

lemma keeps_sequence:
  "(\<And>n. keeps (k n (s\<lparr>wt_next_source_sequence := n\<rparr>))) \<Longrightarrow> keeps (next_source_sequence s k)"
  by (simp add: next_source_sequence_def keeps_def split: option.split)

text \<open>The seal ignores all other fields.\<close>

lemma sealed_simps [simp]:
  "sealed (s\<lparr>wt_next_source_sequence := x0\<rparr>) = sealed s"
  "sealed (s\<lparr>wt_open_input_phase := x1\<rparr>) = sealed s"
  "sealed (s\<lparr>wt_provider_call_started_qpc_100ns := x2\<rparr>) = sealed s"
  "sealed (s\<lparr>wt_provider_session_id := x3\<rparr>) = sealed s"
  "sealed (s\<lparr>wt_last_input_speech := x4\<rparr>) = sealed s"
  "sealed (s\<lparr>wt_last_output := x5\<rparr>) = sealed s"
  "sealed (s\<lparr>wt_last_physical_started := x6\<rparr>) = sealed s"
  "sealed (s\<lparr>wt_last_physical_frame := x7\<rparr>) = sealed s"
  "sealed (s\<lparr>wt_last_physical_completed := x8\<rparr>) = sealed s"
  "sealed (s\<lparr>wt_media_complete := x9\<rparr>) = sealed s"
  "sealed (s\<lparr>wt_capture_closed := x10\<rparr>) = sealed s"
  "sealed (s\<lparr>wt_append_count := x11\<rparr>) = sealed s"
  "sealed (s\<lparr>wt_accepted_samples_total := x12\<rparr>) = sealed s"
  "sealed (s\<lparr>wt_provider_writes_after_finish := x13\<rparr>) = sealed s"
  "sealed (s\<lparr>wt_finish_count := x14\<rparr>) = sealed s"
  "sealed (s\<lparr>wt_session_updated_received := x15\<rparr>) = sealed s"
  "sealed (s\<lparr>wt_last_provider_append := x16\<rparr>) = sealed s"
  "sealed (s\<lparr>wt_provider_input_closed_source_sequence := x17\<rparr>) = sealed s"
  "sealed (s\<lparr>wt_session_finish_sent := x18\<rparr>) = sealed s"
  "sealed (s\<lparr>wt_session_finished_received := x19\<rparr>) = sealed s"
  "sealed (s\<lparr>wt_last_response_audio_done := x20\<rparr>) = sealed s"
  "sealed (s\<lparr>wt_last_response_done := x21\<rparr>) = sealed s"
  "sealed (s\<lparr>wt_response_terminals := x22\<rparr>) = sealed s"
  "sealed (s\<lparr>wt_response_audio_done_ids := x23\<rparr>) = sealed s"
  "sealed (s\<lparr>wt_next_cue_sequence := x24\<rparr>) = sealed s"
  "sealed (s\<lparr>wt_cue_response_ids := x25\<rparr>) = sealed s"
  "sealed (s\<lparr>wt_last_cue_sequence := x26\<rparr>) = sealed s"
  "sealed (s\<lparr>wt_renderer_failures := x27\<rparr>) = sealed s"
  "sealed (s\<lparr>wt_renderer_receipt_ids := x28\<rparr>) = sealed s"
  "sealed (s\<lparr>wt_aec_open_input_drain := x29\<rparr>) = sealed s"
  by (simp_all add: sealed_def quiet_iff all_cues_acked_def)

lemma watch_inv_sequence [simp]: "watch_inv (s\<lparr>wt_next_source_sequence := n\<rparr>) = watch_inv s"
  by (simp add: watch_inv_def)

lemma keeps_violate: "watch_inv s \<Longrightarrow> keeps (violate e s)"
  by (auto simp: keeps_def violate_def watch_inv_def sealed_def get_or_insert_def split: option.splits)

text \<open>New activity either happens before the seal or is a violation.\<close>

lemma keeps_fresh:
  assumes "watch_inv s"
    and "\<And>e g n. wt_open_input_phase s = OpenPhase \<Longrightarrow>
      keeps (k e (s\<lparr>wt_activity_generation := g, wt_next_source_sequence := n\<rparr>))"
  shows "keeps (activity owner True now s k)"
proof (cases "wt_open_input_phase s = OpenPhase")
  case True
  then show ?thesis using assms by (auto simp: activity_def next_source_sequence_def keeps_def split: option.split)
next
  case False
  then have "wt_aec_open_input_drain s" using assms(1) by (auto simp: watch_inv_def)
  then show ?thesis using False keeps_violate [OF assms(1)] by (simp add: activity_def)
qed

text \<open>Late activity of known work breaks the seal by its generation.\<close>

lemma keeps_late:
  assumes "watch_inv s"
    and "\<And>e n. keeps (k e (s\<lparr>wt_activity_generation := Suc (wt_activity_generation s), wt_next_source_sequence := n\<rparr>))"
  shows "keeps (activity owner False now s k)"
  using assms by (auto simp: activity_def next_source_sequence_def keeps_def checked_add_u64_def)

lemma keeps_call_started: "watch_inv s \<Longrightarrow> keeps (record_provider_call_started qpc s)"
  by (auto simp: record_provider_call_started_def keeps_def watch_inv_def simp del: str_def split: option.split)

lemma keeps_session_created: "watch_inv s \<Longrightarrow> keeps (record_provider_session_created i s)"
  by (auto simp: record_provider_session_created_def keeps_def watch_inv_def simp del: str_def split: option.split)

lemma keeps_renderer_failure: "watch_inv s \<Longrightarrow> keeps (record_renderer_failure c r s)"
  by (simp add: record_renderer_failure_def keeps_def watch_inv_def del: str_def split: option.split)

lemma keeps_append: "watch_inv s \<Longrightarrow> keeps (record_provider_append n t s)"
  unfolding record_provider_append_def Let_def
  by (auto intro!: keeps_sequence simp: keepsI simp del: str_def) (auto simp: keeps_def watch_inv_def)

lemma keeps_updated: "watch_inv s \<Longrightarrow> keeps (record_session_updated_received sha i c ec t s)"
  unfolding record_session_updated_received_def
  by (auto intro!: keeps_sequence simp: keepsI simp del: str_def split: option.split) (auto simp: keeps_def watch_inv_def)

lemma keeps_enable: "watch_inv s \<Longrightarrow> keeps (enable_aec_open_input_drain s)"
  by (auto simp: enable_aec_open_input_drain_def keeps_def watch_inv_def simp del: str_def)

lemma keeps_reset: "watch_inv s \<Longrightarrow> keeps (reset_provider_socket s)"
  unfolding reset_provider_socket_def
  by (auto intro!: keeps_violate simp: keepsI simp del: str_def) (auto simp: keeps_def watch_inv_def)

lemma keeps_media: "watch_inv s \<Longrightarrow> keeps (record_media_complete t s)"
  unfolding record_media_complete_def
  by (auto intro!: keeps_sequence simp: keepsI simp del: str_def split: option.split) (auto simp: keeps_def watch_inv_def)

lemma keeps_approve: "watch_inv s \<Longrightarrow> keeps (approve_output_quiescence g t s)"
  unfolding approve_output_quiescence_def
  by (auto intro!: keeps_sequence simp: keepsI simp del: str_def split: option.split)
    (auto simp: keeps_def watch_inv_def sealed_def quiet_iff pending_zero all_cues_acked_def)

lemma keeps_closed: "watch_inv s \<Longrightarrow> keeps (record_provider_input_closed t s)"
  unfolding record_provider_input_closed_def close_commit_def
  by (auto intro!: keeps_sequence simp: keepsI simp del: str_def split: option.split) (auto simp: keeps_def watch_inv_def)

lemma keeps_finish: "watch_inv s \<Longrightarrow> keeps (record_session_finish_sent t s)"
  unfolding record_session_finish_sent_def finish_commit_def Let_def
  by (auto intro!: keeps_sequence simp: keepsI simp del: str_def split: option.split) (auto simp: keeps_def watch_inv_def)

lemma keeps_end: "watch_inv s \<Longrightarrow> keeps (record_session_finished_received t s)"
  unfolding record_session_finished_received_def Let_def
  by (auto intro!: keeps_sequence simp: keepsI simp del: str_def split: option.split) (auto simp: keeps_def watch_inv_def)

lemma keeps_started: "watch_inv s \<Longrightarrow> keeps (record_response_started r t s)"
  unfolding record_response_started_def
  by (auto intro!: keeps_fresh simp: keepsI simp del: str_def) (auto simp: keeps_def watch_inv_def)

lemma keeps_output: "watch_inv s \<Longrightarrow> keeps (record_nonempty_output r t s)"
  unfolding record_nonempty_output_def Let_def
  by (auto intro!: keeps_fresh simp: keepsI simp del: str_def) (auto simp: keeps_def watch_inv_def)

lemma keeps_renderer_started: "watch_inv s \<Longrightarrow> keeps (record_renderer_started c t s)"
  unfolding record_renderer_started_def
  by (auto intro!: keeps_fresh simp: keepsI simp del: str_def) (auto simp: keeps_def watch_inv_def)

lemma keeps_renderer_frames: "watch_inv s \<Longrightarrow> keeps (record_renderer_frames c n t s)"
  unfolding record_renderer_frames_def
  by (auto intro!: keeps_fresh simp: keepsI simp del: str_def) (auto simp: keeps_def watch_inv_def)

lemma keeps_speech: "watch_inv s \<Longrightarrow> keeps (record_input_speech i a t s)"
  unfolding record_input_speech_def Let_def own_input_def ownership_failure_def
  by (auto intro!: keeps_fresh keeps_violate simp: keepsI simp del: str_def split: option.split)
    (auto simp: keeps_def watch_inv_def)

lemma keeps_source: "watch_inv s \<Longrightarrow> keeps (record_source_activity i t s)"
  unfolding record_source_activity_def Let_def own_input_def ownership_failure_def
  by (auto intro!: keeps_fresh keeps_violate simp: keepsI simp del: str_def split: option.split)
    (auto simp: keeps_def watch_inv_def)

lemma keeps_cue: "watch_inv s \<Longrightarrow> keeps (record_renderer_cue_submitted c r t s)"
  unfolding record_renderer_cue_submitted_def cue_sequence_def Let_def
  by (auto intro!: keeps_fresh simp: keepsI simp del: str_def split: option.split)
    (auto simp: keeps_def watch_inv_def)

lemma keeps_bind_inputs: "watch_inv s \<Longrightarrow> keeps (bind_inputs bs s)"
proof (induction bs arbitrary: s)
  case (Cons b bs)
  obtain i r now where b: "b = ((i, r), now)" by (metis surj_pair)
  have "keeps (activity i True now s (\<lambda>e s1. bind_inputs bs (s1\<lparr>wt_last_input_speech := Some e,
      wt_input_response_owners := hash_insert i (Some r) (wt_input_response_owners s1)\<rparr>)))"
    using Cons.prems by (intro keeps_fresh Cons.IH) (auto simp: watch_inv_def)
  moreover have "keeps (ownership_failure e s :: unit wres)" for e
    by (simp add: ownership_failure_def keeps_violate Cons.prems)
  ultimately show ?case using Cons by (simp add: b del: str_def split: option.split)
qed (simp add: keepsI)

lemma keeps_bindings: "watch_inv s \<Longrightarrow> keeps (record_input_response_bindings bs s)"
  by (simp add: record_input_response_bindings_def keepsI keeps_bind_inputs split: option.split)

lemma keeps_failed: "watch_inv s \<Longrightarrow> keeps (record_response_failed r st s)"
  unfolding record_response_failed_def Let_def
  by (auto simp: keepsI simp del: str_def) (auto simp: keeps_def watch_inv_def sealed_def hash_insert_def)

text \<open>A ledger whose generation has moved past the seal stays sealed whatever else is recorded.\<close>

lemma sealed_late:
  "wt_open_input_phase s \<noteq> OpenPhase \<Longrightarrow> watch_inv s \<Longrightarrow>
     \<exists>q. wt_output_quiescent s = Some q \<and> av_activity_generation q < Suc (wt_activity_generation s)"
  by (auto simp: watch_inv_def sealed_def)

lemma keeps_ack_commit:
  assumes "watch_inv s"
  shows "keeps (ack_commit c r n a i t (s\<lparr>wt_activity_generation := Suc (wt_activity_generation s),
           wt_next_source_sequence := m, wt_last_physical_completed := e\<rparr>))"
  unfolding ack_commit_def using sealed_late [OF _ assms] assms
  by (intro keeps_sequence) (auto simp: keeps_def watch_inv_def sealed_def)

lemma keeps_ack: "watch_inv s \<Longrightarrow> keeps (record_renderer_ack c a i t u s)"
  unfolding record_renderer_ack_def
  by (auto intro!: keeps_late keeps_ack_commit simp: keepsI simp del: str_def split: option.split)
    (auto simp: ack_commit_def keeps_def watch_inv_def next_source_sequence_def split: option.split)

lemma keeps_terminal_commit:
  assumes "watch_inv s"
  shows "keeps (terminal_commit g r t (s\<lparr>wt_activity_generation := Suc (wt_activity_generation s),
           wt_next_source_sequence := m\<rparr>))"
  unfolding terminal_commit_def Let_def using sealed_late [OF _ assms] assms
  by (intro keeps_sequence) (auto simp: keeps_def watch_inv_def sealed_def)

lemma stages_distinct [simp]: "done_stage \<noteq> audio_done_stage" "audio_done_stage \<noteq> done_stage"
  by (simp_all add: done_stage_def audio_done_stage_def)

lemma quiet_done:
  "quiet s \<Longrightarrow> quiet (s\<lparr>wt_response_done_ids := r # wt_response_done_ids s\<rparr>)"
  "quiet s \<Longrightarrow> quiet (s\<lparr>wt_response_done_ids := r # wt_response_done_ids s,
     wt_active_responses := removeAll r (wt_active_responses s)\<rparr>)"
  by (fastforce simp: quiet_iff all_cues_acked_def)+

lemma sealed_done:
  "sealed s \<Longrightarrow> sealed (s\<lparr>wt_response_done_ids := r # wt_response_done_ids s\<rparr>)"
  "sealed s \<Longrightarrow> sealed (s\<lparr>wt_response_done_ids := r # wt_response_done_ids s,
     wt_active_responses := removeAll r (wt_active_responses s)\<rparr>)"
  using quiet_done [of s r] by (auto simp: sealed_def simp del: removeAll.simps)

lemma watch_inv_done:
  assumes "watch_inv s"
  shows "watch_inv (s\<lparr>wt_response_audio_done_ids := xs\<rparr>)"
    and "watch_inv (s\<lparr>wt_response_done_ids := r # wt_response_done_ids s\<rparr>)"
    and "watch_inv (s\<lparr>wt_response_done_ids := r # wt_response_done_ids s,
           wt_active_responses := removeAll r (wt_active_responses s)\<rparr>)"
  using assms sealed_done [of s r] by (simp_all add: watch_inv_def)

lemma keeps_terminal: "watch_inv s \<Longrightarrow> keeps (record_response_terminal g r t u s)"
  unfolding record_response_terminal_def Let_def
  by (auto intro!: keeps_late keeps_terminal_commit watch_inv_done simp: keepsI simp del: str_def)
    (auto simp: terminal_commit_def keeps_def watch_inv_def next_source_sequence_def Let_def split: option.split)

lemma keeps_settle: "keeps r \<Longrightarrow> snd (fst (settle x r)) \<or> watch_inv (fst (fst (settle x r)))"
  by (auto simp: keeps_def settle_def split: sum.split werr.split)

lemmas keeps_all = keeps_call_started keeps_session_created keeps_enable keeps_reset keeps_media keeps_updated keeps_append
  keeps_closed keeps_finish keeps_end keeps_terminal keeps_failed keeps_started keeps_output keeps_cue keeps_ack
  keeps_renderer_failure keeps_renderer_started keeps_renderer_frames keeps_approve keeps_speech keeps_source keeps_bindings

lemma watch_op_step_inv:
  "watch_inv s \<Longrightarrow> snd (fst (watch_op_step sha s e)) \<or> watch_inv (fst (fst (watch_op_step sha s e)))"
  by (cases e) (simp_all only: watch_op_step.simps, simp_all only: keeps_settle keeps_all)

interpretation watch: simulation "watch_step sha" "\<lambda>g. snd g \<or> watch_inv (fst g)" "\<lambda>g. boundary_of (fst g)" boundary_spec
  for sha
  by unfold_locales (use watch_op_step_inv in \<open>auto simp: watch_step_def boundary_step\<close>)

lemma watch_begin_inv:
  "watch_begin i None = (Some s, Inr ()) \<Longrightarrow> watch_inv s \<and> boundary_history [] (boundary_of s)"
  by (auto simp: watch_begin_def watch_inv_def boundary_history_def boundary_of_def split: if_splits)

text \<open>What a successful snapshot has checked.\<close>

lemma snapshot_ok:
  assumes "terminal_snapshot (Some s) = Inr snap"
  shows "wt_session_updated_received s \<noteq> None \<and> wt_last_provider_append s \<noteq> None \<and> wt_session_finish_sent s \<noteq> None \<and>
    wt_session_finished_received s \<noteq> None \<and> (wt_aec_open_input_drain s \<longrightarrow> check_open_input_failure s = None)"
  using assms by (auto simp: terminal_snapshot_def simp del: str_def split: option.splits if_splits)

lemma no_failure:
  "check_open_input_failure s = None \<Longrightarrow> wt_terminal_violation s = None \<and> wt_failed_response_statuses s = [] \<and>
     wt_renderer_failures s = [] \<and>
     (wt_aec_open_input_drain s \<longrightarrow> (\<forall>q. wt_output_quiescent s = Some q \<longrightarrow> av_activity_generation q = wt_activity_generation s))"
  by (auto simp: check_open_input_failure_def simp del: str_def split: option.splits if_splits)

section \<open>Properties\<close>

text \<open>
  C20: A run is declared successful only when its provider boundary was crossed in order: whatever was
  called in whatever order, a successful terminal snapshot means that the session configuration was
  echoed before the first accepted audio, that audio was accepted, that the capture was closed, that
  the session was finished exactly once and after the last accepted audio, and that the server ended
  the session after that.
\<close>

theorem watch_success_orders_provider:
  assumes "watch_begin i None = (Some s0, Inr ())"
    and "observe (watch_step sha) (s0, False) ops = ((s, False), xs)"
    and "terminal_snapshot (Some s) = Inr snap"
  shows "\<exists>before between after. xs = before @ Updated # between @ Finish # after \<and>
    Appended \<notin> set before \<and> Appended \<in> set between \<and> Closed \<in> set (before @ between) \<and>
    Appended \<notin> set after \<and> Finish \<notin> set (before @ between @ after) \<and> End \<in> set after"
proof -
  have "trace_of boundary_spec (boundary_of s0) xs (boundary_of s)"
    using watch.run_refines [of "(s0, False)" sha ops] watch_begin_inv [OF assms(1)] assms(2) by simp
  then have h: "boundary_history xs (boundary_of s)"
    using boundary_history_trace watch_begin_inv [OF assms(1)] by blast
  then have "updated_first xs" "finished_once xs" "End \<in> set xs"
    using snapshot_ok [OF assms(3)] by (auto simp: boundary_history_def boundary_of_def)
  then show ?thesis by (elim history_order [of xs]) auto
qed

text \<open>
  C21: With the open-input drain policy, a successful terminal snapshot certifies that the run ended in
  the state that was approved as quiescent: the lifecycle reached its last phase, there is no open
  speech, no open response and no input segment without a completed response, every submitted cue
  has a renderer receipt, nothing failed, and no activity happened after the approval.
\<close>

theorem watch_success_is_quiescent:
  assumes "watch_begin i None = (Some s0, Inr ())"
    and "observe (watch_step sha) (s0, False) ops = ((s, False), xs)"
    and "terminal_snapshot (Some s) = Inr snap" and "wt_aec_open_input_drain s"
  shows "wt_open_input_phase s = FinishedPhase \<and> wt_active_speech s = [] \<and> wt_active_responses s = [] \<and>
    pending_input_segments s = 0 \<and> all_cues_acked s \<and> wt_failed_response_statuses s = [] \<and>
    wt_renderer_failures s = [] \<and> wt_terminal_violation s = None \<and>
    (\<exists>q. wt_output_quiescent s = Some q \<and> av_activity_generation q = wt_activity_generation s)"
proof -
  have inv: "watch_inv s"
    using watch.inv_observe [of "(s0, False)" sha ops] watch_begin_inv [OF assms(1)] assms(2) by simp
  note ok = snapshot_ok [OF assms(3)]
  then have phase: "wt_open_input_phase s = FinishedPhase" using inv assms(4) by (auto simp: watch_inv_def)
  have nf: "check_open_input_failure s = None" using ok assms(4) by blast
  have "sealed s" using inv phase by (auto simp: watch_inv_def)
  then have "quiet s \<and> (\<exists>q. wt_output_quiescent s = Some q \<and> av_activity_generation q = wt_activity_generation s)"
    using no_failure [OF nf] assms(4) by (auto simp: sealed_def)
  then show ?thesis using phase no_failure [OF nf] by (auto simp: quiet_def)
qed

section \<open>A concrete run\<close>

definition demo_digest :: rstring where "demo_digest = replicate 64 97"

definition demo_ops :: "watch_op list" where
  "demo_ops = [EnableAec, SessionUpdated demo_digest demo_digest demo_digest 1, ProviderAppend 480 2,
     ResponseStarted [114] 3, CueSubmitted [99] [114] 4, ResponseTerminal done_stage [114] 5 6,
     RendererAcked [99] [97] [105] 7 8, MediaComplete 9, Approve 4 10, InputClosed 11, SessionFinish 12,
     SessionFinished 13]"

definition demo_begin :: WatchState where
  "demo_begin = the (fst (watch_begin \<lparr>ti_run_marker = [97], ti_cell_id = [98], ti_lease_id = [99]\<rparr> None))"

lemmas text_eval = trim_def trim_start_def trim_end_def is_whitespace_def

lemma demo_begin_eq: "watch_begin \<lparr>ti_run_marker = [97], ti_cell_id = [98], ti_lease_id = [99]\<rparr> None = (Some demo_begin, Inr ())"
  by (simp add: demo_begin_def watch_begin_def text_eval)

lemma demo_digest_ok: "is_sha256_hex demo_digest"
  by (simp add: is_sha256_hex_def demo_digest_def byte_len_def len_utf8_def sum_list_replicate)

lemmas demo_watch_eval = demo_ops_def watch_step_def settle_def Let_def text_eval demo_begin_def watch_begin_def
  enable_aec_open_input_drain_def record_session_updated_received_def first_bad_digest_def demo_digest_ok
  record_provider_append_def record_response_started_def record_renderer_cue_submitted_def cue_sequence_def
  record_response_terminal_def terminal_commit_def record_renderer_ack_def ack_commit_def record_media_complete_def
  approve_output_quiescence_def record_provider_input_closed_def close_commit_def record_session_finish_sent_def
  finish_commit_def record_session_finished_received_def next_source_sequence_def activity_def checked_add_u64_def
  u64_max_def sat_add_u64_def check_open_input_failure_def hash_insert_def pending_input_segments_def all_cues_acked_def

lemma demo_observed:
  "\<exists>s. observe (watch_step id) (demo_begin, False) demo_ops = ((s, False), [Updated, Appended, Closed, Finish, End]) \<and>
     wt_aec_open_input_drain s \<and> (\<exists>snap. terminal_snapshot (Some s) = Inr snap)"
  by (simp add: demo_watch_eval terminal_snapshot_def provider_order_ok_def snapshot_renderer_def del: str_def)

theorem watch_success_orders_provider_witness:
  "\<exists>before between after. [Updated, Appended, Closed, Finish, End] = before @ Updated # between @ Finish # after \<and>
     Appended \<notin> set before \<and> Appended \<in> set between \<and> End \<in> set after"
proof -
  from demo_observed obtain s snap where
    "observe (watch_step id) (demo_begin, False) demo_ops = ((s, False), [Updated, Appended, Closed, Finish, End])"
    "terminal_snapshot (Some s) = Inr snap" by blast
  from watch_success_orders_provider [OF demo_begin_eq this] show ?thesis by blast
qed

theorem watch_success_is_quiescent_witness:
  "\<exists>s. fst (fst (observe (watch_step id) (demo_begin, False) demo_ops)) = s \<and>
     wt_open_input_phase s = FinishedPhase \<and> all_cues_acked s \<and> pending_input_segments s = 0"
proof -
  from demo_observed obtain s snap where
    "observe (watch_step id) (demo_begin, False) demo_ops = ((s, False), [Updated, Appended, Closed, Finish, End])"
    "terminal_snapshot (Some s) = Inr snap" "wt_aec_open_input_drain s" by blast
  with watch_success_is_quiescent [OF demo_begin_eq this] show ?thesis by auto
qed

end
