(* ===== verification/Effects.thy ===== *)
theory Effects
  imports Omni_Prelude
begin

text \<open>
  Sequential code that talks to a device: each external call takes its outcome from a script, so a
  run is a function of the state that holds the script, and a run whose script ends before the code
  returns has no value. A run that returns has produced a value, an error or a panic. The rules give
  partial correctness with one postcondition for values and one for errors (a panic is never allowed)
  and total correctness with the number of script entries a run needs.
\<close>

datatype 'a outcome = Done 'a | Failed rstring | Panicked

type_synonym ('a, 's) act = "'s \<Rightarrow> ('a outcome \<times> 's) option"

definition ret :: "'a \<Rightarrow> ('a, 's) act" where
  "ret x s = Some (Done x, s)"

definition fail :: "rstring \<Rightarrow> ('a, 's) act" where
  "fail e s = Some (Failed e, s)"

definition panic :: "('a, 's) act" where
  "panic s = Some (Panicked, s)"

definition reads :: "('s \<Rightarrow> 'a) \<Rightarrow> ('a, 's) act" where
  "reads f s = Some (Done (f s), s)"

definition modifies :: "('s \<Rightarrow> 's) \<Rightarrow> (unit, 's) act" where
  "modifies f s = Some (Done (), f s)"

text \<open>Sequencing: the operator \<open>?\<close> of the source returns early on an error.\<close>

definition andthen :: "('a, 's) act \<Rightarrow> ('a \<Rightarrow> ('b, 's) act) \<Rightarrow> ('b, 's) act" where
  "andthen m k s =
     (case m s of
        None \<Rightarrow> None
      | Some (Done x, s') \<Rightarrow> k x s'
      | Some (Failed e, s') \<Rightarrow> Some (Failed e, s')
      | Some (Panicked, s') \<Rightarrow> Some (Panicked, s'))"

definition seq :: "(unit, 's) act \<Rightarrow> ('b, 's) act \<Rightarrow> ('b, 's) act" where
  "seq m k = andthen m (\<lambda>_. k)"

definition only_if :: "bool \<Rightarrow> (unit, 's) act \<Rightarrow> (unit, 's) act" where
  "only_if b m = (if b then m else ret ())"

section \<open>Partial correctness\<close>

named_theorems triple_rules \<open>partial correctness of the operations of a component\<close>

definition triple :: "('s \<Rightarrow> bool) \<Rightarrow> ('a, 's) act \<Rightarrow> ('a \<Rightarrow> 's \<Rightarrow> bool) \<Rightarrow> ('s \<Rightarrow> bool) \<Rightarrow> bool" where
  "triple P m Q E \<longleftrightarrow> (\<forall>s r s'. P s \<longrightarrow> m s = Some (r, s') \<longrightarrow>
     (case r of Done x \<Rightarrow> Q x s' | Failed e \<Rightarrow> E s' | Panicked \<Rightarrow> False))"

lemma tripleI:
  assumes "\<And>s x s'. P s \<Longrightarrow> m s = Some (Done x, s') \<Longrightarrow> Q x s'"
    and "\<And>s e s'. P s \<Longrightarrow> m s = Some (Failed e, s') \<Longrightarrow> E s'"
    and "\<And>s s'. P s \<Longrightarrow> m s = Some (Panicked, s') \<Longrightarrow> False"
  shows "triple P m Q E"
  using assms by (auto simp: triple_def split: outcome.split)

lemma tripleD:
  "triple P m Q E \<Longrightarrow> P s \<Longrightarrow> m s = Some (r, s') \<Longrightarrow>
     (case r of Done x \<Rightarrow> Q x s' | Failed e \<Rightarrow> E s' | Panicked \<Rightarrow> False)"
  by (auto simp: triple_def)

lemma triple_conseq:
  assumes "triple P m Q E" and "\<And>s. P' s \<Longrightarrow> P s" and "\<And>x s. Q x s \<Longrightarrow> Q' x s" and "\<And>s. E s \<Longrightarrow> E' s"
  shows "triple P' m Q' E'"
  using assms by (fastforce simp: triple_def split: outcome.splits)

lemma triple_pre: "triple P m Q E \<Longrightarrow> (\<And>s. P' s \<Longrightarrow> P s) \<Longrightarrow> triple P' m Q E"
  by (erule triple_conseq) auto

lemma triple_andthen:
  assumes "triple P m R E" and "\<And>x. triple (R x) (k x) Q E"
  shows "triple P (andthen m k) Q E"
proof (unfold triple_def, intro allI impI)
  fix s r s'
  assume P: "P s" and run: "andthen m k s = Some (r, s')"
  then obtain r1 s1 where m: "m s = Some (r1, s1)"
    by (auto simp: andthen_def split: option.splits)
  from tripleD [OF assms(1) P m] run m
  show "case r of Done x \<Rightarrow> Q x s' | Failed e \<Rightarrow> E s' | Panicked \<Rightarrow> False"
    using tripleD [OF assms(2)] by (cases r1) (auto simp: andthen_def)
qed

lemma triple_seq: "triple P m (\<lambda>_. R) E \<Longrightarrow> triple R k Q E \<Longrightarrow> triple P (seq m k) Q E"
  unfolding seq_def by (erule triple_andthen)

lemma triple_ret: "(\<And>s. P s \<Longrightarrow> Q x s) \<Longrightarrow> triple P (ret x) Q E"
  by (auto simp: triple_def ret_def)

lemma triple_fail: "(\<And>s. P s \<Longrightarrow> E s) \<Longrightarrow> triple P (fail e) Q E"
  by (auto simp: triple_def fail_def)

lemma triple_reads: "triple P (reads f) (\<lambda>x s. P s \<and> x = f s) E"
  by (auto simp: triple_def reads_def)

lemma triple_reads_value:
  "(\<And>s. P s \<Longrightarrow> f s = v) \<Longrightarrow> triple P (k v) Q E \<Longrightarrow> triple P (andthen (reads f) k) Q E"
  by (auto simp: triple_def andthen_def reads_def)

lemma triple_ex: "(\<And>x. F x \<Longrightarrow> triple (P x) m Q E) \<Longrightarrow> triple (\<lambda>s. \<exists>x. P x s \<and> F x) m Q E"
  by (fastforce simp: triple_def)

lemma andthen_ret [simp]: "andthen (ret x) k = k x"
  by (rule ext) (simp add: andthen_def ret_def)

lemma triple_modifies: "(\<And>s. P s \<Longrightarrow> Q () (f s)) \<Longrightarrow> triple P (modifies f) Q E"
  by (auto simp: triple_def modifies_def)

lemma triple_if:
  "(b \<Longrightarrow> triple P m Q E) \<Longrightarrow> (\<not> b \<Longrightarrow> triple P n Q E) \<Longrightarrow> triple P (if b then m else n) Q E"
  by simp

lemma triple_only_if: "(b \<Longrightarrow> triple P m Q E) \<Longrightarrow> (\<And>s. \<not> b \<Longrightarrow> P s \<Longrightarrow> Q () s) \<Longrightarrow> triple P (only_if b m) Q E"
  by (simp add: only_if_def triple_ret)

text \<open>The state on which a branch is decided may be assumed to satisfy the precondition.\<close>

lemma triple_assume: "(\<And>s0. P s0 \<Longrightarrow> triple (\<lambda>s. s = s0) m Q E) \<Longrightarrow> triple P m Q E"
  by (auto simp: triple_def)

section \<open>Relations kept by every run\<close>

definition along :: "('s \<Rightarrow> 's \<Rightarrow> bool) \<Rightarrow> ('a, 's) act \<Rightarrow> bool" where
  "along R m \<longleftrightarrow> (\<forall>s r s'. m s = Some (r, s') \<longrightarrow> R s s')"

lemma alongD: "along R m \<Longrightarrow> m s = Some (r, s') \<Longrightarrow> R s s'"
  by (auto simp: along_def)

lemma along_compose:
  assumes "along S m" and "\<And>x. along R (k x)" and "\<And>s t u. S s t \<Longrightarrow> R t u \<Longrightarrow> S s u"
  shows "along S (andthen m k)"
  unfolding along_def andthen_def
  using assms by (fastforce simp: along_def split: option.splits outcome.splits prod.splits)

lemma along_seq_compose:
  "along S m \<Longrightarrow> along R k \<Longrightarrow> (\<And>s t u. S s t \<Longrightarrow> R t u \<Longrightarrow> S s u) \<Longrightarrow> along S (seq m k)"
  unfolding seq_def by (rule along_compose)

lemma along_reads_then: "(\<And>x. along S (k x)) \<Longrightarrow> along S (andthen (reads f) k)"
  by (auto simp: along_def andthen_def reads_def)

text \<open>A reflexive and transitive relation is kept by a program when its calls keep it.\<close>

locale effect_relation =
  fixes R :: "'s \<Rightarrow> 's \<Rightarrow> bool"
  assumes R_refl: "R s s" and R_trans: "R s t \<Longrightarrow> R t u \<Longrightarrow> R s u"
begin

lemma along_andthen: "along R m \<Longrightarrow> (\<And>x. along R (k x)) \<Longrightarrow> along R (andthen m k)"
  by (rule along_compose [where R = R]) (auto intro: R_trans)

lemma along_seq: "along R m \<Longrightarrow> along R k \<Longrightarrow> along R (seq m k)"
  unfolding seq_def by (rule along_andthen)

lemma along_basic: "along R (ret x)" "along R (fail e)" "along R panic" "along R (reads f)"
  by (auto simp: along_def ret_def fail_def panic_def reads_def R_refl)

lemma along_modifies: "(\<And>s. R s (f s)) \<Longrightarrow> along R (modifies f)"
  by (auto simp: along_def modifies_def)

lemma along_if: "along R m \<Longrightarrow> along R n \<Longrightarrow> along R (if b then m else n)"
  by simp

lemma along_only_if: "along R m \<Longrightarrow> along R (only_if b m)"
  by (simp add: only_if_def along_basic)

lemma along_case_option: "along R m \<Longrightarrow> (\<And>x. along R (k x)) \<Longrightarrow> along R (case v of None \<Rightarrow> m | Some x \<Rightarrow> k x)"
  by (cases v) auto

lemma along_case_sum:
  "(\<And>e. along R (m e)) \<Longrightarrow> (\<And>x. along R (k x)) \<Longrightarrow> along R (case v of Inl e \<Rightarrow> m e | Inr x \<Rightarrow> k x)"
  by (cases v) auto

lemmas along_intros = along_andthen along_seq along_basic along_modifies along_if along_only_if
  along_case_option along_case_sum

end

section \<open>Total correctness with a budget\<close>

text \<open>
  \<open>costs left P m Q c\<close>: from a state that satisfies \<open>P\<close> and has at least \<open>c\<close> script entries left, the
  run returns a value, and it has used at most \<open>c\<close> of them.
\<close>

definition costs :: "('s \<Rightarrow> nat) \<Rightarrow> ('s \<Rightarrow> bool) \<Rightarrow> ('a, 's) act \<Rightarrow> ('a \<Rightarrow> 's \<Rightarrow> bool) \<Rightarrow> nat \<Rightarrow> bool" where
  "costs left P m Q c \<longleftrightarrow> (\<forall>s. P s \<longrightarrow> c \<le> left s \<longrightarrow>
     (\<exists>x s'. m s = Some (Done x, s') \<and> Q x s' \<and> left s \<le> left s' + c))"

lemma costs_andthen:
  assumes "costs left P m R c" and "\<And>x. costs left (R x) (k x) Q d"
  shows "costs left P (andthen m k) Q (c + d)"
proof (unfold costs_def, intro allI impI)
  fix s
  assume P: "P s" and c: "c + d \<le> left s"
  with assms(1) obtain x s1 where m: "m s = Some (Done x, s1)" "R x s1" "left s \<le> left s1 + c"
    unfolding costs_def by (meson add_leD1)
  with c have "d \<le> left s1" by simp
  with assms(2) m(2) obtain y s2 where "k x s1 = Some (Done y, s2)" "Q y s2" "left s1 \<le> left s2 + d"
    unfolding costs_def by blast
  with m show "\<exists>y s'. andthen m k s = Some (Done y, s') \<and> Q y s' \<and> left s \<le> left s' + (c + d)"
    by (auto simp: andthen_def)
qed

lemma costs_conseq:
  assumes "costs left P m Q c" and "\<And>s. P' s \<Longrightarrow> P s" and "\<And>x s. Q x s \<Longrightarrow> Q' x s" and "c \<le> d"
  shows "costs left P' m Q' d"
proof (unfold costs_def, intro allI impI)
  fix s assume "P' s" "d \<le> left s"
  with assms obtain x s' where "m s = Some (Done x, s')" "Q x s'" "left s \<le> left s' + c"
    unfolding costs_def by (meson le_trans)
  with assms(3,4) show "\<exists>x s'. m s = Some (Done x, s') \<and> Q' x s' \<and> left s \<le> left s' + d"
    by fastforce
qed

lemma costs_ret: "(\<And>s. P s \<Longrightarrow> Q x s) \<Longrightarrow> costs left P (ret x) Q 0"
  by (auto simp: costs_def ret_def)

lemma costs_weaken: "costs left P m Q c \<Longrightarrow> c \<le> d \<Longrightarrow> costs left P m Q d"
  by (erule costs_conseq)

lemma costs_only_if: "costs left P m (\<lambda>_. Q) c \<Longrightarrow> (\<And>s. P s \<Longrightarrow> Q s) \<Longrightarrow> costs left P (only_if b m) (\<lambda>_. Q) c"
  by (cases b) (simp_all add: only_if_def costs_weaken [OF costs_ret])

lemma costs_reads: "costs left P (reads f) (\<lambda>x s. P s \<and> x = f s) 0"
  by (auto simp: costs_def reads_def)

lemma costs_modifies:
  "(\<And>s. P s \<Longrightarrow> Q () (f s) \<and> left (f s) = left s) \<Longrightarrow> costs left P (modifies f) Q 0"
  by (fastforce simp: costs_def modifies_def)

lemma costs_seq: "costs left P m (\<lambda>_. R) c \<Longrightarrow> costs left R k Q d \<Longrightarrow> costs left P (seq m k) Q (c + d)"
  unfolding seq_def by (erule costs_andthen)

lemma costs_reads_value:
  "(\<And>s. P s \<Longrightarrow> f s = v) \<Longrightarrow> costs left P (k v) Q c \<Longrightarrow> costs left P (andthen (reads f) k) Q c"
  by (auto simp: costs_def andthen_def reads_def)

lemma costs_reads_then: "(\<And>v. costs left P (k v) Q c) \<Longrightarrow> costs left P (andthen (reads f) k) Q c"
  by (auto simp: costs_def andthen_def reads_def)

lemma costs_ex: "(\<And>x. F x \<Longrightarrow> costs left (P x) m Q c) \<Longrightarrow> costs left (\<lambda>s. \<exists>x. P x s \<and> F x) m Q c"
  by (auto simp: costs_def)

lemma costs_assume: "(\<And>s0. P s0 \<Longrightarrow> costs left (\<lambda>s. s = s0) m Q c) \<Longrightarrow> costs left P m Q c"
  by (auto simp: costs_def)

end
