(* ===== verification/Speaker_Render.thy ===== *)
theory Speaker_Render
  imports Playback_Ownership Effects "HOL-Library.Word"
begin

text \<open>
  The loop that plays translated speech on a WASAPI endpoint and publishes, for every ten
  milliseconds it hands to the device, the reference frame the echo canceller needs
  (\<open>audio/speech/output.rs\<close> \<open>render_wasapi_frames\<close>, \<open>audio/speech/output/support.rs\<close>,
  \<open>audio/speech/render_submit_tracker.rs\<close>). The playback permit is the one of \<open>Playback_Ownership\<close>:
  other threads take steps on the shared ownership state before every external call. The outcomes of
  the device and of the consumer of the events come from a script. The log holds the calls that were
  accepted, each with the ownership state at that moment. A sample is the 32 bits of an \<open>f32\<close>; time
  stamps of events are left out, and a player position is the number of played frames from which the
  source computes it.
\<close>

section \<open>The submission tracker\<close>

record RenderReferenceWindow =
  rw_start_frame :: nat
  rw_end_frame :: nat
  rw_submitted_frames :: nat
  rw_endpoint_padding_frames :: nat
  rw_played_frames :: nat

record RenderSubmitTracker =
  st_total_frames :: nat
  st_total_reference_frames :: nat
  st_reference_frames :: nat
  st_physical_prefix_frames :: nat
  st_reference_start_frame :: nat
  st_submitted_frames :: nat
  st_submitted_frame_base :: nat

definition tracker_new :: "nat \<Rightarrow> nat \<Rightarrow> nat \<Rightarrow> nat \<Rightarrow> nat \<Rightarrow> RenderSubmitTracker" where
  "tracker_new total_frames total_reference_frames reference_frames physical_prefix_frames submitted_frame_base =
     (let physical_prefix_frames = min physical_prefix_frames total_frames
      in \<lparr>st_total_frames = total_frames,
          st_total_reference_frames = min total_reference_frames (total_frames - physical_prefix_frames),
          st_reference_frames = max reference_frames 1,
          st_physical_prefix_frames = physical_prefix_frames,
          st_reference_start_frame = 0, st_submitted_frames = 0,
          st_submitted_frame_base = submitted_frame_base\<rparr>)"

text \<open>Frame counts are lengths of slices, so their \<open>usize\<close> sums do not wrap.\<close>

definition next_write_frames :: "nat \<Rightarrow> RenderSubmitTracker \<Rightarrow> nat" where
  "next_write_frames available_frames t =
     (let remaining_frames = st_total_frames t - st_submitted_frames t
      in if st_submitted_frames t < st_physical_prefix_frames t
         then min (min available_frames (st_physical_prefix_frames t - st_submitted_frames t)) remaining_frames
         else if st_reference_start_frame t \<ge> st_total_reference_frames t
         then min available_frames remaining_frames
         else (let next_reference_end =
                     min (st_physical_prefix_frames t +
                          min (st_reference_start_frame t + st_reference_frames t) (st_total_reference_frames t))
                         (st_total_frames t);
                   pending_reference_frames = min (next_reference_end - st_submitted_frames t) remaining_frames
               in if available_frames \<ge> pending_reference_frames then pending_reference_frames else 0))"

definition record_write ::
  "nat \<Rightarrow> nat \<Rightarrow> RenderSubmitTracker \<Rightarrow> (rstring + RenderReferenceWindow option) \<times> RenderSubmitTracker" where
  "record_write written_frames endpoint_padding_frames t =
     (if written_frames = 0 \<or> st_submitted_frames t + written_frames > st_total_frames t
      then (Inl (str ''invalid WASAPI render write progress''), t)
      else let t1 = t\<lparr>st_submitted_frames := st_submitted_frames t + written_frames\<rparr>
      in if endpoint_padding_frames > st_submitted_frames t1
         then (Inl (str ''WASAPI render padding '' @ show_nat endpoint_padding_frames @
                    str '' exceeds submitted position '' @ show_nat (st_submitted_frames t1)), t1)
         else if st_submitted_frames t1 \<le> st_physical_prefix_frames t1 then (Inr None, t1)
         else let reference_end_frame =
                    min (st_submitted_frames t1 - st_physical_prefix_frames t1) (st_total_reference_frames t1);
                  expected_reference_end =
                    min (st_reference_start_frame t1 + st_reference_frames t1) (st_total_reference_frames t1)
         in if reference_end_frame \<noteq> expected_reference_end then (Inr None, t1)
         else let reference_start_frame = st_reference_start_frame t1;
                  window = \<lparr>rw_start_frame = reference_start_frame, rw_end_frame = reference_end_frame,
                     rw_submitted_frames = sat_add_u64 (st_submitted_frame_base t1) (st_submitted_frames t1),
                     rw_endpoint_padding_frames = endpoint_padding_frames,
                     rw_played_frames = sat_add_u64 (st_submitted_frame_base t1)
                       (st_submitted_frames t1 - endpoint_padding_frames)\<rparr>
         in (Inr (if reference_start_frame < reference_end_frame then Some window else None),
             t1\<lparr>st_reference_start_frame := reference_end_frame\<rparr>))"

definition tracker_is_complete :: "RenderSubmitTracker \<Rightarrow> bool" where
  "tracker_is_complete t \<longleftrightarrow> st_submitted_frames t = st_total_frames t"

section \<open>Events, calls and the state of a render\<close>

text \<open>
  Session, endpoint, renderer and owner generation; the caller of the loop publishes the session
  boundaries.
\<close>

datatype EchoRenderBoundary =
    SessionStarted nat rstring rstring nat
  | StreamStarted nat rstring rstring nat
  | SessionEnded nat rstring rstring nat bool bool
  | DeviceFault rstring

record RenderFrame =
  fr_render_session_id :: nat
  fr_samples :: "32 word list"
  fr_sample_rate_hz :: nat
  fr_channel_count :: nat
  fr_played_frames :: nat
  fr_submitted_frames :: nat
  fr_endpoint_padding_frames :: nat
  fr_physical_prefix_offset_frames :: nat

datatype SpeakerRenderEvent = Discontinuity EchoRenderBoundary | FrameEvent RenderFrame

datatype render_call =
    DeviceStart | DeviceWrite nat "8 word list" | DeviceStop | DeviceReset | Publish SpeakerRenderEvent

text \<open>What happens at one external call: steps of other threads, a failure, a reading.\<close>

record answer =
  an_others :: "own_op list"
  an_failure :: "rstring option"
  an_padding :: nat

record render_config =
  rc_reference_samples :: "32 word list"
  rc_physical_samples :: "32 word list"
  rc_prefix_offset_frames :: nat
  rc_submitted_frame_base :: nat
  rc_buffer_frames :: nat
  rc_permit :: DesktopPlaybackPermit
  rc_session_id :: nat
  rc_endpoint_id :: rstring
  rc_renderer_instance_id :: rstring

record render_state =
  rd_tracker :: RenderSubmitTracker
  rd_started :: bool
  rd_reported_in_session :: bool
  rd_deferred :: "RenderFrame list"
  rd_authority :: bool
  rd_own :: PlaybackOwnershipState
  rd_script :: "answer list"
  rd_log :: "(PlaybackOwnershipState \<times> render_call) list"

definition SPEAKER_SAMPLE_RATE_HZ :: nat where "SPEAKER_SAMPLE_RATE_HZ = 48000"
definition SPEAKER_CHANNEL_COUNT :: nat where "SPEAKER_CHANNEL_COUNT = 2"
definition RENDER_REFERENCE_FRAME_MS :: nat where "RENDER_REFERENCE_FRAME_MS = 10"

definition f32_to_le_bytes :: "32 word \<Rightarrow> 8 word list" where
  "f32_to_le_bytes w = [ucast w, ucast (drop_bit 8 w), ucast (drop_bit 16 w), ucast (drop_bit 24 w)]"

definition f32_samples_to_le_bytes :: "32 word list \<Rightarrow> 8 word list" where
  "f32_samples_to_le_bytes samples = concat (map f32_to_le_bytes samples)"

section \<open>External calls\<close>

definition ask :: "(answer, render_state) act" where
  "ask s = (case rd_script s of
      [] \<Rightarrow> None
    | a # rest \<Rightarrow> Some (Done a, s\<lparr>rd_script := rest, rd_own := runs own_step (rd_own s) (an_others a)\<rparr>))"

definition accept :: "render_call \<Rightarrow> (unit, render_state) act" where
  "accept c = modifies (\<lambda>s. s\<lparr>rd_log := rd_log s @ [(rd_own s, c)]\<rparr>)"

text \<open>A call whose error the source keeps as a value.\<close>

definition attempt :: "render_call \<Rightarrow> (rstring option, render_state) act" where
  "attempt c = andthen ask (\<lambda>a. case an_failure a of
      Some e \<Rightarrow> ret (Some e)
    | None \<Rightarrow> seq (accept c) (ret None))"

definition get_current_padding :: "(nat, render_state) act" where
  "get_current_padding = andthen ask (\<lambda>a. case an_failure a of
      Some e \<Rightarrow> fail e
    | None \<Rightarrow> ret (an_padding a))"

definition on_render_event :: "SpeakerRenderEvent \<Rightarrow> (unit, render_state) act" where
  "on_render_event event = andthen ask (\<lambda>a. case an_failure a of
      Some e \<Rightarrow> fail e
    | None \<Rightarrow> accept (Publish event))"

definition cleanup_error :: "rstring option \<Rightarrow> rstring option \<Rightarrow> rstring option" where
  "cleanup_error stop_error reset_error = (case (stop_error, reset_error) of
      (None, None) \<Rightarrow> None
    | (Some stop, None) \<Rightarrow> Some (str ''IAudioClient::Stop failed: '' @ stop)
    | (None, Some reset) \<Rightarrow> Some (str ''IAudioClient::Reset failed: '' @ reset)
    | (Some stop, Some reset) \<Rightarrow> Some (str ''IAudioClient::Stop failed: '' @ stop @
        str ''; IAudioClient::Reset failed: '' @ reset))"

definition cancel_wasapi_render :: "DesktopPlaybackPermit \<Rightarrow> bool \<Rightarrow> rstring \<Rightarrow> ('a, render_state) act" where
  "cancel_wasapi_render permit started cancellation =
     andthen (if started then attempt DeviceStop else ret None) (\<lambda>stop_error.
     andthen (attempt DeviceReset) (\<lambda>reset_error.
     case cleanup_error stop_error reset_error of
       Some cleanup \<Rightarrow>
         andthen ask (\<lambda>_.
         seq (modifies (\<lambda>s. s\<lparr>rd_own := record_cancellation_failure permit cleanup (rd_own s)\<rparr>))
             (fail (cancellation @ str ''; '' @ cleanup)))
     | None \<Rightarrow> fail cancellation))"

definition ensure_render_ownership :: "DesktopPlaybackPermit \<Rightarrow> bool \<Rightarrow> (unit, render_state) act" where
  "ensure_render_ownership permit started =
     andthen ask (\<lambda>_. andthen (reads rd_own) (\<lambda>own.
     case validate permit own of
       Inr _ \<Rightarrow> ret ()
     | Inl error \<Rightarrow> cancel_wasapi_render permit started error))"

text \<open>\<open>wait_for_render_poll\<close>: the second answer holds the steps other threads took during the wait.\<close>

definition wait_for_render_poll :: "DesktopPlaybackPermit \<Rightarrow> bool \<Rightarrow> (unit, render_state) act" where
  "wait_for_render_poll permit started =
     andthen ask (\<lambda>_. andthen (reads (\<lambda>s. validate permit (rd_own s))) (\<lambda>before_wait.
     case before_wait of
       Inl error \<Rightarrow> cancel_wasapi_render permit started error
     | Inr _ \<Rightarrow>
         andthen ask (\<lambda>_. andthen (reads (\<lambda>s. validate permit (rd_own s))) (\<lambda>after_wait.
         case after_wait of
           Inl error \<Rightarrow> cancel_wasapi_render permit started error
         | Inr _ \<Rightarrow> ret ()))))"

text \<open>\<open>submit_render_action\<close>: the action runs inside the critical section of the permit.\<close>

definition submit_render_action :: "DesktopPlaybackPermit \<Rightarrow> bool \<Rightarrow> render_call \<Rightarrow> (unit, render_state) act" where
  "submit_render_action permit started c =
     andthen ask (\<lambda>a. andthen (reads (\<lambda>s. submit permit
         (case an_failure a of Some e \<Rightarrow> Inl e | None \<Rightarrow> Inr ()) (rd_own s))) (\<lambda>result.
     case result of
       Inr _ \<Rightarrow> accept c
     | Inl error \<Rightarrow>
         if desktop_playback_was_cancelled error then cancel_wasapi_render permit started error
         else fail error))"

section \<open>Publishing reference frames\<close>

definition publish_render_stream_started :: "render_config \<Rightarrow> (unit, render_state) act" where
  "publish_render_stream_started cfg =
     andthen (reads rd_authority) (\<lambda>authority.
       if authority then ret ()
       else seq (on_render_event (Discontinuity (StreamStarted (rc_session_id cfg) (rc_endpoint_id cfg)
                   (rc_renderer_instance_id cfg) (pm_generation (rc_permit cfg)))))
                (modifies (\<lambda>s. s\<lparr>rd_authority := True\<rparr>)))"

text \<open>\<open>DeferredRenderFrames::flush\<close>: a frame that fails to publish stays at the front.\<close>

fun flush_frames :: "RenderFrame list \<Rightarrow> (unit, render_state) act" where
  "flush_frames [] = modifies (\<lambda>s. s\<lparr>rd_deferred := []\<rparr>)"
| "flush_frames (frame # frames) =
     seq (modifies (\<lambda>s. s\<lparr>rd_deferred := frame # frames\<rparr>))
    (seq (on_render_event (FrameEvent frame)) (flush_frames frames))"

definition publish_render_stream_started_and_flush :: "render_config \<Rightarrow> (unit, render_state) act" where
  "publish_render_stream_started_and_flush cfg =
     seq (publish_render_stream_started cfg) (andthen (reads rd_deferred) flush_frames)"

definition publish_or_defer :: "RenderFrame \<Rightarrow> (unit, render_state) act" where
  "publish_or_defer frame =
     andthen (reads rd_authority) (\<lambda>authority.
       if \<not> authority then modifies (\<lambda>s. s\<lparr>rd_deferred := rd_deferred s @ [frame]\<rparr>)
       else on_render_event (FrameEvent frame))"

definition underrun_observe :: "nat \<Rightarrow> render_state \<Rightarrow> bool" where
  "underrun_observe padding_frames s \<longleftrightarrow>
     \<not> rd_reported_in_session s \<and> rd_started s \<and> st_submitted_frames (rd_tracker s) > 0 \<and> padding_frames = 0"

section \<open>The render loop\<close>

definition reference_frames :: nat where
  "reference_frames = max (SPEAKER_SAMPLE_RATE_HZ * RENDER_REFERENCE_FRAME_MS div 1000) 1"

definition prefill_frames :: "render_config \<Rightarrow> nat" where
  "prefill_frames cfg = min (reference_frames * 2) (rc_buffer_frames cfg)"

definition start_and_publish :: "render_config \<Rightarrow> (unit, render_state) act" where
  "start_and_publish cfg =
     seq (submit_render_action (rc_permit cfg) False DeviceStart)
    (seq (modifies (\<lambda>s. s\<lparr>rd_started := True\<rparr>))
         (publish_render_stream_started_and_flush cfg))"

definition report_underrun :: "nat \<Rightarrow> (unit, render_state) act" where
  "report_underrun padding_before =
     andthen (reads (underrun_observe padding_before)) (\<lambda>underrun.
       only_if underrun
         (seq (modifies (\<lambda>s. s\<lparr>rd_reported_in_session := True\<rparr>))
              (on_render_event (Discontinuity (DeviceFault (str ''wasapi-render-underrun''))))))"

text \<open>A slice expression of the source panics when it is out of range.\<close>

definition sample_slice :: "'a list \<Rightarrow> nat \<Rightarrow> nat \<Rightarrow> ('a list, render_state) act" where
  "sample_slice xs a b = (if a \<le> b \<and> b \<le> length xs then ret (take (b - a) (drop a xs)) else panic)"

definition track_write :: "nat \<Rightarrow> nat \<Rightarrow> (RenderReferenceWindow option, render_state) act" where
  "track_write write_frames padding s =
     (case record_write write_frames padding (rd_tracker s) of
        (Inl e, t) \<Rightarrow> Some (Failed e, s\<lparr>rd_tracker := t\<rparr>)
      | (Inr w, t) \<Rightarrow> Some (Done w, s\<lparr>rd_tracker := t\<rparr>))"

definition publish_window :: "render_config \<Rightarrow> RenderReferenceWindow \<Rightarrow> (unit, render_state) act" where
  "publish_window cfg window =
     andthen (sample_slice (rc_reference_samples cfg)
        (rw_start_frame window * SPEAKER_CHANNEL_COUNT) (rw_end_frame window * SPEAKER_CHANNEL_COUNT)) (\<lambda>samples.
     publish_or_defer \<lparr>fr_render_session_id = rc_session_id cfg, fr_samples = samples,
       fr_sample_rate_hz = SPEAKER_SAMPLE_RATE_HZ, fr_channel_count = SPEAKER_CHANNEL_COUNT,
       fr_played_frames = rw_played_frames window, fr_submitted_frames = rw_submitted_frames window,
       fr_endpoint_padding_frames = rw_endpoint_padding_frames window,
       fr_physical_prefix_offset_frames = rc_prefix_offset_frames cfg\<rparr>)"

text \<open>The write of one chunk, up to the end of the loop body.\<close>

definition write_chunk :: "render_config \<Rightarrow> nat \<Rightarrow> (unit, render_state) act" where
  "write_chunk cfg write_frames =
     andthen (reads (\<lambda>s. (st_submitted_frames (rd_tracker s), rd_started s))) (\<lambda>(submitted, started).
     andthen (sample_slice (rc_physical_samples cfg)
        (submitted * SPEAKER_CHANNEL_COUNT) ((submitted + write_frames) * SPEAKER_CHANNEL_COUNT)) (\<lambda>samples.
     seq (submit_render_action (rc_permit cfg) started
            (DeviceWrite write_frames (f32_samples_to_le_bytes samples)))
    (andthen get_current_padding (\<lambda>padding.
     andthen (track_write write_frames padding) (\<lambda>window.
     seq (case window of None \<Rightarrow> ret () | Some w \<Rightarrow> publish_window cfg w)
    (andthen (reads rd_tracker) (\<lambda>t.
       only_if (\<not> started \<and> (tracker_is_complete t \<or> st_submitted_frames t \<ge> prefill_frames cfg))
         (start_and_publish cfg))))))))"

definition wait_or_start :: "render_config \<Rightarrow> bool \<Rightarrow> (unit, render_state) act" where
  "wait_or_start cfg started =
     seq (only_if (\<not> started) (start_and_publish cfg))
         (andthen (reads rd_started) (wait_for_render_poll (rc_permit cfg)))"

definition buffer_too_small_error :: "render_config \<Rightarrow> rstring" where
  "buffer_too_small_error cfg = str ''WASAPI render buffer ('' @ show_nat (rc_buffer_frames cfg) @
     str '' frames) cannot hold one complete AEC reference frame ('' @ show_nat reference_frames @ str '' frames)''"

definition render_iteration :: "render_config \<Rightarrow> (unit, render_state) act" where
  "render_iteration cfg =
     andthen (reads rd_started) (\<lambda>started.
     seq (ensure_render_ownership (rc_permit cfg) started)
    (andthen get_current_padding (\<lambda>padding_before.
     seq (report_underrun padding_before)
    (andthen (reads rd_tracker) (\<lambda>t.
       let available_frames = rc_buffer_frames cfg - padding_before;
           write_frames = next_write_frames available_frames t
       in if available_frames = 0 then wait_or_start cfg started
          else if write_frames = 0
          then (if \<not> started \<and> st_submitted_frames t = 0 then fail (buffer_too_small_error cfg)
                else wait_or_start cfg started)
          else write_chunk cfg write_frames)))))"

section \<open>What every call keeps\<close>

text \<open>
  A relation between the state before and after a call that the external calls respect is respected
  by the whole loop body. It is used twice: for the script, which is why the loops end, and for the
  ownership discipline.
\<close>

definition is_playback :: "render_call \<Rightarrow> bool" where
  "is_playback c = (case c of DeviceStart \<Rightarrow> True | DeviceWrite n b \<Rightarrow> True | _ \<Rightarrow> False)"

definition logged :: "render_call \<Rightarrow> render_state \<Rightarrow> render_state" where
  "logged c s = s\<lparr>rd_log := rd_log s @ [(rd_own s, c)]\<rparr>"

locale render_relation = effect_relation R
  for R :: "render_state \<Rightarrow> render_state \<Rightarrow> bool" +
  fixes permit :: DesktopPlaybackPermit
  assumes ask_R: "along R ask"
    and log_R: "\<not> is_playback c \<or> validate permit (rd_own s) = Inr () \<Longrightarrow> R s (logged c s)"
    and record_R: "R s (s\<lparr>rd_own := record_cancellation_failure permit d (rd_own s)\<rparr>)"
    and local_R: "R s (s\<lparr>rd_tracker := t, rd_started := b, rd_reported_in_session := b',
                          rd_deferred := fs, rd_authority := b''\<rparr>)"
begin

lemma fields_R:
  "R s (s\<lparr>rd_tracker := t\<rparr>)" "R s (s\<lparr>rd_started := b\<rparr>)" "R s (s\<lparr>rd_reported_in_session := b\<rparr>)"
  "R s (s\<lparr>rd_deferred := fs\<rparr>)" "R s (s\<lparr>rd_authority := b\<rparr>)"
  using local_R [of s "rd_authority s" "rd_deferred s" "rd_reported_in_session s" "rd_started s" t]
    local_R [of s "rd_authority s" "rd_deferred s" "rd_reported_in_session s" b "rd_tracker s"]
    local_R [of s "rd_authority s" "rd_deferred s" b "rd_started s" "rd_tracker s"]
    local_R [of s "rd_authority s" fs "rd_reported_in_session s" "rd_started s" "rd_tracker s"]
    local_R [of s b "rd_deferred s" "rd_reported_in_session s" "rd_started s" "rd_tracker s"]
  by simp_all

lemma accept_R: "\<not> is_playback c \<Longrightarrow> along R (accept c)"
  using log_R unfolding accept_def logged_def by (intro along_modifies) blast

lemma calls_R:
  "\<not> is_playback c \<Longrightarrow> along R (attempt c)" "along R get_current_padding" "along R (on_render_event ev)"
  unfolding attempt_def get_current_padding_def on_render_event_def
  by (intro along_intros ask_R accept_R; simp add: is_playback_def)+

lemma cancel_R: "along R (cancel_wasapi_render permit st e)"
  unfolding cancel_wasapi_render_def
  by (intro along_intros ask_R calls_R record_R) (simp_all add: is_playback_def)

lemma submit_R: "along R (submit_render_action permit st c)"
proof -
  have "along R (andthen (reads (\<lambda>s. submit permit f (rd_own s))) (\<lambda>result. case result of
       Inr _ \<Rightarrow> accept c
     | Inl error \<Rightarrow> if desktop_playback_was_cancelled error then cancel_wasapi_render permit st error
         else fail error))" for f :: "rstring + unit"
    using alongD [OF cancel_R] log_R
    by (auto simp: along_def andthen_def reads_def submit_def accept_def modifies_def fail_def R_refl logged_def
        split: sum.splits if_splits)
  then show ?thesis unfolding submit_render_action_def by (rule along_andthen [OF ask_R])
qed

lemma ownership_R: "along R (ensure_render_ownership permit st)" "along R (wait_for_render_poll permit st)"
  unfolding ensure_render_ownership_def wait_for_render_poll_def
  by (intro along_intros ask_R cancel_R)+

lemma flush_R: "along R (flush_frames fs)"
  by (induction fs) (auto intro!: along_intros calls_R fields_R)

lemma start_R: "rc_permit cfg = permit \<Longrightarrow> along R (start_and_publish cfg)"
  unfolding start_and_publish_def publish_render_stream_started_and_flush_def publish_render_stream_started_def
  by (intro along_intros calls_R flush_R fields_R) (simp_all add: submit_R)

lemma slice_R: "along R (sample_slice xs a b)"
  by (simp add: sample_slice_def along_basic)

lemma track_R: "along R (track_write n p)"
  by (auto simp: along_def track_write_def fields_R split: prod.splits sum.splits)

lemma write_R: "rc_permit cfg = permit \<Longrightarrow> along R (write_chunk cfg n)"
  unfolding write_chunk_def publish_window_def publish_or_defer_def split_beta
  by (intro along_intros calls_R slice_R track_R start_R fields_R) (simp_all add: submit_R)

lemma wait_or_start_R: "rc_permit cfg = permit \<Longrightarrow> along R (wait_or_start cfg st)"
  unfolding wait_or_start_def by (intro along_intros start_R) (simp_all add: ownership_R)

lemma iteration_tail_R:
  "rc_permit cfg = permit \<Longrightarrow> along R (andthen get_current_padding (\<lambda>padding_before.
     seq (report_underrun padding_before) (andthen (reads rd_tracker) (\<lambda>t.
       let available_frames = rc_buffer_frames cfg - padding_before;
           write_frames = next_write_frames available_frames t
       in if available_frames = 0 then wait_or_start cfg st
          else if write_frames = 0
          then (if \<not> st \<and> st_submitted_frames t = 0 then fail (buffer_too_small_error cfg)
                else wait_or_start cfg st)
          else write_chunk cfg write_frames))))"
  unfolding report_underrun_def Let_def
  by (intro along_intros calls_R fields_R) (simp_all add: write_R wait_or_start_R)

lemma iteration_R: "rc_permit cfg = permit \<Longrightarrow> along R (render_iteration cfg)"
  unfolding render_iteration_def
  by (intro along_reads_then along_seq iteration_tail_R) (simp_all add: ownership_R)

end

text \<open>Every external call uses up one answer, so an iteration of either loop shortens the script.\<close>

definition no_longer :: "render_state \<Rightarrow> render_state \<Rightarrow> bool" where
  "no_longer s s' \<longleftrightarrow> length (rd_script s') \<le> length (rd_script s)"

definition shorter :: "render_state \<Rightarrow> render_state \<Rightarrow> bool" where
  "shorter s s' \<longleftrightarrow> length (rd_script s') < length (rd_script s)"

interpretation script: render_relation no_longer permit for permit
  by unfold_locales (auto simp: along_def ask_def logged_def no_longer_def split: list.splits)

lemma shorter_trans: "shorter s t \<Longrightarrow> no_longer t u \<Longrightarrow> shorter s u"
  by (simp add: shorter_def no_longer_def)

lemma ask_shorter: "along shorter ask"
  by (auto simp: along_def ask_def shorter_def split: list.splits)

lemma ensure_shorter: "along shorter (ensure_render_ownership p st)"
  unfolding ensure_render_ownership_def
  by (rule along_compose [where R = no_longer, OF ask_shorter _ shorter_trans])
    (intro script.along_intros script.cancel_R)

lemmas ensure_then_shorter = along_seq_compose [where R = no_longer, OF ensure_shorter _ shorter_trans]

lemma iteration_shorter: "along shorter (render_iteration cfg)"
  unfolding render_iteration_def
  by (intro along_reads_then ensure_then_shorter script.iteration_tail_R [OF refl])

function render_loop :: "render_config \<Rightarrow> (unit, render_state) act" where
  "render_loop cfg s =
     (if tracker_is_complete (rd_tracker s) then Some (Done (), s)
      else case render_iteration cfg s of
        None \<Rightarrow> None
      | Some (Done _, s') \<Rightarrow> render_loop cfg s'
      | Some (Failed e, s') \<Rightarrow> Some (Failed e, s')
      | Some (Panicked, s') \<Rightarrow> Some (Panicked, s'))"
  by pat_completeness auto
termination
  using iteration_shorter
  by (relation "measure (\<lambda>(cfg, s). length (rd_script s))") (fastforce simp: along_def shorter_def)+

text \<open>One pass of the loop that waits for the endpoint to play out: true when it is empty.\<close>

definition drain_poll :: "render_config \<Rightarrow> (bool, render_state) act" where
  "drain_poll cfg =
     andthen (reads rd_started) (\<lambda>started.
     seq (ensure_render_ownership (rc_permit cfg) started)
    (andthen get_current_padding (\<lambda>padding.
       if padding = 0 then ret True
       else seq (wait_for_render_poll (rc_permit cfg) started) (ret False))))"

lemma drain_poll_shorter: "along shorter (drain_poll cfg)"
  unfolding drain_poll_def
  by (intro along_reads_then ensure_then_shorter script.along_intros script.calls_R script.ownership_R)

function drain_loop :: "render_config \<Rightarrow> (unit, render_state) act" where
  "drain_loop cfg s =
     (case drain_poll cfg s of
        None \<Rightarrow> None
      | Some (Done True, s') \<Rightarrow> Some (Done (), s')
      | Some (Done False, s') \<Rightarrow> drain_loop cfg s'
      | Some (Failed e, s') \<Rightarrow> Some (Failed e, s')
      | Some (Panicked, s') \<Rightarrow> Some (Panicked, s'))"
  by pat_completeness auto
termination
  using drain_poll_shorter
  by (relation "measure (\<lambda>(cfg, s). length (rd_script s))") (fastforce simp: along_def shorter_def)+

declare render_loop.simps [simp del] drain_loop.simps [simp del]

text \<open>The whole call, from the state the caller hands over.\<close>

definition render_begin ::
  "render_config \<Rightarrow> bool \<Rightarrow> PlaybackOwnershipState \<Rightarrow> answer list \<Rightarrow> render_state" where
  "render_begin cfg authority own script =
     \<lparr>rd_tracker = tracker_new (length (rc_physical_samples cfg) div SPEAKER_CHANNEL_COUNT)
        (length (rc_reference_samples cfg) div SPEAKER_CHANNEL_COUNT) reference_frames
        (rc_prefix_offset_frames cfg) (rc_submitted_frame_base cfg),
      rd_started = False, rd_reported_in_session = False, rd_deferred = [], rd_authority = authority,
      rd_own = own, rd_script = script, rd_log = []\<rparr>"

definition render_wasapi_frames ::
  "render_config \<Rightarrow> bool \<Rightarrow> PlaybackOwnershipState \<Rightarrow> answer list \<Rightarrow> (unit outcome \<times> render_state) option" where
  "render_wasapi_frames cfg authority own script =
     (seq (render_loop cfg)
     (seq (andthen (reads rd_started) (\<lambda>started. only_if (\<not> started) (start_and_publish cfg)))
     (seq (drain_loop cfg)
          (andthen (reads rd_started) (\<lambda>started.
             submit_render_action (rc_permit cfg) started DeviceStop)))))
     (render_begin cfg authority own script)"

section \<open>The loops keep what their bodies keep\<close>

context render_relation
begin

lemma loop_R: "rc_permit cfg = permit \<Longrightarrow> render_loop cfg s = Some (r, s') \<Longrightarrow> R s s'"
proof (induction cfg s arbitrary: r rule: render_loop.induct)
  case (1 cfg s)
  show ?case
  proof (cases "tracker_is_complete (rd_tracker s)")
    case True
    with "1.prems"(2) show ?thesis by (simp add: render_loop.simps [of cfg s] R_refl)
  next
    case False
    with "1.prems"(2) obtain r1 s1 where it: "render_iteration cfg s = Some (r1, s1)"
      by (auto simp: render_loop.simps [of cfg s] split: option.splits)
    have R1: "R s s1" using iteration_R [OF "1.prems"(1)] it by (rule alongD)
    show ?thesis
      using "1.IH" [OF False it refl _ "1.prems"(1)] "1.prems"(2) it False R1
      by (cases r1) (auto simp: render_loop.simps [of cfg s] intro: R_trans [OF R1])
  qed
qed

lemma drain_poll_R: "rc_permit cfg = permit \<Longrightarrow> along R (drain_poll cfg)"
  unfolding drain_poll_def by (intro along_intros calls_R) (simp_all add: ownership_R)

lemma drain_loop_R: "rc_permit cfg = permit \<Longrightarrow> drain_loop cfg s = Some (r, s') \<Longrightarrow> R s s'"
proof (induction cfg s arbitrary: r rule: drain_loop.induct)
  case (1 cfg s)
  from "1.prems"(2) obtain r1 s1 where it: "drain_poll cfg s = Some (r1, s1)"
    by (auto simp: drain_loop.simps [of cfg s] split: option.splits)
  have R1: "R s s1" using drain_poll_R [OF "1.prems"(1)] it by (rule alongD)
  show ?case
    using "1.IH" [OF it refl _ _ "1.prems"(1)] "1.prems"(2) it R1
    by (cases r1) (auto simp: drain_loop.simps [of cfg s] intro: R_trans [OF R1] split: bool.splits)
qed

lemma loops_R: "rc_permit cfg = permit \<Longrightarrow> along R (render_loop cfg)" "rc_permit cfg = permit \<Longrightarrow> along R (drain_loop cfg)"
  by (auto simp: along_def intro: loop_R drain_loop_R)

lemma render_R:
  "rc_permit cfg = permit \<Longrightarrow> render_wasapi_frames cfg authority own script = Some (r, s) \<Longrightarrow>
   R (render_begin cfg authority own script) s"
  unfolding render_wasapi_frames_def
  by (erule alongD [rotated], intro along_intros loops_R start_R) (simp_all add: submit_R)

end

end
