(* ===== verification/Speaker_Playback.thy ===== *)
theory Speaker_Playback
  imports Speaker_Render
begin

text \<open>
  What a run of the speaker renderer of \<open>Speaker_Render\<close> does: it touches the device only while its
  permit is valid, it writes the physical samples and publishes the reference samples in order without
  loss or repetition, it never panics, and on a device that keeps accepting audio it completes. The
  assertions are kept by external calls through the locale \<open>render_assertion\<close>; the loop body is then a
  composition of triples.
\<close>

section \<open>Ownership discipline\<close>

definition disciplined :: "DesktopPlaybackPermit \<Rightarrow> render_state \<Rightarrow> bool" where
  "disciplined permit s \<longleftrightarrow> ownership_inv (rd_own s) \<and>
     (\<forall>(own, c) \<in> set (rd_log s). (is_playback c \<longrightarrow> validate permit own = Inr ()) \<and>
        po_generation own \<le> po_generation (rd_own s)) \<and>
     sorted (map (po_generation \<circ> fst) (rd_log s))"

lemma disciplined_own:
  assumes "disciplined permit s" "ownership_inv own" "po_generation (rd_own s) \<le> po_generation own"
    and "rd_log s' = rd_log s" "rd_own s' = own"
  shows "disciplined permit s'"
  using assms unfolding disciplined_def by (fastforce intro: le_trans)

lemma record_cancellation_failure_generation [simp]:
  "po_generation (record_cancellation_failure p d s) = po_generation s"
  by (simp add: record_cancellation_failure_def Let_def split: option.split)

lemma disciplined_logged:
  assumes "disciplined permit s" and "\<not> is_playback c \<or> validate permit (rd_own s) = Inr ()"
  shows "disciplined permit (logged c s)"
  using assms unfolding disciplined_def logged_def by (auto simp: sorted_append)

interpretation discipline: render_relation "\<lambda>s s'. disciplined permit s \<longrightarrow> disciplined permit s'" permit for permit
proof unfold_locales
  show "along (\<lambda>s s'. disciplined permit s \<longrightarrow> disciplined permit s') ask"
    unfolding along_def
  proof (intro allI impI)
    fix s r s'
    assume run: "ask s = Some (r, s')" and d: "disciplined permit s"
    from run obtain a rest where "rd_script s = a # rest" by (auto simp: ask_def split: list.splits)
    with run have a: "rd_log s' = rd_log s" "rd_own s' = runs own_step (rd_own s) (an_others a)"
      by (auto simp: ask_def)
    have inv: "ownership_inv (rd_own s)" using d by (simp add: disciplined_def)
    show "disciplined permit s'"
      using d own.inv_runs [OF inv] own.measure_runs [OF inv] a by (rule disciplined_own)
  qed
next
  fix s d
  show "disciplined permit s \<longrightarrow> disciplined permit (s\<lparr>rd_own := record_cancellation_failure permit d (rd_own s)\<rparr>)"
    by (auto intro!: disciplined_own [of permit s] record_cancellation_failure_inv simp: disciplined_def)
next
  fix c and s :: render_state
  assume "\<not> is_playback c \<or> validate permit (rd_own s) = Inr ()"
  then show "disciplined permit s \<longrightarrow> disciplined permit (logged c s)"
    by (blast intro: disciplined_logged)
qed (auto simp: disciplined_def)

section \<open>Tracker arithmetic\<close>

definition frames_of :: "'a list \<Rightarrow> nat" where
  "frames_of samples = length samples div 2"

definition prefix_frames :: "render_config \<Rightarrow> nat" where
  "prefix_frames cfg = min (rc_prefix_offset_frames cfg) (frames_of (rc_physical_samples cfg))"

definition referenced_frames :: "render_config \<Rightarrow> nat" where
  "referenced_frames cfg =
     min (frames_of (rc_reference_samples cfg)) (frames_of (rc_physical_samples cfg) - prefix_frames cfg)"

text \<open>The reference position that belongs to a submit position.\<close>

definition tracker_ok :: "render_config \<Rightarrow> RenderSubmitTracker \<Rightarrow> bool" where
  "tracker_ok cfg t \<longleftrightarrow>
     st_total_frames t = frames_of (rc_physical_samples cfg) \<and>
     st_total_reference_frames t = referenced_frames cfg \<and>
     st_reference_frames t = 480 \<and> st_physical_prefix_frames t = prefix_frames cfg \<and>
     st_submitted_frames t \<le> st_total_frames t \<and>
     st_reference_start_frame t = min (st_submitted_frames t - prefix_frames cfg) (referenced_frames cfg)"

lemma reference_frames_480 [simp]: "reference_frames = 480"
  by (simp add: reference_frames_def SPEAKER_SAMPLE_RATE_HZ_def RENDER_REFERENCE_FRAME_MS_def)

lemma tracker_begin: "tracker_ok cfg (rd_tracker (render_begin cfg authority own script))"
  by (simp add: tracker_ok_def render_begin_def tracker_new_def Let_def frames_of_def prefix_frames_def
      referenced_frames_def SPEAKER_CHANNEL_COUNT_def)

lemma prefix_referenced_le: "prefix_frames cfg + referenced_frames cfg \<le> frames_of (rc_physical_samples cfg)"
  by (auto simp: referenced_frames_def prefix_frames_def)

lemma next_write_remaining: "next_write_frames n t \<le> st_total_frames t - st_submitted_frames t"
  by (simp add: next_write_frames_def Let_def diff_le_mono)

text \<open>A chunk ends inside the prefix, at the end of the next reference frame, or after the last one.\<close>

lemma next_write_chunk:
  assumes "tracker_ok cfg t"
  shows "st_submitted_frames t + next_write_frames n t \<le> frames_of (rc_physical_samples cfg)"
    and "next_write_frames n t \<noteq> 0 \<Longrightarrow>
      st_submitted_frames t + next_write_frames n t \<le> prefix_frames cfg \<or>
      prefix_frames cfg \<le> st_submitted_frames t \<and>
      min (st_submitted_frames t + next_write_frames n t - prefix_frames cfg) (referenced_frames cfg) =
      min (st_reference_start_frame t + 480) (referenced_frames cfg)"
proof -
  obtain tf p r sub where v: "frames_of (rc_physical_samples cfg) = tf" "prefix_frames cfg = p"
    "referenced_frames cfg = r" "st_submitted_frames t = sub" by blast
  have ok: "st_total_frames t = tf" "st_total_reference_frames t = r" "st_reference_frames t = 480"
    "st_physical_prefix_frames t = p" "sub \<le> tf" "st_reference_start_frame t = min (sub - p) r" "p + r \<le> tf"
    using assms prefix_referenced_le [of cfg] by (simp_all add: tracker_ok_def v)
  note w = next_write_frames_def Let_def ok(1-4,6) v(4)
  show "st_submitted_frames t + next_write_frames n t \<le> frames_of (rc_physical_samples cfg)"
    using next_write_remaining [of n t] ok(1,5) v by simp
  assume nz: "next_write_frames n t \<noteq> 0"
  consider "sub < p" | "p \<le> sub" "r \<le> sub - p" | "p \<le> sub" "sub - p < r" by linarith
  then show "st_submitted_frames t + next_write_frames n t \<le> prefix_frames cfg \<or>
      prefix_frames cfg \<le> st_submitted_frames t \<and>
      min (st_submitted_frames t + next_write_frames n t - prefix_frames cfg) (referenced_frames cfg) =
      min (st_reference_start_frame t + 480) (referenced_frames cfg)"
  proof cases
    case 1
    then have "next_write_frames n t \<le> p - sub" unfolding w by simp
    with 1 show ?thesis unfolding v by simp
  next
    case 2
    then show ?thesis unfolding v ok(6) by simp
  next
    case 3
    define m where "m = min (sub - p + 480) r"
    have m: "m \<le> r" "sub - p \<le> m" using 3 by (simp_all add: m_def)
    have mm: "min (sub + 480 - p) r = m" using 3 by (simp add: m_def)
    have "min (sub - p) r = sub - p" "min (p + m) tf = p + m" using 3 m ok(7) by simp_all
    then have "next_write_frames n t = (if min (p + m - sub) (tf - sub) \<le> n then min (p + m - sub) (tf - sub) else 0)"
      using 3 mm unfolding w by simp
    moreover have "min (p + m - sub) (tf - sub) = m - (sub - p)" using 3 m ok(7) by simp
    ultimately have "next_write_frames n t = m - (sub - p)" using nz by (simp split: if_splits)
    then have "sub + next_write_frames n t - p = m" using 3 m by simp
    then show ?thesis using 3 m by (simp add: v ok(6) m_def)
  qed
qed

lemma record_write_ok:
  assumes t: "tracker_ok cfg t" and n: "n = next_write_frames available t" "n \<noteq> 0"
    and run: "record_write n padding t = (result, t')"
  shows "case result of
      Inl e \<Rightarrow> st_submitted_frames t + n < padding
    | Inr w \<Rightarrow> tracker_ok cfg t' \<and> st_submitted_frames t' = st_submitted_frames t + n \<and>
        (case w of
           None \<Rightarrow> st_reference_start_frame t' = st_reference_start_frame t
         | Some window \<Rightarrow> rw_start_frame window = st_reference_start_frame t \<and>
             rw_end_frame window = st_reference_start_frame t' \<and>
             st_reference_start_frame t < st_reference_start_frame t')"
proof -
  have le: "st_submitted_frames t + n \<le> st_total_frames t"
    using next_write_chunk(1) [OF t] n t by (simp add: tracker_ok_def)
  have chunk: "st_submitted_frames t + n \<le> prefix_frames cfg \<or>
      prefix_frames cfg \<le> st_submitted_frames t \<and>
      min (st_submitted_frames t + n - prefix_frames cfg) (referenced_frames cfg) =
      min (st_reference_start_frame t + 480) (referenced_frames cfg)"
    using next_write_chunk(2) [OF t] n by blast
  show ?thesis
  proof (cases "st_submitted_frames t + n < padding")
    case True
    with run le n(2) show ?thesis by (auto simp: record_write_def Let_def)
  next
    case False
    note r = run [unfolded record_write_def Let_def]
    show ?thesis
    proof (cases "st_submitted_frames t + n \<le> prefix_frames cfg")
      case True
      with False r t le n(2) show ?thesis by (auto simp: tracker_ok_def)
    next
      case past: False
      define stop where "stop = min (st_submitted_frames t + n - prefix_frames cfg) (referenced_frames cfg)"
      have e: "min (st_submitted_frames t + n - prefix_frames cfg) (referenced_frames cfg) = stop"
        "min (st_reference_start_frame t + 480) (referenced_frames cfg) = stop"
        using chunk past by (auto simp: stop_def)
      have ok: "st_physical_prefix_frames t = prefix_frames cfg" "st_reference_frames t = 480"
        "st_total_reference_frames t = referenced_frames cfg"
        using t by (simp_all add: tracker_ok_def)
      have "t' = t\<lparr>st_submitted_frames := st_submitted_frames t + n, st_reference_start_frame := stop\<rparr>"
        using r past False le n(2) by (simp add: ok e)
      moreover have "case result of Inl e \<Rightarrow> False | Inr None \<Rightarrow> stop \<le> st_reference_start_frame t
        | Inr (Some w) \<Rightarrow> rw_start_frame w = st_reference_start_frame t \<and> rw_end_frame w = stop \<and>
            st_reference_start_frame t < stop"
        using r past False le n(2) by (auto simp: ok e)
      moreover have "st_reference_start_frame t \<le> stop"
        using t by (simp add: tracker_ok_def stop_def)
      moreover have "tracker_ok cfg (t\<lparr>st_submitted_frames := st_submitted_frames t + n,
          st_reference_start_frame := stop\<rparr>)"
        using t le by (simp add: tracker_ok_def stop_def)
      ultimately show ?thesis
        by (auto split: sum.splits option.splits)
    qed
  qed
qed

section \<open>What has been played and published\<close>

definition written :: "(PlaybackOwnershipState \<times> render_call) list \<Rightarrow> 8 word list" where
  "written log = concat (map (\<lambda>(_, c). case c of DeviceWrite k b \<Rightarrow> b | _ \<Rightarrow> []) log)"

definition frame_samples :: "render_call \<Rightarrow> 32 word list" where
  "frame_samples c = (case c of Publish (FrameEvent f) \<Rightarrow> fr_samples f | _ \<Rightarrow> [])"

definition published :: "(PlaybackOwnershipState \<times> render_call) list \<Rightarrow> 32 word list" where
  "published log = concat (map (\<lambda>(_, c). frame_samples c) log)"

definition is_frame :: "render_call \<Rightarrow> bool" where
  "is_frame c = (case c of Publish (FrameEvent f) \<Rightarrow> True | _ \<Rightarrow> False)"

definition is_stream_start :: "render_call \<Rightarrow> bool" where
  "is_stream_start c = (case c of Publish (Discontinuity (StreamStarted i e r g)) \<Rightarrow> True | _ \<Rightarrow> False)"

definition start_published :: "(PlaybackOwnershipState \<times> render_call) list \<Rightarrow> bool" where
  "start_published log = list_ex (\<lambda>(_, c). is_stream_start c) log"

text \<open>Every published frame comes after the announcement of the stream, unless it was made before.\<close>

fun frames_follow_start :: "bool \<Rightarrow> (PlaybackOwnershipState \<times> render_call) list \<Rightarrow> bool" where
  "frames_follow_start announced [] = True"
| "frames_follow_start announced ((_, c) # log) =
     ((is_frame c \<longrightarrow> announced) \<and> frames_follow_start (announced \<or> is_stream_start c) log)"

lemma start_published_Cons [simp]: "start_published ((own, c) # log) \<longleftrightarrow> is_stream_start c \<or> start_published log"
  by (simp add: start_published_def)

lemma written_snoc [simp]: "written (log @ [(own, c)]) = written log @ (case c of DeviceWrite k b \<Rightarrow> b | _ \<Rightarrow> [])"
  by (simp add: written_def)

lemma published_snoc [simp]: "published (log @ [(own, c)]) = published log @ frame_samples c"
  by (simp add: published_def)

lemma start_published_snoc [simp]:
  "start_published (log @ [(own, c)]) \<longleftrightarrow> start_published log \<or> is_stream_start c"
  by (auto simp: start_published_def)

lemma frames_follow_start_snoc [simp]:
  "frames_follow_start a (log @ [(own, c)]) \<longleftrightarrow>
     frames_follow_start a log \<and> (is_frame c \<longrightarrow> a \<or> start_published log)"
  by (induction a log rule: frames_follow_start.induct) (auto simp: start_published_def)

lemma log_Nil [simp]:
  "written [] = []" "published [] = []" "\<not> start_published []" "frames_follow_start a []"
  by (simp_all add: written_def published_def start_published_def)

lemma f32_bytes_append [simp]:
  "f32_samples_to_le_bytes (xs @ ys) = f32_samples_to_le_bytes xs @ f32_samples_to_le_bytes ys"
  by (simp add: f32_samples_to_le_bytes_def)

text \<open>The first \<open>n\<close> physical frames are written, the first \<open>m\<close> reference frames published or deferred.\<close>

definition sent :: "render_config \<Rightarrow> bool \<Rightarrow> nat \<Rightarrow> nat \<Rightarrow> render_state \<Rightarrow> bool" where
  "sent cfg announced n m s \<longleftrightarrow>
     n \<le> frames_of (rc_physical_samples cfg) \<and> m \<le> referenced_frames cfg \<and>
     written (rd_log s) = f32_samples_to_le_bytes (take (2 * n) (rc_physical_samples cfg)) \<and>
     published (rd_log s) @ concat (map fr_samples (rd_deferred s)) = take (2 * m) (rc_reference_samples cfg) \<and>
     frames_follow_start announced (rd_log s) \<and>
     rd_authority s = (announced \<or> start_published (rd_log s))"

definition partly_sent :: "render_config \<Rightarrow> bool \<Rightarrow> render_state \<Rightarrow> bool" where
  "partly_sent cfg announced s \<longleftrightarrow> (\<exists>n m. sent cfg announced n m s)"

definition at :: "render_config \<Rightarrow> bool \<Rightarrow> nat \<Rightarrow> nat \<Rightarrow> RenderSubmitTracker \<Rightarrow> bool \<Rightarrow> render_state \<Rightarrow> bool" where
  "at cfg announced n m t started s \<longleftrightarrow>
     sent cfg announced n m s \<and> rd_tracker s = t \<and> rd_started s = started \<and>
     (rd_authority s \<longrightarrow> rd_deferred s = []) \<and> (started \<longrightarrow> rd_authority s)"

definition consistent :: "render_config \<Rightarrow> bool \<Rightarrow> render_state \<Rightarrow> bool" where
  "consistent cfg announced s \<longleftrightarrow> tracker_ok cfg (rd_tracker s) \<and>
     at cfg announced (st_submitted_frames (rd_tracker s)) (st_reference_start_frame (rd_tracker s))
       (rd_tracker s) (rd_started s) s"

text \<open>Calls that neither write, nor publish a frame, nor announce the stream.\<close>

definition neutral :: "render_call \<Rightarrow> bool" where
  "neutral c \<longleftrightarrow> c \<in> {DeviceStart, DeviceStop, DeviceReset, Publish (Discontinuity (DeviceFault (str ''wasapi-render-underrun'')))}"

section \<open>Assertions that survive external calls\<close>

locale render_assertion =
  fixes I E :: "render_state \<Rightarrow> bool"
  assumes world_I: "I s \<Longrightarrow> I (s\<lparr>rd_script := script, rd_own := own\<rparr>)"
    and neutral_I: "I s \<Longrightarrow> neutral c \<Longrightarrow> I (logged c s)"
    and I_E: "I s \<Longrightarrow> E s"
begin

lemma ask_T: "triple I ask (\<lambda>_. I) E"
  by (rule tripleI) (auto simp: ask_def world_I split: list.splits)

lemma accept_T: "triple I (accept c) (\<lambda>_ s. \<exists>s0. I s0 \<and> s = logged c s0) E"
  by (auto simp: triple_def accept_def modifies_def logged_def)

lemma accept_neutral_T: "neutral c \<Longrightarrow> triple I (accept c) (\<lambda>_. I) E"
  by (rule triple_conseq [OF accept_T]) (auto intro: neutral_I)

lemma attempt_T: "neutral c \<Longrightarrow> triple I (attempt c) (\<lambda>_. I) E"
  unfolding attempt_def
  by (rule triple_andthen [OF ask_T])
    (auto intro!: triple_ret triple_seq [OF accept_neutral_T] split: option.split)

lemma padding_T: "triple I get_current_padding (\<lambda>_. I) E"
  unfolding get_current_padding_def
  by (rule triple_andthen [OF ask_T]) (auto intro: triple_ret triple_fail I_E split: option.split)

lemma event_T: "triple I (on_render_event ev) (\<lambda>_ s. \<exists>s0. I s0 \<and> s = logged (Publish ev) s0) E"
  unfolding on_render_event_def
  by (rule triple_andthen [OF ask_T]) (auto intro: triple_fail I_E accept_T split: option.split)

lemma own_I: "I s \<Longrightarrow> I (s\<lparr>rd_own := own\<rparr>)"
  using world_I [of s own "rd_script s"] by simp

lemma cancel_T: "triple I (cancel_wasapi_render p st e) (\<lambda>_ _. False) E"
proof -
  have "triple I (case cleanup_error a b of
       Some cleanup \<Rightarrow> andthen ask (\<lambda>_.
         seq (modifies (\<lambda>s. s\<lparr>rd_own := record_cancellation_failure p cleanup (rd_own s)\<rparr>))
             (fail (e @ str ''; '' @ cleanup)))
     | None \<Rightarrow> fail e) (\<lambda>_ _. False) E" for a b
    by (auto intro!: triple_fail triple_andthen [OF ask_T] triple_seq [OF triple_modifies [where Q = "\<lambda>_. I"]]
        intro: I_E own_I split: option.split)
  moreover have "triple I (if st then attempt DeviceStop else ret None) (\<lambda>_. I) E"
    by (simp add: attempt_T triple_ret neutral_def)
  ultimately show ?thesis
    unfolding cancel_wasapi_render_def
    by (intro triple_andthen [where R = "\<lambda>_. I"] attempt_T) (simp_all add: neutral_def)
qed

lemma ensure_T: "triple I (ensure_render_ownership p st) (\<lambda>_. I) E"
  unfolding ensure_render_ownership_def
  by (rule triple_andthen [OF ask_T], rule triple_andthen [OF triple_reads])
    (auto intro!: triple_ret intro: triple_conseq [OF cancel_T] split: sum.split)

lemma validate_then_T:
  assumes "triple I k (\<lambda>_. I) E"
  shows "triple I (andthen ask (\<lambda>_. andthen (reads (\<lambda>s. validate p (rd_own s))) (\<lambda>v.
     case v of Inl error \<Rightarrow> cancel_wasapi_render p st error | Inr _ \<Rightarrow> k))) (\<lambda>_. I) E"
  using assms
  by (intro triple_andthen [OF ask_T] triple_andthen [OF triple_reads])
    (auto intro: triple_conseq [OF cancel_T] triple_pre split: sum.split)

lemma wait_T: "triple I (wait_for_render_poll p st) (\<lambda>_. I) E"
  unfolding wait_for_render_poll_def
  by (rule validate_then_T, rule validate_then_T, rule triple_ret)

lemma submit_T: "triple I (submit_render_action p st c) (\<lambda>_ s. \<exists>s0. I s0 \<and> s = logged c s0) E"
  unfolding submit_render_action_def
  by (rule triple_andthen [OF ask_T], rule triple_andthen [OF triple_reads])
    (auto intro!: triple_fail I_E intro: triple_conseq [OF cancel_T] triple_pre [OF accept_T] split: sum.split)

lemma submit_neutral_T: "neutral c \<Longrightarrow> triple I (submit_render_action p st c) (\<lambda>_. I) E"
  by (rule triple_conseq [OF submit_T]) (auto intro: neutral_I)

lemma event_neutral_T: "neutral (Publish ev) \<Longrightarrow> triple I (on_render_event ev) (\<lambda>_. I) E"
  by (rule triple_conseq [OF event_T]) (auto intro: neutral_I)

end

section \<open>The loop body\<close>

lemma sent_neutral [simp]: "neutral c \<Longrightarrow> sent cfg a n m (logged c s) = sent cfg a n m s"
  by (auto simp: neutral_def sent_def logged_def frame_samples_def is_frame_def is_stream_start_def)

interpretation at: render_assertion "at cfg a n m t started" "partly_sent cfg a" for cfg a n m t started
proof unfold_locales
  fix s c
  assume "at cfg a n m t started s" and "neutral c"
  then show "at cfg a n m t started (logged c s)"
    by (simp add: at_def) (simp add: logged_def)
qed (auto simp: at_def sent_def partly_sent_def)

interpretation open_at: render_assertion "\<lambda>s. at cfg a n m t started s \<and> rd_authority s" "partly_sent cfg a"
  for cfg a n m t started
proof unfold_locales
  fix s c
  assume "at cfg a n m t started s \<and> rd_authority s" and "neutral c"
  then show "at cfg a n m t started (logged c s) \<and> rd_authority (logged c s)"
    using at.neutral_I by (auto simp: logged_def)
qed (auto intro: at.world_I at.I_E)

lemma at_tracker: "at cfg a n m t started s \<Longrightarrow> at cfg a n m t' started (s\<lparr>rd_tracker := t'\<rparr>)"
  by (auto simp: at_def sent_def)

text \<open>While the stream is being announced and the deferred frames go out.\<close>

definition announcing :: "render_config \<Rightarrow> bool \<Rightarrow> nat \<Rightarrow> nat \<Rightarrow> RenderSubmitTracker \<Rightarrow> render_state \<Rightarrow> bool" where
  "announcing cfg a n m t s \<longleftrightarrow> sent cfg a n m s \<and> rd_tracker s = t \<and> rd_started s"

interpretation announcing: render_assertion "announcing cfg a n m t" "partly_sent cfg a" for cfg a n m t
proof unfold_locales
  fix s c
  assume "announcing cfg a n m t s" and "neutral c"
  then show "announcing cfg a n m t (logged c s)"
    by (simp add: announcing_def) (simp add: logged_def)
qed (auto simp: announcing_def sent_def partly_sent_def)

interpretation flushing: render_assertion
  "\<lambda>s. announcing cfg a n m t s \<and> rd_authority s \<and> rd_deferred s = fs" "partly_sent cfg a" for cfg a n m t fs
proof unfold_locales
  fix s c
  assume "announcing cfg a n m t s \<and> rd_authority s \<and> rd_deferred s = fs" and "neutral c"
  then show "announcing cfg a n m t (logged c s) \<and> rd_authority (logged c s) \<and> rd_deferred (logged c s) = fs"
    using announcing.neutral_I by (auto simp: logged_def)
qed (auto intro: announcing.world_I announcing.I_E)

lemma flush_T:
  "triple (\<lambda>s. announcing cfg a n m t (s\<lparr>rd_deferred := fs\<rparr>) \<and> rd_authority s) (flush_frames fs)
     (\<lambda>_ s. at cfg a n m t True s) (partly_sent cfg a)"
proof (induction fs)
  case Nil
  show ?case
    by (simp, rule triple_modifies) (simp add: announcing_def at_def)
next
  case (Cons f fs)
  have step: "announcing cfg a n m t ((logged (Publish (FrameEvent f)) s)\<lparr>rd_deferred := fs\<rparr>) \<and>
      rd_authority (logged (Publish (FrameEvent f)) s)"
    if "announcing cfg a n m t s" "rd_authority s" "rd_deferred s = f # fs" for s
    using that by (auto simp: announcing_def sent_def logged_def frame_samples_def is_frame_def is_stream_start_def)
  have "triple (\<lambda>s. announcing cfg a n m t (s\<lparr>rd_deferred := f # fs\<rparr>) \<and> rd_authority s)
      (modifies (\<lambda>s. s\<lparr>rd_deferred := f # fs\<rparr>))
      (\<lambda>_ s. announcing cfg a n m t s \<and> rd_authority s \<and> rd_deferred s = f # fs) (partly_sent cfg a)"
    by (rule triple_modifies) (auto simp: announcing_def sent_def)
  moreover have "triple (\<lambda>s. announcing cfg a n m t s \<and> rd_authority s \<and> rd_deferred s = f # fs)
      (on_render_event (FrameEvent f))
      (\<lambda>_ s. announcing cfg a n m t (s\<lparr>rd_deferred := fs\<rparr>) \<and> rd_authority s) (partly_sent cfg a)"
    by (rule triple_conseq [OF flushing.event_T]) (use step in auto)
  ultimately show ?case
    using Cons.IH unfolding flush_frames.simps by (blast intro: triple_seq)
qed

lemma publish_start_T:
  "triple (announcing cfg a n m t) (publish_render_stream_started_and_flush cfg)
     (\<lambda>_. at cfg a n m t True) (partly_sent cfg a)"
proof -
  define ev where "ev = Discontinuity (StreamStarted (rc_session_id cfg) (rc_endpoint_id cfg)
    (rc_renderer_instance_id cfg) (pm_generation (rc_permit cfg)))"
  have announced: "announcing cfg a n m t ((logged (Publish ev) s)\<lparr>rd_authority := True\<rparr>)"
    if "announcing cfg a n m t s" for s
    using that by (auto simp: ev_def announcing_def sent_def logged_def frame_samples_def is_frame_def is_stream_start_def)
  have "triple (announcing cfg a n m t) (seq (on_render_event ev) (modifies (\<lambda>s. s\<lparr>rd_authority := True\<rparr>)))
      (\<lambda>_ s. announcing cfg a n m t s \<and> rd_authority s) (partly_sent cfg a)"
    by (rule triple_seq [OF announcing.event_T triple_modifies]) (auto simp: announced)
  then have "triple (announcing cfg a n m t) (publish_render_stream_started cfg)
      (\<lambda>_ s. announcing cfg a n m t s \<and> rd_authority s) (partly_sent cfg a)"
    unfolding publish_render_stream_started_def ev_def [symmetric]
    by (intro triple_andthen [OF triple_reads] triple_if) (auto intro: triple_ret triple_pre)
  then show ?thesis
    unfolding publish_render_stream_started_and_flush_def
    by (rule triple_seq) (rule triple_andthen [OF triple_reads], rule triple_pre [OF flush_T], auto)
qed

lemma start_T: "triple (at cfg a n m t False) (start_and_publish cfg) (\<lambda>_. at cfg a n m t True) (partly_sent cfg a)"
  unfolding start_and_publish_def
  by (rule triple_seq [OF at.submit_neutral_T], simp add: neutral_def,
      rule triple_seq [OF triple_modifies publish_start_T])
    (auto simp: at_def announcing_def sent_def)

lemma sent_write:
  assumes "sent cfg a n m s" and "n + k \<le> frames_of (rc_physical_samples cfg)"
  shows "sent cfg a (n + k) m (logged (DeviceWrite j (f32_samples_to_le_bytes
           (take (2 * k) (drop (2 * n) (rc_physical_samples cfg))))) s)"
  using assms take_add [of "2 * n" "2 * k" "rc_physical_samples cfg"]
  by (simp add: sent_def logged_def frame_samples_def is_frame_def is_stream_start_def distrib_left)

lemma write_T:
  assumes "n + k \<le> frames_of (rc_physical_samples cfg)"
  shows "triple (at cfg a n m t st) (submit_render_action p st (DeviceWrite j (f32_samples_to_le_bytes
           (take (2 * k) (drop (2 * n) (rc_physical_samples cfg))))))
     (\<lambda>_. at cfg a (n + k) m t st) (partly_sent cfg a)"
proof (rule triple_conseq [OF at.submit_T], assumption)
  fix s :: render_state
  let ?c = "DeviceWrite j (f32_samples_to_le_bytes (take (2 * k) (drop (2 * n) (rc_physical_samples cfg))))"
  assume "\<exists>s0. at cfg a n m t st s0 \<and> s = logged ?c s0"
  then obtain s0 where "at cfg a n m t st s0" "s = logged ?c s0" by blast
  then show "at cfg a (n + k) m t st s"
    using sent_write [OF _ assms] by (simp add: at_def) (simp add: logged_def)
qed

lemma publish_window_T:
  assumes w: "rw_start_frame w = m" "rw_end_frame w = m'" "m < m'" and m': "m' \<le> referenced_frames cfg"
  shows "triple (at cfg a n m t st) (publish_window cfg w) (\<lambda>_. at cfg a n m' t st) (partly_sent cfg a)"
proof -
  let ?samples = "take (2 * m' - 2 * m) (drop (2 * m) (rc_reference_samples cfg))"
  have range: "2 * m' \<le> length (rc_reference_samples cfg)"
    using m' by (auto simp: referenced_frames_def frames_of_def)
  have more: "take (2 * m) (rc_reference_samples cfg) @ ?samples = take (2 * m') (rc_reference_samples cfg)"
    using take_add [of "2 * m" "2 * m' - 2 * m" "rc_reference_samples cfg"] w(3) by simp
  have deferred: "at cfg a n m' t st (s\<lparr>rd_deferred := rd_deferred s @ [f]\<rparr>)"
    if "at cfg a n m t st s" "\<not> rd_authority s" "fr_samples f = ?samples" for s f
    using that m' more by (auto simp: at_def sent_def simp flip: append_assoc)
  have direct: "at cfg a n m' t st (logged (Publish (FrameEvent f)) s)"
    if "at cfg a n m t st s" "rd_authority s" "fr_samples f = ?samples" for s f
    using that m' more
    by (auto simp: at_def sent_def logged_def frame_samples_def is_frame_def is_stream_start_def)
  have "triple (at cfg a n m t st) (publish_or_defer f) (\<lambda>_. at cfg a n m' t st) (partly_sent cfg a)"
    if f: "fr_samples f = ?samples" for f
  proof -
    have "triple (\<lambda>s. at cfg a n m t st s \<and> rd_authority s) (on_render_event (FrameEvent f))
        (\<lambda>_. at cfg a n m' t st) (partly_sent cfg a)"
      by (rule triple_conseq [OF open_at.event_T]) (auto intro: direct f)
    then show ?thesis
      unfolding publish_or_defer_def
      by (intro triple_andthen [OF triple_reads] triple_if)
        (auto intro!: triple_modifies deferred f intro: triple_pre)
  qed
  moreover have "sample_slice (rc_reference_samples cfg) (m * SPEAKER_CHANNEL_COUNT) (m' * SPEAKER_CHANNEL_COUNT) =
      ret ?samples"
    using range w(3) by (simp add: sample_slice_def SPEAKER_CHANNEL_COUNT_def mult.commute)
  ultimately show ?thesis
    unfolding publish_window_def w by simp
qed

lemma track_T:
  assumes t: "tracker_ok cfg t" and k: "k = next_write_frames available t" "k \<noteq> 0"
    and n: "n = st_submitted_frames t" and m: "m = st_reference_start_frame t"
  shows "triple (at cfg a (n + k) m t st) (track_write k padding)
     (\<lambda>w s. \<exists>t'. at cfg a (n + k) m t' st s \<and> tracker_ok cfg t' \<and> st_submitted_frames t' = n + k \<and>
        (case w of None \<Rightarrow> st_reference_start_frame t' = m
         | Some w \<Rightarrow> rw_start_frame w = m \<and> rw_end_frame w = st_reference_start_frame t' \<and>
             m < st_reference_start_frame t'))
     (partly_sent cfg a)"
proof (rule tripleI)
  fix s w s'
  assume s: "at cfg a (n + k) m t st s" and run: "track_write k padding s = Some (Done w, s')"
  then obtain t' where r: "record_write k padding t = (Inr w, t')" and s': "s' = s\<lparr>rd_tracker := t'\<rparr>"
    by (auto simp: track_write_def at_def split: prod.splits sum.splits)
  have "at cfg a (n + k) m t' st s'" using at_tracker [OF s] by (simp add: s')
  with record_write_ok [OF t k r] n m
  show "\<exists>t'. at cfg a (n + k) m t' st s' \<and> tracker_ok cfg t' \<and> st_submitted_frames t' = n + k \<and>
        (case w of None \<Rightarrow> st_reference_start_frame t' = m
         | Some w \<Rightarrow> rw_start_frame w = m \<and> rw_end_frame w = st_reference_start_frame t' \<and>
             m < st_reference_start_frame t')"
    by (cases w) auto
next
  fix s e s'
  assume s: "at cfg a (n + k) m t st s" and run: "track_write k padding s = Some (Failed e, s')"
  then obtain t' where "s' = s\<lparr>rd_tracker := t'\<rparr>"
    by (auto simp: track_write_def split: prod.splits sum.splits)
  with at.I_E [OF at_tracker [OF s]] show "partly_sent cfg a s'" by simp
next
  fix s s'
  assume "track_write k padding s = Some (Panicked, s')"
  then show False by (auto simp: track_write_def split: prod.splits sum.splits)
qed

lemma tail_T:
  assumes "tracker_ok cfg t'" and "st_submitted_frames t' = n" and "st_reference_start_frame t' = m"
  shows "triple (at cfg a n m t' st)
     (andthen (reads rd_tracker) (\<lambda>t. only_if (\<not> st \<and> B t) (start_and_publish cfg)))
     (\<lambda>_. consistent cfg a) (partly_sent cfg a)"
proof -
  have c: "consistent cfg a s" if "at cfg a n m t' st' s" for st' s
    using that assms by (auto simp: consistent_def at_def)
  have "triple (at cfg a n m t' st) (start_and_publish cfg) (\<lambda>_. consistent cfg a) (partly_sent cfg a)" if "\<not> st"
    using that by (auto intro: triple_conseq [OF start_T] c)
  then show ?thesis
    by (intro triple_andthen [OF triple_reads] triple_only_if) (auto intro: triple_pre c)
qed

lemma write_chunk_T:
  assumes t: "tracker_ok cfg t" and k: "k = next_write_frames available t" "k \<noteq> 0"
    and n: "n = st_submitted_frames t" and m: "m = st_reference_start_frame t"
  shows "triple (at cfg a n m t st) (write_chunk cfg k) (\<lambda>_. consistent cfg a) (partly_sent cfg a)"
proof -
  have le: "n + k \<le> frames_of (rc_physical_samples cfg)"
    using next_write_chunk(1) [OF t] k n by simp
  then have range: "2 * (n + k) \<le> length (rc_physical_samples cfg)"
    by (auto simp: frames_of_def)
  have publish: "triple (at cfg a (n + k) m t' st)
      (seq (case w of None \<Rightarrow> ret () | Some w \<Rightarrow> publish_window cfg w)
        (andthen (reads rd_tracker) (\<lambda>t. only_if (\<not> st \<and> B t) (start_and_publish cfg))))
      (\<lambda>_. consistent cfg a) (partly_sent cfg a)"
    if t': "tracker_ok cfg t'" "st_submitted_frames t' = n + k"
      and w: "case w of None \<Rightarrow> st_reference_start_frame t' = m
         | Some w \<Rightarrow> rw_start_frame w = m \<and> rw_end_frame w = st_reference_start_frame t' \<and>
             m < st_reference_start_frame t'" for t' w B
  proof (rule triple_seq [OF _ tail_T [OF t' refl]])
    have "st_reference_start_frame t' \<le> referenced_frames cfg" using t'(1) by (simp add: tracker_ok_def)
    with w show "triple (at cfg a (n + k) m t' st) (case w of None \<Rightarrow> ret () | Some w \<Rightarrow> publish_window cfg w)
        (\<lambda>_. at cfg a (n + k) (st_reference_start_frame t') t' st) (partly_sent cfg a)"
      by (cases w) (auto intro: triple_ret publish_window_T)
  qed
  have slice: "sample_slice (rc_physical_samples cfg) (n * SPEAKER_CHANNEL_COUNT) ((n + k) * SPEAKER_CHANNEL_COUNT) =
      ret (take (2 * k) (drop (2 * n) (rc_physical_samples cfg)))"
    using range by (simp add: sample_slice_def SPEAKER_CHANNEL_COUNT_def mult.commute)
  have tracked: "triple (at cfg a (n + k) m t st) (andthen (track_write k padding) (\<lambda>window.
      seq (case window of None \<Rightarrow> ret () | Some w \<Rightarrow> publish_window cfg w)
        (andthen (reads rd_tracker) (\<lambda>t. only_if (\<not> st \<and> B t) (start_and_publish cfg)))))
      (\<lambda>_. consistent cfg a) (partly_sent cfg a)" for padding B
    by (rule triple_andthen [OF track_T [OF assms]], rule triple_ex) (blast intro: publish)
  show ?thesis
    unfolding write_chunk_def
  proof (rule triple_reads_value [where v = "(n, st)"])
    show "(st_submitted_frames (rd_tracker s), rd_started s) = (n, st)" if "at cfg a n m t st s" for s
      using that n by (simp add: at_def)
    show "triple (at cfg a n m t st) (case (n, st) of (submitted, started) \<Rightarrow>
       andthen (sample_slice (rc_physical_samples cfg)
          (submitted * SPEAKER_CHANNEL_COUNT) ((submitted + k) * SPEAKER_CHANNEL_COUNT)) (\<lambda>samples.
       seq (submit_render_action (rc_permit cfg) started (DeviceWrite k (f32_samples_to_le_bytes samples)))
      (andthen get_current_padding (\<lambda>padding.
       andthen (track_write k padding) (\<lambda>window.
       seq (case window of None \<Rightarrow> ret () | Some w \<Rightarrow> publish_window cfg w)
      (andthen (reads rd_tracker) (\<lambda>t.
         only_if (\<not> started \<and> (tracker_is_complete t \<or> st_submitted_frames t \<ge> prefill_frames cfg))
           (start_and_publish cfg))))))))
      (\<lambda>_. consistent cfg a) (partly_sent cfg a)"
      unfolding prod.case slice andthen_ret
      by (intro triple_seq [OF write_T [OF le]] triple_andthen [OF at.padding_T] tracked)
  qed
qed

lemma atI_consistent:
  "tracker_ok cfg t \<Longrightarrow> at cfg a (st_submitted_frames t) (st_reference_start_frame t) t st s \<Longrightarrow> consistent cfg a s"
  by (auto simp: consistent_def at_def)

interpretation con: render_assertion "\<lambda>s. consistent cfg a s \<and> rd_started s = st" "partly_sent cfg a" for cfg a st
proof unfold_locales
  fix s c
  assume "consistent cfg a s \<and> rd_started s = st" and "neutral c"
  then show "consistent cfg a (logged c s) \<and> rd_started (logged c s) = st"
    using at.neutral_I [of cfg a "st_submitted_frames (rd_tracker s)" "st_reference_start_frame (rd_tracker s)"]
    by (auto simp: consistent_def logged_def)
qed (auto simp: consistent_def intro: at.world_I at.I_E)

lemma wait_or_start_T:
  assumes "tracker_ok cfg t"
  shows "triple (at cfg a (st_submitted_frames t) (st_reference_start_frame t) t st) (wait_or_start cfg st)
     (\<lambda>_. consistent cfg a) (partly_sent cfg a)"
proof -
  let ?at = "at cfg a (st_submitted_frames t) (st_reference_start_frame t) t"
  have "triple (?at st) (only_if (\<not> st) (start_and_publish cfg)) (\<lambda>_. ?at True) (partly_sent cfg a)"
    by (rule triple_only_if) (auto intro: start_T)
  moreover have "triple (?at True) (andthen (reads rd_started) (wait_for_render_poll (rc_permit cfg)))
      (\<lambda>_. consistent cfg a) (partly_sent cfg a)"
    by (rule triple_andthen [OF triple_reads], rule triple_conseq [OF at.wait_T])
      (auto intro: atI_consistent [OF assms])
  ultimately show ?thesis
    unfolding wait_or_start_def by (rule triple_seq)
qed

lemma report_underrun_T:
  "triple (\<lambda>s. consistent cfg a s \<and> rd_started s = st) (report_underrun padding)
     (\<lambda>_ s. consistent cfg a s \<and> rd_started s = st) (partly_sent cfg a)"
proof -
  let ?I = "\<lambda>s. consistent cfg a s \<and> rd_started s = st"
  have "triple ?I (modifies (\<lambda>s. s\<lparr>rd_reported_in_session := True\<rparr>)) (\<lambda>_. ?I) (partly_sent cfg a)"
    by (rule triple_modifies) (auto simp: consistent_def at_def sent_def)
  then have "triple ?I (seq (modifies (\<lambda>s. s\<lparr>rd_reported_in_session := True\<rparr>))
      (on_render_event (Discontinuity (DeviceFault (str ''wasapi-render-underrun''))))) (\<lambda>_. ?I) (partly_sent cfg a)"
    by (rule triple_seq) (rule con.event_neutral_T, simp add: neutral_def)
  then show ?thesis
    unfolding report_underrun_def
    by (intro triple_andthen [OF triple_reads] triple_only_if) (auto intro: triple_pre)
qed

lemma iteration_T:
  "triple (consistent cfg a) (render_iteration cfg) (\<lambda>_. consistent cfg a) (partly_sent cfg a)"
proof -
  let ?I = "\<lambda>st s. consistent cfg a s \<and> rd_started s = st"
  have body: "triple (\<lambda>s. ?I st s \<and> t = rd_tracker s)
      (let available_frames = rc_buffer_frames cfg - padding;
           write_frames = next_write_frames available_frames t
       in if available_frames = 0 then wait_or_start cfg st
          else if write_frames = 0
          then (if \<not> st \<and> st_submitted_frames t = 0 then fail (buffer_too_small_error cfg)
                else wait_or_start cfg st)
          else write_chunk cfg write_frames) (\<lambda>_. consistent cfg a) (partly_sent cfg a)" for st t padding
  proof (cases "tracker_ok cfg t")
    case True
    have pre: "at cfg a (st_submitted_frames t) (st_reference_start_frame t) t st s" if "?I st s \<and> t = rd_tracker s" for s
      using that by (auto simp: consistent_def)
    show ?thesis
      unfolding Let_def
      by (rule triple_pre [where P = "at cfg a (st_submitted_frames t) (st_reference_start_frame t) t st"],
          intro triple_if triple_fail wait_or_start_T [OF True] write_chunk_T [OF True refl _ refl refl])
        (erule at.I_E | erule pre | assumption)+
  next
    case False
    then show ?thesis by (auto simp: triple_def consistent_def)
  qed
  have "triple (?I st) (seq (ensure_render_ownership (rc_permit cfg) st) (andthen get_current_padding (\<lambda>padding.
      seq (report_underrun padding) (andthen (reads rd_tracker) (\<lambda>t.
      let available_frames = rc_buffer_frames cfg - padding;
           write_frames = next_write_frames available_frames t
       in if available_frames = 0 then wait_or_start cfg st
          else if write_frames = 0
          then (if \<not> st \<and> st_submitted_frames t = 0 then fail (buffer_too_small_error cfg)
                else wait_or_start cfg st)
          else write_chunk cfg write_frames))))) (\<lambda>_. consistent cfg a) (partly_sent cfg a)" for st
    by (intro triple_seq [OF con.ensure_T] triple_andthen [OF con.padding_T] triple_seq [OF report_underrun_T]
        triple_andthen [OF triple_reads] body)
  then show ?thesis
    unfolding render_iteration_def
    by (intro triple_andthen [OF triple_reads]) (auto intro: triple_pre)
qed

lemma loop_T:
  "triple (consistent cfg a) (render_loop cfg)
     (\<lambda>_ s. consistent cfg a s \<and> tracker_is_complete (rd_tracker s)) (partly_sent cfg a)"
  unfolding triple_def
proof (intro allI impI)
  fix s r s'
  assume "consistent cfg a s" and "render_loop cfg s = Some (r, s')"
  then show "case r of Done x \<Rightarrow> consistent cfg a s' \<and> tracker_is_complete (rd_tracker s')
    | Failed e \<Rightarrow> partly_sent cfg a s' | Panicked \<Rightarrow> False"
  proof (induction cfg s arbitrary: r rule: render_loop.induct)
    case (1 cfg s)
    show ?case
    proof (cases "tracker_is_complete (rd_tracker s)")
      case True
      with "1.prems" show ?thesis by (auto simp: render_loop.simps [of cfg s])
    next
      case False
      with "1.prems"(2) obtain r1 s1 where it: "render_iteration cfg s = Some (r1, s1)"
        by (auto simp: render_loop.simps [of cfg s] split: option.splits)
      from tripleD [OF iteration_T "1.prems"(1) it] "1.prems"(2) "1.IH" [OF False it refl] it False
      show ?thesis by (cases r1) (auto simp: render_loop.simps [of cfg s])
    qed
  qed
qed

lemma drain_poll_T: "triple (at cfg a n m t st) (drain_poll cfg) (\<lambda>_. at cfg a n m t st) (partly_sent cfg a)"
  unfolding drain_poll_def
  by (rule triple_reads_value [where v = st], simp add: at_def,
      intro triple_seq [OF at.ensure_T] triple_andthen [OF at.padding_T] triple_if triple_seq [OF at.wait_T])
    (auto intro: triple_ret)

lemma drain_loop_T: "triple (at cfg a n m t st) (drain_loop cfg) (\<lambda>_. at cfg a n m t st) (partly_sent cfg a)"
  unfolding triple_def
proof (intro allI impI)
  fix s r s'
  assume "at cfg a n m t st s" and "drain_loop cfg s = Some (r, s')"
  then show "case r of Done x \<Rightarrow> at cfg a n m t st s' | Failed e \<Rightarrow> partly_sent cfg a s' | Panicked \<Rightarrow> False"
  proof (induction cfg s arbitrary: r rule: drain_loop.induct)
    case (1 cfg s)
    from "1.prems"(2) obtain r1 s1 where it: "drain_poll cfg s = Some (r1, s1)"
      by (auto simp: drain_loop.simps [of cfg s] split: option.splits)
    from tripleD [OF drain_poll_T "1.prems"(1) it] "1.prems"(2) "1.IH" [OF it refl] it
    show ?case by (cases r1) (auto simp: drain_loop.simps [of cfg s] split: bool.splits)
  qed
qed

text \<open>The part after the write loop.\<close>

lemma finish_T:
  "triple (at cfg a n m t st)
     (seq (andthen (reads rd_started) (\<lambda>started. only_if (\<not> started) (start_and_publish cfg)))
     (seq (drain_loop cfg)
          (andthen (reads rd_started) (\<lambda>started. submit_render_action (rc_permit cfg) started DeviceStop))))
     (\<lambda>_ s. \<exists>s0. at cfg a n m t True s0 \<and> s = logged DeviceStop s0) (partly_sent cfg a)"
proof -
  have "triple (at cfg a n m t st) (only_if (\<not> st) (start_and_publish cfg)) (\<lambda>_. at cfg a n m t True) (partly_sent cfg a)"
    by (rule triple_only_if) (auto intro: start_T)
  then have "triple (at cfg a n m t st)
      (andthen (reads rd_started) (\<lambda>started. only_if (\<not> started) (start_and_publish cfg)))
      (\<lambda>_. at cfg a n m t True) (partly_sent cfg a)"
    by (rule triple_reads_value [rotated]) (simp add: at_def)
  moreover have "triple (at cfg a n m t True)
      (andthen (reads rd_started) (\<lambda>started. submit_render_action (rc_permit cfg) started DeviceStop))
      (\<lambda>_ s. \<exists>s0. at cfg a n m t True s0 \<and> s = logged DeviceStop s0) (partly_sent cfg a)"
    by (rule triple_reads_value [OF _ at.submit_T]) (simp add: at_def)
  ultimately show ?thesis
    by (intro triple_seq [OF _ triple_seq [OF drain_loop_T]])
qed

lemma consistent_begin: "consistent cfg a (render_begin cfg a own script)"
  using tracker_begin [of cfg a own script]
  by (auto simp: consistent_def at_def sent_def render_begin_def tracker_new_def Let_def f32_samples_to_le_bytes_def)

text \<open>Where every run of the whole call ends.\<close>

lemma render_ends:
  assumes "render_wasapi_frames cfg a own script = Some (r, s)"
  shows "case r of
      Done _ \<Rightarrow> \<exists>t s0. tracker_ok cfg t \<and> tracker_is_complete t \<and> s = logged DeviceStop s0 \<and>
        at cfg a (st_submitted_frames t) (st_reference_start_frame t) t True s0
    | Failed e \<Rightarrow> partly_sent cfg a s
    | Panicked \<Rightarrow> False"
proof -
  let ?finish = "seq (andthen (reads rd_started) (\<lambda>started. only_if (\<not> started) (start_and_publish cfg)))
     (seq (drain_loop cfg)
          (andthen (reads rd_started) (\<lambda>started. submit_render_action (rc_permit cfg) started DeviceStop)))"
  let ?Q = "\<lambda>_ s. \<exists>t s0. tracker_ok cfg t \<and> tracker_is_complete t \<and> s = logged DeviceStop s0 \<and>
        at cfg a (st_submitted_frames t) (st_reference_start_frame t) t True s0"
  have "triple (\<lambda>s. consistent cfg a s \<and> tracker_is_complete (rd_tracker s)) ?finish ?Q (partly_sent cfg a)"
  proof (rule triple_assume)
    fix s0
    assume s0: "consistent cfg a s0 \<and> tracker_is_complete (rd_tracker s0)"
    show "triple (\<lambda>s. s = s0) ?finish ?Q (partly_sent cfg a)"
      by (rule triple_conseq [OF finish_T [of cfg a "st_submitted_frames (rd_tracker s0)"
            "st_reference_start_frame (rd_tracker s0)" "rd_tracker s0" "rd_started s0"]])
        (use s0 in \<open>auto simp: consistent_def\<close>)
  qed
  from tripleD [OF triple_seq [OF loop_T this] consistent_begin assms [unfolded render_wasapi_frames_def]]
  show ?thesis by (cases r) auto
qed

section \<open>A device that keeps accepting audio\<close>

text \<open>
  Every call succeeds, no thread interferes, the endpoint has played everything whenever it is asked.
  The assertion fixes the local variables; the script holds only such answers.
\<close>

definition quiet :: answer where
  "quiet = \<lparr>an_others = [], an_failure = None, an_padding = 0\<rparr>"

definition calm ::
  "DesktopPlaybackPermit \<Rightarrow> RenderSubmitTracker \<Rightarrow> bool \<Rightarrow> bool \<Rightarrow> RenderFrame list \<Rightarrow> render_state \<Rightarrow> bool" where
  "calm p t st au fs s \<longleftrightarrow> (\<forall>x \<in> set (rd_script s). x = quiet) \<and> validate p (rd_own s) = Inr () \<and>
     rd_tracker s = t \<and> rd_started s = st \<and> rd_authority s = au \<and> rd_deferred s = fs"

abbreviation left :: "render_state \<Rightarrow> nat" where
  "left s \<equiv> length (rd_script s)"

lemma calm_ask: "costs left (calm p t st au fs) ask (\<lambda>x s. x = quiet \<and> calm p t st au fs s) 1"
  by (auto simp: costs_def ask_def calm_def quiet_def neq_Nil_conv Suc_le_length_iff split: list.splits)

lemma costs_ask_then:
  "costs left (calm p t st au fs) (k quiet) Q c \<Longrightarrow> costs left (calm p t st au fs) (andthen ask k) Q (1 + c)"
  by (rule costs_andthen [OF calm_ask]) (auto simp: costs_def)

lemma costs_ask_last:
  "costs left (calm p t st au fs) (k quiet) Q 0 \<Longrightarrow> costs left (calm p t st au fs) (andthen ask k) Q 1"
  using costs_ask_then [where c = 0] by simp

lemma calm_accept: "costs left (calm p t st au fs) (accept c) (\<lambda>_. calm p t st au fs) 0"
  unfolding accept_def by (rule costs_modifies) (simp add: calm_def)

lemma calm_padding: "costs left (calm p t st au fs) get_current_padding (\<lambda>n s. n = 0 \<and> calm p t st au fs s) 1"
  unfolding get_current_padding_def
  by (rule costs_ask_last) (simp add: quiet_def costs_ret)

lemma costs_padding_then:
  "costs left (calm p t st au fs) (k 0) Q c \<Longrightarrow> costs left (calm p t st au fs) (andthen get_current_padding k) Q (1 + c)"
  by (rule costs_andthen [OF calm_padding]) (auto simp: costs_def)

lemma calm_event: "costs left (calm p t st au fs) (on_render_event ev) (\<lambda>_. calm p t st au fs) 1"
  unfolding on_render_event_def
  by (rule costs_ask_last) (simp add: quiet_def calm_accept)

lemma calm_ensure: "costs left (calm p t st au fs) (ensure_render_ownership p st') (\<lambda>_. calm p t st au fs) 1"
  unfolding ensure_render_ownership_def
  by (rule costs_ask_last) (auto simp: costs_def andthen_def reads_def ret_def calm_def)

lemma calm_submit: "costs left (calm p t st au fs) (submit_render_action p st' c) (\<lambda>_. calm p t st au fs) 1"
  unfolding submit_render_action_def
  by (rule costs_ask_last, rule costs_reads_value [where v = "Inr ()"])
    (auto simp: quiet_def submit_def calm_def intro!: calm_accept)

lemma calm_flush: "costs left (calm p t True True gs) (flush_frames fs) (\<lambda>_. calm p t True True []) (length fs)"
proof (induction fs arbitrary: gs)
  case Nil
  show ?case by (simp, rule costs_modifies) (simp add: calm_def)
next
  case (Cons f fs)
  have "costs left (calm p t True True gs) (modifies (\<lambda>s. s\<lparr>rd_deferred := f # fs\<rparr>))
      (\<lambda>_. calm p t True True (f # fs)) 0"
    by (rule costs_modifies) (simp add: calm_def)
  from costs_seq [OF this costs_seq [OF calm_event Cons.IH]] show ?case by simp
qed

lemma calm_start: "costs left (calm (rc_permit cfg) t False au fs) (start_and_publish cfg)
    (\<lambda>_. calm (rc_permit cfg) t True True []) (2 + length fs)"
proof -
  let ?calm = "calm (rc_permit cfg) t True"
  have started: "costs left (calm (rc_permit cfg) t False au fs) (modifies (\<lambda>s. s\<lparr>rd_started := True\<rparr>)) (\<lambda>_. ?calm au fs) 0"
    by (rule costs_modifies) (simp add: calm_def)
  have authority: "costs left (?calm au fs) (modifies (\<lambda>s. s\<lparr>rd_authority := True\<rparr>)) (\<lambda>_. ?calm True fs) 0"
    by (rule costs_modifies) (simp add: calm_def)
  have "costs left (?calm au fs) (publish_render_stream_started cfg) (\<lambda>_. ?calm True fs) 1"
    unfolding publish_render_stream_started_def
  proof (rule costs_reads_value [where v = au])
    show "costs left (?calm au fs) (if au then ret () else seq (on_render_event (Discontinuity (StreamStarted
        (rc_session_id cfg) (rc_endpoint_id cfg) (rc_renderer_instance_id cfg) (pm_generation (rc_permit cfg)))))
        (modifies (\<lambda>s. s\<lparr>rd_authority := True\<rparr>))) (\<lambda>_. ?calm True fs) 1"
      using costs_seq [OF calm_event authority] by (auto intro: costs_conseq [OF costs_ret])
  qed (simp add: calm_def)
  moreover have "costs left (?calm True fs) (andthen (reads rd_deferred) flush_frames) (\<lambda>_. ?calm True []) (length fs)"
    by (rule costs_reads_value [OF _ calm_flush]) (simp add: calm_def)
  ultimately have "costs left (?calm au fs) (publish_render_stream_started_and_flush cfg) (\<lambda>_. ?calm True []) (1 + length fs)"
    unfolding publish_render_stream_started_and_flush_def by (rule costs_seq)
  from costs_seq [OF calm_submit costs_seq [OF started this]] show ?thesis
    unfolding start_and_publish_def by simp
qed

text \<open>With at most \<open>l\<close> frames deferred; a started stream has none.\<close>

definition live :: "DesktopPlaybackPermit \<Rightarrow> RenderSubmitTracker \<Rightarrow> nat \<Rightarrow> render_state \<Rightarrow> bool" where
  "live p t l s \<longleftrightarrow> (\<exists>st au fs. calm p t st au fs s \<and> length fs \<le> l \<and> (st \<longrightarrow> au \<and> fs = []))"

lemma costs_live:
  assumes "\<And>st au fs. length fs \<le> l \<Longrightarrow> st \<longrightarrow> au \<and> fs = [] \<Longrightarrow> costs left (calm p t st au fs) m Q c"
  shows "costs left (live p t l) m Q c"
  unfolding costs_def live_def
proof (intro allI impI)
  fix s
  assume "\<exists>st au fs. calm p t st au fs s \<and> length fs \<le> l \<and> (st \<longrightarrow> au \<and> fs = [])" and c: "c \<le> left s"
  then obtain st au fs where "calm p t st au fs s" "length fs \<le> l" "st \<longrightarrow> au \<and> fs = []" by blast
  with assms c show "\<exists>x s'. m s = Some (Done x, s') \<and> Q x s' \<and> left s \<le> left s' + c"
    unfolding costs_def by blast
qed

lemma calm_live: "calm p t st au fs s \<Longrightarrow> length fs \<le> l \<Longrightarrow> st \<longrightarrow> au \<and> fs = [] \<Longrightarrow> live p t l s"
  unfolding live_def by blast

lemma calm_underrun: "costs left (calm p t st au fs) (report_underrun n) (\<lambda>_. calm p t st au fs) 1"
proof -
  have "costs left (calm p t st au fs) (modifies (\<lambda>s. s\<lparr>rd_reported_in_session := True\<rparr>)) (\<lambda>_. calm p t st au fs) 0"
    by (rule costs_modifies) (simp add: calm_def)
  from costs_seq [OF this calm_event] have report: "costs left (calm p t st au fs) (only_if b
      (seq (modifies (\<lambda>s. s\<lparr>rd_reported_in_session := True\<rparr>))
        (on_render_event (Discontinuity (DeviceFault (str ''wasapi-render-underrun'')))))) (\<lambda>_. calm p t st au fs) 1" for b
    unfolding add_0 by (rule costs_only_if)
  show ?thesis
    unfolding report_underrun_def
    by (rule costs_reads_then, rule report)
qed

lemma calm_publish:
  assumes "st \<longrightarrow> au \<and> fs = []" and "length fs \<le> l"
    and w: "rw_start_frame w \<le> rw_end_frame w" "2 * rw_end_frame w \<le> length (rc_reference_samples cfg)"
  shows "costs left (calm p t st au fs) (publish_window cfg w)
    (\<lambda>_ s. \<exists>gs. calm p t st au gs s \<and> length gs \<le> Suc l \<and> (st \<longrightarrow> au \<and> gs = [])) 1"
proof -
  let ?Q = "\<lambda>_ s. \<exists>gs. calm p t st au gs s \<and> length gs \<le> Suc l \<and> (st \<longrightarrow> au \<and> gs = [])"
  have "costs left (calm p t st au fs) (publish_or_defer f) ?Q 1" for f
    unfolding publish_or_defer_def
  proof (rule costs_reads_value [where v = au])
    have "costs left (calm p t st au fs) (modifies (\<lambda>s. s\<lparr>rd_deferred := rd_deferred s @ [f]\<rparr>)) ?Q 0" if "\<not> au"
      by (rule costs_modifies) (use that assms in \<open>auto simp: calm_def\<close>)
    moreover have "costs left (calm p t st au fs) (on_render_event (FrameEvent f)) ?Q 1"
      by (rule costs_conseq [OF calm_event]) (use assms(1,2) in auto)
    ultimately show "costs left (calm p t st au fs) (if \<not> au then modifies (\<lambda>s. s\<lparr>rd_deferred := rd_deferred s @ [f]\<rparr>)
        else on_render_event (FrameEvent f)) ?Q 1"
      by (cases "\<not> au") (simp_all only: if_True if_False simp_thms costs_weaken [of _ _ _ _ 0 1] zero_le_one)
  qed (simp add: calm_def)
  then show ?thesis
    using w unfolding publish_window_def sample_slice_def SPEAKER_CHANNEL_COUNT_def by (simp add: mult.commute)
qed

lemma calm_track:
  assumes t: "tracker_ok cfg t" and k: "k = next_write_frames available t" "k \<noteq> 0"
  shows "costs left (calm p t st au fs) (track_write k 0)
    (\<lambda>w s. \<exists>t'. calm p t' st au fs s \<and> tracker_ok cfg t' \<and> st_submitted_frames t' = st_submitted_frames t + k \<and>
       (case w of None \<Rightarrow> True | Some w \<Rightarrow> rw_start_frame w \<le> rw_end_frame w \<and>
          2 * rw_end_frame w \<le> length (rc_reference_samples cfg))) 0"
proof -
  obtain result t' where r: "record_write k 0 t = (result, t')" by (cases "record_write k 0 t")
  from record_write_ok [OF t k r] obtain w where w: "result = Inr w" and t': "tracker_ok cfg t'"
    "st_submitted_frames t' = st_submitted_frames t + k"
    and win: "case w of None \<Rightarrow> True | Some v \<Rightarrow> rw_start_frame v \<le> rw_end_frame v \<and> rw_end_frame v = st_reference_start_frame t'"
    by (cases result) (auto split: option.splits)
  have "2 * st_reference_start_frame t' \<le> length (rc_reference_samples cfg)"
    using t'(1) by (auto simp: tracker_ok_def referenced_frames_def frames_of_def)
  with r w t' win show ?thesis
    by (auto simp: costs_def track_write_def calm_def split: option.splits)
qed

text \<open>What one iteration reaches.\<close>

definition advanced :: "render_config \<Rightarrow> RenderSubmitTracker \<Rightarrow> nat \<Rightarrow> render_state \<Rightarrow> bool" where
  "advanced cfg t l s \<longleftrightarrow> (\<exists>t'. live (rc_permit cfg) t' l s \<and> tracker_ok cfg t' \<and>
     st_submitted_frames t < st_submitted_frames t')"

lemma calm_tail:
  assumes "length gs \<le> l" and "st \<longrightarrow> au \<and> gs = []"
  shows "costs left (calm (rc_permit cfg) t st au gs)
     (andthen (reads rd_tracker) (\<lambda>t. only_if (\<not> st \<and> B t) (start_and_publish cfg)))
     (\<lambda>_. live (rc_permit cfg) t l) (2 + l)"
proof (rule costs_reads_then)
  fix v
  have "costs left (calm (rc_permit cfg) t st au gs) (start_and_publish cfg) (\<lambda>_. live (rc_permit cfg) t l) (2 + l)"
    if "\<not> st"
    by (rule costs_conseq [OF calm_start [of cfg t au gs]]) (use that assms(1) in \<open>auto intro: calm_live\<close>)
  then show "costs left (calm (rc_permit cfg) t st au gs) (only_if (\<not> st \<and> B v) (start_and_publish cfg))
      (\<lambda>_. live (rc_permit cfg) t l) (2 + l)"
    by (cases "\<not> st \<and> B v")
      (simp_all add: only_if_def costs_weaken [OF costs_ret [where left = left]] calm_live [OF _ assms])
qed

lemma calm_write:
  assumes t: "tracker_ok cfg t" and k: "k = next_write_frames available t" "k \<noteq> 0"
    and fs: "length fs \<le> l" "st \<longrightarrow> au \<and> fs = []"
  shows "costs left (calm (rc_permit cfg) t st au fs) (write_chunk cfg k) (\<lambda>_. advanced cfg t (Suc l)) (6 + l)"
proof -
  let ?p = "rc_permit cfg" and ?n = "st_submitted_frames t"
  have "?n + k \<le> frames_of (rc_physical_samples cfg)"
    using next_write_chunk(1) [OF t] k by simp
  then have slice: "sample_slice (rc_physical_samples cfg) (?n * SPEAKER_CHANNEL_COUNT) ((?n + k) * SPEAKER_CHANNEL_COUNT) =
      ret (take (2 * k) (drop (2 * ?n) (rc_physical_samples cfg)))"
    by (auto simp: sample_slice_def SPEAKER_CHANNEL_COUNT_def frames_of_def mult.commute)
  let ?rest = "\<lambda>B w. seq (case w of None \<Rightarrow> ret () | Some w \<Rightarrow> publish_window cfg w)
      (andthen (reads rd_tracker) (\<lambda>t. only_if (\<not> st \<and> B t) (start_and_publish cfg)))"
  have rest: "costs left (calm ?p t' st au fs) (?rest B w) (\<lambda>_. advanced cfg t (Suc l)) (1 + (2 + Suc l))"
    if t': "tracker_ok cfg t'" "st_submitted_frames t' = ?n + k"
      and w: "case w of None \<Rightarrow> True | Some w \<Rightarrow> rw_start_frame w \<le> rw_end_frame w \<and>
          2 * rw_end_frame w \<le> length (rc_reference_samples cfg)" for t' w B
  proof (rule costs_seq)
    let ?R = "\<lambda>s. \<exists>gs. calm ?p t' st au gs s \<and> length gs \<le> Suc l \<and> (st \<longrightarrow> au \<and> gs = [])"
    show "costs left (calm ?p t' st au fs) (case w of None \<Rightarrow> ret () | Some w \<Rightarrow> publish_window cfg w) (\<lambda>_. ?R) 1"
    proof (cases w)
      case None
      then show ?thesis using fs by (auto intro!: costs_weaken [OF costs_ret])
    next
      case (Some v)
      then show ?thesis using calm_publish [OF fs(2,1)] w by simp
    qed
    show "costs left ?R (andthen (reads rd_tracker) (\<lambda>t. only_if (\<not> st \<and> B t) (start_and_publish cfg)))
        (\<lambda>_. advanced cfg t (Suc l)) (2 + Suc l)"
    proof (rule costs_ex)
      fix gs :: "RenderFrame list"
      assume "length gs \<le> Suc l \<and> (st \<longrightarrow> au \<and> gs = [])"
      then have tail: "costs left (calm ?p t' st au gs)
          (andthen (reads rd_tracker) (\<lambda>t. only_if (\<not> st \<and> B t) (start_and_publish cfg)))
          (\<lambda>_. live ?p t' (Suc l)) (2 + Suc l)"
        by (intro calm_tail) blast+
      have adv: "advanced cfg t (Suc l) s" if "live ?p t' (Suc l) s" for s
        using that t' k(2) unfolding advanced_def by (intro exI [of _ t']) simp
      show "costs left (calm ?p t' st au gs)
          (andthen (reads rd_tracker) (\<lambda>t. only_if (\<not> st \<and> B t) (start_and_publish cfg)))
          (\<lambda>_. advanced cfg t (Suc l)) (2 + Suc l)"
        by (rule costs_conseq [OF tail]) (use adv in auto)
    qed
  qed
  have tracked: "costs left (calm ?p t st au fs) (andthen (track_write k 0) (?rest B)) (\<lambda>_. advanced cfg t (Suc l))
      (0 + (1 + (2 + Suc l)))" for B
    by (rule costs_andthen [OF calm_track [OF t k]], rule costs_ex) (blast intro: rest)
  have "costs left (calm ?p t st au fs) (andthen (ret (take (2 * k) (drop (2 * ?n) (rc_physical_samples cfg)))) (\<lambda>samples.
       seq (submit_render_action ?p st (DeviceWrite k (f32_samples_to_le_bytes samples)))
      (andthen get_current_padding (\<lambda>padding. andthen (track_write k padding) (?rest B)))))
      (\<lambda>_. advanced cfg t (Suc l)) (1 + (1 + (0 + (1 + (2 + Suc l)))))" for B
    unfolding andthen_ret by (rule costs_seq [OF calm_submit], rule costs_padding_then, rule tracked)
  from this [of "\<lambda>t. tracker_is_complete t \<or> st_submitted_frames t \<ge> prefill_frames cfg"]
  have "costs left (calm ?p t st au fs) (case (?n, st) of (submitted, started) \<Rightarrow>
       andthen (sample_slice (rc_physical_samples cfg)
          (submitted * SPEAKER_CHANNEL_COUNT) ((submitted + k) * SPEAKER_CHANNEL_COUNT)) (\<lambda>samples.
       seq (submit_render_action ?p started (DeviceWrite k (f32_samples_to_le_bytes samples)))
      (andthen get_current_padding (\<lambda>padding.
       andthen (track_write k padding) (\<lambda>window.
       seq (case window of None \<Rightarrow> ret () | Some w \<Rightarrow> publish_window cfg w)
      (andthen (reads rd_tracker) (\<lambda>t.
         only_if (\<not> started \<and> (tracker_is_complete t \<or> st_submitted_frames t \<ge> prefill_frames cfg))
           (start_and_publish cfg)))))))) (\<lambda>_. advanced cfg t (Suc l)) (6 + l)"
    unfolding prod.case slice by (rule costs_weaken) simp
  then show ?thesis
    unfolding write_chunk_def by (rule costs_reads_value [rotated]) (simp add: calm_def)
qed

lemma next_write_progress:
  assumes t: "tracker_ok cfg t" and todo: "\<not> tracker_is_complete t" and n: "480 \<le> n"
  shows "next_write_frames n t \<noteq> 0"
proof -
  obtain tf p r sub where v: "frames_of (rc_physical_samples cfg) = tf" "prefix_frames cfg = p"
    "referenced_frames cfg = r" "st_submitted_frames t = sub" by blast
  have ok: "st_total_frames t = tf" "st_total_reference_frames t = r" "st_reference_frames t = 480"
    "st_physical_prefix_frames t = p" "st_reference_start_frame t = min (sub - p) r"
    using t by (simp_all add: tracker_ok_def v)
  have lt: "sub < tf" "p + r \<le> tf" using t todo prefix_referenced_le [of cfg]
    by (auto simp: tracker_ok_def tracker_is_complete_def v)
  note w = next_write_frames_def Let_def ok v(4)
  consider "sub < p" | "p \<le> sub" "r \<le> sub - p" | "p \<le> sub" "sub - p < r" by linarith
  then show ?thesis
  proof cases
    case 3
    define m where "m = min (sub + 480 - p) r"
    have m: "m \<le> sub + 480 - p" "m \<le> r" "sub - p < m" using 3 by (simp_all add: m_def)
    have "min (sub - p) r = sub - p" "min (p + m) tf = p + m" using 3 m lt by simp_all
    then have "next_write_frames n t = (if min (p + m - sub) (tf - sub) \<le> n then min (p + m - sub) (tf - sub) else 0)"
      using 3 unfolding w by (simp add: m_def [symmetric])
    moreover have "min (p + m - sub) (tf - sub) = p + m - sub" "p + m - sub \<le> 480" "0 < p + m - sub"
      using 3 m lt by simp_all
    ultimately show ?thesis using n by simp
  qed (use n lt in \<open>simp_all add: w\<close>)
qed

lemma live_iteration:
  assumes t: "tracker_ok cfg t" "\<not> tracker_is_complete t" and n: "480 \<le> rc_buffer_frames cfg"
  shows "costs left (live (rc_permit cfg) t l) (render_iteration cfg) (\<lambda>_. advanced cfg t (Suc l)) (9 + l)"
proof (rule costs_live)
  fix st au and fs :: "RenderFrame list"
  assume fs: "length fs \<le> l" "st \<longrightarrow> au \<and> fs = []"
  have "costs left (calm (rc_permit cfg) t st au fs) (andthen (reads rd_tracker) (\<lambda>t.
      let available_frames = rc_buffer_frames cfg - 0;
           write_frames = next_write_frames available_frames t
       in if available_frames = 0 then wait_or_start cfg st
          else if write_frames = 0
          then (if \<not> st \<and> st_submitted_frames t = 0 then fail (buffer_too_small_error cfg)
                else wait_or_start cfg st)
          else write_chunk cfg write_frames)) (\<lambda>_. advanced cfg t (Suc l)) (6 + l)"
    by (rule costs_reads_value [where v = t])
      (use n next_write_progress [OF t n] calm_write [OF t(1) refl _ fs] in \<open>auto simp: calm_def\<close>)
  note chain = costs_seq [OF calm_underrun this]
  show "costs left (calm (rc_permit cfg) t st au fs) (render_iteration cfg) (\<lambda>_. advanced cfg t (Suc l)) (9 + l)"
    unfolding render_iteration_def
    by (rule costs_reads_value [where v = st], simp add: calm_def, rule costs_weaken,
        rule costs_seq [OF calm_ensure], rule costs_padding_then, rule chain) simp
qed

lemma render_loop_unfold:
  "render_loop cfg s = (if tracker_is_complete (rd_tracker s) then Some (Done (), s)
     else andthen (render_iteration cfg) (\<lambda>_. render_loop cfg) s)"
  by (subst render_loop.simps) (simp add: andthen_def)

lemma live_loop:
  assumes n: "480 \<le> rc_buffer_frames cfg"
  shows "tracker_ok cfg t \<Longrightarrow> d = frames_of (rc_physical_samples cfg) - st_submitted_frames t \<Longrightarrow>
    costs left (live (rc_permit cfg) t l) (render_loop cfg)
      (\<lambda>_ s. \<exists>t'. live (rc_permit cfg) t' (l + d) s \<and> tracker_ok cfg t') (d * (9 + l + d))"
proof (induction d arbitrary: t l rule: less_induct)
  case (less d)
  let ?p = "rc_permit cfg"
  let ?Q = "\<lambda>_ s. \<exists>t'. live ?p t' (l + d) s \<and> tracker_ok cfg t'"
  have mono: "live ?p t' j s" if "live ?p t' i s" "i \<le> j" for t' i j s
    using that by (auto simp: live_def intro: calm_live [unfolded live_def] le_trans)
  have tracker: "rd_tracker s = t" if "live ?p t l s" for s
    using that by (auto simp: live_def calm_def)
  show ?case
  proof (cases "tracker_is_complete t")
    case True
    have "render_loop cfg s = Some (Done (), s) \<and> live ?p t (l + d) s" if "live ?p t l s" for s
      using True tracker [OF that] mono [OF that] by (simp add: render_loop_unfold)
    with less.prems(1) show ?thesis unfolding costs_def by (meson le_add1)
  next
    case False
    then have d: "0 < d" using less.prems by (auto simp: tracker_is_complete_def tracker_ok_def)
    have again: "costs left (advanced cfg t (Suc l)) (render_loop cfg) ?Q ((d - 1) * (9 + l + d))"
      unfolding advanced_def
    proof (rule costs_ex)
      fix t'
      assume t': "tracker_ok cfg t' \<and> st_submitted_frames t < st_submitted_frames t'"
      let ?e = "frames_of (rc_physical_samples cfg) - st_submitted_frames t'"
      have e: "?e < d" using t' d less.prems by (auto simp: tracker_ok_def)
      have le: "?e * (9 + Suc l + ?e) \<le> (d - 1) * (9 + l + d)"
        by (rule mult_le_mono) (use e in auto)
      have upto: "live ?p t'' (Suc l + ?e) s \<Longrightarrow> live ?p t'' (l + d) s" for t'' s
        by (erule mono) (use e in simp)
      show "costs left (live ?p t' (Suc l)) (render_loop cfg) ?Q ((d - 1) * (9 + l + d))"
        by (rule costs_conseq [OF less.IH [OF e, of t' "Suc l"]]) (use t' le upto in blast)+
    qed
    have "9 + l + (d - 1) * (9 + l + d) \<le> d * (9 + l + d)"
      using d by (cases d) auto
    with costs_andthen [OF live_iteration [OF less.prems(1) False n] again]
    have "costs left (live ?p t l) (andthen (render_iteration cfg) (\<lambda>_. render_loop cfg)) ?Q (d * (9 + l + d))"
      by (rule costs_weaken)
    then show ?thesis
      using False tracker unfolding costs_def by (simp add: render_loop_unfold)
  qed
qed

lemma calm_drain: "costs left (calm (rc_permit cfg) t st au fs) (drain_loop cfg) (\<lambda>_. calm (rc_permit cfg) t st au fs) 2"
proof -
  have "costs left (calm (rc_permit cfg) t st au fs) (drain_poll cfg)
      (\<lambda>b s. b \<and> calm (rc_permit cfg) t st au fs s) (1 + (1 + 0))"
    unfolding drain_poll_def
    by (rule costs_reads_value [where v = st], simp add: calm_def, rule costs_seq [OF calm_ensure],
        rule costs_padding_then) (simp add: costs_ret)
  then show ?thesis
    unfolding costs_def by (subst drain_loop.simps) fastforce
qed

lemma live_finish:
  "costs left (live (rc_permit cfg) t l)
     (seq (andthen (reads rd_started) (\<lambda>started. only_if (\<not> started) (start_and_publish cfg)))
     (seq (drain_loop cfg)
          (andthen (reads rd_started) (\<lambda>started. submit_render_action (rc_permit cfg) started DeviceStop))))
     (\<lambda>_ _. True) (l + 5)"
proof (rule costs_live)
  fix st au and fs :: "RenderFrame list"
  assume fs: "length fs \<le> l" "st \<longrightarrow> au \<and> fs = []"
  let ?p = "rc_permit cfg"
  have "costs left (calm ?p t st au fs) (only_if (\<not> st) (start_and_publish cfg)) (\<lambda>_. calm ?p t True True []) (2 + l)"
  proof (cases st)
    case True
    then show ?thesis using fs by (simp add: only_if_def costs_weaken [OF costs_ret [where left = left]])
  next
    case False
    then show ?thesis using costs_weaken [OF calm_start [of cfg t au fs]] fs by (simp add: only_if_def)
  qed
  then have "costs left (calm ?p t st au fs)
      (andthen (reads rd_started) (\<lambda>started. only_if (\<not> started) (start_and_publish cfg)))
      (\<lambda>_. calm ?p t True True []) (2 + l)"
    by (rule costs_reads_value [rotated]) (simp add: calm_def)
  moreover have "costs left (calm ?p t True True []) (andthen (reads rd_started)
      (\<lambda>started. submit_render_action ?p started DeviceStop)) (\<lambda>_ _. True) 1"
    by (rule costs_reads_then, rule costs_conseq [OF calm_submit]) auto
  ultimately show "costs left (calm ?p t st au fs)
     (seq (andthen (reads rd_started) (\<lambda>started. only_if (\<not> started) (start_and_publish cfg)))
     (seq (drain_loop cfg)
          (andthen (reads rd_started) (\<lambda>started. submit_render_action ?p started DeviceStop))))
     (\<lambda>_ _. True) (l + 5)"
    by (rule costs_weaken [OF costs_seq [OF _ costs_seq [OF calm_drain]]]) simp
qed

lemma quiet_render:
  assumes "480 \<le> rc_buffer_frames cfg" and "validate (rc_permit cfg) own = Inr ()"
    and "k = frames_of (rc_physical_samples cfg)" and "k * (k + 9) + k + 5 \<le> n"
  shows "\<exists>s. render_wasapi_frames cfg announced own (replicate n quiet) = Some (Done (), s)"
proof -
  let ?s = "render_begin cfg announced own (replicate n quiet)"
  let ?t = "rd_tracker ?s"
  have t: "tracker_ok cfg ?t" by (rule tracker_begin)
  have zero: "st_submitted_frames ?t = 0" by (simp add: render_begin_def tracker_new_def Let_def)
  have live: "live (rc_permit cfg) ?t 0 ?s"
    by (rule calm_live [of _ _ False announced "[]"]) (simp_all add: calm_def render_begin_def assms(2))
  have loop: "costs left (live (rc_permit cfg) ?t 0) (render_loop cfg)
      (\<lambda>_ s. \<exists>t'. live (rc_permit cfg) t' k s \<and> tracker_ok cfg t') (k * (9 + k))"
    using live_loop [OF assms(1) t refl, of 0] zero assms(3) by simp
  have "costs left (live (rc_permit cfg) ?t 0) (seq (render_loop cfg)
     (seq (andthen (reads rd_started) (\<lambda>started. only_if (\<not> started) (start_and_publish cfg)))
     (seq (drain_loop cfg)
          (andthen (reads rd_started) (\<lambda>started. submit_render_action (rc_permit cfg) started DeviceStop)))))
     (\<lambda>_ _. True) (k * (9 + k) + (k + 5))"
    by (rule costs_seq [OF loop], rule costs_ex, rule live_finish)
  moreover have "k * (9 + k) + (k + 5) \<le> left ?s"
    using assms(4) by (simp add: render_begin_def algebra_simps)
  ultimately obtain u s where "render_wasapi_frames cfg announced own (replicate n quiet) = Some (Done u, s)"
    using live unfolding costs_def render_wasapi_frames_def by blast
  then show ?thesis by auto
qed

section \<open>Properties\<close>

lemma f32_bytes_prefix: "prefix (f32_samples_to_le_bytes (take n xs)) (f32_samples_to_le_bytes xs)"
  using f32_bytes_append [of "take n xs" "drop n xs"] by (simp add: prefix_def)

lemma sent_prefix:
  assumes "sent cfg a n m s"
  shows "prefix (written (rd_log s)) (f32_samples_to_le_bytes (rc_physical_samples cfg)) \<and>
    prefix (published (rd_log s)) (rc_reference_samples cfg) \<and> frames_follow_start a (rd_log s)"
proof -
  have "prefix (published (rd_log s)) (take (2 * m) (rc_reference_samples cfg))"
    using assms unfolding sent_def prefix_def by metis
  then show ?thesis
    using assms by (auto simp: sent_def f32_bytes_prefix intro: prefix_order.trans take_is_prefix)
qed

lemma complete_sent:
  assumes "tracker_ok cfg t" and "tracker_is_complete t"
  shows "st_submitted_frames t = frames_of (rc_physical_samples cfg) \<and>
    st_reference_start_frame t = referenced_frames cfg"
  using assms prefix_referenced_le [of cfg] by (auto simp: tracker_ok_def tracker_is_complete_def)

text \<open>
  C22: The speaker renderer loses, repeats and reorders nothing, whatever the device, the event
  consumer and the other threads do. In every run that returns, what the device accepted is a prefix
  of the physical audio, the reference frames published to the echo canceller are a prefix of the
  reference audio, and every frame follows the announcement of the stream. The call never panics, and
  when it succeeds the device has accepted every whole frame, every reference frame that fits behind
  the prefix silence has been published, and the last accepted call stopped the stream.
\<close>

theorem render_plays_and_publishes_all:
  assumes "render_wasapi_frames cfg announced own script = Some (r, s)"
  shows "prefix (written (rd_log s)) (f32_samples_to_le_bytes (rc_physical_samples cfg)) \<and>
    prefix (published (rd_log s)) (rc_reference_samples cfg) \<and>
    frames_follow_start announced (rd_log s) \<and>
    (case r of
       Done _ \<Rightarrow>
         written (rd_log s) = f32_samples_to_le_bytes
           (take (2 * frames_of (rc_physical_samples cfg)) (rc_physical_samples cfg)) \<and>
         published (rd_log s) = take (2 * referenced_frames cfg) (rc_reference_samples cfg) \<and>
         snd (last (rd_log s)) = DeviceStop
     | Failed e \<Rightarrow> True
     | Panicked \<Rightarrow> False)"
proof (cases r)
  case (Done x)
  with render_ends [OF assms] obtain t s0 where t: "tracker_ok cfg t" "tracker_is_complete t"
    and s: "s = logged DeviceStop s0"
    and s0: "at cfg announced (st_submitted_frames t) (st_reference_start_frame t) t True s0"
    by auto
  have sent: "sent cfg announced (frames_of (rc_physical_samples cfg)) (referenced_frames cfg) s"
    using s0 complete_sent [OF t] by (simp add: s at_def neutral_def)
  have "rd_deferred s = []" "snd (last (rd_log s)) = DeviceStop" using s0 by (simp_all add: at_def s logged_def)
  with sent have "written (rd_log s) = f32_samples_to_le_bytes
       (take (2 * frames_of (rc_physical_samples cfg)) (rc_physical_samples cfg)) \<and>
     published (rd_log s) = take (2 * referenced_frames cfg) (rc_reference_samples cfg) \<and>
     snd (last (rd_log s)) = DeviceStop"
    by (simp add: sent_def)
  with sent_prefix [OF sent] show ?thesis unfolding Done by simp
next
  case (Failed e)
  then show ?thesis using render_ends [OF assms] sent_prefix by (auto simp: partly_sent_def)
next
  case Panicked
  then show ?thesis using render_ends [OF assms] by simp
qed

text \<open>
  C23: The device is touched only with a valid permit. In every run, whatever other threads do to the
  playback ownership before each call, the stream was started and audio was written only in ownership
  states that admit the permit of the run; so once any accepted call saw a later generation than the
  permit's, no audio follows it.
\<close>

theorem render_respects_ownership:
  assumes "ownership_inv own" and "render_wasapi_frames cfg announced own script = Some (r, s)"
  shows "(\<forall>(seen, c) \<in> set (rd_log s). is_playback c \<longrightarrow> validate (rc_permit cfg) seen = Inr ()) \<and>
    (\<forall>i j. i \<le> j \<longrightarrow> j < length (rd_log s) \<longrightarrow>
       pm_generation (rc_permit cfg) < po_generation (fst (rd_log s ! i)) \<longrightarrow> \<not> is_playback (snd (rd_log s ! j)))"
proof -
  have "disciplined (rc_permit cfg) (render_begin cfg announced own script)"
    using assms(1) by (simp add: disciplined_def render_begin_def)
  with discipline.render_R [OF refl assms(2)] have d: "disciplined (rc_permit cfg) s" by blast
  then have valid: "\<forall>(seen, c) \<in> set (rd_log s). is_playback c \<longrightarrow> validate (rc_permit cfg) seen = Inr ()"
    unfolding disciplined_def by blast
  have "\<not> is_playback (snd (rd_log s ! j))"
    if "i \<le> j" "j < length (rd_log s)" "pm_generation (rc_permit cfg) < po_generation (fst (rd_log s ! i))" for i j
  proof
    assume "is_playback (snd (rd_log s ! j))"
    with valid nth_mem [OF that(2)] have "validate (rc_permit cfg) (fst (rd_log s ! j)) = Inr ()"
      by (auto simp: split_beta)
    then have "po_generation (fst (rd_log s ! j)) = pm_generation (rc_permit cfg)" by (auto simp: validate_ok)
    moreover have "po_generation (fst (rd_log s ! i)) \<le> po_generation (fst (rd_log s ! j))"
      using d that(1,2) by (auto simp: disciplined_def sorted_iff_nth_mono)
    ultimately show False using that(3) by simp
  qed
  with valid show ?thesis by blast
qed

text \<open>
  C24: The renderer gets to the end. If its permit is valid, the endpoint buffer holds one reference
  frame, no call fails and the endpoint has room whenever it is asked, then the call returns
  successfully after a number of calls bounded by the length of the audio.
\<close>

theorem render_completes:
  assumes "480 \<le> rc_buffer_frames cfg" and "validate (rc_permit cfg) own = Inr ()"
    and "k = frames_of (rc_physical_samples cfg)" and "k * (k + 9) + k + 5 \<le> n"
  shows "\<exists>s. render_wasapi_frames cfg announced own (replicate n quiet) = Some (Done (), s)"
  using assms by (rule quiet_render)

section \<open>Witnesses\<close>

definition demo_config :: render_config where
  "demo_config = \<lparr>rc_reference_samples = [1, 2], rc_physical_samples = [3, 4], rc_prefix_offset_frames = 0,
     rc_submitted_frame_base = 0, rc_buffer_frames = 960,
     rc_permit = \<lparr>pm_permit_id = 1, pm_generation = 1\<rparr>, rc_session_id = 7,
     rc_endpoint_id = str ''speaker'', rc_renderer_instance_id = str ''r1''\<rparr>"

definition demo_own :: PlaybackOwnershipState where
  "demo_own = snd (acquire (str ''cue'') (str ''native'') ownership_default)"

lemma demo_own_inv: "ownership_inv demo_own"
  unfolding demo_own_def by (rule acquire_inv [OF ownership_inv_default])

lemma demo_valid: "validate (rc_permit demo_config) demo_own = Inr ()"
  by (simp add: demo_config_def demo_own_def validate_ok acquire_def ownership_default_def Let_def)

theorem render_completes_witness:
  "\<exists>s. render_wasapi_frames demo_config False demo_own (replicate 16 quiet) = Some (Done (), s)"
  by (rule render_completes [OF _ demo_valid refl]) (simp_all add: demo_config_def frames_of_def)

theorem render_plays_and_publishes_all_witness:
  "\<exists>s. render_wasapi_frames demo_config False demo_own (replicate 16 quiet) = Some (Done (), s) \<and>
     written (rd_log s) = f32_samples_to_le_bytes [3, 4] \<and> published (rd_log s) = [1, 2] \<and>
     frames_follow_start False (rd_log s) \<and> snd (last (rd_log s)) = DeviceStop"
proof -
  obtain s where run: "render_wasapi_frames demo_config False demo_own (replicate 16 quiet) = Some (Done (), s)"
    using quiet_render [OF _ demo_valid refl, of 16 False] by (auto simp: demo_config_def frames_of_def)
  show ?thesis
    using render_plays_and_publishes_all [OF run] run
    by (simp add: demo_config_def frames_of_def referenced_frames_def prefix_frames_def)
qed

theorem render_respects_ownership_witness:
  "\<exists>s. render_wasapi_frames demo_config False demo_own (replicate 16 quiet) = Some (Done (), s) \<and>
     set (map (validate (rc_permit demo_config) \<circ> fst) (filter (is_playback \<circ> snd) (rd_log s))) \<subseteq> {Inr ()}"
proof -
  obtain s where run: "render_wasapi_frames demo_config False demo_own (replicate 16 quiet) = Some (Done (), s)"
    using quiet_render [OF _ demo_valid refl, of 16 False] by (auto simp: demo_config_def frames_of_def)
  show ?thesis
    using render_respects_ownership [OF demo_own_inv run] run by fastforce
qed

end
