(* ===== verification/Translated_Pcm.thy ===== *)
theory Translated_Pcm
  imports Bridge_Protocol
begin

text \<open>
  The evidence of translated speech that a strict Watch run keeps
  (\<open>audio/omni/translated_pcm_authority.rs\<close>): every cue a renderer accepted is sealed as a PCM file
  with its digest, a journal gets one line per event, a summary is rewritten after each change. The
  file system is part of the state; what a call meets there (failures, the clock) is an argument, a
  \<open>pcm_io\<close>. The hash function is a parameter. The invariant ties the records to the files: the chunks
  of a sealed cue partition its samples, its counts agree and its file holds exactly those samples.
\<close>

section \<open>Data\<close>

definition MAX_PROVIDER_INPUT_AUTHORITY_SAMPLES :: nat where "MAX_PROVIDER_INPUT_AUTHORITY_SAMPLES = 2880000"
definition MAX_TRANSLATED_PCM_SAMPLES :: nat where "MAX_TRANSLATED_PCM_SAMPLES = 240 * 48000"

datatype AcceptedTranslatedRenderer =
    BridgePhysicalPlayback (br_session_id: rstring) (br_bridge_instance_id: rstring) (br_source_generation: nat)
      (br_source_generation_token: rstring) (br_playback_owner_generation: nat) (br_device_id: rstring)
  | DesktopSpeaker (dk_renderer_instance_id: rstring) (dk_renderer_owner_generation: nat)
      (dk_render_attempt_id: rstring) (dk_device_id: rstring) (dk_played_frames: nat)
      (dk_played_sample_rate_hz: nat) (dk_played_channel_count: nat)

record AcceptedTranslatedChunk =
  ch_chunk_index :: nat
  ch_request_id :: rstring
  ch_sample_offset :: nat
  ch_sample_count :: nat
  ch_accepted_at_ms :: nat

record AcceptedTranslatedCue =
  ac_sequence :: nat
  ac_cue_id :: rstring
  ac_response_id :: rstring
  ac_request_ids :: "rstring list"
  ac_sample_rate_hz :: nat
  ac_channel_count :: nat
  ac_sample_count :: nat
  ac_frame_count :: nat
  ac_bytes :: nat
  ac_sha256 :: rstring
  ac_relative_path :: rstring
  ac_accepted_frames :: nat
  ac_chunk_count :: nat
  ac_chunks :: "AcceptedTranslatedChunk list"
  ac_created_at_ms :: nat
  ac_completed_at_ms :: nat
  ac_renderer :: AcceptedTranslatedRenderer

record PendingTranslatedStream =
  pt_cue_id :: rstring
  pt_response_id :: rstring
  pt_request_ids :: "rstring list"
  pt_sample_rate_hz :: nat
  pt_channel_count :: nat
  pt_samples :: "16 word list"
  pt_accepted_frames :: nat
  pt_chunks :: "AcceptedTranslatedChunk list"
  pt_next_chunk_index :: nat
  pt_created_at_ms :: nat
  pt_renderer :: AcceptedTranslatedRenderer

text \<open>The identity that every line of the journal and the summary repeat.\<close>

record pcm_identity =
  id_cell_id :: rstring
  id_lease_id :: rstring
  id_run_marker :: rstring
  id_session_generation :: nat
  id_model :: rstring
  id_protocol :: rstring

datatype journal_detail = NoDetail | CueDetail AcceptedTranslatedCue | AbortDetail rstring rstring

record journal_line =
  jl_event :: rstring
  jl_sequence :: nat
  jl_occurred_at_ms :: nat
  jl_identity :: pcm_identity
  jl_detail :: journal_detail

record pcm_summary =
  su_identity :: pcm_identity
  su_max_provider_input_samples :: nat
  su_cue_count :: nat
  su_total_samples :: nat
  su_total_bytes :: nat
  su_aborted_stream_count :: nat
  su_active_stream_count :: nat
  su_accepted_cues :: "AcceptedTranslatedCue list"
  su_finalized :: bool
  su_terminal_reason :: "rstring option"

record EnabledTranslatedPcmAuthority =
  pa_files :: "(rstring \<times> 8 word list) list"
  pa_journal :: "journal_line list"
  pa_summary :: "pcm_summary option"
  pa_identity :: pcm_identity
  pa_max_provider_input_samples :: nat
  pa_sequence :: nat
  pa_accepted_cues :: "AcceptedTranslatedCue list"
  pa_accepted_cue_ids :: "rstring set"
  pa_active_streams :: "(rstring \<times> PendingTranslatedStream) list"
  pa_aborted_stream_count :: nat
  pa_finalized :: bool
  pa_terminal_reason :: "rstring option"

text \<open>
  What one public call meets: failures of the file operations in the order the call makes them, how
  many bytes a failing write left behind, and the clock.
\<close>

datatype journal_failure = JournalSerialize rstring | JournalWrite rstring
datatype summary_failure = SummaryReset rstring | SummarySerialize rstring | SummaryWrite rstring

record pcm_io =
  px_create_failure :: "rstring option"
  px_write_failure :: "rstring option"
  px_partial :: nat
  px_journal_failure :: "journal_failure option"
  px_summary_failure :: "summary_failure option"
  px_now :: nat
  px_completed_at :: nat
  px_occurred_at :: nat

section \<open>Validation\<close>

definition validate_accepted_pcm ::
  "rstring \<Rightarrow> rstring \<Rightarrow> 16 word list \<Rightarrow> nat \<Rightarrow> nat \<Rightarrow> nat \<Rightarrow> rstring option" where
  "validate_accepted_pcm cue_id response_id samples sample_rate_hz channel_count accepted_frames =
     (if trim cue_id = [] \<or> trim response_id = [] \<or> samples = []
      then Some (str ''translated PCM authority requires cueId, responseId, and non-empty PCM'')
      else if sample_rate_hz = 0 \<or> channel_count \<noteq> 1
      then Some (str ''translated PCM authority requires mono PCM with a non-zero sample rate'')
      else if length samples > MAX_TRANSLATED_PCM_SAMPLES \<or> accepted_frames \<noteq> length samples
      then Some (str ''translated PCM authority accepted frame mismatch: samples='' @ show_nat (length samples) @
                 str '' acceptedFrames='' @ show_nat accepted_frames)
      else None)"

definition validate_stream_identity ::
  "PendingTranslatedStream \<Rightarrow> nat \<Rightarrow> nat \<Rightarrow> nat \<Rightarrow> rstring \<Rightarrow> AcceptedTranslatedRenderer \<Rightarrow> rstring option" where
  "validate_stream_identity pending sample_rate_hz channel_count chunk_index response_id renderer =
     (if pt_sample_rate_hz pending \<noteq> sample_rate_hz \<or> pt_channel_count pending \<noteq> channel_count \<or>
         pt_next_chunk_index pending \<noteq> chunk_index \<or> pt_response_id pending \<noteq> response_id \<or>
         pt_renderer pending \<noteq> renderer
      then Some (str ''translated PCM authority stream sequence mismatch: cueId='' @ pt_cue_id pending @
                 str '' expectedChunk='' @ show_nat (pt_next_chunk_index pending) @
                 str '' actualChunk='' @ show_nat chunk_index)
      else None)"

definition is_default_alias :: "rstring \<Rightarrow> bool" where
  "is_default_alias value \<longleftrightarrow> to_ascii_lowercase (trim value) \<in>
     {str '''', str ''default'', str ''speaker-default'', str ''system-output-default''}"

fun validate_renderer :: "AcceptedTranslatedRenderer \<Rightarrow> rstring option" where
  "validate_renderer (BridgePhysicalPlayback session_id instance generation token owner_generation device) =
     (if trim session_id = [] \<or> trim instance = [] \<or> generation = 0 \<or>
         token \<noteq> instance @ str '':'' @ session_id @ str '':'' @ show_nat generation \<or>
         owner_generation = 0 \<or> is_default_alias device
      then Some (str ''translated PCM authority Bridge renderer identity is incomplete'')
      else None)"
| "validate_renderer (DesktopSpeaker renderer owner_generation attempt device frames rate channels) =
     (if trim renderer = [] \<or> owner_generation = 0 \<or> trim attempt = [] \<or> is_default_alias device \<or>
         frames = 0 \<or> rate = 0 \<or> channels = 0
      then Some (str ''translated PCM authority Desktop speaker receipt is incomplete'')
      else None)"

record BridgeTranslationSinkOwner =
  bo_session_id :: rstring
  bo_bridge_instance_id :: rstring
  bo_source_generation :: nat
  bo_source_generation_token :: rstring
  bo_physical_playback_device_id :: rstring
  bo_playback_owner_generation :: nat

record SpeakerPlaybackReceipt =
  re_rendered_frames :: nat
  re_output_sample_rate_hz :: nat
  re_output_channel_count :: nat
  re_physical_playback_device_id :: rstring
  re_renderer_instance_id :: rstring
  re_renderer_owner_generation :: nat

definition bridge_renderer :: "BridgeTranslationSinkOwner \<Rightarrow> AcceptedTranslatedRenderer" where
  "bridge_renderer ow = BridgePhysicalPlayback (bo_session_id ow) (bo_bridge_instance_id ow)
     (bo_source_generation ow) (bo_source_generation_token ow) (bo_playback_owner_generation ow)
     (bo_physical_playback_device_id ow)"

definition speaker_renderer :: "SpeakerPlaybackReceipt \<Rightarrow> rstring \<Rightarrow> AcceptedTranslatedRenderer" where
  "speaker_renderer receipt render_attempt_id = DesktopSpeaker (re_renderer_instance_id receipt)
     (re_renderer_owner_generation receipt) render_attempt_id (re_physical_playback_device_id receipt)
     (re_rendered_frames receipt) (re_output_sample_rate_hz receipt) (re_output_channel_count receipt)"

section \<open>Journal and summary\<close>

type_synonym pcm_result = "(rstring + unit) \<times> EnabledTranslatedPcmAuthority"

definition write_raw_event ::
  "pcm_io \<Rightarrow> rstring \<Rightarrow> journal_detail \<Rightarrow> EnabledTranslatedPcmAuthority \<Rightarrow> pcm_result" where
  "write_raw_event io event detail s =
     (let s1 = s\<lparr>pa_sequence := sat_add_u64 (pa_sequence s) 1\<rparr>;
          line = \<lparr>jl_event = event, jl_sequence = pa_sequence s1, jl_occurred_at_ms = px_occurred_at io,
                  jl_identity = pa_identity s1, jl_detail = detail\<rparr>
      in case px_journal_failure io of
           Some (JournalSerialize e) \<Rightarrow> (Inl (str ''translated PCM authority serialize failed: '' @ e), s1)
         | Some (JournalWrite e) \<Rightarrow> (Inl (str ''translated PCM authority journal write failed: '' @ e), s1)
         | None \<Rightarrow> (Inr (), s1\<lparr>pa_journal := pa_journal s1 @ [line]\<rparr>))"

definition summary_of :: "EnabledTranslatedPcmAuthority \<Rightarrow> pcm_summary" where
  "summary_of s = \<lparr>su_identity = pa_identity s,
     su_max_provider_input_samples = pa_max_provider_input_samples s,
     su_cue_count = length (pa_accepted_cues s),
     su_total_samples = sum_list (map ac_sample_count (pa_accepted_cues s)),
     su_total_bytes = sum_list (map ac_bytes (pa_accepted_cues s)),
     su_aborted_stream_count = pa_aborted_stream_count s,
     su_active_stream_count = length (pa_active_streams s),
     su_accepted_cues = pa_accepted_cues s, su_finalized = pa_finalized s,
     su_terminal_reason = pa_terminal_reason s\<rparr>"

text \<open>The file is truncated before it is rewritten, so a failed write leaves no readable summary; a line that could not be
  written is not a line of the journal.\<close>

definition write_summary :: "pcm_io \<Rightarrow> EnabledTranslatedPcmAuthority \<Rightarrow> pcm_result" where
  "write_summary io s =
     (case px_summary_failure io of
        Some (SummaryReset e) \<Rightarrow> (Inl (str ''translated PCM authority summary reset failed: '' @ e), s)
      | Some (SummarySerialize e) \<Rightarrow>
          (Inl (str ''translated PCM authority summary serialize failed: '' @ e), s\<lparr>pa_summary := None\<rparr>)
      | Some (SummaryWrite e) \<Rightarrow>
          (Inl (str ''translated PCM authority summary write failed: '' @ e), s\<lparr>pa_summary := None\<rparr>)
      | None \<Rightarrow> (Inr (), s\<lparr>pa_summary := Some (summary_of s)\<rparr>))"

definition and_summary :: "pcm_io \<Rightarrow> pcm_result \<Rightarrow> pcm_result" where
  "and_summary io r = (case r of (Inl e, s) \<Rightarrow> (Inl e, s) | (Inr _, s) \<Rightarrow> write_summary io s)"

section \<open>Sealing a cue\<close>

text \<open>\<open>format!("\{:04\}")\<close>.\<close>

definition show_padded :: "nat \<Rightarrow> rstring" where
  "show_padded n = replicate (4 - length (show_nat n)) 48 @ show_nat n"

definition cue_file_name :: "nat \<Rightarrow> rstring \<Rightarrow> rstring" where
  "cue_file_name cue_sequence sha256 =
     str ''cue-'' @ show_padded cue_sequence @ str ''-'' @ take 16 sha256 @ str ''.pcm''"

definition create_new_file ::
  "pcm_io \<Rightarrow> rstring \<Rightarrow> (rstring \<times> 8 word list) list \<Rightarrow> (rstring + unit) \<times> (rstring \<times> 8 word list) list" where
  "create_new_file io name files =
     (case (map_of files name, px_create_failure io) of
        (None, None) \<Rightarrow> (Inr (), (name, []) # files)
      | (Some _, None) \<Rightarrow> (Inl (str ''translated PCM authority file must be new: file exists''), files)
      | (_, Some e) \<Rightarrow> (Inl (str ''translated PCM authority file must be new: '' @ e), files))"

text \<open>A digest in hexadecimal has 64 characters, so the slice of its first 16 is in range.\<close>

definition persist_accepted_cue ::
  "(8 word list \<Rightarrow> rstring) \<Rightarrow> pcm_io \<Rightarrow> rstring \<Rightarrow> rstring \<Rightarrow> rstring list \<Rightarrow> 16 word list \<Rightarrow> nat \<Rightarrow> nat \<Rightarrow> nat \<Rightarrow>
   nat \<Rightarrow> AcceptedTranslatedChunk list \<Rightarrow> nat \<Rightarrow> AcceptedTranslatedRenderer \<Rightarrow> EnabledTranslatedPcmAuthority \<Rightarrow>
   (rstring + AcceptedTranslatedCue) \<times> EnabledTranslatedPcmAuthority" where
  "persist_accepted_cue digest io cue_id response_id request_ids samples sample_rate_hz channel_count
     accepted_frames chunk_count chunks created_at_ms renderer s =
     (if cue_id \<in> pa_accepted_cue_ids s
      then (Inl (str ''translated PCM authority rejected duplicate completed cueId='' @ cue_id), s)
      else
        let bytes = encode_pcm16le samples;
            sha256 = digest bytes;
            cue_sequence = length (pa_accepted_cues s) + 1;
            file_name = cue_file_name cue_sequence sha256
        in case create_new_file io file_name (pa_files s) of
             (Inl e, _) \<Rightarrow> (Inl e, s)
           | (Inr _, files) \<Rightarrow>
               (case px_write_failure io of
                  Some e \<Rightarrow> (Inl (str ''translated PCM authority cue write failed: '' @ e),
                             s\<lparr>pa_files := hash_insert file_name (take (px_partial io) bytes) files\<rparr>)
                | None \<Rightarrow>
                    let record = \<lparr>ac_sequence = cue_sequence, ac_cue_id = cue_id, ac_response_id = response_id,
                          ac_request_ids = request_ids, ac_sample_rate_hz = sample_rate_hz,
                          ac_channel_count = channel_count, ac_sample_count = length samples,
                          ac_frame_count = length samples div channel_count, ac_bytes = length bytes,
                          ac_sha256 = sha256, ac_relative_path = str ''cue-pcm/'' @ file_name,
                          ac_accepted_frames = accepted_frames, ac_chunk_count = chunk_count,
                          ac_chunks = chunks, ac_created_at_ms = created_at_ms,
                          ac_completed_at_ms = px_completed_at io, ac_renderer = renderer\<rparr>
                    in (Inr record,
                        s\<lparr>pa_files := hash_insert file_name bytes files,
                          pa_accepted_cue_ids := insert cue_id (pa_accepted_cue_ids s),
                          pa_accepted_cues := pa_accepted_cues s @ [record]\<rparr>)))"

definition seal_cue ::
  "pcm_io \<Rightarrow> rstring \<Rightarrow> (rstring + AcceptedTranslatedCue) \<times> EnabledTranslatedPcmAuthority \<Rightarrow> pcm_result" where
  "seal_cue io event r =
     (case r of
        (Inl e, s) \<Rightarrow> (Inl e, s)
      | (Inr cue, s) \<Rightarrow> and_summary io (write_raw_event io event (CueDetail cue) s))"

section \<open>Operations\<close>

definition accept_complete_cue_for_renderer ::
  "(8 word list \<Rightarrow> rstring) \<Rightarrow> pcm_io \<Rightarrow> rstring \<Rightarrow> rstring \<Rightarrow> rstring \<Rightarrow> rstring \<Rightarrow> 16 word list \<Rightarrow> nat \<Rightarrow> nat \<Rightarrow> nat \<Rightarrow>
   nat \<Rightarrow> AcceptedTranslatedRenderer \<Rightarrow> EnabledTranslatedPcmAuthority \<Rightarrow> pcm_result" where
  "accept_complete_cue_for_renderer digest io accepted_event cue_id response_id request_id samples
     sample_rate_hz channel_count accepted_frames created_at_ms renderer s =
     (case validate_accepted_pcm cue_id response_id samples sample_rate_hz channel_count accepted_frames of
        Some e \<Rightarrow> (Inl e, s)
      | None \<Rightarrow>
     (case validate_renderer renderer of
        Some e \<Rightarrow> (Inl e, s)
      | None \<Rightarrow>
          if map_of (pa_active_streams s) cue_id \<noteq> None \<or> cue_id \<in> pa_accepted_cue_ids s
          then (Inl (str ''translated PCM authority rejected duplicate cueId='' @ cue_id), s)
          else seal_cue io accepted_event
            (persist_accepted_cue digest io cue_id response_id [request_id] samples sample_rate_hz channel_count
               accepted_frames 1
               [\<lparr>ch_chunk_index = 0, ch_request_id = request_id, ch_sample_offset = 0,
                 ch_sample_count = length samples, ch_accepted_at_ms = px_now io\<rparr>]
               created_at_ms renderer s)))"

definition start_stream ::
  "pcm_io \<Rightarrow> rstring \<Rightarrow> rstring \<Rightarrow> rstring \<Rightarrow> 16 word list \<Rightarrow> nat \<Rightarrow> nat \<Rightarrow> nat \<Rightarrow> nat \<Rightarrow> nat \<Rightarrow>
   AcceptedTranslatedRenderer \<Rightarrow> EnabledTranslatedPcmAuthority \<Rightarrow> pcm_result" where
  "start_stream io cue_id response_id request_id samples sample_rate_hz channel_count accepted_frames
     chunk_index created_at_ms renderer s =
     (if chunk_index \<noteq> 0 \<or> map_of (pa_active_streams s) cue_id \<noteq> None \<or> cue_id \<in> pa_accepted_cue_ids s
      then (Inl (str ''translated PCM authority rejected invalid stream start cueId='' @ cue_id @
                 str '' chunkIndex='' @ show_nat chunk_index), s)
      else case validate_accepted_pcm cue_id response_id samples sample_rate_hz channel_count accepted_frames of
        Some e \<Rightarrow> (Inl e, s)
      | None \<Rightarrow> write_summary io (s\<lparr>pa_active_streams := hash_insert cue_id
          \<lparr>pt_cue_id = cue_id, pt_response_id = response_id, pt_request_ids = [request_id],
           pt_sample_rate_hz = sample_rate_hz, pt_channel_count = channel_count, pt_samples = samples,
           pt_accepted_frames = accepted_frames,
           pt_chunks = [\<lparr>ch_chunk_index = chunk_index, ch_request_id = request_id, ch_sample_offset = 0,
             ch_sample_count = length samples, ch_accepted_at_ms = px_now io\<rparr>],
           pt_next_chunk_index = 1, pt_created_at_ms = created_at_ms, pt_renderer = renderer\<rparr>
          (pa_active_streams s)\<rparr>))"

text \<open>The map is updated in place, so the fields set before the frame count overflows stay set.\<close>

definition chunk_stream ::
  "pcm_io \<Rightarrow> rstring \<Rightarrow> rstring \<Rightarrow> rstring \<Rightarrow> 16 word list \<Rightarrow> nat \<Rightarrow> nat \<Rightarrow> nat \<Rightarrow> nat \<Rightarrow>
   AcceptedTranslatedRenderer \<Rightarrow> EnabledTranslatedPcmAuthority \<Rightarrow> pcm_result" where
  "chunk_stream io cue_id response_id request_id samples sample_rate_hz channel_count accepted_frames
     chunk_index renderer s =
     (case validate_accepted_pcm cue_id response_id samples sample_rate_hz channel_count accepted_frames of
        Some e \<Rightarrow> (Inl e, s)
      | None \<Rightarrow>
     (case map_of (pa_active_streams s) cue_id of
        None \<Rightarrow> (Inl (str ''translated PCM authority stream chunk has no start cueId='' @ cue_id), s)
      | Some pending \<Rightarrow>
     (case validate_stream_identity pending sample_rate_hz channel_count chunk_index response_id renderer of
        Some e \<Rightarrow> (Inl e, s)
      | None \<Rightarrow>
          let next_len = length (pt_samples pending) + length samples
          in if next_len > MAX_TRANSLATED_PCM_SAMPLES
             then (Inl (str ''translated PCM authority stream exceeds '' @ show_nat MAX_TRANSLATED_PCM_SAMPLES @
                        str '' samples''), s)
             else
               let extended = pending\<lparr>pt_samples := pt_samples pending @ samples,
                     pt_chunks := pt_chunks pending @ [\<lparr>ch_chunk_index = chunk_index, ch_request_id = request_id,
                       ch_sample_offset = next_len - length samples, ch_sample_count = length samples,
                       ch_accepted_at_ms = px_now io\<rparr>],
                     pt_request_ids := pt_request_ids pending @ [request_id]\<rparr>
               in case checked_add_u64 (pt_accepted_frames pending) accepted_frames of
                    None \<Rightarrow> (Inl (str ''translated PCM accepted frame count overflow''),
                       s\<lparr>pa_active_streams := hash_insert cue_id extended (pa_active_streams s)\<rparr>)
                  | Some frames \<Rightarrow> write_summary io (s\<lparr>pa_active_streams := hash_insert cue_id
                       (extended\<lparr>pt_accepted_frames := frames,
                          pt_next_chunk_index := min (pt_next_chunk_index pending + 1) u32_max\<rparr>)
                       (pa_active_streams s)\<rparr>))))"

definition end_stream ::
  "(8 word list \<Rightarrow> rstring) \<Rightarrow> pcm_io \<Rightarrow> rstring \<Rightarrow> rstring \<Rightarrow> rstring \<Rightarrow> 16 word list \<Rightarrow> nat \<Rightarrow> nat \<Rightarrow> nat \<Rightarrow> nat \<Rightarrow>
   AcceptedTranslatedRenderer \<Rightarrow> EnabledTranslatedPcmAuthority \<Rightarrow> pcm_result" where
  "end_stream digest io cue_id response_id request_id samples sample_rate_hz channel_count accepted_frames
     chunk_index renderer s =
     (if samples \<noteq> [] \<or> accepted_frames \<noteq> 0
      then (Inl (str ''translated PCM authority stream end must contain no PCM''), s)
      else case map_of (pa_active_streams s) cue_id of
        None \<Rightarrow> (Inl (str ''translated PCM authority stream end has no start cueId='' @ cue_id), s)
      | Some pending \<Rightarrow>
     (case validate_stream_identity pending sample_rate_hz channel_count chunk_index response_id renderer of
        Some e \<Rightarrow> (Inl e, s)
      | None \<Rightarrow>
          seal_cue io (str ''bridge_write_accepted'')
            (persist_accepted_cue digest io (pt_cue_id pending) (pt_response_id pending)
               (pt_request_ids pending @ [request_id]) (pt_samples pending) (pt_sample_rate_hz pending)
               (pt_channel_count pending) (pt_accepted_frames pending) (pt_next_chunk_index pending)
               (pt_chunks pending) (pt_created_at_ms pending) (pt_renderer pending)
               (s\<lparr>pa_active_streams := hash_remove cue_id (pa_active_streams s)\<rparr>))))"

definition abort_stream :: "pcm_io \<Rightarrow> rstring \<Rightarrow> rstring \<Rightarrow> EnabledTranslatedPcmAuthority \<Rightarrow> pcm_result" where
  "abort_stream io cue_id reason s =
     (if map_of (pa_active_streams s) cue_id \<noteq> None
      then and_summary io (write_raw_event io (str ''stream_aborted'') (AbortDetail cue_id reason)
             (s\<lparr>pa_active_streams := hash_remove cue_id (pa_active_streams s),
               pa_aborted_stream_count := sat_add_u64 (pa_aborted_stream_count s) 1\<rparr>))
      else (Inr (), s))"

definition accept_stream_write ::
  "(8 word list \<Rightarrow> rstring) \<Rightarrow> pcm_io \<Rightarrow> rstring \<Rightarrow> rstring \<Rightarrow> rstring \<Rightarrow> 16 word list \<Rightarrow> nat \<Rightarrow> nat \<Rightarrow> nat \<Rightarrow> nat \<Rightarrow>
   TranslationStreamState \<Rightarrow> nat \<Rightarrow> BridgeTranslationSinkOwner \<Rightarrow> EnabledTranslatedPcmAuthority \<Rightarrow> pcm_result" where
  "accept_stream_write digest io cue_id response_id request_id samples sample_rate_hz channel_count
     accepted_frames chunk_index stream_state created_at_ms ow s =
     (let renderer = bridge_renderer ow
      in case validate_renderer renderer of
           Some e \<Rightarrow> (Inl e, s)
         | None \<Rightarrow>
             (case stream_state of
                StreamStart \<Rightarrow> start_stream io cue_id response_id request_id samples sample_rate_hz channel_count
                  accepted_frames chunk_index created_at_ms renderer s
              | StreamChunk \<Rightarrow> chunk_stream io cue_id response_id request_id samples sample_rate_hz channel_count
                  accepted_frames chunk_index renderer s
              | StreamEnd \<Rightarrow> end_stream digest io cue_id response_id request_id samples sample_rate_hz channel_count
                  accepted_frames chunk_index renderer s
              | StreamAbort \<Rightarrow> abort_stream io cue_id (str ''bridge-stream-abort'') s))"

definition pcm_finalize :: "pcm_io \<Rightarrow> rstring \<Rightarrow> EnabledTranslatedPcmAuthority \<Rightarrow> pcm_result" where
  "pcm_finalize io reason s =
     (if pa_finalized s then (Inr (), s)
      else and_summary io (write_raw_event io (str ''finalized'') NoDetail
             (s\<lparr>pa_active_streams := [],
               pa_aborted_stream_count := sat_add_u64 (pa_aborted_stream_count s) (length (pa_active_streams s)),
               pa_finalized := True, pa_terminal_reason := Some reason\<rparr>)))"

definition drop_authority :: "pcm_io \<Rightarrow> EnabledTranslatedPcmAuthority \<Rightarrow> EnabledTranslatedPcmAuthority" where
  "drop_authority io s = snd (pcm_finalize io (str ''authority-drop'') s)"

text \<open>The public methods; a disabled authority accepts everything and keeps nothing.\<close>

datatype pcm_op =
    AcceptBridgeCue rstring rstring rstring "16 word list" nat nat nat nat BridgeTranslationSinkOwner
  | AcceptSpeakerCue rstring rstring rstring "16 word list" nat nat nat nat SpeakerPlaybackReceipt rstring
  | StreamWrite rstring rstring rstring "16 word list" nat nat nat nat TranslationStreamState nat BridgeTranslationSinkOwner
  | AbortStream rstring rstring
  | Finalize rstring
  | DropAuthority

fun enabled_step :: "(8 word list \<Rightarrow> rstring) \<Rightarrow> pcm_io \<Rightarrow> pcm_op \<Rightarrow> EnabledTranslatedPcmAuthority \<Rightarrow> pcm_result" where
  "enabled_step digest io (AcceptBridgeCue cue response request samples rate channels frames created ow) s =
     accept_complete_cue_for_renderer digest io (str ''bridge_write_accepted'') cue response request samples
       rate channels frames created (bridge_renderer ow) s"
| "enabled_step digest io (AcceptSpeakerCue cue response request samples rate channels frames created receipt attempt) s =
     accept_complete_cue_for_renderer digest io (str ''desktop_speaker_played'') cue response request samples
       rate channels frames created (speaker_renderer receipt attempt) s"
| "enabled_step digest io (StreamWrite cue response request samples rate channels frames index state created ow) s =
     accept_stream_write digest io cue response request samples rate channels frames index state created ow s"
| "enabled_step digest io (AbortStream cue reason) s = abort_stream io cue reason s"
| "enabled_step digest io (Finalize reason) s = pcm_finalize io reason s"
| "enabled_step digest io DropAuthority s = (Inr (), drop_authority io s)"

definition pcm_step ::
  "(8 word list \<Rightarrow> rstring) \<Rightarrow> pcm_io \<Rightarrow> pcm_op \<Rightarrow> EnabledTranslatedPcmAuthority option \<Rightarrow>
   (rstring + unit) \<times> EnabledTranslatedPcmAuthority option" where
  "pcm_step digest io op authority =
     (case authority of
        None \<Rightarrow> (Inr (), None)
      | Some s \<Rightarrow> (case enabled_step digest io op s of (r, s') \<Rightarrow> (r, Some s')))"

section \<open>Opening the authority\<close>

record open_io =
  oi_has_parent :: bool
  oi_parent_is_dir :: bool
  oi_create_dir_failure :: "rstring option"
  oi_initialize_failure :: "rstring option"

definition required :: "rstring \<Rightarrow> rstring option \<Rightarrow> rstring + rstring" where
  "required name value =
     (case value of
        Some v \<Rightarrow> if trim v \<noteq> [] then Inr (trim v) else Inl (str ''strict translated PCM authority requires '' @ name)
      | None \<Rightarrow> Inl (str ''strict translated PCM authority requires '' @ name))"

definition and_required ::
  "rstring \<Rightarrow> rstring option \<Rightarrow> (rstring \<Rightarrow> rstring + 'a) \<Rightarrow> rstring + 'a" where
  "and_required name value k = (case required name value of Inl e \<Rightarrow> Inl e | Inr v \<Rightarrow> k v)"

definition AUTHORITY_DIR_ENV :: rstring where "AUTHORITY_DIR_ENV = str ''OMNI_WATCH_MODE_TRANSLATED_PCM_AUTHORITY_DIR''"
definition MAX_SAMPLES_ENV :: rstring where "MAX_SAMPLES_ENV = str ''OMNI_WATCH_MODE_PROVIDER_INPUT_MAX_SAMPLES''"
definition CELL_ID_ENV :: rstring where "CELL_ID_ENV = str ''OMNI_WATCH_MODE_CELL_ID''"
definition LEASE_ID_ENV :: rstring where "LEASE_ID_ENV = str ''OMNI_WATCH_MODE_PROVIDER_INPUT_LEASE_ID''"
definition RUN_MARKER_ENV :: rstring where "RUN_MARKER_ENV = str ''OMNI_WATCH_MODE_RUN_MARKER''"
definition AUTOSTART_ENV :: rstring where "AUTOSTART_ENV = str ''OMNI_WATCH_MODE_AUTOSTART''"

definition fresh_authority ::
  "rstring \<Rightarrow> rstring \<Rightarrow> rstring \<Rightarrow> nat \<Rightarrow> rstring \<Rightarrow> rstring \<Rightarrow> nat \<Rightarrow> EnabledTranslatedPcmAuthority" where
  "fresh_authority cell_id lease_id run_marker session_generation model protocol max_samples =
     \<lparr>pa_files = [], pa_journal = [], pa_summary = None,
      pa_identity = \<lparr>id_cell_id = cell_id, id_lease_id = lease_id, id_run_marker = run_marker,
        id_session_generation = session_generation, id_model = trim model, id_protocol = trim protocol\<rparr>,
      pa_max_provider_input_samples = max_samples, pa_sequence = 0, pa_accepted_cues = [],
      pa_accepted_cue_ids = {}, pa_active_streams = [], pa_aborted_stream_count = 0,
      pa_finalized = False, pa_terminal_reason = None\<rparr>"

text \<open>The part after the environment has been read: the directory is created and the files opened.\<close>

definition open_authority ::
  "open_io \<Rightarrow> pcm_io \<Rightarrow> EnabledTranslatedPcmAuthority \<Rightarrow> rstring + EnabledTranslatedPcmAuthority option" where
  "open_authority oi io fresh =
     (if \<not> oi_has_parent oi then Inl (str ''strict translated PCM authority directory must have a parent'')
      else if \<not> oi_parent_is_dir oi
      then Inl (str ''strict translated PCM authority parent directory does not exist'')
      else case oi_create_dir_failure oi of
        Some e \<Rightarrow> Inl (str ''strict translated PCM authority directory must be new and exclusive: '' @ e)
      | None \<Rightarrow>
     (case oi_initialize_failure oi of
        Some e \<Rightarrow> Inl e
      | None \<Rightarrow>
          (case and_summary io (write_raw_event io (str ''initialized'') NoDetail fresh) of
             (Inl e, _) \<Rightarrow> Inl e
           | (Inr _, s) \<Rightarrow> Inr (Some s))))"

definition from_environment ::
  "open_io \<Rightarrow> pcm_io \<Rightarrow> rstring \<Rightarrow> nat \<Rightarrow> rstring \<Rightarrow> rstring \<Rightarrow> (rstring \<Rightarrow> rstring option) \<Rightarrow>
   rstring + EnabledTranslatedPcmAuthority option" where
  "from_environment oi io direction session_generation model protocol read_env =
     (if read_env AUTHORITY_DIR_ENV = None \<and> read_env MAX_SAMPLES_ENV = None then Inr None
      else and_required AUTHORITY_DIR_ENV (read_env AUTHORITY_DIR_ENV) (\<lambda>directory.
        and_required MAX_SAMPLES_ENV (read_env MAX_SAMPLES_ENV) (\<lambda>max_text.
          case parse_unsigned u64_max max_text of
            Inl e \<Rightarrow> Inl (MAX_SAMPLES_ENV @ str '' must be an integer: '' @ e)
          | Inr max_samples \<Rightarrow>
              if max_samples = 0 \<or> max_samples > MAX_PROVIDER_INPUT_AUTHORITY_SAMPLES
              then Inl (MAX_SAMPLES_ENV @ str '' must be within 1..='' @ show_nat MAX_PROVIDER_INPUT_AUTHORITY_SAMPLES)
              else and_required CELL_ID_ENV (read_env CELL_ID_ENV) (\<lambda>cell_id.
                and_required LEASE_ID_ENV (read_env LEASE_ID_ENV) (\<lambda>lease_id.
                and_required RUN_MARKER_ENV (read_env RUN_MARKER_ENV) (\<lambda>run_marker.
                and_required AUTOSTART_ENV (read_env AUTOSTART_ENV) (\<lambda>autostart.
                  if autostart \<notin> {str ''1'', str ''true'', str ''TRUE'', str ''yes'', str ''YES''}
                  then Inl (str ''strict translated PCM authority requires '' @ AUTOSTART_ENV @ str ''=1'')
                  else if direction \<noteq> str ''inbound''
                  then Inl (str ''strict translated PCM authority permits only the inbound Watch route'')
                  else if trim model = [] \<or> trim protocol = []
                  then Inl (str ''strict translated PCM authority requires resolved model and protocol'')
                  else open_authority oi io
                    (fresh_authority cell_id lease_id run_marker session_generation model protocol max_samples))))))))"

section \<open>Well-formed evidence\<close>

text \<open>Consecutive chunks, from an index and an offset on, that cover so many samples.\<close>

fun chunks_cover :: "nat \<Rightarrow> nat \<Rightarrow> AcceptedTranslatedChunk list \<Rightarrow> nat \<Rightarrow> bool" where
  "chunks_cover i offset [] n \<longleftrightarrow> offset = n"
| "chunks_cover i offset (c # cs) n \<longleftrightarrow>
     ch_chunk_index c = i \<and> ch_sample_offset c = offset \<and> 0 < ch_sample_count c \<and>
     chunks_cover (Suc i) (offset + ch_sample_count c) cs n"

definition cue_ok ::
  "(8 word list \<Rightarrow> rstring) \<Rightarrow> (rstring \<times> 8 word list) list \<Rightarrow> nat \<Rightarrow> AcceptedTranslatedCue \<Rightarrow> bool" where
  "cue_ok digest files i c \<longleftrightarrow>
     ac_sequence c = Suc i \<and> trim (ac_cue_id c) \<noteq> [] \<and> trim (ac_response_id c) \<noteq> [] \<and>
     ac_channel_count c = 1 \<and> 0 < ac_sample_rate_hz c \<and>
     0 < ac_sample_count c \<and> ac_sample_count c \<le> MAX_TRANSLATED_PCM_SAMPLES \<and>
     ac_accepted_frames c = ac_sample_count c \<and> ac_frame_count c = ac_sample_count c \<and>
     ac_bytes c = 2 * ac_sample_count c \<and> ac_chunk_count c = length (ac_chunks c) \<and>
     chunks_cover 0 0 (ac_chunks c) (ac_sample_count c) \<and> validate_renderer (ac_renderer c) = None \<and>
     (\<exists>name samples. ac_relative_path c = str ''cue-pcm/'' @ name \<and> length samples = ac_sample_count c \<and>
        map_of files name = Some (encode_pcm16le samples) \<and> ac_sha256 c = digest (encode_pcm16le samples))"

definition stream_ok :: "rstring set \<Rightarrow> rstring \<Rightarrow> PendingTranslatedStream \<Rightarrow> bool" where
  "stream_ok accepted k p \<longleftrightarrow>
     pt_cue_id p = k \<and> k \<notin> accepted \<and> trim k \<noteq> [] \<and> trim (pt_response_id p) \<noteq> [] \<and>
     pt_channel_count p = 1 \<and> 0 < pt_sample_rate_hz p \<and> pt_samples p \<noteq> [] \<and>
     length (pt_samples p) \<le> MAX_TRANSLATED_PCM_SAMPLES \<and> pt_accepted_frames p = length (pt_samples p) \<and>
     pt_next_chunk_index p = length (pt_chunks p) \<and>
     chunks_cover 0 0 (pt_chunks p) (length (pt_samples p)) \<and> validate_renderer (pt_renderer p) = None"

definition pcm_ok :: "(8 word list \<Rightarrow> rstring) \<Rightarrow> EnabledTranslatedPcmAuthority \<Rightarrow> bool" where
  "pcm_ok digest s \<longleftrightarrow>
     distinct (map ac_cue_id (pa_accepted_cues s)) \<and>
     pa_accepted_cue_ids s = set (map ac_cue_id (pa_accepted_cues s)) \<and>
     (\<forall>i < length (pa_accepted_cues s). cue_ok digest (pa_files s) i (pa_accepted_cues s ! i)) \<and>
     distinct (map fst (pa_active_streams s)) \<and>
     (\<forall>(k, p) \<in> set (pa_active_streams s). stream_ok (pa_accepted_cue_ids s) k p)"

lemma chunks_cover_snoc:
  "chunks_cover i offset (cs @ [c]) n \<longleftrightarrow>
     chunks_cover i offset cs (ch_sample_offset c) \<and> ch_chunk_index c = i + length cs \<and>
     0 < ch_sample_count c \<and> ch_sample_offset c + ch_sample_count c = n"
  by (induction cs arbitrary: i offset) auto

lemma chunks_cover_length: "chunks_cover i offset cs n \<Longrightarrow> offset + length cs \<le> n"
proof (induction cs arbitrary: i offset)
  case (Cons c cs)
  then show ?case using Cons.IH [of "Suc i" "offset + ch_sample_count c"] by auto
qed simp

text \<open>Journal and summary are outside the invariant.\<close>

lemma pcm_ok_cong:
  assumes "pcm_ok digest s" and "pa_files s' = pa_files s" and "pa_accepted_cues s' = pa_accepted_cues s"
    and "pa_accepted_cue_ids s' = pa_accepted_cue_ids s" and "pa_active_streams s' = pa_active_streams s"
  shows "pcm_ok digest s'"
  using assms(1) unfolding pcm_ok_def assms(2-5) .

lemma write_raw_event_keeps:
  "write_raw_event io event detail s = (r, s') \<Longrightarrow>
     pa_files s' = pa_files s \<and> pa_accepted_cues s' = pa_accepted_cues s \<and>
     pa_accepted_cue_ids s' = pa_accepted_cue_ids s \<and> pa_active_streams s' = pa_active_streams s"
  by (auto simp: write_raw_event_def Let_def split: option.splits journal_failure.splits)

lemma write_summary_keeps:
  "write_summary io s = (r, s') \<Longrightarrow>
     pa_files s' = pa_files s \<and> pa_accepted_cues s' = pa_accepted_cues s \<and>
     pa_accepted_cue_ids s' = pa_accepted_cue_ids s \<and> pa_active_streams s' = pa_active_streams s"
  by (auto simp: write_summary_def split: option.splits summary_failure.splits)

lemma write_summary_ok: "pcm_ok digest s \<Longrightarrow> pcm_ok digest (snd (write_summary io s))"
  using write_summary_keeps [of io s] by (cases "write_summary io s") (auto intro: pcm_ok_cong)

lemma write_raw_event_ok: "pcm_ok digest s \<Longrightarrow> pcm_ok digest (snd (write_raw_event io event detail s))"
  using write_raw_event_keeps [of io event detail s]
  by (cases "write_raw_event io event detail s") (auto intro: pcm_ok_cong)

lemma and_summary_ok: "pcm_ok digest (snd r) \<Longrightarrow> pcm_ok digest (snd (and_summary io r))"
  by (auto simp: and_summary_def intro: write_summary_ok split: prod.split sum.split)

lemma seal_cue_ok: "pcm_ok digest (snd r) \<Longrightarrow> pcm_ok digest (snd (seal_cue io event r))"
  by (auto simp: seal_cue_def intro!: and_summary_ok write_raw_event_ok split: prod.split sum.split)

lemma validate_accepted_pcm_None:
  "validate_accepted_pcm cue_id response_id samples rate channels frames = None \<longleftrightarrow>
     trim cue_id \<noteq> [] \<and> trim response_id \<noteq> [] \<and> samples \<noteq> [] \<and> 0 < rate \<and> channels = 1 \<and>
     length samples \<le> MAX_TRANSLATED_PCM_SAMPLES \<and> frames = length samples"
  by (auto simp: validate_accepted_pcm_def simp del: str_def)

lemma validate_stream_identity_None:
  "validate_stream_identity p rate channels index response renderer = None \<longleftrightarrow>
     pt_sample_rate_hz p = rate \<and> pt_channel_count p = channels \<and> pt_next_chunk_index p = index \<and>
     pt_response_id p = response \<and> pt_renderer p = renderer"
  by (auto simp: validate_stream_identity_def simp del: str_def)

text \<open>A new file, or more bytes of one that was just created, hides no other file.\<close>

lemma create_new_file_Inr:
  "create_new_file io name files = (Inr u, files') \<Longrightarrow> map_of files name = None \<and> files' = (name, []) # files"
  by (auto simp: create_new_file_def split: option.splits prod.splits)

lemma map_of_hash_insert [simp]: "map_of (hash_insert k v m) = (map_of m)(k \<mapsto> v)"
  by (auto simp: hash_insert_def map_of_filter_key [of "\<lambda>x. x \<noteq> k"] fun_eq_iff)

lemma files_grow:
  "map_of files name = None \<Longrightarrow> map_of files \<subseteq>\<^sub>m map_of (hash_insert name b ((name, []) # files))"
  by (auto simp: map_le_def)

lemma cue_ok_mono:
  assumes "cue_ok digest files i c" and "map_of files \<subseteq>\<^sub>m map_of files'"
  shows "cue_ok digest files' i c"
proof -
  have "map_of files' name = Some b" if "map_of files name = Some b" for name b
    using that assms(2) by (auto simp: map_le_def dom_def)
  with assms(1) show ?thesis unfolding cue_ok_def by blast
qed

lemma pcm_ok_remove:
  "pcm_ok digest s \<Longrightarrow> pcm_ok digest (s\<lparr>pa_active_streams := hash_remove k (pa_active_streams s)\<rparr>)"
  by (auto simp: pcm_ok_def hash_remove_def distinct_map_filter)

lemma pcm_ok_insert:
  assumes "pcm_ok digest s" and "stream_ok (pa_accepted_cue_ids s) k p"
  shows "pcm_ok digest (s\<lparr>pa_active_streams := hash_insert k p (pa_active_streams s)\<rparr>)"
  using assms by (auto simp: pcm_ok_def hash_insert_def distinct_map_filter)

lemma pcm_ok_more_files:
  assumes "pcm_ok digest s" and "map_of (pa_files s) \<subseteq>\<^sub>m map_of files"
  shows "pcm_ok digest (s\<lparr>pa_files := files\<rparr>)"
  using assms by (auto simp: pcm_ok_def intro: cue_ok_mono)

text \<open>What a cue has to satisfy when it is sealed.\<close>

definition sealable :: "16 word list \<Rightarrow> nat \<Rightarrow> nat \<Rightarrow> nat \<Rightarrow> nat \<Rightarrow> AcceptedTranslatedChunk list \<Rightarrow> bool" where
  "sealable samples rate channels frames chunk_count chunks \<longleftrightarrow>
     samples \<noteq> [] \<and> length samples \<le> MAX_TRANSLATED_PCM_SAMPLES \<and> 0 < rate \<and> channels = 1 \<and>
     frames = length samples \<and> chunk_count = length chunks \<and> chunks_cover 0 0 chunks (length samples)"

lemma stream_ok_insert: "stream_ok A k p \<Longrightarrow> k \<noteq> c \<Longrightarrow> stream_ok (insert c A) k p"
  by (simp add: stream_ok_def)

lemma persist_ok:
  assumes ok: "pcm_ok digest s" and cue: "map_of (pa_active_streams s) cue_id = None"
    and ids: "trim cue_id \<noteq> []" "trim response_id \<noteq> []" "validate_renderer renderer = None"
    and seal: "sealable samples rate channels frames chunk_count chunks"
  shows "pcm_ok digest (snd (persist_accepted_cue digest io cue_id response_id request_ids samples rate channels
    frames chunk_count chunks created renderer s))"
proof (cases "cue_id \<in> pa_accepted_cue_ids s")
  case True
  then show ?thesis using ok by (simp add: persist_accepted_cue_def del: str_def)
next
  case False
  let ?b = "encode_pcm16le samples"
  let ?name = "cue_file_name (length (pa_accepted_cues s) + 1) (digest ?b)"
  obtain r files where c: "create_new_file io ?name (pa_files s) = (r, files)" by fastforce
  show ?thesis
  proof (cases r)
    case (Inl e)
    then show ?thesis using ok False c by (simp add: persist_accepted_cue_def Let_def del: str_def)
  next
    case (Inr u)
    then have files: "map_of (pa_files s) ?name = None" "files = (?name, []) # pa_files s"
      using create_new_file_Inr c by auto
    note grow = files_grow [OF files(1), folded files(2)]
    show ?thesis
    proof (cases "px_write_failure io")
      case (Some e)
      then show ?thesis
        using pcm_ok_more_files [OF ok grow] False c Inr by (simp add: persist_accepted_cue_def Let_def del: str_def)
    next
      case None
      define sealed where "sealed = \<lparr>ac_sequence = length (pa_accepted_cues s) + 1, ac_cue_id = cue_id,
        ac_response_id = response_id, ac_request_ids = request_ids, ac_sample_rate_hz = rate,
        ac_channel_count = channels, ac_sample_count = length samples, ac_frame_count = length samples div channels,
        ac_bytes = length ?b, ac_sha256 = digest ?b, ac_relative_path = str ''cue-pcm/'' @ ?name,
        ac_accepted_frames = frames, ac_chunk_count = chunk_count, ac_chunks = chunks,
        ac_created_at_ms = created, ac_completed_at_ms = px_completed_at io, ac_renderer = renderer\<rparr>"
      let ?files = "hash_insert ?name ?b files"
      have rec: "cue_ok digest ?files (length (pa_accepted_cues s)) sealed"
        using ids seal by (auto simp: cue_ok_def sealed_def sealable_def)
      have old: "cue_ok digest ?files i (pa_accepted_cues s ! i)" if "i < length (pa_accepted_cues s)" for i
        using that ok cue_ok_mono [OF _ grow] by (simp add: pcm_ok_def)
      have fresh: "cue_id \<notin> set (map ac_cue_id (pa_accepted_cues s))" using False ok by (simp add: pcm_ok_def)
      have streams: "stream_ok (insert cue_id (pa_accepted_cue_ids s)) k p" if "(k, p) \<in> set (pa_active_streams s)" for k p
        using that ok cue weak_map_of_SomeI [OF that] by (intro stream_ok_insert) (auto simp: pcm_ok_def)
      have sealed_id: "ac_cue_id sealed = cue_id" by (simp add: sealed_def)
      have "pcm_ok digest (s\<lparr>pa_files := ?files, pa_accepted_cue_ids := insert cue_id (pa_accepted_cue_ids s),
          pa_accepted_cues := pa_accepted_cues s @ [sealed]\<rparr>)"
        using ok fresh old rec streams
        by (auto simp: pcm_ok_def nth_append less_Suc_eq sealed_id)
      then show ?thesis
        using False c Inr None by (simp add: persist_accepted_cue_def Let_def sealed_def del: str_def)
    qed
  qed
qed

lemma accept_complete_ok:
  assumes "pcm_ok digest s"
  shows "pcm_ok digest (snd (accept_complete_cue_for_renderer digest io event cue response request samples rate
    channels frames created renderer s))"
proof (cases "validate_accepted_pcm cue response samples rate channels frames = None \<and>
    validate_renderer renderer = None \<and> map_of (pa_active_streams s) cue = None \<and> cue \<notin> pa_accepted_cue_ids s")
  case True
  let ?chunk = "\<lparr>ch_chunk_index = 0, ch_request_id = request,
      ch_sample_offset = 0, ch_sample_count = length samples, ch_accepted_at_ms = px_now io\<rparr>"
  have "pcm_ok digest (snd (persist_accepted_cue digest io cue response [request] samples rate channels frames 1
      [?chunk] created renderer s))"
    by (rule persist_ok [OF assms]) (use True in \<open>auto simp: validate_accepted_pcm_None sealable_def\<close>)
  with True show ?thesis
    by (simp add: accept_complete_cue_for_renderer_def seal_cue_ok del: str_def)
next
  case False
  then have "snd (accept_complete_cue_for_renderer digest io event cue response request samples rate
      channels frames created renderer s) = s"
    by (auto simp: accept_complete_cue_for_renderer_def simp del: str_def split: option.split)
  with assms show ?thesis by simp
qed

lemma start_stream_ok:
  assumes "pcm_ok digest s" and "validate_renderer renderer = None"
  shows "pcm_ok digest (snd (start_stream io cue response request samples rate channels frames index created renderer s))"
  using assms
  by (auto simp: start_stream_def validate_accepted_pcm_None stream_ok_def simp del: str_def
      intro!: write_summary_ok pcm_ok_insert split: option.split)

lemma pcm_ok_stream: "pcm_ok digest s \<Longrightarrow> map_of (pa_active_streams s) k = Some p \<Longrightarrow> stream_ok (pa_accepted_cue_ids s) k p"
  by (auto simp: pcm_ok_def dest!: map_of_SomeD)

lemma max_samples_u64: "MAX_TRANSLATED_PCM_SAMPLES < u32_max" "MAX_TRANSLATED_PCM_SAMPLES \<le> u64_max"
  by (simp_all add: MAX_TRANSLATED_PCM_SAMPLES_def u32_max_def u64_max_def)

lemma chunk_stream_ok:
  assumes "pcm_ok digest s"
  shows "pcm_ok digest (snd (chunk_stream io cue response request samples rate channels frames index renderer s))"
proof -
  let ?r = "chunk_stream io cue response request samples rate channels frames index renderer s"
  have "\<exists>p. validate_accepted_pcm cue response samples rate channels frames = None \<and>
      map_of (pa_active_streams s) cue = Some p \<and>
      validate_stream_identity p rate channels index response renderer = None \<and>
      length (pt_samples p) + length samples \<le> MAX_TRANSLATED_PCM_SAMPLES" if "snd ?r \<noteq> s"
    using that by (auto simp: chunk_stream_def Let_def simp del: str_def split: option.splits if_splits)
  then consider (same) "snd ?r = s" | (more) p where
      "validate_accepted_pcm cue response samples rate channels frames = None"
      "map_of (pa_active_streams s) cue = Some p" "validate_stream_identity p rate channels index response renderer = None"
      "length (pt_samples p) + length samples \<le> MAX_TRANSLATED_PCM_SAMPLES"
    by blast
  then show ?thesis
  proof cases
    case same
    with assms show ?thesis by simp
  next
    case more
    note p = pcm_ok_stream [OF assms more(2)]
    note v = more(1) [unfolded validate_accepted_pcm_None] more(3) [unfolded validate_stream_identity_None]
    have frames: "checked_add_u64 (pt_accepted_frames p) frames = Some (length (pt_samples p) + length samples)"
      using p v more(4) max_samples_u64 by (simp add: stream_ok_def)
    have "length (pt_chunks p) \<le> length (pt_samples p)"
      using chunks_cover_length [of 0 0] p by (force simp: stream_ok_def)
    then have index: "min (pt_next_chunk_index p + 1) u32_max = Suc (length (pt_chunks p))"
      using p more(4) max_samples_u64 by (simp add: stream_ok_def)
    define p' where "p' = p\<lparr>pt_samples := pt_samples p @ samples,
      pt_chunks := pt_chunks p @ [\<lparr>ch_chunk_index = index, ch_request_id = request,
        ch_sample_offset = length (pt_samples p), ch_sample_count = length samples, ch_accepted_at_ms = px_now io\<rparr>],
      pt_request_ids := pt_request_ids p @ [request],
      pt_accepted_frames := length (pt_samples p) + length samples, pt_next_chunk_index := Suc (length (pt_chunks p))\<rparr>"
    have "stream_ok (pa_accepted_cue_ids s) cue p'"
      using p v more(4) by (auto simp: p'_def stream_ok_def chunks_cover_snoc)
    moreover have "?r = write_summary io (s\<lparr>pa_active_streams := hash_insert cue p' (pa_active_streams s)\<rparr>)"
      using more frames index by (simp add: chunk_stream_def Let_def p'_def del: str_def checked_add_u64_Some)
    ultimately show ?thesis
      using write_summary_ok [OF pcm_ok_insert [OF assms]] by simp
  qed
qed

lemma map_of_hash_remove [simp]: "map_of (hash_remove k m) k = None"
  by (simp add: hash_remove_def map_of_filter_key [of "\<lambda>x. x \<noteq> k"])

lemma end_stream_ok:
  assumes "pcm_ok digest s"
  shows "pcm_ok digest (snd (end_stream digest io cue response request samples rate channels frames index renderer s))"
proof (cases "map_of (pa_active_streams s) cue")
  case None
  with assms show ?thesis by (simp add: end_stream_def del: str_def)
next
  case (Some p)
  note p = pcm_ok_stream [OF assms Some]
  then have "sealable (pt_samples p) (pt_sample_rate_hz p) (pt_channel_count p) (pt_accepted_frames p)
      (pt_next_chunk_index p) (pt_chunks p)"
    by (simp add: stream_ok_def sealable_def)
  then have "pcm_ok digest (snd (persist_accepted_cue digest io (pt_cue_id p) (pt_response_id p)
      (pt_request_ids p @ [request]) (pt_samples p) (pt_sample_rate_hz p) (pt_channel_count p) (pt_accepted_frames p)
      (pt_next_chunk_index p) (pt_chunks p) (pt_created_at_ms p) (pt_renderer p)
      (s\<lparr>pa_active_streams := hash_remove cue (pa_active_streams s)\<rparr>)))"
    using p by (intro persist_ok pcm_ok_remove assms) (simp_all add: stream_ok_def)
  with Some assms show ?thesis
    by (auto simp: end_stream_def simp del: str_def intro!: seal_cue_ok split: option.split)
qed

lemma abort_stream_ok: "pcm_ok digest s \<Longrightarrow> pcm_ok digest (snd (abort_stream io cue reason s))"
  using pcm_ok_remove [of digest s cue]
  by (auto simp: abort_stream_def simp del: str_def intro!: and_summary_ok write_raw_event_ok elim: pcm_ok_cong)

lemma pcm_finalize_ok: "pcm_ok digest s \<Longrightarrow> pcm_ok digest (snd (pcm_finalize io reason s))"
proof -
  assume ok: "pcm_ok digest s"
  then have "pcm_ok digest (s\<lparr>pa_active_streams := [], pa_aborted_stream_count := a, pa_finalized := True,
      pa_terminal_reason := r\<rparr>)" for a r
    by (simp add: pcm_ok_def)
  with ok show ?thesis
    by (auto simp: pcm_finalize_def simp del: str_def intro!: and_summary_ok write_raw_event_ok)
qed

lemma enabled_step_ok: "pcm_ok digest s \<Longrightarrow> pcm_ok digest (snd (enabled_step digest io op s))"
  by (cases op) (auto simp: accept_complete_ok accept_stream_write_def Let_def start_stream_ok chunk_stream_ok
      end_stream_ok abort_stream_ok pcm_finalize_ok drop_authority_def simp del: str_def split: option.split TranslationStreamState.split)

section \<open>Evidence is only ever added\<close>

definition appends :: "EnabledTranslatedPcmAuthority \<Rightarrow> EnabledTranslatedPcmAuthority \<Rightarrow> bool" where
  "appends s s' \<longleftrightarrow> prefix (pa_accepted_cues s) (pa_accepted_cues s') \<and> prefix (pa_journal s) (pa_journal s') \<and>
     map_of (pa_files s) \<subseteq>\<^sub>m map_of (pa_files s')"

lemma appends_refl [simp]: "appends s s"
  by (simp add: appends_def)

lemma appends_trans: "appends s t \<Longrightarrow> appends t u \<Longrightarrow> appends s u"
  by (auto simp: appends_def intro: prefix_order.trans map_le_trans)

lemma appends_local [simp]:
  "appends s (t\<lparr>pa_active_streams := a\<rparr>) = appends s t" "appends (s\<lparr>pa_active_streams := a\<rparr>) t = appends s t"
  "appends s (t\<lparr>pa_aborted_stream_count := n\<rparr>) = appends s t" "appends (s\<lparr>pa_aborted_stream_count := n\<rparr>) t = appends s t"
  "appends (s\<lparr>pa_finalized := b\<rparr>) t = appends s t" "appends (s\<lparr>pa_terminal_reason := r\<rparr>) t = appends s t"
  by (simp_all add: appends_def)

lemma write_raw_event_appends: "appends s (snd (write_raw_event io event detail s))"
  by (auto simp: write_raw_event_def Let_def appends_def split: option.splits journal_failure.splits)

lemma write_summary_appends: "appends s (snd (write_summary io s))"
  by (auto simp: write_summary_def appends_def split: option.splits summary_failure.splits)

lemma and_summary_appends: "appends s (snd r) \<Longrightarrow> appends s (snd (and_summary io r))"
  by (cases r) (auto simp: and_summary_def intro: appends_trans write_summary_appends split: sum.split)

lemma seal_cue_appends: "appends s (snd r) \<Longrightarrow> appends s (snd (seal_cue io event r))"
  by (cases r) (auto simp: seal_cue_def intro: and_summary_appends appends_trans write_raw_event_appends split: sum.split)

lemma persist_appends:
  "appends s (snd (persist_accepted_cue digest io cue response requests samples rate channels frames n chunks
     created renderer s))"
proof -
  let ?name = "cue_file_name (length (pa_accepted_cues s) + 1) (digest (encode_pcm16le samples))"
  obtain r files where c: "create_new_file io ?name (pa_files s) = (r, files)" by fastforce
  show ?thesis
  proof (cases r)
    case (Inl e)
    with c show ?thesis by (simp add: persist_accepted_cue_def Let_def del: str_def)
  next
    case (Inr u)
    with create_new_file_Inr c have files: "map_of (pa_files s) ?name = None" "files = (?name, []) # pa_files s" by auto
    note grow = files_grow [OF files(1), folded files(2)]
    with c Inr show ?thesis
      by (auto simp: persist_accepted_cue_def Let_def appends_def simp del: str_def map_of_hash_insert split: option.split)
  qed
qed

lemma enabled_step_appends: "appends s (snd (enabled_step digest io op s))"
proof -
  have complete: "appends s (snd (accept_complete_cue_for_renderer digest io event cue response request samples rate
      channels frames created renderer s))" for event cue response request samples rate channels frames created renderer
    by (auto simp: accept_complete_cue_for_renderer_def simp del: str_def intro!: seal_cue_appends persist_appends
        split: option.split)
  have abort: "appends s (snd (abort_stream io cue reason s))" for cue reason
    using write_raw_event_appends [of "s\<lparr>pa_active_streams := a, pa_aborted_stream_count := n\<rparr>" for a n]
    by (auto simp: abort_stream_def simp del: str_def intro!: and_summary_appends)
  have ended: "appends s (snd (end_stream digest io cue response request samples rate channels frames index renderer s))"
    for cue response request samples rate channels frames index renderer
    using persist_appends [of "s\<lparr>pa_active_streams := a\<rparr>" for a]
    by (auto simp: end_stream_def simp del: str_def intro!: seal_cue_appends split: option.split)
  have start: "appends s (snd (start_stream io cue response request samples rate channels frames index created renderer s))"
    for cue response request samples rate channels frames index created renderer
    using write_summary_appends [of "s\<lparr>pa_active_streams := a\<rparr>" for a]
    by (auto simp: start_stream_def simp del: str_def split: option.split)
  have chunk: "appends s (snd (chunk_stream io cue response request samples rate channels frames index renderer s))"
    for cue response request samples rate channels frames index renderer
    using write_summary_appends [of "s\<lparr>pa_active_streams := a\<rparr>" for a]
    by (auto simp: chunk_stream_def Let_def simp del: str_def split: option.split)
  have fin: "appends s (snd (pcm_finalize io reason s))" for reason
    using write_raw_event_appends [of "s\<lparr>pa_active_streams := [], pa_aborted_stream_count := n,
      pa_finalized := True, pa_terminal_reason := r\<rparr>" for n r]
    by (auto simp: pcm_finalize_def simp del: str_def intro!: and_summary_appends)
  show ?thesis
    by (cases op) (auto simp: complete abort ended start chunk fin drop_authority_def accept_stream_write_def Let_def simp del: str_def
        split: option.split TranslationStreamState.split)
qed

section \<open>Runs\<close>

definition evidence_step ::
  "(8 word list \<Rightarrow> rstring) \<Rightarrow> EnabledTranslatedPcmAuthority option \<Rightarrow> pcm_io \<times> pcm_op \<Rightarrow>
   EnabledTranslatedPcmAuthority option" where
  "evidence_step digest authority = (\<lambda>(io, op). snd (pcm_step digest io op authority))"

lemma evidence_step_simps [simp]:
  "evidence_step digest None e = None"
  "evidence_step digest (Some s) (io, op) = Some (snd (enabled_step digest io op s))"
  by (auto simp: evidence_step_def pcm_step_def split: prod.split)

lemma evidence_run_Some: "\<exists>s'. runs (evidence_step digest) (Some s) es = Some s'"
proof (induction es arbitrary: s)
  case (Cons e es)
  then show ?case by (cases e) simp
qed simp

interpretation evidence: invariant_system None "evidence_step digest" "pred_option (pcm_ok digest)" for digest
proof
  fix a :: "EnabledTranslatedPcmAuthority option" and e
  assume "pred_option (pcm_ok digest) a"
  then show "pred_option (pcm_ok digest) (evidence_step digest a e)"
    by (cases a; cases e) (auto intro: enabled_step_ok)
qed simp

lemma fresh_authority_ok: "pcm_ok digest (fresh_authority cell lease marker generation model protocol n)"
  by (simp add: fresh_authority_def pcm_ok_def)

lemma open_authority_ok:
  "pcm_ok digest fresh \<Longrightarrow> open_authority oi io fresh = Inr a \<Longrightarrow> pred_option (pcm_ok digest) a"
  using and_summary_ok [OF write_raw_event_ok [of digest fresh io "str ''initialized''" NoDetail], of io]
  by (auto simp: open_authority_def simp del: str_def split: if_splits option.splits prod.splits sum.splits)

lemma from_environment_Inr:
  assumes "from_environment oi io direction generation model protocol read_env = Inr (Some s)"
  obtains cell lease marker n where "direction = str ''inbound''" "0 < n" "n \<le> MAX_PROVIDER_INPUT_AUTHORITY_SAMPLES"
    "open_authority oi io (fresh_authority cell lease marker generation model protocol n) = Inr (Some s)"
  using assms
  by (auto simp: from_environment_def and_required_def simp del: str_def split: if_splits sum.splits)

text \<open>
  C25: An authority that was opened from the environment keeps its evidence well formed, whatever calls follow and
  whichever file operations fail: the sealed cues have distinct identifiers and consecutive sequence
  numbers, their chunks partition the samples, all counts agree, the renderer's identity is complete,
  and the file a cue names holds exactly the little-endian samples its digest was computed from; no
  cue that is still streaming has been sealed.
\<close>

theorem pcm_evidence_wellformed:
  assumes "from_environment oi io direction generation model protocol read_env = Inr (Some s)"
    and "runs (evidence_step digest) (Some s) es = Some s'"
  shows "pcm_ok digest s'"
proof -
  from assms(1) have "pred_option (pcm_ok digest) (Some s)"
    by (blast elim: from_environment_Inr intro: open_authority_ok fresh_authority_ok)
  from evidence.inv_runs [OF this, of es] assms(2) show ?thesis by simp
qed

definition strict_environment :: "rstring \<Rightarrow> rstring option" where
  "strict_environment name = (if name = MAX_SAMPLES_ENV then Some (str ''24000'') else Some (str ''1''))"

definition quiet_io :: pcm_io where
  "quiet_io = \<lparr>px_create_failure = None, px_write_failure = None, px_partial = 0, px_journal_failure = None,
     px_summary_failure = None, px_now = 1, px_completed_at = 2, px_occurred_at = 3\<rparr>"

definition healthy_open :: open_io where
  "healthy_open = \<lparr>oi_has_parent = True, oi_parent_is_dir = True, oi_create_dir_failure = None,
     oi_initialize_failure = None\<rparr>"

definition example_owner :: BridgeTranslationSinkOwner where
  "example_owner = \<lparr>bo_session_id = str ''s'', bo_bridge_instance_id = str ''i'', bo_source_generation = 1,
     bo_source_generation_token = str ''i:s:1'', bo_physical_playback_device_id = str ''d'',
     bo_playback_owner_generation = 1\<rparr>"

definition example_digest :: "8 word list \<Rightarrow> rstring" where
  "example_digest bytes = str ''0123456789abcdef''"

definition example_stream :: "(pcm_io \<times> pcm_op) list" where
  "example_stream =
     [(quiet_io, StreamWrite (str ''c'') (str ''r'') (str ''q0'') [1, 65535] 24000 1 2 0 StreamStart 0 example_owner),
      (quiet_io, StreamWrite (str ''c'') (str ''r'') (str ''q1'') [7] 24000 1 1 1 StreamChunk 0 example_owner),
      (quiet_io, StreamWrite (str ''c'') (str ''r'') (str ''q2'') [] 24000 1 0 2 StreamEnd 0 example_owner)]"

text \<open>An authority is opened, a cue of three samples is streamed in two chunks and sealed.\<close>

lemmas eval_open = from_environment_def and_required_def required_def strict_environment_def MAX_SAMPLES_ENV_def
  AUTHORITY_DIR_ENV_def CELL_ID_ENV_def LEASE_ID_ENV_def RUN_MARKER_ENV_def AUTOSTART_ENV_def parse_unsigned_def
  MAX_PROVIDER_INPUT_AUTHORITY_SAMPLES_def open_authority_def healthy_open_def fresh_authority_def

lemmas eval_pcm = trim_def trim_start_def trim_end_def is_whitespace_def show_nat.simps to_ascii_lowercase_def
  is_default_alias_def bridge_renderer_def example_owner_def accept_stream_write_def start_stream_def chunk_stream_def
  end_stream_def validate_accepted_pcm_def validate_stream_identity_def MAX_TRANSLATED_PCM_SAMPLES_def u32_max_def
  quiet_io_def seal_cue_def persist_accepted_cue_def and_summary_def write_raw_event_def write_summary_def
  summary_of_def create_new_file_def cue_file_name_def show_padded_def hash_insert_def hash_remove_def
  encode_pcm16le_def Let_def checked_add_u64_def sat_add_u64_def u64_max_def

lemma example_opens:
  "\<exists>s. from_environment healthy_open quiet_io (str ''inbound'') 1 (str ''m'') (str ''p'') strict_environment = Inr (Some s) \<and>
    pa_active_streams s = [] \<and> pa_accepted_cue_ids s = {} \<and> pa_files s = [] \<and> pa_accepted_cues s = []"
  by (simp add: eval_open eval_pcm)

lemma example_streams:
  assumes "pa_active_streams s = []" "pa_accepted_cue_ids s = {}" "pa_files s = []" "pa_accepted_cues s = []"
  shows "\<exists>s'. runs (evidence_step example_digest) (Some s) example_stream = Some s' \<and>
    pa_files s' = [(str ''cue-0001-0123456789abcdef.pcm'', [1, 0, 255, 255, 7, 0])] \<and>
    map ac_sample_count (pa_accepted_cues s') = [3]"
  using assms by (simp add: example_stream_def eval_pcm example_digest_def i16_to_le_bytes_def numeral_3_eq_3)

theorem pcm_evidence_wellformed_witness:
  "\<exists>s s'. from_environment healthy_open quiet_io (str ''inbound'') 1 (str ''m'') (str ''p'') strict_environment = Inr (Some s) \<and>
    runs (evidence_step example_digest) (Some s) example_stream = Some s' \<and>
    map ac_sample_count (pa_accepted_cues s') = [3] \<and> pcm_ok example_digest s'"
proof -
  obtain s where s: "from_environment healthy_open quiet_io (str ''inbound'') 1 (str ''m'') (str ''p'') strict_environment = Inr (Some s)"
    and empty: "pa_active_streams s = []" "pa_accepted_cue_ids s = {}" "pa_files s = []" "pa_accepted_cues s = []"
    using example_opens by blast
  obtain s' where s': "runs (evidence_step example_digest) (Some s) example_stream = Some s'"
    "map ac_sample_count (pa_accepted_cues s') = [3]"
    using example_streams [OF empty] by (elim exE conjE) (rule that)
  from s s' pcm_evidence_wellformed [OF s s'(1)] show ?thesis by (intro exI conjI)
qed

text \<open>
  C26: Evidence is only ever added. Along every run, whichever file operations fail, the sealed cues and the
  journal grow at their ends and no file that holds evidence is changed or removed.
\<close>

theorem pcm_evidence_append_only:
  assumes "runs (evidence_step digest) (Some s) es = Some s'"
  shows "appends s s'"
  using assms
proof (induction es arbitrary: s)
  case (Cons e es)
  obtain io op where "e = (io, op)" by fastforce
  with Cons show ?case by (auto intro: appends_trans enabled_step_appends)
qed simp

theorem pcm_evidence_append_only_witness:
  "\<exists>s s'. runs (evidence_step example_digest) (Some s) example_stream = Some s' \<and>
    length (pa_files s) = 0 \<and> length (pa_files s') = 1 \<and> appends s s'"
proof -
  obtain s :: EnabledTranslatedPcmAuthority
    where empty: "pa_active_streams s = []" "pa_accepted_cue_ids s = {}" "pa_files s = []" "pa_accepted_cues s = []"
    using example_opens by blast
  from example_streams [OF empty] empty(3) show ?thesis
    using pcm_evidence_append_only [of example_digest s example_stream] by fastforce
qed

end
