(* ===== verification/Threads.thy ===== *)
theory Threads
  imports Omni_Prelude "HOL-Library.Multiset"
begin

text \<open>
  Code that several threads run on shared state. A method is a tree of atomic steps: an access to an
  atomic variable, a critical section that touches nothing outside its mutex, or the beginning and the
  end of a longer one; a step that finds its mutex taken is not possible and is tried again later. A
  schedule names the thread that moves next. The rules assign to each thread the tokens it owns (a
  reservation, a lock); the invariant of the shared state may depend on all tokens together, and a
  step is checked against every possible holding of the other threads.
\<close>

section \<open>Methods and schedules\<close>

datatype ('s, 'a) prog = Return 'a | Atomic "'s \<Rightarrow> ('s \<times> ('s, 'a) prog) option"

primrec pbind :: "('s, 'a) prog \<Rightarrow> ('a \<Rightarrow> ('s, 'b) prog) \<Rightarrow> ('s, 'b) prog" where
  "pbind (Return a) k = k a"
| "pbind (Atomic f) k = Atomic (\<lambda>s. map_option (map_prod id (\<lambda>p. pbind p k)) (f s))"

definition pdo :: "('s \<Rightarrow> 's \<times> 'a) \<Rightarrow> ('s, 'a) prog" where
  "pdo g = Atomic (\<lambda>s. case g s of (s', a) \<Rightarrow> Some (s', Return a))"

definition pload :: "('s \<Rightarrow> 'a) \<Rightarrow> ('s, 'a) prog" where
  "pload g = pdo (\<lambda>s. (s, g s))"

definition pstore :: "('s \<Rightarrow> 's) \<Rightarrow> ('s, unit) prog" where
  "pstore g = pdo (\<lambda>s. (g s, ()))"

text \<open>A step that has to wait for a mutex.\<close>

definition pawait :: "('s \<Rightarrow> bool) \<Rightarrow> ('s \<Rightarrow> 's \<times> 'a) \<Rightarrow> ('s, 'a) prog" where
  "pawait free g = Atomic (\<lambda>s. if free s then case g s of (s', a) \<Rightarrow> Some (s', Return a) else None)"

text \<open>The operator \<open>?\<close>.\<close>

definition ptry :: "('s, 'e + 'a) prog \<Rightarrow> ('a \<Rightarrow> ('s, 'e + 'b) prog) \<Rightarrow> ('s, 'e + 'b) prog" where
  "ptry p k = pbind p (\<lambda>r. case r of Inl e \<Rightarrow> Return (Inl e) | Inr a \<Rightarrow> k a)"

fun thread_step :: "'s \<Rightarrow> ('s, 'a) prog \<Rightarrow> 's \<times> ('s, 'a) prog" where
  "thread_step s (Return a) = (s, Return a)"
| "thread_step s (Atomic f) = (case f s of None \<Rightarrow> (s, Atomic f) | Some (s', p) \<Rightarrow> (s', p))"

definition sched_step :: "'s \<times> ('s, 'a) prog list \<Rightarrow> nat \<Rightarrow> 's \<times> ('s, 'a) prog list" where
  "sched_step c i =
     (if i < length (snd c)
      then case thread_step (fst c) (snd c ! i) of (s', p) \<Rightarrow> (s', (snd c)[i := p])
      else c)"

text \<open>A thread that calls one method after the other, and what it got back.\<close>

primrec calls :: "('m \<Rightarrow> ('s, 'a) prog) \<Rightarrow> 'm list \<Rightarrow> ('s, 'a list) prog" where
  "calls meth [] = Return []"
| "calls meth (m # ms) = pbind (meth m) (\<lambda>a. pbind (calls meth ms) (\<lambda>as. Return (a # as)))"

text \<open>A method that runs without interference.\<close>

primrec alone :: "('s, 'a) prog \<Rightarrow> 's \<Rightarrow> ('s \<times> 'a) option" where
  "alone (Return a) = (\<lambda>s. Some (s, a))"
| "alone (Atomic f) = (\<lambda>s. case map_option (map_prod id alone) (f s) of None \<Rightarrow> None | Some (s', g) \<Rightarrow> g s')"

lemma alone_pbind: "alone (pbind p k) s = (case alone p s of None \<Rightarrow> None | Some (s', a) \<Rightarrow> alone (k a) s')"
proof (induction p arbitrary: s)
  case (Atomic f)
  show ?case
  proof (cases "f s")
    case (Some r)
    then show ?thesis using Atomic [of "f s" r "snd r"] rangeI [of f s] by (cases r) auto
  qed simp
qed simp

lemma alone_simps [simp]:
  "alone (pdo g) s = Some (g s)" "alone (pload h) s = Some (s, h s)" "alone (pstore u) s = Some (u s, ())"
  "alone (pawait free g) s = (if free s then Some (g s) else None)"
  by (auto simp: pdo_def pload_def pstore_def pawait_def split: prod.split)

section \<open>Tokens\<close>

inductive owns ::
  "('t multiset \<Rightarrow> 's \<Rightarrow> bool) \<Rightarrow> ('a \<Rightarrow> 't multiset \<Rightarrow> bool) \<Rightarrow> 't multiset \<Rightarrow> ('s, 'a) prog \<Rightarrow> bool"
  for ok and Q where
  owns_Return: "Q a r \<Longrightarrow> owns ok Q r (Return a)"
| owns_Atomic: "(\<And>s R s' p. ok (r + R) s \<Longrightarrow> f s = Some (s', p) \<Longrightarrow> \<exists>r'. ok (r' + R) s' \<and> owns ok Q r' p)
     \<Longrightarrow> owns ok Q r (Atomic f)"

inductive_cases owns_AtomicE: "owns ok Q r (Atomic f)"
inductive_cases owns_ReturnE: "owns ok Q r (Return a)"

named_theorems owns_rules \<open>steps whose tokens are accounted for\<close>

lemma owns_bind:
  assumes "owns ok Q r p" and "\<And>a r'. Q a r' \<Longrightarrow> owns ok Q' r' (k a)"
  shows "owns ok Q' r (pbind p k)"
  using assms(1)
proof induction
  case (owns_Atomic r f)
  show ?case
  proof (unfold pbind.simps, rule owns.owns_Atomic)
    fix s R s' q
    assume "ok (r + R) s" and "map_option (map_prod id (\<lambda>p. pbind p k)) (f s) = Some (s', q)"
    then obtain p0 where "f s = Some (s', p0)" "q = pbind p0 k" by auto
    with owns_Atomic.IH [OF \<open>ok (r + R) s\<close>] show "\<exists>r'. ok (r' + R) s' \<and> owns ok Q' r' q" by blast
  qed
qed (simp add: assms(2))

lemma owns_conseq:
  assumes "owns ok Q r p" and "\<And>a r'. Q a r' \<Longrightarrow> Q' a r'"
  shows "owns ok Q' r p"
  using assms(1)
proof induction
  case (owns_Atomic r f)
  then show ?case by (intro owns.owns_Atomic) blast
qed (auto intro: owns_Return assms(2))

text \<open>Tokens that a method does not use stay with its thread.\<close>

lemma owns_frame:
  assumes "owns ok Q r p"
  shows "owns ok (\<lambda>a r'. \<exists>r0. r' = r0 + F \<and> Q a r0) (r + F) p"
  using assms
proof induction
  case (owns_Atomic r f)
  show ?case
  proof (rule owns.owns_Atomic)
    fix s R s' p
    assume "ok (r + F + R) s" "f s = Some (s', p)"
    with owns_Atomic.IH [of "F + R" s s' p]
    obtain r0 where "ok (r0 + F + R) s'" "owns ok (\<lambda>a r'. \<exists>r0. r' = r0 + F \<and> Q a r0) (r0 + F) p"
      by (auto simp: add.assoc)
    then show "\<exists>r'. ok (r' + R) s' \<and> owns ok (\<lambda>a r'. \<exists>r0. r' = r0 + F \<and> Q a r0) r' p" by blast
  qed
qed (auto intro: owns_Return)

lemma owns_any_frame: "owns ok (\<lambda>_ _. True) {#} p \<Longrightarrow> owns ok (\<lambda>_ _. True) r p"
  using owns_frame [of ok "\<lambda>_ _. True" "{#}" p r] by (auto intro: owns_conseq)

text \<open>Methods that leave no trace among the tokens.\<close>

abbreviation keeps_tokens :: "('t multiset \<Rightarrow> 's \<Rightarrow> bool) \<Rightarrow> ('s, 'a) prog \<Rightarrow> bool" where
  "keeps_tokens ok p \<equiv> owns ok (\<lambda>_ r. r = {#}) {#} p"

lemma keeps_tokens_frame: "keeps_tokens ok p \<Longrightarrow> owns ok (\<lambda>_ r'. r' = r) r p"
  using owns_frame [of ok "\<lambda>_ r. r = {#}" "{#}" p r] by (auto intro: owns_conseq)

lemma owns_pdo:
  fixes g :: "'s \<Rightarrow> 's \<times> 'a"
  assumes "\<And>s R s' a. ok (r + R) s \<Longrightarrow> g s = (s', a) \<Longrightarrow> \<exists>r'. ok (r' + R) s' \<and> Q a r'"
  shows "owns ok Q r (pdo g)"
  unfolding pdo_def
proof (rule owns_Atomic)
  fix s R s' and p :: "('s, 'a) prog"
  assume "ok (r + R) s" "(case g s of (s', a) \<Rightarrow> Some (s', Return a)) = Some (s', p)"
  with assms [of R s] show "\<exists>r'. ok (r' + R) s' \<and> owns ok Q r' p"
    by (cases "g s") (auto intro: owns_Return)
qed

lemma owns_pawait:
  fixes g :: "'s \<Rightarrow> 's \<times> 'a"
  assumes "\<And>s R s' a. ok (r + R) s \<Longrightarrow> free s \<Longrightarrow> g s = (s', a) \<Longrightarrow> \<exists>r'. ok (r' + R) s' \<and> Q a r'"
  shows "owns ok Q r (pawait free g)"
  unfolding pawait_def
proof (rule owns_Atomic)
  fix s R s' and p :: "('s, 'a) prog"
  assume "ok (r + R) s" "(if free s then case g s of (s', a) \<Rightarrow> Some (s', Return a) else None) = Some (s', p)"
  with assms [of R s] show "\<exists>r'. ok (r' + R) s' \<and> owns ok Q r' p"
    by (cases "g s") (auto intro: owns_Return split: if_splits)
qed

lemma owns_pload: "(\<And>a. Q a r) \<Longrightarrow> owns ok Q r (pload g)"
  unfolding pload_def by (rule owns_pdo) auto

lemma owns_pstore: "(\<And>s R. ok (r + R) s \<Longrightarrow> ok (r' + R) (g s)) \<Longrightarrow> Q () r' \<Longrightarrow> owns ok Q r (pstore g)"
  unfolding pstore_def by (rule owns_pdo) auto

lemma owns_try:
  assumes "owns ok Q r p" and "\<And>e r'. Q (Inl e) r' \<Longrightarrow> Q' (Inl e) r'"
    and "\<And>a r'. Q (Inr a) r' \<Longrightarrow> owns ok Q' r' (k a)"
  shows "owns ok Q' r (ptry p k)"
  unfolding ptry_def using assms(1)
  by (rule owns_bind) (auto intro: owns_Return assms(2,3) split: sum.split)

lemma keeps_Return [owns_rules]: "keeps_tokens ok (Return a)"
  by (simp add: owns_Return)

lemma keeps_bind [owns_rules]: "keeps_tokens ok p \<Longrightarrow> (\<And>a. keeps_tokens ok (k a)) \<Longrightarrow> keeps_tokens ok (pbind p k)"
  by (erule owns_bind) auto

lemma keeps_try [owns_rules]: "keeps_tokens ok p \<Longrightarrow> (\<And>a. keeps_tokens ok (k a)) \<Longrightarrow> keeps_tokens ok (ptry p k)"
  by (erule owns_try) auto

lemma keeps_pload [owns_rules]: "keeps_tokens ok (pload g)"
  by (rule owns_pload) simp

lemma keeps_pstore: "(\<And>s R. ok R s \<Longrightarrow> ok R (g s)) \<Longrightarrow> keeps_tokens ok (pstore g)"
  by (rule owns_pstore [where r' = "{#}"]) auto

lemma keeps_pdo: "(\<And>s R s' a. ok R s \<Longrightarrow> g s = (s', a) \<Longrightarrow> ok R s') \<Longrightarrow> keeps_tokens ok (pdo g)"
  by (rule owns_pdo) auto

lemma owns_thread_step:
  assumes "owns ok Q r p" "ok (r + R) s" "thread_step s p = (s', p')"
  shows "\<exists>r'. owns ok Q r' p' \<and> ok (r' + R) s'"
proof (cases p)
  case (Atomic f)
  show ?thesis
  proof (cases "f s")
    case None
    with Atomic assms show ?thesis by auto
  next
    case (Some x)
    with Atomic assms have "f s = Some (s', p')" by (cases x) simp
    with Atomic assms(1,2) show ?thesis by (blast elim: owns_AtomicE)
  qed
qed (use assms in auto)

text \<open>A method that runs alone is one of the schedules.\<close>

lemma owns_alone:
  assumes "owns ok Q r p" "ok (r + R) s" "alone p s = Some (s', a)"
  shows "\<exists>r'. ok (r' + R) s' \<and> Q a r'"
  using assms
proof (induction arbitrary: s)
  case (owns_Atomic r f)
  from owns_Atomic.prems(2) obtain t q where "f s = Some (t, q)" "alone q t = Some (s', a)"
    by (auto split: option.splits)
  with owns_Atomic.IH [OF owns_Atomic.prems(1)] show ?case by blast
qed auto

lemma sum_list_empty [simp]: "sum_list (replicate n {#}) = {#}"
  by (induction n) simp_all

lemma sum_list_update_mset: "i < length rs \<Longrightarrow> sum_list (rs[i := r]) + rs ! i = sum_list rs + (r :: 't multiset)"
  by (induction rs arbitrary: i) (auto simp: ac_simps split: nat.split)

definition accounted ::
  "('t multiset \<Rightarrow> 's \<Rightarrow> bool) \<Rightarrow> ('a \<Rightarrow> 't multiset \<Rightarrow> bool) \<Rightarrow> 's \<times> ('s, 'a) prog list \<Rightarrow> bool" where
  "accounted ok Q c \<longleftrightarrow> (\<exists>rs. length rs = length (snd c) \<and> ok (sum_list rs) (fst c) \<and>
     (\<forall>i < length rs. owns ok Q (rs ! i) (snd c ! i)))"

lemma accounted_sched_step:
  assumes "accounted ok Q c"
  shows "accounted ok Q (sched_step c i)"
proof (cases "i < length (snd c)")
  case True
  obtain s ps where c: "c = (s, ps)" by fastforce
  obtain rs where rs: "length rs = length ps" "ok (sum_list rs) s" "\<And>j. j < length rs \<Longrightarrow> owns ok Q (rs ! j) (ps ! j)"
    using assms c by (auto simp: accounted_def)
  obtain s' p' where step: "thread_step s (ps ! i) = (s', p')" by fastforce
  have i: "i < length rs" using True c rs(1) by simp
  define R where "R = sum_list (rs[i := {#}])"
  have "sum_list rs = rs ! i + R"
    using sum_list_update_mset [OF i, of "{#}"] by (simp add: R_def add.commute)
  then obtain r' where r': "owns ok Q r' p'" "ok (r' + R) s'"
    using owns_thread_step [OF rs(3) [OF i] _ step, of R] rs(2) by auto
  have "sum_list (rs[i := r']) = r' + R"
    using sum_list_update_mset [of i "rs[i := {#}]" r'] i by (simp add: R_def add.commute)
  with r' rs i c step show ?thesis
    by (auto simp: accounted_def sched_step_def nth_list_update intro!: exI [of _ "rs[i := r']"])
next
  case False
  with assms show ?thesis by (simp add: sched_step_def)
qed

text \<open>
  A component whose methods several threads call: the invariant holds at the start without any
  token, and every method starts without a token and keeps the account.
\<close>

locale thread_system =
  fixes init :: 's
    and meth :: "'m \<Rightarrow> ('s, 'a) prog"
    and ok :: "'t multiset \<Rightarrow> 's \<Rightarrow> bool"
  assumes ok_start: "ok {#} init"
    and ok_meth: "owns ok (\<lambda>_ _. True) {#} (meth m)"
begin

lemma owns_calls: "owns ok (\<lambda>_ _. True) r (calls meth ms)"
proof (induction ms arbitrary: r)
  case (Cons m ms)
  show ?case
    by (simp, rule owns_bind [OF owns_any_frame [OF ok_meth]], rule owns_bind [OF Cons.IH]) (simp add: owns_Return)
qed (simp add: owns_Return)

lemma accounted_init: "accounted ok (\<lambda>_ _. True) (init, map (calls meth) mss)"
  unfolding accounted_def
  by (rule exI [of _ "replicate (length mss) {#}"]) (simp add: ok_start owns_calls)

lemma every_schedule: "\<exists>r. ok r (fst (runs sched_step (init, map (calls meth) mss) schedule))"
proof -
  have "accounted ok (\<lambda>_ _. True) (runs sched_step c schedule)" if "accounted ok (\<lambda>_ _. True) c" for c
    using that by (induction schedule arbitrary: c) (simp_all add: accounted_sched_step)
  from this [OF accounted_init] show ?thesis by (auto simp: accounted_def)
qed

end

end
