(* ===== verification/Provider_Budget.thy ===== *)
theory Provider_Budget
  imports Threads
begin

text \<open>
  The lease on audio that may be sent to a paid provider (\<open>audio/omni/provider_input_budget.rs\<close>). All
  methods take the budget by shared reference, so they are modelled as threads: each access to an
  atomic variable is a step of its own, the journal's mutex is held from the step that takes a
  sequence number to the one that writes the line, while other threads go on changing the counters
  that the line reports. What a call meets outside (clock, failing files, the results of the
  callbacks) is an argument. A panic cannot happen while a mutex is held, so no mutex is poisoned.
\<close>

section \<open>Data\<close>

definition wrapping_add_u64 :: "nat \<Rightarrow> nat \<Rightarrow> nat" where
  "wrapping_add_u64 a b = (a + b) mod 18446744073709551616"

record ModelProtocolProfileIdentityRuntime =
  mi_registry_version :: rstring
  mi_profile_id :: rstring
  mi_profile_version :: nat
  mi_operation :: rstring
  mi_transport :: rstring
  mi_region :: rstring
  mi_endpoint_family :: rstring
  mi_endpoint_path :: rstring
  mi_wire_dialect :: rstring
  mi_wire_dialect_version :: nat
  mi_input_framing :: rstring
  mi_output_framing :: rstring
  mi_terminal_lifecycle :: rstring
  mi_adapter_id :: rstring
  mi_exact_model_id :: rstring

record StrictMediaEndAuthority =
  me_authoritative_reference_frames :: nat
  me_input_sample_rate_hz :: nat
  me_media_sha256 :: rstring
  me_run_marker :: rstring
  me_cell_id :: rstring
  me_lease_id :: rstring
  me_provider_input_max_samples :: nat
  me_session_generation :: nat

text \<open>The fields that never change after construction.\<close>

record budget_config =
  bc_cell_id :: rstring
  bc_lease_id :: rstring
  bc_run_marker :: rstring
  bc_session_generation :: nat
  bc_strict_paid_authority :: bool
  bc_incident_replay_authority :: bool
  bc_local_single_session_authority :: bool
  bc_incident_id :: "rstring option"
  bc_provider_id :: rstring
  bc_template_id :: rstring
  bc_provider_kind :: rstring
  bc_endpoint_host :: rstring
  bc_credential_reference :: rstring
  bc_auth_header_name :: rstring
  bc_auth_scheme :: rstring
  bc_custom_header_count :: nat
  bc_model :: rstring
  bc_protocol :: rstring
  bc_model_protocol_profile_identity :: ModelProtocolProfileIdentityRuntime
  bc_strict_media_end_authority :: "StrictMediaEndAuthority option"
  bc_max_samples :: nat

text \<open>What a journal line and the final ledger report besides the configuration.\<close>

record budget_counters =
  ct_total_attempted_samples :: nat
  ct_append_attempts :: nat
  ct_send_failures :: nat
  ct_initial_connect_attempts :: nat
  ct_reconnects :: nat
  ct_budget_exceeded :: bool
  ct_terminal_reason :: "rstring option"

record budget_line =
  bl_event :: rstring
  bl_sequence :: nat
  bl_occurred_at_ms :: nat
  bl_attempted_samples :: "nat option"
  bl_counters :: budget_counters
  bl_finalized :: bool

record budget_snapshot =
  bs_counters :: budget_counters
  bs_finalized :: bool

text \<open>
  The shared state. The last three fields are what the caller's callbacks did: evidence written before
  a send, and samples handed to the socket. A ledger that could not be rewritten is absent.
\<close>

record budget_state =
  pb_final_ledger :: "budget_snapshot option"
  pb_journal_locked :: bool
  pb_lines :: "budget_line list"
  pb_next_sequence :: nat
  pb_last_occurred_at_ms :: nat
  pb_total_attempted_samples :: nat
  pb_append_attempts :: nat
  pb_send_failures :: nat
  pb_initial_connect_attempts :: nat
  pb_reconnect_count :: nat
  pb_budget_exceeded :: bool
  pb_finalized :: bool
  pb_terminal_reason :: "rstring option"
  pb_evidence :: "nat list"
  pb_sent :: "nat list"

definition fresh_budget :: budget_state where
  "fresh_budget = \<lparr>pb_final_ledger = None, pb_journal_locked = False, pb_lines = [], pb_next_sequence = 1,
     pb_last_occurred_at_ms = 0, pb_total_attempted_samples = 0, pb_append_attempts = 0, pb_send_failures = 0,
     pb_initial_connect_attempts = 0, pb_reconnect_count = 0, pb_budget_exceeded = False, pb_finalized = False,
     pb_terminal_reason = None, pb_evidence = [], pb_sent = []\<rparr>"

datatype journal_fault = JournalSerializeFault rstring | JournalWriteFault rstring
datatype ledger_fault = LedgerResetFault rstring | LedgerSerializeFault rstring | LedgerWriteFault rstring

text \<open>One call may write two events (a reservation and a send failure), each with its own faults.\<close>

record event_io =
  ei_now :: nat
  ei_journal :: "journal_fault option"
  ei_ledger :: "ledger_fault option"

type_synonym 'a budget_prog = "(budget_state, rstring + 'a) prog"

section \<open>Journal and ledger\<close>

definition is_single_session :: "budget_config \<Rightarrow> bool" where
  "is_single_session b \<longleftrightarrow>
     bc_strict_paid_authority b \<or> bc_incident_replay_authority b \<or> bc_local_single_session_authority b"

definition set_terminal_reason :: "rstring \<Rightarrow> (budget_state, unit) prog" where
  "set_terminal_reason reason = pstore (\<lambda>s. if pb_terminal_reason s = None
     then s\<lparr>pb_terminal_reason := Some reason\<rparr> else s)"

text \<open>The reads of one record, in the order the record is built.\<close>

definition load_counters :: "(budget_state, budget_counters) prog" where
  "load_counters =
     pbind (pload pb_terminal_reason) (\<lambda>terminal_reason.
     pbind (pload pb_total_attempted_samples) (\<lambda>attempted.
     pbind (pload pb_append_attempts) (\<lambda>appends.
     pbind (pload pb_send_failures) (\<lambda>failures.
     pbind (pload pb_initial_connect_attempts) (\<lambda>connects.
     pbind (pload pb_reconnect_count) (\<lambda>reconnects.
     pbind (pload pb_budget_exceeded) (\<lambda>exceeded.
       Return \<lparr>ct_total_attempted_samples = attempted, ct_append_attempts = appends, ct_send_failures = failures,
         ct_initial_connect_attempts = connects, ct_reconnects = reconnects, ct_budget_exceeded = exceeded,
         ct_terminal_reason = terminal_reason\<rparr>)))))))"

definition write_ledger :: "ledger_fault option \<Rightarrow> budget_snapshot \<Rightarrow> budget_state \<Rightarrow> budget_state \<times> (rstring + unit)" where
  "write_ledger fault snapshot s =
     (case fault of
        Some (LedgerResetFault e) \<Rightarrow> (s, Inl (str ''strict provider input budget ledger reset failed: '' @ e))
      | Some (LedgerSerializeFault e) \<Rightarrow>
          (s\<lparr>pb_final_ledger := None\<rparr>, Inl (str ''strict provider input budget ledger serialize failed: '' @ e))
      | Some (LedgerWriteFault e) \<Rightarrow>
          (s\<lparr>pb_final_ledger := None\<rparr>, Inl (str ''strict provider input budget ledger write failed: '' @ e))
      | None \<Rightarrow> (s\<lparr>pb_final_ledger := Some snapshot\<rparr>, Inr ()))"

definition write_final_snapshot :: "ledger_fault option \<Rightarrow> bool \<Rightarrow> unit budget_prog" where
  "write_final_snapshot fault finalized =
     pbind load_counters (\<lambda>counters.
       pdo (write_ledger fault \<lparr>bs_counters = counters, bs_finalized = finalized\<rparr>))"

definition lock_journal :: "nat \<Rightarrow> (budget_state, nat \<times> nat) prog" where
  "lock_journal now = pawait (\<lambda>s. \<not> pb_journal_locked s) (\<lambda>s.
     (s\<lparr>pb_journal_locked := True, pb_next_sequence := sat_add_u64 (pb_next_sequence s) 1\<rparr>,
      (pb_next_sequence s, max now (pb_last_occurred_at_ms s))))"

definition append_line :: "journal_fault option \<Rightarrow> budget_line \<Rightarrow> budget_state \<Rightarrow> budget_state \<times> (rstring + unit)" where
  "append_line fault line s =
     (case fault of
        Some (JournalSerializeFault e) \<Rightarrow>
          (s\<lparr>pb_journal_locked := False\<rparr>, Inl (str ''strict provider input budget journal serialize failed: '' @ e))
      | Some (JournalWriteFault e) \<Rightarrow>
          (s\<lparr>pb_journal_locked := False\<rparr>, Inl (str ''strict provider input budget journal write failed: '' @ e))
      | None \<Rightarrow>
          (s\<lparr>pb_journal_locked := False, pb_lines := pb_lines s @ [line],
             pb_last_occurred_at_ms := bl_occurred_at_ms line\<rparr>, Inr ()))"

definition write_event :: "event_io \<Rightarrow> rstring \<Rightarrow> nat option \<Rightarrow> bool \<Rightarrow> unit budget_prog" where
  "write_event io event attempted_samples finalized =
     pbind (lock_journal (ei_now io)) (\<lambda>(sequence, occurred_at_ms).
     pbind load_counters (\<lambda>counters.
     ptry (pdo (append_line (ei_journal io)
        \<lparr>bl_event = event, bl_sequence = sequence, bl_occurred_at_ms = occurred_at_ms,
         bl_attempted_samples = attempted_samples, bl_counters = counters, bl_finalized = finalized\<rparr>)) (\<lambda>_.
       write_final_snapshot (ei_ledger io) finalized)))"

text \<open>The state in which a budget leaves its constructor: the first line is written.\<close>

definition opened_budget :: "event_io \<Rightarrow> budget_state" where
  "opened_budget io =
     (case alone (write_event io (str ''initialized'') None False) fresh_budget of
        Some (s, _) \<Rightarrow> s | None \<Rightarrow> fresh_budget)"

section \<open>Operations\<close>

definition record_initial_connect_attempt :: "budget_config \<Rightarrow> event_io \<Rightarrow> unit budget_prog" where
  "record_initial_connect_attempt b io =
     pbind (pload pb_initial_connect_attempts) (\<lambda>current.
       if is_single_session b \<and> current \<ge> 1
       then pbind (set_terminal_reason (str ''initial-connect-retry-forbidden'')) (\<lambda>_.
            ptry (write_final_snapshot (ei_ledger io) False) (\<lambda>_.
              Return (Inl (str ''strict paid provider authority forbids a second initial WebSocket attempt''))))
       else pbind (pstore (\<lambda>s. s\<lparr>pb_initial_connect_attempts := wrapping_add_u64 (pb_initial_connect_attempts s) 1\<rparr>))
         (\<lambda>_. write_event io (str ''initial_connect_attempt'') None False))"

text \<open>\<open>fetch_update\<close>: the compare-and-swap loop succeeds or fails on one current value.\<close>

definition try_reserve :: "budget_config \<Rightarrow> nat \<Rightarrow> budget_state \<Rightarrow> budget_state \<times> bool" where
  "try_reserve b sample_count s =
     (case checked_add_u64 (pb_total_attempted_samples s) sample_count of
        None \<Rightarrow> (s, False)
      | Some n \<Rightarrow> if n \<le> bc_max_samples b then (s\<lparr>pb_total_attempted_samples := n\<rparr>, True) else (s, False))"

definition reserve :: "budget_config \<Rightarrow> event_io \<Rightarrow> nat \<Rightarrow> unit budget_prog" where
  "reserve b io sample_count =
     (if sample_count = 0
      then Return (Inl (str ''provider input budget cannot reserve an empty append''))
      else pbind (pdo (try_reserve b sample_count)) (\<lambda>reserved.
        if \<not> reserved
        then pbind (pstore (\<lambda>s. s\<lparr>pb_budget_exceeded := True\<rparr>)) (\<lambda>_.
             pbind (set_terminal_reason (str ''budget-exceeded'')) (\<lambda>_.
             ptry (write_event io (str ''reserve_rejected'') (Some sample_count) False) (\<lambda>_.
             pbind (pload pb_total_attempted_samples) (\<lambda>attempted.
               Return (Inl (str ''strict provider input budget exceeded before send: attemptedSamples='' @
                 show_nat sample_count @ str '' totalAttemptedSamples='' @ show_nat attempted @
                 str '' maxSamples='' @ show_nat (bc_max_samples b)))))))
        else pbind (pstore (\<lambda>s. s\<lparr>pb_append_attempts := wrapping_add_u64 (pb_append_attempts s) 1\<rparr>)) (\<lambda>_.
             write_event io (str ''reserved'') (Some sample_count) False)))"

definition record_send_failure :: "event_io \<Rightarrow> nat \<Rightarrow> unit budget_prog" where
  "record_send_failure io sample_count =
     pbind (pstore (\<lambda>s. s\<lparr>pb_send_failures := wrapping_add_u64 (pb_send_failures s) 1\<rparr>)) (\<lambda>_.
       write_event io (str ''send_failed'') (Some sample_count) False)"

text \<open>
  The two callbacks of a send: the first may fail and then nothing is sent, the second hands the samples to
  the socket, whatever its result.
\<close>

record send_io =
  se_reserve :: event_io
  se_before_send :: "rstring option"
  se_send :: "rstring + unit"
  se_failure :: event_io

definition before_send :: "rstring option \<Rightarrow> nat \<Rightarrow> unit budget_prog" where
  "before_send fault sample_count = pdo (\<lambda>s. case fault of
     Some e \<Rightarrow> (s, Inl e) | None \<Rightarrow> (s\<lparr>pb_evidence := pb_evidence s @ [sample_count]\<rparr>, Inr ()))"

definition send :: "nat \<Rightarrow> (budget_state, unit) prog" where
  "send sample_count = pstore (\<lambda>s. s\<lparr>pb_sent := pb_sent s @ [sample_count]\<rparr>)"

definition attempt_send :: "budget_config option \<Rightarrow> send_io \<Rightarrow> nat \<Rightarrow> (rstring + unit) budget_prog" where
  "attempt_send enabled io sample_count =
     ptry (case enabled of None \<Rightarrow> Return (Inr ()) | Some b \<Rightarrow> reserve b (se_reserve io) sample_count) (\<lambda>_.
     ptry (before_send (se_before_send io) sample_count) (\<lambda>_.
     pbind (send sample_count) (\<lambda>_.
     case se_send io of
       Inr u \<Rightarrow> Return (Inr (Inr u))
     | Inl e \<Rightarrow>
         (case enabled of
            None \<Rightarrow> Return (Inr (Inl e))
          | Some b \<Rightarrow> ptry (record_send_failure (se_failure io) sample_count) (\<lambda>_. Return (Inr (Inl e)))))))"

definition can_append :: "budget_config option \<Rightarrow> nat \<Rightarrow> (budget_state, bool) prog" where
  "can_append enabled sample_count =
     (case enabled of
        None \<Rightarrow> Return True
      | Some b \<Rightarrow> pbind (pload pb_total_attempted_samples) (\<lambda>attempted.
          Return (is_some_and (checked_add_u64 attempted sample_count) (\<lambda>n. n \<le> bc_max_samples b))))"

definition record_reconnect :: "event_io \<Rightarrow> unit budget_prog" where
  "record_reconnect io =
     pbind (pstore (\<lambda>s. s\<lparr>pb_reconnect_count := wrapping_add_u64 (pb_reconnect_count s) 1\<rparr>)) (\<lambda>_.
       write_event io (str ''reconnect'') None False)"

definition reconnect_triggers :: "rstring set" where
  "reconnect_triggers = {str ''send-failure'', str ''socket-close'', str ''read-error'', str ''voice-fallback''}"

definition authorize_reconnect_before_connect :: "budget_config \<Rightarrow> event_io \<Rightarrow> rstring \<Rightarrow> unit budget_prog" where
  "authorize_reconnect_before_connect b io raw =
     (if \<not> is_single_session b then Return (Inr ())
      else let trigger = trim raw
        in if trigger \<notin> reconnect_triggers
           then Return (Inl (str ''strict paid provider authority received an unknown reconnect trigger: '' @ trigger))
           else pbind (set_terminal_reason (str ''reconnect-forbidden-'' @ trigger)) (\<lambda>_.
             pbind (write_event io (str ''reconnect_rejected'') None False) (\<lambda>r.
               Return (Inl (case r of
                 Inl e \<Rightarrow> str ''strict paid provider authority forbids reconnect after '' @ trigger @
                   str ''; failed to persist reconnect rejection: '' @ e
               | Inr _ \<Rightarrow> str ''strict paid provider authority forbids reconnect after '' @ trigger @
                   str '' before connector network access'')))))"

definition budget_finalize :: "event_io \<Rightarrow> rstring \<Rightarrow> unit budget_prog" where
  "budget_finalize io reason =
     pbind (pdo (\<lambda>s. (s\<lparr>pb_finalized := True\<rparr>, pb_finalized s))) (\<lambda>already.
       if already then Return (Inr ())
       else pbind (set_terminal_reason reason) (\<lambda>_. write_event io (str ''finalized'') None True))"

definition finalize_failure :: "budget_config option \<Rightarrow> event_io \<Rightarrow> rstring \<Rightarrow> rstring \<Rightarrow> (budget_state, rstring) prog" where
  "finalize_failure enabled io reason error =
     (case enabled of
        None \<Rightarrow> Return error
      | Some b \<Rightarrow> pbind (budget_finalize io reason) (\<lambda>r.
          Return (case r of Inr _ \<Rightarrow> error
            | Inl e \<Rightarrow> error @ str '' | provider input budget ledger finalization failed: '' @ e)))"

definition drop_budget :: "event_io \<Rightarrow> unit budget_prog" where
  "drop_budget io = pbind (budget_finalize io (str ''worker-drop'')) (\<lambda>_. Return (Inr ()))"

definition strict_media_end_authority :: "budget_config option \<Rightarrow> nat \<Rightarrow> StrictMediaEndAuthority option" where
  "strict_media_end_authority enabled session_generation =
     (case enabled of
        None \<Rightarrow> None
      | Some b \<Rightarrow> (case bc_strict_media_end_authority b of
            None \<Rightarrow> None
          | Some a \<Rightarrow> if me_session_generation a = session_generation then Some a else None))"

definition strict_paid_authority_enabled :: "budget_config option \<Rightarrow> bool" where
  "strict_paid_authority_enabled enabled = is_some_and enabled is_single_session"

text \<open>The calls that other parts of the program make on an enabled budget.\<close>

datatype budget_call =
    Connect event_io
  | SendSamples send_io nat
  | CanAppend nat
  | Reconnected event_io
  | AuthorizeReconnect event_io rstring
  | FinalizeBudget event_io rstring
  | DropBudget event_io

datatype budget_answer = Answer "rstring + unit" | SendAnswer "rstring + (rstring + unit)" | Fits bool

fun budget_method :: "budget_config \<Rightarrow> budget_call \<Rightarrow> (budget_state, budget_answer) prog" where
  "budget_method b (Connect io) = pbind (record_initial_connect_attempt b io) (\<lambda>r. Return (Answer r))"
| "budget_method b (SendSamples io n) = pbind (attempt_send (Some b) io n) (\<lambda>r. Return (SendAnswer r))"
| "budget_method b (CanAppend n) = pbind (can_append (Some b) n) (\<lambda>r. Return (Fits r))"
| "budget_method b (Reconnected io) = pbind (record_reconnect io) (\<lambda>r. Return (Answer r))"
| "budget_method b (AuthorizeReconnect io trigger) =
     pbind (authorize_reconnect_before_connect b io trigger) (\<lambda>r. Return (Answer r))"
| "budget_method b (FinalizeBudget io reason) = pbind (budget_finalize io reason) (\<lambda>r. Return (Answer r))"
| "budget_method b (DropBudget io) = pbind (drop_budget io) (\<lambda>r. Return (Answer r))"

section \<open>The invariant of the shared budget\<close>

text \<open>
  Tokens: one \<open>Permit\<close> per sample that was reserved and not yet sent, \<open>Finalizing\<close> for the call that won the
  right to finalise, and \<open>Writing\<close> for the holder of the journal with its sequence number, its time and, once
  read, the terminal reason and the total it is about to report.
\<close>

datatype budget_token = Permit | Finalizing | Writing nat nat "rstring option option" "nat option"

fun is_writing :: "budget_token \<Rightarrow> bool" where
  "is_writing (Writing _ _ _ _) = True"
| "is_writing _ = False"

text \<open>Sequence numbers grow until the counter saturates.\<close>

definition seq_before :: "nat \<Rightarrow> nat \<Rightarrow> bool" where
  "seq_before a b \<longleftrightarrow> a < b \<or> b = u64_max"

definition line_before :: "budget_line \<Rightarrow> budget_line \<Rightarrow> bool" where
  "line_before a b \<longleftrightarrow> seq_before (bl_sequence a) (bl_sequence b) \<and> bl_occurred_at_ms a \<le> bl_occurred_at_ms b \<and>
     ct_total_attempted_samples (bl_counters a) \<le> ct_total_attempted_samples (bl_counters b)"

text \<open>A reason that was read is still the one in force.\<close>

definition reason_holds :: "rstring option \<Rightarrow> budget_state \<Rightarrow> bool" where
  "reason_holds x s \<longleftrightarrow> x = None \<or> pb_terminal_reason s = x"

definition lines_ok :: "budget_state \<Rightarrow> bool" where
  "lines_ok s \<longleftrightarrow> sorted_wrt line_before (pb_lines s) \<and> pb_next_sequence s \<le> u64_max \<and>
     (\<forall>l \<in> set (pb_lines s). seq_before (bl_sequence l) (pb_next_sequence s) \<and>
        bl_occurred_at_ms l \<le> pb_last_occurred_at_ms s \<and>
        ct_total_attempted_samples (bl_counters l) \<le> pb_total_attempted_samples s \<and>
        reason_holds (ct_terminal_reason (bl_counters l)) s)"

definition writer_ok :: "nat \<Rightarrow> nat \<Rightarrow> rstring option option \<Rightarrow> nat option \<Rightarrow> budget_state \<Rightarrow> bool" where
  "writer_ok q t reason attempted s \<longleftrightarrow>
     seq_before q (pb_next_sequence s) \<and> pb_last_occurred_at_ms s \<le> t \<and>
     (\<forall>l \<in> set (pb_lines s). seq_before (bl_sequence l) q) \<and>
     (\<forall>x. reason = Some x \<longrightarrow> reason_holds x s) \<and>
     (\<forall>n. attempted = Some n \<longrightarrow> n \<le> pb_total_attempted_samples s \<and>
        (\<forall>l \<in> set (pb_lines s). ct_total_attempted_samples (bl_counters l) \<le> n))"

definition budget_ok :: "nat \<Rightarrow> budget_token multiset \<Rightarrow> budget_state \<Rightarrow> bool" where
  "budget_ok max_samples T s \<longleftrightarrow>
     pb_total_attempted_samples s \<le> max_samples \<and>
     count T Permit + sum_list (pb_sent s) \<le> pb_total_attempted_samples s \<and>
     count T Finalizing + length (filter bl_finalized (pb_lines s)) \<le> (if pb_finalized s then 1 else 0) \<and>
     size (filter_mset is_writing T) = (if pb_journal_locked s then 1 else 0) \<and>
     (\<forall>q t reason attempted. Writing q t reason attempted \<in># T \<longrightarrow> writer_ok q t reason attempted s) \<and>
     lines_ok s"

lemmas budget_ok_defs = budget_ok_def lines_ok_def writer_ok_def

lemma seq_before_trans: "seq_before a b \<Longrightarrow> seq_before b c \<Longrightarrow> c \<le> u64_max \<Longrightarrow> seq_before a c"
  by (auto simp: seq_before_def)

text \<open>Steps that change nothing the invariant speaks about.\<close>

lemma budget_ok_frame [simp]:
  "budget_ok m T (s\<lparr>pb_append_attempts := n\<rparr>) = budget_ok m T s"
  "budget_ok m T (s\<lparr>pb_send_failures := n\<rparr>) = budget_ok m T s"
  "budget_ok m T (s\<lparr>pb_initial_connect_attempts := n\<rparr>) = budget_ok m T s"
  "budget_ok m T (s\<lparr>pb_reconnect_count := n\<rparr>) = budget_ok m T s"
  "budget_ok m T (s\<lparr>pb_budget_exceeded := b\<rparr>) = budget_ok m T s"
  "budget_ok m T (s\<lparr>pb_evidence := ns\<rparr>) = budget_ok m T s"
  "budget_ok m T (s\<lparr>pb_final_ledger := l\<rparr>) = budget_ok m T s"
  by (simp_all add: budget_ok_defs reason_holds_def)

lemma reason_holds_first:
  "pb_terminal_reason s = None \<Longrightarrow> reason_holds y s \<Longrightarrow> reason_holds y (s\<lparr>pb_terminal_reason := Some x\<rparr>)"
  by (auto simp: reason_holds_def)

lemma budget_ok_reason:
  "budget_ok m T s \<Longrightarrow> pb_terminal_reason s = None \<Longrightarrow> budget_ok m T (s\<lparr>pb_terminal_reason := Some x\<rparr>)"
  by (auto simp: budget_ok_defs reason_holds_first)

lemma set_terminal_reason_keeps [owns_rules]: "keeps_tokens (budget_ok m) (set_terminal_reason reason)"
  unfolding set_terminal_reason_def by (rule keeps_pstore) (simp add: budget_ok_reason)

lemma load_counters_keeps [owns_rules]: "keeps_tokens (budget_ok m) load_counters"
  unfolding load_counters_def by (intro owns_rules)

lemma write_final_snapshot_keeps [owns_rules]: "keeps_tokens (budget_ok m) (write_final_snapshot fault finalized)"
  unfolding write_final_snapshot_def
  by (intro owns_rules keeps_pdo) (auto simp: write_ledger_def split: option.splits ledger_fault.splits)

text \<open>Holding the journal splits into what the holder knows and the invariant of the journal given back.\<close>

lemma no_writer: "filter_mset is_writing R = {#} \<Longrightarrow> Writing q t x n \<notin># R"
  by (drule arg_cong [where f = set_mset]) auto

lemma writer_ok_unlocked [simp]: "writer_ok q t x n (s\<lparr>pb_journal_locked := b\<rparr>) = writer_ok q t x n s"
  by (simp add: writer_ok_def reason_holds_def)

lemma lines_ok_unlocked [simp]: "lines_ok (s\<lparr>pb_journal_locked := b\<rparr>) = lines_ok s"
  by (simp add: lines_ok_def reason_holds_def)

lemma budget_ok_Writing [simp]:
  "budget_ok m (add_mset (Writing q t x n) R) s \<longleftrightarrow>
     pb_journal_locked s \<and> writer_ok q t x n s \<and> budget_ok m R (s\<lparr>pb_journal_locked := False\<rparr>)"
proof (cases "filter_mset is_writing R = {#}")
  case True
  then show ?thesis using no_writer [OF True] by (auto simp: budget_ok_def split: if_splits)
next
  case False
  then show ?thesis by (auto simp: budget_ok_def split: if_splits)
qed

lemma budget_ok_unlocked: "budget_ok m R s \<Longrightarrow> \<not> pb_journal_locked s \<Longrightarrow> Writing q t x n \<notin># R"
  by (rule no_writer) (simp add: budget_ok_def)

lemma budget_ok_lines: "budget_ok m R s \<Longrightarrow> lines_ok s"
  by (simp add: budget_ok_def)

text \<open>Taking the journal, and what the holder reads.\<close>

lemma seq_before_Suc: "q \<le> u64_max \<Longrightarrow> seq_before q (sat_add_u64 q 1)"
  by (auto simp: seq_before_def sat_add_u64_def)

lemma lock_ok:
  assumes ok: "budget_ok m R s" and free: "\<not> pb_journal_locked s"
  shows "budget_ok m (add_mset (Writing (pb_next_sequence s) (max now (pb_last_occurred_at_ms s)) None None) R)
    (s\<lparr>pb_journal_locked := True, pb_next_sequence := sat_add_u64 (pb_next_sequence s) 1\<rparr>)"
proof -
  let ?next = "sat_add_u64 (pb_next_sequence s) 1"
  have q: "pb_next_sequence s \<le> u64_max" and lines: "lines_ok s"
    using budget_ok_lines [OF ok] by (auto simp: lines_ok_def)
  have before: "seq_before (bl_sequence l) ?next" if "l \<in> set (pb_lines s)" for l
    using lines that seq_before_trans [OF _ seq_before_Suc [OF q]] by (auto simp: lines_ok_def)
  have "lines_ok (s\<lparr>pb_next_sequence := ?next\<rparr>)"
    using lines before by (auto simp: lines_ok_def reason_holds_def)
  with ok free have "budget_ok m R (s\<lparr>pb_next_sequence := ?next, pb_journal_locked := False\<rparr>)"
    using budget_ok_unlocked [OF ok free] by (simp add: budget_ok_def)
  with lines seq_before_Suc [OF q] show ?thesis by (simp add: writer_ok_def lines_ok_def)
qed

lemma load_reason_ok:
  "owns (budget_ok m) (\<lambda>x r. r = {#Writing q t (Some x) n#}) {#Writing q t None n#} (pload pb_terminal_reason)"
  unfolding pload_def by (rule owns_pdo) (auto simp: writer_ok_def reason_holds_def)

lemma load_total_ok:
  "owns (budget_ok m) (\<lambda>k r. r = {#Writing q t x (Some k)#}) {#Writing q t x None#} (pload pb_total_attempted_samples)"
  unfolding pload_def by (rule owns_pdo) (auto simp: writer_ok_def dest: budget_ok_lines simp: lines_ok_def)

lemma writer_load_counters:
  "owns (budget_ok m) (\<lambda>c r. r = {#Writing q t (Some (ct_terminal_reason c)) (Some (ct_total_attempted_samples c))#})
     {#Writing q t None None#} load_counters"
  unfolding load_counters_def
  by (rule owns_bind [OF load_reason_ok], simp, rule owns_bind [OF load_total_ok], simp)
    ((rule owns_bind [OF keeps_tokens_frame [OF keeps_pload]], simp)+, rule owns_Return, simp)

lemma append_ok:
  assumes ok: "budget_ok m R (s\<lparr>pb_journal_locked := False\<rparr>)" and writer: "writer_ok q t (Some x) (Some k) s"
    and line: "bl_sequence l = q" "bl_occurred_at_ms l = t" "ct_terminal_reason (bl_counters l) = x"
      "ct_total_attempted_samples (bl_counters l) = k"
    and fin: "R = (if bl_finalized l then add_mset Finalizing R' else R')"
  shows "budget_ok m R' (s\<lparr>pb_journal_locked := False, pb_lines := pb_lines s @ [l], pb_last_occurred_at_ms := t\<rparr>)"
proof -
  let ?s = "s\<lparr>pb_journal_locked := False, pb_lines := pb_lines s @ [l], pb_last_occurred_at_ms := t\<rparr>"
  have lines: "lines_ok s" using budget_ok_lines [OF ok] by simp
  have "line_before l' l" if "l' \<in> set (pb_lines s)" for l'
    using lines writer line that
    by (auto simp: line_before_def writer_ok_def lines_ok_def intro: order_trans)
  with lines writer line have "lines_ok ?s"
    by (auto simp: lines_ok_def writer_ok_def reason_holds_def sorted_wrt_append intro: order_trans)
  moreover have "Writing q t x n \<notin># R'" for q t x n
    using budget_ok_unlocked [OF ok, of q t x n] fin by (auto split: if_splits)
  ultimately show ?thesis using ok fin by (auto simp: budget_ok_def split: if_splits)
qed

definition finalizing :: "bool \<Rightarrow> budget_token multiset" where
  "finalizing b = (if b then {#Finalizing#} else {#})"

lemma budget_ok_drop_Finalizing: "budget_ok m (finalizing b + R) s \<Longrightarrow> budget_ok m R s"
  by (auto simp: finalizing_def budget_ok_def split: if_splits)

lemma append_line_ok:
  assumes "bl_sequence l = q" "bl_occurred_at_ms l = t"
  shows "owns (budget_ok m) (\<lambda>_ r. r = {#})
    (add_mset (Writing q t (Some (ct_terminal_reason (bl_counters l))) (Some (ct_total_attempted_samples (bl_counters l))))
      (finalizing (bl_finalized l))) (pdo (append_line fault l))"
proof (rule owns_pdo)
  fix s R s' a
  assume ok: "budget_ok m (add_mset (Writing q t (Some (ct_terminal_reason (bl_counters l)))
      (Some (ct_total_attempted_samples (bl_counters l)))) (finalizing (bl_finalized l)) + R) s"
    and step: "append_line fault l s = (s', a)"
  then have locked: "budget_ok m (finalizing (bl_finalized l) + R) (s\<lparr>pb_journal_locked := False\<rparr>)" by simp
  have "budget_ok m R s'"
  proof (cases fault)
    case None
    with step have "s' = s\<lparr>pb_journal_locked := False, pb_lines := pb_lines s @ [l], pb_last_occurred_at_ms := t\<rparr>"
      using assms by (simp add: append_line_def)
    with append_ok [OF locked, of q t "ct_terminal_reason (bl_counters l)" "ct_total_attempted_samples (bl_counters l)" l R] ok assms show ?thesis
      by (cases "bl_finalized l") (simp_all add: finalizing_def)
  next
    case (Some f)
    with step have "s' = s\<lparr>pb_journal_locked := False\<rparr>" by (auto simp: append_line_def split: journal_fault.splits)
    with budget_ok_drop_Finalizing [OF locked] show ?thesis by simp
  qed
  then show "\<exists>r'. budget_ok m (r' + R) s' \<and> r' = {#}" by simp
qed

lemma lock_journal_ok:
  "owns (budget_ok m) (\<lambda>(q, t) r. r = {#Writing q t None None#}) {#} (lock_journal now)"
  unfolding lock_journal_def
  by (rule owns_pawait) (auto simp del: budget_ok_Writing One_nat_def intro: lock_ok)

lemma write_event_ok:
  "owns (budget_ok m) (\<lambda>_ r. r = {#}) (finalizing finalized) (write_event io event attempted finalized)"
proof -
  have load: "owns (budget_ok m) (\<lambda>c r. r = add_mset (Writing q t (Some (ct_terminal_reason c))
      (Some (ct_total_attempted_samples c))) (finalizing finalized))
    (add_mset (Writing q t None None) (finalizing finalized)) load_counters" for q t
    using owns_frame [OF writer_load_counters [of m q t], of "finalizing finalized"] by (auto intro: owns_conseq)
  have lock: "owns (budget_ok m) (\<lambda>(q, t) r. r = add_mset (Writing q t None None) (finalizing finalized))
    (finalizing finalized) (lock_journal (ei_now io))"
    using owns_frame [OF lock_journal_ok [of m "ei_now io"], of "finalizing finalized"] by (auto intro: owns_conseq)
  have line: "owns (budget_ok m) (\<lambda>_ r. r = {#}) (add_mset (Writing q t (Some (ct_terminal_reason c))
      (Some (ct_total_attempted_samples c))) (finalizing finalized))
    (ptry (pdo (append_line (ei_journal io) \<lparr>bl_event = event, bl_sequence = q, bl_occurred_at_ms = t,
       bl_attempted_samples = attempted, bl_counters = c, bl_finalized = finalized\<rparr>)) (\<lambda>_.
     write_final_snapshot (ei_ledger io) finalized))" (is "owns _ _ _ (ptry (pdo (append_line _ ?l)) _)") for q t c
    using append_line_ok [of ?l q t m "ei_journal io"]
    by (auto intro!: owns_try [where Q = "\<lambda>_ r. r = {#}"] write_final_snapshot_keeps)
  show ?thesis
    unfolding write_event_def
    by (rule owns_bind [OF lock], clarsimp, rule owns_bind [OF load]) (simp add: line)
qed

lemma write_event_keeps [owns_rules]: "keeps_tokens (budget_ok m) (write_event io event attempted False)"
  using write_event_ok [of m False io event attempted] by (simp add: finalizing_def)

section \<open>The operations\<close>

lemma permits_not_writing [simp]: "filter_mset is_writing (replicate_mset n Permit) = {#}"
  by (induction n) simp_all

lemma try_reserve_ok:
  "owns (budget_ok (bc_max_samples b)) (\<lambda>c r. r = (if c then replicate_mset n Permit else {#})) {#} (pdo (try_reserve b n))"
proof (rule owns_pdo)
  fix s R s' c
  assume ok: "budget_ok (bc_max_samples b) ({#} + R) s" and step: "try_reserve b n s = (s', c)"
  show "\<exists>r'. budget_ok (bc_max_samples b) (r' + R) s' \<and> r' = (if c then replicate_mset n Permit else {#})"
  proof (cases c)
    case True
    then have "s' = s\<lparr>pb_total_attempted_samples := pb_total_attempted_samples s + n\<rparr>"
      "pb_total_attempted_samples s + n \<le> bc_max_samples b"
      using step by (auto simp: try_reserve_def split: option.splits if_splits)
    with True ok show ?thesis
      by (auto simp: budget_ok_defs reason_holds_def intro: trans_le_add1)
  next
    case False
    then have "s' = s" using step by (auto simp: try_reserve_def split: option.splits if_splits)
    with False ok show ?thesis by simp
  qed
qed

lemma reserve_ok:
  "owns (budget_ok (bc_max_samples b)) (\<lambda>r tok. r = Inr () \<longrightarrow> tok = replicate_mset n Permit) {#} (reserve b io n)"
proof -
  let ?ok = "budget_ok (bc_max_samples b)"
  have counted: "keeps_tokens ?ok (pbind (pstore (\<lambda>s. s\<lparr>pb_append_attempts := wrapping_add_u64 (pb_append_attempts s) 1\<rparr>))
     (\<lambda>_. write_event io (str ''reserved'') (Some n) False))"
    by (intro owns_rules keeps_pstore) simp
  have refused: "owns ?ok (\<lambda>r _. r \<noteq> Inr ()) {#}
    (pbind (pstore (\<lambda>s. s\<lparr>pb_budget_exceeded := True\<rparr>)) (\<lambda>_.
     pbind (set_terminal_reason (str ''budget-exceeded'')) (\<lambda>_.
     ptry (write_event io (str ''reserve_rejected'') (Some n) False) (\<lambda>_.
     pbind (pload pb_total_attempted_samples) (\<lambda>attempted. Return (Inl (message attempted)))))))" for message
    by (rule owns_bind [OF keeps_pstore], simp, simp, rule owns_bind [OF set_terminal_reason_keeps], simp,
        rule owns_try [OF write_event_keeps], simp, simp, rule owns_bind [OF keeps_pload], simp add: owns_Return)
  show ?thesis
    unfolding reserve_def
    by (auto simp del: str_def One_nat_def intro!: owns_Return owns_bind [OF try_reserve_ok]
        intro: owns_conseq [OF keeps_tokens_frame [OF counted]] owns_conseq [OF refused])
qed

lemma record_send_failure_keeps [owns_rules]: "keeps_tokens (budget_ok m) (record_send_failure io n)"
  unfolding record_send_failure_def by (intro owns_rules keeps_pstore) simp

lemma before_send_keeps [owns_rules]: "keeps_tokens (budget_ok m) (before_send fault n)"
  unfolding before_send_def by (rule keeps_pdo) (auto split: option.splits)

lemma send_ok: "owns (budget_ok m) (\<lambda>_ r. r = {#}) (replicate_mset n Permit) (send n)"
  unfolding send_def by (rule owns_pstore [where r' = "{#}"]) (auto simp: budget_ok_defs reason_holds_def)

lemma attempt_send_ok: "owns (budget_ok (bc_max_samples b)) (\<lambda>_ _. True) {#} (attempt_send (Some b) io n)"
proof -
  let ?ok = "budget_ok (bc_max_samples b)"
  have report: "owns ?ok (\<lambda>_ _. True) {#} (case se_send io of
       Inr u \<Rightarrow> Return (Inr (Inr u))
     | Inl e \<Rightarrow> ptry (record_send_failure (se_failure io) n) (\<lambda>_. Return (Inr (Inl e))))"
    by (cases "se_send io") (auto intro!: owns_Return owns_try [OF record_send_failure_keeps])
  have sends: "owns ?ok (\<lambda>_ _. True) (replicate_mset n Permit) (pbind (send n) (\<lambda>_. case se_send io of
       Inr u \<Rightarrow> Return (Inr (Inr u))
     | Inl e \<Rightarrow> ptry (record_send_failure (se_failure io) n) (\<lambda>_. Return (Inr (Inl e)))))"
    by (rule owns_bind [OF send_ok]) (simp add: report)
  have written: "owns ?ok (\<lambda>_ _. True) (replicate_mset n Permit) (ptry (before_send (se_before_send io) n) (\<lambda>_.
     pbind (send n) (\<lambda>_. case se_send io of
       Inr u \<Rightarrow> Return (Inr (Inr u))
     | Inl e \<Rightarrow> ptry (record_send_failure (se_failure io) n) (\<lambda>_. Return (Inr (Inl e))))))"
    by (rule owns_try [OF keeps_tokens_frame [OF before_send_keeps]]) (simp_all add: sends)
  show ?thesis
    unfolding attempt_send_def option.case by (rule owns_try [OF reserve_ok]) (simp_all add: written)
qed

lemma budget_finalize_ok: "keeps_tokens (budget_ok m) (budget_finalize io reason)"
proof -
  have won: "owns (budget_ok m) (\<lambda>already r. r = finalizing (\<not> already)) {#}
    (pdo (\<lambda>s. (s\<lparr>pb_finalized := True\<rparr>, pb_finalized s)))"
    by (rule owns_pdo) (auto simp: finalizing_def budget_ok_defs reason_holds_def split: if_splits)
  show ?thesis
    unfolding budget_finalize_def
    by (rule owns_bind [OF won], auto simp del: str_def simp: finalizing_def intro: owns_Return,
        rule owns_bind [OF keeps_tokens_frame [OF set_terminal_reason_keeps]])
      (use write_event_ok [of m True io "str ''finalized''" None] in \<open>simp del: str_def add: finalizing_def\<close>)
qed

lemma budget_method_ok: "owns (budget_ok (bc_max_samples b)) (\<lambda>_ _. True) {#} (budget_method b call)"
proof -
  let ?ok = "budget_ok (bc_max_samples b)"
  have connect: "keeps_tokens ?ok (record_initial_connect_attempt b io)" for io
    unfolding record_initial_connect_attempt_def by (auto intro!: owns_rules keeps_pstore)
  have can: "keeps_tokens ?ok (can_append (Some b) n)" for n
    unfolding can_append_def by (auto intro!: owns_rules)
  have reconnect: "keeps_tokens ?ok (record_reconnect io)" for io
    unfolding record_reconnect_def by (intro owns_rules keeps_pstore) simp
  have authorize: "keeps_tokens ?ok (authorize_reconnect_before_connect b io trigger)" for io trigger
    unfolding authorize_reconnect_before_connect_def Let_def by (auto intro!: owns_rules)
  have drop: "keeps_tokens ?ok (drop_budget io)" for io
    unfolding drop_budget_def by (intro owns_rules budget_finalize_ok)
  show ?thesis
    by (cases call) (auto intro!: owns_Return owns_bind [OF connect] owns_bind [OF can] owns_bind [OF reconnect]
        owns_bind [OF authorize] owns_bind [OF drop] owns_bind [OF budget_finalize_ok] owns_bind [OF attempt_send_ok])
qed

lemma fresh_budget_ok: "budget_ok m {#} fresh_budget"
  by (simp add: fresh_budget_def budget_ok_defs u64_max_def)

lemma opened_budget_ok: "budget_ok m {#} (opened_budget io)"
proof (cases "alone (write_event io (str ''initialized'') None False) fresh_budget")
  case (Some r)
  obtain s a where r: "r = (s, a)" by fastforce
  with owns_alone [OF write_event_keeps [of m], of "{#}" fresh_budget] Some fresh_budget_ok have "budget_ok m {#} s"
    by fastforce
  with Some r show ?thesis by (simp add: opened_budget_def del: str_def)
qed (simp add: opened_budget_def fresh_budget_ok del: str_def)

interpretation budget: thread_system "opened_budget io" "budget_method b" "budget_ok (bc_max_samples b)" for io b
  by standard (rule opened_budget_ok, rule budget_method_ok)

section \<open>Properties\<close>

text \<open>The shared state after some threads made their calls under a schedule.\<close>

definition budget_after :: "event_io \<Rightarrow> budget_config \<Rightarrow> budget_call list list \<Rightarrow> nat list \<Rightarrow> budget_state" where
  "budget_after io b threads schedule = fst (runs sched_step (opened_budget io, map (calls (budget_method b)) threads) schedule)"

text \<open>
  C27: The lease bounds what is sent, in every interleaving. However many threads share the budget,
  whatever they call and wherever they are interrupted, and whichever files, evidence writes and sends
  fail: the samples handed to the socket never exceed the samples reserved, and these never exceed the
  lease.
\<close>

theorem lease_bounds_sent_samples:
  "sum_list (pb_sent (budget_after io b threads schedule)) \<le> pb_total_attempted_samples (budget_after io b threads schedule) \<and>
   pb_total_attempted_samples (budget_after io b threads schedule) \<le> bc_max_samples b"
  using budget.every_schedule [of b io threads schedule] by (auto simp: budget_ok_def budget_after_def)

text \<open>
  C28: The journal is a faithful record in every interleaving: its lines have increasing sequence numbers (until the
  counter saturates), times that never go back even if the clock does, and totals that never shrink
  and never exceed the lease; every line that names a terminal reason names the one in force, which is
  never replaced; and at most one line is final.
\<close>

theorem budget_journal_ordered:
  "sorted_wrt line_before (pb_lines (budget_after io b threads schedule)) \<and>
   length (filter bl_finalized (pb_lines (budget_after io b threads schedule))) \<le> 1 \<and>
   list_all (\<lambda>l. ct_total_attempted_samples (bl_counters l) \<le> bc_max_samples b \<and>
       reason_holds (ct_terminal_reason (bl_counters l)) (budget_after io b threads schedule))
     (pb_lines (budget_after io b threads schedule))"
  using budget.every_schedule [of b io threads schedule]
  by (auto simp: budget_ok_def lines_ok_def budget_after_def list_all_iff split: if_splits)

text \<open>
  Calls that meet no other thread return and leave the number of connections alone; the flags say
  whether the journal is held before and after.
\<close>

definition quiet :: "bool \<Rightarrow> bool \<Rightarrow> (budget_state, 'a) prog \<Rightarrow> bool" where
  "quiet held held' p \<longleftrightarrow> (\<forall>s. pb_journal_locked s = held \<longrightarrow> (\<exists>s' a. alone p s = Some (s', a) \<and>
     pb_journal_locked s' = held' \<and> pb_initial_connect_attempts s' = pb_initial_connect_attempts s))"

named_theorems quiet_rules \<open>calls that leave the number of connections alone\<close>

lemma quiet_Return [quiet_rules]: "quiet h h (Return a)"
  by (simp add: quiet_def)

lemma quiet_bind: "quiet h i p \<Longrightarrow> (\<And>a. quiet i j (k a)) \<Longrightarrow> quiet h j (pbind p k)"
  unfolding quiet_def alone_pbind by fastforce

lemma quiet_bind_same [quiet_rules]: "quiet h h p \<Longrightarrow> (\<And>a. quiet h h (k a)) \<Longrightarrow> quiet h h (pbind p k)"
  by (rule quiet_bind)

lemma quiet_try: "quiet h i p \<Longrightarrow> (\<And>a. quiet i i (k a)) \<Longrightarrow> quiet h i (ptry p k)"
  unfolding ptry_def by (erule quiet_bind) (auto intro!: quiet_rules split: sum.split)

lemma quiet_try_same [quiet_rules]: "quiet h h p \<Longrightarrow> (\<And>a. quiet h h (k a)) \<Longrightarrow> quiet h h (ptry p k)"
  by (rule quiet_try)

lemma quiet_pload [quiet_rules]: "quiet h h (pload g)"
  by (simp add: quiet_def)

lemma quiet_pdo:
  assumes "\<And>s. pb_journal_locked s = h \<Longrightarrow> pb_journal_locked (fst (g s)) = h' \<and>
    pb_initial_connect_attempts (fst (g s)) = pb_initial_connect_attempts s"
  shows "quiet h h' (pdo g)"
  unfolding quiet_def using assms by (metis alone_simps(1) fst_conv surj_pair)

lemma quiet_pstore:
  "(\<And>s. pb_journal_locked (g s) = pb_journal_locked s \<and> pb_initial_connect_attempts (g s) = pb_initial_connect_attempts s)
     \<Longrightarrow> quiet h h (pstore g)"
  by (simp add: quiet_def)

lemma quiet_set_terminal_reason [quiet_rules]: "quiet h h (set_terminal_reason reason)"
  unfolding set_terminal_reason_def by (rule quiet_pstore) simp

lemma quiet_load_counters [quiet_rules]: "quiet h h load_counters"
  unfolding load_counters_def by (intro quiet_rules)

lemma quiet_snapshot [quiet_rules]: "quiet h h (write_final_snapshot fault finalized)"
  unfolding write_final_snapshot_def
  by (intro quiet_rules quiet_pdo) (auto simp: write_ledger_def split: option.split ledger_fault.split)

lemma quiet_write_event [quiet_rules]: "quiet False False (write_event io event attempted finalized)"
proof -
  have "quiet False True (lock_journal (ei_now io))"
    by (simp add: quiet_def lock_journal_def)
  moreover have "quiet True False (pdo (append_line (ei_journal io) l))" for l
    by (rule quiet_pdo) (auto simp: append_line_def split: option.split journal_fault.split)
  ultimately show ?thesis
    unfolding write_event_def
    by (auto intro!: quiet_bind [where i = True] quiet_try [where i = False] intro: quiet_rules)
qed

lemma opened_budget_quiet:
  "\<not> pb_journal_locked (opened_budget io) \<and> pb_initial_connect_attempts (opened_budget io) = 0"
proof -
  have "\<not> pb_journal_locked fresh_budget" "pb_initial_connect_attempts fresh_budget = 0"
    by (simp_all add: fresh_budget_def)
  with quiet_write_event [of io "str ''initialized''" None False]
  obtain s a where "alone (write_event io (str ''initialized'') None False) fresh_budget = Some (s, a)"
    "\<not> pb_journal_locked s" "pb_initial_connect_attempts s = 0"
    unfolding quiet_def by metis
  then show ?thesis by (simp add: opened_budget_def del: str_def)
qed

lemma quiet_reserve [quiet_rules]: "quiet False False (reserve b io n)"
proof -
  have "quiet False False (pdo (try_reserve b n))"
    by (rule quiet_pdo) (auto simp: try_reserve_def split: option.split)
  then show ?thesis unfolding reserve_def by (auto intro!: quiet_rules quiet_pstore)
qed

lemma quiet_attempt_send [quiet_rules]: "quiet False False (attempt_send (Some b) io n)"
proof -
  have "quiet False False (before_send (se_before_send io) n)"
    unfolding before_send_def by (rule quiet_pdo) (auto split: option.split)
  moreover have "quiet False False (record_send_failure (se_failure io) n)"
    unfolding record_send_failure_def by (intro quiet_rules quiet_pstore) simp
  ultimately show ?thesis
    unfolding attempt_send_def send_def by (auto intro!: quiet_rules quiet_pstore split: sum.split)
qed

lemma quiet_finalize [quiet_rules]: "quiet False False (budget_finalize io reason)"
  unfolding budget_finalize_def by (auto intro!: quiet_rules quiet_pdo)

text \<open>The answers that let a caller open a connection.\<close>

fun opens :: "budget_call \<times> budget_answer \<Rightarrow> bool" where
  "opens (Connect io, a) \<longleftrightarrow> a = Answer (Inr ())"
| "opens (AuthorizeReconnect io trigger, a) \<longleftrightarrow> a = Answer (Inr ())"
| "opens _ \<longleftrightarrow> False"

lemma quiet_authorize [quiet_rules]: "quiet False False (authorize_reconnect_before_connect b io trigger)"
  unfolding authorize_reconnect_before_connect_def Let_def by (auto intro!: quiet_rules)

lemma authorize_refused:
  assumes "is_single_session b" "alone (authorize_reconnect_before_connect b io trigger) s = Some (s', r)"
  shows "r \<noteq> Inr ()"
  using assms unfolding authorize_reconnect_before_connect_def Let_def
  by (auto simp: alone_pbind simp del: str_def split: if_splits option.splits)

text \<open>One call of a single-session budget: what it may open, and what it leaves for the next call.\<close>

lemma quiet_alone:
  "quiet False False p \<Longrightarrow> \<not> pb_journal_locked s \<Longrightarrow> \<exists>s' a. alone p s = Some (s', a) \<and> \<not> pb_journal_locked s' \<and>
     pb_initial_connect_attempts s' = pb_initial_connect_attempts s"
  by (auto simp: quiet_def)

lemma connect_alone:
  assumes "is_single_session b" "\<not> pb_journal_locked s"
  shows "\<exists>s' r. alone (record_initial_connect_attempt b io) s = Some (s', r) \<and> \<not> pb_journal_locked s' \<and>
    pb_initial_connect_attempts s' \<ge> 1 \<and> (pb_initial_connect_attempts s \<ge> 1 \<longrightarrow> r \<noteq> Inr ())"
proof (cases "pb_initial_connect_attempts s \<ge> 1")
  case True
  obtain s1 u where s1: "alone (set_terminal_reason (str ''initial-connect-retry-forbidden'')) s = Some (s1, u)"
    "\<not> pb_journal_locked s1" "pb_initial_connect_attempts s1 = pb_initial_connect_attempts s"
    using quiet_alone [OF quiet_set_terminal_reason assms(2)] by blast
  obtain s2 r where s2: "alone (write_final_snapshot (ei_ledger io) False) s1 = Some (s2, r)"
    "\<not> pb_journal_locked s2" "pb_initial_connect_attempts s2 = pb_initial_connect_attempts s1"
    using quiet_alone [OF quiet_snapshot s1(2)] by blast
  from s1 s2 True assms show ?thesis
    by (cases r) (simp_all add: record_initial_connect_attempt_def alone_pbind ptry_def del: str_def)
next
  case False
  let ?s = "s\<lparr>pb_initial_connect_attempts := wrapping_add_u64 (pb_initial_connect_attempts s) 1\<rparr>"
  have "\<exists>s' r. alone (write_event io (str ''initial_connect_attempt'') None False) ?s = Some (s', r) \<and>
      \<not> pb_journal_locked s' \<and> pb_initial_connect_attempts s' = wrapping_add_u64 (pb_initial_connect_attempts s) 1"
    using quiet_alone [OF quiet_write_event, of ?s] assms by auto
  moreover have "wrapping_add_u64 (pb_initial_connect_attempts s) 1 = 1"
    using False by (simp add: wrapping_add_u64_def)
  ultimately show ?thesis
    using False by (auto simp: record_initial_connect_attempt_def alone_pbind simp del: str_def)
qed

text \<open>What later calls may still open.\<close>

definition openings_left :: "budget_state \<Rightarrow> nat" where
  "openings_left s = (if pb_initial_connect_attempts s = 0 then 1 else 0)"

lemma quiet_call:
  assumes "quiet False False p" "\<not> pb_journal_locked s"
  shows "\<exists>s' r. alone (pbind p (\<lambda>r. Return (f r))) s = Some (s', f r) \<and> \<not> pb_journal_locked s' \<and>
    openings_left s' = openings_left s \<and> alone p s = Some (s', r)"
proof -
  obtain s' r where "alone p s = Some (s', r)" "\<not> pb_journal_locked s'"
    "pb_initial_connect_attempts s' = pb_initial_connect_attempts s"
    using quiet_alone [OF assms] by blast
  then have "alone (pbind p (\<lambda>r. Return (f r))) s = Some (s', f r) \<and> \<not> pb_journal_locked s' \<and>
      openings_left s' = openings_left s \<and> alone p s = Some (s', r)"
    by (simp add: alone_pbind openings_left_def)
  then show ?thesis by blast
qed

lemma method_alone:
  assumes "is_single_session b" "\<not> pb_journal_locked s"
  shows "\<exists>s' a. alone (budget_method b call) s = Some (s', a) \<and> \<not> pb_journal_locked s' \<and>
    openings_left s' + (if opens (call, a) then 1 else 0) \<le> openings_left s"
proof (cases call)
  case (Connect io)
  obtain s' r where r: "alone (record_initial_connect_attempt b io) s = Some (s', r)" "\<not> pb_journal_locked s'"
    "pb_initial_connect_attempts s' \<ge> 1" "pb_initial_connect_attempts s \<ge> 1 \<longrightarrow> r \<noteq> Inr ()"
    using connect_alone [OF assms, of io] by blast
  then have "openings_left s' + (if opens (call, Answer r) then 1 else 0) \<le> openings_left s"
    by (auto simp: Connect openings_left_def)
  with r Connect show ?thesis by (simp add: alone_pbind)
next
  case (AuthorizeReconnect io trigger)
  obtain s' r where r: "alone (budget_method b call) s = Some (s', Answer r)" "\<not> pb_journal_locked s'"
    "openings_left s' = openings_left s" "alone (authorize_reconnect_before_connect b io trigger) s = Some (s', r)"
    using quiet_call [OF quiet_authorize assms(2), of b io trigger Answer] AuthorizeReconnect by auto
  with authorize_refused [OF assms(1) r(4)] AuthorizeReconnect show ?thesis by simp
next
  case (SendSamples io n)
  with quiet_call [OF quiet_attempt_send assms(2), of b io n SendAnswer] show ?thesis by auto
next
  case (CanAppend n)
  have "quiet False False (can_append (Some b) n)" unfolding can_append_def by (auto intro!: quiet_rules)
  with CanAppend quiet_call [OF _ assms(2), of "can_append (Some b) n" Fits] show ?thesis by auto
next
  case (Reconnected io)
  have "quiet False False (record_reconnect io)"
    unfolding record_reconnect_def by (intro quiet_rules quiet_pstore) simp
  with Reconnected quiet_call [OF _ assms(2), of "record_reconnect io" Answer] show ?thesis by auto
next
  case (FinalizeBudget io reason)
  with quiet_call [OF quiet_finalize assms(2), of io reason Answer] show ?thesis by auto
next
  case (DropBudget io)
  have "quiet False False (drop_budget io)" unfolding drop_budget_def by (intro quiet_rules)
  with DropBudget quiet_call [OF _ assms(2), of "drop_budget io" Answer] show ?thesis by auto
qed

text \<open>
  A budget of a paid, incident or local single session opens one connection at most. Whatever one
  thread calls in whatever order, every call returns, and of the initial connections and reconnections
  it asks for at most one is granted.
\<close>

theorem single_session_connects_once:
  assumes "is_single_session b"
  shows "\<exists>s answers. alone (calls (budget_method b) cs) (opened_budget io) = Some (s, answers) \<and>
    length answers = length cs \<and> length (filter opens (zip cs answers)) \<le> 1"
proof -
  have "\<exists>s' answers. alone (calls (budget_method b) cs) s = Some (s', answers) \<and> length answers = length cs \<and>
      length (filter opens (zip cs answers)) \<le> openings_left s" if "\<not> pb_journal_locked s" for s
    using that
  proof (induction cs arbitrary: s)
    case (Cons c cs)
    obtain s1 a where s1: "alone (budget_method b c) s = Some (s1, a)" "\<not> pb_journal_locked s1"
      "openings_left s1 + (if opens (c, a) then 1 else 0) \<le> openings_left s"
      using method_alone [OF assms Cons.prems] by blast
    with Cons.IH [OF s1(2)] show ?case by (auto simp: alone_pbind split: if_splits)
  qed simp
  from this [of "opened_budget io"] opened_budget_quiet [of io] show ?thesis
    by (auto simp: openings_left_def intro: order_trans)
qed

text \<open>
  Without that order the bound fails: the check of the number of connections and its increment are
  two steps, so two threads that both read zero are both allowed to connect.
\<close>

theorem single_session_connect_race:
  assumes "is_single_session b" "ei_journal io = None" "ei_ledger io = None"
  shows "snd (runs sched_step (opened_budget io, map (calls (budget_method b)) [[Connect io], [Connect io]])
      ([0, 1] @ replicate 18 0 @ replicate 18 1)) =
    [Return [Answer (Inr ())], Return [Answer (Inr ())]]"
  using assms
  by (simp add: sched_step_def record_initial_connect_attempt_def write_event_def lock_journal_def load_counters_def
      append_line_def write_final_snapshot_def write_ledger_def ptry_def pdo_def pload_def pstore_def pawait_def
      opened_budget_def fresh_budget_def alone_pbind numeral_eq_Suc)

definition example_event_io :: event_io where
  "example_event_io = \<lparr>ei_now = 5, ei_journal = None, ei_ledger = None\<rparr>"

definition example_config :: budget_config where
  "example_config = \<lparr>bc_cell_id = [], bc_lease_id = [], bc_run_marker = [], bc_session_generation = 1,
     bc_strict_paid_authority = True, bc_incident_replay_authority = False, bc_local_single_session_authority = False,
     bc_incident_id = None, bc_provider_id = [], bc_template_id = [], bc_provider_kind = [], bc_endpoint_host = [],
     bc_credential_reference = [], bc_auth_header_name = [], bc_auth_scheme = [], bc_custom_header_count = 0,
     bc_model = [], bc_protocol = [],
     bc_model_protocol_profile_identity = \<lparr>mi_registry_version = [], mi_profile_id = [], mi_profile_version = 1,
       mi_operation = [], mi_transport = [], mi_region = [], mi_endpoint_family = [], mi_endpoint_path = [],
       mi_wire_dialect = [], mi_wire_dialect_version = 1, mi_input_framing = [], mi_output_framing = [],
       mi_terminal_lifecycle = [], mi_adapter_id = [], mi_exact_model_id = []\<rparr>,
     bc_strict_media_end_authority = None, bc_max_samples = 10\<rparr>"

theorem single_session_connects_once_witness:
  "is_single_session example_config \<and>
   (\<exists>s answers. alone (calls (budget_method example_config) [Connect example_event_io, Connect example_event_io])
      (opened_budget example_event_io) = Some (s, answers) \<and> length answers = 2 \<and>
      length (filter opens (zip [Connect example_event_io, Connect example_event_io] answers)) \<le> 1)"
proof -
  have "is_single_session example_config" by (simp add: is_single_session_def example_config_def)
  with single_session_connects_once [OF this, of "[Connect example_event_io, Connect example_event_io]" example_event_io]
  show ?thesis by (simp add: numeral_2_eq_2 del: calls.simps filter.simps zip_Cons_Cons)
qed

end
