(* ===== verification/Budget_Authority.thy ===== *)
theory Budget_Authority
  imports Provider_Budget
begin

text \<open>
  How a run gets its lease (\<open>audio/omni/provider_input_budget/environment.rs\<close>,
  \<open>strict_media_end_authority.rs\<close> and the first part of \<open>provider_input_budget.rs\<close>): the environment
  names a cell, a lease and the provider it expects, and a budget is only opened when the provider
  the session is about to use is exactly that one. URL parsing, the registry of model protocols and the JSON
  decoder are parameters.
\<close>

section \<open>Constants\<close>

definition MAX_PROVIDER_INPUT_AUTHORITY_SAMPLES_budget :: nat where
  "MAX_PROVIDER_INPUT_AUTHORITY_SAMPLES_budget = 2880000"
definition STRICT_ORDINARY_CELL_MAX_SAMPLES :: nat where "STRICT_ORDINARY_CELL_MAX_SAMPLES = 2173045"
definition STRICT_PROCESS_CELL_MAX_SAMPLES :: nat where "STRICT_PROCESS_CELL_MAX_SAMPLES = 2877045"
definition STRICT_AEC_OPEN_INPUT_MAX_SAMPLES :: nat where "STRICT_AEC_OPEN_INPUT_MAX_SAMPLES = 2880000"
definition COMPLETION_POLICY_ENV :: rstring where "COMPLETION_POLICY_ENV = str ''OMNI_WATCH_MODE_COMPLETION_POLICY''"
definition AEC_COMPLETION_POLICY :: rstring where "AEC_COMPLETION_POLICY = str ''aec-output-quiescent-v2''"
definition MAX_SAMPLES_ENV_budget :: rstring where
  "MAX_SAMPLES_ENV_budget = str ''OMNI_WATCH_MODE_PROVIDER_INPUT_MAX_SAMPLES''"
definition LEDGER_PATH_ENV :: rstring where "LEDGER_PATH_ENV = str ''OMNI_WATCH_MODE_PROVIDER_INPUT_LEDGER_PATH''"
definition CELL_ID_ENV_budget :: rstring where "CELL_ID_ENV_budget = str ''OMNI_WATCH_MODE_CELL_ID''"
definition LEASE_ID_ENV_budget :: rstring where "LEASE_ID_ENV_budget = str ''OMNI_WATCH_MODE_PROVIDER_INPUT_LEASE_ID''"
definition AUTOSTART_ENV_budget :: rstring where "AUTOSTART_ENV_budget = str ''OMNI_WATCH_MODE_AUTOSTART''"
definition RUN_MARKER_ENV_budget :: rstring where "RUN_MARKER_ENV_budget = str ''OMNI_WATCH_MODE_RUN_MARKER''"
definition PCM_PATH_ENV :: rstring where "PCM_PATH_ENV = str ''OMNI_WATCH_MODE_PROVIDER_INPUT_PCM_PATH''"
definition MODEL_ENV :: rstring where "MODEL_ENV = str ''OMNI_WATCH_MODE_MODEL_ID''"
definition PROTOCOL_ENV :: rstring where "PROTOCOL_ENV = str ''OMNI_WATCH_MODE_REALTIME_PROTOCOL''"
definition MODEL_PROTOCOL_PROFILE_IDENTITY_ENV :: rstring where
  "MODEL_PROTOCOL_PROFILE_IDENTITY_ENV = str ''OMNI_WATCH_MODE_MODEL_PROTOCOL_PROFILE_IDENTITY''"
definition STRICT_PAID_AUTHORITY_ENV :: rstring where "STRICT_PAID_AUTHORITY_ENV = str ''OMNI_WATCH_MODE_STRICT_PAID_AUTHORITY''"
definition INCIDENT_REPLAY_AUTHORITY_ENV :: rstring where
  "INCIDENT_REPLAY_AUTHORITY_ENV = str ''OMNI_WATCH_MODE_INCIDENT_REPLAY_AUTHORITY''"
definition LOCAL_SINGLE_SESSION_AUTHORITY_ENV :: rstring where
  "LOCAL_SINGLE_SESSION_AUTHORITY_ENV = str ''OMNI_WATCH_MODE_LOCAL_SINGLE_SESSION_AUTHORITY''"
definition INCIDENT_ID_ENV :: rstring where "INCIDENT_ID_ENV = str ''OMNI_WATCH_MODE_INCIDENT_ID''"
definition EXPECTED_PROVIDER_ID_ENV :: rstring where "EXPECTED_PROVIDER_ID_ENV = str ''OMNI_WATCH_MODE_EXPECTED_PROVIDER_ID''"
definition EXPECTED_TEMPLATE_ID_ENV :: rstring where
  "EXPECTED_TEMPLATE_ID_ENV = str ''OMNI_WATCH_MODE_EXPECTED_PROVIDER_TEMPLATE_ID''"
definition EXPECTED_PROVIDER_KIND_ENV :: rstring where
  "EXPECTED_PROVIDER_KIND_ENV = str ''OMNI_WATCH_MODE_EXPECTED_PROVIDER_KIND''"
definition EXPECTED_ENDPOINT_HOST_ENV :: rstring where
  "EXPECTED_ENDPOINT_HOST_ENV = str ''OMNI_WATCH_MODE_EXPECTED_PROVIDER_ENDPOINT_HOST''"
definition EXPECTED_CREDENTIAL_REFERENCE_ENV :: rstring where
  "EXPECTED_CREDENTIAL_REFERENCE_ENV = str ''OMNI_WATCH_MODE_EXPECTED_PROVIDER_CREDENTIAL_REFERENCE''"
definition STRICT_PROVIDER_ID :: rstring where "STRICT_PROVIDER_ID = str ''provider-dashscope''"
definition STRICT_TEMPLATE_ID :: rstring where "STRICT_TEMPLATE_ID = str ''template-dashscope-realtime''"
definition STRICT_PROVIDER_KIND :: rstring where "STRICT_PROVIDER_KIND = str ''dashscope''"
definition STRICT_ENDPOINT_HOST :: rstring where "STRICT_ENDPOINT_HOST = str ''dashscope.aliyuncs.com''"
definition STRICT_CREDENTIAL_REFERENCE :: rstring where
  "STRICT_CREDENTIAL_REFERENCE = str ''credential://provider/dashscope/default''"
definition STRICT_OMNI_MODEL :: rstring where "STRICT_OMNI_MODEL = str ''qwen3.5-omni-flash-realtime''"
definition STRICT_OMNI_PROTOCOL :: rstring where "STRICT_OMNI_PROTOCOL = str ''dashscope-omni''"
definition STRICT_LIVETRANSLATE_MODEL :: rstring where
  "STRICT_LIVETRANSLATE_MODEL = str ''qwen3.5-livetranslate-flash-realtime''"
definition STRICT_LIVETRANSLATE_MODEL_V2 :: rstring where
  "STRICT_LIVETRANSLATE_MODEL_V2 = str ''qwen3.8-livetranslate-flash-realtime''"
definition STRICT_LIVETRANSLATE_PROTOCOL :: rstring where "STRICT_LIVETRANSLATE_PROTOCOL = str ''dashscope-livetranslate''"
definition INCIDENT_PLUS_MODEL :: rstring where "INCIDENT_PLUS_MODEL = str ''qwen3.5-omni-plus-realtime''"
definition INCIDENT_PLUS_PROTOCOL :: rstring where "INCIDENT_PLUS_PROTOCOL = str ''dashscope-omni''"
definition INCIDENT_PLUS_ID :: rstring where "INCIDENT_PLUS_ID = str ''watch-mode-loss-incident-plus-v1''"

section \<open>Release cells\<close>

text \<open>\<open>str::split("::")\<close>.\<close>

fun split_double_colon :: "rstring \<Rightarrow> rstring list" where
  "split_double_colon [] = [[]]"
| "split_double_colon (c # d # cs) =
     (if c = 58 \<and> d = 58 then [] # split_double_colon cs
      else case split_double_colon (d # cs) of [] \<Rightarrow> [[c]] | part # parts \<Rightarrow> (c # part) # parts)"
| "split_double_colon [c] = [[c]]"

definition strict_release_cell_max_samples :: "rstring \<Rightarrow> rstring option \<Rightarrow> rstring + nat" where
  "strict_release_cell_max_samples cell_id completion_policy =
     (case split_double_colon cell_id of
        [tier, model, feedback_mode, device_class] \<Rightarrow>
          if model \<notin> {STRICT_LIVETRANSLATE_MODEL, STRICT_LIVETRANSLATE_MODEL_V2} \<or>
             device_class \<noteq> str ''default-speaker''
          then Inl (str ''strict paid Provider input cellId is outside the formal LiveTranslate release authority: '' @ cell_id)
          else if completion_policy = Some AEC_COMPLETION_POLICY
          then (if tier = str ''pairwise-live'' \<and> feedback_mode = str ''echo-cancel'' \<and>
                   model = STRICT_LIVETRANSLATE_MODEL_V2
                then Inr STRICT_AEC_OPEN_INPUT_MAX_SAMPLES
                else Inl (str ''strict AEC completion policy authorizes only the exact 3.8 echo-cancel cell''))
          else if is_some_and completion_policy (\<lambda>policy. policy \<noteq> str ''media-input-complete-v1'')
          then Inl (str ''unsupported strict Provider input completion policy'')
          else if feedback_mode = str ''echo-cancel'' \<and> model = STRICT_LIVETRANSLATE_MODEL_V2
          then Inl (str ''strict 3.8 AEC requires aec-output-quiescent-v2'')
          else if tier = str ''pairwise-live'' \<and> feedback_mode \<in> {str ''virtual-driver'', str ''echo-cancel''}
          then Inr STRICT_ORDINARY_CELL_MAX_SAMPLES
          else if tier \<in> {str ''pairwise-live'', str ''model-stability''} \<and> feedback_mode = str ''process-exclusion''
          then Inr STRICT_PROCESS_CELL_MAX_SAMPLES
          else Inl (str ''strict paid Provider input cellId is not an approved formal release cell: '' @ cell_id)
      | _ \<Rightarrow> Inl (str ''strict paid Provider input cellId is not a formal four-part release cell: '' @ cell_id))"

section \<open>Reading the environment\<close>

type_synonym read_env = "rstring \<Rightarrow> rstring option"

record BudgetEnvironment =
  be_max_samples :: nat
  be_ledger_path :: rstring
  be_cell_id :: rstring
  be_lease_id :: rstring
  be_run_marker :: rstring
  be_strict_paid_authority :: bool
  be_incident_replay_authority :: bool
  be_local_single_session_authority :: bool
  be_declared_model_protocol_profile_identity :: "rstring option"

definition read_authority_flag :: "read_env \<Rightarrow> rstring \<Rightarrow> rstring + bool" where
  "read_authority_flag read name =
     (case read name of
        None \<Rightarrow> Inr False
      | Some value \<Rightarrow> if trim value = str ''1'' then Inr True else Inl (name @ str '' must be exactly 1 when present''))"

definition required_budget :: "rstring \<Rightarrow> rstring option \<Rightarrow> rstring + rstring" where
  "required_budget name value =
     (case value of
        Some v \<Rightarrow> if trim v \<noteq> [] then Inr (trim v) else Inl (str ''strict provider input budget requires '' @ name)
      | None \<Rightarrow> Inl (str ''strict provider input budget requires '' @ name))"

definition map_error :: "('e \<Rightarrow> 'f) \<Rightarrow> 'e + 'a \<Rightarrow> 'f + 'a" where
  "map_error f r = (case r of Inl e \<Rightarrow> Inl (f e) | Inr a \<Rightarrow> Inr a)"

definition read_budget_environment :: "read_env \<Rightarrow> rstring + BudgetEnvironment option" where
  "read_budget_environment read =
     and_then (read_authority_flag read STRICT_PAID_AUTHORITY_ENV) (\<lambda>strict.
     and_then (read_authority_flag read INCIDENT_REPLAY_AUTHORITY_ENV) (\<lambda>incident.
     and_then (read_authority_flag read LOCAL_SINGLE_SESSION_AUTHORITY_ENV) (\<lambda>local_session.
     reject_if (length (filter id [strict, incident, local_session]) > 1)
       (str ''strict paid, incident replay, and local single-session provider authorities are mutually exclusive'')
     (if \<not> strict \<and> \<not> incident \<and> \<not> local_session \<and> read MAX_SAMPLES_ENV_budget = None \<and>
         read LEDGER_PATH_ENV = None \<and> read LEASE_ID_ENV_budget = None
      then Inr None
      else
     and_then (required_budget MAX_SAMPLES_ENV_budget (read MAX_SAMPLES_ENV_budget)) (\<lambda>max_text.
     and_then (map_error (\<lambda>e. MAX_SAMPLES_ENV_budget @ str '' must be a positive integer: '' @ e)
       (parse_unsigned u64_max max_text)) (\<lambda>max_samples.
     reject_if (max_samples = 0 \<or> max_samples > MAX_PROVIDER_INPUT_AUTHORITY_SAMPLES_budget)
       (MAX_SAMPLES_ENV_budget @ str '' must be within 1..='' @ show_nat MAX_PROVIDER_INPUT_AUTHORITY_SAMPLES_budget)
     (and_then (required_budget LEDGER_PATH_ENV (read LEDGER_PATH_ENV)) (\<lambda>ledger_path.
     and_then (required_budget CELL_ID_ENV_budget (read CELL_ID_ENV_budget)) (\<lambda>cell_id.
     and_then
       (if strict
        then and_then (strict_release_cell_max_samples cell_id (read COMPLETION_POLICY_ENV)) (\<lambda>expected.
          reject_if (max_samples \<noteq> expected)
            (str ''strict paid Provider input cell '' @ cell_id @ str '' requires exactly '' @ show_nat expected @
             str '' samples; got '' @ show_nat max_samples) (Inr ()))
        else Inr ()) (\<lambda>_.
     and_then (required_budget LEASE_ID_ENV_budget (read LEASE_ID_ENV_budget)) (\<lambda>lease_id.
     and_then (required_budget RUN_MARKER_ENV_budget (read RUN_MARKER_ENV_budget)) (\<lambda>run_marker.
     and_then (required_budget AUTOSTART_ENV_budget (read AUTOSTART_ENV_budget)) (\<lambda>autostart.
     reject_if (autostart \<notin> {str ''1'', str ''true'', str ''TRUE'', str ''yes'', str ''YES''})
       (str ''strict provider input budget requires '' @ AUTOSTART_ENV_budget @ str ''=1'')
     (Inr (Some \<lparr>be_max_samples = max_samples, be_ledger_path = ledger_path, be_cell_id = cell_id,
        be_lease_id = lease_id, be_run_marker = run_marker, be_strict_paid_authority = strict,
        be_incident_replay_authority = incident, be_local_single_session_authority = local_session,
        be_declared_model_protocol_profile_identity = read MODEL_PROTOCOL_PROFILE_IDENTITY_ENV\<rparr>)))))))))))))))"

section \<open>Media end\<close>

definition AUTHORITATIVE_REFERENCE_FRAMES_ENV :: rstring where
  "AUTHORITATIVE_REFERENCE_FRAMES_ENV = str ''OMNI_WATCH_MODE_AUTHORITATIVE_TRANSFORMED_REFERENCE_FRAMES''"
definition INPUT_SAMPLE_RATE_HZ_ENV :: rstring where "INPUT_SAMPLE_RATE_HZ_ENV = str ''OMNI_WATCH_MODE_INPUT_SAMPLE_RATE_HZ''"
definition AUTHORITY_RUN_MARKER_ENV :: rstring where "AUTHORITY_RUN_MARKER_ENV = str ''OMNI_WATCH_MODE_MEDIA_AUTHORITY_RUN_MARKER''"
definition AUTHORITY_CELL_ID_ENV :: rstring where "AUTHORITY_CELL_ID_ENV = str ''OMNI_WATCH_MODE_MEDIA_AUTHORITY_CELL_ID''"
definition AUTHORITY_LEASE_ID_ENV :: rstring where "AUTHORITY_LEASE_ID_ENV = str ''OMNI_WATCH_MODE_MEDIA_AUTHORITY_LEASE_ID''"
definition MEDIA_SHA256_ENV :: rstring where "MEDIA_SHA256_ENV = str ''OMNI_WATCH_MODE_MEDIA_SHA256''"
definition PROVIDER_INPUT_SAMPLE_RATE_HZ :: nat where "PROVIDER_INPUT_SAMPLE_RATE_HZ = 16000"

definition required_media :: "rstring \<Rightarrow> rstring option \<Rightarrow> rstring + rstring" where
  "required_media name value =
     (case value of
        Some v \<Rightarrow> if trim v \<noteq> [] then Inr (trim v) else Inl (str ''strict media-end authority requires '' @ name)
      | None \<Rightarrow> Inl (str ''strict media-end authority requires '' @ name))"

text \<open>Lower-case hexadecimal digits, all of one byte.\<close>

definition is_lower_sha256 :: "rstring \<Rightarrow> bool" where
  "is_lower_sha256 x \<longleftrightarrow> byte_len x = 64 \<and> list_all (\<lambda>c. 48 \<le> c \<and> c \<le> 57 \<or> 97 \<le> c \<and> c \<le> 102) x"

definition media_end_from_environment ::
  "read_env \<Rightarrow> bool \<Rightarrow> rstring \<Rightarrow> rstring \<Rightarrow> rstring \<Rightarrow> nat \<Rightarrow> nat \<Rightarrow> rstring + StrictMediaEndAuthority option" where
  "media_end_from_environment read strict_paid_authority run_marker cell_id lease_id max_samples session_generation =
     (if \<not> strict_paid_authority then Inr None
      else if read COMPLETION_POLICY_ENV = Some AEC_COMPLETION_POLICY
      then (if cell_id = str ''pairwise-live::qwen3.8-livetranslate-flash-realtime::echo-cancel::default-speaker'' \<and>
               max_samples = STRICT_AEC_OPEN_INPUT_MAX_SAMPLES
            then Inr None
            else Inl (str ''AEC media-end bypass requires the exact 3.8 c03 open-input lease''))
      else if read AUTHORITATIVE_REFERENCE_FRAMES_ENV = None \<or> read INPUT_SAMPLE_RATE_HZ_ENV = None \<or>
              read MEDIA_SHA256_ENV = None
      then Inr None
      else
     and_then (required_media AUTHORITATIVE_REFERENCE_FRAMES_ENV (read AUTHORITATIVE_REFERENCE_FRAMES_ENV)) (\<lambda>frames_text.
     and_then (map_error (\<lambda>e. AUTHORITATIVE_REFERENCE_FRAMES_ENV @ str '' must be a positive integer: '' @ e)
       (parse_unsigned u64_max frames_text)) (\<lambda>frames.
     reject_if (frames = 0 \<or> frames > max_samples)
       (AUTHORITATIVE_REFERENCE_FRAMES_ENV @ str '' must be within 1..='' @ show_nat max_samples)
     (and_then (required_media INPUT_SAMPLE_RATE_HZ_ENV (read INPUT_SAMPLE_RATE_HZ_ENV)) (\<lambda>rate_text.
     and_then (map_error (\<lambda>e. INPUT_SAMPLE_RATE_HZ_ENV @ str '' must be a positive integer: '' @ e)
       (parse_unsigned u32_max rate_text)) (\<lambda>rate.
     reject_if (rate \<noteq> PROVIDER_INPUT_SAMPLE_RATE_HZ)
       (str ''strict media-end authority requires '' @ INPUT_SAMPLE_RATE_HZ_ENV @ str ''='' @
        show_nat PROVIDER_INPUT_SAMPLE_RATE_HZ @ str ''; got '' @ show_nat rate)
     (and_then (required_media MEDIA_SHA256_ENV (read MEDIA_SHA256_ENV)) (\<lambda>sha256.
     and_then (required_media AUTHORITY_RUN_MARKER_ENV (read AUTHORITY_RUN_MARKER_ENV)) (\<lambda>authority_run_marker.
     and_then (required_media AUTHORITY_CELL_ID_ENV (read AUTHORITY_CELL_ID_ENV)) (\<lambda>authority_cell_id.
     and_then (required_media AUTHORITY_LEASE_ID_ENV (read AUTHORITY_LEASE_ID_ENV)) (\<lambda>authority_lease_id.
     reject_if (authority_run_marker \<noteq> run_marker \<or> authority_cell_id \<noteq> cell_id \<or> authority_lease_id \<noteq> lease_id)
       (str ''strict media-end authority identity does not match the validated run/cell/lease identity'')
     (reject_if (\<not> is_lower_sha256 sha256) (MEDIA_SHA256_ENV @ str '' must be a lowercase 64-character sha256'')
     (reject_if (trim run_marker = [] \<or> trim cell_id = [] \<or> trim lease_id = [] \<or> session_generation = 0)
       (str ''strict media-end authority requires the validated run/cell/lease/session identity'')
     (Inr (Some \<lparr>me_authoritative_reference_frames = frames, me_input_sample_rate_hz = rate,
        me_media_sha256 = sha256, me_run_marker = run_marker, me_cell_id = cell_id, me_lease_id = lease_id,
        me_provider_input_max_samples = max_samples, me_session_generation = session_generation\<rparr>)))))))))))))))"

text \<open>\<open>u128\<close> arithmetic: the product of a \<open>u64\<close> and 1000 does not saturate.\<close>

definition media_end_ms :: "StrictMediaEndAuthority \<Rightarrow> nat" where
  "media_end_ms a =
     (let numerator = me_authoritative_reference_frames a * 1000; denominator = me_input_sample_rate_hz a
      in min ((numerator + denominator - 1) div denominator) u64_max)"

definition authenticates_post_reference_start :: "StrictMediaEndAuthority \<Rightarrow> nat \<Rightarrow> bool" where
  "authenticates_post_reference_start a audio_start_ms \<longleftrightarrow> audio_start_ms \<ge> media_end_ms a"

section \<open>The provider\<close>

record ProviderAuthRefInput =
  ar_kind :: rstring
  ar_reference :: rstring
  ar_header_name :: rstring
  ar_scheme :: rstring

text \<open>The fields of a provider draft that are compared here; the registry sees the extension as well.\<close>

record ProviderDraftInput =
  pd_template_id :: rstring
  pd_provider_id :: rstring
  pd_kind :: rstring
  pd_model :: rstring
  pd_base_url :: rstring
  pd_transport :: rstring
  pd_auth_ref :: ProviderAuthRefInput
  pd_custom_headers :: "(rstring \<times> rstring) list"

record url =
  url_scheme :: rstring
  url_host :: "rstring option"
  url_username :: rstring
  url_password :: "rstring option"
  url_port :: "nat option"

text \<open>
  \<open>Url::parse\<close>; \<open>resolve_realtime_profile\<close>, of whose result the identity of the authorised profile and the error
  are used; \<open>authorize_bailian_native_translate\<close>, of which the error is used; \<open>serde_json::from_str\<close>.
\<close>

record 'z budget_params =
  bp_parse_url :: "rstring \<Rightarrow> url option"
  bp_resolve_profile :: "'z ProviderDraftInput_scheme \<Rightarrow> rstring \<Rightarrow>
    ModelProtocolProfileIdentityRuntime option \<times> rstring option"
  bp_authorize_native :: "'z ProviderDraftInput_scheme \<Rightarrow> rstring option"
  bp_decode_identity :: "rstring \<Rightarrow> rstring + ModelProtocolProfileIdentityRuntime"

definition resolve_model_protocol_identity ::
  "'z budget_params \<Rightarrow> 'z ProviderDraftInput_scheme \<Rightarrow> rstring \<Rightarrow> rstring \<Rightarrow> bool \<Rightarrow> rstring option \<Rightarrow>
   rstring + ModelProtocolProfileIdentityRuntime" where
  "resolve_model_protocol_identity pr provider model protocol strict_paid_authority declared_identity =
     (case bp_resolve_profile pr provider (pd_model provider) of
        (None, Some e) \<Rightarrow> Inl e
      | (None, None) \<Rightarrow> Inl (str ''model_protocol.authorization_identity_mismatch: enabled Provider input budget has no authorized model protocol profile'')
      | (Some identity, _) \<Rightarrow>
     reject_if (mi_exact_model_id identity \<noteq> model)
       (str ''model_protocol.authorization_identity_mismatch: Provider input budget model '' @ [39] @ model @ [39] @
        str '' does not match authorized exactModelId '' @ [39] @ mi_exact_model_id identity @ [39])
     (reject_if (str ''dashscope-livetranslate'' \<noteq> protocol)
       (str ''model_protocol.authorization_identity_mismatch: Provider input budget protocol '' @ [39] @ protocol @ [39] @
        str '' does not match enabled LiveTranslate adapter'')
     (if strict_paid_authority \<or> declared_identity \<noteq> None
      then and_then (required_budget MODEL_PROTOCOL_PROFILE_IDENTITY_ENV declared_identity) (\<lambda>declared.
           and_then (map_error (\<lambda>e. str ''model_protocol.authorization_identity_mismatch: '' @
               MODEL_PROTOCOL_PROFILE_IDENTITY_ENV @ str '' must be the exact 15-field identity: '' @ e)
             (bp_decode_identity pr declared)) (\<lambda>decoded.
           reject_if (decoded \<noteq> identity)
             (str ''model_protocol.authorization_identity_mismatch: signed Watch identity does not match the Desktop-authorized Provider send boundary'')
             (Inr identity)))
      else Inr identity)))"

definition is_tls_scheme :: "url \<Rightarrow> bool" where
  "is_tls_scheme u \<longleftrightarrow> url_scheme u \<in> {str ''https'', str ''wss''}"

definition has_credentials_or_port :: "url \<Rightarrow> bool" where
  "has_credentials_or_port u \<longleftrightarrow> url_username u \<noteq> [] \<or> is_some (url_password u) \<or> is_some (url_port u)"

definition validate_local_single_session ::
  "'z budget_params \<Rightarrow> 'z ProviderDraftInput_scheme \<Rightarrow> url \<Rightarrow> nat \<Rightarrow> nat \<Rightarrow> rstring \<Rightarrow> rstring \<Rightarrow> read_env \<Rightarrow> rstring + unit" where
  "validate_local_single_session pr provider endpoint session_generation max_samples model protocol read =
     reject_if (session_generation = 0)
       (str ''local single-session provider authority requires a non-zero session generation'')
     (and_then (required_budget PCM_PATH_ENV (read PCM_PATH_ENV)) (\<lambda>_.
     and_then (required_budget MODEL_ENV (read MODEL_ENV)) (\<lambda>expected_model.
     and_then (required_budget PROTOCOL_ENV (read PROTOCOL_ENV)) (\<lambda>expected_protocol.
     let local_v2 = (expected_model = str ''qwen3.8-livetranslate-flash-realtime'' \<and>
                     expected_protocol = STRICT_LIVETRANSLATE_PROTOCOL)
     in and_then
       (if local_v2
        then reject_if (max_samples > 192000) (str ''local 3.8 software-path authority is capped at 192000 samples'')
          (case bp_authorize_native pr provider of Some e \<Rightarrow> Inl e | None \<Rightarrow> Inr ())
        else Inr ()) (\<lambda>_.
     reject_if (\<not> local_v2 \<and> (expected_model, expected_protocol) \<notin>
         {(STRICT_OMNI_MODEL, STRICT_OMNI_PROTOCOL), (STRICT_LIVETRANSLATE_MODEL, STRICT_LIVETRANSLATE_PROTOCOL),
          (INCIDENT_PLUS_MODEL, INCIDENT_PLUS_PROTOCOL)})
       (str ''local single-session provider authority rejected model/protocol pair '' @ expected_model @ str ''/'' @
        expected_protocol)
     (reject_if (model \<noteq> expected_model \<or> protocol \<noteq> expected_protocol)
       (str ''local single-session provider authority runtime pair mismatch: expected='' @ expected_model @ str ''/'' @
        expected_protocol @ str '' actual='' @ model @ str ''/'' @ protocol)
     (let endpoint_host = (case url_host endpoint of Some h \<Rightarrow> to_ascii_lowercase h | None \<Rightarrow> [])
      in reject_if (trim (pd_provider_id provider) \<noteq> STRICT_PROVIDER_ID \<or>
             trim (pd_template_id provider) \<noteq> STRICT_TEMPLATE_ID \<or> trim (pd_kind provider) \<noteq> STRICT_PROVIDER_KIND \<or>
             (\<not> local_v2 \<and> endpoint_host \<noteq> STRICT_ENDPOINT_HOST) \<or>
             ar_kind (pd_auth_ref provider) \<noteq> str ''credential-ref'' \<or>
             trim (ar_reference (pd_auth_ref provider)) \<noteq> STRICT_CREDENTIAL_REFERENCE \<or>
             trim (ar_header_name (pd_auth_ref provider)) \<noteq> str ''Authorization'' \<or>
             trim (ar_scheme (pd_auth_ref provider)) \<noteq> str ''bearer'' \<or> pd_custom_headers provider \<noteq> [] \<or>
             pd_transport provider \<noteq> str ''websocket'' \<or> \<not> is_tls_scheme endpoint \<or> has_credentials_or_port endpoint)
           (str ''local single-session provider authority requires the canonical DashScope TLS websocket provider and credential reference'')
         (Inr ()))))))))"

section \<open>Strict and incident authorities\<close>

text \<open>The loop over the five fields that have to be the expected and the fixed ones.\<close>

fun check_fixed :: "(rstring \<times> rstring \<times> rstring \<times> rstring) list \<Rightarrow> rstring + unit" where
  "check_fixed [] = Inr ()"
| "check_fixed ((label, actual, expected, fixed) # rest) =
     reject_if (expected \<noteq> fixed)
       (str ''strict paid provider authority '' @ label @ str '' expectation must be '' @ fixed @ str ''; got '' @ expected)
     (reject_if (actual \<noteq> expected)
       (str ''strict paid provider authority '' @ label @ str '' mismatch: expected='' @ expected @ str '' actual='' @ actual)
     (check_fixed rest))"

definition validate_strict_authority ::
  "'z ProviderDraftInput_scheme \<Rightarrow> url \<Rightarrow> rstring \<Rightarrow> BudgetEnvironment \<Rightarrow> nat \<Rightarrow> rstring \<Rightarrow> rstring \<Rightarrow> read_env \<Rightarrow>
   rstring + unit" where
  "validate_strict_authority provider endpoint endpoint_host e session_generation model protocol read =
     reject_if (session_generation = 0)
       (str ''strict paid provider authority requires a non-zero session generation'')
     (and_then (required_budget PCM_PATH_ENV (read PCM_PATH_ENV)) (\<lambda>_.
     and_then (required_budget MODEL_ENV (read MODEL_ENV)) (\<lambda>expected_model.
     and_then (required_budget PROTOCOL_ENV (read PROTOCOL_ENV)) (\<lambda>expected_protocol.
     and_then (required_budget EXPECTED_PROVIDER_ID_ENV (read EXPECTED_PROVIDER_ID_ENV)) (\<lambda>expected_provider_id.
     and_then (required_budget EXPECTED_TEMPLATE_ID_ENV (read EXPECTED_TEMPLATE_ID_ENV)) (\<lambda>expected_template_id.
     and_then (required_budget EXPECTED_PROVIDER_KIND_ENV (read EXPECTED_PROVIDER_KIND_ENV)) (\<lambda>expected_provider_kind.
     and_then (required_budget EXPECTED_ENDPOINT_HOST_ENV (read EXPECTED_ENDPOINT_HOST_ENV)) (\<lambda>raw_endpoint_host.
     and_then (required_budget EXPECTED_CREDENTIAL_REFERENCE_ENV (read EXPECTED_CREDENTIAL_REFERENCE_ENV)) (\<lambda>expected_reference.
     let expected_endpoint_host = to_ascii_lowercase raw_endpoint_host;
         approved_pair = (if be_strict_paid_authority e
           then expected_model \<in> {STRICT_LIVETRANSLATE_MODEL, STRICT_LIVETRANSLATE_MODEL_V2} \<and>
                expected_protocol = STRICT_LIVETRANSLATE_PROTOCOL
           else expected_model = INCIDENT_PLUS_MODEL \<and> expected_protocol = INCIDENT_PLUS_PROTOCOL);
         parts = split_double_colon (be_cell_id e);
         fixed_endpoint_host = (if be_strict_paid_authority e \<and> model = STRICT_LIVETRANSLATE_MODEL_V2
           then expected_endpoint_host else STRICT_ENDPOINT_HOST);
         credential_reference = trim (ar_reference (pd_auth_ref provider))
     in reject_if (\<not> approved_pair)
       (str ''provider authority rejected model/protocol pair '' @ expected_model @ str ''/'' @ expected_protocol)
     (reject_if (be_strict_paid_authority e \<and> \<not> (1 < length parts \<and> parts ! 1 = model))
       (str ''strict paid provider model does not match the authorized cell/lease'')
     (and_then (check_fixed
         [(str ''providerId'', trim (pd_provider_id provider), expected_provider_id, STRICT_PROVIDER_ID),
          (str ''templateId'', trim (pd_template_id provider), expected_template_id, STRICT_TEMPLATE_ID),
          (str ''providerKind'', trim (pd_kind provider), expected_provider_kind, STRICT_PROVIDER_KIND),
          (str ''endpointHost'', endpoint_host, expected_endpoint_host, fixed_endpoint_host),
          (str ''credentialReference'', credential_reference, expected_reference, STRICT_CREDENTIAL_REFERENCE)]) (\<lambda>_.
     reject_if (model \<noteq> expected_model)
       (str ''strict paid provider authority model mismatch: expected='' @ expected_model @ str '' actual='' @ model)
     (reject_if (protocol \<noteq> expected_protocol)
       (str ''strict paid provider authority protocol mismatch: expected='' @ expected_protocol @ str '' actual='' @ protocol)
     (reject_if (ar_kind (pd_auth_ref provider) \<noteq> str ''credential-ref'' \<or>
           \<not> starts_with credential_reference (str ''credential://'') \<or>
           ar_header_name (pd_auth_ref provider) \<noteq> str ''Authorization'' \<or>
           ar_scheme (pd_auth_ref provider) \<noteq> str ''bearer'' \<or> pd_custom_headers provider \<noteq> [] \<or>
           pd_transport provider \<noteq> str ''websocket'' \<or> \<not> is_tls_scheme endpoint \<or> has_credentials_or_port endpoint)
         (str ''strict paid provider authority requires a canonical TLS websocket endpoint, credential-ref bearer authentication, and no custom headers'')
       (Inr ())))))))))))))))"

section \<open>Opening a budget\<close>

record budget_open_io =
  bo_ledger_failure :: "rstring option"
  bo_journal_failure :: "rstring option"
  bo_event :: event_io

text \<open>The answer names the configuration of an enabled budget and its first shared state.\<close>

definition open_budget ::
  "budget_open_io \<Rightarrow> budget_config \<Rightarrow> rstring + (budget_config \<times> budget_state) option" where
  "open_budget oi config =
     (case bo_ledger_failure oi of
        Some e \<Rightarrow> Inl (str ''strict provider input budget ledger must be a new exclusive file: '' @ e)
      | None \<Rightarrow>
     (case bo_journal_failure oi of
        Some e \<Rightarrow> Inl (str ''strict provider input budget journal must be a new exclusive file: '' @ e)
      | None \<Rightarrow>
     (case alone (write_event (bo_event oi) (str ''initialized'') None False) fresh_budget of
        Some (s, Inr _) \<Rightarrow> Inr (Some (config, s))
      | Some (_, Inl e) \<Rightarrow> Inl e
      | None \<Rightarrow> Inr None)))"

definition budget_for_environment ::
  "'z budget_params \<Rightarrow> budget_open_io \<Rightarrow> 'z ProviderDraftInput_scheme \<Rightarrow> rstring \<Rightarrow> nat \<Rightarrow> rstring \<Rightarrow> rstring \<Rightarrow>
   read_env \<Rightarrow> BudgetEnvironment \<Rightarrow> rstring + (budget_config \<times> budget_state) option" where
  "budget_for_environment pr oi provider direction session_generation raw_model raw_protocol read e =
     reject_if (direction \<noteq> str ''inbound'')
       (str ''strict provider input budget permits only the inbound Watch route'')
     (let model = trim raw_model; protocol = trim raw_protocol
     in reject_if (model = []) (str ''strict provider input budget requires an actual provider model'')
     (reject_if (protocol = []) (str ''strict provider input budget requires an actual realtime protocol'')
     (case bp_parse_url pr (trim (pd_base_url provider)) of
        None \<Rightarrow> Inl (str ''strict provider input budget requires a valid provider baseUrl'')
      | Some endpoint \<Rightarrow>
     (case map_option to_ascii_lowercase (url_host endpoint) of
        None \<Rightarrow> Inl (str ''strict provider input budget requires a provider baseUrl with a hostname'')
      | Some endpoint_host \<Rightarrow>
     and_then (resolve_model_protocol_identity pr provider model protocol (be_strict_paid_authority e)
         (be_declared_model_protocol_profile_identity e)) (\<lambda>identity.
     and_then
       (if be_incident_replay_authority e
        then and_then (required_budget INCIDENT_ID_ENV (read INCIDENT_ID_ENV)) (\<lambda>incident_id.
          reject_if (incident_id \<noteq> INCIDENT_PLUS_ID)
            (str ''incident replay provider authority requires '' @ INCIDENT_ID_ENV @ str ''='' @ INCIDENT_PLUS_ID)
            (Inr (Some incident_id)))
        else Inr None) (\<lambda>incident_id.
     and_then
       (if be_local_single_session_authority e
        then validate_local_single_session pr provider endpoint session_generation (be_max_samples e) model protocol read
        else Inr ()) (\<lambda>_.
     and_then
       (if be_strict_paid_authority e \<or> be_incident_replay_authority e
        then validate_strict_authority provider endpoint endpoint_host e session_generation model protocol read
        else Inr ()) (\<lambda>_.
     and_then (media_end_from_environment read (be_strict_paid_authority e) (be_run_marker e) (be_cell_id e)
         (be_lease_id e) (be_max_samples e) session_generation) (\<lambda>media_end.
     open_budget oi
       \<lparr>bc_cell_id = be_cell_id e, bc_lease_id = be_lease_id e, bc_run_marker = be_run_marker e,
        bc_session_generation = session_generation, bc_strict_paid_authority = be_strict_paid_authority e,
        bc_incident_replay_authority = be_incident_replay_authority e,
        bc_local_single_session_authority = be_local_single_session_authority e, bc_incident_id = incident_id,
        bc_provider_id = trim (pd_provider_id provider), bc_template_id = trim (pd_template_id provider),
        bc_provider_kind = trim (pd_kind provider), bc_endpoint_host = endpoint_host,
        bc_credential_reference = trim (ar_reference (pd_auth_ref provider)),
        bc_auth_header_name = trim (ar_header_name (pd_auth_ref provider)),
        bc_auth_scheme = trim (ar_scheme (pd_auth_ref provider)),
        bc_custom_header_count = length (pd_custom_headers provider), bc_model = model, bc_protocol = protocol,
        bc_model_protocol_profile_identity = identity, bc_strict_media_end_authority = media_end,
        bc_max_samples = be_max_samples e\<rparr>)))))))))"

definition budget_from_environment ::
  "'z budget_params \<Rightarrow> budget_open_io \<Rightarrow> 'z ProviderDraftInput_scheme \<Rightarrow> rstring \<Rightarrow> nat \<Rightarrow> rstring \<Rightarrow> rstring \<Rightarrow>
   read_env \<Rightarrow> rstring + (budget_config \<times> budget_state) option" where
  "budget_from_environment pr oi provider direction session_generation model protocol read =
     (case read_budget_environment read of
        Inl e \<Rightarrow> Inl e
      | Inr None \<Rightarrow> Inr None
      | Inr (Some environment) \<Rightarrow>
          budget_for_environment pr oi provider direction session_generation model protocol read environment)"

section \<open>What an opened budget guarantees\<close>

lemma map_error_Inr [simp]: "map_error f r = Inr x \<longleftrightarrow> r = Inr x"
  by (auto simp: map_error_def split: sum.split)

lemma only_if_Inr: "(if c then r else Inr ()) = Inr u \<longleftrightarrow> (c \<longrightarrow> r = Inr ())"
  by simp

lemma unless_Inr: "(if c then Inr None else r) = Inr (Some x) \<longleftrightarrow> \<not> c \<and> r = Inr (Some x)"
  by simp

lemma check_fixed_Inr:
  "check_fixed fs = Inr () \<longleftrightarrow> list_all (\<lambda>(label, actual, expected, fixed). expected = fixed \<and> actual = expected) fs"
  by (induction fs rule: check_fixed.induct) auto

lemma read_budget_environment_Some:
  assumes "read_budget_environment read = Inr (Some e)"
  shows "0 < be_max_samples e" "be_max_samples e \<le> MAX_PROVIDER_INPUT_AUTHORITY_SAMPLES_budget"
    "length (filter id [be_strict_paid_authority e, be_incident_replay_authority e, be_local_single_session_authority e]) \<le> 1"
    "be_strict_paid_authority e \<Longrightarrow>
       strict_release_cell_max_samples (be_cell_id e) (read COMPLETION_POLICY_ENV) = Inr (be_max_samples e)"
  using assms unfolding read_budget_environment_def and_then_Inr reject_if_Inr map_error_Inr only_if_Inr unless_Inr
  by (auto simp del: str_def filter.simps)

lemma resolve_identity_Inr:
  assumes "resolve_model_protocol_identity pr provider model protocol strict declared = Inr identity"
  shows "mi_exact_model_id identity = model" "protocol = STRICT_LIVETRANSLATE_PROTOCOL"
  using assms by (auto simp: resolve_model_protocol_identity_def STRICT_LIVETRANSLATE_PROTOCOL_def simp del: str_def
      split: prod.splits option.splits if_splits)

lemma open_budget_Some:
  "open_budget oi config = Inr (Some (b, s)) \<Longrightarrow> b = config \<and> s = opened_budget (bo_event oi)"
  by (auto simp: open_budget_def opened_budget_def simp del: str_def split: option.splits prod.splits sum.splits)

lemma strict_authority_Inr:
  assumes "validate_strict_authority provider endpoint host e generation model protocol read = Inr ()"
  shows "0 < generation" "trim (pd_provider_id provider) = STRICT_PROVIDER_ID"
    "trim (pd_template_id provider) = STRICT_TEMPLATE_ID" "trim (pd_kind provider) = STRICT_PROVIDER_KIND"
    "trim (ar_reference (pd_auth_ref provider)) = STRICT_CREDENTIAL_REFERENCE" "pd_custom_headers provider = []"
    "is_tls_scheme endpoint" "\<not> has_credentials_or_port endpoint"
    "be_strict_paid_authority e \<Longrightarrow> split_double_colon (be_cell_id e) ! 1 = model"
    "be_strict_paid_authority e \<Longrightarrow> model \<noteq> STRICT_LIVETRANSLATE_MODEL_V2 \<Longrightarrow> host = STRICT_ENDPOINT_HOST"
    "\<not> be_strict_paid_authority e \<Longrightarrow> protocol = INCIDENT_PLUS_PROTOCOL"
  using assms by (auto simp: validate_strict_authority_def check_fixed_Inr Let_def simp del: str_def split: if_splits)

text \<open>
  C29: A budget is opened only for the session it was issued for. If opening succeeds, the route is the inbound
  one, the lease is positive and within the absolute ceiling, at most one authority is in force and never
  the incident one, the model is exactly the one the registry authorised and its protocol is the live
  translation; for a paid run the lease is exactly the one of the release cell, the cell names the
  model, and provider, template, kind, credential and endpoint are the fixed ones over TLS without user
  information, port or custom headers. From then on no schedule of any threads sends more than the
  ceiling.
\<close>

theorem opened_budget_matches_authority:
  assumes "budget_from_environment pr oi provider direction generation model protocol read = Inr (Some (b, s))"
  shows "direction = str ''inbound'' \<and> 0 < bc_max_samples b \<and> bc_max_samples b \<le> 2880000 \<and>
    \<not> bc_incident_replay_authority b \<and> \<not> (bc_strict_paid_authority b \<and> bc_local_single_session_authority b) \<and>
    bc_model b = mi_exact_model_id (bc_model_protocol_profile_identity b) \<and>
    bc_protocol b = STRICT_LIVETRANSLATE_PROTOCOL \<and>
    (bc_strict_paid_authority b \<longrightarrow>
       strict_release_cell_max_samples (bc_cell_id b) (read COMPLETION_POLICY_ENV) = Inr (bc_max_samples b) \<and>
       split_double_colon (bc_cell_id b) ! 1 = bc_model b \<and> 0 < bc_session_generation b \<and>
       bc_provider_id b = STRICT_PROVIDER_ID \<and> bc_template_id b = STRICT_TEMPLATE_ID \<and>
       bc_provider_kind b = STRICT_PROVIDER_KIND \<and> bc_credential_reference b = STRICT_CREDENTIAL_REFERENCE \<and>
       bc_custom_header_count b = 0 \<and>
       (bc_model b \<noteq> STRICT_LIVETRANSLATE_MODEL_V2 \<longrightarrow> bc_endpoint_host b = STRICT_ENDPOINT_HOST) \<and>
       (\<exists>u. bp_parse_url pr (trim (pd_base_url provider)) = Some u \<and> is_tls_scheme u \<and> \<not> has_credentials_or_port u)) \<and>
    sum_list (pb_sent (fst (runs sched_step (s, map (calls (budget_method b)) threads) schedule))) \<le> 2880000"
proof -
  have ceiling: "sum_list (pb_sent (fst (runs sched_step (opened_budget io, map (calls (budget_method b)) threads) schedule)))
      \<le> bc_max_samples b" for io
    using budget.every_schedule [of b io threads schedule] by (auto simp: budget_ok_def)
  obtain e where e: "read_budget_environment read = Inr (Some e)" and
    rest: "budget_for_environment pr oi provider direction generation model protocol read e = Inr (Some (b, s))"
    using assms by (auto simp: budget_from_environment_def split: sum.splits option.splits)
  obtain u host where u: "bp_parse_url pr (trim (pd_base_url provider)) = Some u"
    "map_option to_ascii_lowercase (url_host u) = Some host"
    using rest by (auto simp: budget_for_environment_def Let_def split: option.splits)
  obtain identity incident media where    dir: "direction = str ''inbound''"
    and identity: "resolve_model_protocol_identity pr provider (trim model) (trim protocol) (be_strict_paid_authority e)
      (be_declared_model_protocol_profile_identity e) = Inr identity"
    and strict: "be_strict_paid_authority e \<or> be_incident_replay_authority e \<Longrightarrow>
      validate_strict_authority provider u host e generation (trim model) (trim protocol) read = Inr ()"
    and opened: "open_budget oi \<lparr>bc_cell_id = be_cell_id e, bc_lease_id = be_lease_id e, bc_run_marker = be_run_marker e,
        bc_session_generation = generation, bc_strict_paid_authority = be_strict_paid_authority e,
        bc_incident_replay_authority = be_incident_replay_authority e,
        bc_local_single_session_authority = be_local_single_session_authority e, bc_incident_id = incident,
        bc_provider_id = trim (pd_provider_id provider), bc_template_id = trim (pd_template_id provider),
        bc_provider_kind = trim (pd_kind provider), bc_endpoint_host = host,
        bc_credential_reference = trim (ar_reference (pd_auth_ref provider)),
        bc_auth_header_name = trim (ar_header_name (pd_auth_ref provider)),
        bc_auth_scheme = trim (ar_scheme (pd_auth_ref provider)),
        bc_custom_header_count = length (pd_custom_headers provider), bc_model = trim model, bc_protocol = trim protocol,
        bc_model_protocol_profile_identity = identity, bc_strict_media_end_authority = media,
        bc_max_samples = be_max_samples e\<rparr> = Inr (Some (b, s))"
    using rest u by (auto simp: budget_for_environment_def Let_def only_if_Inr simp del: str_def map_option_eq_Some)
  note env = read_budget_environment_Some [OF e]
  have livetranslate: "trim protocol \<noteq> INCIDENT_PLUS_PROTOCOL"
    using resolve_identity_Inr(2) [OF identity] by (simp add: STRICT_LIVETRANSLATE_PROTOCOL_def INCIDENT_PLUS_PROTOCOL_def)
  have exclusive: "\<not> be_incident_replay_authority e" "\<not> (be_strict_paid_authority e \<and> be_local_single_session_authority e)"
    using env(3) strict_authority_Inr(11) [OF strict] livetranslate by (auto split: if_splits)
  from open_budget_Some [OF opened] env resolve_identity_Inr [OF identity] exclusive dir u ceiling [of "bo_event oi"]
    strict_authority_Inr [OF strict]
  show ?thesis
    by (auto simp: MAX_PROVIDER_INPUT_AUTHORITY_SAMPLES_budget_def simp del: str_def intro: order_trans)
qed

text \<open>
  The media end of a strict run is rounded up: speech is accepted as later than the reference exactly when it starts at or after
  the last reference frame has been played.
\<close>

lemma media_end_exact:
  assumes "media_end_from_environment read strict run_marker cell lease max_samples generation = Inr (Some a)"
    and "max_samples \<le> MAX_PROVIDER_INPUT_AUTHORITY_SAMPLES_budget"
  shows "authenticates_post_reference_start a t \<longleftrightarrow>
    me_authoritative_reference_frames a * 1000 \<le> t * PROVIDER_INPUT_SAMPLE_RATE_HZ"
proof -
  have a: "me_authoritative_reference_frames a \<le> max_samples" "me_input_sample_rate_hz a = 16000"
    using assms(1) unfolding media_end_from_environment_def
    by (auto simp: PROVIDER_INPUT_SAMPLE_RATE_HZ_def simp del: str_def split: if_splits)
  let ?n = "me_authoritative_reference_frames a * 1000"
  have "(?n + 15999) div 16000 \<le> u64_max"
    using a assms(2) by (simp add: MAX_PROVIDER_INPUT_AUTHORITY_SAMPLES_budget_def u64_max_def)
  then have "media_end_ms a = (?n + 15999) div 16000"
    using a by (simp add: media_end_ms_def)
  then show ?thesis
    by (auto simp: authenticates_post_reference_start_def PROVIDER_INPUT_SAMPLE_RATE_HZ_def)
qed

section \<open>A strict run\<close>

definition example_identity :: ModelProtocolProfileIdentityRuntime where
  "example_identity = (bc_model_protocol_profile_identity example_config)\<lparr>mi_exact_model_id := STRICT_LIVETRANSLATE_MODEL\<rparr>"

definition example_provider :: ProviderDraftInput where
  "example_provider = \<lparr>pd_template_id = STRICT_TEMPLATE_ID, pd_provider_id = STRICT_PROVIDER_ID,
     pd_kind = STRICT_PROVIDER_KIND, pd_model = STRICT_LIVETRANSLATE_MODEL,
     pd_base_url = str ''https://dashscope.aliyuncs.com/api/v1'', pd_transport = str ''websocket'',
     pd_auth_ref = \<lparr>ar_kind = str ''credential-ref'', ar_reference = STRICT_CREDENTIAL_REFERENCE,
       ar_header_name = str ''Authorization'', ar_scheme = str ''bearer''\<rparr>, pd_custom_headers = []\<rparr>"

definition example_params :: "unit budget_params" where
  "example_params = \<lparr>bp_parse_url = \<lambda>_. Some \<lparr>url_scheme = str ''https'', url_host = Some STRICT_ENDPOINT_HOST,
       url_username = [], url_password = None, url_port = None\<rparr>,
     bp_resolve_profile = \<lambda>_ model. (Some (example_identity\<lparr>mi_exact_model_id := model\<rparr>), None),
     bp_authorize_native = \<lambda>_. None, bp_decode_identity = \<lambda>_. Inr example_identity\<rparr>"

definition example_cell :: rstring where
  "example_cell = str ''pairwise-live::qwen3.5-livetranslate-flash-realtime::virtual-driver::default-speaker''"

definition strict_run :: read_env where
  "strict_run = map_of
     [(STRICT_PAID_AUTHORITY_ENV, str ''1''), (MAX_SAMPLES_ENV_budget, str ''2173045''),
      (LEDGER_PATH_ENV, str ''l''), (CELL_ID_ENV_budget, example_cell), (LEASE_ID_ENV_budget, str ''lease''),
      (RUN_MARKER_ENV_budget, str ''run''), (AUTOSTART_ENV_budget, str ''1''),
      (MODEL_PROTOCOL_PROFILE_IDENTITY_ENV, str ''{}''), (PCM_PATH_ENV, str ''p''),
      (MODEL_ENV, STRICT_LIVETRANSLATE_MODEL), (PROTOCOL_ENV, STRICT_LIVETRANSLATE_PROTOCOL),
      (EXPECTED_PROVIDER_ID_ENV, STRICT_PROVIDER_ID), (EXPECTED_TEMPLATE_ID_ENV, STRICT_TEMPLATE_ID),
      (EXPECTED_PROVIDER_KIND_ENV, STRICT_PROVIDER_KIND), (EXPECTED_ENDPOINT_HOST_ENV, STRICT_ENDPOINT_HOST),
      (EXPECTED_CREDENTIAL_REFERENCE_ENV, STRICT_CREDENTIAL_REFERENCE)]"

lemmas env_names = STRICT_PAID_AUTHORITY_ENV_def MAX_SAMPLES_ENV_budget_def LEDGER_PATH_ENV_def CELL_ID_ENV_budget_def
  LEASE_ID_ENV_budget_def RUN_MARKER_ENV_budget_def AUTOSTART_ENV_budget_def MODEL_PROTOCOL_PROFILE_IDENTITY_ENV_def
  PCM_PATH_ENV_def MODEL_ENV_def PROTOCOL_ENV_def EXPECTED_PROVIDER_ID_ENV_def EXPECTED_TEMPLATE_ID_ENV_def
  EXPECTED_PROVIDER_KIND_ENV_def EXPECTED_ENDPOINT_HOST_ENV_def EXPECTED_CREDENTIAL_REFERENCE_ENV_def
  INCIDENT_REPLAY_AUTHORITY_ENV_def LOCAL_SINGLE_SESSION_AUTHORITY_ENV_def COMPLETION_POLICY_ENV_def
  AUTHORITATIVE_REFERENCE_FRAMES_ENV_def

lemma str_nonempty: "str a \<noteq> [] \<longleftrightarrow> a \<noteq> []"
  by simp

lemma strict_run_values [simp]:
  "strict_run STRICT_PAID_AUTHORITY_ENV = Some (str ''1'')" "strict_run INCIDENT_REPLAY_AUTHORITY_ENV = None"
  "strict_run LOCAL_SINGLE_SESSION_AUTHORITY_ENV = None" "strict_run MAX_SAMPLES_ENV_budget = Some (str ''2173045'')"
  "strict_run LEDGER_PATH_ENV = Some (str ''l'')" "strict_run CELL_ID_ENV_budget = Some example_cell"
  "strict_run LEASE_ID_ENV_budget = Some (str ''lease'')" "strict_run RUN_MARKER_ENV_budget = Some (str ''run'')"
  "strict_run AUTOSTART_ENV_budget = Some (str ''1'')" "strict_run COMPLETION_POLICY_ENV = None"
  "strict_run MODEL_PROTOCOL_PROFILE_IDENTITY_ENV = Some (str ''{}'')" "strict_run PCM_PATH_ENV = Some (str ''p'')"
  "strict_run MODEL_ENV = Some STRICT_LIVETRANSLATE_MODEL" "strict_run PROTOCOL_ENV = Some STRICT_LIVETRANSLATE_PROTOCOL"
  "strict_run EXPECTED_PROVIDER_ID_ENV = Some STRICT_PROVIDER_ID"
  "strict_run EXPECTED_TEMPLATE_ID_ENV = Some STRICT_TEMPLATE_ID"
  "strict_run EXPECTED_PROVIDER_KIND_ENV = Some STRICT_PROVIDER_KIND"
  "strict_run EXPECTED_ENDPOINT_HOST_ENV = Some STRICT_ENDPOINT_HOST"
  "strict_run EXPECTED_CREDENTIAL_REFERENCE_ENV = Some STRICT_CREDENTIAL_REFERENCE"
  "strict_run AUTHORITATIVE_REFERENCE_FRAMES_ENV = None"
  by (simp_all add: strict_run_def env_names str_eq_iff del: str_def)

lemma trim_id: "x \<noteq> [] \<Longrightarrow> \<not> is_whitespace (hd x) \<Longrightarrow> \<not> is_whitespace (last x) \<Longrightarrow> trim x = x"
  by (cases x rule: rev_cases) (simp_all add: trim_def trim_start_idem_ws trim_end_snoc)

lemma trimmed_values [simp]:
  "trim (str ''1'') = str ''1''" "trim (str ''2173045'') = str ''2173045''" "trim (str ''l'') = str ''l''"
  "trim (str ''lease'') = str ''lease''" "trim (str ''run'') = str ''run''" "trim (str ''{}'') = str ''{}''"
  "trim (str ''p'') = str ''p''" "trim example_cell = example_cell"
  "trim STRICT_LIVETRANSLATE_MODEL = STRICT_LIVETRANSLATE_MODEL"
  "trim STRICT_LIVETRANSLATE_PROTOCOL = STRICT_LIVETRANSLATE_PROTOCOL" "trim STRICT_PROVIDER_ID = STRICT_PROVIDER_ID"
  "trim STRICT_TEMPLATE_ID = STRICT_TEMPLATE_ID" "trim STRICT_PROVIDER_KIND = STRICT_PROVIDER_KIND"
  "trim STRICT_ENDPOINT_HOST = STRICT_ENDPOINT_HOST" "trim STRICT_CREDENTIAL_REFERENCE = STRICT_CREDENTIAL_REFERENCE"
  by (rule trim_id; simp add: example_cell_def STRICT_LIVETRANSLATE_MODEL_def STRICT_LIVETRANSLATE_PROTOCOL_def
      STRICT_PROVIDER_ID_def STRICT_TEMPLATE_ID_def STRICT_PROVIDER_KIND_def STRICT_ENDPOINT_HOST_def
      STRICT_CREDENTIAL_REFERENCE_def is_whitespace_def)+

lemma constants_nonempty [simp]:
  "example_cell \<noteq> []" "STRICT_LIVETRANSLATE_MODEL \<noteq> []" "STRICT_LIVETRANSLATE_PROTOCOL \<noteq> []" "STRICT_PROVIDER_ID \<noteq> []"
  "STRICT_TEMPLATE_ID \<noteq> []" "STRICT_PROVIDER_KIND \<noteq> []" "STRICT_ENDPOINT_HOST \<noteq> []" "STRICT_CREDENTIAL_REFERENCE \<noteq> []"
  by (simp_all add: example_cell_def STRICT_LIVETRANSLATE_MODEL_def STRICT_LIVETRANSLATE_PROTOCOL_def
      STRICT_PROVIDER_ID_def STRICT_TEMPLATE_ID_def STRICT_PROVIDER_KIND_def STRICT_ENDPOINT_HOST_def
      STRICT_CREDENTIAL_REFERENCE_def)

lemma example_cell_parts: "split_double_colon example_cell =
    [str ''pairwise-live'', STRICT_LIVETRANSLATE_MODEL, str ''virtual-driver'', str ''default-speaker'']"
  by (simp add: example_cell_def STRICT_LIVETRANSLATE_MODEL_def)

lemma example_lease: "strict_release_cell_max_samples example_cell None = Inr 2173045"
  by (simp add: strict_release_cell_max_samples_def example_cell_parts is_some_and_def STRICT_ORDINARY_CELL_MAX_SAMPLES_def
      str_eq_iff del: str_def)

lemma lease_text: "parse_unsigned u64_max (str ''2173045'') = Inr 2173045"
  by (simp add: parse_unsigned_def u64_max_def)

definition strict_environment_values :: BudgetEnvironment where
  "strict_environment_values = \<lparr>be_max_samples = 2173045, be_ledger_path = str ''l'', be_cell_id = example_cell,
     be_lease_id = str ''lease'', be_run_marker = str ''run'', be_strict_paid_authority = True,
     be_incident_replay_authority = False, be_local_single_session_authority = False,
     be_declared_model_protocol_profile_identity = Some (str ''{}'')\<rparr>"

lemmas compute = and_then_def reject_if_def map_error_def read_authority_flag_def required_budget_def

lemma strict_environment_read: "read_budget_environment strict_run = Inr (Some strict_environment_values)"
  by (simp add: read_budget_environment_def compute example_lease lease_text str_eq_iff strict_environment_values_def
      MAX_PROVIDER_INPUT_AUTHORITY_SAMPLES_budget_def str_nonempty del: str_def and_then_Inr reject_if_Inr map_error_Inr)

definition example_endpoint :: url where
  "example_endpoint = \<lparr>url_scheme = str ''https'', url_host = Some STRICT_ENDPOINT_HOST,
       url_username = [], url_password = None, url_port = None\<rparr>"

lemma lower_host: "to_ascii_lowercase STRICT_ENDPOINT_HOST = STRICT_ENDPOINT_HOST"
  by (simp add: STRICT_ENDPOINT_HOST_def to_ascii_lowercase_def)

lemma example_identity_resolves:
  "resolve_model_protocol_identity example_params example_provider STRICT_LIVETRANSLATE_MODEL
     STRICT_LIVETRANSLATE_PROTOCOL True (Some (str ''{}'')) = Inr example_identity"
  by (simp add: resolve_model_protocol_identity_def example_params_def example_provider_def example_identity_def compute
      STRICT_LIVETRANSLATE_PROTOCOL_def str_nonempty del: str_def and_then_Inr reject_if_Inr map_error_Inr)

lemma example_strict_valid:
  "validate_strict_authority example_provider example_endpoint STRICT_ENDPOINT_HOST strict_environment_values 1
     STRICT_LIVETRANSLATE_MODEL STRICT_LIVETRANSLATE_PROTOCOL strict_run = Inr ()"
proof -
  have "STRICT_LIVETRANSLATE_MODEL \<noteq> STRICT_LIVETRANSLATE_MODEL_V2"
    by (simp add: STRICT_LIVETRANSLATE_MODEL_def STRICT_LIVETRANSLATE_MODEL_V2_def str_eq_iff del: str_def)
  moreover have "starts_with STRICT_CREDENTIAL_REFERENCE (str ''credential://'')"
    by (simp add: starts_with_def STRICT_CREDENTIAL_REFERENCE_def)
  ultimately show ?thesis
    by (simp add: validate_strict_authority_def compute Let_def strict_environment_values_def example_provider_def
        example_endpoint_def example_cell_parts lower_host is_tls_scheme_def has_credentials_or_port_def is_some_def
        str_nonempty del: str_def and_then_Inr reject_if_Inr map_error_Inr)
qed

definition example_open_io :: budget_open_io where
  "example_open_io = \<lparr>bo_ledger_failure = None, bo_journal_failure = None, bo_event = example_event_io\<rparr>"

lemma example_opens_budget: "\<exists>b s. budget_from_environment example_params example_open_io example_provider (str ''inbound'') 1
    STRICT_LIVETRANSLATE_MODEL STRICT_LIVETRANSLATE_PROTOCOL strict_run = Inr (Some (b, s)) \<and>
    bc_strict_paid_authority b \<and> bc_max_samples b = 2173045"
proof -
  have "\<exists>s. open_budget example_open_io config = Inr (Some (config, s))" for config
    by (simp add: open_budget_def example_open_io_def example_event_io_def write_event_def lock_journal_def
        load_counters_def append_line_def write_final_snapshot_def write_ledger_def ptry_def alone_pbind
        fresh_budget_def del: str_def)
  then have "open_budget example_open_io config = Inr (Some (config, opened_budget example_event_io))" for config
    using open_budget_Some [of example_open_io config] by (metis example_open_io_def budget_open_io.select_convs(3))
  moreover have "media_end_from_environment strict_run True run_marker cell lease n generation = Inr None"
    for run_marker cell lease n generation
    by (simp add: media_end_from_environment_def)
  moreover have "bp_parse_url example_params url = Some example_endpoint" "url_host example_endpoint = Some STRICT_ENDPOINT_HOST" for url
    by (simp_all add: example_params_def example_endpoint_def)
  moreover have "be_strict_paid_authority strict_environment_values" "\<not> be_incident_replay_authority strict_environment_values"
    "\<not> be_local_single_session_authority strict_environment_values" "be_max_samples strict_environment_values = 2173045"
    "be_declared_model_protocol_profile_identity strict_environment_values = Some (str ''{}'')"
    by (simp_all add: strict_environment_values_def)
  ultimately show ?thesis
    by (simp add: budget_from_environment_def strict_environment_read budget_for_environment_def compute Let_def lower_host
        example_identity_resolves example_strict_valid [unfolded One_nat_def]
        del: str_def and_then_Inr reject_if_Inr map_error_Inr)
qed

theorem opened_budget_matches_authority_witness:
  "\<exists>b s. budget_from_environment example_params example_open_io example_provider (str ''inbound'') 1
     STRICT_LIVETRANSLATE_MODEL STRICT_LIVETRANSLATE_PROTOCOL strict_run = Inr (Some (b, s)) \<and>
    bc_strict_paid_authority b \<and> bc_provider_id b = STRICT_PROVIDER_ID \<and>
    strict_release_cell_max_samples (bc_cell_id b) None = Inr 2173045 \<and>
    sum_list (pb_sent (fst (runs sched_step (s, map (calls (budget_method b)) [[DropBudget example_event_io]]) [0, 0]))) \<le> 2880000"
proof -
  obtain b s where b: "budget_from_environment example_params example_open_io example_provider (str ''inbound'') 1
      STRICT_LIVETRANSLATE_MODEL STRICT_LIVETRANSLATE_PROTOCOL strict_run = Inr (Some (b, s))"
    "bc_strict_paid_authority b" "bc_max_samples b = 2173045"
    using example_opens_budget by blast
  from opened_budget_matches_authority [OF b(1), of "[[DropBudget example_event_io]]" "[0, 0]"] b
  show ?thesis by (intro exI [of _ b] exI [of _ s]) (simp only: strict_run_values simp_thms)
qed

end
