(* ===== verification/Glossary.thy ===== *)
theory Glossary
  imports Byte_Strings Json "HOL-Library.Multiset"
begin

text \<open>
  The glossary (\<open>audio/glossary.rs\<close>): reading the configured libraries, selecting the entries of a language
  pair, the prompt that asks the provider to respect them, and the replacement that enforces them
  afterwards. The search works on byte offsets as the source does; a slice that would panic is an absent
  value. Whether a character is alphanumeric, and the hash of the signature, are parameters.
\<close>

section \<open>Data\<close>

datatype GlossaryProcessingMode = InjectAll | InjectImportant | PostCalibrate

definition DEFAULT_PROCESSING_MODE :: rstring where "DEFAULT_PROCESSING_MODE = str ''inject-important''"

definition mode_from_value :: "json option \<Rightarrow> GlossaryProcessingMode" where
  "mode_from_value v =
     (let name = unwrap_or DEFAULT_PROCESSING_MODE (Option.bind v as_str)
      in if name = str ''inject-all'' then InjectAll
         else if name = str ''post-calibrate'' then PostCalibrate
         else InjectImportant)"

record GlossaryEntry =
  ge_source_lang :: rstring
  ge_target_lang :: rstring
  ge_source_term :: rstring
  ge_target_term :: rstring
  ge_strategy :: rstring
  ge_important :: bool
  ge_case_sensitive :: bool
  ge_whole_word :: bool
  ge_aliases :: "rstring list"

record GlossaryCatalog =
  gc_processing_mode :: GlossaryProcessingMode
  gc_entries :: "GlossaryEntry list"

record GlossaryContext =
  gx_processing_mode :: GlossaryProcessingMode
  gx_entries :: "GlossaryEntry list"
  gx_prompt :: "rstring option"
  gx_signature :: nat

section \<open>Configuration\<close>

definition nonempty_trimmed :: "json option \<Rightarrow> rstring option" where
  "nonempty_trimmed v =
     (case map_option trim (Option.bind v as_str) of
        Some t \<Rightarrow> if t \<noteq> [] then Some t else None
      | None \<Rightarrow> None)"

definition trimmed_or :: "rstring \<Rightarrow> json option \<Rightarrow> rstring" where
  "trimmed_or d v = trim (unwrap_or d (Option.bind v as_str))"

definition parse_entry :: "json \<Rightarrow> GlossaryEntry option" where
  "parse_entry v =
     (case nonempty_trimmed (json_get (str ''sourceTerm'') v) of
        None \<Rightarrow> None
      | Some source_term \<Rightarrow>
     (case nonempty_trimmed (json_get (str ''targetTerm'') v) of
        None \<Rightarrow> None
      | Some target_term \<Rightarrow>
          Some \<lparr>ge_source_lang = trimmed_or (str ''auto'') (json_get (str ''sourceLang'') v),
            ge_target_lang = trimmed_or (str ''auto'') (json_get (str ''targetLang'') v),
            ge_source_term = source_term, ge_target_term = target_term,
            ge_strategy = trimmed_or (str ''suggest'') (json_get (str ''strategy'') v),
            ge_important = unwrap_or False (Option.bind (json_get (str ''important'') v) as_bool),
            ge_case_sensitive = unwrap_or False (Option.bind (json_get (str ''caseSensitive'') v) as_bool),
            ge_whole_word = unwrap_or False (Option.bind (json_get (str ''wholeWord'') v) as_bool),
            ge_aliases = filter (\<lambda>t. t \<noteq> []) (map trim (List.map_filter as_str
              (unwrap_or [] (Option.bind (json_get (str ''aliases'') v) as_array))))\<rparr>))"

definition library_priority :: "json \<Rightarrow> int" where
  "library_priority library = unwrap_or i64_max (Option.bind (json_get (str ''priority'') library) as_i64)"

definition library_enabled :: "json \<Rightarrow> bool" where
  "library_enabled library = unwrap_or False (Option.bind (json_get (str ''enabled'') library) as_bool)"

definition library_entries :: "json \<Rightarrow> GlossaryEntry list" where
  "library_entries library =
     List.map_filter parse_entry (unwrap_or [] (Option.bind (json_get (str ''entries'') library) as_array))"

definition from_config :: "json \<Rightarrow> GlossaryCatalog" where
  "from_config config =
     (let glossary = json_get (str ''glossary'') config;
          libraries = unwrap_or [] (Option.bind (Option.bind glossary (json_get (str ''libraries''))) as_array)
      in \<lparr>gc_processing_mode = mode_from_value (Option.bind glossary (json_get (str ''processingMode''))),
          gc_entries = concat (map library_entries (filter library_enabled (sort_key library_priority libraries)))\<rparr>)"

definition base_language :: "rstring \<Rightarrow> rstring" where
  "base_language tag = hd (split_on (\<lambda>c. c = 45 \<or> c = 95) tag)"

definition language_matches :: "rstring \<Rightarrow> rstring \<Rightarrow> bool" where
  "language_matches raw_configured raw_requested =
     (let configured = to_ascii_lowercase (trim raw_configured); requested = to_ascii_lowercase (trim raw_requested)
      in if configured = [] \<or> configured = str ''auto'' \<or> requested = [] \<or> requested = str ''auto'' then True
         else configured = requested \<or> base_language configured = base_language requested)"

section \<open>The prompt\<close>

text \<open>\<open>str::replace\<close> of one character.\<close>

definition replace_char :: "rchar \<Rightarrow> rstring \<Rightarrow> rstring \<Rightarrow> rstring" where
  "replace_char c s x = concat (map (\<lambda>d. if d = c then s else [d]) x)"

definition quote :: "rstring \<Rightarrow> rstring" where
  "quote x = [34] @ replace_char 34 [92, 34] (replace_char 13 (92 # str ''r'')
     (replace_char 10 (92 # str ''n'') (replace_char 92 [92, 92] x))) @ [34]"

definition prompt_selects :: "GlossaryProcessingMode \<Rightarrow> GlossaryEntry \<Rightarrow> bool" where
  "prompt_selects mode e = (case mode of InjectAll \<Rightarrow> True | InjectImportant \<Rightarrow> ge_important e | PostCalibrate \<Rightarrow> False)"

definition prompt_header :: rstring where
  "prompt_header = str ''Glossary rules (apply these to the source text; never mention the glossary and output only the translation):''"

definition prompt_line :: "GlossaryEntry \<Rightarrow> rstring" where
  "prompt_line e =
     (let strategy = (if ge_strategy e = str ''force'' then str ''FORCE''
                      else if ge_strategy e = str ''keep'' then str ''KEEP'' else str ''SUGGEST'');
          matching = (if ge_whole_word e then str ''whole-word matching'' else str ''phrase matching'');
          sensitivity = (if ge_case_sensitive e then str ''case-sensitive'' else str ''case-insensitive'');
          aliases = (if ge_aliases e = [] then [] else str ''; aliases: '' @ join (str '', '') (map quote (ge_aliases e)))
      in 10 # str ''- ['' @ strategy @ str ''] '' @ quote (ge_source_term e) @ str '' -> '' @ quote (ge_target_term e) @
         str '' ('' @ matching @ str '', '' @ sensitivity @ aliases @ str ''; '' @ ge_source_lang e @ str '' -> '' @
         ge_target_lang e @ str '')'')"

definition build_prompt :: "GlossaryProcessingMode \<Rightarrow> GlossaryEntry list \<Rightarrow> rstring option" where
  "build_prompt mode entries =
     (let selected = filter (prompt_selects mode) entries
      in if selected = [] then None else Some (prompt_header @ concat (map prompt_line selected)))"

definition context_new ::
  "(GlossaryProcessingMode \<Rightarrow> GlossaryEntry list \<Rightarrow> nat) \<Rightarrow> GlossaryProcessingMode \<Rightarrow> GlossaryEntry list \<Rightarrow> GlossaryContext" where
  "context_new hash mode entries =
     \<lparr>gx_processing_mode = mode, gx_entries = entries, gx_prompt = build_prompt mode entries,
      gx_signature = hash mode entries\<rparr>"

definition for_languages ::
  "(GlossaryProcessingMode \<Rightarrow> GlossaryEntry list \<Rightarrow> nat) \<Rightarrow> GlossaryCatalog \<Rightarrow> rstring \<Rightarrow> rstring \<Rightarrow> GlossaryContext" where
  "for_languages hash catalog source_language target_language =
     context_new hash (gc_processing_mode catalog)
       (filter (\<lambda>e. language_matches (ge_source_lang e) source_language \<and>
          language_matches (ge_target_lang e) target_language) (gc_entries catalog))"

definition with_instructions :: "GlossaryContext \<Rightarrow> rstring \<Rightarrow> rstring" where
  "with_instructions x instructions =
     (case gx_prompt x of
        Some prompt \<Rightarrow> if trim instructions \<noteq> [] then instructions @ [10, 10] @ prompt else prompt
      | None \<Rightarrow> instructions)"

section \<open>Matching\<close>

definition eq_ignore_ascii_case :: "rchar \<Rightarrow> rchar \<Rightarrow> bool" where
  "eq_ignore_ascii_case a b \<longleftrightarrow> to_ascii_lowercase [a] = to_ascii_lowercase [b]"

definition char_matches :: "bool \<Rightarrow> rchar \<Rightarrow> rchar \<Rightarrow> bool" where
  "char_matches case_sensitive actual expected =
     (\<not> (case_sensitive \<and> actual \<noteq> expected \<or> \<not> case_sensitive \<and> \<not> eq_ignore_ascii_case actual expected))"

text \<open>The loop over the needle; \<open>text.get(cursor..)?\<close> returns early, so no slice panics here.\<close>

fun match_cursor :: "rstring \<Rightarrow> bool \<Rightarrow> nat \<Rightarrow> rstring \<Rightarrow> nat option" where
  "match_cursor txt case_sensitive cursor [] = Some cursor"
| "match_cursor txt case_sensitive cursor (expected # needle) =
     (case slice_from cursor txt of
        Some (actual # _) \<Rightarrow>
          if char_matches case_sensitive actual expected
          then match_cursor txt case_sensitive (cursor + len_utf8 actual) needle
          else None
      | _ \<Rightarrow> None)"

definition match_len_at :: "rstring \<Rightarrow> nat \<Rightarrow> rstring \<Rightarrow> bool \<Rightarrow> nat option" where
  "match_len_at txt start needle case_sensitive =
     (if needle = [] then None
      else map_option (\<lambda>cursor. cursor - start) (match_cursor txt case_sensitive start needle))"

definition is_word_char :: "(rchar \<Rightarrow> bool) \<Rightarrow> rchar option \<Rightarrow> bool" where
  "is_word_char alphanumeric v = is_some_and v (\<lambda>c. alphanumeric c \<or> c = 95)"

definition next_back :: "rstring \<Rightarrow> rchar option" where
  "next_back s = (if s = [] then None else Some (last s))"

definition next_char :: "rstring \<Rightarrow> rchar option" where
  "next_char s = (if s = [] then None else Some (hd s))"

definition is_match_at ::
  "(rchar \<Rightarrow> bool) \<Rightarrow> rstring \<Rightarrow> nat \<Rightarrow> rstring \<Rightarrow> bool \<Rightarrow> bool \<Rightarrow> nat option option" where
  "is_match_at alphanumeric txt start needle case_sensitive whole_word =
     (case match_len_at txt start needle case_sensitive of
        None \<Rightarrow> Some None
      | Some len \<Rightarrow>
          if whole_word
          then (case (slice_to start txt, slice_from (start + len) txt) of
                  (Some prior, Some rest) \<Rightarrow>
                    Some (if is_word_char alphanumeric (next_back prior) \<or> is_word_char alphanumeric (next_char rest)
                          then None else Some len)
                | _ \<Rightarrow> None)
          else Some (Some len))"

text \<open>\<open>Iterator::any\<close> stops at the first match, and at a panic.\<close>

fun any_match :: "('a \<Rightarrow> bool option) \<Rightarrow> 'a list \<Rightarrow> bool option" where
  "any_match p [] = Some False"
| "any_match p (x # xs) = (case p x of None \<Rightarrow> None | Some True \<Rightarrow> Some True | Some False \<Rightarrow> any_match p xs)"

definition contains_match :: "(rchar \<Rightarrow> bool) \<Rightarrow> rstring \<Rightarrow> rstring \<Rightarrow> bool \<Rightarrow> bool \<Rightarrow> bool option" where
  "contains_match alphanumeric txt needle case_sensitive whole_word =
     (if needle = [] then Some False
      else any_match (\<lambda>(start, _). map_option is_some (is_match_at alphanumeric txt start needle case_sensitive whole_word))
        (char_indices txt))"

lemma match_cursor_ge: "match_cursor txt cs cursor needle = Some e \<Longrightarrow> cursor + length needle \<le> e"
proof (induction needle arbitrary: cursor)
  case (Cons x needle)
  then obtain a rest where "slice_from cursor txt = Some (a # rest)"
    and rest: "match_cursor txt cs (cursor + len_utf8 a) needle = Some e"
    by (auto split: option.splits list.splits if_splits)
  have "cursor + len_utf8 a + length needle \<le> e" by (rule Cons.IH [OF rest])
  with len_utf8_pos [of a] show ?case by (simp del: len_utf8_pos)
qed simp

lemma match_len_at_pos: "match_len_at txt start needle cs = Some n \<Longrightarrow> 0 < n"
  using match_cursor_ge [of "txt" cs start needle] by (cases needle) (auto simp: match_len_at_def simp del: match_cursor.simps)

lemma is_match_at_pos: "is_match_at alnum txt start needle cs ww = Some (Some n) \<Longrightarrow> 0 < n"
  by (auto simp: is_match_at_def dest: match_len_at_pos split: option.splits if_splits)

function replace_loop ::
  "(rchar \<Rightarrow> bool) \<Rightarrow> rstring \<Rightarrow> rstring \<Rightarrow> rstring \<Rightarrow> bool \<Rightarrow> bool \<Rightarrow> nat \<Rightarrow> rstring \<Rightarrow> rstring option" where
  "replace_loop alphanumeric txt needle replacement case_sensitive whole_word cursor out =
     (if cursor < byte_len txt
      then (case is_match_at alphanumeric txt cursor needle case_sensitive whole_word of
              None \<Rightarrow> None
            | Some (Some len) \<Rightarrow>
                replace_loop alphanumeric txt needle replacement case_sensitive whole_word (cursor + len)
                  (out @ replacement)
            | Some None \<Rightarrow>
                (case slice_from cursor txt of
                   Some (c # _) \<Rightarrow>
                     replace_loop alphanumeric txt needle replacement case_sensitive whole_word (cursor + len_utf8 c)
                       (out @ [c])
                 | _ \<Rightarrow> None))
      else Some out)"
  by pat_completeness auto
termination
  by (relation "measure (\<lambda>(_, txt, _, _, _, _, cursor, _). byte_len txt - cursor)")
    (auto dest: is_match_at_pos intro: diff_less_mono2)

declare replace_loop.simps [simp del]

definition replace_matches ::
  "(rchar \<Rightarrow> bool) \<Rightarrow> rstring \<Rightarrow> rstring \<Rightarrow> rstring \<Rightarrow> bool \<Rightarrow> bool \<Rightarrow> rstring option" where
  "replace_matches alphanumeric txt needle replacement case_sensitive whole_word =
     (if needle = [] then Some txt
      else replace_loop alphanumeric txt needle replacement case_sensitive whole_word 0 [])"

section \<open>Calibration\<close>

definition calibrates :: "GlossaryProcessingMode \<Rightarrow> GlossaryEntry \<Rightarrow> bool" where
  "calibrates mode e \<longleftrightarrow>
     \<not> (mode = InjectImportant \<and> \<not> ge_important e \<or> ge_strategy e = str ''keep'' \<or>
        ge_strategy e \<noteq> str ''force'' \<and> mode \<noteq> PostCalibrate)"

definition needles :: "GlossaryEntry \<Rightarrow> rstring list" where
  "needles e = sort_key (\<lambda>t. - int (length t)) (filter (\<lambda>t. trim t \<noteq> []) (ge_source_term e # ge_aliases e))"

fun calibrate_needles :: "(rchar \<Rightarrow> bool) \<Rightarrow> rstring \<Rightarrow> GlossaryEntry \<Rightarrow> rstring list \<Rightarrow> rstring \<Rightarrow> rstring option" where
  "calibrate_needles alphanumeric source_text e [] calibrated = Some calibrated"
| "calibrate_needles alphanumeric source_text e (needle # rest) calibrated =
     (case contains_match alphanumeric source_text needle (ge_case_sensitive e) (ge_whole_word e) of
        None \<Rightarrow> None
      | Some False \<Rightarrow> calibrate_needles alphanumeric source_text e rest calibrated
      | Some True \<Rightarrow>
          (case replace_matches alphanumeric calibrated needle (ge_target_term e) (ge_case_sensitive e) (ge_whole_word e) of
             None \<Rightarrow> None
           | Some calibrated' \<Rightarrow> calibrate_needles alphanumeric source_text e rest calibrated'))"

fun calibrate_entries ::
  "(rchar \<Rightarrow> bool) \<Rightarrow> GlossaryProcessingMode \<Rightarrow> rstring \<Rightarrow> GlossaryEntry list \<Rightarrow> rstring \<Rightarrow> rstring option" where
  "calibrate_entries alphanumeric mode source_text [] calibrated = Some calibrated"
| "calibrate_entries alphanumeric mode source_text (e # rest) calibrated =
     (if \<not> calibrates mode e then calibrate_entries alphanumeric mode source_text rest calibrated
      else case calibrate_needles alphanumeric source_text e (needles e) calibrated of
        None \<Rightarrow> None
      | Some calibrated' \<Rightarrow> calibrate_entries alphanumeric mode source_text rest calibrated')"

definition calibrate :: "(rchar \<Rightarrow> bool) \<Rightarrow> GlossaryContext \<Rightarrow> rstring \<Rightarrow> rstring \<Rightarrow> rstring option" where
  "calibrate alphanumeric x source_text translated_text =
     (if trim translated_text = [] then Some translated_text
      else calibrate_entries alphanumeric (gx_processing_mode x) source_text (gx_entries x) translated_text)"

section \<open>What matching and replacing mean\<close>

text \<open>
  The same on characters: \<open>matches_at\<close> says that the needle matches between the text before and the text
  from a position, \<open>replace_spec\<close> replaces the leftmost matches one after the other.
\<close>

definition matches_at :: "(rchar \<Rightarrow> bool) \<Rightarrow> bool \<Rightarrow> bool \<Rightarrow> rstring \<Rightarrow> rstring \<Rightarrow> rstring \<Rightarrow> bool" where
  "matches_at alphanumeric case_sensitive whole_word needle prior rest \<longleftrightarrow>
     needle \<noteq> [] \<and> length needle \<le> length rest \<and>
     list_all2 (char_matches case_sensitive) (take (length needle) rest) needle \<and>
     (whole_word \<longrightarrow> \<not> is_word_char alphanumeric (next_back prior) \<and>
        \<not> is_word_char alphanumeric (next_char (drop (length needle) rest)))"

function replace_spec ::
  "(rchar \<Rightarrow> bool) \<Rightarrow> bool \<Rightarrow> bool \<Rightarrow> rstring \<Rightarrow> rstring \<Rightarrow> rstring \<Rightarrow> rstring \<Rightarrow> rstring" where
  "replace_spec alphanumeric case_sensitive whole_word needle replacement prior [] = []"
| "replace_spec alphanumeric case_sensitive whole_word needle replacement prior (c # rest) =
     (if matches_at alphanumeric case_sensitive whole_word needle prior (c # rest)
      then replacement @ replace_spec alphanumeric case_sensitive whole_word needle replacement
        (prior @ take (length needle) (c # rest)) (drop (length needle) (c # rest))
      else c # replace_spec alphanumeric case_sensitive whole_word needle replacement (prior @ [c]) rest)"
  by pat_completeness auto
termination
  by (relation "measure (\<lambda>(_, _, _, _, _, _, rest). length rest)") (auto simp: matches_at_def)

declare replace_spec.simps(2) [simp del]

lemma slice_from_at [simp]: "slice_from (byte_len h) (h @ t) = Some t"
  by (simp add: slice_from_def)

lemma slice_from_end [simp]: "slice_from (byte_len h) h = Some []"
  using slice_from_at [of h "[]"] by simp

lemma slice_to_at [simp]: "slice_to (byte_len h) (h @ t) = Some h"
  by (simp add: slice_to_def)

lemma match_cursor_at:
  "match_cursor (h @ t) cs (byte_len h) needle =
     (if length needle \<le> length t \<and> list_all2 (char_matches cs) (take (length needle) t) needle
      then Some (byte_len h + byte_len (take (length needle) t)) else None)"
proof (induction needle arbitrary: h t)
  case (Cons x needle)
  show ?case
  proof (cases t)
    case t: (Cons a t')
    with Cons.IH [of "h @ [a]" t'] show ?thesis by simp
  qed simp
qed simp

lemma is_match_at_iff:
  "is_match_at alnum (h @ t) (byte_len h) needle cs ww =
     Some (if matches_at alnum cs ww needle h t then Some (byte_len (take (length needle) t)) else None)"
proof -
  have "slice_from (byte_len h + byte_len (take n t)) (h @ t) = Some (drop n t)" for n
    using slice_from_at [of "h @ take n t" "drop n t"] by simp
  then show ?thesis
    by (auto simp: is_match_at_def match_len_at_def match_cursor_at matches_at_def)
qed

lemma replace_loop_spec:
  "replace_loop alnum (h @ t) needle repl cs ww (byte_len h) out =
     Some (out @ replace_spec alnum cs ww needle repl h t)"
proof (induction t arbitrary: h out rule: length_induct)
  case (1 t)
  show ?case
  proof (cases t)
    case Nil
    then show ?thesis by (simp add: replace_loop.simps)
  next
    case (Cons c rest)
    let ?n = "length needle"
    show ?thesis
    proof (cases "matches_at alnum cs ww needle h t")
      case True
      then have "length (drop ?n t) < length t" by (auto simp: matches_at_def Cons)
      with 1 have "replace_loop alnum ((h @ take ?n t) @ drop ?n t) needle repl cs ww (byte_len (h @ take ?n t)) (out @ repl) =
          Some ((out @ repl) @ replace_spec alnum cs ww needle repl (h @ take ?n t) (drop ?n t))" by blast
      with True Cons show ?thesis
        by (subst replace_loop.simps) (simp add: is_match_at_iff replace_spec.simps)
    next
      case False
      from Cons have "length rest < length t" by simp
      with 1 have "replace_loop alnum ((h @ [c]) @ rest) needle repl cs ww (byte_len (h @ [c])) (out @ [c]) =
          Some ((out @ [c]) @ replace_spec alnum cs ww needle repl (h @ [c]) rest)" by blast
      with False Cons show ?thesis
        by (subst replace_loop.simps) (simp add: is_match_at_iff replace_spec.simps)
    qed
  qed
qed

lemma replace_matches_spec:
  "replace_matches alnum txt needle repl cs ww =
     Some (if needle = [] then txt else replace_spec alnum cs ww needle repl [] txt)"
  using replace_loop_spec [of alnum "[]" "txt" needle repl cs ww "[]"] by (simp add: replace_matches_def)

fun occurs_from :: "(rchar \<Rightarrow> bool) \<Rightarrow> bool \<Rightarrow> bool \<Rightarrow> rstring \<Rightarrow> rstring \<Rightarrow> rstring \<Rightarrow> bool" where
  "occurs_from alphanumeric case_sensitive whole_word needle prior [] = False"
| "occurs_from alphanumeric case_sensitive whole_word needle prior (c # rest) \<longleftrightarrow>
     matches_at alphanumeric case_sensitive whole_word needle prior (c # rest) \<or>
     occurs_from alphanumeric case_sensitive whole_word needle (prior @ [c]) rest"

lemma any_match_from:
  "any_match (\<lambda>(start, _). map_option is_some (is_match_at alnum (h @ t) start needle cs ww))
     (char_indices_from (byte_len h) t) = Some (occurs_from alnum cs ww needle h t)"
proof (induction t arbitrary: h)
  case (Cons c t)
  from Cons [of "h @ [c]"] show ?case by (simp add: is_match_at_iff is_some_def)
qed simp

lemma contains_match_spec:
  "contains_match alnum haystack needle cs ww = Some (needle \<noteq> [] \<and> occurs_from alnum cs ww needle [] haystack)"
  using any_match_from [of alnum "[]" haystack needle cs ww] by (simp add: contains_match_def char_indices_def)

lemma needles_nonempty: "n \<in> set (needles e) \<Longrightarrow> n \<noteq> []"
  by (auto simp: needles_def split: if_splits)

text \<open>
  The entries that calibration enforces, and the terms of an entry, longest first: one class of terms
  per length, from the longest length down, in each class the order of the entry.
\<close>

definition enforced :: "GlossaryProcessingMode \<Rightarrow> GlossaryEntry \<Rightarrow> bool" where
  "enforced mode e = (case mode of
     InjectAll \<Rightarrow> ge_strategy e = str ''force''
   | InjectImportant \<Rightarrow> ge_important e \<and> ge_strategy e = str ''force''
   | PostCalibrate \<Rightarrow> ge_strategy e \<noteq> str ''keep'')"

definition by_length :: "nat \<Rightarrow> rstring list \<Rightarrow> rstring list" where
  "by_length n ts = concat (map (\<lambda>k. filter (\<lambda>t. length t = k) ts) (rev [0..<n]))"

definition terms_longest_first :: "GlossaryEntry \<Rightarrow> rstring list" where
  "terms_longest_first e =
     (let ts = filter (\<lambda>t. trim t \<noteq> []) (ge_source_term e # ge_aliases e)
      in by_length (Suc (foldr max (map length ts) 0)) ts)"

lemma enforced_calibrates: "calibrates = enforced"
  by (intro ext) (auto simp: calibrates_def enforced_def str_eq_iff simp del: str_def split: GlossaryProcessingMode.split)

lemma mset_by_length: "mset (by_length n ts) = mset (filter (\<lambda>t. length t < n) ts)"
proof (induction n)
  case (Suc n)
  have "mset (filter (\<lambda>t. length t < Suc n) ts) =
      mset (filter (\<lambda>t. length t = n) ts) + mset (filter (\<lambda>t. length t < n) ts)"
    by (induction ts) (auto simp: less_Suc_eq)
  with Suc show ?case by (simp add: by_length_def)
qed (simp add: by_length_def)

lemma by_length_class:
  "filter (\<lambda>t. k = length t) (by_length n ts) = (if k < n then filter (\<lambda>t. k = length t) ts else [])"
proof (induction n)
  case (Suc n)
  then show ?case by (auto simp: by_length_def less_Suc_eq eq_commute [of k] filter_empty_conv intro: filter_cong)
qed (simp add: by_length_def)

lemma by_length_sorted: "sorted (map (\<lambda>t. - int (length t)) (by_length n ts))"
proof (induction n)
  case (Suc n)
  have "\<forall>t\<in>set (by_length n ts). length t < n" by (auto simp: by_length_def)
  moreover have "by_length (Suc n) ts = filter (\<lambda>t. length t = n) ts @ by_length n ts" by (simp add: by_length_def)
  moreover have "sorted (map (\<lambda>t. - int (length t)) (filter (\<lambda>t. length t = n) ts))"
    by (induction ts) auto
  ultimately show ?case using Suc by (auto simp: sorted_append)
qed (simp add: by_length_def)

lemma length_le_longest: "t \<in> set ts \<Longrightarrow> length t < Suc (foldr max (map length ts) 0)"
  by (induction ts) auto

lemma needles_longest_first: "needles e = terms_longest_first e"
proof -
  let ?ts = "filter (\<lambda>t. trim t \<noteq> []) (ge_source_term e # ge_aliases e)"
  let ?n = "Suc (foldr max (map length ?ts) 0)"
  have all: "filter (\<lambda>t. length t < ?n) ?ts = ?ts" using length_le_longest [of _ ?ts] by (intro filter_True) blast
  have "sort_key (\<lambda>t. - int (length t)) ?ts = by_length ?n ?ts"
  proof (rule properties_for_sort_key)
    show "mset (by_length ?n ?ts) = mset ?ts" unfolding mset_by_length all ..
    fix k assume "k \<in> set (by_length ?n ?ts)"
    then have "length k < ?n" by (auto simp: by_length_def)
    then show "filter (\<lambda>x. - int (length k) = - int (length x)) (by_length ?n ?ts) =
        filter (\<lambda>x. - int (length k) = - int (length x)) ?ts"
      using by_length_class [of "length k" ?n ?ts] by simp
  qed (rule by_length_sorted)
  then show ?thesis by (simp only: needles_def terms_longest_first_def Let_def)
qed

text \<open>The replacements a text is due, in their order.\<close>

definition due :: "(rchar \<Rightarrow> bool) \<Rightarrow> rstring \<Rightarrow> GlossaryEntry \<Rightarrow> (GlossaryEntry \<times> rstring) list" where
  "due alphanumeric source_text e = map (\<lambda>n. (e, n))
     (filter (\<lambda>n. occurs_from alphanumeric (ge_case_sensitive e) (ge_whole_word e) n [] source_text) (terms_longest_first e))"

definition replace_due :: "(rchar \<Rightarrow> bool) \<Rightarrow> rstring \<Rightarrow> GlossaryEntry \<times> rstring \<Rightarrow> rstring" where
  "replace_due alphanumeric translated = (\<lambda>(e, n).
     replace_spec alphanumeric (ge_case_sensitive e) (ge_whole_word e) n (ge_target_term e) [] translated)"

lemma calibrate_needles_spec:
  assumes "\<And>n. n \<in> set ns \<Longrightarrow> n \<noteq> []"
  shows "calibrate_needles alnum source_text e ns translated =
    Some (foldl (replace_due alnum) translated (map (\<lambda>n. (e, n))
      (filter (\<lambda>n. occurs_from alnum (ge_case_sensitive e) (ge_whole_word e) n [] source_text) ns)))"
  using assms
  by (induction ns arbitrary: translated) (auto simp: contains_match_spec replace_matches_spec replace_due_def)

lemma calibrate_entries_spec:
  "calibrate_entries alnum mode source_text es translated =
     Some (foldl (replace_due alnum) translated (concat (map (due alnum source_text) (filter (enforced mode) es))))"
  by (induction es arbitrary: translated)
    (simp_all add: calibrate_needles_spec needles_nonempty due_def enforced_calibrates
      needles_longest_first [symmetric])

text \<open>
  C30: Calibration never panics, ends, and is exactly this: unless the translation is blank, for each
  entry the mode enforces (the forced ones, only the important of them in the important mode, and in
  the calibrating mode every entry that is not kept), in the order of the selected entries, and for
  each of its terms that occurs in the source text, the longest first and equally long ones in the
  order of the entry, the leftmost matches in the translation are replaced by the target term.
  Matching respects case and word boundaries as the entry demands, on whole characters although
  the code works on byte offsets. The enforced entries and the order of the terms are stated
  independently of the code: no sorting, one class of terms per length.
\<close>

theorem calibrate_replaces_due_terms:
  "calibrate alnum x source_text translated =
     Some (if trim translated = [] then translated
       else foldl (replace_due alnum) translated
         (concat (map (due alnum source_text) (filter (enforced (gx_processing_mode x)) (gx_entries x)))))"
  by (simp add: calibrate_def calibrate_entries_spec)

section \<open>Quoting\<close>

text \<open>The four replacements are one pass, and a quoted term can be read back.\<close>

definition escape :: "rchar \<Rightarrow> rstring" where
  "escape c = (if c = 92 then [92, 92] else if c = 10 then 92 # str ''n'' else if c = 13 then 92 # str ''r''
     else if c = 34 then [92, 34] else [c])"

lemma replace_char_simps [simp]:
  "replace_char c s [] = []" "replace_char c s (d # x) = (if d = c then s else [d]) @ replace_char c s x"
  "replace_char c s (x @ y) = replace_char c s x @ replace_char c s y"
  by (simp_all add: replace_char_def)

lemma quote_escape: "quote x = 34 # concat (map escape x) @ [34]"
proof -
  have "replace_char 34 [92, 34] (replace_char 13 (92 # str ''r'') (replace_char 10 (92 # str ''n'')
      (replace_char 92 [92, 92] x))) = concat (map escape x)"
    by (induction x) (auto simp: escape_def)
  then show ?thesis by (simp add: quote_def)
qed

fun unquote_body :: "rstring \<Rightarrow> (rstring \<times> rstring) option" where
  "unquote_body [] = None"
| "unquote_body (c # cs) =
     (if c = 34 then Some ([], cs)
      else if c = 92 then
        (case cs of
           [] \<Rightarrow> None
         | d # ds \<Rightarrow> map_option (\<lambda>(x, rest). ((if d = 110 then 10 else if d = 114 then 13 else d) # x, rest)) (unquote_body ds))
      else map_option (\<lambda>(x, rest). (c # x, rest)) (unquote_body cs))"

lemma unquote_escape: "unquote_body (escape c @ y) = map_option (\<lambda>(x, rest). (c # x, rest)) (unquote_body y)"
  by (auto simp: escape_def)

lemma quote_round_trip: "\<exists>y. quote x @ z = 34 # y \<and> unquote_body y = Some (x, z)"
proof -
  have "unquote_body (concat (map escape x) @ 34 # z) = Some (x, z)"
    by (induction x) (simp_all add: unquote_escape)
  then show ?thesis by (simp add: quote_escape)
qed

lemma language_matches_sym: "language_matches a b = language_matches b a"
  by (auto simp: language_matches_def Let_def)

end
