(* ===== verification/Timeline_Evidence.thy ===== *)
theory Timeline_Evidence
  imports Omni_Prelude "HOL-Library.Word" "HOL-Library.List_Lexorder"
begin

text \<open>
  The evidence of desktop playback (\<open>audio/omni/protocol/desktop_timeline_evidence.rs\<close>): an append-only
  file of milestones of each played response, created exclusively and sealed once by a terminal file with
  the digest of what was written. The two files are part of the state; what a call meets (failures, the
  clock, the performance counter) is an argument. Serialisation, the hash function and the escapes of
  debug output are parameters. A successful seal is shown to account for every byte of the file and to
  imply that every announced response was acknowledged.
\<close>

section \<open>Data\<close>

datatype CleanupPath = ExplicitCleanup | DropFallback
datatype SchedulingState = RegistrationFailed | SchedulingActive | Restored | RestoreFailed
datatype RestoreFailureKind = NativeError | OwnerThreadMismatch | Unwound

record MmcssAudioReceipt =
  ma_schema_version :: nat
  ma_task_name :: rstring
  ma_owner_thread_id :: nat
  ma_registration_attempted :: bool
  ma_registration_succeeded :: bool
  ma_task_index :: "nat option"
  ma_registration_error_code :: "nat option"
  ma_cleanup_attempted :: bool
  ma_revert_attempted :: bool
  ma_revert_succeeded :: bool
  ma_revert_thread_id :: "nat option"
  ma_revert_error_code :: "nat option"
  ma_restore_failure_kind :: "RestoreFailureKind option"
  ma_cleanup_path :: "CleanupPath option"
  ma_state :: SchedulingState

record DesktopPlaybackTimeline =
  tl_cue_id :: rstring
  tl_response_id :: rstring
  tl_first_audio_delta_at_ms :: nat
  tl_first_audio_delta_qpc_100ns :: "nat option"
  tl_first_audible_audio_delta_at_ms :: "nat option"
  tl_first_audible_audio_delta_qpc_100ns :: "nat option"
  tl_audio_done_at_ms :: "nat option"
  tl_audio_done_qpc_100ns :: "nat option"
  tl_render_start_at_ms :: "nat option"
  tl_render_start_qpc_100ns :: "nat option"
  tl_render_complete_at_ms :: "nat option"
  tl_render_complete_qpc_100ns :: "nat option"
  tl_renderer_ack_at_ms :: "nat option"
  tl_renderer_ack_qpc_100ns :: "nat option"
  tl_renderer_ack_receipt_id :: "rstring option"
  tl_continuous_stream_id :: "rstring option"
  tl_render_session_id :: "nat option"
  tl_physical_playback_device_id :: "rstring option"
  tl_renderer_instance_id :: "rstring option"
  tl_renderer_owner_generation :: "nat option"
  tl_stream_start_count :: nat
  tl_accepted_source_frames :: nat
  tl_source_sample_rate_hz :: nat
  tl_render_sample_rate_hz :: nat
  tl_rendered_frames :: nat
  tl_aborted :: bool
  tl_mmcss_audio :: "MmcssAudioReceipt option"

definition timeline_default :: DesktopPlaybackTimeline where
  "timeline_default = \<lparr>tl_cue_id = [], tl_response_id = [], tl_first_audio_delta_at_ms = 0,
     tl_first_audio_delta_qpc_100ns = None, tl_first_audible_audio_delta_at_ms = None,
     tl_first_audible_audio_delta_qpc_100ns = None, tl_audio_done_at_ms = None, tl_audio_done_qpc_100ns = None,
     tl_render_start_at_ms = None, tl_render_start_qpc_100ns = None, tl_render_complete_at_ms = None,
     tl_render_complete_qpc_100ns = None, tl_renderer_ack_at_ms = None, tl_renderer_ack_qpc_100ns = None,
     tl_renderer_ack_receipt_id = None, tl_continuous_stream_id = None, tl_render_session_id = None,
     tl_physical_playback_device_id = None, tl_renderer_instance_id = None, tl_renderer_owner_generation = None,
     tl_stream_start_count = 0, tl_accepted_source_frames = 0, tl_source_sample_rate_hz = 0,
     tl_render_sample_rate_hz = 0, tl_rendered_frames = 0, tl_aborted = False, tl_mmcss_audio = None\<rparr>"

record timeline_identity =
  ti_run_marker :: "rstring option"
  ti_cell_id :: "rstring option"
  ti_lease_id :: "rstring option"

text \<open>The rows of the file and the terminal, without the fields that are constants or repeat the identity.\<close>

record timeline_row =
  tr_sequence :: nat
  tr_identity :: timeline_identity
  tr_milestone :: rstring
  tr_observed_at :: nat
  tr_observed_qpc :: "nat option"
  tr_timeline :: DesktopPlaybackTimeline

record timeline_terminal =
  tt_identity :: timeline_identity
  tt_complete :: bool
  tt_error :: "rstring option"
  tt_completed_responses :: nat
  tt_pending_responses :: "rstring list"
  tt_bytes :: nat
  tt_rows :: nat
  tt_sha256 :: rstring

datatype terminal_file = PartialTerminal | Terminal timeline_terminal

text \<open>
  The hasher is the bytes it was fed. The last two fields are the contents of the two files in the
  directory; \<open>te_file\<close> says that the handle of the first is open. The ordered set of responses is the
  sorted list of its elements.
\<close>

record TimelineEvidence =
  te_directory :: "rstring option"
  te_file :: bool
  te_hasher :: "8 word list"
  te_bytes :: nat
  te_rows :: nat
  te_failure :: "rstring option"
  te_identity :: timeline_identity
  te_sealed :: bool
  te_started :: bool
  te_active_responses :: "rstring list"
  te_completed_responses :: nat
  te_last_owner :: "(rstring \<times> rstring) option"
  te_timeline_file :: "8 word list option"
  te_terminal_file :: "terminal_file option"

text \<open>What one call meets: failures of its file operations, the bytes a failing write leaves, the clocks.\<close>

record timeline_io =
  tx_create_failure :: "rstring option"
  tx_exists_text :: rstring
  tx_write_failure :: "(rstring \<times> nat) option"
  tx_sync_failure :: "rstring option"
  tx_terminal_create_failure :: "rstring option"
  tx_terminal_write_failure :: "rstring option"
  tx_now :: nat
  tx_qpc :: "nat option"

section \<open>Operations\<close>

definition te_fail :: "rstring \<Rightarrow> TimelineEvidence \<Rightarrow> TimelineEvidence" where
  "te_fail reason s = (if te_directory s \<noteq> None \<and> te_failure s = None then s\<lparr>te_failure := Some reason\<rparr> else s)"

text \<open>\<open>OpenOptions::new().write(true).create_new(true)\<close> on the timeline file.\<close>

definition create_timeline :: "timeline_io \<Rightarrow> TimelineEvidence \<Rightarrow> TimelineEvidence" where
  "create_timeline io s =
     (case (if te_timeline_file s \<noteq> None then Some (tx_exists_text io) else tx_create_failure io) of
        Some e \<Rightarrow> te_fail (str ''timeline exclusive create failed: '' @ e) s
      | None \<Rightarrow> s\<lparr>te_file := True, te_timeline_file := Some []\<rparr>)"

definition te_open ::
  "timeline_io \<Rightarrow> rstring option \<Rightarrow> timeline_identity \<Rightarrow> 8 word list option \<Rightarrow> terminal_file option \<Rightarrow> TimelineEvidence" where
  "te_open io directory identity timeline terminal =
     (let result = \<lparr>te_directory = directory, te_file = False, te_hasher = [], te_bytes = 0, te_rows = 0,
            te_failure = None, te_identity = identity, te_sealed = False, te_started = directory \<noteq> None,
            te_active_responses = [], te_completed_responses = 0, te_last_owner = None,
            te_timeline_file = timeline, te_terminal_file = terminal\<rparr>
      in if directory \<noteq> None then create_timeline io result else result)"

definition DIRECTORY_ENV :: rstring where "DIRECTORY_ENV = str ''OMNI_WATCH_MODE_AEC_DIAGNOSTIC_TAP_DIRECTORY''"

definition blank :: "rstring option \<Rightarrow> bool" where
  "blank x = (case x of None \<Rightarrow> True | Some s \<Rightarrow> trim s = [])"

text \<open>The directory is read with \<open>var_os\<close>, the identity with \<open>var(..).ok()\<close>.\<close>

definition te_from_env ::
  "timeline_io \<Rightarrow> (rstring \<Rightarrow> rstring option) \<Rightarrow> (rstring \<Rightarrow> rstring option) \<Rightarrow> 8 word list option \<Rightarrow>
     terminal_file option \<Rightarrow> TimelineEvidence" where
  "te_from_env io var_os var timeline terminal =
     (let directory = (case var_os DIRECTORY_ENV of Some p \<Rightarrow> if p \<noteq> [] then Some p else None | None \<Rightarrow> None);
          identity = \<lparr>ti_run_marker = var (str ''OMNI_WATCH_MODE_MEDIA_AUTHORITY_RUN_MARKER''),
            ti_cell_id = var (str ''OMNI_WATCH_MODE_MEDIA_AUTHORITY_CELL_ID''),
            ti_lease_id = var (str ''OMNI_WATCH_MODE_MEDIA_AUTHORITY_LEASE_ID'')\<rparr>;
          result = (te_open io None identity timeline terminal)\<lparr>te_directory := directory\<rparr>
      in if directory \<noteq> None \<and> (blank (ti_run_marker identity) \<or> blank (ti_cell_id identity) \<or> blank (ti_lease_id identity))
         then te_fail (str ''playback timeline missing startup-frozen media authority identity'') result
         else result)"

definition qpc_required :: "DesktopPlaybackTimeline \<Rightarrow> nat option \<Rightarrow> bool" where
  "qpc_required t observed_qpc \<longleftrightarrow>
     is_some_and (tl_first_audio_delta_qpc_100ns t) (\<lambda>q. q > 0) \<and> is_some_and observed_qpc (\<lambda>q. q > 0) \<and>
     (tl_audio_done_at_ms t = None \<or> tl_audio_done_qpc_100ns t \<noteq> None) \<and>
     (tl_render_start_at_ms t = None \<or> tl_render_start_qpc_100ns t \<noteq> None) \<and>
     (tl_render_complete_at_ms t = None \<or> tl_render_complete_qpc_100ns t \<noteq> None) \<and>
     (tl_renderer_ack_at_ms t = None \<or> tl_renderer_ack_qpc_100ns t \<noteq> None)"

text \<open>\<open>u64::saturating_mul\<close>.\<close>

definition sat_mul_u64 :: "nat \<Rightarrow> nat \<Rightarrow> nat" where
  "sat_mul_u64 a b = min (a * b) u64_max"

definition ack_incomplete :: "DesktopPlaybackTimeline \<Rightarrow> TimelineEvidence \<Rightarrow> bool" where
  "ack_incomplete t s \<longleftrightarrow>
     tl_response_id t \<notin> set (te_active_responses s) \<or> tl_stream_start_count t \<noteq> 1 \<or> tl_render_session_id t = None \<or>
     tl_audio_done_at_ms t = None \<or> tl_render_complete_at_ms t = None \<or> tl_renderer_ack_at_ms t = None \<or>
     tl_renderer_ack_receipt_id t = None \<or> tl_source_sample_rate_hz t \<noteq> 24000 \<or> tl_render_sample_rate_hz t \<noteq> 48000 \<or>
     tl_accepted_source_frames t = 0 \<or> tl_rendered_frames t \<noteq> sat_mul_u64 (tl_accepted_source_frames t) 2"

definition check_row :: "rstring \<Rightarrow> DesktopPlaybackTimeline \<Rightarrow> TimelineEvidence \<Rightarrow> rstring option" where
  "check_row milestone t s =
     (if trim (tl_response_id t) = [] \<or> trim (tl_cue_id t) = []
      then Some (str ''playback timeline requires actual response/cue identity'')
      else if milestone = str ''audio-delta'' \<and> tl_response_id t \<in> set (te_active_responses s)
      then Some (str ''duplicate first delta evidence for an active response'')
      else if milestone = str ''renderer-ack'' \<and> ack_incomplete t s
      then Some (str ''playback timeline ACK lacks complete continuous physical authority'')
      else None)"

definition row_of :: "timeline_io \<Rightarrow> rstring \<Rightarrow> DesktopPlaybackTimeline \<Rightarrow> TimelineEvidence \<Rightarrow> timeline_row" where
  "row_of io milestone t s =
     \<lparr>tr_sequence = te_rows s + 1, tr_identity = te_identity s, tr_milestone = milestone,
      tr_observed_at = tx_now io, tr_observed_qpc = tx_qpc io, tr_timeline = t\<rparr>"

definition note_milestone :: "rstring \<Rightarrow> DesktopPlaybackTimeline \<Rightarrow> TimelineEvidence \<Rightarrow> TimelineEvidence" where
  "note_milestone milestone t s =
     (let s = (if milestone = str ''audio-delta''
               then s\<lparr>te_active_responses := insort_insert (tl_response_id t) (te_active_responses s)\<rparr> else s)
      in if milestone = str ''renderer-ack''
         then s\<lparr>te_active_responses := remove1 (tl_response_id t) (te_active_responses s),
                te_completed_responses := te_completed_responses s + 1\<rparr>
         else s)"

text \<open>The closure of \<open>append\<close>: \<open>write_all\<close> fails after a prefix of the bytes or writes them all.\<close>

definition append_row ::
  "(timeline_row \<Rightarrow> rstring + 8 word list) \<Rightarrow> timeline_io \<Rightarrow> rstring \<Rightarrow> DesktopPlaybackTimeline \<Rightarrow> TimelineEvidence \<Rightarrow>
     (rstring + unit) \<times> TimelineEvidence" where
  "append_row to_vec io milestone t s =
     (case check_row milestone t s of
        Some e \<Rightarrow> (Inl e, s)
      | None \<Rightarrow>
     (case to_vec (row_of io milestone t s) of
        Inl e \<Rightarrow> (Inl e, s)
      | Inr serialized \<Rightarrow>
          let bytes = serialized @ [10] in
          if \<not> te_file s then (Inl (str ''playback timeline file unavailable''), s)
          else case tx_write_failure io of
            Some (e, n) \<Rightarrow> (Inl e, s\<lparr>te_timeline_file := map_option (\<lambda>old. old @ take n bytes) (te_timeline_file s)\<rparr>)
          | None \<Rightarrow>
              let s = note_milestone milestone t (s\<lparr>te_timeline_file := map_option (\<lambda>old. old @ bytes) (te_timeline_file s),
                    te_hasher := te_hasher s @ bytes, te_bytes := te_bytes s + length bytes, te_rows := te_rows s + 1\<rparr>)
              in if milestone = str ''aborted''
                 then (Inl (str ''playback response aborted before immutable successful ACK''), s)
                 else (Inr (), s)))"

definition ensure_started :: "timeline_io \<Rightarrow> TimelineEvidence \<Rightarrow> TimelineEvidence" where
  "ensure_started io s =
     (if \<not> te_started s
      then let s = s\<lparr>te_started := True\<rparr> in if te_failure s = None then create_timeline io s else s
      else s)"

definition te_append ::
  "(timeline_row \<Rightarrow> rstring + 8 word list) \<Rightarrow> timeline_io \<Rightarrow> rstring \<Rightarrow> DesktopPlaybackTimeline \<Rightarrow> TimelineEvidence \<Rightarrow>
     (rstring + unit) \<times> TimelineEvidence" where
  "te_append to_vec io milestone t s0 =
     (if te_directory s0 = None then (Inr (), s0)
      else
        let s1 = s0\<lparr>te_last_owner := Some (tl_cue_id t, tl_response_id t)\<rparr> in
        if te_sealed s1 then (Inl (str ''playback timeline append after immutable seal''), s1)
        else
          let s2 = ensure_started io s1
          in case te_failure s2 of
               Some e \<Rightarrow> (Inl e, s2)
             | None \<Rightarrow>
                 if \<not> qpc_required t (tx_qpc io)
                 then let reason = str ''playback timeline missing authoritative QPC timestamp''; s3 = te_fail reason s2
                      in (Inl (unwrap_or reason (te_failure s3)), s3)
                 else let (r, s3) = append_row to_vec io milestone t s2
                      in case r of
                           Inl e \<Rightarrow> (Inl e, te_fail (str ''playback timeline append failed: '' @ e) s3)
                         | Inr _ \<Rightarrow> (Inr (), s3))"

definition failure_owner :: "TimelineEvidence \<Rightarrow> (rstring \<times> rstring) option" where
  "failure_owner s = te_last_owner s"

definition failed_or_ok :: "TimelineEvidence \<Rightarrow> rstring + unit" where
  "failed_or_ok s = (case te_failure s of Some e \<Rightarrow> Inl e | None \<Rightarrow> Inr ())"

definition te_outcome :: "TimelineEvidence \<Rightarrow> rstring + unit" where
  "te_outcome s =
     (if te_directory s = None \<or> \<not> te_started s then Inr ()
      else case te_failure s of
        Some e \<Rightarrow> Inl e
      | None \<Rightarrow> if te_directory s \<noteq> None \<and> \<not> te_sealed s then Inl (str ''enabled playback timeline was never sealed'')
               else Inr ())"

text \<open>Debug output of a set of strings; \<open>escape\<close> is the Unicode table behind \<open>char::escape_debug\<close>.\<close>

definition debug_set :: "(rchar \<Rightarrow> rstring) \<Rightarrow> rstring list \<Rightarrow> rstring" where
  "debug_set escape xs = str ''{'' @ join (str '', '') (map (\<lambda>x. [34] @ concat (map escape x) @ [34]) xs) @ str ''}''"

definition terminal_of :: "(8 word list \<Rightarrow> rstring) \<Rightarrow> TimelineEvidence \<Rightarrow> timeline_terminal" where
  "terminal_of digest s =
     \<lparr>tt_identity = te_identity s, tt_complete = (te_failure s = None), tt_error = te_failure s,
      tt_completed_responses = te_completed_responses s, tt_pending_responses = te_active_responses s,
      tt_bytes = te_bytes s, tt_rows = te_rows s, tt_sha256 = digest (te_hasher s)\<rparr>"

definition write_terminal :: "(8 word list \<Rightarrow> rstring) \<Rightarrow> timeline_io \<Rightarrow> TimelineEvidence \<Rightarrow> (rstring + unit) \<times> TimelineEvidence" where
  "write_terminal digest io s =
     (case (if te_terminal_file s \<noteq> None then Some (tx_exists_text io) else tx_terminal_create_failure io) of
        Some e \<Rightarrow> (Inl e, s)
      | None \<Rightarrow>
          (case tx_terminal_write_failure io of
             Some e \<Rightarrow> (Inl e, s\<lparr>te_terminal_file := Some PartialTerminal\<rparr>)
           | None \<Rightarrow> (Inr (), s\<lparr>te_terminal_file := Some (Terminal (terminal_of digest s))\<rparr>)))"

definition close_timeline :: "timeline_io \<Rightarrow> TimelineEvidence \<Rightarrow> TimelineEvidence" where
  "close_timeline io s =
     (if te_file s
      then let s = s\<lparr>te_file := False\<rparr>
           in (case tx_sync_failure io of
                 Some e \<Rightarrow> te_fail (str ''playback timeline flush/sync failed: '' @ e) s
               | None \<Rightarrow> s)
      else te_fail (str ''playback timeline file missing at seal'') s)"

definition seal_checks :: "(rchar \<Rightarrow> rstring) \<Rightarrow> timeline_io \<Rightarrow> TimelineEvidence \<Rightarrow> TimelineEvidence" where
  "seal_checks escape io s =
     (let s1 = s\<lparr>te_sealed := True\<rparr>;
          s2 = (if te_rows s1 = 0 then te_fail (str ''playback timeline has no authoritative output milestones'') s1 else s1);
          s3 = (if te_active_responses s2 \<noteq> []
                then te_fail (str ''playback timeline has unacknowledged responses: '' @ debug_set escape (te_active_responses s2)) s2
                else s2)
      in close_timeline io s3)"

definition te_seal ::
  "(rchar \<Rightarrow> rstring) \<Rightarrow> (8 word list \<Rightarrow> rstring) \<Rightarrow> timeline_io \<Rightarrow> TimelineEvidence \<Rightarrow> (rstring + unit) \<times> TimelineEvidence" where
  "te_seal escape digest io s =
     (if te_directory s = None \<or> \<not> te_started s then (Inr (), s)
      else if te_sealed s then (failed_or_ok s, s)
      else let (r, s') = write_terminal digest io (seal_checks escape io s);
               s'' = (case r of Inl e \<Rightarrow> te_fail (str ''playback timeline seal failed: '' @ e) s' | Inr _ \<Rightarrow> s')
           in (failed_or_ok s'', s''))"

section \<open>What the file holds\<close>

datatype timeline_op =
    AppendRow timeline_io rstring DesktopPlaybackTimeline
  | FailEvidence rstring
  | SealEvidence timeline_io

fun timeline_step ::
  "(timeline_row \<Rightarrow> rstring + 8 word list) \<Rightarrow> (rchar \<Rightarrow> rstring) \<Rightarrow> (8 word list \<Rightarrow> rstring) \<Rightarrow> TimelineEvidence \<Rightarrow>
     timeline_op \<Rightarrow> TimelineEvidence" where
  "timeline_step to_vec escape digest s (AppendRow io milestone t) = snd (te_append to_vec io milestone t s)"
| "timeline_step to_vec escape digest s (FailEvidence reason) = te_fail reason s"
| "timeline_step to_vec escape digest s (SealEvidence io) = snd (te_seal escape digest io s)"

text \<open>
  A specification over the rows: their bytes, the responses that were announced and not acknowledged,
  and the rows that acknowledge one.
\<close>

definition content :: "(timeline_row \<Rightarrow> rstring + 8 word list) \<Rightarrow> timeline_row list \<Rightarrow> 8 word list" where
  "content to_vec rows = concat (map (\<lambda>r. projr (to_vec r) @ [10]) rows)"

definition announces :: "rstring \<Rightarrow> timeline_row \<Rightarrow> bool" where
  "announces x r \<longleftrightarrow> tr_milestone r = str ''audio-delta'' \<and> tl_response_id (tr_timeline r) = x"

definition acknowledges :: "rstring \<Rightarrow> timeline_row \<Rightarrow> bool" where
  "acknowledges x r \<longleftrightarrow> tr_milestone r = str ''renderer-ack'' \<and> tl_response_id (tr_timeline r) = x \<and>
     (\<exists>source. tl_accepted_source_frames (tr_timeline r) = source \<and> 0 < source \<and>
        tl_rendered_frames (tr_timeline r) = sat_mul_u64 source 2) \<and>
     tl_stream_start_count (tr_timeline r) = 1 \<and> tl_renderer_ack_receipt_id (tr_timeline r) \<noteq> None"

fun unacknowledged :: "timeline_row list \<Rightarrow> rstring set" where
  "unacknowledged [] = {}"
| "unacknowledged (row # later) =
     unacknowledged later \<union> {x. announces x row \<and> (\<forall>r\<in>set later. \<not> acknowledges x r)}"

definition is_ack :: "timeline_row \<Rightarrow> bool" where
  "is_ack r \<longleftrightarrow> tr_milestone r = str ''renderer-ack''"

definition accounts_for ::
  "(timeline_row \<Rightarrow> rstring + 8 word list) \<Rightarrow> timeline_row list \<Rightarrow> TimelineEvidence \<Rightarrow> bool" where
  "accounts_for to_vec rows s \<longleftrightarrow>
     te_timeline_file s = Some (content to_vec rows) \<and> te_hasher s = content to_vec rows \<and>
     te_bytes s = length (content to_vec rows) \<and> te_rows s = length rows \<and>
     map tr_sequence rows = [1..<Suc (length rows)] \<and>
     set (te_active_responses s) = unacknowledged rows \<and> distinct (te_active_responses s) \<and>
     te_completed_responses s = length (filter is_ack rows) \<and>
     (\<forall>r\<in>set rows. \<not> isl (to_vec r) \<and> tr_milestone r \<noteq> str ''aborted'')"

definition timeline_inv ::
  "(timeline_row \<Rightarrow> rstring + 8 word list) \<Rightarrow> (8 word list \<Rightarrow> rstring) \<Rightarrow> TimelineEvidence \<Rightarrow> bool" where
  "timeline_inv to_vec digest s \<longleftrightarrow>
     (te_started s \<or> \<not> te_sealed s \<and> te_hasher s = [] \<and> te_bytes s = 0 \<and> te_rows s = 0 \<and>
        te_active_responses s = [] \<and> te_completed_responses s = 0) \<and>
     (te_directory s \<noteq> None \<and> te_started s \<and> te_failure s = None \<longrightarrow>
        (\<exists>rows. accounts_for to_vec rows s) \<and>
        (if te_sealed s
         then te_active_responses s = [] \<and> te_rows s > 0 \<and> te_terminal_file s = Some (Terminal (terminal_of digest s))
         else te_file s))"

lemma unacknowledged_snoc:
  "unacknowledged (rows @ [r]) = {x. announces x r \<or> x \<in> unacknowledged rows \<and> \<not> acknowledges x r}"
  by (induction rows) auto

lemma content_simps [simp]:
  "content to_vec [] = []"
  "content to_vec (rows @ [r]) = content to_vec rows @ projr (to_vec r) @ [10]"
  by (simp_all add: content_def)

lemma te_fail_simps [simp]:
  "te_directory (te_fail e s) = te_directory s" "te_file (te_fail e s) = te_file s"
  "te_hasher (te_fail e s) = te_hasher s" "te_bytes (te_fail e s) = te_bytes s" "te_rows (te_fail e s) = te_rows s"
  "te_identity (te_fail e s) = te_identity s" "te_sealed (te_fail e s) = te_sealed s"
  "te_started (te_fail e s) = te_started s" "te_active_responses (te_fail e s) = te_active_responses s"
  "te_completed_responses (te_fail e s) = te_completed_responses s"
  "te_timeline_file (te_fail e s) = te_timeline_file s" "te_terminal_file (te_fail e s) = te_terminal_file s"
  by (simp_all add: te_fail_def)

lemma te_failure_fail [simp]: "te_failure (te_fail e s) = None \<longleftrightarrow> te_failure s = None \<and> te_directory s = None"
  by (auto simp: te_fail_def)

lemma timeline_inv_fail: "timeline_inv to_vec digest s \<Longrightarrow> timeline_inv to_vec digest (te_fail e s)"
  by (auto simp: timeline_inv_def)

lemma accounts_for_empty:
  "te_hasher s = [] \<Longrightarrow> te_bytes s = 0 \<Longrightarrow> te_rows s = 0 \<Longrightarrow> te_active_responses s = [] \<Longrightarrow>
     te_completed_responses s = 0 \<Longrightarrow> te_timeline_file s = Some [] \<Longrightarrow> accounts_for to_vec [] s"
  by (simp add: accounts_for_def)

lemma timeline_inv_create:
  assumes "timeline_inv to_vec digest s" "\<not> te_started s" "te_failure s = None" "te_directory s \<noteq> None"
  shows "timeline_inv to_vec digest (create_timeline io (s\<lparr>te_started := True\<rparr>))"
proof (cases "if te_timeline_file s \<noteq> None then Some (tx_exists_text io) else tx_create_failure io")
  case None
  let ?t = "create_timeline io (s\<lparr>te_started := True\<rparr>)"
  from None have "?t = s\<lparr>te_started := True, te_file := True, te_timeline_file := Some []\<rparr>"
    by (simp add: create_timeline_def)
  with assms have "accounts_for to_vec [] ?t" "te_file ?t" "\<not> te_sealed ?t"
    by (auto simp: timeline_inv_def intro!: accounts_for_empty)
  with \<open>?t = _\<close> show ?thesis unfolding timeline_inv_def by auto
next
  case (Some e)
  with assms show ?thesis by (auto simp: timeline_inv_def create_timeline_def)
qed

lemma note_milestone_simps [simp]:
  "te_directory (note_milestone m t s) = te_directory s" "te_file (note_milestone m t s) = te_file s"
  "te_hasher (note_milestone m t s) = te_hasher s" "te_bytes (note_milestone m t s) = te_bytes s"
  "te_rows (note_milestone m t s) = te_rows s" "te_identity (note_milestone m t s) = te_identity s"
  "te_sealed (note_milestone m t s) = te_sealed s" "te_started (note_milestone m t s) = te_started s"
  "te_timeline_file (note_milestone m t s) = te_timeline_file s" "te_failure (note_milestone m t s) = te_failure s"
  "te_terminal_file (note_milestone m t s) = te_terminal_file s"
  by (simp_all add: note_milestone_def Let_def)

lemma append_row_Inr:
  assumes "append_row to_vec io milestone t s = (Inr (), s')"
  obtains serialized where "check_row milestone t s = None" "to_vec (row_of io milestone t s) = Inr serialized" "te_file s"
    "milestone \<noteq> str ''aborted''"
    "s' = note_milestone milestone t (s\<lparr>te_timeline_file := map_option (\<lambda>old. old @ serialized @ [10]) (te_timeline_file s),
       te_hasher := te_hasher s @ serialized @ [10], te_bytes := te_bytes s + length serialized + 1, te_rows := te_rows s + 1\<rparr>)"
  using assms
  by (auto simp: append_row_def Let_def simp del: str_def split: option.splits sum.splits if_splits)

lemma check_row_ack:
  assumes "check_row (str ''renderer-ack'') t s = None"
  shows "acknowledges x (row_of io (str ''renderer-ack'') t v) \<longleftrightarrow> x = tl_response_id t"
proof -
  from assms have "\<not> ack_incomplete t s" by (auto simp: check_row_def simp del: str_def split: if_splits)
  then show ?thesis by (auto simp: ack_incomplete_def acknowledges_def row_of_def simp del: str_def)
qed

lemma note_milestone_active:
  assumes "check_row milestone t s = None" and "distinct (te_active_responses u)"
  shows "set (te_active_responses (note_milestone milestone t u)) =
      {x. announces x (row_of io milestone t v) \<or>
          x \<in> set (te_active_responses u) \<and> \<not> acknowledges x (row_of io milestone t v)}"
    and "distinct (te_active_responses (note_milestone milestone t u))"
proof -
  consider (delta) "milestone = str ''audio-delta''" | (ack) "milestone = str ''renderer-ack''"
    | (other) "milestone \<noteq> str ''audio-delta''" "milestone \<noteq> str ''renderer-ack''" by blast
  then have "set (te_active_responses (note_milestone milestone t u)) =
      {x. announces x (row_of io milestone t v) \<or>
          x \<in> set (te_active_responses u) \<and> \<not> acknowledges x (row_of io milestone t v)} \<and>
      distinct (te_active_responses (note_milestone milestone t u))"
  proof cases
    case delta
    then show ?thesis
      using assms(2) by (auto simp: note_milestone_def announces_def acknowledges_def row_of_def set_insort_insert
          distinct_insort_insert)
  next
    case ack
    with check_row_ack [of t s _ io v] assms show ?thesis
      by (auto simp: note_milestone_def announces_def row_of_def)
  next
    case other
    then show ?thesis
      using assms(2) by (auto simp: note_milestone_def announces_def acknowledges_def row_of_def simp del: str_def)
  qed
  then show "set (te_active_responses (note_milestone milestone t u)) =
      {x. announces x (row_of io milestone t v) \<or>
          x \<in> set (te_active_responses u) \<and> \<not> acknowledges x (row_of io milestone t v)}"
    and "distinct (te_active_responses (note_milestone milestone t u))" by blast+
qed

lemma note_milestone_completed:
  "te_completed_responses (note_milestone milestone t u) =
     te_completed_responses u + (if is_ack (row_of io milestone t v) then 1 else 0)"
  by (simp add: note_milestone_def is_ack_def row_of_def Let_def)

lemma append_row_accounts:
  assumes ok: "append_row to_vec io milestone t s = (Inr (), s')" and rows: "accounts_for to_vec rows s"
  shows "accounts_for to_vec (rows @ [row_of io milestone t s]) s'"
proof -
  let ?r = "row_of io milestone t s"
  from ok obtain serialized where check: "check_row milestone t s = None" and ser: "to_vec ?r = Inr serialized"
    and alive: "milestone \<noteq> str ''aborted''"
    and s': "s' = note_milestone milestone t (s\<lparr>te_timeline_file := map_option (\<lambda>old. old @ serialized @ [10]) (te_timeline_file s),
       te_hasher := te_hasher s @ serialized @ [10], te_bytes := te_bytes s + length serialized + 1, te_rows := te_rows s + 1\<rparr>)"
    by (elim append_row_Inr)
  from rows have active: "set (te_active_responses s) = unacknowledged rows" "distinct (te_active_responses s)"
    by (simp_all add: accounts_for_def)
  have "set (te_active_responses s') = unacknowledged (rows @ [?r])"
    unfolding s' unacknowledged_snoc by (subst note_milestone_active(1) [OF check, where io = io and v = s]) (simp_all add: active)
  moreover have "distinct (te_active_responses s')"
    unfolding s' by (rule note_milestone_active(2) [OF check]) (simp add: active)
  moreover have "te_completed_responses s' = length (filter is_ack (rows @ [?r]))"
    unfolding s' by (subst note_milestone_completed [where io = io and v = s]) (use rows in \<open>simp add: accounts_for_def\<close>)
  moreover have "te_timeline_file s' = Some (content to_vec (rows @ [?r]))" "te_hasher s' = content to_vec (rows @ [?r])"
    "te_bytes s' = length (content to_vec (rows @ [?r]))" "te_rows s' = length (rows @ [?r])"
    using rows by (simp_all add: s' accounts_for_def ser)
  moreover have "tr_sequence ?r = Suc (length rows)" "tr_milestone ?r = milestone"
    using rows by (simp_all add: row_of_def accounts_for_def)
  ultimately show ?thesis
    using rows ser alive unfolding accounts_for_def by (auto simp del: str_def)
qed

lemma append_row_keeps:
  "snd (append_row to_vec io milestone t s) = s' \<Longrightarrow>
     te_directory s' = te_directory s \<and> te_file s' = te_file s \<and> te_sealed s' = te_sealed s \<and> te_started s' = te_started s \<and>
     te_failure s' = te_failure s"
  by (auto simp: append_row_def Let_def split: option.splits sum.splits if_splits)

lemma timeline_inv_append_row:
  assumes "timeline_inv to_vec digest s" "te_started s" "\<not> te_sealed s" "te_failure s = None" "te_directory s \<noteq> None"
    and row: "append_row to_vec io milestone t s = (r, s')"
  shows "timeline_inv to_vec digest (case r of Inl e \<Rightarrow> te_fail (p @ e) s' | Inr _ \<Rightarrow> s')"
proof (cases r)
  case (Inl e)
  with append_row_keeps [of to_vec io milestone t s s'] assms show ?thesis by (auto simp: timeline_inv_def)
next
  case (Inr u)
  from assms obtain rows where "accounts_for to_vec rows s" "te_file s" by (auto simp: timeline_inv_def)
  with row Inr have "accounts_for to_vec (rows @ [row_of io milestone t s]) s'"
    by (auto intro: append_row_accounts)
  with \<open>te_file s\<close> Inr append_row_keeps [of to_vec io milestone t s s'] assms show ?thesis
    by (auto simp: timeline_inv_def)
qed

lemma ensure_started_simps [simp]:
  "te_started (ensure_started io s)" "te_sealed (ensure_started io s) = te_sealed s"
  "te_directory (ensure_started io s) = te_directory s"
  by (simp_all add: ensure_started_def create_timeline_def Let_def split: option.split)

lemma timeline_inv_started:
  assumes "timeline_inv to_vec digest s" "te_directory s \<noteq> None" "\<not> te_sealed s"
  shows "timeline_inv to_vec digest (ensure_started io s)"
proof (cases "te_started s \<or> te_failure s \<noteq> None")
  case True
  with assms show ?thesis by (auto simp: ensure_started_def timeline_inv_def)
next
  case False
  with assms timeline_inv_create [of to_vec digest s io] show ?thesis by (simp add: ensure_started_def)
qed

lemma timeline_inv_append:
  assumes "timeline_inv to_vec digest s"
  shows "timeline_inv to_vec digest (snd (te_append to_vec io milestone t s))"
proof (cases "te_directory s = None \<or> te_sealed s")
  case True
  with assms show ?thesis by (auto simp: te_append_def Let_def timeline_inv_def accounts_for_def terminal_of_def)
next
  case False
  define u where "u = ensure_started io (s\<lparr>te_last_owner := Some (tl_cue_id t, tl_response_id t)\<rparr>)"
  from assms have "timeline_inv to_vec digest (s\<lparr>te_last_owner := Some (tl_cue_id t, tl_response_id t)\<rparr>)"
    by (simp add: timeline_inv_def accounts_for_def terminal_of_def)
  with False have u: "timeline_inv to_vec digest u" "te_started u" "\<not> te_sealed u" "te_directory u \<noteq> None"
    by (auto simp: u_def timeline_inv_started)
  obtain r s' where row: "append_row to_vec io milestone t u = (r, s')" by fastforce
  show ?thesis
  proof (cases "te_failure u")
    case None
    with u row have "timeline_inv to_vec digest (case r of Inl e \<Rightarrow> te_fail (str ''playback timeline append failed: '' @ e) s' | Inr _ \<Rightarrow> s')"
      by (blast intro: timeline_inv_append_row)
    with False None row timeline_inv_fail [OF u(1)] show ?thesis
      unfolding te_append_def Let_def by (auto simp: u_def [symmetric] simp del: str_def split: sum.split)
  next
    case (Some e)
    with False u show ?thesis unfolding te_append_def Let_def by (auto simp: u_def [symmetric] simp del: str_def)
  qed
qed

lemma seal_checks_simps [simp]:
  "te_directory (seal_checks escape io s) = te_directory s" "te_hasher (seal_checks escape io s) = te_hasher s"
  "te_bytes (seal_checks escape io s) = te_bytes s" "te_rows (seal_checks escape io s) = te_rows s"
  "te_identity (seal_checks escape io s) = te_identity s" "te_sealed (seal_checks escape io s)"
  "te_started (seal_checks escape io s) = te_started s"
  "te_active_responses (seal_checks escape io s) = te_active_responses s"
  "te_completed_responses (seal_checks escape io s) = te_completed_responses s"
  "te_timeline_file (seal_checks escape io s) = te_timeline_file s"
  "te_terminal_file (seal_checks escape io s) = te_terminal_file s"
  by (simp_all add: seal_checks_def close_timeline_def Let_def split: option.split)

lemma timeline_inv_seal:
  assumes "timeline_inv to_vec digest s"
  shows "timeline_inv to_vec digest (snd (te_seal escape digest io s))"
proof (cases "te_directory s = None \<or> \<not> te_started s \<or> te_sealed s")
  case True
  with assms show ?thesis by (auto simp: te_seal_def)
next
  case False
  let ?u = "seal_checks escape io s"
  obtain r s' where w: "write_terminal digest io ?u = (r, s')" by fastforce
  have "te_failure ?u = None \<Longrightarrow> te_failure s = None \<and> te_rows s > 0 \<and> te_active_responses s = []"
    using False by (auto simp: seal_checks_def close_timeline_def Let_def simp del: str_def split: option.splits if_splits)
  with assms False have "timeline_inv to_vec digest (case r of Inl e \<Rightarrow> te_fail (str ''playback timeline seal failed: '' @ e) s' | Inr _ \<Rightarrow> s')"
    using w unfolding timeline_inv_def
    by (auto simp: write_terminal_def terminal_of_def accounts_for_def simp del: str_def split: option.splits if_splits)
  with False w show ?thesis by (auto simp: te_seal_def Let_def simp del: str_def)
qed

lemma timeline_inv_step: "timeline_inv to_vec digest s \<Longrightarrow> timeline_inv to_vec digest (timeline_step to_vec escape digest s e)"
  by (cases e) (simp_all add: timeline_inv_append timeline_inv_fail timeline_inv_seal)

lemma timeline_inv_from_env: "timeline_inv to_vec digest (te_from_env io var_os var timeline terminal)"
  by (auto simp: te_from_env_def te_open_def Let_def timeline_inv_def simp del: str_def)

interpretation timeline: invariant_system "te_from_env io var_os var timeline terminal" "timeline_step to_vec escape digest"
    "timeline_inv to_vec digest" for io var_os var timeline terminal to_vec escape digest
  by unfold_locales (rule timeline_inv_from_env, rule timeline_inv_step)

lemma sealed_files_frozen:
  assumes "te_sealed s"
  shows "te_sealed (timeline_step to_vec escape digest s e) \<and>
    te_timeline_file (timeline_step to_vec escape digest s e) = te_timeline_file s \<and>
    te_terminal_file (timeline_step to_vec escape digest s e) = te_terminal_file s"
  using assms by (cases e) (simp_all add: te_append_def te_seal_def Let_def)

lemma sealed_files_frozen_runs:
  "te_sealed s \<Longrightarrow> te_timeline_file (runs (timeline_step to_vec escape digest) s es) = te_timeline_file s \<and>
    te_terminal_file (runs (timeline_step to_vec escape digest) s es) = te_terminal_file s"
  by (induction es arbitrary: s) (simp_all add: sealed_files_frozen)

lemma te_seal_Inr:
  assumes "te_seal escape digest io s = (Inr (), s')" "te_directory s \<noteq> None" "te_started s"
  shows "te_failure s' = None \<and> te_sealed s' \<and> te_started s' \<and> te_directory s' \<noteq> None"
  using assms
  by (auto simp: te_seal_def failed_or_ok_def write_terminal_def Let_def simp del: str_def split: if_splits option.splits sum.splits prod.splits)

text \<open>
  C31: A successful seal of enabled evidence that was written to accounts for everything. Whatever was
  appended, failed or sealed before, and whatever each file operation did: the timeline file consists of
  the bytes of a non-empty sequence of consecutively numbered rows and of nothing else; the terminal
  file says it is complete and states their exact number, length and digest; no row reports an abort;
  every response whose audio was announced is acknowledged by a later row with all its frames rendered
  in one stream start; and no later call changes either file.
\<close>

theorem sealed_timeline_exact:
  assumes "s = runs (timeline_step to_vec escape digest) (te_from_env io var_os var timeline terminal) ops"
    and "te_directory s \<noteq> None" and "te_started s" and "te_seal escape digest io' s = (Inr (), s')"
  shows "\<exists>rows t. te_timeline_file s' = Some (content to_vec rows) \<and> rows \<noteq> [] \<and>
    map tr_sequence rows = [1..<Suc (length rows)] \<and> (\<forall>r\<in>set rows. tr_milestone r \<noteq> str ''aborted'') \<and>
    unacknowledged rows = {} \<and> te_terminal_file s' = Some (Terminal t) \<and> tt_complete t \<and>
    tt_rows t = length rows \<and> tt_bytes t = length (content to_vec rows) \<and> tt_sha256 t = digest (content to_vec rows) \<and>
    tt_completed_responses t = length (filter is_ack rows) \<and>
    (\<forall>ops'. let s'' = runs (timeline_step to_vec escape digest) s' ops' in
       te_timeline_file s'' = te_timeline_file s' \<and> te_terminal_file s'' = te_terminal_file s')"
proof -
  have "timeline_inv to_vec digest s" unfolding assms(1) by (rule timeline.inv_reachable)
  from timeline_inv_seal [OF this, of escape io'] assms(4) have inv: "timeline_inv to_vec digest s'" by simp
  from te_seal_Inr [OF assms(4, 2, 3)] have ok: "te_failure s' = None" "te_sealed s'" "te_started s'" "te_directory s' \<noteq> None"
    by blast+
  with inv obtain rows where "accounts_for to_vec rows s'" "te_active_responses s' = []" "te_rows s' > 0"
    "te_terminal_file s' = Some (Terminal (terminal_of digest s'))" by (auto simp: timeline_inv_def)
  with ok show ?thesis
    by (intro exI [of _ rows] exI [of _ "terminal_of digest s'"])
      (auto simp: accounts_for_def terminal_of_def Let_def sealed_files_frozen_runs simp del: upt_Suc str_def)
qed

definition sample_io :: timeline_io where
  "sample_io = \<lparr>tx_create_failure = None, tx_exists_text = [], tx_write_failure = None, tx_sync_failure = None,
     tx_terminal_create_failure = None, tx_terminal_write_failure = None, tx_now = 7, tx_qpc = Some 9\<rparr>"

definition sample_timeline :: DesktopPlaybackTimeline where
  "sample_timeline = timeline_default\<lparr>tl_cue_id := [65], tl_response_id := [66], tl_first_audio_delta_qpc_100ns := Some 1\<rparr>"

definition sample_ack :: DesktopPlaybackTimeline where
  "sample_ack = sample_timeline\<lparr>tl_audio_done_at_ms := Some 2, tl_audio_done_qpc_100ns := Some 2,
     tl_render_complete_at_ms := Some 3, tl_render_complete_qpc_100ns := Some 3, tl_renderer_ack_at_ms := Some 4,
     tl_renderer_ack_qpc_100ns := Some 4, tl_renderer_ack_receipt_id := Some [67], tl_render_session_id := Some 1,
     tl_stream_start_count := 1, tl_source_sample_rate_hz := 24000, tl_render_sample_rate_hz := 48000,
     tl_accepted_source_frames := 24, tl_rendered_frames := 48\<rparr>"

lemma sample_io_simps [simp]:
  "tx_create_failure sample_io = None" "tx_write_failure sample_io = None" "tx_sync_failure sample_io = None"
  "tx_terminal_create_failure sample_io = None" "tx_terminal_write_failure sample_io = None" "tx_qpc sample_io = Some 9"
  by (simp_all add: sample_io_def)

lemma sample_rows:
  "qpc_required sample_timeline (Some 9)" "qpc_required sample_ack (Some 9)" "tl_response_id sample_timeline = [66]"
  "tl_response_id sample_ack = [66]"
  "check_row (str ''audio-delta'') sample_timeline s = (if [66] \<in> set (te_active_responses s)
     then Some (str ''duplicate first delta evidence for an active response'') else None)"
  "check_row (str ''renderer-ack'') sample_ack s = (if [66] \<in> set (te_active_responses s) then None
     else Some (str ''playback timeline ACK lacks complete continuous physical authority''))"
  by (simp_all add: sample_timeline_def sample_ack_def timeline_default_def qpc_required_def check_row_def
      ack_incomplete_def sat_mul_u64_def u64_max_def trim_def trim_start_def trim_end_def is_whitespace_def str_eq_iff
      del: str_def)

abbreviation sample_to_vec :: "timeline_row \<Rightarrow> rstring + 8 word list" where
  "sample_to_vec r \<equiv> Inr [of_nat (tr_sequence r)]"

abbreviation sample_digest :: "8 word list \<Rightarrow> rstring" where
  "sample_digest b \<equiv> [length b]"

definition sample_evidence :: TimelineEvidence where
  "sample_evidence = runs (timeline_step sample_to_vec (\<lambda>c. [c]) sample_digest)
     (te_from_env sample_io (\<lambda>_. Some [68]) (\<lambda>_. Some [69]) None None)
     [AppendRow sample_io (str ''audio-delta'') sample_timeline, AppendRow sample_io (str ''renderer-ack'') sample_ack]"

lemma sample_evidence_sealable:
  "te_directory sample_evidence \<noteq> None" "te_started sample_evidence"
  "te_seal (\<lambda>c. [c]) sample_digest sample_io sample_evidence =
     (Inr (), snd (te_seal (\<lambda>c. [c]) sample_digest sample_io sample_evidence))"
proof -
  define s0 where "s0 = te_from_env sample_io (\<lambda>_. Some [68]) (\<lambda>_. Some [69]) None None"
  have s0: "te_directory s0 = Some [68]" "\<not> te_started s0" "\<not> te_sealed s0" "te_failure s0 = None"
    "te_timeline_file s0 = None" "te_terminal_file s0 = None" "te_active_responses s0 = []" "te_rows s0 = 0"
    by (simp_all add: s0_def te_from_env_def te_open_def Let_def blank_def trim_def trim_start_def trim_end_def
        is_whitespace_def del: str_def)
  note step = te_append_def ensure_started_def create_timeline_def append_row_def sample_rows note_milestone_def str_eq_iff
    insort_insert_key_def Let_def
  define s1 where "s1 = snd (te_append sample_to_vec sample_io (str ''audio-delta'') sample_timeline s0)"
  have s1: "te_directory s1 = Some [68]" "te_started s1" "\<not> te_sealed s1" "te_failure s1 = None" "te_file s1"
    "te_terminal_file s1 = None" "te_active_responses s1 = [[66]]" "te_rows s1 = 1"
    by (simp_all add: s1_def s0 step del: str_def)
  define s2 where "s2 = snd (te_append sample_to_vec sample_io (str ''renderer-ack'') sample_ack s1)"
  have s2: "te_directory s2 = Some [68]" "te_started s2" "\<not> te_sealed s2" "te_failure s2 = None" "te_file s2"
    "te_terminal_file s2 = None" "te_active_responses s2 = []" "te_rows s2 = 2"
    by (simp_all add: s2_def s1 step del: str_def)
  have e: "sample_evidence = s2" by (simp add: sample_evidence_def s0_def s1_def s2_def)
  show "te_directory sample_evidence \<noteq> None" "te_started sample_evidence" by (simp_all add: e s2)
  show "te_seal (\<lambda>c. [c]) sample_digest sample_io sample_evidence =
     (Inr (), snd (te_seal (\<lambda>c. [c]) sample_digest sample_io sample_evidence))"
    by (simp add: e s2 te_seal_def seal_checks_def close_timeline_def write_terminal_def failed_or_ok_def Let_def)
qed

theorem sealed_timeline_exact_witness:
  "\<exists>rows. te_timeline_file (snd (te_seal (\<lambda>c. [c]) sample_digest sample_io sample_evidence)) = Some (content sample_to_vec rows) \<and>
     rows \<noteq> [] \<and> unacknowledged rows = {}"
  using sealed_timeline_exact [OF sample_evidence_def sample_evidence_sealable] by blast

end
