(* ===== verification/Playback_Queue.thy ===== *)
theory Playback_Queue
  imports Playback_Quiescence Translated_Pcm Timeline_Evidence
begin

text \<open>
  The queue between the provider's audio events and the playback worker (\<open>OmniPlaybackQueue\<close> of
  \<open>audio/omni/protocol.rs\<close>): bounded admission, cancellation of a stream, graceful drain and abort, and
  the publication of its load to the quiescence ledger, which is the one of \<open>Playback_Quiescence\<close>. Each
  definition is a critical section of the queue's mutex; a receive that waits is a list of passes with what
  other threads do between them. The properties are about every interleaving: accepted audio is delivered
  in order and only a cancellation or an abort removes it, and a restart is granted only to an idle queue as
  long as the queue was the last to publish its load: the ledger belongs to the application, every session
  direction has a queue of its own, and each overwrites what the other has published.
\<close>

section \<open>Data\<close>

datatype OmniPlaybackCommand =
    Play (cm_samples: "16 word list") (cm_cue_id: rstring) (cm_response_id: "rstring option") (cm_sample_rate_hz: nat)
      (cm_queued_at: instant) (cm_created_at_ms: nat) (cm_estimated_duration_ms: nat)
  | PlayStream (cm_samples: "16 word list") (cm_cue_id: rstring) (cm_response_id: "rstring option") (cm_sample_rate_hz: nat)
      (cm_queued_at: instant) (cm_created_at_ms: nat) (cm_estimated_duration_ms: nat) (cm_chunk_index: nat)
      (cm_stream_state: TranslationStreamState) (cm_bridge_owner: "BridgeTranslationSinkOwner option")

definition estimated_duration :: "OmniPlaybackCommand \<Rightarrow> duration" where
  "estimated_duration c = from_millis (cm_estimated_duration_ms c)"

datatype OmniPlaybackOverflowReason = QueueFull | RealtimeBudget

record OmniPlaybackStaleDrop =
  sd_cue_id :: rstring
  sd_projected_start_delay_ms :: nat
  sd_observed_queue_age_ms :: nat

datatype OmniPlaybackEnqueueOutcome =
    Queued
  | QueuedAfterDroppingStale "OmniPlaybackStaleDrop list"
  | Overflow OmniPlaybackOverflowReason "OmniPlaybackStaleDrop list" nat
  | Terminated
  | EnqueueStopped

datatype OmniPlaybackReceiveOutcome =
    ReceivedCommand OmniPlaybackCommand "OmniPlaybackStaleDrop list"
  | StaleDropped "OmniPlaybackStaleDrop list"
  | ReceiveTimeout
  | ReceiveStopped

datatype OmniPlaybackShutdown = QueueRunning | QueueFinishing | QueueDraining | QueueAborted

text \<open>The mutex-protected state together with the fixed capacity, the shared ledger and the evidence.\<close>

record OmniPlaybackQueue =
  oq_pending :: "OmniPlaybackCommand list"
  oq_active_expected_end :: "instant option"
  oq_terminated_stream_cues :: "rstring set"
  oq_desktop_timelines :: "(rstring \<times> DesktopPlaybackTimeline) list"
  oq_desktop_stream_active :: bool
  oq_shutdown :: OmniPlaybackShutdown
  oq_capacity :: nat
  oq_quiescence :: "QuiescenceState option"
  oq_timeline_evidence :: TimelineEvidence

definition OMNI_OUTPUT_SAMPLE_RATE_HZ :: nat where "OMNI_OUTPUT_SAMPLE_RATE_HZ = 24000"
definition OMNI_PLAYBACK_QUEUE_CAPACITY :: nat where "OMNI_PLAYBACK_QUEUE_CAPACITY = 260"
definition OMNI_PLAYBACK_MAX_QUEUE_AGE :: duration where "OMNI_PLAYBACK_MAX_QUEUE_AGE = from_secs 5"

definition omni_playback_queue_age_expired :: "duration \<Rightarrow> bool" where
  "omni_playback_queue_age_expired age \<longleftrightarrow> age > OMNI_PLAYBACK_MAX_QUEUE_AGE"

text \<open>The constructor asserts a positive capacity.\<close>

definition new_with_quiescence ::
  "nat \<Rightarrow> QuiescenceState option \<Rightarrow> TimelineEvidence \<Rightarrow> OmniPlaybackQueue option" where
  "new_with_quiescence capacity quiescence evidence =
     (if capacity > 0
      then Some \<lparr>oq_pending = [], oq_active_expected_end = None, oq_terminated_stream_cues = {},
             oq_desktop_timelines = [], oq_desktop_stream_active = False, oq_shutdown = QueueRunning,
             oq_capacity = capacity, oq_quiescence = quiescence, oq_timeline_evidence = evidence\<rparr>
      else None)"

section \<open>Projection and publication\<close>

definition projected_start :: "OmniPlaybackQueue \<Rightarrow> instant \<Rightarrow> instant" where
  "projected_start q now =
     foldl (\<lambda>start c. start + estimated_duration c)
       (max (unwrap_or now (oq_active_expected_end q)) now) (oq_pending q)"

definition u128_max :: nat where "u128_max = 2 ^ 128 - 1"

definition pending_frames :: "OmniPlaybackQueue \<Rightarrow> instant \<Rightarrow> nat" where
  "pending_frames q now =
     min (min (min ((projected_start q now - now) * OMNI_OUTPUT_SAMPLE_RATE_HZ) u128_max + 999999999) u128_max div 1000000000)
       u64_max"

definition active_count :: "OmniPlaybackQueue \<Rightarrow> nat" where
  "active_count q = (if oq_active_expected_end q \<noteq> None \<or> oq_desktop_stream_active q then 1 else 0)"

definition publish_state :: "instant \<Rightarrow> OmniPlaybackQueue \<Rightarrow> OmniPlaybackQueue" where
  "publish_state now q =
     q\<lparr>oq_quiescence := map_option (set_queue_state (length (oq_pending q)) (active_count q) (pending_frames q now)
        OMNI_OUTPUT_SAMPLE_RATE_HZ) (oq_quiescence q)\<rparr>"

section \<open>Operations\<close>

text \<open>The source ignores both arguments and removes nothing.\<close>

definition drain_expired_pending :: "OmniPlaybackQueue \<Rightarrow> instant \<Rightarrow> OmniPlaybackStaleDrop list" where
  "drain_expired_pending q now = []"

definition realtime_start_age :: "nat \<Rightarrow> OmniPlaybackCommand \<Rightarrow> duration option" where
  "realtime_start_age unix_ms c =
     (case c of
        PlayStream _ _ _ _ _ created_at_ms _ _ StreamStart _ \<Rightarrow> Some (from_millis (unix_ms - created_at_ms))
      | _ \<Rightarrow> None)"

fun is_stream :: "OmniPlaybackCommand \<Rightarrow> bool" where
  "is_stream (PlayStream _ _ _ _ _ _ _ _ _ _) = True"
| "is_stream (Play _ _ _ _ _ _ _) = False"

definition terminated_stream :: "rstring set \<Rightarrow> OmniPlaybackCommand \<Rightarrow> bool" where
  "terminated_stream cues c \<longleftrightarrow> is_stream c \<and> cm_cue_id c \<in> cues"

text \<open>\<open>now\<close> is read before the projection, \<open>published\<close> when the state is published.\<close>

definition enqueue ::
  "instant \<Rightarrow> nat \<Rightarrow> instant \<Rightarrow> OmniPlaybackCommand \<Rightarrow> OmniPlaybackQueue \<Rightarrow> OmniPlaybackEnqueueOutcome \<times> OmniPlaybackQueue" where
  "enqueue now unix_ms published c q =
     (if oq_shutdown q = QueueDraining \<or> oq_shutdown q = QueueAborted then (EnqueueStopped, q)
      else if terminated_stream (oq_terminated_stream_cues q) c then (Terminated, q)
      else
        let dropped = drain_expired_pending q now;
            projected_start_delay_ms = min ((projected_start q now - cm_queued_at c) div 1000000) u64_max
        in if length (oq_pending q) \<ge> oq_capacity q
           then (Overflow QueueFull dropped projected_start_delay_ms, publish_state published q)
           else if is_some_and (realtime_start_age unix_ms c) omni_playback_queue_age_expired
           then (Overflow RealtimeBudget dropped projected_start_delay_ms, publish_state published q)
           else (if dropped = [] then Queued else QueuedAfterDroppingStale dropped,
                 publish_state published (q\<lparr>oq_pending := oq_pending q @ [c]\<rparr>)))"

definition queue_abort_stream :: "instant \<Rightarrow> instant \<Rightarrow> rstring \<Rightarrow> nat \<Rightarrow> nat \<Rightarrow> OmniPlaybackQueue \<Rightarrow> OmniPlaybackQueue" where
  "queue_abort_stream now published cue_id chunk_index created_at_ms q =
     (if oq_shutdown q = QueueAborted \<or> cue_id \<in> oq_terminated_stream_cues q then q
      else publish_state published
        (q\<lparr>oq_terminated_stream_cues := insert cue_id (oq_terminated_stream_cues q),
           oq_pending := PlayStream [] cue_id None OMNI_OUTPUT_SAMPLE_RATE_HZ now created_at_ms 0 chunk_index StreamAbort None #
             filter (\<lambda>c. \<not> terminated_stream {cue_id} c) (oq_pending q)\<rparr>))"

definition set_desktop_stream_active :: "instant \<Rightarrow> bool \<Rightarrow> OmniPlaybackQueue \<Rightarrow> OmniPlaybackQueue" where
  "set_desktop_stream_active published active q = publish_state published (q\<lparr>oq_desktop_stream_active := active\<rparr>)"

text \<open>The evidence has a mutex of its own, entered after that of the queue.\<close>

definition append_desktop_timeline ::
  "(timeline_row \<Rightarrow> rstring + 8 word list) \<Rightarrow> timeline_io \<Rightarrow> rstring \<Rightarrow> DesktopPlaybackTimeline \<Rightarrow> OmniPlaybackQueue \<Rightarrow>
     (rstring + unit) \<times> OmniPlaybackQueue" where
  "append_desktop_timeline to_vec io milestone t q =
     (let (r, e) = te_append to_vec io milestone t (oq_timeline_evidence q) in (r, q\<lparr>oq_timeline_evidence := e\<rparr>))"

definition queue_abort :: "instant \<Rightarrow> OmniPlaybackQueue \<Rightarrow> OmniPlaybackQueue" where
  "queue_abort published q =
     publish_state published
       (q\<lparr>oq_timeline_evidence := te_fail (str ''playback worker aborted before successful drain'') (oq_timeline_evidence q),
          oq_shutdown := QueueAborted, oq_pending := [], oq_terminated_stream_cues := {}, oq_desktop_timelines := [],
          oq_active_expected_end := None\<rparr>)"

definition fail_timeline_evidence :: "rstring \<Rightarrow> OmniPlaybackQueue \<Rightarrow> OmniPlaybackQueue" where
  "fail_timeline_evidence failure q = q\<lparr>oq_timeline_evidence := te_fail failure (oq_timeline_evidence q)\<rparr>"

definition desktop_timeline_result :: "OmniPlaybackQueue \<Rightarrow> rstring + unit" where
  "desktop_timeline_result q = te_outcome (oq_timeline_evidence q)"

definition seal_desktop_timeline ::
  "(rchar \<Rightarrow> rstring) \<Rightarrow> (8 word list \<Rightarrow> rstring) \<Rightarrow> timeline_io \<Rightarrow> OmniPlaybackQueue \<Rightarrow> (rstring + unit) \<times> OmniPlaybackQueue" where
  "seal_desktop_timeline escape digest io q =
     (let (r, e) = te_seal escape digest io (oq_timeline_evidence q) in (r, q\<lparr>oq_timeline_evidence := e\<rparr>))"

definition fresh_timeline :: "rstring \<Rightarrow> rstring \<Rightarrow> nat \<Rightarrow> nat option \<Rightarrow> DesktopPlaybackTimeline" where
  "fresh_timeline cue_id response_id now_ms qpc_100ns = timeline_default\<lparr>tl_cue_id := cue_id, tl_response_id := response_id,
     tl_first_audio_delta_at_ms := now_ms, tl_first_audio_delta_qpc_100ns := qpc_100ns,
     tl_source_sample_rate_hz := 24000, tl_render_sample_rate_hz := 48000\<rparr>"

text \<open>
  The two recording calls hold the queue's mutex while they update the timeline and drop it before they
  append the snapshot to the evidence: this is the part under the mutex, with the milestone to append.
\<close>

definition stage_audio_delta ::
  "rstring \<Rightarrow> rstring \<Rightarrow> nat \<Rightarrow> nat option \<Rightarrow> bool \<Rightarrow> OmniPlaybackQueue \<Rightarrow>
     (rstring + (rstring \<times> DesktopPlaybackTimeline) option) \<times> OmniPlaybackQueue" where
  "stage_audio_delta cue_id response_id now_ms qpc_100ns audible q =
     (let known = map_of (oq_desktop_timelines q) response_id in
      if known = None \<and> length (oq_desktop_timelines q) \<ge> oq_capacity q
      then (Inl (str ''bounded playback timeline response inventory is full''), q)
      else
        let entry = unwrap_or (fresh_timeline cue_id response_id now_ms qpc_100ns) known;
            first_audible = (audible \<and> tl_first_audible_audio_delta_at_ms entry = None);
            entry = (if first_audible
                     then entry\<lparr>tl_first_audible_audio_delta_at_ms := Some now_ms,
                                tl_first_audible_audio_delta_qpc_100ns := qpc_100ns\<rparr> else entry)
        in (Inr (if known = None then Some (str ''audio-delta'', entry)
                 else if first_audible then Some (str ''first-audible-audio-delta'', entry) else None),
            q\<lparr>oq_desktop_timelines := hash_insert response_id entry (oq_desktop_timelines q)\<rparr>))"

definition stage_audio_done ::
  "rstring \<Rightarrow> nat \<Rightarrow> nat option \<Rightarrow> OmniPlaybackQueue \<Rightarrow>
     (rstring + (rstring \<times> DesktopPlaybackTimeline) option) \<times> OmniPlaybackQueue" where
  "stage_audio_done response_id now_ms qpc_100ns q =
     (case map_of (oq_desktop_timelines q) response_id of
        None \<Rightarrow> (Inr None, q)
      | Some timeline \<Rightarrow>
          if tl_audio_done_at_ms timeline \<noteq> None then (Inl (str ''duplicate typed desktop audio.done''), q)
          else let timeline = timeline\<lparr>tl_audio_done_at_ms := Some now_ms, tl_audio_done_qpc_100ns := qpc_100ns\<rparr>
               in (Inr (Some (str ''audio-done'', timeline)),
                   q\<lparr>oq_desktop_timelines := hash_insert response_id timeline (oq_desktop_timelines q)\<rparr>))"

definition desktop_timeline :: "rstring \<Rightarrow> OmniPlaybackQueue \<Rightarrow> DesktopPlaybackTimeline option" where
  "desktop_timeline response_id q = map_of (oq_desktop_timelines q) response_id"

definition remove_desktop_timeline :: "rstring \<Rightarrow> OmniPlaybackQueue \<Rightarrow> OmniPlaybackQueue" where
  "remove_desktop_timeline response_id q =
     q\<lparr>oq_desktop_timelines := hash_remove response_id (oq_desktop_timelines q)\<rparr>"

definition stream_cancelled :: "rstring \<Rightarrow> OmniPlaybackQueue \<Rightarrow> bool" where
  "stream_cancelled cue_id q \<longleftrightarrow> oq_shutdown q = QueueAborted \<or> cue_id \<in> oq_terminated_stream_cues q"

definition return_pending :: "instant \<Rightarrow> OmniPlaybackCommand \<Rightarrow> OmniPlaybackQueue \<Rightarrow> OmniPlaybackQueue" where
  "return_pending published c q =
     (if oq_shutdown q \<noteq> QueueAborted then publish_state published (q\<lparr>oq_pending := c # oq_pending q\<rparr>) else q)"

definition drain_and_stop :: "instant \<Rightarrow> OmniPlaybackQueue \<Rightarrow> OmniPlaybackQueue" where
  "drain_and_stop published q =
     publish_state published
       (if oq_shutdown q = QueueRunning \<or> oq_shutdown q = QueueFinishing then q\<lparr>oq_shutdown := QueueDraining\<rparr> else q)"

definition begin_provider_finishing :: "instant \<Rightarrow> OmniPlaybackQueue \<Rightarrow> OmniPlaybackQueue" where
  "begin_provider_finishing published q =
     publish_state published (if oq_shutdown q = QueueRunning then q\<lparr>oq_shutdown := QueueFinishing\<rparr> else q)"

definition finish_active :: "instant \<Rightarrow> OmniPlaybackQueue \<Rightarrow> OmniPlaybackQueue" where
  "finish_active published q = publish_state published (q\<lparr>oq_active_expected_end := None\<rparr>)"

text \<open>
  One pass of the loop of \<open>recv_timeout\<close> up to the wait: an outcome, or none when it has to wait. The
  pass reads the clock when it takes a command and when it compares with the deadline.
\<close>

definition recv_pass ::
  "instant \<Rightarrow> instant \<Rightarrow> instant \<Rightarrow> OmniPlaybackQueue \<Rightarrow> OmniPlaybackReceiveOutcome option \<times> OmniPlaybackQueue" where
  "recv_pass deadline now published q =
     (if oq_shutdown q = QueueAborted then (Some ReceiveStopped, q)
      else
        let dropped = drain_expired_pending q now in
        case oq_pending q of
          c # rest \<Rightarrow>
            (Some (ReceivedCommand c dropped),
             publish_state published (q\<lparr>oq_pending := rest, oq_active_expected_end := Some (now + estimated_duration c)\<rparr>))
        | [] \<Rightarrow>
            if dropped \<noteq> [] then (Some (StaleDropped dropped), publish_state published q)
            else if oq_shutdown q = QueueDraining then (Some ReceiveStopped, q)
            else if deadline - now = 0 then (Some ReceiveTimeout, q)
            else (None, q))"

section \<open>Threads\<close>

text \<open>
  The critical sections that other threads run while the worker waits, the worker's own, and the steps
  of other components on the shared ledger.
\<close>

datatype queue_op =
    Enqueue instant nat instant OmniPlaybackCommand
  | AbortStream instant instant rstring nat nat
  | SetStreamActive instant bool
  | AudioDelta rstring rstring nat "nat option" bool
  | AudioDone rstring nat "nat option"
  | AppendTimeline timeline_io rstring DesktopPlaybackTimeline
  | FailEvidence rstring
  | SealTimeline timeline_io
  | RemoveTimeline rstring
  | DrainAndStop instant
  | BeginFinishing instant
  | AbortQueue instant
  | FinishActive instant

record queue_env =
  en_to_vec :: "timeline_row \<Rightarrow> rstring + 8 word list"
  en_escape :: "rchar \<Rightarrow> rstring"
  en_digest :: "8 word list \<Rightarrow> rstring"

fun queue_step :: "queue_env \<Rightarrow> OmniPlaybackQueue \<Rightarrow> queue_op \<Rightarrow> OmniPlaybackQueue" where
  "queue_step env q (Enqueue now unix published c) = snd (enqueue now unix published c q)"
| "queue_step env q (AbortStream now published cue chunk created) = queue_abort_stream now published cue chunk created q"
| "queue_step env q (SetStreamActive published b) = set_desktop_stream_active published b q"
| "queue_step env q (AudioDelta cue response now_ms qpc audible) =
     snd (stage_audio_delta cue response now_ms qpc audible q)"
| "queue_step env q (AudioDone response now_ms qpc) = snd (stage_audio_done response now_ms qpc q)"
| "queue_step env q (AppendTimeline io milestone t) = snd (append_desktop_timeline (en_to_vec env) io milestone t q)"
| "queue_step env q (FailEvidence failure) = fail_timeline_evidence failure q"
| "queue_step env q (SealTimeline io) = snd (seal_desktop_timeline (en_escape env) (en_digest env) io q)"
| "queue_step env q (RemoveTimeline response) = remove_desktop_timeline response q"
| "queue_step env q (DrainAndStop published) = drain_and_stop published q"
| "queue_step env q (BeginFinishing published) = begin_provider_finishing published q"
| "queue_step env q (AbortQueue published) = queue_abort published q"
| "queue_step env q (FinishActive published) = finish_active published q"

text \<open>
  Calls of more than one critical section; \<open>others\<close> is what other threads do on the queue between the two.
  In the failure of the evidence, \<open>edge\<close> is what the store answers when the renderer failure is recorded.
\<close>

definition append_staged ::
  "queue_env \<Rightarrow> timeline_io \<Rightarrow> queue_op list \<Rightarrow> (rstring + (rstring \<times> DesktopPlaybackTimeline) option) \<times> OmniPlaybackQueue \<Rightarrow>
     (rstring + unit) \<times> OmniPlaybackQueue" where
  "append_staged env io others staged =
     (case staged of
        (Inl e, q) \<Rightarrow> (Inl e, q)
      | (Inr None, q) \<Rightarrow> (Inr (), q)
      | (Inr (Some (milestone, snapshot)), q) \<Rightarrow>
          append_desktop_timeline (en_to_vec env) io milestone snapshot (runs (queue_step env) q others))"

definition record_desktop_audio_delta ::
  "queue_env \<Rightarrow> timeline_io \<Rightarrow> rstring \<Rightarrow> rstring \<Rightarrow> nat \<Rightarrow> nat option \<Rightarrow> bool \<Rightarrow> queue_op list \<Rightarrow>
     OmniPlaybackQueue \<Rightarrow> (rstring + unit) \<times> OmniPlaybackQueue" where
  "record_desktop_audio_delta env io cue_id response_id now_ms qpc_100ns audible others q =
     append_staged env io others (stage_audio_delta cue_id response_id now_ms qpc_100ns audible q)"

definition record_desktop_audio_done ::
  "queue_env \<Rightarrow> timeline_io \<Rightarrow> rstring \<Rightarrow> nat \<Rightarrow> nat option \<Rightarrow> queue_op list \<Rightarrow>
     OmniPlaybackQueue \<Rightarrow> (rstring + unit) \<times> OmniPlaybackQueue" where
  "record_desktop_audio_done env io response_id now_ms qpc_100ns others q =
     append_staged env io others (stage_audio_done response_id now_ms qpc_100ns q)"

definition fail_desktop_evidence ::
  "queue_env \<Rightarrow> instant \<Rightarrow> rstring + unit \<Rightarrow> rstring \<Rightarrow> queue_op list \<Rightarrow> OmniPlaybackQueue \<Rightarrow>
     (rstring + unit) \<times> OmniPlaybackQueue" where
  "fail_desktop_evidence env published edge error others q =
     (let reason = str ''native-desktop-evidence-failed: '' @ error;
          failure = (case edge of
            Inr _ \<Rightarrow> reason
          | Inl edge_error \<Rightarrow> reason @ str ''; typed renderer failure edge rejected: '' @ edge_error)
      in (Inl failure, queue_abort published (runs (queue_step env) (fail_timeline_evidence failure q) others)))"

text \<open>The blocking call: the passes, what other threads do during each wait, and whether it timed out.\<close>

record recv_wait =
  rw_now :: instant
  rw_published :: instant
  rw_others :: "queue_op list"
  rw_timed_out :: bool

fun recv_loop ::
  "queue_env \<Rightarrow> instant \<Rightarrow> recv_wait list \<Rightarrow> OmniPlaybackQueue \<Rightarrow> (OmniPlaybackReceiveOutcome \<times> OmniPlaybackQueue) option" where
  "recv_loop env deadline [] q = None"
| "recv_loop env deadline (w # ws) q =
     (case recv_pass deadline (rw_now w) (rw_published w) q of
        (Some r, q') \<Rightarrow> Some (r, q')
      | (None, q') \<Rightarrow>
          let q'' = runs (queue_step env) q' (rw_others w)
          in if rw_timed_out w \<and> oq_pending q'' = [] then Some (ReceiveTimeout, q'')
             else recv_loop env deadline ws q'')"

definition recv_timeout ::
  "queue_env \<Rightarrow> instant \<Rightarrow> duration \<Rightarrow> recv_wait list \<Rightarrow> OmniPlaybackQueue \<Rightarrow>
     (OmniPlaybackReceiveOutcome \<times> OmniPlaybackQueue) option" where
  "recv_timeout env start timeout ws q = recv_loop env (start + timeout) ws q"

text \<open>
  The system: the queue, the ledger's live guards, the commands that were accepted and those the worker
  took, in order. The worker hands back only the command it took last.
\<close>

record playback_run =
  pr_queue :: OmniPlaybackQueue
  pr_guards :: quiescence_system
  pr_accepted :: "OmniPlaybackCommand list"
  pr_delivered :: "OmniPlaybackCommand list"

datatype playback_op =
    QueueOp queue_op
  | RecvPass instant instant instant
  | ReturnLast instant
  | LedgerOp quiescence_op

fun accepted_by :: "OmniPlaybackQueue \<Rightarrow> queue_op \<Rightarrow> OmniPlaybackCommand list" where
  "accepted_by q (Enqueue now unix published c) =
     (case fst (enqueue now unix published c q) of
        Queued \<Rightarrow> [c]
      | QueuedAfterDroppingStale _ \<Rightarrow> [c]
      | _ \<Rightarrow> [])"
| "accepted_by q _ = []"

definition delivered_by :: "OmniPlaybackReceiveOutcome option \<Rightarrow> OmniPlaybackCommand list" where
  "delivered_by r = (case r of Some (ReceivedCommand c _) \<Rightarrow> [c] | _ \<Rightarrow> [])"

text \<open>
  The ledger is shared: its other users, the queue of another session direction among them, take any of its
  steps between those of this queue.
\<close>

fun playback_step :: "queue_env \<Rightarrow> playback_run \<Rightarrow> playback_op \<Rightarrow> playback_run" where
  "playback_step env y (QueueOp e) =
     y\<lparr>pr_queue := queue_step env (pr_queue y) e, pr_accepted := pr_accepted y @ accepted_by (pr_queue y) e\<rparr>"
| "playback_step env y (RecvPass deadline now published) =
     (let (r, q) = recv_pass deadline now published (pr_queue y)
      in y\<lparr>pr_queue := q, pr_delivered := pr_delivered y @ delivered_by r\<rparr>)"
| "playback_step env y (ReturnLast published) =
     (if pr_delivered y = [] \<or> oq_shutdown (pr_queue y) = QueueAborted then y
      else y\<lparr>pr_queue := return_pending published (last (pr_delivered y)) (pr_queue y),
             pr_delivered := butlast (pr_delivered y)\<rparr>)"
| "playback_step env y (LedgerOp e) =
     (case oq_quiescence (pr_queue y) of
        Some ledger \<Rightarrow>
          let g = quiescence_step ((pr_guards y)\<lparr>qy_state := ledger\<rparr>) e
          in y\<lparr>pr_guards := g, pr_queue := (pr_queue y)\<lparr>oq_quiescence := Some (qy_state g)\<rparr>\<rparr>
      | None \<Rightarrow> y)"

definition playback_init :: "nat \<Rightarrow> TimelineEvidence \<Rightarrow> playback_run" where
  "playback_init capacity evidence =
     \<lparr>pr_queue = the (new_with_quiescence (Suc capacity) (Some quiescence_default) evidence),
      pr_guards = quiescence_init, pr_accepted = [], pr_delivered = []\<rparr>"

section \<open>Properties\<close>

lemma publish_state_simps [simp]:
  "oq_pending (publish_state p q) = oq_pending q" "oq_active_expected_end (publish_state p q) = oq_active_expected_end q"
  "oq_terminated_stream_cues (publish_state p q) = oq_terminated_stream_cues q"
  "oq_desktop_timelines (publish_state p q) = oq_desktop_timelines q"
  "oq_desktop_stream_active (publish_state p q) = oq_desktop_stream_active q"
  "oq_shutdown (publish_state p q) = oq_shutdown q" "oq_capacity (publish_state p q) = oq_capacity q"
  "oq_timeline_evidence (publish_state p q) = oq_timeline_evidence q"
  by (simp_all add: publish_state_def)

text \<open>The ledger's entries are those of the queue.\<close>

definition mirrored :: "OmniPlaybackQueue \<Rightarrow> bool" where
  "mirrored q \<longleftrightarrow> (\<forall>ledger. oq_quiescence q = Some ledger \<longrightarrow>
     qn_queued_commands (qs_snapshot ledger) = length (oq_pending q) \<and>
     qn_active_commands (qs_snapshot ledger) = active_count q)"

lemma refresh_keeps_queue [simp]:
  "qn_queued_commands (qs_snapshot (refresh_pending_audio s)) = qn_queued_commands (qs_snapshot s)"
  "qn_active_commands (qs_snapshot (refresh_pending_audio s)) = qn_active_commands (qs_snapshot s)"
  by (simp_all add: refresh_pending_audio_def on_snapshot_def split: option.split prod.split)

text \<open>The publications of the queue's load that another queue makes.\<close>

definition is_set_queue :: "quiescence_op \<Rightarrow> bool" where
  "is_set_queue e = (case e of SetQueue _ _ _ _ \<Rightarrow> True | _ \<Rightarrow> False)"

text \<open>
  Whether the ledger shows the load of this queue: another queue's publication hides it, and the operations
  of this queue that publish whatever its state is show it again.
\<close>

definition shows_own :: "bool \<Rightarrow> playback_op \<Rightarrow> bool" where
  "shows_own own e = (case e of
     LedgerOp e' \<Rightarrow> own \<and> \<not> is_set_queue e'
   | QueueOp (SetStreamActive _ _) \<Rightarrow> True
   | QueueOp (DrainAndStop _) \<Rightarrow> True
   | QueueOp (BeginFinishing _) \<Rightarrow> True
   | QueueOp (AbortQueue _) \<Rightarrow> True
   | QueueOp (FinishActive _) \<Rightarrow> True
   | _ \<Rightarrow> own)"

definition last_publisher_own :: "playback_op list \<Rightarrow> bool" where
  "last_publisher_own es = foldl shows_own True es"

lemma ledger_op_keeps_queue:
  "\<not> is_set_queue e \<Longrightarrow>
     qn_queued_commands (qs_snapshot (qy_state (quiescence_step y e))) = qn_queued_commands (qs_snapshot (qy_state y)) \<and>
     qn_active_commands (qs_snapshot (qy_state (quiescence_step y e))) = qn_active_commands (qs_snapshot (qy_state y))"
  by (cases e) (auto simp: is_set_queue_def enter_def set_pending_native_audio_def begin_bridge_ack_def
      observe_bridge_playback_status_def expect_bridge_playback_cue_for_owner_def observe_bridge_playback_status_for_owner_def
      wait_for_restart_barrier_def try_begin_restart_barrier_def drop_submission_guard_def drop_ack_guard_def
      drop_restart_guard_def recount_cues_def on_snapshot_def Let_def simp del: str_def split: option.splits)

lemma mirrored_publish [simp]: "mirrored (publish_state p q)"
  by (auto simp: mirrored_def publish_state_def set_queue_state_def on_snapshot_def active_count_def)

lemma mirrored_cong:
  "mirrored q \<Longrightarrow> oq_quiescence q' = oq_quiescence q \<Longrightarrow> oq_pending q' = oq_pending q \<Longrightarrow>
     oq_active_expected_end q' = oq_active_expected_end q \<Longrightarrow> oq_desktop_stream_active q' = oq_desktop_stream_active q \<Longrightarrow>
     mirrored q'"
  by (simp add: mirrored_def active_count_def)

text \<open>A call on the evidence leaves the rest of the queue alone.\<close>

definition only_evidence :: "OmniPlaybackQueue \<Rightarrow> OmniPlaybackQueue \<Rightarrow> bool" where
  "only_evidence q q' \<longleftrightarrow> oq_quiescence q' = oq_quiescence q \<and> oq_pending q' = oq_pending q \<and>
     oq_active_expected_end q' = oq_active_expected_end q \<and> oq_desktop_stream_active q' = oq_desktop_stream_active q \<and>
     oq_terminated_stream_cues q' = oq_terminated_stream_cues q \<and> oq_shutdown q' = oq_shutdown q"

lemma evidence_ops:
  "only_evidence q (snd (append_desktop_timeline to_vec io milestone t q))"
  "only_evidence q (snd (seal_desktop_timeline escape digest io q))"
  "only_evidence q (snd (stage_audio_delta cue response now_ms qpc audible q))"
  "only_evidence q (snd (stage_audio_done response now_ms qpc q))"
  "only_evidence q (fail_timeline_evidence failure q)"
  "only_evidence q (remove_desktop_timeline response q)"
  by (auto simp: only_evidence_def append_desktop_timeline_def seal_desktop_timeline_def stage_audio_delta_def
      stage_audio_done_def fail_timeline_evidence_def remove_desktop_timeline_def Let_def split: prod.split option.split)

lemma mirrored_evidence: "mirrored q \<Longrightarrow> only_evidence q q' \<Longrightarrow> mirrored q'"
  by (auto simp: only_evidence_def intro: mirrored_cong)

lemma mirrored_queue_step: "mirrored q \<Longrightarrow> mirrored (queue_step env q e)"
  by (cases e) (auto simp: enqueue_def queue_abort_stream_def set_desktop_stream_active_def
      drain_and_stop_def begin_provider_finishing_def queue_abort_def finish_active_def Let_def
      simp del: str_def intro: mirrored_evidence evidence_ops)

lemma mirrored_recv_pass: "mirrored q \<Longrightarrow> mirrored (snd (recv_pass deadline now published q))"
  by (auto simp: recv_pass_def Let_def split: list.split)

text \<open>Commands that no cancellation took, and the accounting for them.\<close>

definition kept :: "OmniPlaybackQueue \<Rightarrow> OmniPlaybackCommand \<Rightarrow> bool" where
  "kept q c \<longleftrightarrow> \<not> terminated_stream (oq_terminated_stream_cues q) c"

definition accounted :: "OmniPlaybackQueue \<Rightarrow> OmniPlaybackCommand list \<Rightarrow> OmniPlaybackCommand list \<Rightarrow> bool" where
  "accounted q delivered accepted \<longleftrightarrow> (oq_shutdown q \<noteq> QueueAborted \<longrightarrow>
     filter (kept q) (delivered @ oq_pending q) = filter (kept q) accepted)"

definition playback_inv :: "playback_run \<Rightarrow> bool" where
  "playback_inv y \<longleftrightarrow> accounted (pr_queue y) (pr_delivered y) (pr_accepted y)"

lemma accounted_cong:
  "accounted q ds as \<Longrightarrow> oq_pending q' = oq_pending q \<Longrightarrow> oq_terminated_stream_cues q' = oq_terminated_stream_cues q \<Longrightarrow>
     (oq_shutdown q = QueueAborted \<Longrightarrow> oq_shutdown q' = QueueAborted) \<Longrightarrow> accounted q' ds as"
  by (auto simp: accounted_def kept_def [abs_def])

lemma accounted_abort_stream:
  assumes "accounted q ds as"
  shows "accounted (queue_abort_stream now published cue chunk created q) ds as"
proof (cases "oq_shutdown q = QueueAborted \<or> cue \<in> oq_terminated_stream_cues q")
  case True
  with assms show ?thesis by (simp add: queue_abort_stream_def)
next
  case False
  let ?q = "queue_abort_stream now published cue chunk created q"
  have eq: "kept ?q c \<longleftrightarrow> kept q c \<and> \<not> terminated_stream {cue} c" for c
    using False by (auto simp: kept_def queue_abort_stream_def terminated_stream_def)
  have split: "filter (kept ?q) xs = filter (\<lambda>c. \<not> terminated_stream {cue} c) (filter (kept q) xs)" for xs
    by (induction xs) (auto simp: eq)
  have "filter (kept ?q) (oq_pending ?q) = filter (kept ?q) (oq_pending q)"
    using False by (auto simp: queue_abort_stream_def kept_def terminated_stream_def intro: filter_cong)
  then have "filter (kept ?q) (ds @ oq_pending ?q) = filter (kept ?q) (ds @ oq_pending q)" by simp
  also have "\<dots> = filter (kept ?q) as" using assms False unfolding split accounted_def by simp
  finally show ?thesis by (simp add: accounted_def)
qed

lemma accounted_enqueue:
  assumes "accounted q ds as"
  shows "accounted (snd (enqueue now unix published c q)) ds (as @ accepted_by q (Enqueue now unix published c))"
  using assms
  by (auto simp: enqueue_def accounted_def kept_def [abs_def] drain_expired_pending_def Let_def)

lemma accounted_evidence: "accounted q ds as \<Longrightarrow> only_evidence q q' \<Longrightarrow> accounted q' ds as"
  by (auto simp: only_evidence_def intro: accounted_cong)

lemma accounted_aborted: "accounted (queue_abort published q) ds as"
  by (simp add: accounted_def queue_abort_def)

lemma accounted_queue_step:
  assumes "accounted q ds as"
  shows "accounted (queue_step env q e) ds (as @ accepted_by q e)"
proof (cases e)
  case (Enqueue now unix published c)
  with accounted_enqueue [OF assms] show ?thesis by simp
next
  case (AbortStream now published cue chunk created)
  with accounted_abort_stream [OF assms] show ?thesis by simp
qed (auto simp: accounted_evidence [OF assms] evidence_ops accounted_aborted set_desktop_stream_active_def
    drain_and_stop_def begin_provider_finishing_def finish_active_def Let_def
    simp del: str_def intro!: accounted_cong [OF assms])

lemma accounted_recv_pass:
  assumes "accounted q ds as" "recv_pass deadline now published q = (r, q')"
  shows "accounted q' (ds @ delivered_by r) as"
  using assms
  by (auto simp: recv_pass_def delivered_by_def drain_expired_pending_def accounted_def kept_def [abs_def] Let_def
      split: if_splits list.splits)

lemma playback_inv_step:
  assumes "playback_inv y"
  shows "playback_inv (playback_step env y e)"
proof (cases e)
  case (QueueOp e')
  with assms show ?thesis by (simp add: playback_inv_def accounted_queue_step)
next
  case (RecvPass deadline now published)
  obtain r q where "recv_pass deadline now published (pr_queue y) = (r, q)" by fastforce
  with RecvPass assms accounted_recv_pass [of "pr_queue y" "pr_delivered y" "pr_accepted y" deadline now published r q]
  show ?thesis by (simp add: playback_inv_def)
next
  case (ReturnLast published)
  show ?thesis
  proof (cases "pr_delivered y = [] \<or> oq_shutdown (pr_queue y) = QueueAborted")
    case False
    then have "pr_delivered y @ oq_pending (pr_queue y) =
        butlast (pr_delivered y) @ last (pr_delivered y) # oq_pending (pr_queue y)"
      using append_butlast_last_id [of "pr_delivered y"] by (metis append.assoc append_Cons append_Nil)
    with False assms ReturnLast show ?thesis
      by (simp add: playback_inv_def return_pending_def accounted_def kept_def [abs_def])
  qed (use assms ReturnLast in simp)
next
  case (LedgerOp e')
  with assms show ?thesis
    by (auto simp: playback_inv_def accounted_def kept_def [abs_def] Let_def split: option.splits)
qed

lemma playback_inv_init: "playback_inv (playback_init capacity evidence)"
  by (simp add: playback_inv_def playback_init_def new_with_quiescence_def accounted_def)

interpretation playback: invariant_system "playback_init capacity evidence" "playback_step env" playback_inv
  for capacity evidence env
  by unfold_locales (rule playback_inv_init, rule playback_inv_step)

text \<open>
  C32: Unless the queue is aborted, in every interleaving of producers, the worker and cancellations, what
  the worker has taken followed by what is still queued is what was accepted, in that order, with
  nothing lost or repeated, when the commands of cancelled streams are left out; complete cues are never
  left out. Whatever age or load the queue has, no other accepted command is dropped. A receive that
  reports the end of a graceful drain therefore comes after all of it was taken.
\<close>

theorem accepted_audio_in_order:
  fixes capacity :: nat and evidence :: TimelineEvidence
  assumes "y = runs (playback_step env) (playback_init capacity evidence) es" and "oq_shutdown (pr_queue y) \<noteq> QueueAborted"
  shows "filter (kept (pr_queue y)) (pr_delivered y @ oq_pending (pr_queue y)) = filter (kept (pr_queue y)) (pr_accepted y) \<and>
    (fst (recv_pass deadline now published (pr_queue y)) = Some ReceiveStopped \<longrightarrow>
       filter (kept (pr_queue y)) (pr_delivered y) = filter (kept (pr_queue y)) (pr_accepted y))"
proof -
  have acc: "filter (kept (pr_queue y)) (pr_delivered y @ oq_pending (pr_queue y)) = filter (kept (pr_queue y)) (pr_accepted y)"
    using playback.inv_reachable [of env capacity evidence es] assms by (simp add: playback_inv_def accounted_def)
  have "oq_pending (pr_queue y) = []" if "fst (recv_pass deadline now published (pr_queue y)) = Some ReceiveStopped"
    using that assms(2) by (auto simp: recv_pass_def Let_def split: list.splits if_splits)
  with acc show ?thesis by auto
qed

definition demo_command :: OmniPlaybackCommand where
  "demo_command = Play [1, 2] [97] None 24000 5 0 40"

definition demo_chunk :: OmniPlaybackCommand where
  "demo_chunk = PlayStream [3] [98] (Some [114]) 24000 6 0 40 1 StreamChunk None"

definition demo_evidence :: TimelineEvidence where
  "demo_evidence = te_open sample_io None \<lparr>ti_run_marker = None, ti_cell_id = None, ti_lease_id = None\<rparr> None None"

definition demo_env :: queue_env where
  "demo_env = \<lparr>en_to_vec = (\<lambda>r. Inr []), en_escape = (\<lambda>c. [c]), en_digest = (\<lambda>b. [])\<rparr>"

definition demo_ops :: "playback_op list" where
  "demo_ops = [QueueOp (Enqueue 10 0 10 demo_command), QueueOp (Enqueue 11 0 11 demo_chunk), RecvPass 20 12 12,
     QueueOp (AbortStream 13 13 [98] 2 0), QueueOp (Enqueue 14 0 14 demo_command), QueueOp (DrainAndStop 15)]"

definition demo_run :: playback_run where
  "demo_run = runs (playback_step demo_env) (playback_init 3 demo_evidence) demo_ops"

lemma demo_run_eval:
  "pr_accepted demo_run = [demo_command, demo_chunk, demo_command]" "pr_delivered demo_run = [demo_command]"
  "oq_shutdown (pr_queue demo_run) = QueueDraining" "oq_terminated_stream_cues (pr_queue demo_run) = {[98]}"
  by (simp_all add: demo_run_def demo_ops_def playback_init_def new_with_quiescence_def demo_command_def demo_chunk_def
      enqueue_def terminated_stream_def realtime_start_age_def drain_expired_pending_def recv_pass_def delivered_by_def
      queue_abort_stream_def drain_and_stop_def Let_def)

theorem accepted_audio_in_order_witness:
  "filter (kept (pr_queue demo_run)) (pr_delivered demo_run @ oq_pending (pr_queue demo_run)) = [demo_command, demo_command]"
proof -
  have "filter (kept (pr_queue demo_run)) (pr_delivered demo_run @ oq_pending (pr_queue demo_run)) =
      filter (kept (pr_queue demo_run)) (pr_accepted demo_run)"
    using accepted_audio_in_order [OF demo_run_def] by (simp add: demo_run_eval(3))
  then show ?thesis by (simp add: demo_run_eval kept_def terminated_stream_def demo_command_def demo_chunk_def)
qed

lemma mirrored_ledger_op:
  assumes "mirrored (pr_queue y)" and "\<not> is_set_queue e"
  shows "mirrored (pr_queue (playback_step env y (LedgerOp e)))"
  using assms ledger_op_keeps_queue [OF assms(2)]
  by (auto simp: mirrored_def active_count_def Let_def split: option.splits)

lemma mirrored_playback_step:
  assumes "own \<Longrightarrow> mirrored (pr_queue y)" and "shows_own own e"
  shows "mirrored (pr_queue (playback_step env y e))"
proof (cases e)
  case (QueueOp e')
  show ?thesis
  proof (cases own)
    case True
    with assms(1) QueueOp show ?thesis by (simp add: mirrored_queue_step)
  next
    case False
    with assms(2) QueueOp show ?thesis
      by (cases e') (simp_all add: shows_own_def set_desktop_stream_active_def drain_and_stop_def
        begin_provider_finishing_def queue_abort_def finish_active_def)
  qed
next
  case (RecvPass deadline now published)
  with assms have "mirrored (pr_queue y)" by (simp add: shows_own_def)
  with RecvPass mirrored_recv_pass [of "pr_queue y" deadline now published] show ?thesis
    by (cases "recv_pass deadline now published (pr_queue y)") simp
next
  case (ReturnLast published)
  with assms show ?thesis by (simp add: shows_own_def return_pending_def)
next
  case (LedgerOp e')
  with assms mirrored_ledger_op [of y e' env] show ?thesis by (simp add: shows_own_def)
qed

lemma mirrored_runs:
  "last_publisher_own es \<Longrightarrow> mirrored (pr_queue (runs (playback_step env) (playback_init capacity evidence) es))"
proof (induction es rule: rev_induct)
  case Nil
  show ?case
    by (simp add: playback_init_def new_with_quiescence_def mirrored_def active_count_def quiescence_default_def)
next
  case (snoc e es)
  from snoc.prems have "shows_own (last_publisher_own es) e" by (simp add: last_publisher_own_def)
  from mirrored_playback_step [OF snoc.IH this] show ?case by (simp del: playback_step.simps)
qed


lemma set_queue_state_no_cues:
  "qs_active_bridge_cues s = [] \<Longrightarrow> set_queue_state n a f r s =
     s\<lparr>qs_snapshot := (qs_snapshot s)\<lparr>qn_queued_commands := n, qn_active_commands := a, qn_pending_audio_frames := Some f,
          qn_output_sample_rate_hz := (if r > 0 then Some r else None)\<rparr>,
        qs_queued_audio_frames := f, qs_queued_audio_sample_rate_hz := r\<rparr>"
  by (simp add: set_queue_state_def refresh_pending_audio_def on_snapshot_def)

lemma pending_frames_idle: "oq_pending q = [] \<Longrightarrow> oq_active_expected_end q = None \<Longrightarrow> pending_frames q now = 0"
  by (simp add: pending_frames_def projected_start_def u128_max_def)

text \<open>The witness lets another queue publish in between, before this one publishes again.\<close>

definition demo_shared :: "playback_op list" where
  "demo_shared = [QueueOp (Enqueue 10 0 10 demo_command), RecvPass 20 12 12, LedgerOp (SetQueue 3 1 9 24000),
     QueueOp (FinishActive 52)]"


text \<open>
  The queue of a second session direction shares the ledger and overwrites the load that the first has
  published: here the first holds an accepted command, the second, which is idle, publishes its own
  state, and a restart is granted while the command is still queued.
\<close>

lemma second_queue_hides_load:
  fixes first second :: OmniPlaybackQueue and ledger :: QuiescenceState
  defines "ledger \<equiv> quiescence_default"
  defines "first \<equiv> queue_step demo_env (the (new_with_quiescence 4 (Some ledger) demo_evidence))
    (Enqueue 10 0 10 demo_command)"
  defines "second \<equiv> queue_step demo_env (the (new_with_quiescence 4 (oq_quiescence first) demo_evidence))
    (SetStreamActive 11 False)"
  shows "oq_pending first = [demo_command] \<and>
    Option.bind (oq_quiescence first) try_begin_restart_barrier = None \<and>
    Option.bind (oq_quiescence second) try_begin_restart_barrier \<noteq> None \<and>
    oq_quiescence second = map_option (\<lambda>l. qy_state (quiescence_step (quiescence_init\<lparr>qy_state := l\<rparr>)
      (SetQueue 0 0 0 24000))) (oq_quiescence first)"
  by (simp add: second_def first_def ledger_def new_with_quiescence_def demo_command_def enqueue_def
      terminated_stream_def realtime_start_age_def drain_expired_pending_def set_desktop_stream_active_def
      publish_state_def Let_def set_queue_state_no_cues quiescence_default_def quiescence_init_def on_snapshot_def
      try_begin_restart_barrier_def is_quiescent_def active_count_def pending_frames_idle OMNI_OUTPUT_SAMPLE_RATE_HZ_def)

section \<open>The blocking receive\<close>

text \<open>A receive is a sequence of steps of the system, so that the properties above hold after it.\<close>

lemma queue_ops_run:
  "pr_queue (runs (playback_step env) y (map QueueOp es)) = runs (queue_step env) (pr_queue y) es \<and>
   pr_delivered (runs (playback_step env) y (map QueueOp es)) = pr_delivered y"
  by (induction es arbitrary: y) simp_all

lemma recv_loop_runs:
  "recv_loop env deadline ws (pr_queue y) = Some (r, q) \<Longrightarrow>
     \<exists>es. pr_queue (runs (playback_step env) y es) = q \<and>
       pr_delivered (runs (playback_step env) y es) = pr_delivered y @ delivered_by (Some r)"
proof (induction ws arbitrary: y)
  case (Cons w ws)
  obtain r1 q1 where pass: "recv_pass deadline (rw_now w) (rw_published w) (pr_queue y) = (r1, q1)" by fastforce
  let ?pass = "RecvPass deadline (rw_now w) (rw_published w)"
  let ?y1 = "playback_step env y ?pass"
  let ?y2 = "runs (playback_step env) ?y1 (map QueueOp (rw_others w))"
  show ?case
  proof (cases r1)
    case None
    with pass have y1: "pr_queue ?y1 = q1" "pr_delivered ?y1 = pr_delivered y" by (simp_all add: delivered_by_def)
    note y2 = queue_ops_run [of env ?y1 "rw_others w", unfolded y1]
    show ?thesis
    proof (cases "rw_timed_out w \<and> oq_pending (pr_queue ?y2) = []")
      case True
      with Cons.prems pass None y2 have "r = ReceiveTimeout" "q = pr_queue ?y2" by (auto simp: Let_def split: if_splits)
      with y2 show ?thesis
        by (intro exI [of _ "?pass # map QueueOp (rw_others w)"]) (simp add: delivered_by_def)
    next
      case False
      with Cons.prems pass None y2 have "recv_loop env deadline ws (pr_queue ?y2) = Some (r, q)"
        by (auto simp: Let_def split: if_splits)
      from Cons.IH [OF this] obtain es where "pr_queue (runs (playback_step env) ?y2 es) = q"
        "pr_delivered (runs (playback_step env) ?y2 es) = pr_delivered ?y2 @ delivered_by (Some r)" by blast
      with y2 show ?thesis
        by (intro exI [of _ "?pass # map QueueOp (rw_others w) @ es"]) simp
    qed
  next
    case (Some r')
    with Cons.prems pass show ?thesis by (intro exI [of _ "[?pass]"]) simp
  qed
qed simp

text \<open>So are the calls of two critical sections.\<close>

lemma append_staged_runs:
  assumes "snd staged = runs (queue_step env) q es"
  shows "\<exists>es. snd (append_staged env io others staged) = runs (queue_step env) q es"
proof (cases staged)
  case (Pair r q1)
  show ?thesis
  proof (cases "\<exists>milestone snapshot. r = Inr (Some (milestone, snapshot))")
    case True
    then obtain milestone snapshot where "r = Inr (Some (milestone, snapshot))" by blast
    with Pair assms show ?thesis
      by (intro exI [of _ "es @ others @ [AppendTimeline io milestone snapshot]"]) (simp add: append_staged_def)
  next
    case False
    with Pair assms show ?thesis
      by (intro exI [of _ es]) (auto simp: append_staged_def split: sum.split option.split)
  qed
qed

lemma calls_are_runs:
  "\<exists>es. snd (record_desktop_audio_delta env io cue response now_ms qpc audible others q) = runs (queue_step env) q es"
  "\<exists>es. snd (record_desktop_audio_done env io response now_ms qpc others q) = runs (queue_step env) q es"
  "\<exists>es. snd (fail_desktop_evidence env published edge error others q) = runs (queue_step env) q es"
  unfolding record_desktop_audio_delta_def record_desktop_audio_done_def
  subgoal by (rule append_staged_runs [of _ _ _ "[AudioDelta cue response now_ms qpc audible]"]) simp
  subgoal by (rule append_staged_runs [of _ _ _ "[AudioDone response now_ms qpc]"]) simp
  subgoal
    by (rule exI [of _ "FailEvidence (case edge of
        Inr _ \<Rightarrow> str ''native-desktop-evidence-failed: '' @ error
      | Inl e \<Rightarrow> (str ''native-desktop-evidence-failed: '' @ error) @ str ''; typed renderer failure edge rejected: '' @ e) #
      others @ [AbortQueue published]"]) (simp add: fail_desktop_evidence_def Let_def del: str_def)
  done

lemma recv_timeout_returns:
  "\<exists>w\<in>set ws. start + timeout \<le> rw_now w \<Longrightarrow> \<exists>r q'. recv_timeout env start timeout ws q = Some (r, q')"
proof -
  have "\<exists>w\<in>set ws. deadline \<le> rw_now w \<Longrightarrow> \<exists>r q'. recv_loop env deadline ws q = Some (r, q')" for deadline
  proof (induction ws arbitrary: q)
    case (Cons w ws)
    show ?case
    proof (cases "deadline \<le> rw_now w")
      case True
      then show ?thesis by (auto simp: recv_pass_def Let_def split: list.split prod.split)
    next
      case False
      with Cons show ?thesis by (auto simp: Let_def split: prod.split option.split)
    qed
  qed simp
  then show "\<exists>w\<in>set ws. start + timeout \<le> rw_now w \<Longrightarrow> ?thesis" by (simp add: recv_timeout_def)
qed

end
