(* ===== verification/Dialogue_Schema.thy ===== *)
theory Dialogue_Schema
  imports Model_Authorization "HOL-Library.Word" "HOL-Library.List_Lexorder"
begin

text \<open>
  The message schemas of the dialogue protocols (first part of \<open>audio/bailian_dialogue.rs\<close>): the typed
  accessors, the session message the client sends, the validation of client events, and the check of
  the session a server echoes. The Base64 decoder is third-party and a field of \<open>dialogue_env\<close>, with the
  fingerprint of an event and the registry that \<open>Model_Authorization\<close> asks about events.
\<close>

section \<open>Accessors\<close>

definition MAX_TEXT_BYTES :: nat where "MAX_TEXT_BYTES = 256 * 1024"
definition MAX_ACTIVE_RESPONSES :: nat where "MAX_ACTIVE_RESPONSES = 32"
definition MAX_INPUT_ITEMS :: nat where "MAX_INPUT_ITEMS = 512"

record dialogue_env =
  de_base64 :: "rstring \<Rightarrow> 8 word list option"
  de_fingerprint :: "json \<Rightarrow> nat"
  de_registry :: registry_env

abbreviation de_admit ::
  "dialogue_env \<Rightarrow> AuthorizedModelProtocolProfile \<Rightarrow> ModelProtocolEventDirection \<Rightarrow> rstring \<Rightarrow> ModelProtocolFrameKind \<Rightarrow> rstring option" where
  "de_admit env \<equiv> registry_verdict (de_registry env)"

definition is_omni :: "AuthorizedModelProtocolProfile \<Rightarrow> bool" where
  "is_omni a \<longleftrightarrow> ap_adapter_id a = str ''desktop-omni-session-v2'' \<and>
     ap_wire_dialect a = str ''bailian-omni-realtime-ws-v2'' \<and> ap_wire_dialect_version a = 2"

definition is_supported_authority :: "AuthorizedModelProtocolProfile \<Rightarrow> bool" where
  "is_supported_authority a \<longleftrightarrow> is_omni a \<or>
     ap_adapter_id a = str ''desktop-qwen-audio-session-v1'' \<and>
     ap_wire_dialect a = str ''bailian-qwen-audio-chat-realtime-ws-v1'' \<and> ap_wire_dialect_version a = 1"

definition invalid_payload :: "rstring \<Rightarrow> rstring" where
  "invalid_payload message = str ''model_protocol.payload_invalid: '' @ message"

definition identity_error :: "rstring \<Rightarrow> rstring" where
  "identity_error message = str ''model_protocol.identity_mismatch: '' @ message"

definition string_field :: "json \<Rightarrow> rstring \<Rightarrow> rstring + rstring" where
  "string_field v key = ok_or (invalid_payload (key @ str '' must be a string'')) (Option.bind (json_get key v) as_str)"

definition text_field :: "json \<Rightarrow> rstring \<Rightarrow> rstring + rstring" where
  "text_field v key = and_then (string_field v key) (\<lambda>x.
     reject_if (trim x = []) (invalid_payload (key @ str '' must be nonempty'')) (Inr x))"

definition index_field :: "json \<Rightarrow> rstring \<Rightarrow> rstring + nat" where
  "index_field v key =
     (case Option.bind (json_get key v) as_u64 of
        Some n \<Rightarrow> reject_if (\<not> n < 32) (invalid_payload (key @ str '' must be an index in the implemented [0,31] subset'')) (Inr n)
      | None \<Rightarrow> Inl (invalid_payload (key @ str '' must be an index in the implemented [0,31] subset'')))"

definition fields_within :: "json \<Rightarrow> rstring list \<Rightarrow> rstring + unit" where
  "fields_within v allowed =
     and_then (ok_or (invalid_payload (str ''object required'')) (as_object v)) (\<lambda>fs.
       case find (\<lambda>key. key \<notin> set allowed) (map fst fs) of
         Some key \<Rightarrow> Inl (invalid_payload (str ''unsupported field '' @ key))
       | None \<Rightarrow> Inr ())"

definition optional_event_id :: "json \<Rightarrow> rstring + rstring option" where
  "optional_event_id event =
     (case json_get (str ''event_id'') event of
        None \<Rightarrow> Inr None
      | Some _ \<Rightarrow> and_then (text_field event (str ''event_id'')) (\<lambda>x. Inr (Some x)))"

definition pcm_field :: "dialogue_env \<Rightarrow> json \<Rightarrow> rstring \<Rightarrow> rstring + unit" where
  "pcm_field env v key =
     and_then (text_field v key) (\<lambda>encoded.
     and_then (ok_or (invalid_payload (str ''invalid PCM Base64'')) (de_base64 env encoded)) (\<lambda>bytes.
     reject_if (bytes = [] \<or> length bytes mod 2 \<noteq> 0)
       (invalid_payload (str ''PCM must contain complete nonempty s16le samples'')) (Inr ())))"

definition turn_ok :: "json \<Rightarrow> bool \<Rightarrow> rstring + unit" where
  "turn_ok v omni =
     (if v = JNull then Inr ()
      else
        and_then (fields_within v [str ''type'', str ''threshold'', str ''silence_duration_ms'']) (\<lambda>_.
        and_then (text_field v (str ''type'')) (\<lambda>kind.
        reject_if (kind \<noteq> str ''server_vad'') (invalid_payload (str ''unsupported dialogue turn detection''))
        (reject_if (is_some_and (json_get (str ''threshold'') v) (\<lambda>t.
            \<not> is_some_and (as_f64 t) (\<lambda>n. (if omni then - 1 else 0) \<le> n \<and> n \<le> 1)))
          (invalid_payload (str ''VAD threshold outside documented range''))
        (reject_if (is_some_and (json_get (str ''silence_duration_ms'') v) (\<lambda>t.
            \<not> is_some_and (as_u64 t) (\<lambda>n. if omni then 200 \<le> n \<and> n \<le> 6000 else n > 0)))
          (invalid_payload (str ''invalid VAD silence duration''))
          (Inr ()))))))"

text \<open>The ordered set of the modalities, only compared and searched, is a set.\<close>

fun modalities_loop :: "json list \<Rightarrow> rstring set \<Rightarrow> rstring + rstring set" where
  "modalities_loop [] found = Inr found"
| "modalities_loop (v # vs) found =
     and_then (ok_or (invalid_payload (str ''modality must be string'')) (as_str v)) (\<lambda>kind.
     reject_if (kind \<notin> {str ''text'', str ''audio''} \<or> kind \<in> found) (invalid_payload (str ''unknown or duplicate modality''))
       (modalities_loop vs (insert kind found)))"

definition modalities :: "json \<Rightarrow> rstring + rstring set" where
  "modalities v =
     and_then (ok_or (invalid_payload (str ''modalities must be an array'')) (as_array v)) (\<lambda>array.
     and_then (modalities_loop array {}) (\<lambda>found.
     reject_if (str ''text'' \<notin> found) (invalid_payload (str ''the typed dialogue subset requires text output'')) (Inr found)))"

definition layout_defaults :: "(rstring \<times> json) list" where
  "layout_defaults = [(str ''sample_format'', JString (str ''s16le'')), (str ''channels'', JNumber (PosInt 1)),
     (str ''packing'', JString (str ''interleaved'')), (str ''channel_layout'', JString (str ''mono''))]"

definition audio_format :: "json \<Rightarrow> nat \<Rightarrow> bool \<Rightarrow> rstring + unit" where
  "audio_format v rate is_input =
     and_then (fields_within v (if is_input
         then [str ''type'', str ''sample_rate'', str ''sample_format'', str ''channels'', str ''packing'', str ''channel_layout'']
         else [str ''type'', str ''sample_rate''])) (\<lambda>_.
     reject_if (\<not> json_is (json_at v (str ''type'')) (str ''pcm'') \<or> as_u64 (json_at v (str ''sample_rate'')) \<noteq> Some rate)
       (invalid_payload (str ''unsupported Omni PCM format/rate''))
     (reject_if (is_input \<and> list_ex (\<lambda>(key, expected). is_some_and (json_get key v) (\<lambda>actual. actual \<noteq> expected)) layout_defaults)
       (invalid_payload (str ''unsupported Omni input layout'')) (Inr ())))"

definition common_voices :: "rstring list" where
  "common_voices = map str [''longanqian'', ''longanlingxin'', ''longanlingxi'', ''longanxiaoxin'', ''longanlufeng'']"

definition v31_voices :: "rstring list" where
  "v31_voices = map str [''longanqian_v3.1'', ''longanhuan_v3.1'', ''longanlingxin_v3.1'', ''longanfengyue_v3.1'',
     ''xunanchuan_v3.1'', ''beth_v3.1'', ''betty_v3.1'', ''cally_v3.1'']"

definition qwen_voice :: "AuthorizedModelProtocolProfile \<Rightarrow> json \<Rightarrow> rstring + unit" where
  "qwen_voice a v =
     and_then (ok_or (invalid_payload (str ''voice must be string'')) (as_str v)) (\<lambda>voice.
     reject_if (voice \<notin> set common_voices \<and>
         \<not> (ap_exact_model_id a = str ''qwen-audio-3.1-realtime-plus'' \<and> voice \<in> set v31_voices))
       (invalid_payload (str ''voice unsupported by exact Qwen-Audio model'')) (Inr ()))"

section \<open>The session message\<close>

definition pcm_format :: "nat \<Rightarrow> json" where
  "pcm_format rate = obj [(''type'', json_str ''pcm''), (''sample_rate'', JNumber (PosInt rate))]"

definition detection_for :: "rstring \<Rightarrow> json" where
  "detection_for mode =
     (if mode = str ''manual'' then JNull
      else if mode = str ''server_vad''
      then obj [(''type'', json_str ''server_vad''), (''threshold'', JNumber (Float (1 / 2))),
                (''silence_duration_ms'', JNumber (PosInt 400))]
      else obj [(''type'', JString mode)])"

definition voice_for :: "AuthorizedModelProtocolProfile \<Rightarrow> rstring \<Rightarrow> rstring" where
  "voice_for a voice =
     (if trim voice = [] \<or> voice = str ''auto'' \<or> voice = str ''default''
      then if is_omni a then str ''Tina''
           else if ap_exact_model_id a = str ''qwen-audio-3.1-realtime-plus'' then str ''longanqian_v3.1''
           else str ''longanqian''
      else trim voice)"

definition session_update :: "AuthorizedModelProtocolProfile \<Rightarrow> rstring \<Rightarrow> rstring \<Rightarrow> rstring \<Rightarrow> bool \<Rightarrow> json" where
  "session_update a voice instructions mode with_audio =
     (let base = [(''modalities'', JArray (if with_audio then [json_str ''text'', json_str ''audio''] else [json_str ''text''])),
            (''instructions'', JString instructions), (''turn_detection'', detection_for mode)];
          voice_entry = (if with_audio then [(''voice'', JString (voice_for a voice))] else []);
          rest = (if is_omni a
            then [(''audio'', obj [(''input'', obj [(''format'', pcm_format 16000)]),
                    (''output'', obj ((''format'', pcm_format 24000) # voice_entry))]),
                  (''input_audio_transcription'', obj [(''model'', json_str ''qwen3-asr-flash-realtime'')])]
            else [(''input_audio_format'', json_str ''pcm'')] @
                 (if with_audio then [(''output_audio_format'', json_str ''pcm'')] else []) @ voice_entry)
      in obj [(''type'', json_str ''session.update''), (''session'', obj (base @ rest))])"

definition validate_omni_session :: "json \<Rightarrow> rstring + unit" where
  "validate_omni_session session =
     (let audio = json_at session (str ''audio''); out = json_at audio (str ''output''); inp = json_at audio (str ''input'') in
      and_then (fields_within session (map str [''modalities'', ''instructions'', ''turn_detection'', ''audio'', ''input_audio_transcription''])) (\<lambda>_.
      and_then (fields_within audio (map str [''input'', ''output''])) (\<lambda>_.
      and_then (fields_within inp [str ''format'']) (\<lambda>_.
      and_then (fields_within out (map str [''format'', ''voice''])) (\<lambda>_.
      and_then (audio_format (json_at inp (str ''format'')) 16000 True) (\<lambda>_.
      and_then (audio_format (json_at out (str ''format'')) 24000 False) (\<lambda>_.
      reject_if (is_some_and (json_get (str ''voice'') out) (\<lambda>voice. \<not> is_some_and (as_str voice) (\<lambda>v. trim v \<noteq> [])))
        (invalid_payload (str ''Omni voice must be nonempty string''))
      (case json_get (str ''input_audio_transcription'') session of
         None \<Rightarrow> Inr ()
       | Some transcription \<Rightarrow>
           if transcription = JNull then Inr ()
           else and_then (fields_within transcription [str ''model'']) (\<lambda>_.
             reject_if (\<not> json_is (json_at transcription (str ''model'')) (str ''qwen3-asr-flash-realtime''))
               (invalid_payload (str ''unsupported Omni transcription model'')) (Inr ()))))))))))"

definition validate_qwen_session :: "AuthorizedModelProtocolProfile \<Rightarrow> json \<Rightarrow> rstring + unit" where
  "validate_qwen_session a session =
     and_then (fields_within session (map str [''modalities'', ''instructions'', ''turn_detection'', ''input_audio_format'',
         ''output_audio_format'', ''voice''])) (\<lambda>_.
     reject_if (\<not> json_is (json_at session (str ''input_audio_format'')) (str ''pcm'') \<or>
         is_some_and (json_get (str ''output_audio_format'') session) (\<lambda>v. \<not> json_is v (str ''pcm'')))
       (invalid_payload (str ''Qwen-Audio requires flat PCM formats''))
     (case json_get (str ''voice'') session of None \<Rightarrow> Inr () | Some voice \<Rightarrow> qwen_voice a voice))"

definition validate_session :: "AuthorizedModelProtocolProfile \<Rightarrow> json \<Rightarrow> rstring + unit" where
  "validate_session a session =
     and_then (if is_omni a then validate_omni_session session else validate_qwen_session a session) (\<lambda>_.
     and_then (modalities (json_at session (str ''modalities''))) (\<lambda>_.
     reject_if (is_some_and (json_get (str ''instructions'') session) (\<lambda>v. \<not> is_string v))
       (invalid_payload (str ''instructions must be string (empty is legal)''))
     (case json_get (str ''turn_detection'') session of None \<Rightarrow> Inr () | Some v \<Rightarrow> turn_ok v (is_omni a))))"

section \<open>Client events\<close>

definition admit_response_create :: "json \<Rightarrow> rstring + unit" where
  "admit_response_create event =
     and_then (fields_within event (map str [''type'', ''event_id'', ''response''])) (\<lambda>_.
     case json_get (str ''response'') event of
       None \<Rightarrow> Inr ()
     | Some response \<Rightarrow>
         and_then (fields_within response (map str [''modalities'', ''instructions''])) (\<lambda>_.
         and_then (case json_get (str ''modalities'') response of None \<Rightarrow> Inr {} | Some v \<Rightarrow> modalities v) (\<lambda>_.
         reject_if (is_some_and (json_get (str ''instructions'') response) (\<lambda>v. \<not> is_string v))
           (invalid_payload (str ''response instructions must be string'')) (Inr ()))))"

definition admit_client_event :: "dialogue_env \<Rightarrow> AuthorizedModelProtocolProfile \<Rightarrow> json \<Rightarrow> rstring + unit" where
  "admit_client_event env a event =
     reject_if (\<not> is_supported_authority a) (str ''model_protocol.adapter_unavailable: no typed dialogue adapter'')
     (and_then (text_field event (str ''type'')) (\<lambda>kind.
      case de_admit env a ClientEvent kind (if kind = str ''input_audio_buffer.append'' then JsonBase64Frame else JsonFrame) of
        Some code \<Rightarrow> Inl code
      | None \<Rightarrow>
          and_then (optional_event_id event) (\<lambda>_.
          if kind = str ''session.update''
          then and_then (fields_within event (map str [''type'', ''event_id'', ''session''])) (\<lambda>_.
                 validate_session a (json_at event (str ''session'')))
          else if kind = str ''input_audio_buffer.append''
          then and_then (fields_within event (map str [''type'', ''event_id'', ''audio''])) (\<lambda>_.
                 pcm_field env event (str ''audio''))
          else if kind = str ''input_audio_buffer.commit'' \<or> kind = str ''input_audio_buffer.clear''
          then fields_within event (map str [''type'', ''event_id''])
          else if kind = str ''response.create'' then admit_response_create event
          else if kind = str ''response.cancel''
          then and_then (fields_within event (map str [''type'', ''event_id'', ''response_id''])) (\<lambda>_.
                 if json_get (str ''response_id'') event \<noteq> None
                 then and_then (text_field event (str ''response_id'')) (\<lambda>_. Inr ()) else Inr ())
          else Inl (invalid_payload (str ''client event outside implemented dialogue subset'')))))"

section \<open>The echoed session\<close>

definition echo_differs :: "json \<Rightarrow> json \<Rightarrow> rstring \<Rightarrow> bool" where
  "echo_differs expected observed key \<longleftrightarrow>
     is_some_and (json_get key expected) (\<lambda>sent. is_some_and (json_get key observed) (\<lambda>received. sent \<noteq> received))"

definition check_echo_basics :: "AuthorizedModelProtocolProfile \<Rightarrow> json \<Rightarrow> json \<Rightarrow> rstring + unit" where
  "check_echo_basics a expected observed =
     reject_if (\<not> is_object observed) (invalid_payload (str ''session echo must be object''))
     (reject_if (is_some_and (json_get (str ''model'') observed) (\<lambda>m. as_str m \<noteq> Some (ap_exact_model_id a)))
       (identity_error (str ''echoed model differs''))
     (and_then
       (case json_get (str ''modalities'') observed of
          None \<Rightarrow> Inr ()
        | Some v \<Rightarrow> and_then (modalities v) (\<lambda>got. and_then (modalities (json_at expected (str ''modalities''))) (\<lambda>wanted.
            reject_if (got \<noteq> wanted) (identity_error (str ''echoed modalities differ'')) (Inr ()))))
       (\<lambda>_. case find (echo_differs expected observed) (map str [''instructions'', ''voice'', ''input_audio_format'', ''output_audio_format'']) of
              Some key \<Rightarrow> Inl (identity_error (str ''echoed '' @ key @ str '' differs''))
            | None \<Rightarrow> Inr ())))"

definition check_echo_transcription :: "json \<Rightarrow> json \<Rightarrow> rstring + unit" where
  "check_echo_transcription expected observed =
     (case (json_get (str ''input_audio_transcription'') expected, json_get (str ''input_audio_transcription'') observed) of
        (Some sent, Some received) \<Rightarrow>
          reject_if ((sent = JNull) \<noteq> (received = JNull) \<or>
              sent \<noteq> JNull \<and> json_at sent (str ''model'') \<noteq> json_at received (str ''model''))
            (identity_error (str ''echoed transcription model differs'')) (Inr ())
      | _ \<Rightarrow> Inr ())"

definition check_echo_turn :: "json \<Rightarrow> json \<Rightarrow> rstring + unit" where
  "check_echo_turn expected observed =
     (case (json_get (str ''turn_detection'') observed, json_get (str ''turn_detection'') expected) of
        (Some received, Some sent) \<Rightarrow>
          reject_if ((sent = JNull) \<noteq> (received = JNull)) (identity_error (str ''echoed turn mode differs''))
          (if sent = JNull then Inr ()
           else reject_if (json_at sent (str ''type'') \<noteq> json_at received (str ''type'')) (identity_error (str ''echoed turn type differs''))
            (reject_if (is_some_and (json_get (str ''create_response'') received) (\<lambda>v. v \<noteq> JBool True))
              (identity_error (str ''echo disabled automatic response creation''))
            (reject_if (list_ex (echo_differs sent received) [str ''threshold'', str ''silence_duration_ms''])
              (identity_error (str ''echoed VAD parameter differs'')) (Inr ()))))
      | _ \<Rightarrow> Inr ())"

definition check_echo_side :: "json \<Rightarrow> json \<Rightarrow> rstring \<Rightarrow> nat \<Rightarrow> bool \<Rightarrow> rstring + unit" where
  "check_echo_side expected observed side rate is_input =
     (let sent = json_at (json_at expected (str ''audio'')) side; received = json_at (json_at observed (str ''audio'')) side in
      and_then (audio_format (json_at received (str ''format'')) rate is_input) (\<lambda>_.
      reject_if (echo_differs sent received (str ''voice'')) (identity_error (str ''echoed nested voice differs'')) (Inr ())))"

definition check_echo_omni :: "json \<Rightarrow> json \<Rightarrow> rstring + unit" where
  "check_echo_omni expected observed =
     and_then (check_echo_side expected observed (str ''input'') 16000 True) (\<lambda>_.
     and_then (check_echo_side expected observed (str ''output'') 24000 False) (\<lambda>_.
     reject_if (json_get (str ''turn_detection'') (json_at (json_at observed (str ''audio'')) (str ''input'')) \<noteq> None)
       (identity_error (str ''LiveTranslate nested turn detection is not Omni''))
     (reject_if (is_some_and (json_get (str ''voice'') (json_at (json_at expected (str ''audio'')) (str ''output'')))
         (\<lambda>sent. is_some_and (json_get (str ''voice'') observed) (\<lambda>received. sent \<noteq> received)))
       (identity_error (str ''echoed voice differs''))
     (reject_if (list_ex (\<lambda>key. is_some_and (json_get key observed) (\<lambda>v.
         \<not> is_some_and (as_str v) (\<lambda>f. f = str ''pcm'' \<or> f = str ''pcm16''))) [str ''input_audio_format'', str ''output_audio_format''])
       (identity_error (str ''echoed incompatible legacy audio format'')) (Inr ())))))"

definition check_echo :: "AuthorizedModelProtocolProfile \<Rightarrow> json \<Rightarrow> json \<Rightarrow> rstring + unit" where
  "check_echo a expected observed =
     and_then (check_echo_basics a expected observed) (\<lambda>_.
     and_then (check_echo_transcription expected observed) (\<lambda>_.
     and_then (check_echo_turn expected observed) (\<lambda>_.
     and_then (if is_omni a then check_echo_omni expected observed else Inr ()) (\<lambda>_.
     reject_if (is_some_and (json_get (str ''enable_search'') observed) (\<lambda>v. v \<noteq> JBool False) \<or>
         is_some_and (json_get (str ''tools'') observed) (\<lambda>v. \<not> is_some_and (as_array v) (\<lambda>xs. xs = [])))
       (invalid_payload (str ''echo unexpectedly enabled tools/search'')) (Inr ())))))"

end
