(* ===== verification/Dialogue.thy ===== *)
theory Dialogue
  imports Dialogue_Schema
begin

text \<open>
  The server side of a dialogue session (second part of \<open>audio/bailian_dialogue.rs\<close>): the session
  handshake, input turns, responses with their output items, content parts and text streams, and the
  replay filter. Every handler returns an error or the new state; the source works on a copy that it
  drops on an error. A method that hands out a mutable reference into the state is a function that
  applies the caller's change at that place.
\<close>

section \<open>State\<close>

record TextStream =
  ts_text :: rstring
  ts_done :: bool

record OutputPart =
  op_kind :: "rstring option"
  op_announced :: bool
  op_done :: bool
  op_text :: "TextStream option"
  op_transcript :: "TextStream option"
  op_audio :: "bool option"

record OutputItem =
  oi_id :: rstring
  oi_announced :: bool
  oi_done :: bool
  oi_parts :: "(nat \<times> OutputPart) list"

record ResponseState =
  rs_done :: bool
  rs_prefer_audio :: bool
  rs_items :: "(nat \<times> OutputItem) list"
  rs_input_item :: "rstring option"

record InputState =
  in_pending :: bool
  in_answered :: bool
  in_abandoned :: bool
  in_speech :: bool
  in_ended :: bool
  in_transcripts :: "(nat \<times> TextStream) list"

record DialogueServerState =
  ds_expected :: "json option"
  ds_authority :: "json option"
  ds_session_id :: "rstring option"
  ds_active :: bool
  ds_responses :: "(rstring \<times> ResponseState) list"
  ds_response_order :: "rstring list"
  ds_item_owners :: "(rstring \<times> rstring \<times> nat) list"
  ds_inputs :: "(rstring \<times> InputState) list"
  ds_invalid_inputs :: "rstring set"
  ds_ambient_inputs :: "rstring set"
  ds_conversation_items :: "(rstring \<times> rstring) list"
  ds_seen :: "(rstring \<times> nat) list"
  ds_recent_events :: "rstring list"
  ds_ignored :: bool
  ds_invalidated_item :: "rstring option"

definition empty_stream :: TextStream where "empty_stream = \<lparr>ts_text = [], ts_done = False\<rparr>"

definition empty_part :: OutputPart where
  "empty_part = \<lparr>op_kind = None, op_announced = False, op_done = False, op_text = None, op_transcript = None, op_audio = None\<rparr>"

definition new_item :: "rstring \<Rightarrow> OutputItem" where
  "new_item ident = \<lparr>oi_id = ident, oi_announced = False, oi_done = False, oi_parts = []\<rparr>"

definition new_input :: InputState where
  "new_input = \<lparr>in_pending = True, in_answered = False, in_abandoned = False, in_speech = False, in_ended = False,
     in_transcripts = []\<rparr>"

definition dialogue_default :: DialogueServerState where
  "dialogue_default = \<lparr>ds_expected = None, ds_authority = None, ds_session_id = None, ds_active = False, ds_responses = [],
     ds_response_order = [], ds_item_owners = [], ds_inputs = [], ds_invalid_inputs = {}, ds_ambient_inputs = {},
     ds_conversation_items = [], ds_seen = [], ds_recent_events = [], ds_ignored = False, ds_invalidated_item = None\<rparr>"

text \<open>The key is the text of this array; it is only compared, and its rendering is injective.\<close>

definition authority_key :: "AuthorizedModelProtocolProfile \<Rightarrow> json" where
  "authority_key a = JArray [JString (ap_profile_id a), JNumber (PosInt (ap_profile_version a)), JString (ap_wire_dialect a),
     JNumber (PosInt (ap_wire_dialect_version a)), JString (ap_exact_model_id a), JString (ap_region a),
     JString (ap_endpoint_host a), JString (ap_operation a)]"

section \<open>Queries and local decisions\<close>

definition reset_for_reconnect :: "DialogueServerState \<Rightarrow> DialogueServerState" where
  "reset_for_reconnect s = dialogue_default"

definition has_active_responses :: "DialogueServerState \<Rightarrow> bool" where
  "has_active_responses s \<longleftrightarrow> list_ex (\<lambda>(_, r). \<not> rs_done r) (ds_responses s)"

definition has_pending_input_turn :: "DialogueServerState \<Rightarrow> bool" where
  "has_pending_input_turn s \<longleftrightarrow> list_ex (\<lambda>(_, i). in_pending i \<or> in_speech i) (ds_inputs s)"

definition has_speech_active :: "DialogueServerState \<Rightarrow> bool" where
  "has_speech_active s \<longleftrightarrow> list_ex (\<lambda>(_, i). in_speech i) (ds_inputs s)"

definition cancelable_response_ids :: "DialogueServerState \<Rightarrow> rstring list" where
  "cancelable_response_ids s = map fst (filter (\<lambda>(_, r). \<not> rs_done r) (ds_responses s))"

definition put_input :: "rstring \<Rightarrow> InputState \<Rightarrow> DialogueServerState \<Rightarrow> DialogueServerState" where
  "put_input ident i s = s\<lparr>ds_inputs := btree_insert ident i (ds_inputs s)\<rparr>"

definition abandon_manual_input :: "rstring \<Rightarrow> bool \<Rightarrow> DialogueServerState \<Rightarrow> rstring + DialogueServerState" where
  "abandon_manual_input item_id response_create_sent s =
     reject_if (\<not> ds_active s \<or> Option.bind (ds_expected s) (json_get (str ''turn_detection'')) \<noteq> Some JNull)
       (invalid_payload (str ''input abandonment requires an admitted manual session''))
     (reject_if (response_create_sent \<or> list_ex (\<lambda>(_, r). rs_input_item r = Some item_id \<or> \<not> rs_done r \<and> rs_input_item r = None)
         (ds_responses s))
       (identity_error (str ''manual input may already own a response''))
     (and_then (ok_or (identity_error (str ''unknown manual input item'')) (map_of (ds_inputs s) item_id)) (\<lambda>i.
      reject_if (in_answered i \<or> in_speech i \<or> \<not> in_ended i) (identity_error (str ''manual input is owned or not settled''))
        (Inr (put_input item_id (i\<lparr>in_pending := False, in_abandoned := True\<rparr>) s)))))"

definition bind_authority :: "AuthorizedModelProtocolProfile \<Rightarrow> DialogueServerState \<Rightarrow> rstring + DialogueServerState" where
  "bind_authority a s =
     reject_if (\<not> is_supported_authority a) (invalid_payload (str ''unsupported dialogue authority''))
     (reject_if (is_some_and (ds_authority s) (\<lambda>old. old \<noteq> authority_key a)) (identity_error (str ''authority changed without reconnect''))
       (Inr (s\<lparr>ds_authority := Some (authority_key a)\<rparr>)))"

definition record_client_session_update ::
  "dialogue_env \<Rightarrow> AuthorizedModelProtocolProfile \<Rightarrow> json \<Rightarrow> DialogueServerState \<Rightarrow> rstring + DialogueServerState" where
  "record_client_session_update env a event s =
     and_then (admit_client_event env a event) (\<lambda>_.
     reject_if (\<not> json_is (json_at event (str ''type'')) (str ''session.update'') \<or> ds_active s \<or> ds_expected s \<noteq> None)
       (invalid_payload (str ''one initial session.update required''))
     (and_then (bind_authority a s) (\<lambda>next. Inr (next\<lparr>ds_expected := Some (json_at event (str ''session''))\<rparr>))))"

section \<open>Places in the state\<close>

definition input_collides :: "rstring \<Rightarrow> DialogueServerState \<Rightarrow> bool" where
  "input_collides ident s \<longleftrightarrow>
     is_some_and (map_of (ds_inputs s) ident) in_abandoned \<or> map_of (ds_item_owners s) ident \<noteq> None \<or>
     is_some_and (map_of (ds_conversation_items s) ident) (\<lambda>role. role \<noteq> str ''user'') \<or>
     ident \<in> ds_ambient_inputs s \<or> ident \<in> ds_invalid_inputs s"

definition ensure_input :: "rstring \<Rightarrow> DialogueServerState \<Rightarrow> rstring + InputState \<times> DialogueServerState" where
  "ensure_input ident s =
     reject_if (input_collides ident s) (identity_error (str ''input item collides with output/isolated item''))
     (case map_of (ds_inputs s) ident of
        Some i \<Rightarrow> Inr (i, s)
      | None \<Rightarrow>
          if length (ds_inputs s) \<ge> MAX_INPUT_ITEMS
          then (case find (\<lambda>(_, i). in_answered i \<and> \<not> in_speech i) (ds_inputs s) of
                  Some (old, _) \<Rightarrow> Inr (new_input, s\<lparr>ds_inputs := btree_remove old (ds_inputs s)\<rparr>)
                | None \<Rightarrow> Inl (invalid_payload (str ''too many unresolved input items'')))
          else Inr (new_input, s))"

definition with_input ::
  "rstring \<Rightarrow> (InputState \<Rightarrow> rstring + InputState) \<Rightarrow> DialogueServerState \<Rightarrow> rstring + DialogueServerState" where
  "with_input ident f s = and_then (ensure_input ident s) (\<lambda>(i, s). and_then (f i) (\<lambda>i. Inr (put_input ident i s)))"

definition lineage_values :: "json \<Rightarrow> json option list" where
  "lineage_values event =
     [Option.bind (json_get (str ''response'') event) (json_get (str ''input_item_id'')),
      Option.bind (json_get (str ''response'') event) (json_get (str ''source_item_id'')),
      json_get (str ''input_item_id'') event, json_get (str ''source_item_id'') event]"

fun explicit_lineage :: "json option list \<Rightarrow> rstring option \<Rightarrow> rstring + rstring option" where
  "explicit_lineage [] found = Inr found"
| "explicit_lineage (None # vs) found = explicit_lineage vs found"
| "explicit_lineage (Some v # vs) found =
     and_then (ok_or (invalid_payload (str ''invalid input lineage''))
         (case as_str v of Some ident \<Rightarrow> if trim ident \<noteq> [] then Some ident else None | None \<Rightarrow> None)) (\<lambda>ident.
     reject_if (is_some_and found (\<lambda>old. old \<noteq> ident)) (identity_error (str ''conflicting input lineage''))
       (explicit_lineage vs (Some ident)))"

definition settled :: "InputState \<Rightarrow> bool" where
  "settled i \<longleftrightarrow> in_pending i \<and> in_ended i \<and> \<not> in_speech i \<and> \<not> in_answered i"

definition correlate_input :: "json \<Rightarrow> DialogueServerState \<Rightarrow> rstring + rstring option \<times> DialogueServerState" where
  "correlate_input event s =
     and_then (explicit_lineage (lineage_values event) None) (\<lambda>explicit.
     and_then
       (case explicit of
          Some ident \<Rightarrow>
            reject_if (\<not> is_some_and (map_of (ds_inputs s) ident) settled)
              (identity_error (str ''response refers to unknown/unsettled input'')) (Inr (Some ident))
        | None \<Rightarrow>
            let ids = map fst (filter (\<lambda>(_, i). settled i) (ds_inputs s))
            in Inr (if length ids = 1 then Some (hd ids) else None))
       (\<lambda>candidate.
          Inr (candidate,
            case candidate of
              None \<Rightarrow> s
            | Some ident \<Rightarrow>
                (case map_of (ds_inputs s) ident of
                   Some i \<Rightarrow> put_input ident (i\<lparr>in_pending := False, in_answered := True\<rparr>) s
                 | None \<Rightarrow> s))))"

definition response_mut :: "rstring \<Rightarrow> DialogueServerState \<Rightarrow> rstring + ResponseState" where
  "response_mut ident s =
     ok_or (identity_error (str ''unknown or terminal response''))
       (case map_of (ds_responses s) ident of Some r \<Rightarrow> if rs_done r then None else Some r | None \<Rightarrow> None)"

definition put_response :: "rstring \<Rightarrow> ResponseState \<Rightarrow> DialogueServerState \<Rightarrow> DialogueServerState" where
  "put_response ident r s = s\<lparr>ds_responses := btree_insert ident r (ds_responses s)\<rparr>"

definition with_item ::
  "rstring \<Rightarrow> nat \<Rightarrow> rstring \<Rightarrow> (OutputItem \<Rightarrow> rstring + OutputItem) \<Rightarrow> DialogueServerState \<Rightarrow> rstring + DialogueServerState" where
  "with_item response out_index ident f s =
     and_then (response_mut response s) (\<lambda>r.
     reject_if (map_of (ds_inputs s) ident \<noteq> None \<or>
         is_some_and (map_of (ds_conversation_items s) ident) (\<lambda>role. role \<noteq> str ''assistant'') \<or>
         ident \<in> ds_invalid_inputs s \<or> ident \<in> ds_ambient_inputs s)
       (identity_error (str ''output item collides with input''))
     (reject_if (is_some_and (map_of (ds_item_owners s) ident) (\<lambda>owner. owner \<noteq> (response, out_index)))
       (identity_error (str ''item reused across response/output identity''))
     (let item = unwrap_or (new_item ident) (map_of (rs_items r) out_index) in
      reject_if (oi_id item \<noteq> ident \<or> oi_done item) (identity_error (str ''output index rebound or item already terminal''))
      (and_then (f item) (\<lambda>item.
         Inr (put_response response (r\<lparr>rs_items := btree_insert out_index item (rs_items r)\<rparr>)
           (s\<lparr>ds_item_owners := btree_insert ident (response, out_index) (ds_item_owners s)\<rparr>)))))))"

definition with_part ::
  "json \<Rightarrow> (OutputPart \<Rightarrow> rstring + OutputPart) \<Rightarrow> DialogueServerState \<Rightarrow> rstring + DialogueServerState" where
  "with_part event f s =
     and_then (text_field event (str ''response_id'')) (\<lambda>response.
     and_then (text_field event (str ''item_id'')) (\<lambda>ident.
     and_then (index_field event (str ''output_index'')) (\<lambda>out_index.
     and_then (index_field event (str ''content_index'')) (\<lambda>content.
     with_item response out_index ident (\<lambda>item.
       let part = unwrap_or empty_part (map_of (oi_parts item) content) in
       reject_if (op_done part) (identity_error (str ''content already terminal''))
       (and_then (f part) (\<lambda>part. Inr (item\<lparr>oi_parts := btree_insert content part (oi_parts item)\<rparr>)))) s))))"

definition part_text :: "bool \<Rightarrow> bool \<Rightarrow> OutputPart \<Rightarrow> rstring option" where
  "part_text prefer_audio fallback p =
     (let primary = (if prefer_audio then op_transcript p else op_text p);
          alternate = (if prefer_audio then op_text p else op_transcript p)
      in map_option ts_text (or_opt primary (if fallback then alternate else None)))"

definition selected_text :: "rstring \<Rightarrow> bool \<Rightarrow> DialogueServerState \<Rightarrow> rstring option" where
  "selected_text ident fallback s =
     (case map_of (ds_responses s) ident of
        None \<Rightarrow> None
      | Some r \<Rightarrow>
          let pieces = List.map_filter (part_text (rs_prefer_audio r) fallback)
                (map snd (concat (map (\<lambda>(_, item). oi_parts item) (rs_items r))))
          in if pieces \<noteq> [] then Some (concat pieces) else None)"

section \<open>Summaries\<close>

definition is_none_or :: "'a option \<Rightarrow> ('a \<Rightarrow> bool) \<Rightarrow> bool" where
  "is_none_or x p = (case x of None \<Rightarrow> True | Some v \<Rightarrow> p v)"

definition part_streams_terminal :: "OutputPart \<Rightarrow> bool" where
  "part_streams_terminal p \<longleftrightarrow> is_none_or (op_text p) ts_done \<and> is_none_or (op_transcript p) ts_done \<and> is_none_or (op_audio p) (\<lambda>done. done)"

definition part_terminal :: "OutputPart \<Rightarrow> bool" where
  "part_terminal p \<longleftrightarrow> part_streams_terminal p \<and> (\<not> op_announced p \<or> op_done p)"

definition summary_stream :: "rstring \<Rightarrow> rstring \<Rightarrow> OutputPart \<Rightarrow> rstring + TextStream option" where
  "summary_stream kind key p =
     (if kind = str ''audio'' then Inr (or_opt (op_transcript p) (op_text p))
      else if key = str ''text'' then Inr (op_text p)
      else Inl (identity_error (str ''text content has audio transcript'')))"

definition validate_summary_key :: "json \<Rightarrow> rstring \<Rightarrow> OutputPart \<Rightarrow> rstring \<Rightarrow> rstring + unit" where
  "validate_summary_key v kind p key =
     (case json_get key v of
        None \<Rightarrow> Inr ()
      | Some got \<Rightarrow> and_then (summary_stream kind key p) (\<lambda>stream.
          reject_if (as_str got \<noteq> Some (unwrap_or [] (map_option ts_text stream)))
            (identity_error (str ''summary transcript differs'')) (Inr ())))"

definition validate_part_summary :: "json \<Rightarrow> OutputPart \<Rightarrow> rstring + unit" where
  "validate_part_summary v p =
     and_then (text_field v (str ''type'')) (\<lambda>kind.
     reject_if (kind \<notin> {str ''text'', str ''audio''} \<or> is_some_and (op_kind p) (\<lambda>old. old \<noteq> kind) \<or>
         kind = str ''text'' \<and> (op_transcript p \<noteq> None \<or> op_audio p \<noteq> None))
       (identity_error (str ''summary content type differs''))
     (and_then (validate_summary_key v kind p (str ''text'')) (\<lambda>_. validate_summary_key v kind p (str ''transcript''))))"

text \<open>\<open>iter().enumerate()\<close> with an early return.\<close>

fun check_each :: "(nat \<Rightarrow> 'a \<Rightarrow> 'e + unit) \<Rightarrow> nat \<Rightarrow> 'a list \<Rightarrow> 'e + unit" where
  "check_each f n [] = Inr ()"
| "check_each f n (x # xs) = and_then (f n x) (\<lambda>_. check_each f (Suc n) xs)"

definition is_assistant_message :: "json \<Rightarrow> bool" where
  "is_assistant_message v \<longleftrightarrow>
     json_is (json_at v (str ''type'')) (str ''message'') \<and> json_is (json_at v (str ''role'')) (str ''assistant'')"

definition validate_item_summary :: "json \<Rightarrow> OutputItem \<Rightarrow> rstring + unit" where
  "validate_item_summary v i =
     reject_if (\<not> is_assistant_message v) (invalid_payload (str ''unsupported output summary item''))
     (case json_get (str ''content'') v of
        None \<Rightarrow> Inr ()
      | Some content \<Rightarrow>
          and_then (ok_or (invalid_payload (str ''item.content must be array'')) (as_array content)) (\<lambda>content.
          and_then (check_each (\<lambda>n v.
              and_then (ok_or (identity_error (str ''summary introduced unseen content'')) (map_of (oi_parts i) n)) (\<lambda>p.
              validate_part_summary v p)) 0 content) (\<lambda>_.
          reject_if (content \<noteq> [] \<and> length content \<noteq> length (oi_parts i))
            (identity_error (str ''summary omitted content identity'')) (Inr ()))))"

definition validate_terminal_part :: "json \<Rightarrow> OutputPart \<Rightarrow> rstring + unit" where
  "validate_terminal_part v p =
     and_then (text_field v (str ''type'')) (\<lambda>kind.
     reject_if (kind \<notin> {str ''audio'', str ''text''} \<or> is_some_and (op_kind p) (\<lambda>old. old \<noteq> kind))
       (identity_error (str ''terminal content type differs''))
     (reject_if (list_ex (\<lambda>key. is_some_and (json_get key v) (\<lambda>x. \<not> is_string x)) [str ''text'', str ''transcript''])
       (invalid_payload (str ''terminal transcript must be string'')) (Inr ())))"

definition validate_terminal_item_identity :: "json \<Rightarrow> OutputItem \<Rightarrow> rstring + unit" where
  "validate_terminal_item_identity v i =
     reject_if (\<not> is_assistant_message v) (invalid_payload (str ''unsupported terminal output item''))
     (case json_get (str ''content'') v of
        None \<Rightarrow> Inr ()
      | Some content \<Rightarrow>
          and_then (ok_or (invalid_payload (str ''terminal content must be array'')) (as_array content)) (\<lambda>content.
          check_each (\<lambda>n v.
            and_then (ok_or (identity_error (str ''terminal summary introduced unseen content'')) (map_of (oi_parts i) n)) (\<lambda>p.
            validate_terminal_part v p)) 0 content))"

section \<open>Server events\<close>

type_synonym applied = "rstring + LiveTranslateServerMutation \<times> DialogueServerState"

definition quietly :: "rstring + DialogueServerState \<Rightarrow> applied" where
  "quietly r = and_then r (\<lambda>s. Inr (no_mutation, s))"

definition apply_session_created :: "AuthorizedModelProtocolProfile \<Rightarrow> json \<Rightarrow> DialogueServerState \<Rightarrow> applied" where
  "apply_session_created a event s =
     (let session = json_at event (str ''session'') in
      and_then (text_field session (str ''id'')) (\<lambda>ident.
      reject_if (ds_session_id s \<noteq> None \<or> ds_active s) (identity_error (str ''duplicate session.created''))
      (reject_if (is_some_and (json_get (str ''model'') session) (\<lambda>v. as_str v \<noteq> Some (ap_exact_model_id a)))
        (identity_error (str ''created model differs''))
        (Inr (no_mutation, s\<lparr>ds_session_id := Some ident\<rparr>)))))"

definition apply_session_updated :: "AuthorizedModelProtocolProfile \<Rightarrow> json \<Rightarrow> DialogueServerState \<Rightarrow> applied" where
  "apply_session_updated a event s =
     (let session = json_at event (str ''session''); wrong = identity_error (str ''session.updated has wrong session identity/order'') in
      reject_if (ds_active s) wrong
      (and_then (text_field session (str ''id'')) (\<lambda>ident.
       reject_if (ds_session_id s \<noteq> Some ident) wrong
       (and_then (ok_or (invalid_payload (str ''session.update not recorded'')) (ds_expected s)) (\<lambda>expected.
        and_then (check_echo a expected session) (\<lambda>_. Inr (no_mutation, s\<lparr>ds_active := True\<rparr>)))))))"

definition user_part_ok :: "json \<Rightarrow> bool" where
  "user_part_ok part \<longleftrightarrow> json_is (json_at part (str ''type'')) (str ''input_audio'') \<and>
     \<not> is_some_and (json_get (str ''transcript'') part) (\<lambda>t. t \<noteq> JNull \<and> \<not> is_string t)"

definition assistant_part_ok :: "json \<Rightarrow> bool" where
  "assistant_part_ok part \<longleftrightarrow> is_some_and (as_str (json_at part (str ''type''))) (\<lambda>k. k = str ''text'' \<or> k = str ''audio'')"

definition conversation_role :: "rstring \<Rightarrow> rstring \<Rightarrow> json list \<Rightarrow> DialogueServerState \<Rightarrow> rstring + DialogueServerState" where
  "conversation_role ident role content s =
     (if role = str ''user''
      then reject_if (\<not> list_all user_part_ok content) (invalid_payload (str ''unsupported user conversation content''))
        (if is_some_and (map_of (ds_inputs s) ident) in_abandoned then Inr (s\<lparr>ds_ignored := True\<rparr>)
         else with_input ident (\<lambda>i. Inr (i\<lparr>in_ended := True\<rparr>)) s)
      else reject_if (map_of (ds_inputs s) ident \<noteq> None \<or> ident \<in> ds_invalid_inputs s \<or> ident \<in> ds_ambient_inputs s)
        (identity_error (str ''assistant conversation item collides with input''))
        (reject_if (\<not> list_all assistant_part_ok content) (invalid_payload (str ''unsupported assistant conversation content'')) (Inr s)))"

definition apply_conversation_created :: "json \<Rightarrow> DialogueServerState \<Rightarrow> rstring + DialogueServerState" where
  "apply_conversation_created event s =
     (let item = json_at event (str ''item'') in
      and_then (text_field item (str ''id'')) (\<lambda>ident.
      and_then (text_field item (str ''role'')) (\<lambda>role.
      reject_if (\<not> json_is (json_at item (str ''type'')) (str ''message'') \<or> role \<notin> {str ''user'', str ''assistant''})
        (invalid_payload (str ''only audio user/assistant message conversation items supported''))
      (reject_if (is_some_and (json_get (str ''object'') item) (\<lambda>v. \<not> json_is v (str ''realtime.item'')))
        (invalid_payload (str ''invalid conversation item object''))
      (reject_if (map_of (ds_conversation_items s) ident \<noteq> None) (identity_error (str ''conversation item ID reused''))
      (and_then (ok_or (invalid_payload (str ''conversation content must be array'')) (as_array (json_at item (str ''content'')))) (\<lambda>content.
       reject_if (length content > 32) (invalid_payload (str ''too many conversation content parts''))
       (and_then (conversation_role ident role content s) (\<lambda>s.
        reject_if (length (ds_conversation_items s) \<ge> 4096) (invalid_payload (str ''conversation identity ledger full''))
          (Inr (s\<lparr>ds_conversation_items := btree_insert ident role (ds_conversation_items s)\<rparr>)))))))))))"

definition invalidate_turn ::
  "AuthorizedModelProtocolProfile \<Rightarrow> rstring \<Rightarrow> json \<Rightarrow> rstring \<Rightarrow> DialogueServerState \<Rightarrow> rstring + DialogueServerState" where
  "invalidate_turn a kind reason ident s =
     reject_if (is_omni a \<or> kind \<noteq> str ''input_audio_buffer.speech_stopped'' \<or> \<not> json_is reason (str ''turn_invalid''))
       (invalid_payload (str ''unsupported speech stop reason''))
     (reject_if (map_of (ds_item_owners s) ident \<noteq> None \<or> is_some_and (map_of (ds_inputs s) ident) in_answered)
       (identity_error (str ''invalid turn revokes answered/output item''))
     (reject_if (card (ds_invalid_inputs s) \<ge> MAX_INPUT_ITEMS) (invalid_payload (str ''invalid input ledger full''))
       (Inr (s\<lparr>ds_inputs := btree_remove ident (ds_inputs s), ds_invalid_inputs := insert ident (ds_invalid_inputs s),
               ds_invalidated_item := Some ident, ds_ignored := True\<rparr>))))"

definition speech_edge :: "rstring \<Rightarrow> InputState \<Rightarrow> rstring + InputState" where
  "speech_edge kind i =
     reject_if (in_answered i) (identity_error (str ''speech/commit after input answered''))
     (if kind = str ''input_audio_buffer.speech_started''
      then reject_if (in_speech i \<or> in_ended i) (identity_error (str ''duplicate/restarted speech item'')) (Inr (i\<lparr>in_speech := True\<rparr>))
      else Inr (i\<lparr>in_speech := False, in_ended := True\<rparr>))"

definition apply_speech :: "AuthorizedModelProtocolProfile \<Rightarrow> rstring \<Rightarrow> json \<Rightarrow> DialogueServerState \<Rightarrow> rstring + DialogueServerState" where
  "apply_speech a kind event s =
     and_then (text_field event (str ''item_id'')) (\<lambda>ident.
     reject_if (kind \<noteq> str ''input_audio_buffer.committed'' \<and>
         Option.bind (json_get (if kind = str ''input_audio_buffer.speech_started'' then str ''audio_start_ms'' else str ''audio_end_ms'') event)
           as_u64 = None)
       (invalid_payload (str ''speech timestamp must be nonnegative integer''))
     (case json_get (str ''reason'') event of
        Some reason \<Rightarrow> invalidate_turn a kind reason ident s
      | None \<Rightarrow> with_input ident (speech_edge kind) s))"

definition transcription_snapshot :: "bool \<Rightarrow> bool \<Rightarrow> json \<Rightarrow> rstring + rstring" where
  "transcription_snapshot completed failed event =
     (if failed
      then reject_if (\<not> is_object (json_at event (str ''error''))) (invalid_payload (str ''ASR failure requires error object'')) (Inr [])
      else if completed then string_field event (str ''transcript'')
      else and_then (string_field event (str ''stash'')) (\<lambda>_. string_field event (str ''text'')))"

definition source_transcript :: "nat \<Rightarrow> rstring \<Rightarrow> bool \<Rightarrow> InputState \<Rightarrow> rstring + InputState" where
  "source_transcript content snapshot terminal i =
     (let t = unwrap_or empty_stream (map_of (in_transcripts i) content) in
      reject_if (ts_done t) (identity_error (str ''source transcript after terminal''))
        (Inr (i\<lparr>in_transcripts := btree_insert content \<lparr>ts_text = snapshot, ts_done = terminal\<rparr> (in_transcripts i),
                in_ended := in_ended i \<or> terminal\<rparr>)))"

definition apply_ambient :: "AuthorizedModelProtocolProfile \<Rightarrow> rstring \<Rightarrow> DialogueServerState \<Rightarrow> rstring + DialogueServerState" where
  "apply_ambient a ident s =
     reject_if (is_omni a \<or> map_of (ds_inputs s) ident \<noteq> None \<or> map_of (ds_item_owners s) ident \<noteq> None \<or>
         map_of (ds_conversation_items s) ident \<noteq> None)
       (identity_error (str ''ambient item collides with conversation ownership''))
     (reject_if (card (ds_ambient_inputs s) \<ge> MAX_INPUT_ITEMS \<and> ident \<notin> ds_ambient_inputs s) (invalid_payload (str ''ambient ledger full''))
       (Inr (s\<lparr>ds_ambient_inputs := insert ident (ds_ambient_inputs s), ds_ignored := True\<rparr>)))"

definition ambient_kinds :: "rstring set" where
  "ambient_kinds = {str ''conversation.item.ambient_audio_transcription.delta'',
     str ''conversation.item.ambient_audio_transcription.completed''}"

definition completed_kinds :: "rstring set" where
  "completed_kinds = {str ''conversation.item.input_audio_transcription.completed'',
     str ''conversation.item.ambient_audio_transcription.completed''}"

definition apply_transcription ::
  "AuthorizedModelProtocolProfile \<Rightarrow> rstring \<Rightarrow> json \<Rightarrow> DialogueServerState \<Rightarrow> rstring + DialogueServerState" where
  "apply_transcription a kind event s =
     (let completed = kind \<in> completed_kinds; failed = (kind = str ''conversation.item.input_audio_transcription.failed'') in
      and_then (text_field event (str ''item_id'')) (\<lambda>ident.
      and_then (index_field event (str ''content_index'')) (\<lambda>content.
      and_then (transcription_snapshot completed failed event) (\<lambda>snapshot.
      reject_if (byte_len snapshot > MAX_TEXT_BYTES) (invalid_payload (str ''source snapshot too large''))
      (if kind \<in> ambient_kinds then apply_ambient a ident s
       else if ident \<in> ds_invalid_inputs s \<or> is_some_and (map_of (ds_inputs s) ident) in_abandoned
       then Inr (s\<lparr>ds_ignored := True\<rparr>)
       else with_input ident (source_transcript content snapshot (completed \<or> failed)) s)))))"

definition apply_response_created :: "json \<Rightarrow> DialogueServerState \<Rightarrow> rstring + DialogueServerState" where
  "apply_response_created event s =
     (let response = json_at event (str ''response'') in
      and_then (text_field response (str ''id'')) (\<lambda>ident.
      reject_if (map_of (ds_responses s) ident \<noteq> None) (identity_error (str ''response ID reused''))
      (reject_if (is_some_and (json_get (str ''status'') response) (\<lambda>v. \<not> json_is v (str ''in_progress'')) \<or>
          is_some_and (json_get (str ''output'') response) (\<lambda>v. is_none_or (as_array v) (\<lambda>xs. xs \<noteq> [])))
        (invalid_payload (str ''invalid response.created status/output''))
      (reject_if (length (cancelable_response_ids s) \<ge> MAX_ACTIVE_RESPONSES) (invalid_payload (str ''too many active responses''))
      (and_then (modalities (json_at (unwrap_or JNull (ds_expected s)) (str ''modalities''))) (\<lambda>requested.
       and_then (case json_get (str ''modalities'') response of
           None \<Rightarrow> Inr None | Some v \<Rightarrow> and_then (modalities v) (\<lambda>m. Inr (Some m))) (\<lambda>actual.
       reject_if (is_some_and actual (\<lambda>m. \<not> m \<subseteq> requested)) (identity_error (str ''response exceeds requested modalities''))
       (and_then (correlate_input event s) (\<lambda>(input_item, s).
        Inr ((put_response ident \<lparr>rs_done = False, rs_prefer_audio = str ''audio'' \<in> unwrap_or requested actual, rs_items = [],
               rs_input_item = input_item\<rparr> s)\<lparr>ds_response_order := ds_response_order s @ [ident]\<rparr>))))))))))"

definition text_stream_edge :: "bool \<Rightarrow> bool \<Rightarrow> rstring \<Rightarrow> OutputPart \<Rightarrow> rstring + OutputPart" where
  "text_stream_edge audio done value p =
     reject_if (is_some_and (op_kind p) (\<lambda>k. if audio then k \<noteq> str ''audio'' else k \<noteq> str ''text'' \<and> k \<noteq> str ''audio''))
       (identity_error (str ''text stream contradicts content type''))
     (let old = unwrap_or empty_stream (if audio then op_transcript p else op_text p);
          new = (if done then \<lparr>ts_text = value, ts_done = True\<rparr> else old\<lparr>ts_text := ts_text old @ value\<rparr>) in
      reject_if (ts_done old) (identity_error (str ''text event after stream terminal''))
      (reject_if (byte_len (ts_text new) > MAX_TEXT_BYTES) (invalid_payload (str ''output transcript too large''))
        (Inr (if audio then p\<lparr>op_transcript := Some new\<rparr> else p\<lparr>op_text := Some new\<rparr>))))"

definition apply_text :: "rstring \<Rightarrow> json \<Rightarrow> DialogueServerState \<Rightarrow> applied" where
  "apply_text kind event s =
     (let audio = (kind = str ''response.audio_transcript.delta'' \<or> kind = str ''response.audio_transcript.done'');
          done = (kind = str ''response.text.done'' \<or> kind = str ''response.audio_transcript.done'') in
      and_then (text_field event (str ''response_id'')) (\<lambda>ident.
      and_then (string_field event (if \<not> done then str ''delta'' else if audio then str ''transcript'' else str ''text'')) (\<lambda>value.
      and_then (response_mut ident s) (\<lambda>r.
      and_then (with_part event (text_stream_edge audio done value) s) (\<lambda>s.
      if rs_prefer_audio r = audio
      then let selected = selected_text ident False s
           in Inr (no_mutation\<lparr>lm_normalized_text := selected,
                lm_completed_response_text := (if done then selected else None)\<rparr>, s)
      else Inr (no_mutation, s\<lparr>ds_ignored := True\<rparr>))))))"

definition apply_audio :: "dialogue_env \<Rightarrow> rstring \<Rightarrow> json \<Rightarrow> DialogueServerState \<Rightarrow> rstring + DialogueServerState" where
  "apply_audio env kind event s =
     and_then (text_field event (str ''response_id'')) (\<lambda>ident.
     and_then (response_mut ident s) (\<lambda>r.
     reject_if (\<not> rs_prefer_audio r) (identity_error (str ''audio media in text-only response''))
     (and_then (if kind = str ''response.audio.delta'' then pcm_field env event (str ''delta'') else Inr ()) (\<lambda>_.
      with_part event (\<lambda>p.
        reject_if (is_some_and (op_kind p) (\<lambda>k. k \<noteq> str ''audio'') \<or> op_audio p = Some True)
          (identity_error (str ''audio after terminal or wrong content type''))
          (Inr (p\<lparr>op_audio := Some (kind = str ''response.audio.done'')\<rparr>))) s))))"

definition output_item_edge :: "bool \<Rightarrow> json \<Rightarrow> OutputItem \<Rightarrow> rstring + OutputItem" where
  "output_item_edge added item i =
     and_then
       (if added
        then reject_if (oi_announced i \<or> oi_parts i \<noteq> []) (identity_error (str ''duplicate/late output_item.added''))
          (Inr (i\<lparr>oi_announced := True\<rparr>))
        else reject_if (list_ex (\<lambda>(_, p). \<not> part_terminal p) (oi_parts i))
          (identity_error (str ''item done before opened content terminal'')) (Inr (i\<lparr>oi_done := True\<rparr>)))
       (\<lambda>i. and_then (validate_item_summary item i) (\<lambda>_. Inr i))"

definition apply_output_item :: "bool \<Rightarrow> json \<Rightarrow> DialogueServerState \<Rightarrow> rstring + DialogueServerState" where
  "apply_output_item added event s =
     (let item = json_at event (str ''item'') in
      and_then (text_field event (str ''response_id'')) (\<lambda>ident.
      and_then (index_field event (str ''output_index'')) (\<lambda>out_index.
      and_then (text_field item (str ''id'')) (\<lambda>item_id.
      reject_if (\<not> is_assistant_message item) (invalid_payload (str ''only assistant message items supported''))
        (with_item ident out_index item_id (output_item_edge added item) s)))))"

definition content_part_edge :: "bool \<Rightarrow> json \<Rightarrow> rstring \<Rightarrow> OutputPart \<Rightarrow> rstring + OutputPart" where
  "content_part_edge added part part_kind p =
     reject_if (is_some_and (op_kind p) (\<lambda>k. k \<noteq> part_kind) \<or>
         part_kind = str ''text'' \<and> (op_audio p \<noteq> None \<or> op_transcript p \<noteq> None))
       (identity_error (str ''content part type rebound''))
     (and_then
       (if added
        then reject_if (op_announced p \<or> op_text p \<noteq> None \<or> op_transcript p \<noteq> None \<or> op_audio p \<noteq> None)
          (identity_error (str ''duplicate/late content_part.added''))
          (reject_if (list_ex (\<lambda>key. is_some_and (json_get key part) (\<lambda>v. as_str v \<noteq> Some [])) [str ''text'', str ''transcript''])
            (invalid_payload (str ''new content must have empty initial text'')) (Inr (p\<lparr>op_announced := True\<rparr>)))
        else reject_if (\<not> part_streams_terminal p) (identity_error (str ''content done before opened stream terminal''))
          (and_then (validate_part_summary part p) (\<lambda>_. Inr (p\<lparr>op_done := True\<rparr>))))
       (\<lambda>p. Inr (p\<lparr>op_kind := Some part_kind\<rparr>)))"

definition apply_content_part :: "bool \<Rightarrow> json \<Rightarrow> DialogueServerState \<Rightarrow> rstring + DialogueServerState" where
  "apply_content_part added event s =
     (let part = json_at event (str ''part'') in
      and_then (text_field part (str ''type'')) (\<lambda>part_kind.
      reject_if (part_kind \<notin> {str ''text'', str ''audio''}) (invalid_payload (str ''unsupported content part type''))
        (with_part event (content_part_edge added part part_kind) s)))"

definition children_open :: "ResponseState \<Rightarrow> bool" where
  "children_open r \<longleftrightarrow> list_ex (\<lambda>(_, i). oi_announced i \<and> \<not> oi_done i \<or> list_ex (\<lambda>(_, p). \<not> part_terminal p) (oi_parts i)) (rs_items r)"

definition validate_output :: "rstring \<Rightarrow> json \<Rightarrow> ResponseState \<Rightarrow> rstring + unit" where
  "validate_output status response r =
     (case json_get (str ''output'') response of
        None \<Rightarrow> Inr ()
      | Some out \<Rightarrow>
          and_then (ok_or (invalid_payload (str ''response.output must be array'')) (as_array out)) (\<lambda>out.
          reject_if (status = str ''completed'' \<and> length out \<noteq> length (rs_items r))
            (identity_error (str ''response.output identity count differs''))
          (check_each (\<lambda>n item.
             and_then (ok_or (identity_error (str ''response.output index differs'')) (map_of (rs_items r) n)) (\<lambda>i.
             reject_if (Option.bind (json_get (str ''id'') item) as_str \<noteq> Some (oi_id i)) (identity_error (str ''response.output item differs''))
               (if status = str ''completed'' then validate_item_summary item i else validate_terminal_item_identity item i))) 0 out)))"

definition clear_stream :: "TextStream \<Rightarrow> TextStream" where
  "clear_stream t = t\<lparr>ts_text := []\<rparr>"

definition clear_texts :: "OutputItem \<Rightarrow> OutputItem" where
  "clear_texts i = i\<lparr>oi_parts := btree_map (\<lambda>p. p\<lparr>op_text := map_option clear_stream (op_text p),
     op_transcript := map_option clear_stream (op_transcript p)\<rparr>) (oi_parts i)\<rparr>"

definition retire :: "rstring \<Rightarrow> nat \<Rightarrow> DialogueServerState \<Rightarrow> DialogueServerState" where
  "retire old n s = s\<lparr>ds_response_order := remove_at n (ds_response_order s), ds_responses := btree_remove old (ds_responses s),
     ds_item_owners := filter (\<lambda>(_, response, _). response \<noteq> old) (ds_item_owners s)\<rparr>"

function retire_responses :: "DialogueServerState \<Rightarrow> DialogueServerState" where
  "retire_responses s =
     (if length (ds_response_order s) > 1024
      then (case position (\<lambda>ident. is_some_and (map_of (ds_responses s) ident) rs_done) (ds_response_order s) of
              Some n \<Rightarrow> retire_responses (retire (ds_response_order s ! n) n s)
            | None \<Rightarrow> s)
      else s)"
  by pat_completeness auto
termination
  by (relation "measure (\<lambda>s. length (ds_response_order s))") (auto simp: retire_def length_remove_at dest: position_Some)

declare retire_responses.simps [simp del]

definition apply_response_done :: "json \<Rightarrow> DialogueServerState \<Rightarrow> applied" where
  "apply_response_done event s =
     (let response = json_at event (str ''response'') in
      and_then (text_field response (str ''id'')) (\<lambda>ident.
      and_then (text_field response (str ''status'')) (\<lambda>status.
      reject_if (status \<notin> {str ''completed'', str ''cancelled'', str ''failed'', str ''incomplete''})
        (invalid_payload (str ''unsupported response terminal status''))
      (and_then (response_mut ident s) (\<lambda>r.
       reject_if (status = str ''completed'' \<and> children_open r) (identity_error (str ''completed response before children terminal''))
       (and_then (validate_output status response r) (\<lambda>_.
        let selected = selected_text ident True s;
            s = put_response ident (r\<lparr>rs_done := True, rs_items := btree_map clear_texts (rs_items r)\<rparr>) s
        in Inr (no_mutation\<lparr>lm_normalized_text := selected,
                  lm_completed_response_text := (if status = str ''completed'' then selected else None),
                  lm_response_completed := True, lm_response_terminal_status := Some status\<rparr>,
                retire_responses s))))))))"

definition speech_kinds :: "rstring set" where
  "speech_kinds = {str ''input_audio_buffer.speech_started'', str ''input_audio_buffer.speech_stopped'', str ''input_audio_buffer.committed''}"

definition transcription_kinds :: "rstring set" where
  "transcription_kinds = {str ''conversation.item.input_audio_transcription.delta'',
     str ''conversation.item.input_audio_transcription.completed'', str ''conversation.item.input_audio_transcription.failed'',
     str ''conversation.item.ambient_audio_transcription.delta'', str ''conversation.item.ambient_audio_transcription.completed''}"

definition text_kinds :: "rstring set" where
  "text_kinds = {str ''response.text.delta'', str ''response.text.done'', str ''response.audio_transcript.delta'',
     str ''response.audio_transcript.done''}"

definition dialogue_apply ::
  "dialogue_env \<Rightarrow> AuthorizedModelProtocolProfile \<Rightarrow> json \<Rightarrow> rstring \<Rightarrow> DialogueServerState \<Rightarrow> applied" where
  "dialogue_apply env a event kind s =
     (if kind = str ''session.created'' then apply_session_created a event s
      else if kind = str ''session.updated'' then apply_session_updated a event s
      else if kind = str ''error''
      then reject_if (\<not> is_object (json_at event (str ''error''))) (invalid_payload (str ''error object required'')) (Inr (no_mutation, s))
      else if \<not> ds_active s then Inl (invalid_payload (str ''dialogue event before session.updated''))
      else if kind = str ''input_audio_buffer.cleared'' then Inr (no_mutation, s)
      else if kind = str ''conversation.item.created'' then quietly (apply_conversation_created event s)
      else if kind \<in> speech_kinds then quietly (apply_speech a kind event s)
      else if kind \<in> transcription_kinds then quietly (apply_transcription a kind event s)
      else if kind = str ''response.created'' then quietly (apply_response_created event s)
      else if kind \<in> text_kinds then apply_text kind event s
      else if kind = str ''response.audio.delta'' \<or> kind = str ''response.audio.done'' then quietly (apply_audio env kind event s)
      else if kind = str ''response.output_item.added'' \<or> kind = str ''response.output_item.done''
      then quietly (apply_output_item (kind = str ''response.output_item.added'') event s)
      else if kind = str ''response.content_part.added'' \<or> kind = str ''response.content_part.done''
      then quietly (apply_content_part (kind = str ''response.content_part.added'') event s)
      else if kind = str ''response.done'' then apply_response_done event s
      else Inl (invalid_payload (str ''server event outside implemented dialogue subset'')))"

section \<open>Admission\<close>

definition remember_event :: "rstring option \<Rightarrow> nat \<Rightarrow> DialogueServerState \<Rightarrow> DialogueServerState" where
  "remember_event event_id hash s =
     (case event_id of
        None \<Rightarrow> s
      | Some ident \<Rightarrow>
          let seen = btree_insert ident hash (ds_seen s); recent = ds_recent_events s @ [ident] in
          if length recent > 4096
          then s\<lparr>ds_seen := btree_remove (hd recent) seen, ds_recent_events := tl recent\<rparr>
          else s\<lparr>ds_seen := seen, ds_recent_events := recent\<rparr>)"

definition logical_frame :: "rstring \<Rightarrow> ModelProtocolFrameKind" where
  "logical_frame kind = (if kind = str ''response.audio.delta'' then JsonBase64Frame else JsonFrame)"

definition dialogue_admit_frame ::
  "dialogue_env \<Rightarrow> AuthorizedModelProtocolProfile \<Rightarrow> json \<Rightarrow> ModelProtocolFrameKind \<Rightarrow> DialogueServerState \<Rightarrow> applied" where
  "dialogue_admit_frame env a event frame s =
     and_then (text_field event (str ''type'')) (\<lambda>kind.
     reject_if (frame \<noteq> logical_frame kind) (invalid_payload (str ''wrong logical dialogue frame kind''))
     (case de_admit env a ServerEvent kind frame of
        Some code \<Rightarrow> Inl code
      | None \<Rightarrow>
          and_then (optional_event_id event) (\<lambda>event_id.
          and_then (bind_authority a s) (\<lambda>bound.
          let hash = de_fingerprint env event; next = bound\<lparr>ds_ignored := False, ds_invalidated_item := None\<rparr> in
          case Option.bind event_id (map_of (ds_seen next)) of
            Some old \<Rightarrow>
              reject_if (old \<noteq> hash) (identity_error (str ''event_id replay has different payload''))
                (Inr (no_mutation, next\<lparr>ds_ignored := True\<rparr>))
          | None \<Rightarrow>
              and_then (dialogue_apply env a event kind next) (\<lambda>(m, next). Inr (m, remember_event event_id hash next))))))"

definition dialogue_admit :: "dialogue_env \<Rightarrow> AuthorizedModelProtocolProfile \<Rightarrow> json \<Rightarrow> DialogueServerState \<Rightarrow> applied" where
  "dialogue_admit env a event s =
     dialogue_admit_frame env a event (if json_is (json_at event (str ''type'')) (str ''response.audio.delta'') then JsonBase64Frame else JsonFrame) s"

definition admit_received_frame ::
  "dialogue_env \<Rightarrow> AuthorizedModelProtocolProfile \<Rightarrow> json \<Rightarrow> ModelProtocolFrameKind \<Rightarrow> DialogueServerState \<Rightarrow> applied" where
  "admit_received_frame env a event received s =
     reject_if (received \<noteq> JsonFrame) (invalid_payload (str ''dialogue requires physical JSON text frames''))
       (dialogue_admit env a event s)"

end
