(* ===== verification/Dialogue_Invariant.thy ===== *)
theory Dialogue_Invariant
  imports Dialogue
begin

text \<open>
  Runs of a dialogue session: every sequence of received frames, client updates, local decisions and
  reconnects. The invariant says whose identifiers are whose: inputs, output items, ambient and revoked
  items never share one, and every output item has exactly one place in one response.
\<close>

declare str_def [simp del] not_None_eq [simp del]

section \<open>Runs\<close>

datatype dialogue_op =
    ServerFrame AuthorizedModelProtocolProfile json ModelProtocolFrameKind
  | ClientUpdate AuthorizedModelProtocolProfile json
  | AbandonInput rstring bool
  | ResetDialogue

definition keep_on_error :: "'s \<Rightarrow> 'e + 's \<Rightarrow> 's" where
  "keep_on_error s r = (case r of Inl _ \<Rightarrow> s | Inr s' \<Rightarrow> s')"

fun dialogue_step :: "dialogue_env \<Rightarrow> DialogueServerState \<Rightarrow> dialogue_op \<Rightarrow> DialogueServerState" where
  "dialogue_step env s (ServerFrame a event received) =
     keep_on_error s (and_then (admit_received_frame env a event received s) (\<lambda>(_, s'). Inr s'))"
| "dialogue_step env s (ClientUpdate a event) = keep_on_error s (record_client_session_update env a event s)"
| "dialogue_step env s (AbandonInput ident sent) = keep_on_error s (abandon_manual_input ident sent s)"
| "dialogue_step env s ResetDialogue = reset_for_reconnect s"

section \<open>Ordered maps\<close>

lemma fst_btree_insert: "set (map fst (btree_insert k v m)) = insert k (set (map fst m))"
  by (auto simp: btree_insert_def) (metis (no_types, lifting) antisym_conv3 fst_conv image_eqI mem_Collect_eq)

lemma distinct_btree_insert: "distinct (map fst m) \<Longrightarrow> distinct (map fst (btree_insert k v m))"
  by (auto simp: btree_insert_def distinct_map_filter)

lemma length_filter_btree_insert:
  "length (filter P (btree_insert k v m)) = (if P (k, v) then 1 else 0) + length (filter (\<lambda>p. P p \<and> fst p \<noteq> k) m)"
proof -
  have "length (filter (\<lambda>x. fst x < k \<and> P x) m) + length (filter (\<lambda>x. k < fst x \<and> P x) m) =
      length (filter (\<lambda>p. P p \<and> fst p \<noteq> k) m)"
    by (induction m) auto
  then show ?thesis by (simp add: btree_insert_def)
qed

lemma length_filter_btree_less:
  assumes "map_of m k = Some v" "P (k, v)"
  shows "length (filter (\<lambda>p. P p \<and> fst p \<noteq> k) m) < length (filter P m)"
proof -
  from assms have "(k, v) \<in> set m" by (simp add: map_of_SomeD)
  with assms(2) show ?thesis
  proof (induction m)
    case (Cons p m)
    have "length (filter (\<lambda>p. P p \<and> fst p \<noteq> k) m) \<le> length (filter P m)" by (induction m) auto
    with Cons show ?case by (cases "p = (k, v)") auto
  qed simp
qed

lemma length_btree_insert:
  "length (btree_insert k v m) \<le> (if map_of m k = None then Suc (length m) else length m)"
proof (cases "map_of m k")
  case None
  have "length (filter (\<lambda>p. fst p \<noteq> k) m) \<le> length m" by simp
  with None length_filter_btree_insert [of "\<lambda>_. True" k v m] show ?thesis by simp
next
  case (Some w)
  with length_filter_btree_less [of m k w "\<lambda>_. True"] length_filter_btree_insert [of "\<lambda>_. True" k v m]
  show ?thesis by simp
qed

section \<open>The invariant\<close>

definition identities :: "DialogueServerState \<Rightarrow> bool" where
  "identities s \<longleftrightarrow>
     (\<forall>x. map_of (ds_inputs s) x \<noteq> None \<longrightarrow>
        map_of (ds_item_owners s) x = None \<and> x \<notin> ds_ambient_inputs s \<and> x \<notin> ds_invalid_inputs s) \<and>
     (\<forall>x. map_of (ds_item_owners s) x \<noteq> None \<longrightarrow> x \<notin> ds_ambient_inputs s \<and> x \<notin> ds_invalid_inputs s) \<and>
     (\<forall>x role. map_of (ds_conversation_items s) x = Some role \<longrightarrow> x \<notin> ds_ambient_inputs s \<and>
        (if role = str ''user'' then map_of (ds_item_owners s) x = None else map_of (ds_inputs s) x = None))"

definition placed :: "DialogueServerState \<Rightarrow> bool" where
  "placed s \<longleftrightarrow> distinct (map fst (ds_item_owners s)) \<and>
     (\<forall>x r n. map_of (ds_item_owners s) x = Some (r, n) \<longleftrightarrow>
        (\<exists>rs it. map_of (ds_responses s) r = Some rs \<and> map_of (rs_items rs) n = Some it \<and> oi_id it = x))"

definition ordered :: "DialogueServerState \<Rightarrow> bool" where
  "ordered s \<longleftrightarrow> distinct (ds_response_order s) \<and> set (ds_response_order s) = dom (map_of (ds_responses s))"

definition bounded :: "DialogueServerState \<Rightarrow> bool" where
  "bounded s \<longleftrightarrow> length (ds_inputs s) \<le> MAX_INPUT_ITEMS \<and> length (ds_conversation_items s) \<le> 4096 \<and>
     finite (ds_ambient_inputs s) \<and> card (ds_ambient_inputs s) \<le> MAX_INPUT_ITEMS \<and>
     finite (ds_invalid_inputs s) \<and> card (ds_invalid_inputs s) \<le> MAX_INPUT_ITEMS \<and>
     length (cancelable_response_ids s) \<le> MAX_ACTIVE_RESPONSES"

definition turn_states :: "DialogueServerState \<Rightarrow> bool" where
  "turn_states s \<longleftrightarrow> distinct (map fst (ds_inputs s)) \<and> (\<forall>x i. map_of (ds_inputs s) x = Some i \<longrightarrow>
     (in_answered i \<longrightarrow> \<not> in_pending i) \<and> (in_abandoned i \<longrightarrow> \<not> in_pending i \<and> \<not> in_answered i))"

definition handshake :: "DialogueServerState \<Rightarrow> bool" where
  "handshake s \<longleftrightarrow> (ds_active s \<longrightarrow> ds_expected s \<noteq> None \<and> ds_session_id s \<noteq> None)"

definition remembered :: "DialogueServerState \<Rightarrow> bool" where
  "remembered s \<longleftrightarrow> distinct (ds_recent_events s) \<and> dom (map_of (ds_seen s)) = set (ds_recent_events s) \<and>
     length (ds_recent_events s) \<le> 4096"

definition core_ok :: "DialogueServerState \<Rightarrow> bool" where
  "core_ok s \<longleftrightarrow> identities s \<and> placed s \<and> ordered s \<and> bounded s \<and> turn_states s \<and> handshake s"

definition dialogue_ok :: "DialogueServerState \<Rightarrow> bool" where
  "dialogue_ok s \<longleftrightarrow> core_ok s \<and> remembered s"

text \<open>Updates of fields that a part of the invariant does not read.\<close>

lemma core_ok_flags [simp]:
  "core_ok (s\<lparr>ds_ignored := b\<rparr>) = core_ok s" "core_ok (s\<lparr>ds_invalidated_item := v\<rparr>) = core_ok s"
  "core_ok (s\<lparr>ds_authority := k\<rparr>) = core_ok s" "core_ok (s\<lparr>ds_seen := q\<rparr>) = core_ok s"
  "core_ok (s\<lparr>ds_recent_events := es\<rparr>) = core_ok s"
  by (simp_all add: core_ok_def identities_def placed_def ordered_def bounded_def turn_states_def handshake_def
      cancelable_response_ids_def)

lemma core_ok_default: "core_ok dialogue_default"
  by (simp add: core_ok_def identities_def placed_def ordered_def bounded_def turn_states_def handshake_def
      cancelable_response_ids_def dialogue_default_def)

lemma unread_inputs [simp]:
  "placed (s\<lparr>ds_inputs := is\<rparr>) = placed s" "ordered (s\<lparr>ds_inputs := is\<rparr>) = ordered s" "handshake (s\<lparr>ds_inputs := is\<rparr>) = handshake s"
  by (simp_all add: placed_def ordered_def handshake_def)

lemma unread_sets [simp]:
  "placed (s\<lparr>ds_invalid_inputs := v\<rparr>) = placed s" "ordered (s\<lparr>ds_invalid_inputs := v\<rparr>) = ordered s"
  "turn_states (s\<lparr>ds_invalid_inputs := v\<rparr>) = turn_states s" "handshake (s\<lparr>ds_invalid_inputs := v\<rparr>) = handshake s"
  "placed (s\<lparr>ds_ambient_inputs := v\<rparr>) = placed s" "ordered (s\<lparr>ds_ambient_inputs := v\<rparr>) = ordered s"
  "turn_states (s\<lparr>ds_ambient_inputs := v\<rparr>) = turn_states s" "handshake (s\<lparr>ds_ambient_inputs := v\<rparr>) = handshake s"
  "placed (s\<lparr>ds_conversation_items := c\<rparr>) = placed s" "ordered (s\<lparr>ds_conversation_items := c\<rparr>) = ordered s"
  "turn_states (s\<lparr>ds_conversation_items := c\<rparr>) = turn_states s" "handshake (s\<lparr>ds_conversation_items := c\<rparr>) = handshake s"
  by (simp_all add: placed_def ordered_def turn_states_def handshake_def)

lemma unread_responses [simp]:
  "identities (s\<lparr>ds_responses := rs\<rparr>) = identities s" "turn_states (s\<lparr>ds_responses := rs\<rparr>) = turn_states s"
  "handshake (s\<lparr>ds_responses := rs\<rparr>) = handshake s"
  "identities (s\<lparr>ds_response_order := os\<rparr>) = identities s" "turn_states (s\<lparr>ds_response_order := os\<rparr>) = turn_states s"
  "handshake (s\<lparr>ds_response_order := os\<rparr>) = handshake s" "placed (s\<lparr>ds_response_order := os\<rparr>) = placed s"
  "bounded (s\<lparr>ds_response_order := os\<rparr>) = bounded s"
  "turn_states (s\<lparr>ds_item_owners := w\<rparr>) = turn_states s" "handshake (s\<lparr>ds_item_owners := w\<rparr>) = handshake s"
  "ordered (s\<lparr>ds_item_owners := w\<rparr>) = ordered s" "bounded (s\<lparr>ds_item_owners := w\<rparr>) = bounded s"
  by (simp_all add: identities_def placed_def ordered_def turn_states_def handshake_def bounded_def cancelable_response_ids_def)

subsection \<open>Inputs\<close>

definition turn_ok_state :: "InputState \<Rightarrow> bool" where
  "turn_ok_state i \<longleftrightarrow> (in_answered i \<longrightarrow> \<not> in_pending i) \<and> (in_abandoned i \<longrightarrow> \<not> in_pending i \<and> \<not> in_answered i)"

lemma bounded_inputs: "bounded s \<Longrightarrow> length is \<le> MAX_INPUT_ITEMS \<Longrightarrow> bounded (s\<lparr>ds_inputs := is\<rparr>)"
  by (simp add: bounded_def cancelable_response_ids_def)

lemma core_ok_put_input:
  assumes "core_ok s" "map_of (ds_inputs s) x \<noteq> None \<or> \<not> input_collides x s \<and> length (ds_inputs s) < MAX_INPUT_ITEMS"
    "turn_ok_state i"
  shows "core_ok (put_input x i s)"
proof -
  from assms(1) have ok: "identities s" "bounded s" "turn_states s" by (simp_all add: core_ok_def)
  from ok(1) assms(2) have "identities (put_input x i s)"
    unfolding identities_def put_input_def input_collides_def is_some_and_iff
    by (auto simp del: str_def not_None_eq)
  moreover from length_btree_insert [of x i "ds_inputs s"] assms(2) ok(2) have "bounded (put_input x i s)"
    unfolding put_input_def by (intro bounded_inputs) (auto simp: bounded_def split: if_splits)
  moreover from ok(3) assms(3) have "turn_states (put_input x i s)"
    by (simp add: turn_states_def turn_ok_state_def put_input_def distinct_btree_insert)
  ultimately show ?thesis using assms(1) by (simp add: core_ok_def put_input_def)
qed

lemma core_ok_remove_input:
  assumes "core_ok s"
  shows "core_ok (s\<lparr>ds_inputs := btree_remove x (ds_inputs s)\<rparr>)"
proof -
  from assms have ok: "identities s" "bounded s" "turn_states s" by (simp_all add: core_ok_def)
  from ok(1) have "identities (s\<lparr>ds_inputs := btree_remove x (ds_inputs s)\<rparr>)" unfolding identities_def by simp
  moreover from ok(2) have "bounded (s\<lparr>ds_inputs := btree_remove x (ds_inputs s)\<rparr>)"
    by (intro bounded_inputs) (auto simp: btree_remove_def bounded_def intro: le_trans [OF length_filter_le])
  moreover from ok(3) have "turn_states (s\<lparr>ds_inputs := btree_remove x (ds_inputs s)\<rparr>)" by (simp add: turn_states_def btree_remove_def map_of_filter_key [where P = "\<lambda>y. y \<noteq> x"] distinct_map_filter)
  ultimately show ?thesis using assms by (simp add: core_ok_def)
qed

text \<open>The result of \<open>ensure_input\<close>: an entry, or room for one.\<close>

lemma ensure_input_ok:
  assumes "core_ok s" "ensure_input x s = Inr (i, t)"
  shows "core_ok t \<and> turn_ok_state i \<and> (map_of (ds_inputs t) x \<noteq> None \<or> \<not> input_collides x t \<and> length (ds_inputs t) < MAX_INPUT_ITEMS)"
proof (cases "map_of (ds_inputs s) x")
  case (Some j)
  with assms show ?thesis by (auto simp: ensure_input_def core_ok_def turn_states_def turn_ok_state_def)
next
  case None
  show ?thesis
  proof (cases "length (ds_inputs s) \<ge> MAX_INPUT_ITEMS")
    case True
    with assms(2) None obtain old j where old: "find (\<lambda>(_, i). in_answered i \<and> \<not> in_speech i) (ds_inputs s) = Some (old, j)"
      "i = new_input" "t = s\<lparr>ds_inputs := btree_remove old (ds_inputs s)\<rparr>" "\<not> input_collides x s"
      by (auto simp: ensure_input_def split: option.splits)
    from old(1) have "(old, j) \<in> set (ds_inputs s)" by (auto simp: find_Some_iff in_set_conv_nth)
    then have "length (filter (\<lambda>p. fst p \<noteq> old) (ds_inputs s)) < length (ds_inputs s)"
      by (intro length_filter_less) auto
    moreover from assms(1) have "length (ds_inputs s) \<le> MAX_INPUT_ITEMS" by (simp add: core_ok_def bounded_def)
    ultimately show ?thesis using old assms(1) core_ok_remove_input [of s old]
      by (auto simp: btree_remove_def new_input_def turn_ok_state_def input_collides_def)
  next
    case False
    with assms None show ?thesis by (auto simp: ensure_input_def new_input_def turn_ok_state_def)
  qed
qed

definition keeps_turn :: "(InputState \<Rightarrow> rstring + InputState) \<Rightarrow> bool" where
  "keeps_turn f \<longleftrightarrow> (\<forall>i i'. f i = Inr i' \<longrightarrow>
     in_pending i' = in_pending i \<and> in_answered i' = in_answered i \<and> in_abandoned i' = in_abandoned i)"

lemma core_ok_with_input:
  assumes "core_ok s" "keeps_turn f" "with_input x f s = Inr t"
  shows "core_ok t"
proof -
  from assms(3) obtain i u j where u: "ensure_input x s = Inr (i, u)" "f i = Inr j" "t = put_input x j u"
    by (auto simp: with_input_def)
  with assms(2) ensure_input_ok [OF assms(1) u(1)] show ?thesis
    by (auto simp: keeps_turn_def turn_ok_state_def intro!: core_ok_put_input)
qed

lemma keeps_turn_edges [simp]:
  "keeps_turn (\<lambda>i. Inr (i\<lparr>in_ended := True\<rparr>))" "keeps_turn (speech_edge kind)" "keeps_turn (source_transcript c x b)"
  by (auto simp: keeps_turn_def speech_edge_def source_transcript_def Let_def)

lemma core_ok_abandon: "core_ok s \<Longrightarrow> abandon_manual_input x sent s = Inr t \<Longrightarrow> core_ok t"
  by (auto simp: abandon_manual_input_def turn_ok_state_def intro!: core_ok_put_input)

subsection \<open>Isolated and remembered items\<close>

lemma core_ok_invalidate:
  assumes "core_ok s" "invalidate_turn a kind reason x s = Inr t"
  shows "core_ok t"
proof -
  let ?u = "s\<lparr>ds_inputs := btree_remove x (ds_inputs s)\<rparr>"
  from assms(2) have t: "t = ?u\<lparr>ds_invalid_inputs := insert x (ds_invalid_inputs s), ds_invalidated_item := Some x, ds_ignored := True\<rparr>"
    and own: "map_of (ds_item_owners s) x = None" and room: "card (ds_invalid_inputs s) < MAX_INPUT_ITEMS"
    by (simp_all add: invalidate_turn_def)
  from core_ok_remove_input [OF assms(1), of x] have ok: "core_ok ?u" .
  from assms(1) have "identities s" "bounded ?u" using ok by (simp_all add: core_ok_def)
  from \<open>identities s\<close> own have "identities (?u\<lparr>ds_invalid_inputs := insert x (ds_invalid_inputs s)\<rparr>)"
    unfolding identities_def by auto
  moreover from \<open>bounded ?u\<close> room have "bounded (?u\<lparr>ds_invalid_inputs := insert x (ds_invalid_inputs s)\<rparr>)"
    by (auto simp: bounded_def cancelable_response_ids_def card_insert_if)
  ultimately have "core_ok (?u\<lparr>ds_invalid_inputs := insert x (ds_invalid_inputs s)\<rparr>)" using ok by (simp add: core_ok_def)
  then show ?thesis by (simp add: t)
qed

lemma core_ok_ambient:
  assumes "core_ok s" "apply_ambient a x s = Inr t"
  shows "core_ok t"
proof -
  let ?u = "s\<lparr>ds_ambient_inputs := insert x (ds_ambient_inputs s)\<rparr>"
  from assms(2) have t: "t = ?u\<lparr>ds_ignored := True\<rparr>" and free: "map_of (ds_inputs s) x = None" "map_of (ds_item_owners s) x = None"
      "map_of (ds_conversation_items s) x = None"
    and room: "card (ds_ambient_inputs s) < MAX_INPUT_ITEMS \<or> x \<in> ds_ambient_inputs s"
    by (auto simp: apply_ambient_def)
  from assms(1) have "identities s" "bounded s" by (simp_all add: core_ok_def)
  with free have "identities ?u" unfolding identities_def by (auto simp del: str_def)
  moreover from \<open>bounded s\<close> room have "bounded ?u"
    by (auto simp: bounded_def cancelable_response_ids_def card_insert_if)
  ultimately have "core_ok ?u" using assms(1) by (simp add: core_ok_def)
  then show ?thesis by (simp add: t)
qed

lemma core_ok_conversation:
  assumes "core_ok s" "x \<notin> ds_ambient_inputs s" "length (ds_conversation_items s) < 4096"
    "if role = str ''user'' then map_of (ds_item_owners s) x = None else map_of (ds_inputs s) x = None"
  shows "core_ok (s\<lparr>ds_conversation_items := btree_insert x role (ds_conversation_items s)\<rparr>)"
proof -
  let ?u = "s\<lparr>ds_conversation_items := btree_insert x role (ds_conversation_items s)\<rparr>"
  from assms(1) have "identities s" "bounded s" by (simp_all add: core_ok_def)
  with assms(2, 4) have "identities ?u" unfolding identities_def by (auto simp del: str_def)
  moreover from \<open>bounded s\<close> assms(3) length_btree_insert [of x role "ds_conversation_items s"] have "bounded ?u"
    by (auto simp: bounded_def cancelable_response_ids_def split: if_splits)
  ultimately show ?thesis using assms(1) by (simp add: core_ok_def)
qed

lemma with_input_present: "with_input x f s = Inr t \<Longrightarrow> map_of (ds_inputs t) x \<noteq> None"
  by (auto simp: with_input_def put_input_def)

lemma input_is_user: "core_ok s \<Longrightarrow> map_of (ds_inputs s) x \<noteq> None \<Longrightarrow> x \<notin> ds_ambient_inputs s \<and> map_of (ds_item_owners s) x = None"
  unfolding core_ok_def identities_def by blast

lemma conversation_role_ok:
  assumes "core_ok s" "conversation_role x role content s = Inr t"
  shows "core_ok t \<and> x \<notin> ds_ambient_inputs t \<and>
    (if role = str ''user'' then map_of (ds_item_owners t) x = None else map_of (ds_inputs t) x = None)"
proof (cases "role = str ''user''")
  case True
  have "core_ok t \<and> map_of (ds_inputs t) x \<noteq> None"
  proof (cases "is_some_and (map_of (ds_inputs s) x) in_abandoned")
    case abandoned: True
    with assms True show ?thesis by (auto simp: conversation_role_def is_some_and_iff)
  next
    case False
    with assms True have "with_input x (\<lambda>i. Inr (i\<lparr>in_ended := True\<rparr>)) s = Inr t" by (simp add: conversation_role_def)
    with core_ok_with_input [OF assms(1) keeps_turn_edges(1)] show ?thesis by (auto dest: with_input_present)
  qed
  with input_is_user [of t x] True show ?thesis by auto
next
  case False
  with assms show ?thesis by (auto simp: conversation_role_def)
qed

lemma conversation_created_cases:
  assumes "apply_conversation_created event s = Inr t"
  obtains x role content u where "conversation_role x role content s = Inr u" "length (ds_conversation_items u) < 4096"
    "t = u\<lparr>ds_conversation_items := btree_insert x role (ds_conversation_items u)\<rparr>"
proof -
  from assms obtain x role content u where "conversation_role x role content s = Inr u" "length (ds_conversation_items u) < 4096"
    "t = u\<lparr>ds_conversation_items := btree_insert x role (ds_conversation_items u)\<rparr>"
    unfolding apply_conversation_created_def Let_def and_then_Inr reject_if_Inr by force
  then show ?thesis by (rule that)
qed

lemma core_ok_conversation_created:
  assumes "core_ok s" "apply_conversation_created event s = Inr t"
  shows "core_ok t"
  using assms(2)
proof (rule conversation_created_cases)
  fix x role content u
  assume "conversation_role x role content s = Inr u" "length (ds_conversation_items u) < 4096"
    "t = u\<lparr>ds_conversation_items := btree_insert x role (ds_conversation_items u)\<rparr>"
  with conversation_role_ok [OF assms(1), of x role content u] show ?thesis by (auto intro: core_ok_conversation)
qed

lemma core_ok_speech: "core_ok s \<Longrightarrow> apply_speech a kind event s = Inr t \<Longrightarrow> core_ok t"
  by (auto simp: apply_speech_def simp del: str_def split: option.splits
      intro: core_ok_invalidate core_ok_with_input [where f = "speech_edge kind"])

lemma core_ok_transcription: "core_ok s \<Longrightarrow> apply_transcription a kind event s = Inr t \<Longrightarrow> core_ok t"
  by (auto simp: apply_transcription_def Let_def simp del: str_def split: if_splits
      intro: core_ok_ambient elim!: core_ok_with_input [rotated 2])

subsection \<open>Responses\<close>

lemma length_filter_and: "length (filter (\<lambda>p. P p \<and> Q p) m) \<le> length (filter P m)"
  by (induction m) auto

lemma map_of_filter_distinct:
  "distinct (map fst m) \<Longrightarrow>
   map_of (filter P m) k = (case map_of m k of None \<Rightarrow> None | Some v \<Rightarrow> if P (k, v) then Some v else None)"
proof (induction m)
  case (Cons p m)
  have "map_of m (fst p) = None" using Cons.prems by (simp add: map_of_eq_None_iff)
  with Cons show ?case by (cases p) (auto split: option.splits)
qed simp

lemma set_remove_at_distinct: "distinct xs \<Longrightarrow> n < length xs \<Longrightarrow> set (remove_at n xs) = set xs - {xs ! n} \<and> distinct (remove_at n xs)"
proof (induction xs arbitrary: n)
  case (Cons x xs)
  then show ?case by (cases n) (auto simp: remove_at_Cons)
qed simp

lemma settled_is_open: "core_ok s \<Longrightarrow> map_of (ds_inputs s) x = Some i \<Longrightarrow> settled i \<Longrightarrow> \<not> in_abandoned i"
  by (auto simp: core_ok_def turn_states_def settled_def)

text \<open>A response is correlated with a settled input, which becomes answered, or with none.\<close>

lemma correlate_input_cases:
  assumes "core_ok s" "correlate_input event s = Inr (owner, t)"
  shows "owner = None \<and> t = s \<or>
    (\<exists>x i. owner = Some x \<and> map_of (ds_inputs s) x = Some i \<and> settled i \<and>
       t = put_input x (i\<lparr>in_pending := False, in_answered := True\<rparr>) s)"
proof -
  have dist: "distinct (map fst (ds_inputs s))" using assms(1) by (simp add: core_ok_def turn_states_def)
  have unique: "is_some_and (map_of (ds_inputs s) (fst (hd ps))) settled"
    if "filter (\<lambda>(_, i). settled i) (ds_inputs s) = ps" "length ps = 1" for ps
  proof -
    from that(2) have "hd ps \<in> set ps" by (cases ps) auto
    with that(1) have "(fst (hd ps), snd (hd ps)) \<in> set (ds_inputs s)" "settled (snd (hd ps))" by auto
    with dist show ?thesis unfolding is_some_and_iff by (metis map_of_is_SomeI)
  qed
  from assms(2) unique show ?thesis
    by (auto simp: correlate_input_def Let_def is_some_and_iff hd_map length_Suc_conv split: option.splits if_splits)
qed

lemma core_ok_correlate:
  assumes "core_ok s" "correlate_input event s = Inr (owner, t)"
  shows "core_ok t"
  using correlate_input_cases [OF assms] assms(1) settled_is_open [OF assms(1)]
  by (auto simp: turn_ok_state_def intro!: core_ok_put_input)

lemma core_ok_new_response:
  assumes "core_ok s" "map_of (ds_responses s) x = None" "length (cancelable_response_ids s) < MAX_ACTIVE_RESPONSES" "rs_items r = []"
  shows "core_ok ((put_response x r s)\<lparr>ds_response_order := ds_response_order s @ [x]\<rparr>)"
proof -
  let ?u = "(put_response x r s)\<lparr>ds_response_order := ds_response_order s @ [x]\<rparr>"
  from assms(1) have ok: "placed s" "ordered s" "bounded s" by (simp_all add: core_ok_def)
  from ok(1) assms(2, 4) have "placed ?u" unfolding placed_def put_response_def by auto
  moreover from ok(2) assms(2) have "ordered ?u" by (auto simp: ordered_def put_response_def)
  ultimately show ?thesis
    using assms(1, 3) ok(3) length_filter_and [of "\<lambda>(_, r). \<not> rs_done r" "\<lambda>p. fst p \<noteq> x" "ds_responses s"]
    by (auto simp: core_ok_def put_response_def bounded_def cancelable_response_ids_def length_filter_btree_insert)
qed

lemma response_created_cases:
  assumes "apply_response_created event s = Inr t"
  obtains x r u where "correlate_input event s = Inr (rs_input_item r, u)" "map_of (ds_responses s) x = None"
    "length (cancelable_response_ids s) < MAX_ACTIVE_RESPONSES" "rs_items r = []"
    "t = (put_response x r u)\<lparr>ds_response_order := ds_response_order u @ [x]\<rparr>"
proof -
  from assms obtain x r owner u where "correlate_input event s = Inr (owner, u)" "map_of (ds_responses s) x = None"
    "length (cancelable_response_ids s) < MAX_ACTIVE_RESPONSES" "rs_items r = []" "rs_input_item r = owner"
    "t = (put_response x r u)\<lparr>ds_response_order := ds_response_order u @ [x]\<rparr>"
    unfolding apply_response_created_def Let_def and_then_Inr reject_if_Inr by force
  then show ?thesis by (auto intro: that)
qed

lemma core_ok_response_created:
  assumes "core_ok s" "apply_response_created event s = Inr t"
  shows "core_ok t"
  using assms(2)
proof (rule response_created_cases)
  fix x r u
  assume u: "correlate_input event s = Inr (rs_input_item r, u)" "map_of (ds_responses s) x = None"
    "length (cancelable_response_ids s) < MAX_ACTIVE_RESPONSES" "rs_items r = []"
    "t = (put_response x r u)\<lparr>ds_response_order := ds_response_order u @ [x]\<rparr>"
  from correlate_input_cases [OF assms(1) u(1)] have "ds_responses u = ds_responses s" by (auto simp: put_input_def)
  with u show ?thesis using core_ok_new_response [OF core_ok_correlate [OF assms(1) u(1)]]
    by (simp add: cancelable_response_ids_def)
qed

text \<open>An open response changes: it keeps its items, or one place gets an item of the name that owns it.\<close>

lemma bounded_put_response:
  assumes "bounded s" "map_of (ds_responses s) x = Some r" "\<not> rs_done r"
  shows "bounded (put_response x r' s)"
  using assms length_filter_btree_less [OF assms(2), of "\<lambda>(_, r). \<not> rs_done r"]
  by (auto simp: bounded_def put_response_def cancelable_response_ids_def length_filter_btree_insert)

lemma ordered_put_response: "ordered s \<Longrightarrow> map_of (ds_responses s) x = Some r \<Longrightarrow> ordered (put_response x r' s)"
  by (auto simp: ordered_def put_response_def)

lemma placed_same_items:
  assumes "placed s" "map_of (ds_responses s) q = Some r" "\<And>n. map_option oi_id (map_of (rs_items r') n) = map_option oi_id (map_of (rs_items r) n)"
  shows "placed (put_response q r' s)"
proof -
  have "(\<exists>it. map_of (rs_items r') n = Some it \<and> oi_id it = x) \<longleftrightarrow> (\<exists>it. map_of (rs_items r) n = Some it \<and> oi_id it = x)" for n x
    using assms(3) [of n] by (cases "map_of (rs_items r) n"; cases "map_of (rs_items r') n") auto
  with assms(1, 2) show ?thesis unfolding placed_def put_response_def by (simp add: fun_upd_def)
qed

lemma placed_put_item:
  assumes "placed s" "map_of (ds_responses s) q = Some r" "oi_id it = x"
    "map_of (ds_item_owners s) x = None \<or> map_of (ds_item_owners s) x = Some (q, n)"
    "is_none_or (map_of (rs_items r) n) (\<lambda>old. oi_id old = x)"
  shows "placed (put_response q (r\<lparr>rs_items := btree_insert n it (rs_items r)\<rparr>)
    (s\<lparr>ds_item_owners := btree_insert x (q, n) (ds_item_owners s)\<rparr>))"
proof -
  let ?r = "r\<lparr>rs_items := btree_insert n it (rs_items r)\<rparr>"
  let ?place = "\<lambda>resp y p m. \<exists>rs i. resp p = Some rs \<and> map_of (rs_items rs) m = Some i \<and> oi_id i = y"
  from assms(1) have old: "map_of (ds_item_owners s) y = Some (p, m) \<longleftrightarrow> ?place (map_of (ds_responses s)) y p m" for y p m
    by (auto simp: placed_def)
  have "((map_of (ds_item_owners s))(x \<mapsto> (q, n))) y = Some (p, m) \<longleftrightarrow> ?place ((map_of (ds_responses s))(q \<mapsto> ?r)) y p m" for y p m
  proof (cases "p = q \<and> m = n")
    case True
    have "map_of (ds_item_owners s) y \<noteq> Some (q, n)" if "y \<noteq> x"
      using that old [of y q n] assms(2, 5) by (auto simp: is_none_or_def)
    with True assms(3) show ?thesis by auto
  next
    case False
    have "?place ((map_of (ds_responses s))(q \<mapsto> ?r)) y p m = ?place (map_of (ds_responses s)) y p m"
      using False assms(2) by auto
    with False old [of y p m] assms(4) show ?thesis by auto
  qed
  with assms(1) show ?thesis by (simp add: placed_def put_response_def distinct_btree_insert)
qed

definition keeps_id :: "(OutputItem \<Rightarrow> rstring + OutputItem) \<Rightarrow> bool" where
  "keeps_id f \<longleftrightarrow> (\<forall>i i'. f i = Inr i' \<longrightarrow> oi_id i' = oi_id i)"

lemma with_item_Inr:
  assumes "with_item q n x f s = Inr t"
  obtains r it it' where "map_of (ds_responses s) q = Some r" "\<not> rs_done r" "map_of (ds_inputs s) x = None"
    "x \<notin> ds_invalid_inputs s" "x \<notin> ds_ambient_inputs s"
    "map_of (ds_conversation_items s) x = None \<or> map_of (ds_conversation_items s) x = Some (str ''assistant'')"
    "map_of (ds_item_owners s) x = None \<or> map_of (ds_item_owners s) x = Some (q, n)"
    "it = unwrap_or (new_item x) (map_of (rs_items r) n)" "oi_id it = x" "f it = Inr it'"
    "t = put_response q (r\<lparr>rs_items := btree_insert n it' (rs_items r)\<rparr>) (s\<lparr>ds_item_owners := btree_insert x (q, n) (ds_item_owners s)\<rparr>)"
  using assms unfolding with_item_def response_mut_def Let_def is_some_and_def
  by (auto split: option.splits if_splits)

lemma core_ok_with_item:
  assumes "core_ok s" "keeps_id f" "with_item q n x f s = Inr t"
  shows "core_ok t"
proof -
  from assms(1) have ok: "identities s" "placed s" "ordered s" "bounded s" by (simp_all add: core_ok_def)
  from assms(3) show ?thesis
  proof (rule with_item_Inr)
    fix r it it'
    let ?u = "s\<lparr>ds_item_owners := btree_insert x (q, n) (ds_item_owners s)\<rparr>"
    assume r: "map_of (ds_responses s) q = Some r" "\<not> rs_done r" and free: "map_of (ds_inputs s) x = None"
        "x \<notin> ds_invalid_inputs s" "x \<notin> ds_ambient_inputs s"
        "map_of (ds_conversation_items s) x = None \<or> map_of (ds_conversation_items s) x = Some (str ''assistant'')"
      and own: "map_of (ds_item_owners s) x = None \<or> map_of (ds_item_owners s) x = Some (q, n)"
      and it: "it = unwrap_or (new_item x) (map_of (rs_items r) n)" "oi_id it = x" "f it = Inr it'"
      and t: "t = put_response q (r\<lparr>rs_items := btree_insert n it' (rs_items r)\<rparr>) ?u"
    have "str ''assistant'' \<noteq> str ''user''" by (simp add: str_eq_iff)
    with ok(1) free have "identities t" unfolding t put_response_def identities_def by auto
    moreover from it assms(2) have "placed t" unfolding t
      by (intro placed_put_item [OF ok(2) r(1) _ own]) (auto simp: keeps_id_def is_none_or_def split: option.splits)
    moreover have "ordered t" "bounded t" unfolding t
      using ok(3, 4) r by (auto intro!: ordered_put_response bounded_put_response)
    ultimately show ?thesis using assms(1) by (simp add: core_ok_def t put_response_def)
  qed
qed

lemma core_ok_with_part:
  assumes "core_ok s" "with_part event f s = Inr t"
  shows "core_ok t"
proof -
  from assms(2) obtain q x n c where "with_item q n x (\<lambda>item.
      let part = unwrap_or empty_part (map_of (oi_parts item) c) in
      reject_if (op_done part) (identity_error (str ''content already terminal''))
      (and_then (f part) (\<lambda>part. Inr (item\<lparr>oi_parts := btree_insert c part (oi_parts item)\<rparr>)))) s = Inr t"
    unfolding with_part_def and_then_Inr by blast
  then show ?thesis by (rule core_ok_with_item [OF assms(1), rotated]) (auto simp: keeps_id_def Let_def)
qed

lemma fewer_owners:
  assumes "identities s" "\<forall>x. map_of (ds_item_owners s) x = None \<longrightarrow> map_of w x = None"
  shows "identities (s\<lparr>ds_item_owners := w\<rparr>)"
  using assms unfolding identities_def by (simp split: if_splits) metis

lemma core_ok_retire:
  assumes "core_ok s" "n < length (ds_response_order s)"
  shows "core_ok (retire (ds_response_order s ! n) n s)"
proof -
  let ?q = "ds_response_order s ! n" and ?t = "retire (ds_response_order s ! n) n s"
  from assms(1) have ok: "identities s" "placed s" "ordered s" "bounded s" by (simp_all add: core_ok_def)
  from ok(2) have dist: "distinct (map fst (ds_item_owners s))" by (simp add: placed_def)
  have owners: "map_of (ds_item_owners ?t) x = Some (p, m) \<longleftrightarrow> map_of (ds_item_owners s) x = Some (p, m) \<and> p \<noteq> ?q" for x p m
    by (cases "map_of (ds_item_owners s) x") (auto simp: retire_def map_of_filter_distinct [OF dist])
  have "\<forall>x. map_of (ds_item_owners s) x = None \<longrightarrow> map_of (ds_item_owners ?t) x = None"
    using owners by (metis option.exhaust prod.exhaust)
  with ok(1) have "identities ?t" unfolding retire_def by (intro fewer_owners) simp_all
  moreover from ok(2) have "placed ?t" unfolding placed_def owners by (auto simp: retire_def distinct_map_filter)
  moreover from ok(3) set_remove_at_distinct [of "ds_response_order s" n] assms(2) have "ordered ?t"
    by (auto simp: ordered_def retire_def)
  moreover from ok(4) have "bounded ?t"
    using length_filter_filter_le [of "\<lambda>(_, r). \<not> rs_done r" "\<lambda>p. fst p \<noteq> ?q" "ds_responses s"]
    by (simp add: bounded_def retire_def cancelable_response_ids_def btree_remove_def del: filter_filter)
  ultimately show ?thesis using assms(1) by (simp add: core_ok_def) (simp add: retire_def)
qed

lemma core_ok_retire_responses: "core_ok s \<Longrightarrow> core_ok (retire_responses s)"
proof (induction s rule: retire_responses.induct)
  case (1 s)
  then show ?case
    by (subst retire_responses.simps) (auto split: option.splits dest: position_Some intro!: core_ok_retire 1)
qed

lemma oi_id_clear_texts [simp]: "oi_id (clear_texts i) = oi_id i"
  by (simp add: clear_texts_def)

lemma response_mut_Inr: "response_mut q s = Inr r \<longleftrightarrow> map_of (ds_responses s) q = Some r \<and> \<not> rs_done r"
  by (auto simp: response_mut_def split: option.splits)

lemma response_done_cases:
  assumes "apply_response_done event s = Inr (m, t)"
  obtains q r where "map_of (ds_responses s) q = Some r" "\<not> rs_done r"
    "t = retire_responses (put_response q (r\<lparr>rs_done := True, rs_items := btree_map clear_texts (rs_items r)\<rparr>) s)"
proof -
  from assms obtain q r where "map_of (ds_responses s) q = Some r \<and> \<not> rs_done r"
    "t = retire_responses (put_response q (r\<lparr>rs_done := True, rs_items := btree_map clear_texts (rs_items r)\<rparr>) s)"
    unfolding apply_response_done_def Let_def and_then_Inr reject_if_Inr response_mut_Inr by force
  then show ?thesis by (auto intro: that)
qed

lemma core_ok_response_done:
  assumes "core_ok s" "apply_response_done event s = Inr (m, t)"
  shows "core_ok t"
  using assms(2)
proof (rule response_done_cases)
  fix q r
  let ?u = "put_response q (r\<lparr>rs_done := True, rs_items := btree_map clear_texts (rs_items r)\<rparr>) s"
  assume x: "map_of (ds_responses s) q = Some r" "\<not> rs_done r" and t: "t = retire_responses ?u"
  from assms(1) x have "placed ?u" "ordered ?u" "bounded ?u"
    by (auto simp: core_ok_def option.map_comp comp_def intro!: placed_same_items ordered_put_response bounded_put_response)
  with assms(1) have "core_ok ?u" by (simp add: core_ok_def put_response_def)
  with t show ?thesis by (simp add: core_ok_retire_responses)
qed

subsection \<open>Events\<close>

lemma keeps_id_output_item_edge: "keeps_id (output_item_edge added item)"
  by (auto simp: keeps_id_def output_item_edge_def split: if_splits)

lemma core_ok_output_item:
  assumes "core_ok s" "apply_output_item added event s = Inr t"
  shows "core_ok t"
proof -
  from assms(2) obtain q n x where "with_item q n x (output_item_edge added (json_at event (str ''item''))) s = Inr t"
    unfolding apply_output_item_def Let_def and_then_Inr reject_if_Inr by blast
  then show ?thesis by (rule core_ok_with_item [OF assms(1) keeps_id_output_item_edge])
qed

lemma core_ok_session_fields:
  assumes "core_ok s"
  shows "handshake (s\<lparr>ds_session_id := v\<rparr>) \<Longrightarrow> core_ok (s\<lparr>ds_session_id := v\<rparr>)"
    "handshake (s\<lparr>ds_active := b\<rparr>) \<Longrightarrow> core_ok (s\<lparr>ds_active := b\<rparr>)"
    "handshake (s\<lparr>ds_expected := e\<rparr>) \<Longrightarrow> core_ok (s\<lparr>ds_expected := e\<rparr>)"
  using assms by (simp_all add: core_ok_def identities_def placed_def ordered_def bounded_def turn_states_def cancelable_response_ids_def)

lemma core_ok_session_created: "core_ok s \<Longrightarrow> apply_session_created a event s = Inr (m, t) \<Longrightarrow> core_ok t"
  by (auto simp: apply_session_created_def Let_def handshake_def intro!: core_ok_session_fields)

lemma core_ok_session_updated: "core_ok s \<Longrightarrow> apply_session_updated a event s = Inr (m, t) \<Longrightarrow> core_ok t"
  by (auto simp: apply_session_updated_def Let_def handshake_def intro!: core_ok_session_fields)

lemma text_cases:
  assumes "apply_text kind event s = Inr (m, t)"
  obtains f u where "with_part event f s = Inr u" "t = u \<or> t = u\<lparr>ds_ignored := True\<rparr>"
  using assms unfolding apply_text_def Let_def and_then_Inr by (auto split: if_splits)

lemma core_ok_text: "core_ok s \<Longrightarrow> apply_text kind event s = Inr (m, t) \<Longrightarrow> core_ok t"
  by (auto elim!: text_cases dest: core_ok_with_part)

lemma core_ok_audio: "core_ok s \<Longrightarrow> apply_audio env kind event s = Inr t \<Longrightarrow> core_ok t"
  unfolding apply_audio_def and_then_Inr reject_if_Inr by (blast intro: core_ok_with_part)

lemma core_ok_content_part: "core_ok s \<Longrightarrow> apply_content_part added event s = Inr t \<Longrightarrow> core_ok t"
  unfolding apply_content_part_def Let_def and_then_Inr reject_if_Inr by (blast intro: core_ok_with_part)

lemmas core_ok_handlers = core_ok_session_created core_ok_session_updated core_ok_conversation_created core_ok_speech
  core_ok_transcription core_ok_response_created core_ok_text core_ok_audio core_ok_output_item core_ok_content_part
  core_ok_response_done

lemma quietly_Inr [simp]: "quietly r = Inr (m, t) \<longleftrightarrow> m = no_mutation \<and> r = Inr t"
  by (auto simp: quietly_def)

lemma core_ok_apply: "core_ok s \<Longrightarrow> dialogue_apply env a event kind s = Inr (m, t) \<Longrightarrow> core_ok t"
  unfolding dialogue_apply_def by (auto split: if_splits dest: core_ok_handlers)

subsection \<open>The replay filter\<close>

lemma dialogue_ok_remember:
  assumes "core_ok s" "remembered s" "event_id = None \<or> map_of (ds_seen s) (the event_id) = None"
  shows "dialogue_ok (remember_event event_id hash s)"
proof (cases event_id)
  case None
  with assms show ?thesis by (simp add: remember_event_def dialogue_ok_def)
next
  case (Some e)
  let ?recent = "ds_recent_events s @ [e]"
  have fresh: "e \<notin> set (ds_recent_events s)" using assms(2, 3) Some by (auto simp: remembered_def)
  with assms(2) have "distinct ?recent" "dom (map_of (btree_insert e hash (ds_seen s))) = set ?recent" "length ?recent \<le> Suc 4096"
    by (auto simp: remembered_def)
  moreover obtain x xs where "?recent = x # xs" by (cases ?recent) auto
  ultimately show ?thesis using assms(1)
    by (auto simp: remember_event_def Some dialogue_ok_def remembered_def Let_def)
qed

text \<open>Every event leaves the memory of the earlier ones alone.\<close>

lemma same_memory: "remembered s \<Longrightarrow> ds_seen t = ds_seen s \<Longrightarrow> ds_recent_events t = ds_recent_events s \<Longrightarrow> remembered t"
  by (simp add: remembered_def)

end
