(* ===== verification/Dialogue_Session.thy ===== *)
theory Dialogue_Session
  imports Dialogue_Invariant
begin

text \<open>
  The session message that the client builds is one that it admits itself, and one whose echo by the
  server it accepts; so the handshake of a well-behaved server leaves the session active.
\<close>

declare str_def [simp del] not_None_eq [simp del]

section \<open>Messages\<close>

lemma fields_within_obj :
  assumes "list_all (\<lambda>(k, _). str k \<in> set allowed) fs"
  shows "fields_within (obj fs) allowed = Inr ()"
proof -
  from assms have "find (\<lambda>key. key \<notin> set allowed) (map fst (map (\<lambda>(k, v). (str k, v)) fs)) = None"
    by (auto simp: find_None_iff list_all_iff)
  then show ?thesis by (simp add: fields_within_def obj_def ok_or_def)
qed

lemma string_field_obj : "map_of fs k = Some (JString v) \<Longrightarrow> string_field (obj fs) (str k) = Inr v"
  by (simp add: string_field_def json_get_obj ok_or_def)

lemma text_field_obj : "map_of fs k = Some (JString v) \<Longrightarrow> trim v \<noteq> [] \<Longrightarrow> text_field (obj fs) (str k) = Inr v"
  by (simp add: text_field_def string_field_obj reject_if_def)

lemmas dialogue_eval = fields_within_obj string_field_obj text_field_obj message_eval

section \<open>The session of the client\<close>

definition update_session :: "AuthorizedModelProtocolProfile \<Rightarrow> rstring \<Rightarrow> rstring \<Rightarrow> rstring \<Rightarrow> bool \<Rightarrow> json" where
  "update_session a voice instructions mode with_audio = json_at (session_update a voice instructions mode with_audio) (str ''session'')"

lemma voice_for_nonblank: "trim (voice_for a voice) \<noteq> []"
  by (auto simp: voice_for_def dialogue_eval)

lemma modalities_built: "modalities (JArray (if with_audio then [json_str ''text'', json_str ''audio''] else [json_str ''text''])) =
    Inr (if with_audio then {str ''text'', str ''audio''} else {str ''text''})"
  by (auto simp: modalities_def dialogue_eval)

lemma audio_format_built: "audio_format (pcm_format rate) rate is_input = Inr ()"
  by (simp add: audio_format_def pcm_format_def layout_defaults_def dialogue_eval)

lemma turn_ok_built: "mode = str ''manual'' \<or> mode = str ''server_vad'' \<Longrightarrow> turn_ok (detection_for mode) omni = Inr ()"
  by (auto simp: turn_ok_def detection_for_def dialogue_eval)

text \<open>The fields of the session that is sent, for the two dialects.\<close>

definition omni_fields :: "rstring \<Rightarrow> rstring \<Rightarrow> rstring \<Rightarrow> bool \<Rightarrow> (string \<times> json) list" where
  "omni_fields voice instructions mode with_audio =
     [(''modalities'', JArray (if with_audio then [json_str ''text'', json_str ''audio''] else [json_str ''text''])),
      (''instructions'', JString instructions), (''turn_detection'', detection_for mode),
      (''audio'', obj [(''input'', obj [(''format'', pcm_format 16000)]),
        (''output'', obj ((''format'', pcm_format 24000) # (if with_audio then [(''voice'', JString voice)] else [])))]),
      (''input_audio_transcription'', obj [(''model'', json_str ''qwen3-asr-flash-realtime'')])]"

definition qwen_fields :: "rstring \<Rightarrow> rstring \<Rightarrow> rstring \<Rightarrow> bool \<Rightarrow> (string \<times> json) list" where
  "qwen_fields voice instructions mode with_audio =
     [(''modalities'', JArray (if with_audio then [json_str ''text'', json_str ''audio''] else [json_str ''text''])),
      (''instructions'', JString instructions), (''turn_detection'', detection_for mode), (''input_audio_format'', json_str ''pcm'')] @
     (if with_audio then [(''output_audio_format'', json_str ''pcm''), (''voice'', JString voice)] else [])"

lemma update_session_fields:
  "update_session a voice instructions mode with_audio =
     obj ((if is_omni a then omni_fields else qwen_fields) (voice_for a voice) instructions mode with_audio)"
  by (simp add: update_session_def session_update_def omni_fields_def qwen_fields_def Let_def dialogue_eval)

lemma validate_omni_built: "trim voice \<noteq> [] \<Longrightarrow> validate_omni_session (obj (omni_fields voice instructions mode with_audio)) = Inr ()"
  by (simp add: validate_omni_session_def omni_fields_def Let_def dialogue_eval audio_format_built)

lemma validate_qwen_built:
  "with_audio \<longrightarrow> qwen_voice a (JString voice) = Inr () \<Longrightarrow> validate_qwen_session a (obj (qwen_fields voice instructions mode with_audio)) = Inr ()"
  by (simp add: validate_qwen_session_def qwen_fields_def Let_def dialogue_eval)

definition legal_choice :: "AuthorizedModelProtocolProfile \<Rightarrow> rstring \<Rightarrow> rstring \<Rightarrow> bool \<Rightarrow> bool" where
  "legal_choice a voice mode with_audio \<longleftrightarrow> is_supported_authority a \<and> (mode = str ''manual'' \<or> mode = str ''server_vad'') \<and>
     (with_audio \<longrightarrow> is_omni a \<or> qwen_voice a (JString (voice_for a voice)) = Inr ())"

lemma validate_session_built:
  assumes "legal_choice a voice mode with_audio"
  shows "validate_session a (update_session a voice instructions mode with_audio) = Inr ()"
proof -
  let ?fs = "(if is_omni a then omni_fields else qwen_fields) (voice_for a voice) instructions mode with_audio"
  have "(if is_omni a then validate_omni_session (obj ?fs) else validate_qwen_session a (obj ?fs)) = Inr ()"
    using assms by (auto simp: legal_choice_def validate_omni_built voice_for_nonblank intro!: validate_qwen_built)
  moreover have "json_at (obj ?fs) (str ''modalities'') = JArray (if with_audio then [json_str ''text'', json_str ''audio''] else [json_str ''text''])"
    "json_get (str ''instructions'') (obj ?fs) = Some (JString instructions)"
    "json_get (str ''turn_detection'') (obj ?fs) = Some (detection_for mode)"
    by (simp_all add: omni_fields_def qwen_fields_def message_simps)
  ultimately show ?thesis using assms turn_ok_built [of mode "is_omni a"]
    by (simp add: update_session_fields validate_session_def modalities_built is_string_def reject_if_def legal_choice_def)
qed

lemma session_update_obj:
  "session_update a voice instructions mode with_audio =
     obj [(''type'', json_str ''session.update''), (''session'', update_session a voice instructions mode with_audio)]"
  by (simp add: update_session_def session_update_def Let_def dialogue_eval)

lemma update_admitted:
  assumes "legal_choice a voice mode with_audio" "de_admit env a ClientEvent (str ''session.update'') JsonFrame = None"
  shows "admit_client_event env a (session_update a voice instructions mode with_audio) = Inr ()"
  using assms validate_session_built [OF assms(1), of instructions]
  by (simp add: session_update_obj admit_client_event_def dialogue_eval optional_event_id_def legal_choice_def)

text \<open>The echo: the session that was sent with its identifier.\<close>

lemma echo_accepted:
  assumes "legal_choice a voice mode with_audio"
  shows "check_echo a (update_session a voice instructions mode with_audio)
    (json_set (str ''id'') (JString ident) (update_session a voice instructions mode with_audio)) = Inr ()"
proof (cases "is_omni a")
  case True
  have turn: "check_echo_turn (obj (omni_fields v i mode w)) (obj (omni_fields v i mode w @ [(''id'', JString ident)])) = Inr ()" for v i w
    using assms by (auto simp: check_echo_turn_def omni_fields_def detection_for_def echo_differs_def dialogue_eval legal_choice_def)
  show ?thesis using True turn
    by (simp add: update_session_fields check_echo_def check_echo_basics_def check_echo_transcription_def check_echo_omni_def
        check_echo_side_def echo_differs_def dialogue_eval)
      (simp add: omni_fields_def dialogue_eval modalities_built audio_format_built)
next
  case False
  have turn: "check_echo_turn (obj (qwen_fields v i mode w)) (obj (qwen_fields v i mode w @ [(''id'', JString ident)])) = Inr ()" for v i w
    using assms by (auto simp: check_echo_turn_def qwen_fields_def detection_for_def echo_differs_def dialogue_eval legal_choice_def)
  show ?thesis using False turn
    by (simp add: update_session_fields check_echo_def check_echo_basics_def check_echo_transcription_def
        echo_differs_def dialogue_eval) (simp add: qwen_fields_def dialogue_eval modalities_built)
qed

section \<open>The handshake\<close>

definition created_event :: "rstring \<Rightarrow> json" where
  "created_event ident = obj [(''type'', json_str ''session.created''), (''session'', obj [(''id'', JString ident)])]"

definition updated_event :: "rstring \<Rightarrow> json \<Rightarrow> json" where
  "updated_event ident session = obj [(''type'', json_str ''session.updated''), (''session'', json_set (str ''id'') (JString ident) session)]"

definition handshake_ops :: "AuthorizedModelProtocolProfile \<Rightarrow> rstring \<Rightarrow> json \<Rightarrow> dialogue_op list" where
  "handshake_ops a ident update =
     [ServerFrame a (created_event ident) JsonFrame, ClientUpdate a update,
      ServerFrame a (updated_event ident (json_at update (str ''session''))) JsonFrame]"

definition session_started :: "AuthorizedModelProtocolProfile \<Rightarrow> rstring \<Rightarrow> json \<Rightarrow> DialogueServerState" where
  "session_started a ident session =
     dialogue_default\<lparr>ds_expected := Some session, ds_authority := Some (authority_key a), ds_session_id := Some ident, ds_active := True\<rparr>"

lemma created_step:
  assumes "is_supported_authority a" "de_admit env a ServerEvent (str ''session.created'') JsonFrame = None" "trim ident \<noteq> []"
  shows "dialogue_step env dialogue_default (ServerFrame a (created_event ident) JsonFrame) =
    dialogue_default\<lparr>ds_authority := Some (authority_key a), ds_session_id := Some ident\<rparr>"
  using assms
  by (simp add: created_event_def admit_received_frame_def dialogue_admit_def dialogue_admit_frame_def dialogue_eval logical_frame_def
      optional_event_id_def bind_authority_def dialogue_default_def dialogue_apply_def apply_session_created_def remember_event_def
      keep_on_error_def Let_def)

lemma updated_step:
  assumes "is_supported_authority a" "de_admit env a ServerEvent (str ''session.updated'') JsonFrame = None" "trim ident \<noteq> []"
    "check_echo a (obj fs) (obj (fs @ [(''id'', JString ident)])) = Inr ()" "map_of fs ''id'' = None"
  shows "dialogue_step env (dialogue_default\<lparr>ds_authority := Some (authority_key a), ds_session_id := Some ident, ds_expected := Some (obj fs)\<rparr>)
      (ServerFrame a (updated_event ident (obj fs)) JsonFrame) = session_started a ident (obj fs)"
  using assms
  by (simp add: updated_event_def admit_received_frame_def dialogue_admit_def dialogue_admit_frame_def dialogue_eval logical_frame_def
      optional_event_id_def bind_authority_def dialogue_default_def dialogue_apply_def apply_session_updated_def remember_event_def
      keep_on_error_def Let_def session_started_def map_add_def)

lemma handshake_run:
  assumes "legal_choice a voice mode with_audio" "trim ident \<noteq> []" "de_admit env a ServerEvent (str ''session.created'') JsonFrame = None"
    "de_admit env a ClientEvent (str ''session.update'') JsonFrame = None"
    "de_admit env a ServerEvent (str ''session.updated'') JsonFrame = None"
  shows "runs (dialogue_step env) dialogue_default (handshake_ops a ident (session_update a voice instructions mode with_audio)) =
    session_started a ident (update_session a voice instructions mode with_audio)"
proof -
  let ?fs = "(if is_omni a then omni_fields else qwen_fields) (voice_for a voice) instructions mode with_audio"
  let ?s = "dialogue_default\<lparr>ds_authority := Some (authority_key a), ds_session_id := Some ident\<rparr>"
  have sup: "is_supported_authority a" using assms(1) by (simp add: legal_choice_def)
  have "map_of ?fs ''id'' = None" by (simp add: omni_fields_def qwen_fields_def)
  moreover have "check_echo a (obj ?fs) (obj (?fs @ [(''id'', JString ident)])) = Inr ()"
    using echo_accepted [OF assms(1), of instructions ident] by (simp only: update_session_fields json_set_obj)
  ultimately have "dialogue_step env (?s\<lparr>ds_expected := Some (obj ?fs)\<rparr>) (ServerFrame a (updated_event ident (obj ?fs)) JsonFrame) =
      session_started a ident (obj ?fs)"
    using updated_step [OF sup assms(5, 2)] by blast
  moreover have "dialogue_step env ?s (ClientUpdate a (session_update a voice instructions mode with_audio)) = ?s\<lparr>ds_expected := Some (obj ?fs)\<rparr>"
    using update_admitted [OF assms(1, 4), of instructions] sup
    by (simp add: record_client_session_update_def bind_authority_def keep_on_error_def dialogue_default_def session_update_obj
        update_session_fields dialogue_eval)
  ultimately show ?thesis using created_step [OF sup assms(3, 2)]
    by (simp add: handshake_ops_def session_update_obj update_session_fields json_at_obj)
qed

text \<open>The events of the handshake are in the lists of the authorization, as text frames.\<close>

definition handshake_events :: "(ModelProtocolEventDirection \<times> rstring) list" where
  "handshake_events = [(ClientEvent, str ''session.update''), (ServerEvent, str ''session.created''), (ServerEvent, str ''session.updated'')]"

definition handshake_listed :: "AuthorizedModelProtocolProfile \<Rightarrow> bool" where
  "handshake_listed a \<longleftrightarrow>
     list_all (\<lambda>(direction, kind). kind \<in> set (event_allowlist direction a) \<and> event_frame direction a kind = JsonFrame) handshake_events"

lemma listed_admitted:
  assumes "authorize_model_protocol_invocation_with_binding (de_registry env) q binding = Inr a"
    "\<forall>r. rg_registry (de_registry env) = Some r \<longrightarrow> distinct (map mp_profile_id (mr_profiles r))"
    "requested_audio_expected a" "handshake_listed a"
  shows "de_admit env a ClientEvent (str ''session.update'') JsonFrame = None"
    "de_admit env a ServerEvent (str ''session.created'') JsonFrame = None"
    "de_admit env a ServerEvent (str ''session.updated'') JsonFrame = None"
  using assms(4) by (auto simp: handshake_listed_def handshake_events_def intro!: verdict_listed [OF assms(1-3)])


section \<open>A sample session\<close>

definition sample_omni :: ModelProtocolDialect where
  "sample_omni = sample_dialect ''bailian-omni-realtime-ws-v2'' 2 ''pcm'' [''session.update'', ''input_audio_buffer.append'']
     [''session.created'', ''session.updated'', ''input_audio_buffer.committed'', ''response.created'']"

definition sample_omni_profile :: ModelProtocolProfile where
  "sample_omni_profile = sample_profile ''bailian-omni-realtime-ws-v2'' ''desktop-omni-session-v2'' ''dialogue''"

definition sample_env :: dialogue_env where
  "sample_env = \<lparr>de_base64 = \<lambda>_. None, de_fingerprint = (\<lambda>v. case v of JObject fs \<Rightarrow> length fs | _ \<Rightarrow> 0), de_registry = sample_registry sample_omni sample_omni_profile\<rparr>"

definition sample_authority :: AuthorizedModelProtocolProfile where
  "sample_authority = sample_authorization sample_omni sample_omni_profile ''pcm'' ''dialogue'' ''desktop-omni-session-v2''"

lemma sample_authority_issued:
  "authorize_model_protocol_invocation_with_binding (de_registry sample_env) (sample_request ''pcm'' ''dialogue'') None = Inr sample_authority"
  "\<forall>r. rg_registry (de_registry sample_env) = Some r \<longrightarrow> distinct (map mp_profile_id (mr_profiles r))"
  "requested_audio_expected sample_authority"
  unfolding sample_env_def dialogue_env.select_convs sample_authority_def sample_omni_def sample_omni_profile_def
  by (rule sample_authorized, simp, rule sample_distinct,
      simp add: requested_audio_expected_def expected_adapter_audio_def sample_authorization_def issue_def sample_request_def)

lemma sample_lists:
  "event_allowlist ClientEvent sample_authority = map str [''session.update'', ''input_audio_buffer.append'']"
  "event_allowlist ServerEvent sample_authority =
     map str [''session.created'', ''session.updated'', ''input_audio_buffer.committed'', ''response.created'']"
  "event_frame direction sample_authority kind =
     (if kind = (case direction of ClientEvent \<Rightarrow> str ''input_audio_buffer.append'' | ServerEvent \<Rightarrow> str ''response.audio.delta'')
      then JsonBase64Frame else JsonFrame)"
  by (simp_all add: event_allowlist_def event_frame_def sample_authority_def sample_authorization_def issue_def sample_omni_def
      sample_dialect_def str_eq_iff split: ModelProtocolEventDirection.split)

lemma sample_handshake: "handshake_listed sample_authority"
  by (simp add: handshake_listed_def handshake_events_def sample_lists str_eq_iff)

lemma sample_env_admits [simp]:
  "de_admit sample_env sample_authority ClientEvent (str ''session.update'') JsonFrame = None"
  "de_admit sample_env sample_authority ServerEvent (str ''session.created'') JsonFrame = None"
  "de_admit sample_env sample_authority ServerEvent (str ''session.updated'') JsonFrame = None"
  "de_admit sample_env sample_authority ServerEvent (str ''input_audio_buffer.committed'') JsonFrame = None"
  by (rule verdict_listed [OF sample_authority_issued]; simp add: sample_lists str_eq_iff)+

lemma sample_is_omni [simp]: "is_omni sample_authority" "is_supported_authority sample_authority"
  by (simp_all add: is_omni_def is_supported_authority_def sample_authority_def sample_authorization_def issue_def sample_omni_def
      sample_dialect_def)

definition sample_update :: json where
  "sample_update = session_update sample_authority (str ''auto'') (str ''be brief'') (str ''manual'') True"

lemma sample_legal: "legal_choice sample_authority (str ''auto'') (str ''manual'') True"
  by (simp add: legal_choice_def)


end
