(* ===== verification/Dialogue_Run.thy ===== *)
theory Dialogue_Run
  imports Dialogue_Session
begin

text \<open>
  What holds along every run of a dialogue session: the identifiers stay consistent, an abandoned
  input never gets a response, and a repeated event changes nothing.
\<close>

declare str_def [simp del] not_None_eq [simp del]

section \<open>Further properties of the events\<close>

text \<open>
  What the state changes of a server event keep. An instance proves its property for each elementary
  change; the lemma of the locale then covers every event that the session applies.
\<close>

locale kept_by_events =
  fixes P :: "DialogueServerState \<Rightarrow> bool"
  assumes session: "P s \<Longrightarrow> P (s\<lparr>ds_session_id := v\<rparr>)" "P s \<Longrightarrow> P (s\<lparr>ds_active := b\<rparr>)"
    and ignored: "P s \<Longrightarrow> P (s\<lparr>ds_ignored := b\<rparr>)"
    and conversation: "P s \<Longrightarrow> P (s\<lparr>ds_conversation_items := c\<rparr>)"
    and input_edge: "core_ok s \<Longrightarrow> P s \<Longrightarrow> keeps_turn f \<Longrightarrow> with_input x f s = Inr t \<Longrightarrow> P t"
    and invalidated: "core_ok s \<Longrightarrow> P s \<Longrightarrow> invalidate_turn a kind reason x s = Inr t \<Longrightarrow> P t"
    and ambient: "P s \<Longrightarrow> apply_ambient a x s = Inr t \<Longrightarrow> P t"
    and item_edge: "P s \<Longrightarrow> with_item q n x g s = Inr t \<Longrightarrow> P t"
    and created: "core_ok s \<Longrightarrow> P s \<Longrightarrow> correlate_input event s = Inr (rs_input_item r, u) \<Longrightarrow>
      P ((put_response q r u)\<lparr>ds_response_order := order\<rparr>)"
    and finished: "P s \<Longrightarrow> map_of (ds_responses s) q = Some r \<Longrightarrow> rs_input_item r' = rs_input_item r \<Longrightarrow> P (put_response q r' s)"
    and retired: "P s \<Longrightarrow> P (retire q n s)"
begin

lemma retire_responses_kept: "P s \<Longrightarrow> P (retire_responses s)"
proof (induction s rule: retire_responses.induct)
  case (1 s)
  then show ?case by (subst retire_responses.simps) (auto split: option.splits intro: retired)
qed

lemma with_part_kept: "P s \<Longrightarrow> with_part event f s = Inr t \<Longrightarrow> P t"
  unfolding with_part_def and_then_Inr by (blast intro: item_edge)

lemma conversation_kept: "core_ok s \<Longrightarrow> P s \<Longrightarrow> apply_conversation_created event s = Inr t \<Longrightarrow> P t"
  by (auto elim!: conversation_created_cases simp: conversation_role_def split: if_splits
      intro!: conversation ignored intro: input_edge [OF _ _ keeps_turn_edges(1)])

lemma speech_kept: "core_ok s \<Longrightarrow> P s \<Longrightarrow> apply_speech a kind event s = Inr t \<Longrightarrow> P t"
  by (auto simp: apply_speech_def split: option.splits intro: invalidated input_edge [OF _ _ keeps_turn_edges(2)])

lemma transcription_kept: "core_ok s \<Longrightarrow> P s \<Longrightarrow> apply_transcription a kind event s = Inr t \<Longrightarrow> P t"
  by (auto simp: apply_transcription_def Let_def split: if_splits
      intro!: ignored intro: ambient input_edge [OF _ _ keeps_turn_edges(3)])

lemma created_kept: "core_ok s \<Longrightarrow> P s \<Longrightarrow> apply_response_created event s = Inr t \<Longrightarrow> P t"
  by (auto elim!: response_created_cases intro: created)

lemma done_kept: "P s \<Longrightarrow> apply_response_done event s = Inr (m, t) \<Longrightarrow> P t"
  by (auto elim!: response_done_cases intro!: retire_responses_kept intro: finished)

lemma output_item_kept: "P s \<Longrightarrow> apply_output_item added event s = Inr t \<Longrightarrow> P t"
  unfolding apply_output_item_def Let_def and_then_Inr reject_if_Inr by (blast intro: item_edge)

lemma text_kept: "P s \<Longrightarrow> apply_text kind event s = Inr (m, t) \<Longrightarrow> P t"
  by (auto elim!: text_cases intro: ignored with_part_kept)

lemma audio_kept: "P s \<Longrightarrow> apply_audio env kind event s = Inr t \<Longrightarrow> P t"
  unfolding apply_audio_def and_then_Inr reject_if_Inr by (blast intro: with_part_kept)

lemma content_part_kept: "P s \<Longrightarrow> apply_content_part added event s = Inr t \<Longrightarrow> P t"
  unfolding apply_content_part_def Let_def and_then_Inr reject_if_Inr by (blast intro: with_part_kept)

lemma session_kept:
  "P s \<Longrightarrow> apply_session_created a event s = Inr (m, t) \<Longrightarrow> P t" "P s \<Longrightarrow> apply_session_updated a event s = Inr (m, t) \<Longrightarrow> P t"
  by (auto simp: apply_session_created_def apply_session_updated_def Let_def intro: session)

lemma apply_kept: "core_ok s \<Longrightarrow> P s \<Longrightarrow> dialogue_apply env a event kind s = Inr (m, t) \<Longrightarrow> P t"
  unfolding dialogue_apply_def
  by (auto split: if_splits dest: session_kept conversation_kept speech_kept transcription_kept created_kept done_kept
      output_item_kept text_kept audio_kept content_part_kept)

end

subsection \<open>Admission\<close>

text \<open>An event leaves the memory of the events, the expected session and the authority alone.\<close>

interpretation memory: kept_by_events
  "\<lambda>s. ds_seen s = q \<and> ds_recent_events s = es \<and> ds_authority s = k \<and> ds_expected s = e" for q es k e
proof
  fix s t :: DialogueServerState and x n f and g :: "OutputItem \<Rightarrow> rstring + OutputItem"
  let ?P = "\<lambda>s. ds_seen s = q \<and> ds_recent_events s = es \<and> ds_authority s = k \<and> ds_expected s = e"
  have ensured: "ensure_input x s = Inr (i, u) \<Longrightarrow> ?P u = ?P s" for i u
    by (auto simp: ensure_input_def split: option.splits if_splits)
  show "?P s \<Longrightarrow> with_input x f s = Inr t \<Longrightarrow> ?P t"
    by (auto simp: with_input_def put_input_def dest!: ensured)
  show "?P s \<Longrightarrow> with_item q' n x g s = Inr t \<Longrightarrow> ?P t" for q'
    by (auto elim!: with_item_Inr simp: put_response_def)
  fix event q' order and u :: DialogueServerState and r :: ResponseState
  assume "core_ok s" "?P s" and c: "correlate_input event s = Inr (rs_input_item r, u)"
  then show "?P ((put_response q' r u)\<lparr>ds_response_order := order\<rparr>)"
    using correlate_input_cases [OF \<open>core_ok s\<close> c] by (auto simp: put_input_def put_response_def)
qed (auto simp: invalidate_turn_def apply_ambient_def put_response_def retire_def)

definition bound_to :: "AuthorizedModelProtocolProfile \<Rightarrow> DialogueServerState \<Rightarrow> DialogueServerState" where
  "bound_to a s = s\<lparr>ds_authority := Some (authority_key a), ds_ignored := False, ds_invalidated_item := None\<rparr>"

lemma core_ok_bound_to [simp]: "core_ok (bound_to a s) = core_ok s"
  by (simp add: bound_to_def)

text \<open>An admitted event is a known one, which is ignored, or a new one, which is applied and remembered.\<close>

lemma admit_received_frame_cases:
  assumes "admit_received_frame env a event received s = Inr (m, t)"
  obtains (replay) e where "optional_event_id event = Inr (Some e)" "map_of (ds_seen s) e = Some (de_fingerprint env event)"
      "m = no_mutation" "t = (bound_to a s)\<lparr>ds_ignored := True\<rparr>" "ds_authority s = None \<or> ds_authority s = Some (authority_key a)"
  | (new) kind event_id u where "optional_event_id event = Inr event_id" "Option.bind event_id (map_of (ds_seen s)) = None"
      "dialogue_apply env a event kind (bound_to a s) = Inr (m, u)" "t = remember_event event_id (de_fingerprint env event) u"
      "ds_authority s = None \<or> ds_authority s = Some (authority_key a)"
proof -
  from assms obtain frame where "dialogue_admit_frame env a event frame s = Inr (m, t)"
    by (auto simp: admit_received_frame_def dialogue_admit_def)
  then obtain kind where kind: "frame = logical_frame kind" and "(case de_admit env a ServerEvent kind frame of Some code \<Rightarrow> Inl code
      | None \<Rightarrow> and_then (optional_event_id event) (\<lambda>event_id. and_then (bind_authority a s) (\<lambda>bound.
          let hash = de_fingerprint env event; next = bound\<lparr>ds_ignored := False, ds_invalidated_item := None\<rparr> in
          case Option.bind event_id (map_of (ds_seen next)) of
            Some old \<Rightarrow> reject_if (old \<noteq> hash) (identity_error (str ''event_id replay has different payload''))
                (Inr (no_mutation, next\<lparr>ds_ignored := True\<rparr>))
          | None \<Rightarrow> and_then (dialogue_apply env a event kind next) (\<lambda>(m, next). Inr (m, remember_event event_id hash next))))) = Inr (m, t)"
    unfolding dialogue_admit_frame_def and_then_Inr [of "text_field event _"] reject_if_Inr by blast
  then obtain event_id where eid: "optional_event_id event = Inr event_id"
    and auth: "ds_authority s = None \<or> ds_authority s = Some (authority_key a)"
    and r: "(case Option.bind event_id (map_of (ds_seen s)) of
       Some old \<Rightarrow> reject_if (old \<noteq> de_fingerprint env event) (identity_error (str ''event_id replay has different payload''))
         (Inr (no_mutation, (bound_to a s)\<lparr>ds_ignored := True\<rparr>))
     | None \<Rightarrow> and_then (dialogue_apply env a event kind (bound_to a s))
         (\<lambda>(m, next). Inr (m, remember_event event_id (de_fingerprint env event) next))) = Inr (m, t)"
    unfolding bound_to_def by (cases "de_admit env a ServerEvent kind frame") (auto simp: bind_authority_def Let_def is_some_and_def split: option.splits)
  show ?thesis
  proof (cases "Option.bind event_id (map_of (ds_seen s))")
    case None
    with r eid auth show ?thesis by (auto intro: new)
  next
    case (Some old)
    then obtain e where "event_id = Some e" by (cases event_id) auto
    with Some r eid auth show ?thesis by (auto intro: replay)
  qed
qed

lemma dialogue_ok_frame:
  assumes "dialogue_ok s" "admit_received_frame env a event received s = Inr (m, t)"
  shows "dialogue_ok t"
  using assms(2)
proof (cases rule: admit_received_frame_cases)
  case (replay e)
  with assms(1) show ?thesis by (simp add: dialogue_ok_def bound_to_def remembered_def)
next
  case (new kind event_id u)
  from assms(1) have ok: "core_ok (bound_to a s)" "remembered s" by (simp_all add: dialogue_ok_def)
  from memory.apply_kept [OF ok(1) _ new(3)] have "ds_seen u = ds_seen s" "ds_recent_events u = ds_recent_events s"
    by (auto simp: bound_to_def)
  with core_ok_apply [OF ok(1) new(3)] ok(2) new(2, 4) show ?thesis
    by (cases event_id) (auto simp: remembered_def intro!: dialogue_ok_remember)
qed

lemma bind_authority_Inr: "bind_authority a s = Inr t \<Longrightarrow> t = s\<lparr>ds_authority := Some (authority_key a)\<rparr>"
  by (simp add: bind_authority_def)

lemma dialogue_ok_client:
  assumes "dialogue_ok s" "record_client_session_update env a event s = Inr t"
  shows "dialogue_ok t"
proof -
  from assms(2) obtain e where t: "t = s\<lparr>ds_authority := Some (authority_key a), ds_expected := e\<rparr>" "e \<noteq> None"
    by (auto simp: record_client_session_update_def dest!: bind_authority_Inr)
  from assms(1) have "core_ok (s\<lparr>ds_authority := Some (authority_key a)\<rparr>)" "handshake s"
    by (simp_all add: dialogue_ok_def) (simp add: core_ok_def)
  with t have "core_ok t" by (auto simp: handshake_def intro!: core_ok_session_fields)
  with assms(1) t show ?thesis by (simp add: dialogue_ok_def remembered_def)
qed

lemma dialogue_ok_default: "dialogue_ok dialogue_default"
  using core_ok_default by (simp add: dialogue_ok_def remembered_def dialogue_default_def)

lemma dialogue_ok_step: "dialogue_ok s \<Longrightarrow> dialogue_ok (dialogue_step env s e)"
proof (cases e)
  case (ServerFrame a event received)
  assume "dialogue_ok s"
  then show ?thesis
    by (auto simp: ServerFrame keep_on_error_def and_then_def split: sum.splits dest: dialogue_ok_frame)
next
  case (ClientUpdate a event)
  assume "dialogue_ok s"
  then show ?thesis by (auto simp: ClientUpdate keep_on_error_def split: sum.splits dest: dialogue_ok_client)
next
  case (AbandonInput x sent)
  assume "dialogue_ok s"
  moreover have "remembered t" if "abandon_manual_input x sent s = Inr t" "remembered s" for t
    using that(2) by (rule same_memory) (use that(1) in \<open>auto simp: abandon_manual_input_def put_input_def\<close>)
  ultimately show ?thesis
    by (cases "abandon_manual_input x sent s") (auto simp: AbandonInput keep_on_error_def dialogue_ok_def core_ok_abandon)
qed (simp add: reset_for_reconnect_def dialogue_ok_default)

interpretation dialogue: invariant_system dialogue_default "dialogue_step env" dialogue_ok for env
  by unfold_locales (rule dialogue_ok_default, rule dialogue_ok_step)

section \<open>Abandoned inputs\<close>

definition given_up :: "rstring \<Rightarrow> DialogueServerState \<Rightarrow> bool" where
  "given_up x s \<longleftrightarrow> (x \<in> ds_invalid_inputs s \<or> is_some_and (map_of (ds_inputs s) x) in_abandoned) \<and>
     (\<forall>q r. map_of (ds_responses s) q = Some r \<longrightarrow> rs_input_item r \<noteq> Some x)"

lemma given_up_cong:
  "given_up x s \<Longrightarrow> ds_invalid_inputs t = ds_invalid_inputs s \<Longrightarrow> ds_inputs t = ds_inputs s \<Longrightarrow> ds_responses t = ds_responses s \<Longrightarrow> given_up x t"
  by (simp add: given_up_def)

lemma given_up_put_input: "given_up x s \<Longrightarrow> y \<noteq> x \<or> in_abandoned i \<Longrightarrow> given_up x (put_input y i s)"
  by (auto simp: given_up_def put_input_def is_some_and_iff)

lemma given_up_put_response:
  "given_up x s \<Longrightarrow> rs_input_item r \<noteq> Some x \<Longrightarrow> given_up x (put_response q r s)"
  by (auto simp: given_up_def put_response_def)

lemma evicted_input:
  assumes "core_ok s" "find (\<lambda>(_, i). in_answered i \<and> \<not> in_speech i) (ds_inputs s) = Some (old, j)"
  shows "map_of (ds_inputs s) old = Some j \<and> \<not> in_abandoned j"
proof -
  from assms(2) have j: "(old, j) \<in> set (ds_inputs s)" "in_answered j" by (auto simp: find_Some_iff in_set_conv_nth)
  from assms(1) j(1) have "map_of (ds_inputs s) old = Some j" by (simp add: core_ok_def turn_states_def)
  with assms(1) j(2) show ?thesis by (auto simp: core_ok_def turn_states_def)
qed

lemma given_up_ensure:
  assumes "core_ok s" "given_up x s" "ensure_input y s = Inr (i, t)"
  shows "given_up x t \<and> y \<noteq> x"
proof -
  from assms(2, 3) have "y \<noteq> x" by (auto simp: ensure_input_def input_collides_def given_up_def)
  moreover have "given_up x t"
  proof (cases "t = s")
    case False
    with assms(3) obtain old j where old: "find (\<lambda>(_, i). in_answered i \<and> \<not> in_speech i) (ds_inputs s) = Some (old, j)"
      "t = s\<lparr>ds_inputs := btree_remove old (ds_inputs s)\<rparr>"
      by (auto simp: ensure_input_def split: option.splits if_splits)
    from evicted_input [OF assms(1) old(1)] old(2) assms(2) show ?thesis by (auto simp: given_up_def)
  qed (use assms(2) in simp)
  ultimately show ?thesis by simp
qed

lemma input_not_invalid: "core_ok s \<Longrightarrow> map_of (ds_inputs s) x \<noteq> None \<Longrightarrow> x \<notin> ds_invalid_inputs s"
  unfolding core_ok_def identities_def by blast

lemma given_up_unsettled: "core_ok s \<Longrightarrow> given_up x s \<Longrightarrow> map_of (ds_inputs s) x = Some i \<Longrightarrow> \<not> settled i"
  using settled_is_open [of s x i] input_not_invalid [of s x] by (auto simp: given_up_def)

interpretation abandoned: kept_by_events "given_up x" for x
proof
  fix s t :: DialogueServerState and y n f and g :: "OutputItem \<Rightarrow> rstring + OutputItem"
  show "core_ok s \<Longrightarrow> given_up x s \<Longrightarrow> with_input y f s = Inr t \<Longrightarrow> given_up x t"
    by (auto simp: with_input_def dest!: given_up_ensure intro!: given_up_put_input)
  show "given_up x s \<Longrightarrow> with_item q n y g s = Inr t \<Longrightarrow> given_up x t" for q
  proof (erule with_item_Inr)
    fix r it it'
    assume "given_up x s" "map_of (ds_responses s) q = Some r" and t: "t = put_response q (r\<lparr>rs_items := btree_insert n it' (rs_items r)\<rparr>)
        (s\<lparr>ds_item_owners := btree_insert y (q, n) (ds_item_owners s)\<rparr>)"
    then show "given_up x t" unfolding t by (intro given_up_put_response) (auto simp: given_up_def)
  qed
  fix event q order and u :: DialogueServerState and r :: ResponseState
  assume s: "core_ok s" "given_up x s" and c: "correlate_input event s = Inr (rs_input_item r, u)"
  have "given_up x u \<and> rs_input_item r \<noteq> Some x"
    using correlate_input_cases [OF s(1) c] given_up_unsettled [OF s] s(2) by (auto intro: given_up_put_input)
  then have "given_up x (put_response q r u)" by (auto intro: given_up_put_response)
  then show "given_up x ((put_response q r u)\<lparr>ds_response_order := order\<rparr>)" by (rule given_up_cong) simp_all
next
  show "given_up x s \<Longrightarrow> map_of (ds_responses s) q = Some r \<Longrightarrow> rs_input_item r' = rs_input_item r \<Longrightarrow> given_up x (put_response q r' s)"
    for s q and r r' :: ResponseState
    by (auto simp: given_up_def put_response_def)
qed (auto simp: given_up_def invalidate_turn_def apply_ambient_def retire_def is_some_and_iff)

lemma remember_event_unread [simp]:
  "ds_invalid_inputs (remember_event e h s) = ds_invalid_inputs s" "ds_inputs (remember_event e h s) = ds_inputs s"
  "ds_responses (remember_event e h s) = ds_responses s"
  by (auto simp: remember_event_def Let_def split: option.split)

lemma given_up_frame:
  assumes "dialogue_ok s" "given_up x s" "admit_received_frame env a event received s = Inr (m, t)"
  shows "given_up x t"
  using assms(3)
proof (cases rule: admit_received_frame_cases)
  case (replay e)
  with assms(2) show ?thesis by (auto simp: bound_to_def intro: given_up_cong)
next
  case (new kind event_id u)
  from assms(1) have "core_ok (bound_to a s)" by (simp add: dialogue_ok_def)
  moreover from assms(2) have "given_up x (bound_to a s)" by (rule given_up_cong) (simp_all add: bound_to_def)
  ultimately have "given_up x u" using new(3) by (rule abandoned.apply_kept)
  with new(4) show ?thesis by (auto intro: given_up_cong)
qed

lemma given_up_step:
  assumes "dialogue_ok s" "given_up x s" "e \<noteq> ResetDialogue"
  shows "given_up x (dialogue_step env s e)"
proof (cases e)
  case (ServerFrame a event received)
  with assms show ?thesis by (auto simp: keep_on_error_def and_then_def split: sum.splits dest: given_up_frame)
next
  case (ClientUpdate a event)
  with assms show ?thesis
    by (auto simp: keep_on_error_def record_client_session_update_def split: sum.splits dest!: bind_authority_Inr intro: given_up_cong)
next
  case (AbandonInput y sent)
  with assms show ?thesis
    by (auto simp: keep_on_error_def abandon_manual_input_def split: sum.splits intro: given_up_put_input)
qed (use assms in simp)

lemma given_up_runs: "dialogue_ok s \<Longrightarrow> given_up x s \<Longrightarrow> ResetDialogue \<notin> set es \<Longrightarrow> given_up x (runs (dialogue_step env) s es)"
proof (induction es arbitrary: s)
  case (Cons e es)
  then have "given_up x (dialogue_step env s e)" by (intro given_up_step) auto
  with Cons show ?case by (simp add: dialogue_ok_step)
qed simp

lemma abandon_gives_up: "abandon_manual_input x sent s = Inr t \<Longrightarrow> given_up x t"
  by (fastforce simp: abandon_manual_input_def given_up_def put_input_def list_ex_iff dest: map_of_SomeD)

section \<open>Repeated events\<close>

text \<open>An event is recalled when its hash is known and at most \<open>k\<close> newer events are in the memory.\<close>

definition recalls :: "rstring \<Rightarrow> nat \<Rightarrow> json \<Rightarrow> nat \<Rightarrow> DialogueServerState \<Rightarrow> bool" where
  "recalls e h key k s \<longleftrightarrow> map_of (ds_seen s) e = Some h \<and> ds_authority s = Some key \<and>
     (\<exists>pre post. ds_recent_events s = pre @ e # post \<and> length post \<le> k)"

lemma recalls_mono: "recalls e h key k s \<Longrightarrow> k \<le> l \<Longrightarrow> recalls e h key l s"
  by (auto simp: recalls_def) (metis le_trans)

lemma recalls_cong:
  "recalls e h key k s \<Longrightarrow> ds_seen t = ds_seen s \<Longrightarrow> ds_recent_events t = ds_recent_events s \<Longrightarrow> ds_authority t = ds_authority s \<Longrightarrow>
    recalls e h key k t"
  by (simp add: recalls_def)

lemma recalls_new:
  assumes "remembered s" "map_of (ds_seen s) e = None" "ds_authority s = Some key"
  shows "recalls e h key 0 (remember_event (Some e) h s)"
proof -
  from assms(1, 2) have "e \<notin> set (ds_recent_events s)" by (auto simp: remembered_def)
  then have "hd (ds_recent_events s) \<noteq> e" if "ds_recent_events s \<noteq> []" using that by (auto dest: hd_in_set)
  then show ?thesis using assms(3) by (cases "ds_recent_events s") (auto simp: remember_event_def Let_def recalls_def)
qed

lemma recalls_remember:
  assumes "remembered s" "recalls e h key k s" "Suc k < 4096" "event_id = None \<or> map_of (ds_seen s) (the event_id) = None"
  shows "recalls e h key (Suc k) (remember_event event_id h' s)"
proof (cases event_id)
  case None
  with assms(2) show ?thesis by (simp add: remember_event_def recalls_mono)
next
  case (Some f)
  from assms(2) obtain pre post where r: "ds_recent_events s = pre @ e # post" "length post \<le> k" "map_of (ds_seen s) e = Some h"
    "ds_authority s = Some key" by (auto simp: recalls_def)
  from Some assms(4) r(3) have f: "f \<noteq> e" by auto
  show ?thesis
  proof (cases "length (ds_recent_events s @ [f]) > 4096")
    case True
    with r(1, 2) assms(3) obtain x xs where pre: "pre = x # xs" by (cases pre) auto
    with assms(1) r(1) have "x \<noteq> e" by (simp add: remembered_def)
    with True Some r f pre have "ds_recent_events (remember_event event_id h' s) = xs @ e # (post @ [f])"
      "map_of (ds_seen (remember_event event_id h' s)) e = Some h" "ds_authority (remember_event event_id h' s) = Some key"
      by (simp_all add: remember_event_def Let_def)
    with r(2) show ?thesis unfolding recalls_def by fastforce
  next
    case False
    with Some r f have "ds_recent_events (remember_event event_id h' s) = pre @ e # (post @ [f])"
      "map_of (ds_seen (remember_event event_id h' s)) e = Some h" "ds_authority (remember_event event_id h' s) = Some key"
      by (simp_all add: remember_event_def Let_def)
    with r(2) show ?thesis unfolding recalls_def by fastforce
  qed
qed

lemma recalls_frame:
  assumes "dialogue_ok s" "recalls e h key k s" "Suc k < 4096" "admit_received_frame env a event received s = Inr (m, t)"
  shows "recalls e h key (Suc k) t"
  using assms(4)
proof (cases rule: admit_received_frame_cases)
  case (replay f)
  with assms(2) have "recalls e h key k t" by (intro recalls_cong [OF assms(2)]) (auto simp: bound_to_def recalls_def)
  then show ?thesis by (rule recalls_mono) simp
next
  case (new kind event_id u)
  from assms(1) have ok: "core_ok (bound_to a s)" "remembered s" by (simp_all add: dialogue_ok_def)
  from memory.apply_kept [OF ok(1) _ new(3)] have u: "ds_seen u = ds_seen s" "ds_recent_events u = ds_recent_events s"
      "ds_authority u = Some (authority_key a)" by (auto simp: bound_to_def)
  with new(5) assms(2) have "recalls e h key k u" by (intro recalls_cong [OF assms(2)]) (auto simp: recalls_def)
  moreover have "remembered u" using ok(2) u(1, 2) by (rule same_memory)
  moreover have "event_id = None \<or> map_of (ds_seen u) (the event_id) = None" using new(2) u(1) by (cases event_id) auto
  ultimately show ?thesis using assms(3) by (simp add: new(4) recalls_remember)
qed

lemma recalls_step:
  assumes "dialogue_ok s" "recalls e h key k s" "Suc k < 4096" "op \<noteq> ResetDialogue"
  shows "recalls e h key (Suc k) (dialogue_step env s op)"
proof (cases op)
  case (ServerFrame a event received)
  with assms recalls_mono [OF assms(2), of "Suc k"] show ?thesis
    by (auto simp: keep_on_error_def and_then_def split: sum.splits intro: recalls_frame)
next
  case (ClientUpdate a event)
  have "recalls e h key k t" if "record_client_session_update env a event s = Inr t" for t
    by (rule recalls_cong [OF assms(2)])
      (use assms(2) that in \<open>auto simp: record_client_session_update_def bind_authority_def recalls_def\<close>)
  with ClientUpdate assms(2) show ?thesis
    by (auto simp: keep_on_error_def split: sum.splits intro!: recalls_mono [of e h key k _ "Suc k"])
next
  case (AbandonInput x sent)
  have "recalls e h key k t" if "abandon_manual_input x sent s = Inr t" for t
    by (rule recalls_cong [OF assms(2)]) (use that in \<open>auto simp: abandon_manual_input_def put_input_def\<close>)
  with AbandonInput assms(2) show ?thesis
    by (auto simp: keep_on_error_def split: sum.splits intro!: recalls_mono [of e h key k _ "Suc k"])
qed (use assms in simp)

lemma recalls_runs:
  "dialogue_ok s \<Longrightarrow> recalls e h key k s \<Longrightarrow> k + length ops < 4096 \<Longrightarrow> ResetDialogue \<notin> set ops \<Longrightarrow>
    recalls e h key (k + length ops) (runs (dialogue_step env) s ops)"
proof (induction ops arbitrary: s k)
  case (Cons op ops)
  then have "recalls e h key (Suc k) (dialogue_step env s op)" by (intro recalls_step) auto
  with Cons.IH [of "dialogue_step env s op" "Suc k"] Cons.prems show ?case by (simp add: dialogue_ok_step)
qed simp

lemma logical_frame_of_kind:
  "text_field event (str ''type'') = Inr kind \<Longrightarrow>
    (if json_is (json_at event (str ''type'')) (str ''response.audio.delta'') then JsonBase64Frame else JsonFrame) = logical_frame kind"
  by (auto simp: text_field_def string_field_def json_at_def json_is_def logical_frame_def bind_eq_Some_conv)

text \<open>The conditions on a frame that do not depend on the state, and what a known event does when they hold.\<close>

lemma admitted_frame:
  assumes "admit_received_frame env a event received s = Inr (m, t)"
  obtains kind where "received = JsonFrame" "text_field event (str ''type'') = Inr kind" "is_supported_authority a"
    "de_admit env a ServerEvent kind (logical_frame kind) = None"
proof -
  from assms obtain frame where "dialogue_admit_frame env a event frame s = Inr (m, t)" "received = JsonFrame"
    by (auto simp: admit_received_frame_def dialogue_admit_def)
  then show ?thesis
    by (auto simp: dialogue_admit_frame_def bind_authority_def split: option.splits intro: that)
qed

lemma admit_known:
  assumes "text_field event (str ''type'') = Inr kind" "is_supported_authority a"
    "de_admit env a ServerEvent kind (logical_frame kind) = None" "optional_event_id event = Inr (Some e)"
    "recalls e (de_fingerprint env event) (authority_key a) k s"
  shows "admit_received_frame env a event JsonFrame s = Inr (no_mutation, s\<lparr>ds_ignored := True, ds_invalidated_item := None\<rparr>)"
  using assms by (simp add: admit_received_frame_def dialogue_admit_def dialogue_admit_frame_def logical_frame_of_kind reject_if_def
      bind_authority_def recalls_def Let_def)

lemma admitted_new_recalled:
  assumes "dialogue_ok s" "admit_received_frame env a event received s = Inr (m, t)" "optional_event_id event = Inr (Some e)"
    "map_of (ds_seen s) e = None"
  shows "recalls e (de_fingerprint env event) (authority_key a) 0 t"
  using assms(2)
proof (cases rule: admit_received_frame_cases)
  case (new kind event_id u)
  from assms(1) have ok: "core_ok (bound_to a s)" "remembered s" by (simp_all add: dialogue_ok_def)
  from memory.apply_kept [OF ok(1) _ new(3)] have u: "ds_seen u = ds_seen s" "ds_recent_events u = ds_recent_events s"
      "ds_authority u = Some (authority_key a)" by (auto simp: bound_to_def)
  with assms(3, 4) new(1, 4) same_memory [OF ok(2) u(1, 2)] show ?thesis by (auto intro: recalls_new)
qed (use assms in auto)

section \<open>Properties\<close>

text \<open>C34: After any sequence of frames, client updates, local decisions and reconnects, no identifier is both an input and an
  output item, and neither an input nor an output item is ambient or revoked; no conversation item is ambient, one of the user
  is not an output item and any other is not an input. (An identifier may be both ambient and revoked, and a conversation item may
  be revoked.) Every output item has exactly one place in one response, the order lists exactly the responses, an answered or
  abandoned input is not pending, an active session has its identifier and expected configuration, the remembered events are those
  of the replay window, and the ledgers stay within their bounds.\<close>

theorem dialogue_identities_consistent:
  "let s = runs (dialogue_step env) dialogue_default ops in
     identities s \<and> placed s \<and> ordered s \<and> bounded s \<and> turn_states s \<and> handshake s \<and> remembered s"
  using dialogue.inv_reachable [of env ops] by (simp add: Let_def dialogue_ok_def core_ok_def)

text \<open>C35: Once a manual input is abandoned, no response of the session is attributed to it, whatever the server
  sends until the next reconnect.\<close>

theorem abandoned_input_unowned:
  assumes "s = runs (dialogue_step env) dialogue_default ops" "abandon_manual_input x sent s = Inr t" "ResetDialogue \<notin> set later"
  shows "\<forall>q r. map_of (ds_responses (runs (dialogue_step env) t later)) q = Some r \<longrightarrow> rs_input_item r \<noteq> Some x"
proof -
  have "t = dialogue_step env s (AbandonInput x sent)" using assms(2) by (simp add: keep_on_error_def)
  moreover have "dialogue_ok s" using assms(1) by (simp add: dialogue.inv_reachable)
  ultimately have "dialogue_ok t" by (simp only: dialogue_ok_step)
  from given_up_runs [OF this abandon_gives_up [OF assms(2)] assms(3)] show ?thesis by (simp add: given_up_def)
qed

text \<open>C36: An admitted event that arrives again while fewer than 4096 operations passed has no effect on the session: it reports no
  mutation, sets the ignored flag and clears the invalidated item that the previous event may have reported, and changes nothing
  else; an event with its identifier and another fingerprint is rejected.\<close>

theorem replay_ignored:
  assumes "s = runs (dialogue_step env) dialogue_default ops" "optional_event_id event = Inr (Some e)" "map_of (ds_seen s) e = None"
    "admit_received_frame env a event JsonFrame s = Inr (m, t)" "ResetDialogue \<notin> set later" "length later < 4096"
    "u = runs (dialogue_step env) t later"
  shows "admit_received_frame env a event JsonFrame u = Inr (no_mutation, u\<lparr>ds_ignored := True, ds_invalidated_item := None\<rparr>) \<and>
    (\<forall>b other. optional_event_id other = Inr (Some e) \<and> de_fingerprint env other \<noteq> de_fingerprint env event \<longrightarrow>
       (\<exists>err. admit_received_frame env b other JsonFrame u = Inl err))"
proof -
  have "dialogue_ok s" using assms(1) by (simp add: dialogue.inv_reachable)
  then have "dialogue_ok t" using assms(4) by (rule dialogue_ok_frame)
  with admitted_new_recalled [OF \<open>dialogue_ok s\<close> assms(4, 2, 3)] assms(5, 6)
  have known: "recalls e (de_fingerprint env event) (authority_key a) (length later) u"
    using recalls_runs [of t e _ _ 0 later env] by (simp add: assms(7))
  from assms(4) have "admit_received_frame env a event JsonFrame u = Inr (no_mutation, u\<lparr>ds_ignored := True, ds_invalidated_item := None\<rparr>)"
    by (rule admitted_frame) (rule admit_known [OF _ _ _ assms(2) known])
  moreover have "\<exists>err. admit_received_frame env b other JsonFrame u = Inl err"
    if "optional_event_id other = Inr (Some e)" "de_fingerprint env other \<noteq> de_fingerprint env event" for b other
  proof (cases "admit_received_frame env b other JsonFrame u")
    case (Inr r)
    then obtain m' t' where "admit_received_frame env b other JsonFrame u = Inr (m', t')" by (cases r) simp
    then show ?thesis by (cases rule: admit_received_frame_cases) (use that known in \<open>auto simp: recalls_def\<close>)
  qed simp
  ultimately show ?thesis by blast
qed

section \<open>Witnesses\<close>

definition sample_event :: json where
  "sample_event = obj [(''type'', json_str ''input_audio_buffer.committed''), (''event_id'', json_str ''e1''), (''item_id'', json_str ''i1'')]"

definition sample_ops :: "dialogue_op list" where
  "sample_ops = handshake_ops sample_authority (str ''s1'') sample_update"

definition sample_session :: DialogueServerState where
  "sample_session = session_started sample_authority (str ''s1'') (update_session sample_authority (str ''auto'') (str ''be brief'') (str ''manual'') True)"

lemma sample_run: "runs (dialogue_step sample_env) dialogue_default sample_ops = sample_session"
  unfolding sample_ops_def sample_update_def sample_session_def
  by (rule handshake_run [OF sample_legal]) (simp_all add: dialogue_eval)

definition sample_committed :: DialogueServerState where
  "sample_committed = sample_session\<lparr>ds_inputs := [(str ''i1'', new_input\<lparr>in_ended := True\<rparr>)],
     ds_seen := [(str ''e1'', 3)], ds_recent_events := [str ''e1'']\<rparr>"

lemma sample_fingerprint [simp]: "de_fingerprint sample_env (obj fs) = length fs"
  by (simp add: sample_env_def obj_def)

lemma sample_admitted:
  "admit_received_frame sample_env sample_authority sample_event JsonFrame sample_session = Inr (no_mutation, sample_committed)"
  by (simp add: sample_event_def sample_committed_def sample_session_def session_started_def dialogue_default_def
      admit_received_frame_def dialogue_admit_def dialogue_admit_frame_def dialogue_eval logical_frame_def optional_event_id_def
      bind_authority_def dialogue_apply_def speech_kinds_def apply_speech_def quietly_def with_input_def ensure_input_def
      input_collides_def MAX_INPUT_ITEMS_def speech_edge_def new_input_def put_input_def btree_insert_def remember_event_def Let_def)

lemma sample_turn_detection: "Option.bind (ds_expected sample_committed) (json_get (str ''turn_detection'')) = Some JNull"
  by (simp add: sample_committed_def sample_session_def session_started_def update_session_fields omni_fields_def detection_for_def dialogue_eval)

lemma sample_abandoned: "\<exists>t. abandon_manual_input (str ''i1'') False sample_committed = Inr t"
  using sample_turn_detection
  by (simp add: abandon_manual_input_def sample_committed_def sample_session_def session_started_def dialogue_default_def
      new_input_def dialogue_eval)

theorem abandoned_input_unowned_witness:
  "\<exists>t. abandon_manual_input (str ''i1'') False sample_committed = Inr t \<and>
     (\<forall>q r. map_of (ds_responses (runs (dialogue_step sample_env) t [ServerFrame sample_authority
          (obj [(''type'', json_str ''response.created''), (''response'', obj [(''id'', json_str ''r1'')])]) JsonFrame])) q = Some r \<longrightarrow>
        rs_input_item r \<noteq> Some (str ''i1''))"
proof -
  from sample_abandoned obtain t where t: "abandon_manual_input (str ''i1'') False sample_committed = Inr t" ..
  have "sample_committed = runs (dialogue_step sample_env) dialogue_default (sample_ops @ [ServerFrame sample_authority sample_event JsonFrame])"
    by (simp add: sample_run sample_admitted keep_on_error_def)
  moreover have "ResetDialogue \<notin> set [ServerFrame sample_authority
      (obj [(''type'', json_str ''response.created''), (''response'', obj [(''id'', json_str ''r1'')])]) JsonFrame]" by simp
  ultimately show ?thesis using abandoned_input_unowned [OF _ t] t by blast
qed

theorem replay_ignored_witness:
  "admit_received_frame sample_env sample_authority sample_event JsonFrame sample_committed =
     Inr (no_mutation, sample_committed\<lparr>ds_ignored := True, ds_invalidated_item := None\<rparr>) \<and>
   (\<exists>err. admit_received_frame sample_env sample_authority (json_set (str ''x'') JNull sample_event) JsonFrame sample_committed = Inl err)"
proof -
  have new: "optional_event_id sample_event = Inr (Some (str ''e1''))" "map_of (ds_seen sample_session) (str ''e1'') = None"
    by (simp_all add: sample_event_def optional_event_id_def dialogue_eval sample_session_def session_started_def dialogue_default_def)
  have other: "optional_event_id (json_set (str ''x'') JNull sample_event) = Inr (Some (str ''e1''))"
    "de_fingerprint sample_env (json_set (str ''x'') JNull sample_event) \<noteq> de_fingerprint sample_env sample_event"
    by (simp_all add: sample_event_def optional_event_id_def dialogue_eval)
  show ?thesis
    using replay_ignored [OF sample_run [symmetric] new sample_admitted, of "[]" sample_committed] other by auto
qed

end
