(* ===== verification/Live_Schema.thy ===== *)
theory Live_Schema
  imports Model_Authorization "HOL-Library.Word" "HOL-Library.List_Lexorder"
begin

text \<open>
  The message schemas of the LiveTranslate protocol (\<open>audio/bailian_protocol\<close>: \<open>client_event.rs\<close>,
  \<open>server_event_fields.rs\<close>, \<open>v2.rs\<close>, the validators of \<open>mod.rs\<close> and the echo check of
  \<open>session_state.rs\<close>). Base64, SHA-256, the rendering of JSON scalars and the registry of models
  are the fields of \<open>live_env\<close>.
\<close>

record live_env =
  le_base64 :: "rstring \<Rightarrow> 8 word list option"
  le_registry :: registry_env
  le_number :: "json_number \<Rightarrow> rstring"
  le_quote :: "rstring \<Rightarrow> rstring + rstring"
  le_sha256 :: "rstring \<Rightarrow> rstring"

definition LIVETRANSLATE_ADAPTER_ID :: rstring where "LIVETRANSLATE_ADAPTER_ID = str ''desktop-livetranslate-session-v1''"
definition LIVETRANSLATE_DIALECT_ID :: rstring where "LIVETRANSLATE_DIALECT_ID = str ''bailian-livetranslate-session-ws-v1''"

definition payload_invalid :: "rstring \<Rightarrow> rstring" where
  "payload_invalid message = str ''model_protocol.payload_invalid: '' @ message"

definition order_invalid :: "rstring \<Rightarrow> rstring" where
  "order_invalid message = str ''model_protocol.event_order_invalid: '' @ message"

definition identity_mismatch :: "rstring \<Rightarrow> rstring" where
  "identity_mismatch message = str ''model_protocol.identity_mismatch: '' @ message"

section \<open>Accessors\<close>

definition required_string :: "json \<Rightarrow> rstring \<Rightarrow> rstring + rstring" where
  "required_string v key = ok_or (payload_invalid (key @ str '' string is required'')) (Option.bind (json_get key v) as_str)"

definition required_nonempty_string :: "json \<Rightarrow> rstring \<Rightarrow> rstring + rstring" where
  "required_nonempty_string v key =
     and_then (required_string v key) (\<lambda>x.
     reject_if (trim x = []) (payload_invalid (key @ str '' must be non-empty'')) (Inr (trim x)))"

definition required_u64 :: "json \<Rightarrow> rstring \<Rightarrow> rstring + nat" where
  "required_u64 v key = ok_or (payload_invalid (key @ str '' non-negative integer is required'')) (Option.bind (json_get key v) as_u64)"

definition required_zero_index :: "json \<Rightarrow> rstring \<Rightarrow> rstring + nat" where
  "required_zero_index v key =
     and_then (required_u64 v key) (\<lambda>n.
     reject_if (n \<noteq> 0) (payload_invalid (str ''LiveTranslate '' @ key @ str '' must be 0'')) (Inr n))"

text \<open>The variant of \<open>server_event_fields.rs\<close>, which does not trim, and that of \<open>client_event.rs\<close>.\<close>

definition nonblank_field :: "json \<Rightarrow> rstring \<Rightarrow> rstring option" where
  "nonblank_field v key =
     (case Option.bind (json_get key v) as_str of Some x \<Rightarrow> if trim x \<noteq> [] then Some x else None | None \<Rightarrow> None)"

definition required_field :: "json \<Rightarrow> rstring \<Rightarrow> rstring + rstring" where
  "required_field v key = ok_or (payload_invalid (key @ str '' is required'')) (nonblank_field v key)"

definition require_non_empty_string :: "json \<Rightarrow> rstring \<Rightarrow> rstring \<Rightarrow> rstring + rstring" where
  "require_non_empty_string v key place =
     ok_or (payload_invalid (place @ str ''.'' @ key @ str '' must be a non-empty string'')) (nonblank_field v key)"

definition reject_unknown_fields :: "(rstring \<times> json) list \<Rightarrow> rstring list \<Rightarrow> rstring \<Rightarrow> rstring + unit" where
  "reject_unknown_fields fs allowed place =
     (case find (\<lambda>key. key \<notin> set allowed) (map fst fs) of
        Some key \<Rightarrow> Inl (payload_invalid (place @ str '' contains unsupported field '' @ key))
      | None \<Rightarrow> Inr ())"

definition get_object :: "json \<Rightarrow> rstring \<Rightarrow> (rstring \<times> json) list option" where
  "get_object v key = Option.bind (json_get key v) as_object"

section \<open>Dialects\<close>

definition is_v2 :: "AuthorizedModelProtocolProfile \<Rightarrow> bool" where
  "is_v2 a \<longleftrightarrow> ap_adapter_id a = str ''desktop-livetranslate-session-v2'' \<and>
     ap_wire_dialect a = str ''bailian-livetranslate-session-ws-v2'' \<and> ap_wire_dialect_version a = 2"

definition live_supported_authority :: "AuthorizedModelProtocolProfile \<Rightarrow> bool" where
  "live_supported_authority a \<longleftrightarrow> is_v2 a \<or> ap_adapter_id a = LIVETRANSLATE_ADAPTER_ID \<and>
     ap_wire_dialect a = LIVETRANSLATE_DIALECT_ID \<and> ap_wire_dialect_version a = 1"

definition validate_audio_mode :: "AuthorizedModelProtocolProfile \<Rightarrow> rstring \<Rightarrow> rstring + unit" where
  "validate_audio_mode a mode =
     reject_if (is_v2 a \<and> mode \<noteq> str ''server_vad'')
       (payload_invalid (str ''LiveTranslate v2 only supports documented server_vad; manual/null is not supported'')) (Inr ())"

text \<open>\<open>event[k] = v\<close> on an object, whose entries are kept in the order of their keys.\<close>

definition json_put :: "rstring \<Rightarrow> json \<Rightarrow> json \<Rightarrow> json" where
  "json_put k v j = (case j of JObject fs \<Rightarrow> JObject (btree_insert k v fs) | _ \<Rightarrow> j)"

definition apply_session_dialect :: "json \<Rightarrow> AuthorizedModelProtocolProfile \<Rightarrow> json" where
  "apply_session_dialect event a =
     (if \<not> is_v2 a then event
      else let old = json_at event (str ''session'');
               turn = (if Option.bind (Option.bind (json_get (str ''turn_detection'') old) (json_get (str ''type''))) as_str = Some (str ''server_vad'')
                 then JObject [(str ''type'', JString (str ''server_vad''))] else JNull)
           in json_put (str ''session'') (JObject
                [(str ''audio'', JObject [(str ''input'', JObject [(str ''turn_detection'', turn)])]),
                 (str ''output_modalities'', json_at old (str ''modalities'')), (str ''translation'', json_at old (str ''translation''))]) event)"

section \<open>Client events\<close>

definition event_type :: "json \<Rightarrow> rstring + rstring" where
  "event_type event = ok_or (payload_invalid (str ''event type is required'')) (nonblank_field event (str ''type''))"

definition admitted_frame_kind :: "AuthorizedModelProtocolProfile \<Rightarrow> ModelProtocolEventDirection \<Rightarrow> rstring \<Rightarrow> ModelProtocolFrameKind" where
  "admitted_frame_kind a direction kind =
     (let base64_types = (case direction of ClientEvent \<Rightarrow> ap_client_json_base64_event_types a
        | ServerEvent \<Rightarrow> ap_server_json_base64_event_types a)
      in if kind \<in> set base64_types then JsonBase64Frame else JsonFrame)"

definition admit_event_type :: "live_env \<Rightarrow> AuthorizedModelProtocolProfile \<Rightarrow> ModelProtocolEventDirection \<Rightarrow> rstring \<Rightarrow> rstring + unit" where
  "admit_event_type env a direction kind =
     reject_if (\<not> live_supported_authority a)
       (str ''model_protocol.adapter_unavailable: typed LiveTranslate adapter is not authorized (adapterId='' @ ap_adapter_id a @
        str '' wireDialect='' @ ap_wire_dialect a @ str '' wireDialectVersion='' @ show_nat (ap_wire_dialect_version a) @ str '')'')
     (case registry_verdict (le_registry env) a direction kind (admitted_frame_kind a direction kind) of Some code \<Rightarrow> Inl code | None \<Rightarrow> Inr ())"

definition validate_optional_event_id :: "json \<Rightarrow> rstring \<Rightarrow> rstring + unit" where
  "validate_optional_event_id event place =
     (if json_get (str ''event_id'') event \<noteq> None
      then and_then (require_non_empty_string event (str ''event_id'') place) (\<lambda>_. Inr ()) else Inr ())"

definition text_modality :: json where "text_modality = JString (str ''text'')"
definition audio_modality :: json where "audio_modality = JString (str ''audio'')"

definition validate_modalities :: "json \<Rightarrow> rstring + bool" where
  "validate_modalities session =
     and_then (ok_or (payload_invalid (str ''session.modalities must be an array''))
       (Option.bind (json_get (str ''modalities'') session) as_array)) (\<lambda>ms.
     reject_if (ms \<noteq> [text_modality] \<and> ms \<noteq> [text_modality, audio_modality])
       (payload_invalid (str ''session.modalities must be exactly [text] or [text,audio]''))
       (Inr (ms = [text_modality, audio_modality])))"

text \<open>A JSON number is finite, so the later test for finiteness does not reject.\<close>

definition validate_turn_detection :: "json \<Rightarrow> rstring + unit" where
  "validate_turn_detection session =
     and_then (ok_or (payload_invalid (str ''session.turn_detection is required'')) (json_get (str ''turn_detection'') session)) (\<lambda>turn.
     if turn = JNull then Inr ()
     else and_then (ok_or (payload_invalid (str ''session.turn_detection must be null or an object'')) (as_object turn)) (\<lambda>fs.
       and_then (reject_unknown_fields fs [str ''type'', str ''threshold'', str ''silence_duration_ms''] (str ''session.turn_detection'')) (\<lambda>_.
       reject_if (Option.bind (json_get (str ''type'') turn) as_str \<noteq> Some (str ''server_vad''))
         (payload_invalid (str ''session.turn_detection.type must be server_vad''))
       (reject_if (\<not> is_some_and (Option.bind (json_get (str ''threshold'') turn) as_f64) (\<lambda>x. - 1 \<le> x \<and> x \<le> 1))
         (payload_invalid (str ''session.turn_detection.threshold must be within [-1,1]''))
       (reject_if (\<not> is_some_and (Option.bind (json_get (str ''silence_duration_ms'') turn) as_u64) (\<lambda>n. 200 \<le> n \<and> n \<le> 6000))
         (payload_invalid (str ''session.turn_detection.silence_duration_ms must be within [200,6000]'')) (Inr ()))))))"

definition validate_input_transcription :: "json \<Rightarrow> rstring + unit" where
  "validate_input_transcription session =
     and_then (ok_or (payload_invalid (str ''session.input_audio_transcription must be an object''))
       (get_object session (str ''input_audio_transcription''))) (\<lambda>fs.
     and_then (reject_unknown_fields fs [str ''model'', str ''language''] (str ''session.input_audio_transcription'')) (\<lambda>_.
     reject_if (Option.bind (map_of fs (str ''model'')) as_str \<noteq> Some (str ''qwen3-asr-flash-realtime''))
       (payload_invalid (str ''session.input_audio_transcription.model must be qwen3-asr-flash-realtime''))
     (and_then (require_non_empty_string (JObject fs) (str ''language'') (str ''session.input_audio_transcription'')) (\<lambda>_. Inr ()))))"

definition validate_corpus :: "json \<Rightarrow> rstring + unit" where
  "validate_corpus corpus =
     and_then (ok_or (payload_invalid (str ''session.translation.corpus must be an object'')) (as_object corpus)) (\<lambda>fs.
     and_then (reject_unknown_fields fs [str ''phrases''] (str ''session.translation.corpus'')) (\<lambda>_.
     and_then (ok_or (payload_invalid (str ''session.translation.corpus.phrases must be a non-empty object''))
       (case get_object corpus (str ''phrases'') of Some ps \<Rightarrow> if ps \<noteq> [] then Some ps else None | None \<Rightarrow> None)) (\<lambda>phrases.
     reject_if (list_ex (\<lambda>(source, target). trim source = [] \<or> \<not> is_some_and (as_str target) (\<lambda>x. trim x \<noteq> [])) phrases)
       (payload_invalid (str ''session.translation.corpus.phrases keys and values must be non-empty strings'')) (Inr ()))))"

definition validate_translation :: "json \<Rightarrow> rstring + unit" where
  "validate_translation session =
     and_then (ok_or (payload_invalid (str ''session.translation must be an object'')) (get_object session (str ''translation''))) (\<lambda>fs.
     and_then (reject_unknown_fields fs [str ''language'', str ''corpus''] (str ''session.translation'')) (\<lambda>_.
     and_then (require_non_empty_string (JObject fs) (str ''language'') (str ''session.translation'')) (\<lambda>_.
     case map_of fs (str ''corpus'') of None \<Rightarrow> Inr () | Some corpus \<Rightarrow> validate_corpus corpus)))"

definition validate_live_output :: "json \<Rightarrow> bool \<Rightarrow> rstring + unit" where
  "validate_live_output session has_audio =
     (let output_format = json_get (str ''output_audio_format'') session; voice = json_get (str ''voice'') session in
      reject_if (\<not> has_audio \<and> (output_format \<noteq> None \<or> voice \<noteq> None))
        (payload_invalid (str ''text-only modalities forbid output_audio_format and voice''))
      (reject_if (has_audio \<and> Option.bind output_format as_str \<noteq> Some (str ''pcm''))
        (payload_invalid (str ''audio modalities require output_audio_format=pcm''))
      (if has_audio \<and> voice \<noteq> None then and_then (require_non_empty_string session (str ''voice'') (str ''session'')) (\<lambda>_. Inr ()) else Inr ())))"

definition validate_v1_session_update :: "json \<Rightarrow> (rstring \<times> json) list \<Rightarrow> rstring + unit" where
  "validate_v1_session_update event fs =
     and_then (reject_unknown_fields fs [str ''type'', str ''event_id'', str ''session''] (str ''session.update'')) (\<lambda>_.
     and_then (validate_optional_event_id event (str ''session.update'')) (\<lambda>_.
     and_then (ok_or (payload_invalid (str ''LiveTranslate session.update requires session'')) (get_object event (str ''session''))) (\<lambda>session.
     and_then (reject_unknown_fields session (map str [''modalities'', ''input_audio_format'', ''sample_rate'', ''turn_detection'',
         ''input_audio_transcription'', ''translation'', ''output_audio_format'', ''voice'']) (str ''session.update.session'')) (\<lambda>_.
     reject_if (Option.bind (map_of session (str ''input_audio_format'')) as_str \<noteq> Some (str ''pcm'') \<or>
         Option.bind (map_of session (str ''sample_rate'')) as_u64 \<noteq> Some 16000)
       (payload_invalid (str ''LiveTranslate production input must be pcm at 16000 Hz''))
     (and_then (validate_modalities (JObject session)) (\<lambda>has_audio.
      and_then (validate_turn_detection (JObject session)) (\<lambda>_.
      and_then (validate_input_transcription (JObject session)) (\<lambda>_.
      and_then (validate_translation (JObject session)) (\<lambda>_. validate_live_output (JObject session) has_audio)))))))))"

definition validate_v2_turn :: "json \<Rightarrow> rstring \<Rightarrow> rstring + unit" where
  "validate_v2_turn audio wrong =
     and_then (ok_or wrong (as_object audio)) (\<lambda>afs.
     and_then (reject_unknown_fields afs [str ''input''] (str ''session.audio'')) (\<lambda>_.
     and_then (ok_or wrong (get_object audio (str ''input''))) (\<lambda>input.
     and_then (reject_unknown_fields input [str ''turn_detection''] (str ''session.audio.input'')) (\<lambda>_.
     and_then (ok_or wrong (get_object (JObject input) (str ''turn_detection''))) (\<lambda>turn.
     and_then (reject_unknown_fields turn [str ''type'', str ''threshold''] (str ''session.audio.input.turn_detection'')) (\<lambda>_.
     reject_if (Option.bind (map_of turn (str ''type'')) as_str \<noteq> Some (str ''server_vad'')) wrong
     (reject_if (is_some_and (map_of turn (str ''threshold'')) (\<lambda>t. \<not> is_some_and (as_f64 t) (\<lambda>x. 0 \<le> x \<and> x \<le> 1))) wrong (Inr ()))))))))"

definition validate_v2_session_update :: "json \<Rightarrow> rstring + unit" where
  "validate_v2_session_update event =
     (let wrong = payload_invalid (str ''invalid LiveTranslate v2 session configuration'') in
      and_then (ok_or wrong (as_object event)) (\<lambda>fs.
      and_then (reject_unknown_fields fs [str ''type'', str ''event_id'', str ''session''] (str ''session.update'')) (\<lambda>_.
      and_then (validate_optional_event_id event (str ''session.update'')) (\<lambda>_.
      and_then (ok_or wrong (as_object (json_at event (str ''session'')))) (\<lambda>session.
      and_then (reject_unknown_fields session [str ''output_modalities'', str ''translation'', str ''audio''] (str ''session'')) (\<lambda>_.
      reject_if (is_some_and (map_of session (str ''output_modalities'')) (\<lambda>v.
          v \<noteq> JArray [text_modality] \<and> v \<noteq> JArray [text_modality, audio_modality])) wrong
      (and_then (validate_translation (JObject session)) (\<lambda>_.
       case map_of session (str ''audio'') of None \<Rightarrow> Inr () | Some audio \<Rightarrow> validate_v2_turn audio wrong)))))))) "

definition validate_append :: "live_env \<Rightarrow> json \<Rightarrow> (rstring \<times> json) list \<Rightarrow> rstring \<Rightarrow> rstring + unit" where
  "validate_append env event fs kind =
     and_then (reject_unknown_fields fs [str ''type'', str ''event_id'', str ''audio''] kind) (\<lambda>_.
     and_then (validate_optional_event_id event kind) (\<lambda>_.
     and_then (require_non_empty_string event (str ''audio'') kind) (\<lambda>audio.
     reject_if (\<not> is_some_and (le_base64 env audio) (\<lambda>decoded. decoded \<noteq> []))
       (payload_invalid (str ''audio append requires valid non-empty base64'')) (Inr ()))))"

definition admit_livetranslate_client_event :: "live_env \<Rightarrow> AuthorizedModelProtocolProfile \<Rightarrow> json \<Rightarrow> rstring + unit" where
  "admit_livetranslate_client_event env a event =
     and_then (event_type event) (\<lambda>kind.
     and_then (admit_event_type env a ClientEvent kind) (\<lambda>_.
     and_then (ok_or (payload_invalid (str ''client event must be a JSON object'')) (as_object event)) (\<lambda>fs.
     if kind = str ''session.update''
     then if is_v2 a then validate_v2_session_update event else validate_v1_session_update event fs
     else if kind = str ''input_audio_buffer.append'' then validate_append env event fs kind
     else if kind = str ''input_audio_buffer.commit'' \<and> is_v2 a then Inl (payload_invalid (str ''v2 manual commit is not supported''))
     else if kind = str ''input_audio_buffer.commit'' \<or> kind = str ''input_audio_buffer.clear''
     then and_then (reject_unknown_fields fs [str ''type'', str ''event_id''] kind) (\<lambda>_. validate_optional_event_id event kind)
     else if kind = str ''session.finish''
     then and_then (reject_unknown_fields fs [str ''type'', str ''event_id''] kind) (\<lambda>_.
            and_then (require_non_empty_string event (str ''event_id'') kind) (\<lambda>_. Inr ()))
     else Inl (payload_invalid (str ''typed LiveTranslate client adapter does not implement '' @ kind)))))"

section \<open>Server events\<close>

definition native_response_id_from_event :: "json \<Rightarrow> rstring option" where
  "native_response_id_from_event event =
     (case Option.bind (or_opt (Option.bind (json_get (str ''response'') event) (json_get (str ''id''))) (json_get (str ''response_id'') event)) as_str of
        Some x \<Rightarrow> if trim x \<noteq> [] then Some (trim x) else None
      | None \<Rightarrow> None)"

definition event_response_id :: "json \<Rightarrow> rstring + rstring" where
  "event_response_id event = ok_or (payload_invalid (str ''response identity is required'')) (native_response_id_from_event event)"

definition validate_error_object :: "json \<Rightarrow> bool \<Rightarrow> rstring + unit" where
  "validate_error_object event require_type =
     and_then (ok_or (payload_invalid (str ''error object is required'')) (json_get (str ''error'') event)) (\<lambda>error.
     and_then (if require_type then required_field error (str ''type'') else Inr []) (\<lambda>_.
     and_then (required_field error (str ''code'')) (\<lambda>_.
     and_then (required_field error (str ''message'')) (\<lambda>_.
     if require_type then and_then (required_field error (str ''param'')) (\<lambda>_. Inr ())
     else reject_if (is_some_and (json_get (str ''param'') error) (\<lambda>p. p \<noteq> JNull \<and> \<not> is_string p))
       (payload_invalid (str ''optional error.param must be string or null'')) (Inr ())))))"

definition emotions :: "rstring list" where
  "emotions = map str [''surprised'', ''neutral'', ''happy'', ''sad'', ''disgusted'', ''angry'', ''fearful'']"

definition validate_language_emotion :: "json \<Rightarrow> bool \<Rightarrow> rstring + unit" where
  "validate_language_emotion event allow_empty_language =
     and_then (if allow_empty_language then required_string event (str ''language'') else required_field event (str ''language'')) (\<lambda>_.
     and_then (required_string event (str ''emotion'')) (\<lambda>emotion.
     reject_if (emotion \<noteq> [] \<and> emotion \<notin> set emotions) (payload_invalid (str ''unsupported transcription emotion'')) (Inr ())))"

text \<open>On an event that is not an object the source adds the defaults as well; every admitted event is one.\<close>

definition with_default :: "rstring \<Rightarrow> json \<Rightarrow> json" where
  "with_default key event = (if json_get key event = None then json_put key (JString []) event else event)"

definition validate_optional_transcription_metadata :: "json \<Rightarrow> rstring + unit" where
  "validate_optional_transcription_metadata event =
     validate_language_emotion (with_default (str ''emotion'') (with_default (str ''language'') event)) True"

definition snapshot_text :: "json \<Rightarrow> rstring + rstring" where
  "snapshot_text event =
     (let t = unwrap_or [] (Option.bind (json_get (str ''text'') event) as_str);
          stash = unwrap_or [] (Option.bind (json_get (str ''stash'') event) as_str)
      in reject_if (t = [] \<and> stash = []) (payload_invalid (str ''snapshot requires text or stash'')) (Inr (t @ stash)))"

type_synonym content_key = "rstring \<times> rstring \<times> nat \<times> nat"

definition response_content_identity :: "json \<Rightarrow> rstring + content_key" where
  "response_content_identity event =
     and_then (required_nonempty_string event (str ''response_id'')) (\<lambda>response.
     and_then (required_nonempty_string event (str ''item_id'')) (\<lambda>item.
     and_then (required_zero_index event (str ''output_index'')) (\<lambda>out_index.
     and_then (required_zero_index event (str ''content_index'')) (\<lambda>content_index.
       Inr (response, item, out_index, content_index)))))"

definition transcription_identity :: "json \<Rightarrow> rstring + rstring \<times> nat" where
  "transcription_identity event =
     and_then (required_nonempty_string event (str ''item_id'')) (\<lambda>item.
     and_then (required_zero_index event (str ''content_index'')) (\<lambda>n. Inr (item, n)))"

text \<open>
  The semantic type of a snapshot identity is passed by the callers, which all pass a type that ends in
  \<open>.text\<close>; the branch for types that end in \<open>.done\<close> is not taken.
\<close>

definition ASR_TEXT :: rstring where "ASR_TEXT = str ''conversation.item.input_audio_transcription.text''"

definition snapshot_identity :: "rstring \<Rightarrow> json \<Rightarrow> rstring + rstring" where
  "snapshot_identity semantic_type event =
     (if semantic_type = ASR_TEXT
      then and_then (transcription_identity event) (\<lambda>(item, n). Inr (semantic_type @ str ''|'' @ item @ str ''|'' @ show_nat n))
      else and_then (response_content_identity event) (\<lambda>(response, item, out_index, n).
        Inr (semantic_type @ str ''|'' @ response @ str ''|'' @ item @ str ''|'' @ show_nat out_index @ str ''|'' @ show_nat n)))"

definition validate_session_identity :: "AuthorizedModelProtocolProfile \<Rightarrow> json \<Rightarrow> rstring + rstring" where
  "validate_session_identity a event =
     and_then (ok_or (payload_invalid (str ''session object is required'')) (json_get (str ''session'') event)) (\<lambda>session.
     and_then (required_nonempty_string session (str ''id'')) (\<lambda>session_id.
     and_then (required_nonempty_string session (str ''object'')) (\<lambda>object.
     reject_if (object \<noteq> str ''realtime.session'') (payload_invalid (str ''session.object must be realtime.session''))
     (and_then (required_nonempty_string session (str ''model'')) (\<lambda>model.
      reject_if (model \<noteq> ap_exact_model_id a) (identity_mismatch (str ''session.model does not match authorized exact model''))
        (Inr session_id))))))"

record ValidatedResponseCreated =
  vc_response_id :: rstring
  vc_conversation_id :: rstring
  vc_status :: rstring

definition created_statuses :: "rstring list" where
  "created_statuses = map str [''completed'', ''failed'', ''in_progress'', ''incomplete'']"

definition terminal_statuses :: "rstring list" where
  "terminal_statuses = map str [''completed'', ''failed'', ''incomplete'']"

definition validate_response_created :: "json \<Rightarrow> rstring + ValidatedResponseCreated" where
  "validate_response_created event =
     and_then (ok_or (payload_invalid (str ''response object is required'')) (json_get (str ''response'') event)) (\<lambda>response.
     and_then (required_nonempty_string response (str ''id'')) (\<lambda>response_id.
     and_then (required_string response (str ''conversation_id'')) (\<lambda>conversation_id.
     and_then (required_nonempty_string response (str ''object'')) (\<lambda>object.
     reject_if (object \<noteq> str ''realtime.response'') (payload_invalid (str ''response.object must be realtime.response''))
     (and_then (required_nonempty_string response (str ''status'')) (\<lambda>status.
      reject_if (status \<notin> set created_statuses) (payload_invalid (str ''response.created status is not documented''))
      (reject_if (Option.bind (json_get (str ''modalities'') response) as_array = None)
        (payload_invalid (str ''response.created modalities array is required''))
      (reject_if (Option.bind (json_get (str ''output'') response) as_array \<noteq> Some [])
        (payload_invalid (str ''response.created output must be an empty array''))
        (Inr \<lparr>vc_response_id = response_id, vc_conversation_id = conversation_id, vc_status = status\<rparr>)))))))))"

record TerminalItemContentLedger =
  tc_content_type :: rstring
  tc_text :: rstring

record TerminalOutputItemLedger =
  to_item_id :: rstring
  to_status :: rstring
  to_role :: rstring
  to_content :: "TerminalItemContentLedger list"

definition validate_item_object :: "json \<Rightarrow> bool \<Rightarrow> rstring + rstring" where
  "validate_item_object item done =
     and_then (required_nonempty_string item (str ''id'')) (\<lambda>item_id.
     and_then (required_nonempty_string item (str ''object'')) (\<lambda>object.
     and_then (if object \<noteq> str ''realtime.item'' then Inr True
       else and_then (required_nonempty_string item (str ''type'')) (\<lambda>kind. Inr (kind \<noteq> str ''message''))) (\<lambda>wrong.
     reject_if wrong (payload_invalid (str ''item must be a realtime.item message''))
     (and_then (required_nonempty_string item (str ''status'')) (\<lambda>status.
      reject_if (\<not> done \<and> status \<noteq> str ''in_progress'' \<or> done \<and> status \<notin> set terminal_statuses)
        (order_invalid (str ''item status does not match added/done event''))
      (and_then (required_nonempty_string item (str ''role'')) (\<lambda>role.
       reject_if (role \<notin> {str ''assistant'', str ''user''} \<or> Option.bind (json_get (str ''content'') item) as_array = None)
         (payload_invalid (str ''item role/content shape is invalid'')) (Inr item_id))))))))"

definition terminal_part_text :: "rstring \<Rightarrow> json \<Rightarrow> rstring + rstring" where
  "terminal_part_text content_type part =
     (if content_type = str ''text'' then required_string part (str ''text'')
      else if content_type = str ''audio''
      then let t = Option.bind (json_get (str ''text'') part) as_str; transcript = Option.bind (json_get (str ''transcript'') part) as_str in
        reject_if (t \<noteq> None \<and> transcript \<noteq> None \<and> t \<noteq> transcript)
          (identity_mismatch (str ''audio content text and transcript differ''))
          (ok_or (payload_invalid (str ''response.done audio content requires text or transcript'')) (or_opt t transcript))
      else Inl (payload_invalid (str ''response.done output content type is unsupported'')))"

fun normalize_content :: "json list \<Rightarrow> rstring + TerminalItemContentLedger list" where
  "normalize_content [] = Inr []"
| "normalize_content (part # parts) =
     and_then (required_nonempty_string part (str ''type'')) (\<lambda>content_type.
     and_then (terminal_part_text content_type part) (\<lambda>t.
     and_then (normalize_content parts) (\<lambda>rest. Inr (\<lparr>tc_content_type = content_type, tc_text = t\<rparr> # rest))))"

definition normalize_terminal_output_item :: "json \<Rightarrow> rstring + TerminalOutputItemLedger" where
  "normalize_terminal_output_item item =
     and_then (validate_item_object item True) (\<lambda>item_id.
     and_then (required_nonempty_string item (str ''role'')) (\<lambda>role.
     reject_if (role \<noteq> str ''assistant'') (payload_invalid (str ''response.done output item role must be assistant''))
     (and_then (required_nonempty_string item (str ''status'')) (\<lambda>status.
      and_then (ok_or (payload_invalid (str ''response.done output content array is required''))
        (Option.bind (json_get (str ''content'') item) as_array)) (\<lambda>content.
      and_then (normalize_content content) (\<lambda>parts.
        Inr \<lparr>to_item_id = item_id, to_status = status, to_role = role, to_content = parts\<rparr>))))))"

record ValidatedResponseDone =
  vd_response_id :: rstring
  vd_conversation_id :: rstring
  vd_status :: rstring
  vd_output_items :: "(nat \<times> TerminalOutputItemLedger) list"

fun normalize_output :: "nat \<Rightarrow> json list \<Rightarrow> rstring + (nat \<times> TerminalOutputItemLedger) list" where
  "normalize_output n [] = Inr []"
| "normalize_output n (item # items) =
     and_then (normalize_terminal_output_item item) (\<lambda>x. and_then (normalize_output (Suc n) items) (\<lambda>rest. Inr ((n, x) # rest)))"

definition validate_response_done :: "json \<Rightarrow> rstring + ValidatedResponseDone" where
  "validate_response_done event =
     (let arrays = payload_invalid (str ''response.done modalities/output arrays are required'') in
      and_then (ok_or (payload_invalid (str ''response.done response object is required'')) (json_get (str ''response'') event)) (\<lambda>response.
      and_then (required_nonempty_string response (str ''id'')) (\<lambda>response_id.
      and_then (required_nonempty_string response (str ''conversation_id'')) (\<lambda>conversation_id.
      and_then (required_nonempty_string response (str ''object'')) (\<lambda>object.
      reject_if (object \<noteq> str ''realtime.response'') (payload_invalid (str ''response.done object must be realtime.response''))
      (and_then (required_nonempty_string response (str ''status'')) (\<lambda>status.
       reject_if (status \<notin> set terminal_statuses) (payload_invalid (str ''response.done status must be terminal''))
       (reject_if (Option.bind (json_get (str ''modalities'') response) as_array = None) arrays
       (and_then (ok_or arrays (Option.bind (json_get (str ''output'') response) as_array)) (\<lambda>out.
        reject_if (length out > 1) (payload_invalid (str ''LiveTranslate response.done output_index must remain 0''))
        (and_then (normalize_output 0 out) (\<lambda>items.
          Inr \<lparr>vd_response_id = response_id, vd_conversation_id = conversation_id, vd_status = status, vd_output_items = items\<rparr>))))))))))))"

definition validate_output_item :: "json \<Rightarrow> bool \<Rightarrow> rstring + rstring \<times> nat \<times> rstring" where
  "validate_output_item event done =
     and_then (required_nonempty_string event (str ''response_id'')) (\<lambda>response.
     and_then (required_zero_index event (str ''output_index'')) (\<lambda>out_index.
     and_then (ok_or (payload_invalid (str ''output item object is required'')) (json_get (str ''item'') event)) (\<lambda>item.
     and_then (validate_item_object item done) (\<lambda>item_id.
     and_then (required_nonempty_string item (str ''role'')) (\<lambda>role.
     reject_if (role \<noteq> str ''assistant'') (payload_invalid (str ''response output item role must be assistant''))
       (Inr (response, out_index, item_id)))))))"

definition validate_content_part :: "json \<Rightarrow> rstring + content_key \<times> rstring" where
  "validate_content_part event =
     and_then (response_content_identity event) (\<lambda>key.
     and_then (ok_or (payload_invalid (str ''content part object is required'')) (json_get (str ''part'') event)) (\<lambda>part.
     and_then (required_nonempty_string part (str ''type'')) (\<lambda>part_type.
     reject_if (part_type \<notin> {str ''text'', str ''audio''} \<or> Option.bind (json_get (str ''text'') part) as_str = None)
       (payload_invalid (str ''content part type/text shape is invalid'')) (Inr (key, part_type)))))"

definition validate_conversation_item_previous_identity :: "json \<Rightarrow> bool \<Rightarrow> rstring + unit" where
  "validate_conversation_item_previous_identity event allow_unlinked_root =
     (let previous = json_get (str ''previous_item_id'') event in
      if is_some_and (Option.bind previous as_str) (\<lambda>x. trim x \<noteq> []) then Inr ()
      else if (previous = None \<or> previous = Some JNull) \<and> allow_unlinked_root then Inr ()
      else and_then (required_nonempty_string event (str ''previous_item_id'')) (\<lambda>_. Inr ()))"

section \<open>The echo of the session\<close>

text \<open>An absent value is accepted only for a turn detection that was sent as null.\<close>

definition may_be_absent :: "rstring \<Rightarrow> json \<Rightarrow> bool" where
  "may_be_absent key expected \<longleftrightarrow> key = str ''turn_detection'' \<and> expected = JNull"

fun validate_json_echo_subset :: "json \<Rightarrow> json \<Rightarrow> rstring \<Rightarrow> rstring + unit"
  and echo_subset_fields :: "(rstring \<times> json) list \<Rightarrow> (rstring \<times> json) list \<Rightarrow> rstring \<Rightarrow> rstring + unit" where
  "validate_json_echo_subset expected observed path =
     (case expected of
        JObject es \<Rightarrow>
          (case as_object observed of
             None \<Rightarrow> Inl (identity_mismatch (path @ str '' echo is not an object''))
           | Some os \<Rightarrow> echo_subset_fields es os path)
      | _ \<Rightarrow> if expected = observed then Inr ()
             else Inl (identity_mismatch (path @ str '' does not echo the admitted client session.update'')))"
| "echo_subset_fields [] os path = Inr ()"
| "echo_subset_fields ((key, expected) # es) os path =
     (case map_of os key of
        None \<Rightarrow> if may_be_absent key expected then echo_subset_fields es os path
                else Inl (identity_mismatch (path @ str ''.'' @ key @ str '' was not echoed''))
      | Some observed \<Rightarrow> and_then (validate_json_echo_subset expected observed (path @ str ''.'' @ key)) (\<lambda>_. echo_subset_fields es os path))"

fun project_json_echo :: "json \<Rightarrow> json \<Rightarrow> rstring \<Rightarrow> rstring + json"
  and project_fields :: "(rstring \<times> json) list \<Rightarrow> (rstring \<times> json) list \<Rightarrow> rstring \<Rightarrow> rstring + (rstring \<times> json) list" where
  "project_json_echo expected observed path =
     (case expected of
        JObject es \<Rightarrow>
          (case as_object observed of
             None \<Rightarrow> Inl (identity_mismatch (path @ str '' echo is not an object''))
           | Some os \<Rightarrow> and_then (project_fields es os path) (\<lambda>ps. Inr (JObject ps)))
      | _ \<Rightarrow> Inr observed)"
| "project_fields [] os path = Inr []"
| "project_fields ((key, expected) # es) os path =
     and_then (case map_of os key of
         Some observed \<Rightarrow> Inr observed
       | None \<Rightarrow> if may_be_absent key expected then Inr expected
                 else Inl (identity_mismatch (path @ str ''.'' @ key @ str '' was not echoed''))) (\<lambda>observed.
     and_then (project_json_echo expected observed (path @ str ''.'' @ key)) (\<lambda>p.
     and_then (project_fields es os path) (\<lambda>ps. Inr ((key, p) # ps))))"

fun collect_ok :: "('e + 'a) list \<Rightarrow> 'e + 'a list" where
  "collect_ok [] = Inr []"
| "collect_ok (r # rs) = and_then r (\<lambda>x. and_then (collect_ok rs) (\<lambda>xs. Inr (x # xs)))"

definition canonical_error :: "rstring \<Rightarrow> rstring + 'a \<Rightarrow> rstring + 'a" where
  "canonical_error what r = (case r of Inl e \<Rightarrow> Inl (payload_invalid (what @ e)) | Inr x \<Rightarrow> Inr x)"

fun canonical :: "live_env \<Rightarrow> json \<Rightarrow> rstring + rstring"
  and canonical_entries :: "live_env \<Rightarrow> (rstring \<times> json) list \<Rightarrow> (rstring \<times> (rstring + rstring)) list"
  and canonical_values :: "live_env \<Rightarrow> json list \<Rightarrow> (rstring + rstring) list" where
  "canonical env v =
     (case v of
        JNull \<Rightarrow> Inr (str ''null'')
      | JBool b \<Rightarrow> Inr (show_bool b)
      | JNumber n \<Rightarrow> Inr (le_number env n)
      | JString x \<Rightarrow> canonical_error (str ''canonical string: '') (le_quote env x)
      | JArray xs \<Rightarrow> and_then (collect_ok (canonical_values env xs)) (\<lambda>parts. Inr (str ''['' @ join (str '','') parts @ str '']''))
      | JObject fs \<Rightarrow>
          and_then (collect_ok (map (\<lambda>(key, r). and_then (canonical_error (str ''canonical key: '') (le_quote env key)) (\<lambda>k.
              and_then r (\<lambda>x. Inr (k @ str '':'' @ x)))) (sort_key fst (canonical_entries env fs))))
            (\<lambda>parts. Inr (str ''{'' @ join (str '','') parts @ str ''}'')))"
| "canonical_entries env [] = []"
| "canonical_entries env ((key, v) # fs) = (key, canonical env v) # canonical_entries env fs"
| "canonical_values env [] = []"
| "canonical_values env (v # vs) = canonical env v # canonical_values env vs"

definition sha256_canonical_json :: "live_env \<Rightarrow> json \<Rightarrow> rstring + rstring" where
  "sha256_canonical_json env v = and_then (canonical env v) (\<lambda>x. Inr (le_sha256 env x))"

declare validate_json_echo_subset.simps [simp del] project_json_echo.simps [simp del] canonical.simps [simp del]

end
