(* ===== verification/Live_Translate.thy ===== *)
theory Live_Translate
  imports Live_Schema "HOL-Library.Product_Lexorder"
begin

text \<open>
  The server state of a LiveTranslate session (\<open>audio/bailian_protocol/mod.rs\<close>, \<open>session_state.rs\<close>,
  \<open>v2.rs\<close>): phases, the ledgers of open responses, output items, content parts, audio streams,
  transcriptions and speech, and the texts. Admission works on a copy that is dropped on an error, so a
  handler returns an error or the new state.
\<close>

section \<open>State\<close>

datatype LiveTranslatePhase = AwaitingSessionCreated | AwaitingSessionUpdated | LiveActive | LiveFinishing | LiveFinished

record LiveTranslateServerState =
  lt_phase :: LiveTranslatePhase
  lt_expected_session_update :: "json option"
  lt_session_id :: "rstring option"
  lt_seen_event_ids :: "rstring set"
  lt_active_responses :: "rstring set"
  lt_response_creation_status :: "(rstring \<times> rstring) list"
  lt_response_conversation_ids :: "(rstring \<times> rstring) list"
  lt_active_output_items :: "((rstring \<times> nat) \<times> rstring) list"
  lt_completed_output_items :: "((rstring \<times> nat) \<times> TerminalOutputItemLedger) list"
  lt_active_content_parts :: "(content_key \<times> rstring) list"
  lt_active_audio_streams :: "content_key set"
  lt_completed_audio_streams :: "content_key set"
  lt_conversation_items :: "rstring set"
  lt_assistant_referenced_conversation_items :: "rstring set"
  lt_active_transcriptions :: "(rstring \<times> nat) set"
  lt_terminal_transcriptions :: "(rstring \<times> nat) set"
  lt_active_speech_items :: "(rstring \<times> nat) list"
  lt_declared_speech_items :: "rstring set"
  lt_snapshots :: "(rstring \<times> rstring) list"
  lt_v2_terminal_text :: "rstring set"
  lt_committed_by_response :: "(rstring \<times> rstring) list"

definition live_default :: LiveTranslateServerState where
  "live_default = \<lparr>lt_phase = AwaitingSessionCreated, lt_expected_session_update = None, lt_session_id = None, lt_seen_event_ids = {},
     lt_active_responses = {}, lt_response_creation_status = [], lt_response_conversation_ids = [], lt_active_output_items = [],
     lt_completed_output_items = [], lt_active_content_parts = [], lt_active_audio_streams = {}, lt_completed_audio_streams = {},
     lt_conversation_items = {}, lt_assistant_referenced_conversation_items = {}, lt_active_transcriptions = {},
     lt_terminal_transcriptions = {}, lt_active_speech_items = [], lt_declared_speech_items = {}, lt_snapshots = [],
     lt_v2_terminal_text = {}, lt_committed_by_response = []\<rparr>"

type_synonym live_result = "rstring + LiveTranslateServerMutation \<times> LiveTranslateServerState"

definition live_reset :: "LiveTranslateServerState \<Rightarrow> LiveTranslateServerState" where
  "live_reset s = live_default"

definition live_record_session_update ::
  "live_env \<Rightarrow> AuthorizedModelProtocolProfile \<Rightarrow> json \<Rightarrow> LiveTranslateServerState \<Rightarrow> rstring + LiveTranslateServerState" where
  "live_record_session_update env a event s =
     and_then (admit_livetranslate_client_event env a event) (\<lambda>_.
     reject_if (lt_phase s \<noteq> AwaitingSessionCreated \<or> lt_session_id s \<noteq> None \<or> lt_expected_session_update s \<noteq> None)
       (order_invalid (str ''client session.update must be bound once before session.created''))
     (and_then (ok_or (payload_invalid (str ''LiveTranslate session.update requires session'')) (json_get (str ''session'') event)) (\<lambda>session.
       Inr (s\<lparr>lt_expected_session_update := Some session\<rparr>))))"

definition record_client_finish :: "LiveTranslateServerState \<Rightarrow> rstring + LiveTranslateServerState" where
  "record_client_finish s =
     reject_if (lt_phase s \<noteq> LiveActive) (order_invalid (str ''session.finish requires one active session''))
       (Inr (s\<lparr>lt_phase := LiveFinishing\<rparr>))"

section \<open>Guards\<close>

definition require_active :: "rstring \<Rightarrow> LiveTranslateServerState \<Rightarrow> rstring + unit" where
  "require_active kind s =
     reject_if (lt_phase s \<notin> {LiveActive, LiveFinishing}) (order_invalid (kind @ str '' is forbidden before session.updated'')) (Inr ())"

definition require_active_response :: "rstring \<Rightarrow> LiveTranslateServerState \<Rightarrow> rstring + unit" where
  "require_active_response q s =
     reject_if (q \<notin> lt_active_responses s) (identity_mismatch (str ''response event has no matching response.created'')) (Inr ())"

definition require_streaming_response :: "rstring \<Rightarrow> LiveTranslateServerState \<Rightarrow> rstring + unit" where
  "require_streaming_response q s =
     and_then (require_active_response q s) (\<lambda>_.
     reject_if (map_of (lt_response_creation_status s) q \<noteq> Some (str ''in_progress''))
       (order_invalid (str ''terminal response.created cannot admit streaming child events'')) (Inr ()))"

definition require_output_identity :: "content_key \<Rightarrow> LiveTranslateServerState \<Rightarrow> rstring + unit" where
  "require_output_identity key s =
     (case key of (q, item, out_index, n) \<Rightarrow>
        and_then (require_streaming_response q s) (\<lambda>_.
        reject_if (map_of (lt_active_output_items s) (q, out_index) \<noteq> Some item)
          (identity_mismatch (str ''content/audio identity does not match an active output item/index'')) (Inr ())))"

definition require_content_identity :: "json \<Rightarrow> rstring \<Rightarrow> LiveTranslateServerState \<Rightarrow> rstring + unit" where
  "require_content_identity event expected_type s =
     and_then (response_content_identity event) (\<lambda>key.
     and_then (require_output_identity key s) (\<lambda>_.
     reject_if (map_of (lt_active_content_parts s) key \<noteq> Some expected_type)
       (identity_mismatch (str ''response content identity/type has no matching active content part'')) (Inr ())))"

definition require_conversation_item :: "rstring \<Rightarrow> LiveTranslateServerState \<Rightarrow> rstring + unit" where
  "require_conversation_item item s =
     reject_if (item \<notin> lt_conversation_items s)
       (identity_mismatch (str ''transcription references an unknown conversation item'')) (Inr ())"

definition has_active_response_children :: "rstring \<Rightarrow> LiveTranslateServerState \<Rightarrow> bool" where
  "has_active_response_children q s \<longleftrightarrow>
     list_ex (\<lambda>((r, _), _). r = q) (lt_active_output_items s) \<or> list_ex (\<lambda>((r, _), _). r = q) (lt_active_content_parts s) \<or>
     (\<exists>key \<in> lt_active_audio_streams s. fst key = q)"

section \<open>Session events\<close>

definition session_created :: "AuthorizedModelProtocolProfile \<Rightarrow> json \<Rightarrow> LiveTranslateServerState \<Rightarrow> live_result" where
  "session_created a event s =
     reject_if (lt_phase s \<noteq> AwaitingSessionCreated) (order_invalid (str ''duplicate or late session.created''))
     (and_then (validate_session_identity a event) (\<lambda>session_id.
       Inr (no_mutation, s\<lparr>lt_session_id := Some session_id, lt_phase := AwaitingSessionUpdated\<rparr>)))"

definition updated_evidence :: "live_env \<Rightarrow> rstring \<Rightarrow> json \<Rightarrow> json \<Rightarrow> rstring + LiveTranslateSessionUpdatedEvidence" where
  "updated_evidence env received expected observed =
     and_then (validate_json_echo_subset expected observed (str ''session'')) (\<lambda>_.
     and_then (project_json_echo expected observed (str ''session'')) (\<lambda>echoed.
     and_then (sha256_canonical_json env expected) (\<lambda>sent_sha.
     and_then (sha256_canonical_json env echoed) (\<lambda>echoed_sha.
     reject_if (sent_sha \<noteq> echoed_sha)
       (identity_mismatch (str ''session.updated projected echo digest differs from the exact sent configuration''))
       (Inr \<lparr>lv_session_identity_sha256 = le_sha256 env received, lv_sent_session_config_sha256 = sent_sha,
             lv_echoed_session_config_sha256 = echoed_sha\<rparr>)))))"

definition session_updated :: "live_env \<Rightarrow> AuthorizedModelProtocolProfile \<Rightarrow> json \<Rightarrow> LiveTranslateServerState \<Rightarrow> live_result" where
  "session_updated env a event s =
     reject_if (lt_phase s \<noteq> AwaitingSessionUpdated) (order_invalid (str ''session.updated must follow session.created''))
     (and_then (validate_session_identity a event) (\<lambda>received.
      reject_if (lt_session_id s \<noteq> Some received) (identity_mismatch (str ''session.updated changed session identity''))
      (and_then (ok_or (order_invalid (str ''session.updated has no admitted client session.update boundary''))
        (lt_expected_session_update s)) (\<lambda>expected.
       and_then (ok_or (payload_invalid (str ''session object is required'')) (json_get (str ''session'') event)) (\<lambda>observed.
       and_then (updated_evidence env received expected observed) (\<lambda>evidence.
         Inr (no_mutation\<lparr>lm_session_updated := Some evidence\<rparr>, s\<lparr>lt_phase := LiveActive\<rparr>)))))))"

definition nothing_open :: "LiveTranslateServerState \<Rightarrow> bool" where
  "nothing_open s \<longleftrightarrow> lt_active_responses s = {} \<and> lt_active_output_items s = [] \<and> lt_completed_output_items s = [] \<and>
     lt_active_content_parts s = [] \<and> lt_active_audio_streams s = {} \<and> lt_active_transcriptions s = {} \<and> lt_active_speech_items s = []"

definition live_session_finished :: "LiveTranslateServerState \<Rightarrow> live_result" where
  "live_session_finished s =
     reject_if (lt_phase s \<noteq> LiveFinishing) (order_invalid (str ''session.finished must follow the admitted local session.finish''))
     (reject_if (\<not> nothing_open s)
       (order_invalid (str ''session.finished arrived before every active response and media stream terminated''))
       (Inr (no_mutation\<lparr>lm_session_finished := True\<rparr>, s\<lparr>lt_phase := LiveFinished\<rparr>)))"

definition admit_session_event ::
  "live_env \<Rightarrow> AuthorizedModelProtocolProfile \<Rightarrow> rstring \<Rightarrow> json \<Rightarrow> LiveTranslateServerState \<Rightarrow> live_result" where
  "admit_session_event env a kind event s =
     (if kind = str ''session.created'' then session_created a event s
      else if kind = str ''session.updated'' then session_updated env a event s
      else if kind = str ''session.finished'' then live_session_finished s
      else Inl (payload_invalid (str ''typed LiveTranslate session adapter does not implement '' @ kind)))"

section \<open>Responses\<close>

definition silently :: "rstring + LiveTranslateServerState \<Rightarrow> live_result" where
  "silently r = and_then r (\<lambda>s. Inr (no_mutation, s))"

definition live_response_created :: "json \<Rightarrow> LiveTranslateServerState \<Rightarrow> rstring + LiveTranslateServerState" where
  "live_response_created event s =
     and_then (validate_response_created event) (\<lambda>v.
     reject_if (vc_response_id v \<in> lt_active_responses s) (order_invalid (str ''duplicate response.created identity''))
       (Inr (s\<lparr>lt_active_responses := insert (vc_response_id v) (lt_active_responses s),
               lt_response_creation_status := btree_insert (vc_response_id v) (vc_status v) (lt_response_creation_status s),
               lt_response_conversation_ids := btree_insert (vc_response_id v) (vc_conversation_id v) (lt_response_conversation_ids s)\<rparr>)))"

definition output_item_added :: "json \<Rightarrow> LiveTranslateServerState \<Rightarrow> rstring + LiveTranslateServerState" where
  "output_item_added event s =
     and_then (validate_output_item event False) (\<lambda>(q, n, item).
     and_then (require_streaming_response q s) (\<lambda>_.
     reject_if (map_of (lt_active_output_items s) (q, n) \<noteq> None) (order_invalid (str ''duplicate active response output index''))
       (Inr (s\<lparr>lt_active_output_items := btree_insert (q, n) item (lt_active_output_items s)\<rparr>))))"

definition output_still_open :: "rstring \<Rightarrow> nat \<Rightarrow> LiveTranslateServerState \<Rightarrow> bool" where
  "output_still_open q n s \<longleftrightarrow>
     list_ex (\<lambda>((r, _, m, _), _). r = q \<and> m = n) (lt_active_content_parts s) \<or>
     (\<exists>(r, _, m, _) \<in> lt_active_audio_streams s. r = q \<and> m = n)"

definition output_item_done :: "json \<Rightarrow> LiveTranslateServerState \<Rightarrow> rstring + LiveTranslateServerState" where
  "output_item_done event s =
     and_then (validate_output_item event True) (\<lambda>(q, n, item).
     and_then (require_streaming_response q s) (\<lambda>_.
     reject_if (map_of (lt_active_output_items s) (q, n) \<noteq> Some item)
       (identity_mismatch (str ''output_item.done has no matching added item/index''))
     (reject_if (output_still_open q n s) (order_invalid (str ''output_item.done preceded content/audio termination''))
     (and_then (normalize_terminal_output_item (json_at event (str ''item''))) (\<lambda>ledger.
       Inr (s\<lparr>lt_active_output_items := btree_remove (q, n) (lt_active_output_items s),
               lt_completed_output_items := btree_insert (q, n) ledger (lt_completed_output_items s)\<rparr>))))))"

definition content_part_added :: "json \<Rightarrow> LiveTranslateServerState \<Rightarrow> rstring + LiveTranslateServerState" where
  "content_part_added event s =
     and_then (validate_content_part event) (\<lambda>(key, part_type).
     and_then (require_output_identity key s) (\<lambda>_.
     reject_if (part_type = str ''audio'' \<and> key \<in> lt_completed_audio_streams s)
       (order_invalid (str ''completed audio content cannot be reopened''))
     (reject_if (map_of (lt_active_content_parts s) key \<noteq> None) (order_invalid (str ''duplicate active response content index''))
       (Inr (s\<lparr>lt_active_content_parts := btree_insert key part_type (lt_active_content_parts s),
               lt_active_audio_streams := (if part_type = str ''audio'' then insert key (lt_active_audio_streams s)
                 else lt_active_audio_streams s)\<rparr>)))))"

definition content_part_done :: "json \<Rightarrow> LiveTranslateServerState \<Rightarrow> rstring + LiveTranslateServerState" where
  "content_part_done event s =
     and_then (validate_content_part event) (\<lambda>(key, part_type).
     and_then (require_output_identity key s) (\<lambda>_.
     reject_if (map_of (lt_active_content_parts s) key \<noteq> Some part_type)
       (identity_mismatch (str ''content_part.done has no matching added part/index''))
     (reject_if (key \<in> lt_active_audio_streams s) (order_invalid (str ''content_part.done preceded audio.done''))
       (Inr (s\<lparr>lt_active_content_parts := btree_remove key (lt_active_content_parts s)\<rparr>)))))"

definition says :: "rstring \<Rightarrow> LiveTranslateServerMutation" where
  "says x = no_mutation\<lparr>lm_normalized_text := Some x\<rparr>"

definition part_type_of :: "bool \<Rightarrow> rstring" where
  "part_type_of is_text = (if is_text then str ''text'' else str ''audio'')"

definition snapshot_type_of :: "bool \<Rightarrow> rstring" where
  "snapshot_type_of is_text = (if is_text then str ''response.text.text'' else str ''response.audio_transcript.text'')"

definition admit_v2_text_delta :: "bool \<Rightarrow> json \<Rightarrow> LiveTranslateServerState \<Rightarrow> live_result" where
  "admit_v2_text_delta is_text event s =
     and_then (event_response_id event) (\<lambda>q.
     and_then (require_active_response q s) (\<lambda>_.
     and_then (require_content_identity event (part_type_of is_text) s) (\<lambda>_.
     and_then (snapshot_identity (snapshot_type_of is_text) event) (\<lambda>identity.
     reject_if (identity \<in> lt_v2_terminal_text s) (order_invalid (str ''text delta after terminal''))
     (and_then (required_string event (str ''delta'')) (\<lambda>delta.
      let t = unwrap_or [] (map_of (lt_snapshots s) identity) @ delta
      in Inr (says t, s\<lparr>lt_snapshots := btree_insert identity t (lt_snapshots s)\<rparr>)))))))"

definition text_snapshot :: "bool \<Rightarrow> json \<Rightarrow> LiveTranslateServerState \<Rightarrow> live_result" where
  "text_snapshot is_text event s =
     and_then (snapshot_identity (snapshot_type_of is_text) event) (\<lambda>identity.
     and_then (event_response_id event) (\<lambda>q.
     and_then (require_active_response q s) (\<lambda>_.
     and_then (require_content_identity event (part_type_of is_text) s) (\<lambda>_.
     and_then (snapshot_text event) (\<lambda>t.
       Inr (says t, s\<lparr>lt_snapshots := btree_insert identity t (lt_snapshots s)\<rparr>))))))"

definition final_field :: "bool \<Rightarrow> rstring" where
  "final_field is_text = (if is_text then str ''text'' else str ''transcript'')"

definition text_done :: "AuthorizedModelProtocolProfile \<Rightarrow> bool \<Rightarrow> json \<Rightarrow> LiveTranslateServerState \<Rightarrow> live_result" where
  "text_done a is_text event s =
     and_then (snapshot_identity (snapshot_type_of is_text) event) (\<lambda>identity.
     and_then (event_response_id event) (\<lambda>q.
     and_then (require_active_response q s) (\<lambda>_.
     and_then (require_content_identity event (part_type_of is_text) s) (\<lambda>_.
     reject_if (is_v2 a \<and> identity \<in> lt_v2_terminal_text s) (order_invalid (str ''duplicate text terminal''))
     (reject_if (is_v2 a \<and> is_some_and (json_get (final_field is_text) event) (\<lambda>v. \<not> is_string v))
       (payload_invalid (str ''final text must be a string''))
     (and_then (ok_or (payload_invalid (str ''translated text done has no matching snapshot or text''))
       (or_opt (Option.bind (json_get (final_field is_text) event) as_str) (map_of (lt_snapshots s) identity))) (\<lambda>t.
       Inr (says t, s\<lparr>lt_v2_terminal_text := (if is_v2 a then insert identity (lt_v2_terminal_text s) else lt_v2_terminal_text s),
         lt_committed_by_response := btree_insert q t (lt_committed_by_response s)\<rparr>)))))))) "

definition completed_items :: "rstring \<Rightarrow> LiveTranslateServerState \<Rightarrow> (nat \<times> TerminalOutputItemLedger) list" where
  "completed_items q s = map (\<lambda>((_, n), item). (n, item)) (filter (\<lambda>((r, _), _). r = q) (lt_completed_output_items s))"

definition forget_response :: "rstring \<Rightarrow> LiveTranslateServerState \<Rightarrow> LiveTranslateServerState" where
  "forget_response q s = s\<lparr>lt_active_responses := lt_active_responses s - {q},
     lt_response_creation_status := btree_remove q (lt_response_creation_status s),
     lt_response_conversation_ids := btree_remove q (lt_response_conversation_ids s),
     lt_completed_output_items := filter (\<lambda>((r, _), _). r \<noteq> q) (lt_completed_output_items s),
     lt_committed_by_response := btree_remove q (lt_committed_by_response s)\<rparr>"

definition admit_response_done :: "json \<Rightarrow> LiveTranslateServerState \<Rightarrow> live_result" where
  "admit_response_done event s =
     and_then (validate_response_done event) (\<lambda>v.
     let q = vd_response_id v in
     reject_if (q \<notin> lt_active_responses s) (identity_mismatch (str ''response.done has no matching response.created''))
     (reject_if (has_active_response_children q s) (order_invalid (str ''response.done preceded output/content/audio termination''))
     (and_then (ok_or (identity_mismatch (str ''response.done has no response.created status''))
       (map_of (lt_response_creation_status s) q)) (\<lambda>created_status.
      and_then (ok_or (identity_mismatch (str ''response.done has no response.created conversation identity''))
        (map_of (lt_response_conversation_ids s) q)) (\<lambda>created_conversation.
      reject_if (created_conversation \<noteq> [] \<and> created_conversation \<noteq> vd_conversation_id v)
        (identity_mismatch (str ''response.done changed conversation identity''))
      (reject_if (created_status \<noteq> str ''in_progress'' \<and> created_status \<noteq> vd_status v)
        (identity_mismatch (str ''terminal response.created and response.done status differ''))
      (reject_if (completed_items q s \<noteq> vd_output_items v)
        (identity_mismatch (str ''response.done output does not match completed output-item identities''))
      (reject_if (vd_status v = str ''completed'' \<and> list_ex (\<lambda>(_, item). to_status item \<noteq> str ''completed'') (vd_output_items v))
        (identity_mismatch (str ''completed response and output-item terminal status differ''))
        (Inr (no_mutation\<lparr>lm_completed_response_text :=
                  (if vd_status v = str ''completed'' then map_of (lt_committed_by_response s) q else None),
                lm_response_completed := (vd_status v = str ''completed''), lm_response_terminal_status := Some (vd_status v)\<rparr>,
              forget_response q s)))))))))) "

section \<open>Conversation, audio and speech\<close>

definition admit_v2_asr_delta :: "json \<Rightarrow> LiveTranslateServerState \<Rightarrow> live_result" where
  "admit_v2_asr_delta event s =
     and_then (transcription_identity event) (\<lambda>t.
     and_then (require_conversation_item (fst t) s) (\<lambda>_.
     reject_if (t \<in> lt_terminal_transcriptions s) (order_invalid (str ''transcription delta after terminal''))
     (and_then (validate_optional_transcription_metadata event) (\<lambda>_.
      and_then (snapshot_identity ASR_TEXT event) (\<lambda>identity.
      and_then (required_string event (str ''delta'')) (\<lambda>delta.
      let x = unwrap_or [] (map_of (lt_snapshots s) identity) @ delta
      in Inr (says x, s\<lparr>lt_active_transcriptions := insert t (lt_active_transcriptions s),
           lt_snapshots := btree_insert identity x (lt_snapshots s)\<rparr>)))))))"

definition transcription_text :: "json \<Rightarrow> LiveTranslateServerState \<Rightarrow> live_result" where
  "transcription_text event s =
     and_then (snapshot_identity ASR_TEXT event) (\<lambda>identity.
     and_then (transcription_identity event) (\<lambda>t.
     and_then (require_conversation_item (fst t) s) (\<lambda>_.
     reject_if (t \<in> lt_terminal_transcriptions s) (order_invalid (str ''transcription text arrived after terminal event''))
     (and_then (validate_language_emotion event False) (\<lambda>_.
      and_then (snapshot_text event) (\<lambda>x.
        Inr (says x, s\<lparr>lt_active_transcriptions := insert t (lt_active_transcriptions s),
           lt_snapshots := btree_insert identity x (lt_snapshots s)\<rparr>)))))))"

definition end_transcription :: "rstring \<times> nat \<Rightarrow> LiveTranslateServerState \<Rightarrow> rstring + LiveTranslateServerState" where
  "end_transcription t s =
     reject_if (t \<in> lt_terminal_transcriptions s) (order_invalid (str ''duplicate transcription terminal event''))
       (Inr (s\<lparr>lt_active_transcriptions := lt_active_transcriptions s - {t},
               lt_terminal_transcriptions := insert t (lt_terminal_transcriptions s)\<rparr>))"

definition transcription_completed :: "AuthorizedModelProtocolProfile \<Rightarrow> json \<Rightarrow> LiveTranslateServerState \<Rightarrow> rstring + LiveTranslateServerState" where
  "transcription_completed a event s =
     and_then (transcription_identity event) (\<lambda>t.
     and_then (require_conversation_item (fst t) s) (\<lambda>_.
     and_then (required_string event (str ''transcript'')) (\<lambda>_.
     and_then (if is_v2 a then validate_optional_transcription_metadata event else validate_language_emotion event True) (\<lambda>_.
     end_transcription t s))))"

definition transcription_failed :: "json \<Rightarrow> LiveTranslateServerState \<Rightarrow> rstring + LiveTranslateServerState" where
  "transcription_failed event s =
     and_then (transcription_identity event) (\<lambda>t.
     and_then (require_conversation_item (fst t) s) (\<lambda>_.
     and_then (validate_error_object event False) (\<lambda>_. end_transcription t s)))"

definition has_input_audio_source_part :: "json \<Rightarrow> bool" where
  "has_input_audio_source_part item \<longleftrightarrow> is_some_and (Option.bind (json_get (str ''content'') item) as_array)
     (list_ex (\<lambda>part. Option.bind (json_get (str ''type'') part) as_str = Some (str ''input_audio'')))"

definition conversation_item_created :: "json \<Rightarrow> LiveTranslateServerState \<Rightarrow> rstring + LiveTranslateServerState" where
  "conversation_item_created event s =
     and_then (ok_or (payload_invalid (str ''conversation item object is required'')) (json_get (str ''item'') event)) (\<lambda>item.
     and_then (validate_item_object item False) (\<lambda>item_id.
     and_then (required_nonempty_string item (str ''role'')) (\<lambda>role.
     and_then (validate_conversation_item_previous_identity event (has_input_audio_source_part item \<and>
         (item_id \<in> lt_declared_speech_items s \<or> item_id \<in> lt_assistant_referenced_conversation_items s))) (\<lambda>_.
     reject_if (item_id \<in> lt_conversation_items s) (order_invalid (str ''duplicate conversation item identity''))
       (Inr (s\<lparr>lt_conversation_items := insert item_id (lt_conversation_items s),
               lt_assistant_referenced_conversation_items :=
                 (case nonblank_field event (str ''previous_item_id'') of
                    Some previous \<Rightarrow> if role = str ''assistant'' then insert previous (lt_assistant_referenced_conversation_items s)
                                     else lt_assistant_referenced_conversation_items s
                  | None \<Rightarrow> lt_assistant_referenced_conversation_items s)\<rparr>))))))"

definition audio_delta :: "live_env \<Rightarrow> json \<Rightarrow> LiveTranslateServerState \<Rightarrow> rstring + LiveTranslateServerState" where
  "audio_delta env event s =
     and_then (response_content_identity event) (\<lambda>key.
     and_then (require_active_response (fst key) s) (\<lambda>_.
     and_then (require_content_identity event (str ''audio'') s) (\<lambda>_.
     and_then (required_nonempty_string event (str ''delta'')) (\<lambda>delta.
     reject_if (\<not> is_some_and (le_base64 env delta) (\<lambda>decoded. decoded \<noteq> []))
       (payload_invalid (str ''response.audio.delta must contain non-empty standard base64 audio''))
     (reject_if (key \<in> lt_completed_audio_streams s) (order_invalid (str ''audio delta arrived after audio.done''))
     (reject_if (key \<notin> lt_active_audio_streams s)
       (order_invalid (str ''response.audio.delta has no matching active audio content'')) (Inr s)))))))"

definition audio_done :: "json \<Rightarrow> LiveTranslateServerState \<Rightarrow> rstring + LiveTranslateServerState" where
  "audio_done event s =
     and_then (response_content_identity event) (\<lambda>key.
     and_then (require_active_response (fst key) s) (\<lambda>_.
     and_then (require_content_identity event (str ''audio'') s) (\<lambda>_.
     reject_if (key \<notin> lt_active_audio_streams s)
       (order_invalid (str ''response.audio.done has no matching active audio stream''))
       (Inr (s\<lparr>lt_active_audio_streams := lt_active_audio_streams s - {key},
               lt_completed_audio_streams := insert key (lt_completed_audio_streams s)\<rparr>)))))"

definition speech_started :: "json \<Rightarrow> LiveTranslateServerState \<Rightarrow> rstring + LiveTranslateServerState" where
  "speech_started event s =
     and_then (required_nonempty_string event (str ''item_id'')) (\<lambda>item.
     and_then (required_u64 event (str ''audio_start_ms'')) (\<lambda>start.
     reject_if (map_of (lt_active_speech_items s) item \<noteq> None) (order_invalid (str ''duplicate speech_started item''))
       (Inr (s\<lparr>lt_active_speech_items := btree_insert item start (lt_active_speech_items s),
               lt_declared_speech_items := insert item (lt_declared_speech_items s)\<rparr>))))"

definition speech_stopped :: "json \<Rightarrow> LiveTranslateServerState \<Rightarrow> rstring + LiveTranslateServerState" where
  "speech_stopped event s =
     and_then (required_nonempty_string event (str ''item_id'')) (\<lambda>item.
     and_then (required_u64 event (str ''audio_end_ms'')) (\<lambda>end_ms.
     and_then (ok_or (order_invalid (str ''speech_stopped has no matching speech_started item''))
       (map_of (lt_active_speech_items s) item)) (\<lambda>start.
     reject_if (end_ms < start) (payload_invalid (str ''speech stop precedes start''))
       (Inr (s\<lparr>lt_active_speech_items := btree_remove item (lt_active_speech_items s)\<rparr>)))))"

section \<open>Admission\<close>

text \<open>The arms of the match that start with \<open>require_active\<close>; \<open>v2\<close> guards the delta arms.\<close>

definition active_event ::
  "live_env \<Rightarrow> AuthorizedModelProtocolProfile \<Rightarrow> rstring \<Rightarrow> json \<Rightarrow> LiveTranslateServerState \<Rightarrow> live_result option" where
  "active_event env a kind event s =
     (if kind = str ''response.created'' then Some (silently (live_response_created event s))
      else if kind = str ''response.output_item.added'' then Some (silently (output_item_added event s))
      else if kind = str ''response.output_item.done'' then Some (silently (output_item_done event s))
      else if kind = str ''response.content_part.added'' then Some (silently (content_part_added event s))
      else if kind = str ''response.content_part.done'' then Some (silently (content_part_done event s))
      else if kind = str ''response.text.delta'' \<and> is_v2 a then Some (admit_v2_text_delta True event s)
      else if kind = str ''response.audio_transcript.delta'' \<and> is_v2 a then Some (admit_v2_text_delta False event s)
      else if kind = str ''response.text.text'' then Some (text_snapshot True event s)
      else if kind = str ''response.audio_transcript.text'' then Some (text_snapshot False event s)
      else if kind = str ''response.text.done'' then Some (text_done a True event s)
      else if kind = str ''response.audio_transcript.done'' then Some (text_done a False event s)
      else if kind = str ''response.done'' then Some (admit_response_done event s)
      else if kind = str ''conversation.item.input_audio_transcription.delta'' \<and> is_v2 a then Some (admit_v2_asr_delta event s)
      else if kind = ASR_TEXT then Some (transcription_text event s)
      else if kind = str ''conversation.item.input_audio_transcription.completed'' then Some (silently (transcription_completed a event s))
      else if kind = str ''conversation.item.input_audio_transcription.failed'' then Some (silently (transcription_failed event s))
      else if kind = str ''conversation.item.created'' then Some (silently (conversation_item_created event s))
      else if kind = str ''response.audio.delta'' then Some (silently (audio_delta env event s))
      else if kind = str ''response.audio.done'' then Some (silently (audio_done event s))
      else if kind = str ''input_audio_buffer.speech_started'' then Some (silently (speech_started event s))
      else if kind = str ''input_audio_buffer.speech_stopped'' then Some (silently (speech_stopped event s))
      else if kind = str ''input_audio_buffer.committed'' \<or> kind = str ''input_audio_buffer.cleared'' then Some (Inr (no_mutation, s))
      else None)"

definition admit_server_event ::
  "live_env \<Rightarrow> AuthorizedModelProtocolProfile \<Rightarrow> rstring \<Rightarrow> json \<Rightarrow> LiveTranslateServerState \<Rightarrow> live_result" where
  "admit_server_event env a kind event s =
     (case active_event env a kind event s of
        Some r \<Rightarrow> and_then (require_active kind s) (\<lambda>_. r)
      | None \<Rightarrow>
          if kind = str ''error''
          then reject_if (lt_phase s = AwaitingSessionCreated) (order_invalid (str ''error arrived before session.created''))
            (and_then (validate_error_object event True) (\<lambda>_. Inr (no_mutation, s)))
          else Inl (payload_invalid (str ''typed LiveTranslate server adapter does not implement '' @ kind)))"

definition live_admit :: "live_env \<Rightarrow> AuthorizedModelProtocolProfile \<Rightarrow> json \<Rightarrow> LiveTranslateServerState \<Rightarrow> live_result" where
  "live_admit env a event s =
     and_then (event_type event) (\<lambda>kind.
     and_then (admit_event_type env a ServerEvent kind) (\<lambda>_.
     reject_if (lt_phase s = LiveFinished) (order_invalid (str ''event received after session.finished''))
     (and_then (required_nonempty_string event (str ''event_id'')) (\<lambda>event_id.
      reject_if (event_id \<in> lt_seen_event_ids s) (order_invalid (str ''duplicate server event_id''))
      (let s = s\<lparr>lt_seen_event_ids := insert event_id (lt_seen_event_ids s)\<rparr> in
       if starts_with kind (str ''session.'') then admit_session_event env a kind event s
       else admit_server_event env a kind event s)))))"

end
