(* ===== verification/Live_Run.thy ===== *)
theory Live_Run
  imports Live_Translate
begin

text \<open>
  Runs of a LiveTranslate session: every sequence of server events, client updates, the local finish
  and reconnects. The ledgers nest, and the texts of a response follow a small protocol that the session
  refines.
\<close>

declare str_def [simp del]

section \<open>Runs\<close>

datatype live_op =
    LiveFrame AuthorizedModelProtocolProfile json
  | LiveUpdate AuthorizedModelProtocolProfile json
  | LiveFinish
  | LiveReset

definition kept_on_error :: "'s \<Rightarrow> 'e + 's \<Rightarrow> 's" where
  "kept_on_error s r = (case r of Inl _ \<Rightarrow> s | Inr t \<Rightarrow> t)"

fun live_step :: "live_env \<Rightarrow> LiveTranslateServerState \<Rightarrow> live_op \<Rightarrow> LiveTranslateServerState" where
  "live_step env s (LiveFrame a event) = kept_on_error s (and_then (live_admit env a event s) (\<lambda>(_, t). Inr t))"
| "live_step env s (LiveUpdate a event) = kept_on_error s (live_record_session_update env a event s)"
| "live_step env s LiveFinish = kept_on_error s (record_client_finish s)"
| "live_step env s LiveReset = live_reset s"

section \<open>The invariant\<close>

text \<open>Every open response has a status and a conversation, and only open responses have a text.\<close>

definition responses_ok :: "rstring set \<Rightarrow> (rstring \<Rightarrow> rstring option) \<Rightarrow> (rstring \<Rightarrow> rstring option) \<Rightarrow> (rstring \<Rightarrow> rstring option) \<Rightarrow> bool" where
  "responses_ok active status conversation committed \<longleftrightarrow> dom status = active \<and> dom conversation = active \<and> dom committed \<subseteq> active"

text \<open>Open items belong to streaming responses, finished ones to open responses.\<close>

definition items_ok :: "(rstring \<Rightarrow> rstring option) \<Rightarrow> (rstring \<times> nat \<Rightarrow> rstring option) \<Rightarrow>
    (rstring \<times> nat \<Rightarrow> TerminalOutputItemLedger option) \<Rightarrow> rstring set \<Rightarrow> bool" where
  "items_ok status items finished active \<longleftrightarrow>
     (\<forall>q n i. items (q, n) = Some i \<longrightarrow> status q = Some (str ''in_progress'')) \<and> (\<forall>q n l. finished (q, n) = Some l \<longrightarrow> q \<in> active)"

text \<open>Content parts belong to the open item at their output index; open audio streams to audio parts, and are not completed.\<close>

definition parts_ok :: "(rstring \<times> nat \<Rightarrow> rstring option) \<Rightarrow> (content_key \<Rightarrow> rstring option) \<Rightarrow> bool" where
  "parts_ok items parts \<longleftrightarrow> (\<forall>q i n c x. parts (q, i, n, c) = Some x \<longrightarrow> items (q, n) = Some i)"

definition audio_ok :: "(content_key \<Rightarrow> rstring option) \<Rightarrow> content_key set \<Rightarrow> content_key set \<Rightarrow> bool" where
  "audio_ok parts active completed \<longleftrightarrow> (\<forall>k\<in>active. parts k = Some (str ''audio'') \<and> k \<notin> completed)"

definition asr_ok :: "rstring set \<Rightarrow> (rstring \<times> nat) set \<Rightarrow> (rstring \<times> nat) set \<Rightarrow> bool" where
  "asr_ok items active terminal \<longleftrightarrow> active \<inter> terminal = {} \<and> fst ` (active \<union> terminal) \<subseteq> items"

definition phase_ok :: "LiveTranslatePhase \<Rightarrow> rstring option \<Rightarrow> json option \<Rightarrow> bool \<Rightarrow> bool" where
  "phase_ok phase session expected shut \<longleftrightarrow> (phase = AwaitingSessionCreated \<longrightarrow> session = None) \<and>
     (phase \<in> {LiveActive, LiveFinishing, LiveFinished} \<longrightarrow> session \<noteq> None \<and> expected \<noteq> None) \<and>
     (phase \<notin> {LiveActive, LiveFinishing} \<longrightarrow> shut)"

definition live_ok :: "LiveTranslateServerState \<Rightarrow> bool" where
  "live_ok s \<longleftrightarrow>
     responses_ok (lt_active_responses s) (map_of (lt_response_creation_status s)) (map_of (lt_response_conversation_ids s))
       (map_of (lt_committed_by_response s)) \<and>
     items_ok (map_of (lt_response_creation_status s)) (map_of (lt_active_output_items s)) (map_of (lt_completed_output_items s))
       (lt_active_responses s) \<and>
     parts_ok (map_of (lt_active_output_items s)) (map_of (lt_active_content_parts s)) \<and>
     audio_ok (map_of (lt_active_content_parts s)) (lt_active_audio_streams s) (lt_completed_audio_streams s) \<and>
     asr_ok (lt_conversation_items s) (lt_active_transcriptions s) (lt_terminal_transcriptions s) \<and>
     phase_ok (lt_phase s) (lt_session_id s) (lt_expected_session_update s) (nothing_open s)"

lemma nothing_open_unread [simp]:
  "nothing_open (s\<lparr>lt_seen_event_ids := e\<rparr>) = nothing_open s" "nothing_open (s\<lparr>lt_phase := p\<rparr>) = nothing_open s"
  "nothing_open (s\<lparr>lt_session_id := i\<rparr>) = nothing_open s" "nothing_open (s\<lparr>lt_expected_session_update := u\<rparr>) = nothing_open s"
  by (simp_all add: nothing_open_def)

lemma live_ok_default: "live_ok live_default"
  by (simp add: live_ok_def live_default_def responses_ok_def items_ok_def parts_ok_def audio_ok_def asr_ok_def phase_ok_def nothing_open_def)

lemma live_ok_seen [simp]: "live_ok (s\<lparr>lt_seen_event_ids := e\<rparr>) = live_ok s"
  by (simp add: live_ok_def)

text \<open>While the session is active the phase part of the invariant does not depend on the ledgers.\<close>

definition is_open_phase :: "LiveTranslateServerState \<Rightarrow> bool" where
  "is_open_phase s \<longleftrightarrow> lt_phase s \<in> {LiveActive, LiveFinishing}"

lemma phase_ok_open: "p \<in> {LiveActive, LiveFinishing} \<Longrightarrow> phase_ok p i e b = phase_ok p i e c"
  by (auto simp: phase_ok_def)

lemma streaming_Inr: "require_streaming_response q s = Inr u \<longleftrightarrow>
    q \<in> lt_active_responses s \<and> map_of (lt_response_creation_status s) q = Some (str ''in_progress'')"
  by (auto simp: require_streaming_response_def require_active_response_def)

lemma output_identity_Inr: "require_output_identity (q, i, n, c) s = Inr u \<longleftrightarrow>
    q \<in> lt_active_responses s \<and> map_of (lt_response_creation_status s) q = Some (str ''in_progress'') \<and>
    map_of (lt_active_output_items s) (q, n) = Some i"
  by (auto simp: require_output_identity_def streaming_Inr)

lemma content_identity_Inr: "require_content_identity event t s = Inr u \<longleftrightarrow>
    (\<exists>q i n c. response_content_identity event = Inr (q, i, n, c) \<and> require_output_identity (q, i, n, c) s = Inr () \<and>
       map_of (lt_active_content_parts s) (q, i, n, c) = Some t)"
  by (auto simp: require_content_identity_def)

lemmas guard_simps = streaming_Inr output_identity_Inr content_identity_Inr require_active_response_def require_conversation_item_def

subsection \<open>Responses and their children\<close>

text \<open>The part of the invariant that the events of an active session change.\<close>

definition ledgers_ok :: "LiveTranslateServerState \<Rightarrow> bool" where
  "ledgers_ok s \<longleftrightarrow>
     responses_ok (lt_active_responses s) (map_of (lt_response_creation_status s)) (map_of (lt_response_conversation_ids s))
       (map_of (lt_committed_by_response s)) \<and>
     items_ok (map_of (lt_response_creation_status s)) (map_of (lt_active_output_items s)) (map_of (lt_completed_output_items s))
       (lt_active_responses s) \<and>
     parts_ok (map_of (lt_active_output_items s)) (map_of (lt_active_content_parts s)) \<and>
     audio_ok (map_of (lt_active_content_parts s)) (lt_active_audio_streams s) (lt_completed_audio_streams s) \<and>
     asr_ok (lt_conversation_items s) (lt_active_transcriptions s) (lt_terminal_transcriptions s)"

lemma live_ok_ledgers: "live_ok s \<longleftrightarrow> ledgers_ok s \<and> phase_ok (lt_phase s) (lt_session_id s) (lt_expected_session_update s) (nothing_open s)"
  by (auto simp: live_ok_def ledgers_ok_def)

definition same_session :: "LiveTranslateServerState \<Rightarrow> LiveTranslateServerState \<Rightarrow> bool" where
  "same_session s t \<longleftrightarrow> lt_phase t = lt_phase s \<and> lt_session_id t = lt_session_id s \<and>
     lt_expected_session_update t = lt_expected_session_update s \<and> lt_seen_event_ids t = lt_seen_event_ids s"

subsection \<open>The elementary changes\<close>

lemma responses_ok_add: "responses_ok A st cv cm \<Longrightarrow> responses_ok (insert q A) (st(q \<mapsto> x)) (cv(q \<mapsto> y)) cm"
  by (auto simp: responses_ok_def)

lemma responses_ok_commit: "responses_ok A st cv cm \<Longrightarrow> q \<in> A \<Longrightarrow> responses_ok A st cv (cm(q \<mapsto> x))"
  by (auto simp: responses_ok_def)

lemma responses_ok_forget: "responses_ok A st cv cm \<Longrightarrow> responses_ok (A - {q}) (st(q := None)) (cv(q := None)) (cm(q := None))"
  by (auto simp: responses_ok_def dom_fun_upd)

lemma items_ok_new:
  assumes "items_ok st items fin A" "responses_ok A st cv cm" "q \<notin> A"
  shows "items_ok (st(q \<mapsto> x)) items fin (insert q A)"
proof -
  from assms(2, 3) have "st q = None" by (auto simp: responses_ok_def)
  with assms(1) have "items (q, n) = None" for n by (cases "items (q, n)") (fastforce simp: items_ok_def)+
  with assms(1) show ?thesis unfolding items_ok_def by fastforce
qed

lemma items_ok_add: "items_ok st items fin A \<Longrightarrow> st q = Some (str ''in_progress'') \<Longrightarrow> items_ok st (items((q, n) \<mapsto> i)) fin A"
  by (auto simp: items_ok_def)

lemma items_ok_finish: "items_ok st items fin A \<Longrightarrow> q \<in> A \<Longrightarrow> items_ok st (items(k := None)) (fin((q, n) \<mapsto> l)) A"
  by (fastforce simp: items_ok_def)

lemma items_ok_forget:
  "items_ok st items fin A \<Longrightarrow> \<forall>n. items (q, n) = None \<Longrightarrow> \<forall>r n l. fin' (r, n) = Some l \<longrightarrow> r \<noteq> q \<and> fin (r, n) = Some l \<Longrightarrow>
    items_ok (st(q := None)) items fin' (A - {q})"
  by (fastforce simp: items_ok_def)

lemma parts_ok_add_item: "parts_ok items parts \<Longrightarrow> items (q, n) = None \<Longrightarrow> parts_ok (items((q, n) \<mapsto> i)) parts"
  by (fastforce simp: parts_ok_def)

lemma parts_ok_remove_item: "parts_ok items parts \<Longrightarrow> \<forall>i c. parts (q, i, n, c) = None \<Longrightarrow> parts_ok (items((q, n) := None)) parts"
  by (auto simp: parts_ok_def)

lemma parts_ok_add: "parts_ok items parts \<Longrightarrow> items (q, n) = Some i \<Longrightarrow> parts_ok items (parts((q, i, n, c) \<mapsto> x))"
  by (fastforce simp: parts_ok_def)

lemma parts_ok_remove: "parts_ok items parts \<Longrightarrow> parts_ok items (parts(k := None))"
  by (fastforce simp: parts_ok_def)

lemma audio_ok_add: "audio_ok parts act fin \<Longrightarrow> parts k = None \<Longrightarrow> audio_ok (parts(k \<mapsto> x)) act fin"
  by (auto simp: audio_ok_def)

lemma audio_ok_open: "audio_ok parts act fin \<Longrightarrow> k \<notin> fin \<Longrightarrow> audio_ok (parts(k \<mapsto> str ''audio'')) (insert k act) fin"
  by (auto simp: audio_ok_def)

lemma audio_ok_remove: "audio_ok parts act fin \<Longrightarrow> k \<notin> act \<Longrightarrow> audio_ok (parts(k := None)) act fin"
  by (auto simp: audio_ok_def)

lemma audio_ok_done: "audio_ok parts act fin \<Longrightarrow> audio_ok parts (act - {k}) (insert k fin)"
  by (auto simp: audio_ok_def)

lemma asr_ok_text: "asr_ok C act fin \<Longrightarrow> fst t \<in> C \<Longrightarrow> t \<notin> fin \<Longrightarrow> asr_ok C (insert t act) fin"
  by (auto simp: asr_ok_def)

lemma asr_ok_end: "asr_ok C act fin \<Longrightarrow> fst t \<in> C \<Longrightarrow> asr_ok C (act - {t}) (insert t fin)"
  by (auto simp: asr_ok_def)

lemma asr_ok_item: "asr_ok C act fin \<Longrightarrow> asr_ok (insert i C) act fin"
  by (auto simp: asr_ok_def)

subsection \<open>The events of an active session\<close>

lemma live_created_kept: "live_response_created event s = Inr t \<Longrightarrow> ledgers_ok s \<Longrightarrow> ledgers_ok t"
  by (auto simp: live_response_created_def ledgers_ok_def intro: responses_ok_add items_ok_new)

lemma item_added_kept: "output_item_added event s = Inr t \<Longrightarrow> ledgers_ok s \<Longrightarrow> ledgers_ok t"
  by (auto simp: output_item_added_def guard_simps ledgers_ok_def intro: items_ok_add parts_ok_add_item)

lemma closed_output:
  assumes "\<not> output_still_open q n s"
  shows "\<forall>i c. map_of (lt_active_content_parts s) (q, i, n, c) = None"
proof (intro allI)
  fix i c
  from assms have "\<forall>x. ((q, i, n, c), x) \<notin> set (lt_active_content_parts s)" by (auto simp: output_still_open_def list_ex_iff)
  then show "map_of (lt_active_content_parts s) (q, i, n, c) = None" by (auto simp: map_of_eq_None_iff)
qed

lemma item_done_kept: "output_item_done event s = Inr t \<Longrightarrow> ledgers_ok s \<Longrightarrow> ledgers_ok t"
  by (auto simp: output_item_done_def guard_simps ledgers_ok_def dest!: closed_output intro: items_ok_finish parts_ok_remove_item)

lemma part_added_kept:
  assumes "content_part_added event s = Inr t" "ledgers_ok s"
  shows "ledgers_ok t"
proof -
  from assms(1) obtain key x where p: "validate_content_part event = Inr (key, x)" by (auto simp: content_part_added_def)
  obtain q i n c where key: "key = (q, i, n, c)" by (cases key) auto
  from assms(1) have k: "map_of (lt_active_output_items s) (q, n) = Some i"
      "x = str ''audio'' \<longrightarrow> (q, i, n, c) \<notin> lt_completed_audio_streams s" "map_of (lt_active_content_parts s) (q, i, n, c) = None"
    and t: "t = s\<lparr>lt_active_content_parts := btree_insert (q, i, n, c) x (lt_active_content_parts s),
      lt_active_audio_streams := (if x = str ''audio'' then insert (q, i, n, c) (lt_active_audio_streams s) else lt_active_audio_streams s)\<rparr>"
    by (simp_all add: content_part_added_def p key output_identity_Inr)
  have "audio_ok (map_of (lt_active_content_parts t)) (lt_active_audio_streams t) (lt_completed_audio_streams t)"
    using k assms(2) by (simp add: t ledgers_ok_def audio_ok_open audio_ok_add)
  with k assms(2) show ?thesis by (simp add: t ledgers_ok_def parts_ok_add)
qed

lemma part_done_kept: "content_part_done event s = Inr t \<Longrightarrow> ledgers_ok s \<Longrightarrow> ledgers_ok t"
  by (auto simp: content_part_done_def guard_simps ledgers_ok_def intro: parts_ok_remove audio_ok_remove)

lemma v2_delta_kept: "admit_v2_text_delta b event s = Inr (m, t) \<Longrightarrow> ledgers_ok s \<Longrightarrow> ledgers_ok t"
  by (auto simp: admit_v2_text_delta_def ledgers_ok_def Let_def)

lemma snapshot_kept: "text_snapshot b event s = Inr (m, t) \<Longrightarrow> ledgers_ok s \<Longrightarrow> ledgers_ok t"
  by (auto simp: text_snapshot_def ledgers_ok_def)

lemma text_done_cases:
  assumes "text_done a b event s = Inr (m, t)"
  obtains q x ends where "event_response_id event = Inr q" "q \<in> lt_active_responses s" "m = says x"
    "t = s\<lparr>lt_v2_terminal_text := ends, lt_committed_by_response := btree_insert q x (lt_committed_by_response s)\<rparr>"
proof -
  from assms obtain q x ends where "event_response_id event = Inr q" "require_active_response q s = Inr ()" "m = says x"
    "t = s\<lparr>lt_v2_terminal_text := ends, lt_committed_by_response := btree_insert q x (lt_committed_by_response s)\<rparr>"
    unfolding text_done_def and_then_Inr reject_if_Inr by force
  then show ?thesis by (auto intro: that simp: require_active_response_def)
qed

lemma text_done_kept: "text_done a b event s = Inr (m, t) \<Longrightarrow> ledgers_ok s \<Longrightarrow> ledgers_ok t"
  by (erule text_done_cases) (simp add: ledgers_ok_def responses_ok_commit)

lemma asr_kept:
  "admit_v2_asr_delta event s = Inr (m, t) \<Longrightarrow> ledgers_ok s \<Longrightarrow> ledgers_ok t"
  "transcription_text event s = Inr (m, t) \<Longrightarrow> ledgers_ok s \<Longrightarrow> ledgers_ok t"
  "transcription_completed a event s = Inr t \<Longrightarrow> ledgers_ok s \<Longrightarrow> ledgers_ok t"
  "transcription_failed event s = Inr t \<Longrightarrow> ledgers_ok s \<Longrightarrow> ledgers_ok t"
  by (auto simp: admit_v2_asr_delta_def transcription_text_def transcription_completed_def transcription_failed_def end_transcription_def
      require_conversation_item_def ledgers_ok_def Let_def asr_ok_text asr_ok_end)

lemma conversation_item_kept: "conversation_item_created event s = Inr t \<Longrightarrow> ledgers_ok s \<Longrightarrow> ledgers_ok t"
  by (auto simp: conversation_item_created_def ledgers_ok_def asr_ok_item)

lemma live_audio_kept: "audio_delta env event s = Inr t \<Longrightarrow> ledgers_ok s \<Longrightarrow> ledgers_ok t" "audio_done event s = Inr t \<Longrightarrow> ledgers_ok s \<Longrightarrow> ledgers_ok t"
  by (auto simp: audio_delta_def audio_done_def ledgers_ok_def audio_ok_done)

lemma live_speech_kept: "speech_started event s = Inr t \<Longrightarrow> ledgers_ok s \<Longrightarrow> ledgers_ok t" "speech_stopped event s = Inr t \<Longrightarrow> ledgers_ok s \<Longrightarrow> ledgers_ok t"
  by (auto simp: speech_started_def speech_stopped_def ledgers_ok_def)

lemma live_response_done_cases:
  assumes "admit_response_done event s = Inr (m, t)"
  obtains v where "validate_response_done event = Inr v" "vd_response_id v \<in> lt_active_responses s"
    "\<not> has_active_response_children (vd_response_id v) s" "t = forget_response (vd_response_id v) s"
    "m = no_mutation\<lparr>lm_completed_response_text :=
         (if vd_status v = str ''completed'' then map_of (lt_committed_by_response s) (vd_response_id v) else None),
       lm_response_completed := (vd_status v = str ''completed''), lm_response_terminal_status := Some (vd_status v)\<rparr>"
  using assms unfolding admit_response_done_def Let_def and_then_Inr reject_if_Inr by (auto intro: that)

lemma forget_kept:
  assumes "ledgers_ok s" "\<not> has_active_response_children q s"
  shows "ledgers_ok (forget_response q s)"
proof -
  from assms(2) have none: "\<forall>n. map_of (lt_active_output_items s) (q, n) = None"
    by (auto simp: has_active_response_children_def list_ex_iff map_of_eq_None_iff)
  have fin: "\<forall>r n l. map_of (filter (\<lambda>((r, _), _). r \<noteq> q) (lt_completed_output_items s)) (r, n) = Some l \<longrightarrow>
      r \<noteq> q \<and> map_of (lt_completed_output_items s) (r, n) = Some l"
    using map_of_filter_key [of "\<lambda>k. fst k \<noteq> q" "lt_completed_output_items s"] by (auto simp: split_beta' split: if_splits)
  show ?thesis using assms(1) items_ok_forget [OF _ none fin] by (simp add: ledgers_ok_def forget_response_def responses_ok_forget)
qed

lemma live_done_kept: "admit_response_done event s = Inr (m, t) \<Longrightarrow> ledgers_ok s \<Longrightarrow> ledgers_ok t"
  by (erule live_response_done_cases) (simp add: forget_kept)

text \<open>None of these events touches the session itself.\<close>

lemma same_session_refl [simp]: "same_session s s"
  by (simp add: same_session_def)

lemma session_unchanged:
  "live_response_created event s = Inr t \<Longrightarrow> same_session s t" "output_item_added event s = Inr t \<Longrightarrow> same_session s t"
  "output_item_done event s = Inr t \<Longrightarrow> same_session s t" "content_part_added event s = Inr t \<Longrightarrow> same_session s t"
  "content_part_done event s = Inr t \<Longrightarrow> same_session s t" "transcription_completed a event s = Inr t \<Longrightarrow> same_session s t"
  "transcription_failed event s = Inr t \<Longrightarrow> same_session s t" "conversation_item_created event s = Inr t \<Longrightarrow> same_session s t"
  "audio_delta env event s = Inr t \<Longrightarrow> same_session s t" "audio_done event s = Inr t \<Longrightarrow> same_session s t"
  "speech_started event s = Inr t \<Longrightarrow> same_session s t" "speech_stopped event s = Inr t \<Longrightarrow> same_session s t"
  by (auto simp: live_response_created_def output_item_added_def output_item_done_def content_part_added_def content_part_done_def
      transcription_completed_def transcription_failed_def end_transcription_def conversation_item_created_def audio_delta_def
      audio_done_def speech_started_def speech_stopped_def same_session_def)

lemma session_unchanged_text:
  "admit_v2_text_delta b event s = Inr (m, t) \<Longrightarrow> same_session s t" "text_snapshot b event s = Inr (m, t) \<Longrightarrow> same_session s t"
  "text_done a b event s = Inr (m, t) \<Longrightarrow> same_session s t" "admit_response_done event s = Inr (m, t) \<Longrightarrow> same_session s t"
  "admit_v2_asr_delta event s = Inr (m, t) \<Longrightarrow> same_session s t" "transcription_text event s = Inr (m, t) \<Longrightarrow> same_session s t"
  by (auto simp: admit_v2_text_delta_def text_snapshot_def admit_v2_asr_delta_def transcription_text_def Let_def same_session_def
      forget_response_def elim!: text_done_cases live_response_done_cases)

lemma silently_Inr [simp]: "silently r = Inr (m, t) \<longleftrightarrow> m = no_mutation \<and> r = Inr t"
  by (auto simp: silently_def)

lemmas ledger_events = live_created_kept item_added_kept item_done_kept part_added_kept part_done_kept v2_delta_kept snapshot_kept
  text_done_kept asr_kept conversation_item_kept live_audio_kept live_speech_kept live_done_kept

lemma active_event_kept: "active_event env a kind event s = Some (Inr (m, t)) \<Longrightarrow> ledgers_ok s \<Longrightarrow> ledgers_ok t"
  unfolding active_event_def by (auto split: if_splits dest: ledger_events)

lemma active_event_session: "active_event env a kind event s = Some (Inr (m, t)) \<Longrightarrow> same_session s t"
  unfolding active_event_def by (auto split: if_splits dest: session_unchanged session_unchanged_text)

subsection \<open>Admission\<close>

definition noticed :: "rstring \<Rightarrow> LiveTranslateServerState \<Rightarrow> LiveTranslateServerState" where
  "noticed e s = s\<lparr>lt_seen_event_ids := insert e (lt_seen_event_ids s)\<rparr>"

lemma live_admit_cases:
  assumes "live_admit env a event s = Inr (m, t)"
  obtains (session) e kind where "required_nonempty_string event (str ''event_id'') = Inr e" "e \<notin> lt_seen_event_ids s"
      "lt_phase s \<noteq> LiveFinished" "event_type event = Inr kind" "starts_with kind (str ''session.'')"
      "admit_session_event env a kind event (noticed e s) = Inr (m, t)"
  | (active) e kind where "required_nonempty_string event (str ''event_id'') = Inr e" "e \<notin> lt_seen_event_ids s"
      "lt_phase s \<in> {LiveActive, LiveFinishing}" "event_type event = Inr kind"
      "active_event env a kind event (noticed e s) = Some (Inr (m, t))"
  | (error) e where "required_nonempty_string event (str ''event_id'') = Inr e" "e \<notin> lt_seen_event_ids s"
      "lt_phase s \<noteq> LiveFinished" "m = no_mutation" "t = noticed e s" "event_type event = Inr (str ''error'')"
proof -
  from assms obtain kind e where e: "required_nonempty_string event (str ''event_id'') = Inr e" "e \<notin> lt_seen_event_ids s"
    "lt_phase s \<noteq> LiveFinished" "event_type event = Inr kind" and
    r: "(if starts_with kind (str ''session.'') then admit_session_event env a kind event (noticed e s)
         else admit_server_event env a kind event (noticed e s)) = Inr (m, t)"
    unfolding noticed_def by (auto simp: live_admit_def Let_def)
  show ?thesis
  proof (cases "starts_with kind (str ''session.'')")
    case True
    with e r show ?thesis by (auto intro: session)
  next
    case False
    with r have r: "admit_server_event env a kind event (noticed e s) = Inr (m, t)" by simp
    show ?thesis
    proof (cases "active_event env a kind event (noticed e s)")
      case None
      with r have "kind = str ''error''" "m = no_mutation" "t = noticed e s"
        by (auto simp: admit_server_event_def split: if_splits)
      with e show ?thesis by (auto intro: error)
    next
      case (Some x)
      with r e show ?thesis by (auto simp: admit_server_event_def require_active_def noticed_def intro: active)
    qed
  qed
qed

lemma live_ok_noticed [simp]: "live_ok (noticed e s) = live_ok s"
  by (simp add: noticed_def)

lemma live_ok_session:
  assumes "live_ok s" "admit_session_event env a kind event s = Inr (m, t)"
  shows "live_ok t"
  using assms by (auto simp: admit_session_event_def session_created_def session_updated_def live_session_finished_def live_ok_def phase_ok_def
      split: if_splits)

lemma live_ok_admit:
  assumes "live_ok s" "live_admit env a event s = Inr (m, t)"
  shows "live_ok t"
  using assms(2)
proof (cases rule: live_admit_cases)
  case (session e kind)
  with assms(1) live_ok_session [of "noticed e s"] show ?thesis by simp
next
  case (active e kind)
  from assms(1) have ok: "ledgers_ok (noticed e s)" "live_ok (noticed e s)" by (simp_all add: live_ok_ledgers [symmetric] noticed_def)
      (simp add: live_ok_ledgers ledgers_ok_def)
  from active_event_session [OF active(5)] ok(2) active(3) show ?thesis
    using active_event_kept [OF active(5) ok(1)] by (auto simp: live_ok_ledgers same_session_def noticed_def phase_ok_def)
next
  case (error e)
  with assms(1) show ?thesis by simp
qed

lemma live_ok_update: "live_record_session_update env a event s = Inr t \<Longrightarrow> live_ok s \<Longrightarrow> live_ok t"
  by (auto simp: live_record_session_update_def live_ok_def phase_ok_def)

lemma live_ok_finish: "record_client_finish s = Inr t \<Longrightarrow> live_ok s \<Longrightarrow> live_ok t"
  by (auto simp: record_client_finish_def live_ok_def phase_ok_def)

lemma live_ok_step: "live_ok s \<Longrightarrow> live_ok (live_step env s op)"
proof (cases op)
  case (LiveFrame a event)
  assume "live_ok s"
  with LiveFrame show ?thesis
    by (cases "live_admit env a event s") (auto simp: kept_on_error_def dest: live_ok_admit)
next
  case (LiveUpdate a event)
  assume "live_ok s"
  with LiveUpdate show ?thesis by (auto simp: kept_on_error_def split: sum.split intro: live_ok_update)
next
  case LiveFinish
  assume "live_ok s"
  with LiveFinish show ?thesis by (auto simp: kept_on_error_def split: sum.split intro: live_ok_finish)
qed (simp add: live_reset_def live_ok_default)

interpretation live: invariant_system live_default "live_step env" live_ok for env
  by unfold_locales (rule live_ok_default, rule live_ok_step)

section \<open>The echo of the session\<close>

text \<open>The projection of an echo is what was sent exactly when the echo contains it.\<close>

lemma echo_subset_projects:
  "validate_json_echo_subset e observed path = Inr () \<longleftrightarrow> project_json_echo e observed path = Inr e"
  "echo_subset_fields es os path = Inr () \<longleftrightarrow> project_fields es os path = Inr es"
proof (induction e observed path and es os path rule: validate_json_echo_subset_echo_subset_fields.induct)
  case (1 e observed path)
  then show ?case
    by (cases e) (auto simp: validate_json_echo_subset.simps project_json_echo.simps split: option.split)
next
  case (3 key e es os path)
  then show ?case
    by (cases "map_of os key") (auto simp: may_be_absent_def project_json_echo.simps)
qed simp

lemma updated_evidence_exact:
  assumes "updated_evidence env received e observed = Inr v"
  shows "sha256_canonical_json env e = Inr (lv_sent_session_config_sha256 v) \<and>
    lv_echoed_session_config_sha256 v = lv_sent_session_config_sha256 v \<and> lv_session_identity_sha256 v = le_sha256 env received"
  using assms by (auto simp: updated_evidence_def)

section \<open>The end of a session\<close>

lemma finished_step: "lt_phase s = LiveFinished \<Longrightarrow> op \<noteq> LiveReset \<Longrightarrow> live_step env s op = s"
proof (cases op)
  case (LiveFrame a event)
  assume "lt_phase s = LiveFinished"
  then have "\<exists>err. live_admit env a event s = Inl err"
    by (cases "live_admit env a event s") (auto elim!: live_admit_cases)
  with LiveFrame show ?thesis by (auto simp: kept_on_error_def)
qed (auto simp: kept_on_error_def live_record_session_update_def record_client_finish_def and_then_def reject_if_def split: sum.split)

lemma finished_runs: "lt_phase s = LiveFinished \<Longrightarrow> LiveReset \<notin> set ops \<Longrightarrow> runs (live_step env) s ops = s"
  by (induction ops) (auto simp: finished_step)

section \<open>The texts of a response\<close>

text \<open>
  What a caller sees of a response: it opens, it gets final texts, and it closes with the status that the event
  announces, and with what the mutation reports of it: whether it is completed, its terminal status and its text.
\<close>

datatype response_event =
    Opened rstring | FinalText rstring rstring | Closed rstring rstring bool "rstring option" "rstring option" | Reconnected

definition announced_status :: "json \<Rightarrow> rstring" where
  "announced_status event =
     (case json_get (str ''response'') event of
        Some response \<Rightarrow> (case json_get (str ''status'') response of Some (JString x) \<Rightarrow> trim x | _ \<Rightarrow> [])
      | None \<Rightarrow> [])"

fun response_events :: "json \<Rightarrow> rstring \<Rightarrow> LiveTranslateServerMutation \<Rightarrow> response_event list" where
  "response_events event kind m =
     (if kind = str ''response.created''
      then (case validate_response_created event of Inr v \<Rightarrow> [Opened (vc_response_id v)] | Inl _ \<Rightarrow> [])
      else if kind = str ''response.text.done'' \<or> kind = str ''response.audio_transcript.done''
      then (case (event_response_id event, lm_normalized_text m) of (Inr q, Some x) \<Rightarrow> [FinalText q x] | _ \<Rightarrow> [])
      else if kind = str ''response.done''
      then (case validate_response_done event of
              Inr v \<Rightarrow> [Closed (vd_response_id v) (announced_status event) (lm_response_completed m)
                (lm_response_terminal_status m) (lm_completed_response_text m)]
            | Inl _ \<Rightarrow> [])
      else [])"

fun live_observe :: "live_env \<Rightarrow> LiveTranslateServerState \<Rightarrow> live_op \<Rightarrow> LiveTranslateServerState \<times> response_event list" where
  "live_observe env s (LiveFrame a event) =
     (case live_admit env a event s of
        Inr (m, t) \<Rightarrow> (t, (case event_type event of Inr kind \<Rightarrow> response_events event kind m | Inl _ \<Rightarrow> []))
      | Inl _ \<Rightarrow> (s, []))"
| "live_observe env s LiveReset = (live_reset s, [Reconnected])"
| "live_observe env s op = (live_step env s op, [])"

declare response_events.simps [simp del]

inductive response_protocol :: "(rstring \<Rightarrow> rstring option option) \<Rightarrow> response_event \<Rightarrow> (rstring \<Rightarrow> rstring option option) \<Rightarrow> bool" where
  opened: "w q = None \<Longrightarrow> response_protocol w (Opened q) (w(q \<mapsto> None))"
| final: "w q = Some y \<Longrightarrow> response_protocol w (FinalText q x) (w(q \<mapsto> Some x))"
| closed: "w q = Some y \<Longrightarrow> status \<in> {str ''completed'', str ''failed'', str ''incomplete''} \<Longrightarrow>
    response_protocol w (Closed q status (status = str ''completed'') (Some status) (if status = str ''completed'' then y else None))
      (w(q := None))"
| reconnected: "response_protocol w Reconnected Map.empty"

inductive_simps response_protocol_simps [simp]:
  "response_protocol w (Opened q) u" "response_protocol w (FinalText q x) u" "response_protocol w (Closed q status b st y) u"
  "response_protocol w Reconnected u"

lemma announced: "validate_response_done event = Inr v \<Longrightarrow> announced_status event = vd_status v \<and> vd_status v \<in> set terminal_statuses"
  by (auto simp: validate_response_done_def required_nonempty_string_def required_string_def announced_status_def Let_def ok_or_def
      split: option.splits json.splits)

definition open_texts :: "LiveTranslateServerState \<Rightarrow> rstring \<Rightarrow> rstring option option" where
  "open_texts s q = (if q \<in> lt_active_responses s then Some (map_of (lt_committed_by_response s) q) else None)"

lemma no_texts_default: "open_texts live_default = Map.empty"
  by (auto simp: open_texts_def live_default_def)

text \<open>Only the creation, the final text and the end of a response change what is open.\<close>

definition same_texts :: "LiveTranslateServerState \<Rightarrow> LiveTranslateServerState \<Rightarrow> bool" where
  "same_texts s t \<longleftrightarrow> lt_active_responses t = lt_active_responses s \<and> lt_committed_by_response t = lt_committed_by_response s"

lemma same_texts_open: "same_texts s t \<Longrightarrow> open_texts t = open_texts s"
  by (auto simp: same_texts_def open_texts_def)

lemma same_texts_refl [simp]: "same_texts s s" "same_texts s (noticed e s)"
  by (simp_all add: same_texts_def noticed_def)

lemma texts_unchanged:
  "output_item_added event s = Inr t \<Longrightarrow> same_texts s t"
  "output_item_done event s = Inr t \<Longrightarrow> same_texts s t" "content_part_added event s = Inr t \<Longrightarrow> same_texts s t"
  "content_part_done event s = Inr t \<Longrightarrow> same_texts s t" "transcription_completed a event s = Inr t \<Longrightarrow> same_texts s t"
  "transcription_failed event s = Inr t \<Longrightarrow> same_texts s t" "conversation_item_created event s = Inr t \<Longrightarrow> same_texts s t"
  "audio_delta env event s = Inr t \<Longrightarrow> same_texts s t" "audio_done event s = Inr t \<Longrightarrow> same_texts s t"
  "speech_started event s = Inr t \<Longrightarrow> same_texts s t" "speech_stopped event s = Inr t \<Longrightarrow> same_texts s t"
  by (auto simp: output_item_added_def output_item_done_def content_part_added_def content_part_done_def
      transcription_completed_def transcription_failed_def end_transcription_def conversation_item_created_def audio_delta_def
      audio_done_def speech_started_def speech_stopped_def same_texts_def)

lemma texts_unchanged_text:
  "admit_v2_text_delta b event s = Inr (m, t) \<Longrightarrow> same_texts s t" "text_snapshot b event s = Inr (m, t) \<Longrightarrow> same_texts s t"
  "admit_v2_asr_delta event s = Inr (m, t) \<Longrightarrow> same_texts s t" "transcription_text event s = Inr (m, t) \<Longrightarrow> same_texts s t"
  by (auto simp: admit_v2_text_delta_def text_snapshot_def admit_v2_asr_delta_def transcription_text_def Let_def same_texts_def)

lemma texts_unchanged_session: "admit_session_event env a kind event s = Inr (m, t) \<Longrightarrow> same_texts s t"
  by (auto simp: admit_session_event_def session_created_def session_updated_def live_session_finished_def same_texts_def split: if_splits)

definition response_kinds :: "rstring set" where
  "response_kinds = {str ''response.created'', str ''response.text.done'', str ''response.audio_transcript.done'', str ''response.done''}"

lemma no_response_events: "kind \<notin> response_kinds \<Longrightarrow> response_events event kind m = []"
  by (simp add: response_events.simps response_kinds_def)

lemma session_kind_silent: "starts_with kind (str ''session.'') \<Longrightarrow> kind \<notin> response_kinds"
  by (auto simp: response_kinds_def starts_with_def str_def)

lemma active_event_texts:
  "active_event env a kind event s = Some (Inr (m, t)) \<Longrightarrow> kind \<notin> response_kinds \<Longrightarrow> same_texts s t"
  unfolding active_event_def response_kinds_def
  by (auto split: if_splits dest: texts_unchanged texts_unchanged_text)

lemma active_response_events:
  assumes "live_ok s" "active_event env a kind event s = Some (Inr (m, t))" "kind \<in> response_kinds"
  shows "trace_of response_protocol (open_texts s) (response_events event kind m) (open_texts t)"
proof -
  from assms(3) consider (created) "kind = str ''response.created''"
    | (final) b where "kind = (if b then str ''response.text.done'' else str ''response.audio_transcript.done'')"
    | (ended) "kind = str ''response.done''"
    unfolding response_kinds_def by (metis (no_types, lifting) empty_iff insert_iff)
  then show ?thesis
  proof cases
    case created
    with assms(2) obtain v where v: "validate_response_created event = Inr v" "vc_response_id v \<notin> lt_active_responses s"
      "lt_active_responses t = insert (vc_response_id v) (lt_active_responses s)" "lt_committed_by_response t = lt_committed_by_response s"
      by (auto simp: active_event_def live_response_created_def str_eq_iff)
    with assms(1) have "map_of (lt_committed_by_response s) (vc_response_id v) = None"
      by (auto simp: live_ok_def responses_ok_def dom_def)
    with v created show ?thesis by (auto simp: response_events.simps open_texts_def)
  next
    case (final b)
    with assms(2) have "text_done a b event s = Inr (m, t)"
      by (auto simp: active_event_def str_eq_iff split: if_splits)
    then obtain q x ends where q: "event_response_id event = Inr q" "q \<in> lt_active_responses s" "m = says x"
      "t = s\<lparr>lt_v2_terminal_text := ends, lt_committed_by_response := btree_insert q x (lt_committed_by_response s)\<rparr>"
      by (rule text_done_cases)
    then have "response_events event kind m = [FinalText q x]" using final by (simp add: response_events.simps str_eq_iff says_def)
    moreover have "open_texts t = (open_texts s)(q \<mapsto> Some x)" using q by (auto simp: open_texts_def)
    moreover have "open_texts s q \<noteq> None" using q by (simp add: open_texts_def)
    ultimately show ?thesis by auto
  next
    case ended
    with assms(2) have "admit_response_done event s = Inr (m, t)" by (simp add: active_event_def str_eq_iff)
    then obtain v where v: "validate_response_done event = Inr v" "vd_response_id v \<in> lt_active_responses s"
      "t = forget_response (vd_response_id v) s" and
      m: "m = no_mutation\<lparr>lm_completed_response_text :=
          (if vd_status v = str ''completed'' then map_of (lt_committed_by_response s) (vd_response_id v) else None),
        lm_response_completed := (vd_status v = str ''completed''), lm_response_terminal_status := Some (vd_status v)\<rparr>"
      by (rule live_response_done_cases)
    from v m ended have "response_events event kind m = [Closed (vd_response_id v) (vd_status v) (vd_status v = str ''completed'')
        (Some (vd_status v)) (if vd_status v = str ''completed'' then map_of (lt_committed_by_response s) (vd_response_id v) else None)]"
      using announced [OF v(1)] by (simp add: response_events.simps str_eq_iff)
    moreover have "vd_status v \<in> {str ''completed'', str ''failed'', str ''incomplete''}"
      using announced [OF v(1)] by (auto simp: terminal_statuses_def)
    moreover have "open_texts t = (open_texts s)(vd_response_id v := None)" using v by (auto simp: open_texts_def forget_response_def)
    moreover have "open_texts s (vd_response_id v) = Some (map_of (lt_committed_by_response s) (vd_response_id v))"
      using v by (simp add: open_texts_def)
    ultimately show ?thesis by auto
  qed
qed

lemma live_observe_step [simp]: "fst (live_observe env s op) = live_step env s op"
  by (cases op) (auto simp: kept_on_error_def and_then_def split: sum.splits)

lemma frame_refines:
  assumes "live_ok s" "live_admit env a event s = Inr (m, t)" "event_type event = Inr kind"
  shows "trace_of response_protocol (open_texts s) (response_events event kind m) (open_texts t)"
  using assms(2)
proof (cases rule: live_admit_cases)
  case (session e k)
  with assms(3) same_texts_open [OF texts_unchanged_session [OF session(6)]] show ?thesis
    by (simp add: session_kind_silent no_response_events same_texts_open [of s "noticed e s"])
next
  case (active e k)
  have s: "open_texts (noticed e s) = open_texts s" by (simp add: same_texts_open)
  show ?thesis
  proof (cases "kind \<in> response_kinds")
    case True
    with active_response_events [OF _ active(5)] active(4) assms(1, 3) s show ?thesis by simp
  next
    case False
    with same_texts_open [OF active_event_texts [OF active(5)]] active(4) assms(3) s show ?thesis by (simp add: no_response_events)
  qed
next
  case (error e)
  with assms(3) have "kind = str ''error''" by simp
  with error show ?thesis
    by (simp add: no_response_events response_kinds_def str_eq_iff same_texts_open [of s "noticed e s"])
qed

interpretation live_texts: simulation "live_observe env" live_ok open_texts response_protocol for env
proof
  fix s op
  assume ok: "live_ok s"
  show "live_ok (fst (live_observe env s op))" using ok by (simp add: live_ok_step)
  show "trace_of response_protocol (open_texts s) (snd (live_observe env s op)) (open_texts (fst (live_observe env s op)))"
  proof (cases op)
    case (LiveFrame a event)
    show ?thesis
    proof (cases "live_admit env a event s")
      case (Inr r)
      then obtain m t where a: "live_admit env a event s = Inr (m, t)" by (cases r) simp
      then obtain kind where "event_type event = Inr kind" by (auto simp: live_admit_def)
      with frame_refines [OF ok a] a LiveFrame show ?thesis by simp
    qed (simp add: LiveFrame)
  next
    case (LiveUpdate a event)
    have "same_texts s t" if "live_record_session_update env a event s = Inr t" for t
      using that by (auto simp: live_record_session_update_def same_texts_def)
    then show ?thesis by (auto simp: LiveUpdate kept_on_error_def split: sum.split dest: same_texts_open)
  next
    case LiveFinish
    then show ?thesis by (auto simp: kept_on_error_def record_client_finish_def reject_if_def open_texts_def fun_eq_iff)
  next
    case LiveReset
    then show ?thesis by (simp add: live_reset_def no_texts_default)
  qed
qed

end
