(* ===== verification/Live_Properties.thy ===== *)
theory Live_Properties
  imports Live_Run
begin

text \<open>
  The properties of a LiveTranslate session over all its runs, with a sample session that starts and ends.
\<close>

declare str_def [simp del]

section \<open>Properties\<close>

lemma plain_mutations [simp]: "\<not> lm_session_finished no_mutation" "\<not> lm_session_finished (says x)"
  by (simp_all add: no_mutation_def says_def)

lemma text_mutations:
  "admit_v2_text_delta b event s = Inr (m, t) \<Longrightarrow> \<not> lm_session_finished m" "text_snapshot b event s = Inr (m, t) \<Longrightarrow> \<not> lm_session_finished m"
  "text_done a b event s = Inr (m, t) \<Longrightarrow> \<not> lm_session_finished m" "admit_response_done event s = Inr (m, t) \<Longrightarrow> \<not> lm_session_finished m"
  "admit_v2_asr_delta event s = Inr (m, t) \<Longrightarrow> \<not> lm_session_finished m" "transcription_text event s = Inr (m, t) \<Longrightarrow> \<not> lm_session_finished m"
  by (auto simp: admit_v2_text_delta_def text_snapshot_def admit_v2_asr_delta_def transcription_text_def Let_def
      elim!: text_done_cases live_response_done_cases)

lemma active_event_not_finished: "active_event env a kind event s = Some (Inr (m, t)) \<Longrightarrow> \<not> lm_session_finished m"
  unfolding active_event_def by (auto split: if_splits dest: text_mutations)

lemma finished_mutation:
  assumes "live_admit env a event s = Inr (m, t)" "lm_session_finished m"
  shows "lt_phase t = LiveFinished"
  using assms(1)
proof (cases rule: live_admit_cases)
  case (session e kind)
  with assms(2) show ?thesis
    by (auto simp: admit_session_event_def session_created_def session_updated_def live_session_finished_def split: if_splits)
qed (use assms(2) active_event_not_finished in auto)

text \<open>C39: After any sequence of server events, client updates, the local finish and reconnects the ledgers nest: every open
  response has a status and a conversation and only open ones have a text; open items belong to streaming responses, content parts
  to the open item at their index, open audio streams to audio parts that are not complete; a transcription is not both open and
  ended and belongs to a known item; and outside the active phases nothing is open.\<close>

theorem live_ledgers_consistent:
  "let s = runs (live_step env) live_default ops in
     responses_ok (lt_active_responses s) (map_of (lt_response_creation_status s)) (map_of (lt_response_conversation_ids s))
       (map_of (lt_committed_by_response s)) \<and>
     items_ok (map_of (lt_response_creation_status s)) (map_of (lt_active_output_items s)) (map_of (lt_completed_output_items s))
       (lt_active_responses s) \<and>
     parts_ok (map_of (lt_active_output_items s)) (map_of (lt_active_content_parts s)) \<and>
     audio_ok (map_of (lt_active_content_parts s)) (lt_active_audio_streams s) (lt_completed_audio_streams s) \<and>
     asr_ok (lt_conversation_items s) (lt_active_transcriptions s) (lt_terminal_transcriptions s) \<and>
     phase_ok (lt_phase s) (lt_session_id s) (lt_expected_session_update s) (nothing_open s)"
  using live.inv_reachable [of env ops] by (simp add: live_ok_def Let_def)

text \<open>C38: The session refines the protocol of responses: a response is opened when it is not open, gets final texts while it is
  open, and closes once, with the status that the closing event itself carries: it is one of completed, failed and incomplete,
  it is reported as completed exactly when that status is completed, and then with its last final text; any other end
  reports no text.\<close>

theorem live_refines_response_protocol:
  "trace_of response_protocol Map.empty (snd (observe (live_observe env) live_default ops))
     (open_texts (runs (live_step env) live_default ops))"
proof -
  have "fst (observe (live_observe env) live_default ops) = runs (live_step env) live_default ops"
    by (simp add: fst_observe)
  with live_texts.run_refines [OF live_ok_default, of env ops] show ?thesis by (simp add: no_texts_default)
qed

text \<open>C40: When the end of the session is reported, no response, item, content, audio stream, transcription or speech is open, and
  nothing changes the state any more until the next reconnect.\<close>

theorem finished_session_is_final:
  assumes "s = runs (live_step env) live_default ops" "live_admit env a event s = Inr (m, t)" "lm_session_finished m"
    "LiveReset \<notin> set later"
  shows "nothing_open t \<and> runs (live_step env) t later = t"
proof -
  from finished_mutation [OF assms(2, 3)] have t: "lt_phase t = LiveFinished" .
  have "live_ok s" using assms(1) by (simp add: live.inv_reachable)
  then have "live_ok t" using assms(2) by (rule live_ok_admit)
  with t finished_runs [OF t assms(4)] show ?thesis by (simp add: live_ok_def phase_ok_def)
qed

section \<open>A sample session\<close>

definition live_sample_dialect :: ModelProtocolDialect where
  "live_sample_dialect = sample_dialect ''bailian-livetranslate-session-ws-v1'' 1 ''pcm16'' [''session.update'', ''session.finish'']
     [''session.created'', ''session.updated'', ''session.finished'']"

definition live_sample_profile :: ModelProtocolProfile where
  "live_sample_profile = sample_profile ''bailian-livetranslate-session-ws-v1'' ''desktop-livetranslate-session-v1'' ''native_translate''"

definition live_sample_env :: live_env where
  "live_sample_env = \<lparr>le_base64 = \<lambda>_. None, le_registry = sample_registry live_sample_dialect live_sample_profile, le_number = \<lambda>_. [], le_quote = Inr, le_sha256 = \<lambda>x. x\<rparr>"

definition live_sample_authority :: AuthorizedModelProtocolProfile where
  "live_sample_authority =
     sample_authorization live_sample_dialect live_sample_profile ''pcm16'' ''native_translate'' ''desktop-livetranslate-session-v1''"

definition live_sample_session :: "(string \<times> json) list" where
  "live_sample_session = [(''modalities'', JArray [json_str ''text'']), (''input_audio_format'', json_str ''pcm''),
     (''sample_rate'', JNumber (PosInt 16000)), (''turn_detection'', JNull),
     (''input_audio_transcription'', obj [(''model'', json_str ''qwen3-asr-flash-realtime''), (''language'', json_str ''en'')]),
     (''translation'', obj [(''language'', json_str ''zh'')])]"

definition live_identity :: "(string \<times> json) list" where
  "live_identity = [(''id'', json_str ''s1''), (''object'', json_str ''realtime.session''), (''model'', json_str ''model'')]"

definition live_event :: "string \<Rightarrow> string \<Rightarrow> (string \<times> json) list \<Rightarrow> json" where
  "live_event kind e fs = obj ([(''type'', json_str kind), (''event_id'', json_str e)] @ fs)"

definition live_sample_ops :: "live_op list" where
  "live_sample_ops =
     [LiveUpdate live_sample_authority (obj [(''type'', json_str ''session.update''), (''session'', obj live_sample_session)]),
      LiveFrame live_sample_authority (live_event ''session.created'' ''e1'' [(''session'', obj live_identity)]),
      LiveFrame live_sample_authority (live_event ''session.updated'' ''e2'' [(''session'', obj (live_identity @ live_sample_session))]),
      LiveFinish]"

lemma trim_str_id:
  assumes "s \<noteq> []" "\<not> is_whitespace (of_char (hd s))" "\<not> is_whitespace (of_char (last s))"
  shows "trim (str s) = str s"
proof -
  have "trim_start (str s) = str s" using assms(1, 2) by (cases s) (simp_all add: trim_start_def str_def)
  moreover have "trim_end (str s) = str s"
    using assms(1, 3) by (cases s rule: rev_cases) (simp_all add: trim_end_def str_def)
  ultimately show ?thesis by (simp add: trim_def)
qed

lemma str_Nil: "str s = [] \<longleftrightarrow> s = []"
  by (simp add: str_def)

lemmas live_eval = str_Nil obj_def json_str_def str_eq_iff trim_str trim_str_id is_whitespace_def reject_if_def ok_or_def is_some_and_def
  required_nonempty_string_def required_string_def nonblank_field_def json_at_def event_type_def get_object_def
  reject_unknown_fields_def require_non_empty_string_def

lemma live_sample_fields:
  "ap_adapter_id live_sample_authority = LIVETRANSLATE_ADAPTER_ID" "ap_wire_dialect live_sample_authority = LIVETRANSLATE_DIALECT_ID"
  "ap_wire_dialect_version live_sample_authority = 1" "ap_exact_model_id live_sample_authority = str ''model''"
  "event_allowlist ClientEvent live_sample_authority = map str [''session.update'', ''session.finish'']"
  "event_allowlist ServerEvent live_sample_authority = map str [''session.created'', ''session.updated'', ''session.finished'']"
  by (simp_all add: live_sample_authority_def sample_authorization_def issue_def live_sample_dialect_def sample_dialect_def
      sample_request_def event_allowlist_def LIVETRANSLATE_ADAPTER_ID_def LIVETRANSLATE_DIALECT_ID_def)

lemma live_sample_frames: "admitted_frame_kind live_sample_authority direction kind = event_frame direction live_sample_authority kind"
  by (simp add: admitted_frame_kind_def event_frame_def live_sample_authority_def sample_authorization_def issue_def
      live_sample_dialect_def sample_dialect_def str_eq_iff split: ModelProtocolEventDirection.split)

lemma live_sample_verdict:
  assumes "kind \<in> set (event_allowlist direction live_sample_authority)"
  shows "registry_verdict (le_registry live_sample_env) live_sample_authority direction kind
    (event_frame direction live_sample_authority kind) = None"
proof -
  have "authorize_model_protocol_invocation_with_binding (le_registry live_sample_env) (sample_request ''pcm16'' ''native_translate'') None =
      Inr live_sample_authority"
    unfolding live_sample_env_def live_env.select_convs live_sample_authority_def live_sample_dialect_def live_sample_profile_def
    by (rule sample_authorized) simp
  moreover have "\<forall>r. rg_registry (le_registry live_sample_env) = Some r \<longrightarrow> distinct (map mp_profile_id (mr_profiles r))"
    by (simp add: live_sample_env_def sample_registry_def)
  moreover have "requested_audio_expected live_sample_authority"
    by (simp add: requested_audio_expected_def live_sample_authority_def sample_authorization_def issue_def sample_request_def
        expected_adapter_audio_def str_eq_iff)
  ultimately show ?thesis using assms by (intro verdict_listed) auto
qed

lemma live_sample_admits [simp]:
  "admit_event_type live_sample_env live_sample_authority ClientEvent (str ''session.update'') = Inr ()"
  "admit_event_type live_sample_env live_sample_authority ServerEvent (str ''session.created'') = Inr ()"
  "admit_event_type live_sample_env live_sample_authority ServerEvent (str ''session.updated'') = Inr ()"
  "admit_event_type live_sample_env live_sample_authority ServerEvent (str ''session.finished'') = Inr ()"
  by (simp_all add: admit_event_type_def live_supported_authority_def live_sample_fields live_sample_frames live_sample_verdict reject_if_def)

lemma not_v2 [simp]: "\<not> is_v2 live_sample_authority"
  by (simp add: is_v2_def live_sample_fields LIVETRANSLATE_ADAPTER_ID_def str_eq_iff)

definition sample_started :: LiveTranslateServerState where
  "sample_started = live_default\<lparr>lt_expected_session_update := Some (obj live_sample_session), lt_phase := LiveFinishing,
     lt_session_id := Some (str ''s1''), lt_seen_event_ids := {str ''e2'', str ''e1''}\<rparr>"

lemma sample_client_event:
  "admit_livetranslate_client_event live_sample_env live_sample_authority
    (obj [(''type'', json_str ''session.update''), (''session'', obj live_sample_session)]) = Inr ()"
  by (simp add: live_sample_session_def admit_livetranslate_client_event_def validate_v1_session_update_def validate_modalities_def
      validate_turn_detection_def validate_input_transcription_def validate_translation_def validate_live_output_def
      validate_optional_event_id_def text_modality_def live_eval)

lemma sample_update_step:
  "live_step live_sample_env live_default (LiveUpdate live_sample_authority
      (obj [(''type'', json_str ''session.update''), (''session'', obj live_sample_session)])) =
    live_default\<lparr>lt_expected_session_update := Some (obj live_sample_session)\<rparr>"
  using sample_client_event by (simp add: live_record_session_update_def message_eval live_default_def kept_on_error_def)

lemma sample_session_identity:
  "validate_session_identity live_sample_authority (live_event kind e [(''session'', obj (live_identity @ fs))]) = Inr (str ''s1'')"
  by (simp add: validate_session_identity_def live_event_def live_identity_def live_sample_fields live_eval)

lemma collect_ok_all: "\<forall>r\<in>set rs. \<exists>y. r = Inr y \<Longrightarrow> \<exists>ys. collect_ok rs = Inr ys"
  by (induction rs) auto

lemma canonical_total:
  "(\<And>x. \<exists>y. le_quote env x = Inr y) \<Longrightarrow> \<exists>y. canonical env v = Inr y"
  "(\<And>x. \<exists>y. le_quote env x = Inr y) \<Longrightarrow> \<forall>(k, r)\<in>set (canonical_entries env fs). \<exists>y. r = Inr y"
  "(\<And>x. \<exists>y. le_quote env x = Inr y) \<Longrightarrow> \<forall>r\<in>set (canonical_values env vs). \<exists>y. r = Inr y"
proof (induction env v and env fs and env vs rule: canonical_canonical_entries_canonical_values.induct)
  case (1 env v)
  show ?case
  proof (cases v)
    case (JString x)
    from 1(3) obtain y where "le_quote env x = Inr y" by blast
    with JString show ?thesis by (simp add: canonical.simps canonical_error_def)
  next
    case (JArray xs)
    with 1 collect_ok_all [of "canonical_values env xs"] show ?thesis by (auto simp: canonical.simps)
  next
    case (JObject fs)
    let ?part = "\<lambda>(key, r). and_then (canonical_error (str ''canonical key: '') (le_quote env key)) (\<lambda>k. and_then r (\<lambda>x. Inr (k @ str '':'' @ x)))"
    have "\<exists>y. ?part p = Inr y" if "p \<in> set (canonical_entries env fs)" for p
    proof -
      from that 1(2) [OF JObject 1(3)] obtain k y where p: "p = (k, Inr y)" by (cases p) auto
      from 1(3) [of k] obtain z where "le_quote env k = Inr z" ..
      with p show ?thesis by (simp add: canonical_error_def)
    qed
    then show ?thesis using collect_ok_all [of "map ?part (sort_key fst (canonical_entries env fs))"] JObject
      by (auto simp: canonical.simps)
  qed (simp_all add: canonical.simps)
qed auto

lemma live_sample_evidence:
  "\<exists>v. updated_evidence live_sample_env (str ''s1'') (obj live_sample_session) (obj (live_identity @ live_sample_session)) = Inr v"
proof -
  have ok: "validate_json_echo_subset (obj live_sample_session) (obj (live_identity @ live_sample_session)) (str ''session'') = Inr ()"
    by (simp add: live_sample_session_def live_identity_def obj_def json_str_def str_eq_iff validate_json_echo_subset.simps may_be_absent_def)
  moreover from canonical_total(1) [of live_sample_env "obj live_sample_session"] obtain x
    where "canonical live_sample_env (obj live_sample_session) = Inr x" by (auto simp: live_sample_env_def)
  ultimately show ?thesis
    using echo_subset_projects(1) [of "obj live_sample_session" "obj (live_identity @ live_sample_session)" "str ''session''"]
    by (simp add: updated_evidence_def sha256_canonical_json_def reject_if_def)
qed

lemma sample_session_kind: "starts_with (str (''session.'' @ k)) (str ''session.'')"
  by (simp add: starts_with_def str_def)

lemma sample_fields:
  "kind \<in> {''session.created'', ''session.updated'', ''session.finished''} \<Longrightarrow> event_type (live_event kind e fs) = Inr (str kind)"
  "e \<in> {''e1'', ''e2'', ''e3''} \<Longrightarrow> required_nonempty_string (live_event kind e fs) (str ''event_id'') = Inr (str e)"
  by (auto simp: live_event_def live_eval)

lemma sample_admit:
  assumes "kind \<in> {''session.created'', ''session.updated'', ''session.finished''}" "e \<in> {''e1'', ''e2'', ''e3''}"
    "lt_phase s \<noteq> LiveFinished" "str e \<notin> lt_seen_event_ids s"
  shows "live_admit live_sample_env live_sample_authority (live_event kind e fs) s =
    admit_session_event live_sample_env live_sample_authority (str kind) (live_event kind e fs)
      (s\<lparr>lt_seen_event_ids := insert (str e) (lt_seen_event_ids s)\<rparr>)"
proof -
  from assms(1) obtain k where "kind = ''session.'' @ k" by auto
  with sample_session_kind [of k] have "starts_with (str kind) (str ''session.'')" by simp
  moreover have "admit_event_type live_sample_env live_sample_authority ServerEvent (str kind) = Inr ()" using assms(1) by auto
  ultimately show ?thesis
    using assms sample_fields(1) [OF assms(1), of e fs] sample_fields(2) [OF assms(2), of kind fs]
    by (simp add: live_admit_def reject_if_def Let_def)
qed

lemma sample_created_step:
  "live_step live_sample_env (live_default\<lparr>lt_expected_session_update := u\<rparr>)
     (LiveFrame live_sample_authority (live_event ''session.created'' ''e1'' [(''session'', obj live_identity)])) =
   live_default\<lparr>lt_expected_session_update := u, lt_phase := AwaitingSessionUpdated, lt_session_id := Some (str ''s1''),
     lt_seen_event_ids := {str ''e1''}\<rparr>"
  using sample_session_identity [of "''session.created''" "''e1''" "[]"]
  by (simp add: sample_admit admit_session_event_def session_created_def live_default_def kept_on_error_def reject_if_def)

lemma sample_updated_step:
  "live_step live_sample_env (live_default\<lparr>lt_expected_session_update := Some (obj live_sample_session), lt_phase := AwaitingSessionUpdated,
       lt_session_id := Some (str ''s1''), lt_seen_event_ids := {str ''e1''}\<rparr>)
     (LiveFrame live_sample_authority (live_event ''session.updated'' ''e2'' [(''session'', obj (live_identity @ live_sample_session))])) =
   live_default\<lparr>lt_expected_session_update := Some (obj live_sample_session), lt_phase := LiveActive, lt_session_id := Some (str ''s1''),
     lt_seen_event_ids := {str ''e2'', str ''e1''}\<rparr>"
proof -
  obtain v where "updated_evidence live_sample_env (str ''s1'') (obj live_sample_session) (obj (live_identity @ live_sample_session)) = Inr v"
    using live_sample_evidence by blast
  moreover have "json_get (str ''session'') (live_event ''session.updated'' ''e2'' [(''session'', x)]) = Some x" for x
    by (simp add: live_event_def message_eval)
  ultimately show ?thesis
    using sample_session_identity [of "''session.updated''" "''e2''" live_sample_session]
    by (simp add: sample_admit admit_session_event_def session_updated_def live_default_def kept_on_error_def reject_if_def ok_or_def
        str_eq_iff)
qed

lemma live_sample_run: "runs (live_step live_sample_env) live_default live_sample_ops = sample_started"
proof -
  have "live_step live_sample_env (live_default\<lparr>lt_expected_session_update := u, lt_phase := LiveActive, lt_session_id := i,
      lt_seen_event_ids := x\<rparr>) LiveFinish =
    live_default\<lparr>lt_expected_session_update := u, lt_phase := LiveFinishing, lt_session_id := i, lt_seen_event_ids := x\<rparr>" for u i x
    by (simp add: record_client_finish_def kept_on_error_def reject_if_def)
  then show ?thesis
    unfolding live_sample_ops_def
    by (simp add: sample_update_step sample_created_step sample_updated_step sample_started_def del: live_step.simps)
qed

lemma sample_finished:
  "\<exists>m t. live_admit live_sample_env live_sample_authority (live_event ''session.finished'' ''e3'' []) sample_started = Inr (m, t) \<and>
     lm_session_finished m"
  by (simp add: sample_admit sample_started_def admit_session_event_def live_session_finished_def nothing_open_def live_default_def
      reject_if_def str_eq_iff)

theorem finished_session_is_final_witness:
  "\<exists>m t. live_admit live_sample_env live_sample_authority (live_event ''session.finished'' ''e3'' [])
      (runs (live_step live_sample_env) live_default live_sample_ops) = Inr (m, t) \<and>
    lm_session_finished m \<and> nothing_open t \<and> runs (live_step live_sample_env) t [LiveFinish] = t"
proof -
  from sample_finished obtain m t where
    r: "live_admit live_sample_env live_sample_authority (live_event ''session.finished'' ''e3'' [])
      (runs (live_step live_sample_env) live_default live_sample_ops) = Inr (m, t)" and "lm_session_finished m"
    unfolding live_sample_run by blast
  with finished_session_is_final [OF refl r, of "[LiveFinish]"] show ?thesis by auto
qed

end
