(* ===== verification/Spec2Isabelle.thy ===== *)
theory Spec2Isabelle
  imports Response_Ledger Response_Lifecycle Playback_Ownership Subtitle_Worker Task_Session
    Playback_Quiescence Watch_Terminal Speaker_Playback Translated_Pcm Budget_Authority
    Glossary Playback_Queue Dialogue_Run Live_Properties
begin

text \<open>
  Omni Translate: a verification development for the Rust core of the desktop application.

  \<^bold>\<open>The program.\<close> Omni Translate captures audio of a Windows machine, sends it to a speech or
  translation provider over a WebSocket, shows the transcript and its translation as subtitles, and
  plays the translated speech. The desktop shell (\<open>apps/desktop/src-tauri/src\<close>) holds the logic; a
  native bridge service owns devices and talks to the shell over pipes
  (\<open>crates/omni-bridge-protocol\<close>); a React front end shows the state. Paths below are under
  \<open>apps/desktop/src-tauri/src/audio\<close> unless they start with \<open>crates\<close>.

  \<^bold>\<open>Theories and sources.\<close>
  \<^item> \<open>Omni_Prelude\<close>, \<open>Byte_Strings\<close>: what the sources use of the Rust standard library (text as code
    points, byte offsets that panic inside a character, saturating and checked arithmetic, deques, hash
    and ordered maps), and three locales: \<open>invariant_system\<close> and \<open>monotone_system\<close> (an invariant and a
    monotone quantity along every sequence of operations), \<open>simulation\<close> (a component refines an
    abstract protocol). Each is interpreted on the definitions of the components below.
  \<^item> \<open>Response_Ledger\<close> (\<open>omni/response_ledger.rs\<close>): which input item, translation item and cue a
    provider response belongs to. One record per lineage, one definition per method; \<open>bind_response\<close> is
    split into lookup, conflict check, materialisation and filling as the source does it. Invariant of
    every run, exact binding, no rebinding, eviction order, isolation of sessions.
  \<^item> \<open>Response_Lifecycle\<close> (\<open>omni/response_lifecycle.rs\<close>): the stall detector. When an action is due, that
    a cancellation is asked for once, and that a reconnect follows.
  \<^item> \<open>Playback_Ownership\<close> (\<open>playback_ownership.rs\<close>): the barrier between desktop playback and process
    exclusion. Steps of threads under one mutex, in every interleaving; blocking waits are lists of
    wake-ups.
  \<^item> \<open>Playback_Quiescence\<close> (\<open>state/playback_quiescence.rs\<close>): what still has to be played, and the restart
    barrier. The guards that threads hold are part of the system state. Exclusion under the barrier,
    survival of owned cues, independence of the report from the order of the hash map.
  \<^item> \<open>Watch_Terminal\<close> (\<open>state/watch_terminal_lifecycle.rs\<close> and its two submodules): the evidence ledger of
    a strict Watch run. Its provider boundary refines a small protocol, and a successful terminal
    snapshot implies the order of that boundary and, under the open-input policy, that nothing was
    pending and nothing happened after the approval.
  \<^item> \<open>Translation_Scheduler\<close> (\<open>translation_scheduler.rs\<close>): retry policy, ranks, keys, queue, dispatch and
    eviction. Queue invariant, no loss of final jobs, work conservation, urgency order.
  \<^item> \<open>Subtitle_Chunks\<close>, \<open>Sentence_Splitter\<close> (\<open>sentence.rs\<close>): cutting captions without losing text, and the
    streaming splitter that decides when recognised text is stable enough to translate.
  \<^item> \<open>Cue_Ledger\<close>, \<open>Subtitle_Worker\<close> (\<open>subtitle_translate.rs\<close>, \<open>subtitle_translate/scheduler.rs\<close>,
    \<open>subtitle_translate/worker.rs\<close>): the display slots of a cue, the handlers of provider results, and one
    pass of the worker loop. They use the splitter and the scheduler; the properties show that a slot
    never goes back to an older or weaker translation and that the bounds hold over all runs.
  \<^item> \<open>Bridge_Protocol\<close> (\<open>crates/omni-bridge-protocol/src/lib.rs\<close>): names, frame headers, acknowledgements
    and the PCM codec with its round trip. Samples and bytes are words.
  \<^item> \<open>Task_Lifecycle\<close> (\<open>bailian_tasks/lifecycle.rs\<close>): the ledger of one recognition or synthesis task,
    refined against an abstract protocol given as an inductive relation.
  \<^item> \<open>Task_Session\<close> (\<open>bailian_tasks/worker.rs\<close>): deadlines, admission, polling and the synthesis of a
    text on top of that ledger and the PCM codec.
  \<^item> \<open>Effects\<close>: calls of the operating system as scripts of answers, with the locale \<open>effect_relation\<close> that
    lifts a relation kept by every call to a whole routine.
  \<^item> \<open>Speaker_Render\<close>, \<open>Speaker_Playback\<close> (\<open>speech/render_submit_tracker.rs\<close>, \<open>speech/output.rs\<close> and its
    \<open>support.rs\<close>): one utterance on a WASAPI endpoint, the retained frames and what is published to the
    echo canceller. Locales \<open>render_relation\<close> and \<open>render_assertion\<close> carry relations over the loop.
  \<^item> \<open>Translated_Pcm\<close> (\<open>omni/translated_pcm_authority.rs\<close>): evidence files of translated audio; every file
    operation may fail, and the sealed evidence stays well-formed and is only appended to.
  \<^item> \<open>Threads\<close>: programs as trees of atomic steps and schedules that interleave them, with a token logic
    for locks (locale \<open>thread_system\<close>).
  \<^item> \<open>Provider_Budget\<close> (\<open>omni/provider_input_budget.rs\<close>): the lease on audio samples that may be sent to a paid
    provider, its journal and connection checks, under every interleaving of the methods' atomic steps.
  \<^item> \<open>Budget_Authority\<close> (\<open>provider_input_budget/environment.rs\<close>, \<open>strict_media_end_authority.rs\<close>): which
    environments open a budget, and with which ceiling and provider.
  \<^item> \<open>Glossary\<close> (\<open>glossary.rs\<close>): configuration, prompt, matching on byte offsets and enforcement of terms.

  \<^item> \<open>Timeline_Evidence\<close> (\<open>omni/protocol/desktop_timeline_evidence.rs\<close>): the timeline file of a desktop run and
    what a successful seal of it implies.
  \<^item> \<open>Playback_Queue\<close> (the playback queue of \<open>omni/protocol.rs\<close>): producers, the device worker and the restart
    barrier of \<open>Playback_Quiescence\<close> as threads; order of the accepted audio, and agreement of queue and ledger
    while no other queue publishes into the ledger, which the application shares.
  \<^item> \<open>Json\<close>, \<open>Messages\<close>, \<open>Model_Protocol\<close>: JSON values with the accessors of \<open>serde_json\<close>, messages with literal
    keys, and the registry, the authorized profile and the results that the provider protocols share.
  \<^item> \<open>Model_Authorization\<close> (\<open>provider/model_protocol_profile.rs\<close> and \<open>bindings.rs\<close> beside \<open>audio\<close>): which invocations the
    registry authorizes and which events an authorization admits. Speech tasks, dialogues and LiveTranslate sessions
    admit their events through it; an issued authorization admits exactly the events it lists.
  \<^item> \<open>Dialogue_Schema\<close>, \<open>Dialogue\<close>, \<open>Dialogue_Invariant\<close>, \<open>Dialogue_Session\<close>, \<open>Dialogue_Run\<close> (\<open>bailian_dialogue.rs\<close>): the
    message schemas, the server state with one definition per event, the invariant that every event keeps
    (locale \<open>kept_by_events\<close>), the start of a session, and the properties of all runs: one owner per
    identifier, abandoned inputs, replays. The source unwraps the expected session when an active session
    is updated; \<open>Dialogue_Session\<close> shows that it is present, the model reads null otherwise.
  \<^item> \<open>Live_Schema\<close>, \<open>Live_Translate\<close>, \<open>Live_Run\<close>, \<open>Live_Properties\<close> (\<open>bailian_protocol/\<close>): the same for LiveTranslate sessions in both
    dialects. The ledgers of responses, items, parts and streams nest along every run, the texts of
    responses refine a small protocol, and the end of a session is final.

  \<^bold>\<open>Conventions.\<close> A method that mutates \<open>self\<close> takes and returns the record; a \<open>Result\<close> is a sum with the
  error on the left; a panic, and a loop whose script of inputs ends before it does, is an absent
  value. A \<open>u64\<close> that only counts is a \<open>nat\<close> with the saturating or checked operation of the source
  written out; widths that matter are words. Instants and durations are nanoseconds, and each call
  receives the time it reads. Critical sections of a mutex are atomic steps. No definition uses fuel:
  loops are structural or have a termination proof.

  \<^bold>\<open>Parameters.\<close> Grapheme segmentation, Unicode case and letter tables, language detection, the JSON and
  UUID decoders, the text of third-party errors, and the answers of
  the state store, Base64, SHA-256 and other hash functions, the rendering of JSON scalars, the URL parser,
  the content of the model protocol registry and the list of built-in models are arguments; every theorem holds for all of them unless
  it names a hypothesis.
  The \<open>f64\<close> moving average of the splitter is a rational number.

  \<^bold>\<open>What was found.\<close> Two slices in \<open>sentence.rs\<close> can panic on text a recogniser may send; both are proved
  to be reachable in \<open>Sentence_Splitter\<close>. The check that a paid session connects once reads and increments its
  counter in two steps, so two overlapping calls both pass (\<open>single_session_connect_race\<close> in \<open>Provider_Budget\<close>).
  Two playback queues that share the quiescence ledger overwrite each other's load, so a restart can be granted
  over queued audio (\<open>second_queue_hides_load\<close> in \<open>Playback_Queue\<close>).
  The manifest names these places and those where a comment of the playback queue and the code differ.

  \<^bold>\<open>Not modelled.\<close> The front end, build and release scripts, the C++ driver, device and WASAPI code, the
  HTTP and WebSocket transports, SQLite storage, logging, benchmarks, diagnostics evidence and the
  provider adapters: they are input and output around the logic, or generated. The manifest lists them.

  \<^bold>\<open>Remaining.\<close> Of the logic itself, the attribution of native responses to inputs in \<open>omni/protocol.rs\<close>, the
  recogniser loop of \<open>bailian_tasks/asr.rs\<close>, the speech planner, endpoint recovery and the retries of the
  capture engine are not modelled yet.
\<close>

end
